(* ===== verification/Prelude.thy ===== *)
theory Prelude
  imports Main "HOL-Library.Word" "HOL-Library.Multiset" "HOL-Library.Sublist"
begin

text \<open>
  The prelude of the development: machine integers, DDS return codes, C strings, and the parts of
  the RTI Connext DDS library the gateway calls.

  The DDS library is not part of the repository.  Its sequence type (\<^verbatim>\<open>DDS_SEQUENCE\<close>,
  \<^verbatim>\<open>dds_c_sequence_TSeq.gen\<close>) and its \<^verbatim>\<open>DDS_DynamicData\<close> type are therefore parameters:
  a record of functions, an argument of every definition that calls them.  What the gateway relies
  on is stated by the predicates \<open>seq_laws\<close>, \<open>seq_total\<close> and \<open>dyn_laws\<close>, which are hypotheses of
  the theorems that need them.  Each has a concrete instance (\<open>std_seq\<close>, \<open>std_dyn\<close>) so that the
  hypotheses are known to be satisfiable; the instances occur in witnesses only.
\<close>

section \<open>Machine integers and return codes\<close>

named_theorems word_nat \<open>moving arithmetic on 32-bit words to the natural numbers\<close>
named_theorems retcode_simps \<open>evaluation of calls that cannot fail\<close>

text \<open>\<^verbatim>\<open>DDS_UnsignedLong\<close> and \<^verbatim>\<open>DDS_Long\<close>; \<open>sint\<close> reads the latter.\<close>

type_synonym u32 = "32 word"
type_synonym i32 = "32 word"
type_synonym octet = "8 word"

datatype retcode =
    DDS_RETCODE_OK
  | DDS_RETCODE_ERROR
  | DDS_RETCODE_TIMEOUT
  | DDS_RETCODE_OTHER nat

lemma unat_u32_less: "unat (w :: u32) < 4294967296"
  using unsigned_less [of w] by simp

lemma unat_mod_u32 [word_nat]: "unat ((a :: u32) mod b) = unat a mod unat b"
  by (rule unat_mod)

lemma unat_add_u32 [word_nat]:
  "unat (a :: u32) + unat b < 4294967296 \<Longrightarrow> unat (a + b) = unat a + unat b"
  by (simp add: unat_word_ariths)

lemma unat_sub_u32 [word_nat]:
  "unat (b :: u32) \<le> unat a \<Longrightarrow> unat (a - b) = unat a - unat b"
  by (simp add: unat_sub word_le_nat_alt)

lemma unat_inc_u32 [word_nat]:
  "(i :: u32) < n \<Longrightarrow> unat (i + 1) = Suc (unat i)"
proof -
  assume "i < n"
  then have "unat i < unat n" by (simp add: word_less_nat_alt)
  then have "unat i + unat (1 :: u32) < 4294967296"
    using unat_u32_less [of n] by simp
  then show ?thesis by (simp add: unat_add_u32)
qed

lemma unat_of_nat_u32 [word_nat]:
  "n < 4294967296 \<Longrightarrow> unat (of_nat n :: u32) = n"
  by (simp add: unat_of_nat)

lemma sint_u32:
  "sint (w :: u32) = (if unat w < 2147483648 then int (unat w) else int (unat w) - 4294967296)"
proof -
  define n where "n = int (unat w)"
  have n: "0 \<le> n" "n < 4294967296"
    using unat_u32_less [of w] unfolding n_def by linarith+
  have s: "sint w = (n + 2147483648) mod 4294967296 - 2147483648"
    unfolding n_def by (simp add: sint_uint signed_take_bit_eq_take_bit_shift take_bit_eq_mod)
  have "(n + 2147483648) mod 4294967296 = (n - 2147483648) mod 4294967296"
    using minus_mod_self2 [of "n + 2147483648" 4294967296] by simp
  with s n have "sint w = (if n < 2147483648 then n else n - 4294967296)"
    by (cases "n < 2147483648") simp_all
  moreover have "n < 2147483648 \<longleftrightarrow> unat w < 2147483648"
    unfolding n_def by linarith
  ultimately show ?thesis by (simp only: n_def)
qed

section \<open>Chains of calls with an error exit\<close>

text \<open>
  The shape of many functions of the gateway: calls in a row, each followed by
  \<^verbatim>\<open>if (... != DDS_RETCODE_OK) goto done\<close>.  The object keeps what the calls before the failing
  one did to it.
\<close>

fun run_steps :: "('a \<Rightarrow> 'a option) list \<Rightarrow> 'a \<Rightarrow> retcode \<times> 'a" where
  "run_steps [] x = (DDS_RETCODE_OK, x)"
| "run_steps (f # fs) x =
     (case f x of None \<Rightarrow> (DDS_RETCODE_ERROR, x) | Some y \<Rightarrow> run_steps fs y)"

lemma run_steps_OK_Cons:
  "run_steps (f # fs) x = (DDS_RETCODE_OK, z) \<longleftrightarrow>
     (\<exists>y. f x = Some y \<and> run_steps fs y = (DDS_RETCODE_OK, z))"
  by (auto split: option.splits)

lemma run_steps_append:
  "run_steps (fs @ gs) x =
     (case run_steps fs x of (rc, y) \<Rightarrow> if rc = DDS_RETCODE_OK then run_steps gs y else (rc, y))"
  by (induction fs arbitrary: x) (auto split: option.splits)

lemma run_steps_retcode: "fst (run_steps fs x) = DDS_RETCODE_OK \<or> fst (run_steps fs x) = DDS_RETCODE_ERROR"
  by (induction fs arbitrary: x) (auto split: option.splits)

section \<open>C strings\<close>

text \<open>
  A C string is a list of characters without the terminating NUL.  \<open>cstr_at s i\<close> is the read
  \<^verbatim>\<open>s[i]\<close>: the terminator is readable at index \<^verbatim>\<open>strlen(s)\<close>, and \<open>None\<close> is a read
  beyond it, which the C standard leaves undefined.
\<close>

definition NUL :: char where
  "NUL = CHR 0x00"

definition cstring :: "string \<Rightarrow> bool" where
  "cstring s \<longleftrightarrow> NUL \<notin> set s"

definition cstr_at :: "string \<Rightarrow> nat \<Rightarrow> char option" where
  "cstr_at s i = (if i < length s then Some (s ! i) else if i = length s then Some NUL else None)"

lemma cstr_at_less [simp]: "i < length s \<Longrightarrow> cstr_at s i = Some (s ! i)"
  by (simp add: cstr_at_def)

lemma cstr_at_length [simp]: "cstr_at s (length s) = Some NUL"
  by (simp add: cstr_at_def)

lemma cstring_nth [simp]: "cstring s \<Longrightarrow> i < length s \<Longrightarrow> s ! i \<noteq> NUL"
  by (metis cstring_def nth_mem)

section \<open>DDS sequences\<close>

text \<open>
  A DDS sequence holds elements up to its length, a maximum, and whether its buffer is on loan.
  The operations return \<open>None\<close> where the library returns \<^verbatim>\<open>RTI_FALSE\<close>.
\<close>

record 'a dds_seq =
  seq_buf :: "'a list"
  seq_max :: nat
  seq_loaned :: bool

record 'a seq_api =
  seq_set_length :: "u32 \<Rightarrow> 'a dds_seq \<Rightarrow> 'a dds_seq option"
  seq_set_maximum :: "u32 \<Rightarrow> 'a dds_seq \<Rightarrow> 'a dds_seq option"
  seq_ensure_length :: "u32 \<Rightarrow> u32 \<Rightarrow> 'a dds_seq \<Rightarrow> 'a dds_seq option"
  seq_loan :: "'a list \<Rightarrow> u32 \<Rightarrow> u32 \<Rightarrow> 'a dds_seq \<Rightarrow> 'a dds_seq option"
  seq_unloan :: "'a dds_seq \<Rightarrow> 'a dds_seq option"

text \<open>\<^verbatim>\<open>DDS_SEQUENCE_INITIALIZER\<close>.\<close>

definition seq_empty :: "'a dds_seq" where
  "seq_empty = \<lparr>seq_buf = [], seq_max = 0, seq_loaned = False\<rparr>"

lemma seq_empty_owned [simp]: "\<not> seq_loaned seq_empty"
  by (simp add: seq_empty_def)

text \<open>
  \<open>seq_resized n s s'\<close>: the length is now \<open>n\<close> and the elements that were within both lengths are
  kept; nothing is said of elements that come into range.
\<close>

definition seq_resized :: "nat \<Rightarrow> 'a dds_seq \<Rightarrow> 'a dds_seq \<Rightarrow> bool" where
  "seq_resized n s s' \<longleftrightarrow>
     length (seq_buf s') = n \<and>
     (\<forall>i < min n (length (seq_buf s)). seq_buf s' ! i = seq_buf s ! i) \<and>
     seq_loaned s' = seq_loaned s"

text \<open>
  What the documentation of the sequence API promises of a call that succeeds.  Setting a length
  above the maximum may raise it or be refused.  Lengths and
  maxima are of type \<^verbatim>\<open>DDS_Long\<close> in the library, so none reaches \<open>2 ^ 31\<close>.
\<close>

definition seq_laws :: "'a seq_api \<Rightarrow> bool" where
  "seq_laws a \<longleftrightarrow>
     (\<forall>n s s'. seq_set_length a n s = Some s' \<longrightarrow>
        seq_resized (unat n) s s' \<and> unat n \<le> seq_max s' \<and>
        (unat n \<le> seq_max s \<longrightarrow> seq_max s' = seq_max s)) \<and>
     (\<forall>n s s'. seq_set_maximum a n s = Some s' \<longrightarrow>
        seq_resized (min (unat n) (length (seq_buf s))) s s' \<and>
        seq_max s' = unat n \<and> unat n < 2147483648) \<and>
     (\<forall>n m s s'. seq_ensure_length a n m s = Some s' \<longrightarrow>
        seq_resized (unat n) s s' \<and> unat n < 2147483648 \<and> unat n \<le> seq_max s') \<and>
     (\<forall>xs n m s s'. seq_loan a xs n m s = Some s' \<longrightarrow>
        seq_buf s' = take (unat n) xs \<and> seq_max s' = unat m \<and> seq_loaned s') \<and>
     (\<forall>s s'. seq_unloan a s = Some s' \<longrightarrow> seq_loaned s \<and> s' = seq_empty)"

text \<open>
  And when a call succeeds: a length within the maximum can always be set on a sequence, a sequence
  that owns its buffer grows while there is memory (nothing is said of one whose buffer is on loan,
  which the library refuses to resize), a sequence without a buffer of its own accepts a loan, and
  a loaned one can be unloaned.
\<close>

definition seq_total :: "'a seq_api \<Rightarrow> bool" where
  "seq_total a \<longleftrightarrow>
     (\<forall>n s. unat n \<le> seq_max s \<longrightarrow> seq_set_length a n s \<noteq> None) \<and>
     (\<forall>n s. \<not> seq_loaned s \<longrightarrow> unat n < 2147483648 \<longrightarrow> seq_set_maximum a n s \<noteq> None) \<and>
     (\<forall>n m s. \<not> seq_loaned s \<longrightarrow> unat n < 2147483648 \<longrightarrow> unat n \<le> unat m \<longrightarrow>
        seq_ensure_length a n m s \<noteq> None) \<and>
     (\<forall>xs n m s. seq_max s = 0 \<longrightarrow> \<not> seq_loaned s \<longrightarrow> unat n \<le> unat m \<longrightarrow>
        seq_loan a xs n m s \<noteq> None) \<and>
     (\<forall>s. seq_loaned s \<longrightarrow> seq_unloan a s \<noteq> None)"

lemma seq_set_lengthD:
  assumes "seq_laws a" and "seq_set_length a n s = Some s'"
  shows "length (seq_buf s') = unat n" and "unat n \<le> seq_max s \<Longrightarrow> seq_max s' = seq_max s"
    and "unat n \<le> seq_max s'" and "seq_loaned s' = seq_loaned s"
    and "unat n \<le> length (seq_buf s) \<Longrightarrow> seq_buf s' = take (unat n) (seq_buf s)"
proof -
  have r: "seq_resized (unat n) s s'" "unat n \<le> seq_max s \<longrightarrow> seq_max s' = seq_max s" "unat n \<le> seq_max s'"
    using assms by (auto simp: seq_laws_def)
  show "length (seq_buf s') = unat n" and "unat n \<le> seq_max s \<Longrightarrow> seq_max s' = seq_max s"
    and "unat n \<le> seq_max s'" and "seq_loaned s' = seq_loaned s"
    using r by (auto simp: seq_resized_def)
  assume "unat n \<le> length (seq_buf s)"
  with r(1) show "seq_buf s' = take (unat n) (seq_buf s)"
    by (intro nth_equalityI) (auto simp: seq_resized_def)
qed

lemma seq_ensure_lengthD:
  assumes "seq_laws a" and "seq_ensure_length a n m s = Some s'"
  shows "length (seq_buf s') = unat n" and "unat n < 2147483648"
    and "seq_loaned s' = seq_loaned s" and "unat n \<le> seq_max s'"
    and "length (seq_buf s) \<le> unat n \<Longrightarrow> take (length (seq_buf s)) (seq_buf s') = seq_buf s"
proof -
  have r: "seq_resized (unat n) s s'" "unat n < 2147483648" "unat n \<le> seq_max s'"
    using assms by (auto simp: seq_laws_def)
  show "length (seq_buf s') = unat n" and "unat n < 2147483648"
    and "seq_loaned s' = seq_loaned s" and "unat n \<le> seq_max s'"
    using r by (auto simp: seq_resized_def)
  assume "length (seq_buf s) \<le> unat n"
  with r(1) show "take (length (seq_buf s)) (seq_buf s') = seq_buf s"
    by (intro nth_equalityI) (auto simp: seq_resized_def)
qed

text \<open>A sequence that owns its buffer can be grown to any length of the type.\<close>

lemma seq_grow:
  assumes "seq_total a" "\<not> seq_loaned s" "n < 2147483648"
  obtains s' where "seq_ensure_length a (of_nat n) (of_nat n) s = Some s'" "unat (of_nat n :: u32) = n"
proof -
  have u: "unat (of_nat n :: u32) = n" using assms(3) by (intro unat_of_nat_u32) simp
  with assms have "seq_ensure_length a (of_nat n) (of_nat n) s \<noteq> None"
    by (simp only: seq_total_def) simp
  with that u show thesis by auto
qed

text \<open>
  The gateway's way to add an element: grow by one, then assign through the reference to the
  last element.
\<close>

lemma seq_append_one:
  assumes "seq_laws a" and "seq_ensure_length a n m s = Some s'"
    and "unat n = Suc (length (seq_buf s))"
  shows "(seq_buf s')[length (seq_buf s) := x] = seq_buf s @ [x]"
proof -
  let ?k = "length (seq_buf s)"
  have len: "length (seq_buf s') = Suc ?k" and tk: "take ?k (seq_buf s') = seq_buf s"
    using seq_ensure_lengthD [OF assms(1,2)] assms(3) by simp_all
  have "(seq_buf s')[?k := x] = take ?k (seq_buf s') @ x # drop (Suc ?k) (seq_buf s')"
    using len by (intro upd_conv_take_nth_drop) simp
  then show ?thesis using len tk by simp
qed

text \<open>A concrete sequence implementation, for witnesses.\<close>

definition std_resize :: "'a \<Rightarrow> nat \<Rightarrow> 'a list \<Rightarrow> 'a list" where
  "std_resize x n xs = take n xs @ replicate (n - length xs) x"

definition std_seq :: "'a \<Rightarrow> 'a seq_api" where
  "std_seq x =
     \<lparr>seq_set_length = (\<lambda>n s. if unat n \<le> seq_max s
        then Some (s\<lparr>seq_buf := std_resize x (unat n) (seq_buf s)\<rparr>) else None),
      seq_set_maximum = (\<lambda>n s. if \<not> seq_loaned s \<and> unat n < 2147483648
        then Some (s\<lparr>seq_buf := take (unat n) (seq_buf s), seq_max := unat n\<rparr>) else None),
      seq_ensure_length = (\<lambda>n m s. if \<not> seq_loaned s \<and> unat n < 2147483648
        then Some (s\<lparr>seq_buf := std_resize x (unat n) (seq_buf s), seq_max := max (unat n) (max (seq_max s) (unat m))\<rparr>)
        else None),
      seq_loan = (\<lambda>xs n m s. if seq_max s = 0 \<and> \<not> seq_loaned s
        then Some \<lparr>seq_buf = take (unat n) xs, seq_max = unat m, seq_loaned = True\<rparr> else None),
      seq_unloan = (\<lambda>s. if seq_loaned s then Some seq_empty else None)\<rparr>"

lemma length_std_resize [simp]: "length (std_resize x n xs) = n"
  by (simp add: std_resize_def)

lemma nth_std_resize [simp]:
  "i < n \<Longrightarrow> i < length xs \<Longrightarrow> std_resize x n xs ! i = xs ! i"
  by (simp add: std_resize_def nth_append)

lemma seq_laws_std_seq [simp]: "seq_laws (std_seq x)"
  by (auto simp: seq_laws_def std_seq_def seq_resized_def split: if_splits)

lemma seq_total_std_seq [simp]: "seq_total (std_seq x)"
  by (auto simp: seq_total_def std_seq_def)

section \<open>DDS dynamic data\<close>

text \<open>
  A \<^verbatim>\<open>DDS_DynamicData\<close> sample of type \<open>'d\<close> is accessed by member name.  A setter or getter
  returns \<open>None\<close> where the library does not return \<^verbatim>\<open>DDS_RETCODE_OK\<close>.
\<close>

record 'd dyn_api =
  dyn_set_string :: "string \<Rightarrow> string \<Rightarrow> 'd \<Rightarrow> 'd option"
  dyn_set_long :: "string \<Rightarrow> i32 \<Rightarrow> 'd \<Rightarrow> 'd option"
  dyn_set_boolean :: "string \<Rightarrow> bool \<Rightarrow> 'd \<Rightarrow> 'd option"
  dyn_set_octet_seq :: "string \<Rightarrow> octet list \<Rightarrow> 'd \<Rightarrow> 'd option"
  dyn_get_string :: "string \<Rightarrow> 'd \<Rightarrow> string option"
  dyn_get_long :: "string \<Rightarrow> 'd \<Rightarrow> i32 option"
  dyn_get_boolean :: "string \<Rightarrow> 'd \<Rightarrow> bool option"
  dyn_get_octet_seq :: "string \<Rightarrow> 'd \<Rightarrow> octet list option"
  dyn_member_exists :: "string \<Rightarrow> 'd \<Rightarrow> bool"

definition dyn_same_except :: "'d dyn_api \<Rightarrow> string \<Rightarrow> 'd \<Rightarrow> 'd \<Rightarrow> bool" where
  "dyn_same_except a m d d' \<longleftrightarrow>
     (\<forall>m'. m' \<noteq> m \<longrightarrow>
        dyn_get_string a m' d' = dyn_get_string a m' d \<and>
        dyn_get_long a m' d' = dyn_get_long a m' d \<and>
        dyn_get_boolean a m' d' = dyn_get_boolean a m' d \<and>
        dyn_get_octet_seq a m' d' = dyn_get_octet_seq a m' d)"

text \<open>Reading a member gives the value last set, and setting a member leaves the others.\<close>

definition dyn_laws :: "'d dyn_api \<Rightarrow> bool" where
  "dyn_laws a \<longleftrightarrow>
     (\<forall>m v d d'. dyn_set_string a m v d = Some d' \<longrightarrow>
        dyn_get_string a m d' = Some v \<and> dyn_same_except a m d d') \<and>
     (\<forall>m v d d'. dyn_set_long a m v d = Some d' \<longrightarrow>
        dyn_get_long a m d' = Some v \<and> dyn_same_except a m d d') \<and>
     (\<forall>m v d d'. dyn_set_boolean a m v d = Some d' \<longrightarrow>
        dyn_get_boolean a m d' = Some v \<and> dyn_same_except a m d d') \<and>
     (\<forall>m v d d'. dyn_set_octet_seq a m v d = Some d' \<longrightarrow>
        dyn_get_octet_seq a m d' = Some v \<and> dyn_same_except a m d d')"

text \<open>A concrete sample, for witnesses: a map from member names to values.\<close>

datatype dyn_value = DString string | DLong i32 | DBoolean bool | DOctets "octet list"

type_synonym std_sample = "string \<Rightarrow> dyn_value option"

definition std_dyn :: "std_sample dyn_api" where
  "std_dyn =
     \<lparr>dyn_set_string = (\<lambda>m v d. Some (d(m \<mapsto> DString v))),
      dyn_set_long = (\<lambda>m v d. Some (d(m \<mapsto> DLong v))),
      dyn_set_boolean = (\<lambda>m v d. Some (d(m \<mapsto> DBoolean v))),
      dyn_set_octet_seq = (\<lambda>m v d. Some (d(m \<mapsto> DOctets v))),
      dyn_get_string = (\<lambda>m d. case d m of Some (DString v) \<Rightarrow> Some v | _ \<Rightarrow> None),
      dyn_get_long = (\<lambda>m d. case d m of Some (DLong v) \<Rightarrow> Some v | _ \<Rightarrow> None),
      dyn_get_boolean = (\<lambda>m d. case d m of Some (DBoolean v) \<Rightarrow> Some v | _ \<Rightarrow> None),
      dyn_get_octet_seq = (\<lambda>m d. case d m of Some (DOctets v) \<Rightarrow> Some v | _ \<Rightarrow> None),
      dyn_member_exists = (\<lambda>m d. \<exists>k \<in> {m, m @ ''.id''}. d k \<noteq> None)\<rparr>"

lemma dyn_laws_std_dyn [simp]: "dyn_laws std_dyn"
  by (simp add: dyn_laws_def std_dyn_def dyn_same_except_def)

end
