(* ===== verification/Infrastructure.thy ===== *)
theory Infrastructure
  imports Prelude
begin

text \<open>
  The MQTT library's infrastructure, \<^verbatim>\<open>plugins/adapters/mqtt/srcC/mqtt/Infrastructure.c\<close>:
  time values, QoS levels, the copy of an octet sequence into a C string, the creation of
  configuration objects, and the topic filter matcher \<open>RTI_MQTT_TopicFilter_match\<close>.

  The matcher is modelled with the indices, flags and character reads of the C loop
  (\<open>tf_loop\<close>); \<open>tf_spec\<close> is a reference matcher on the unread suffixes of the two strings, and
  \<open>mqtt_match\<close> is the matching relation of the MQTT standard on topic levels.  The lemmas show that
  the loop is equivalent to the reference matcher and never reads outside its strings, and how
  the result compares with the standard.
\<close>

section \<open>Time\<close>

record mqtt_time =
  seconds :: i32
  nanoseconds :: u32

definition RTI_MQTT_Time_ZERO :: mqtt_time where
  "RTI_MQTT_Time_ZERO = \<lparr>seconds = 0, nanoseconds = 0\<rparr>"

definition RTI_MQTT_Time_INFINITE :: mqtt_time where
  "RTI_MQTT_Time_INFINITE = \<lparr>seconds = -1, nanoseconds = 0\<rparr>"

definition INT_MAX :: u32 where
  "INT_MAX = 2147483647"

text \<open>
  All arithmetic of the overflow test is unsigned: \<^verbatim>\<open>INT_MAX - ns\<close> converts to
  \<^verbatim>\<open>unsigned\<close> because \<^verbatim>\<open>ns\<close> is, and the seconds are cast.
\<close>

definition RTI_MQTT_Time_normalize :: "mqtt_time \<Rightarrow> retcode \<times> mqtt_time" where
  "RTI_MQTT_Time_normalize self =
     (let ns = nanoseconds self div 1000000000 in
      if ns > 0 then
        if INT_MAX - ns > seconds self then (DDS_RETCODE_ERROR, self)
        else (DDS_RETCODE_OK,
              self\<lparr>seconds := seconds self + ns,
                   nanoseconds := nanoseconds self - ns * 1000000000\<rparr>)
      else (DDS_RETCODE_OK, self))"

definition RTI_MQTT_Time_to_seconds :: "mqtt_time \<Rightarrow> retcode \<times> i32 option" where
  "RTI_MQTT_Time_to_seconds self =
     (case RTI_MQTT_Time_normalize self of
        (rc, self_norm) \<Rightarrow>
          if rc \<noteq> DDS_RETCODE_OK then (DDS_RETCODE_ERROR, None)
          else (DDS_RETCODE_OK, Some (seconds self_norm)))"

text \<open>\<^verbatim>\<open>DDS_Time_t\<close> and \<^verbatim>\<open>DDS_Duration_t\<close>: a pair of seconds and nanoseconds.\<close>

definition RTI_MQTT_Time_to_dds_time :: "mqtt_time \<Rightarrow> retcode \<times> i32 \<times> u32" where
  "RTI_MQTT_Time_to_dds_time self = (DDS_RETCODE_OK, seconds self, nanoseconds self)"

definition RTI_MQTT_Time_to_dds_duration :: "mqtt_time \<Rightarrow> retcode \<times> i32 \<times> u32" where
  "RTI_MQTT_Time_to_dds_duration self = (DDS_RETCODE_OK, seconds self, nanoseconds self)"

definition RTI_MQTT_Time_is_zero :: "mqtt_time \<Rightarrow> bool" where
  "RTI_MQTT_Time_is_zero t \<longleftrightarrow> seconds t = 0 \<and> nanoseconds t = 0"

section \<open>QoS levels\<close>

text \<open>
  The IDL enumeration \<^verbatim>\<open>QosLevel\<close>.  The C enumeration is also written through a
  \<^verbatim>\<open>DDS_Long *\<close>, so a variable of this type may hold a number that is no enumerator.
\<close>

datatype qos_level =
    QosLevel_UNKNOWN
  | QosLevel_ZERO
  | QosLevel_ONE
  | QosLevel_TWO
  | QosLevel_other i32

definition qos_level_of_long :: "i32 \<Rightarrow> qos_level" where
  "qos_level_of_long n =
     (if n = 0 then QosLevel_UNKNOWN else if n = 1 then QosLevel_ZERO
      else if n = 2 then QosLevel_ONE else if n = 3 then QosLevel_TWO else QosLevel_other n)"

fun long_of_qos_level :: "qos_level \<Rightarrow> i32" where
  "long_of_qos_level QosLevel_UNKNOWN = 0"
| "long_of_qos_level QosLevel_ZERO = 1"
| "long_of_qos_level QosLevel_ONE = 2"
| "long_of_qos_level QosLevel_TWO = 3"
| "long_of_qos_level (QosLevel_other n) = n"

fun RTI_MQTT_QosLevel_is_valid :: "qos_level \<Rightarrow> bool" where
  "RTI_MQTT_QosLevel_is_valid q =
     (q = QosLevel_ZERO \<or> q = QosLevel_ONE \<or> q = QosLevel_TWO)"

fun RTI_MQTT_QosLevel_to_mqtt_qos :: "qos_level \<Rightarrow> retcode \<times> i32 option" where
  "RTI_MQTT_QosLevel_to_mqtt_qos QosLevel_ZERO = (DDS_RETCODE_OK, Some 0)"
| "RTI_MQTT_QosLevel_to_mqtt_qos QosLevel_ONE = (DDS_RETCODE_OK, Some 1)"
| "RTI_MQTT_QosLevel_to_mqtt_qos QosLevel_TWO = (DDS_RETCODE_OK, Some 2)"
| "RTI_MQTT_QosLevel_to_mqtt_qos _ = (DDS_RETCODE_ERROR, None)"

definition RTI_MQTT_QosLevel_from_mqtt_qos :: "i32 \<Rightarrow> retcode \<times> qos_level option" where
  "RTI_MQTT_QosLevel_from_mqtt_qos mqtt_qos =
     (if mqtt_qos = 0 then (DDS_RETCODE_OK, Some QosLevel_ZERO)
      else if mqtt_qos = 1 then (DDS_RETCODE_OK, Some QosLevel_ONE)
      else if mqtt_qos = 2 then (DDS_RETCODE_OK, Some QosLevel_TWO)
      else (DDS_RETCODE_ERROR, None))"

lemma qos_level_of_long_of: "q \<notin> range QosLevel_other \<Longrightarrow> qos_level_of_long (long_of_qos_level q) = q"
  by (cases q) (auto simp: qos_level_of_long_def)

section \<open>Octet sequences as strings\<close>

text \<open>
  \<open>heap_ok\<close> says whether \<^verbatim>\<open>malloc\<close> of the given number of bytes succeeds; the result is the
  buffer with its terminator.
\<close>

definition RTI_MQTT_DDS_OctetSeq_to_string ::
    "(nat \<Rightarrow> bool) \<Rightarrow> octet list \<Rightarrow> retcode \<times> octet list option" where
  "RTI_MQTT_DDS_OctetSeq_to_string heap_ok self =
     (let buff_len = length self in
      if \<not> heap_ok (buff_len + 1) then (DDS_RETCODE_ERROR, None)
      else (DDS_RETCODE_OK, Some (self @ [0])))"

section \<open>Configuration objects\<close>

text \<open>
  The three configuration types have the same constructor and the same initialisation with
  default values.  \<open>create_data\<close> and \<open>copy\<close> are the functions generated from the IDL types.
\<close>

definition Config_new :: "(bool \<Rightarrow> 'c option) \<Rightarrow> bool \<Rightarrow> retcode \<times> 'c option" where
  "Config_new create_data allocate_optional =
     (case create_data allocate_optional of
        None \<Rightarrow> (DDS_RETCODE_ERROR, None)
      | Some config \<Rightarrow> (DDS_RETCODE_OK, Some config))"

text \<open>
  \<open>Config_default\<close> returns the new value of \<^verbatim>\<open>*config_out\<close> and the objects it deleted: a failure
  leaves the caller's pointer as it was and deletes only what the call allocated itself.
\<close>

definition Config_default ::
    "(bool \<Rightarrow> 'c option) \<Rightarrow> ('c \<Rightarrow> 'c \<Rightarrow> 'c option) \<Rightarrow> 'c \<Rightarrow> 'c option
     \<Rightarrow> retcode \<times> 'c option \<times> 'c list" where
  "Config_default create_data copy dflt config_out =
     (case (case config_out of
              None \<Rightarrow> (case Config_new create_data False of
                         (rc, c) \<Rightarrow> if rc \<noteq> DDS_RETCODE_OK then None else c)
            | Some config \<Rightarrow> Some config) of
        None \<Rightarrow> (DDS_RETCODE_ERROR, config_out, [])
      | Some config \<Rightarrow>
          (case copy config dflt of
             None \<Rightarrow> (DDS_RETCODE_ERROR, config_out,
                       if config_out = None then [config] else [])
           | Some config' \<Rightarrow> (DDS_RETCODE_OK, Some config', [])))"

subsection \<open>The configuration types\<close>

datatype mqtt_protocol_version = MQTT_DEFAULT | MQTT_3_1 | MQTT_3_1_1 | MQTT_5

datatype ssl_tls_protocol_version = TLS_DEFAULT | TLS_1_0 | TLS_1_1 | TLS_1_2

datatype persistence_level = PersistenceLevel_NONE | PersistenceLevel_DURABLE

record ssl_tls_config =
  tls_ca :: string
  tls_identity :: string
  tls_private_key :: string
  tls_private_key_password :: string
  tls_protocol_version :: ssl_tls_protocol_version
  tls_verify_server_certificate :: bool
  tls_cypher_suites :: string

record client_config =
  cfg_id :: string
  cfg_protocol_version :: mqtt_protocol_version
  cfg_server_uris :: "string list"
  cfg_connect_timeout :: mqtt_time
  cfg_max_connection_retries :: u32
  cfg_keep_alive_period :: mqtt_time
  cfg_clean_session :: bool
  cfg_unsubscribe_on_disconnect :: bool
  cfg_max_reply_timeout :: mqtt_time
  cfg_reconnect :: bool
  cfg_max_unack_messages :: u32
  cfg_persistence_level :: persistence_level
  cfg_persistence_storage :: "string option"
  cfg_username :: "string option"
  cfg_password :: "octet list option"
  cfg_ssl_tls_config :: "ssl_tls_config option"

record subscription_config =
  topic_filters :: "string list"
  max_qos :: qos_level
  message_queue_size :: u32

record publication_config =
  pcfg_topic :: string
  pcfg_qos :: qos_level
  pcfg_retained :: bool
  pcfg_use_message_info :: bool
  pcfg_max_wait_time :: mqtt_time

definition RTI_MQTT_ClientConfig_DEFAULT :: client_config where
  "RTI_MQTT_ClientConfig_DEFAULT =
     \<lparr>cfg_id = [], cfg_protocol_version = MQTT_DEFAULT, cfg_server_uris = [],
      cfg_connect_timeout = \<lparr>seconds = 10, nanoseconds = 0\<rparr>, cfg_max_connection_retries = 10,
      cfg_keep_alive_period = \<lparr>seconds = 10, nanoseconds = 0\<rparr>, cfg_clean_session = False,
      cfg_unsubscribe_on_disconnect = True, cfg_max_reply_timeout = \<lparr>seconds = 3, nanoseconds = 0\<rparr>,
      cfg_reconnect = True, cfg_max_unack_messages = 10, cfg_persistence_level = PersistenceLevel_NONE,
      cfg_persistence_storage = None, cfg_username = None, cfg_password = None,
      cfg_ssl_tls_config = None\<rparr>"

definition RTI_MQTT_SubscriptionConfig_DEFAULT :: subscription_config where
  "RTI_MQTT_SubscriptionConfig_DEFAULT =
     \<lparr>topic_filters = [], max_qos = QosLevel_TWO, message_queue_size = 0\<rparr>"

definition RTI_MQTT_PublicationConfig_DEFAULT :: publication_config where
  "RTI_MQTT_PublicationConfig_DEFAULT =
     \<lparr>pcfg_topic = [], pcfg_qos = QosLevel_ZERO, pcfg_retained = False, pcfg_use_message_info = False,
      pcfg_max_wait_time = \<lparr>seconds = 10, nanoseconds = 0\<rparr>\<rparr>"

definition RTI_MQTT_ClientConfig_new ::
    "(bool \<Rightarrow> client_config option) \<Rightarrow> bool \<Rightarrow> retcode \<times> client_config option" where
  "RTI_MQTT_ClientConfig_new = Config_new"

definition RTI_MQTT_SubscriptionConfig_new ::
    "(bool \<Rightarrow> subscription_config option) \<Rightarrow> bool \<Rightarrow> retcode \<times> subscription_config option" where
  "RTI_MQTT_SubscriptionConfig_new = Config_new"

definition RTI_MQTT_PublicationConfig_new ::
    "(bool \<Rightarrow> publication_config option) \<Rightarrow> bool \<Rightarrow> retcode \<times> publication_config option" where
  "RTI_MQTT_PublicationConfig_new = Config_new"

definition RTI_MQTT_ClientConfig_default ::
    "(bool \<Rightarrow> client_config option) \<Rightarrow> (client_config \<Rightarrow> client_config \<Rightarrow> client_config option)
     \<Rightarrow> client_config option \<Rightarrow> retcode \<times> client_config option \<times> client_config list" where
  "RTI_MQTT_ClientConfig_default create_data copy =
     Config_default create_data copy RTI_MQTT_ClientConfig_DEFAULT"

definition RTI_MQTT_SubscriptionConfig_default ::
    "(bool \<Rightarrow> subscription_config option)
     \<Rightarrow> (subscription_config \<Rightarrow> subscription_config \<Rightarrow> subscription_config option)
     \<Rightarrow> subscription_config option \<Rightarrow> retcode \<times> subscription_config option \<times> subscription_config list" where
  "RTI_MQTT_SubscriptionConfig_default create_data copy =
     Config_default create_data copy RTI_MQTT_SubscriptionConfig_DEFAULT"

definition RTI_MQTT_PublicationConfig_default ::
    "(bool \<Rightarrow> publication_config option)
     \<Rightarrow> (publication_config \<Rightarrow> publication_config \<Rightarrow> publication_config option)
     \<Rightarrow> publication_config option \<Rightarrow> retcode \<times> publication_config option \<times> publication_config list" where
  "RTI_MQTT_PublicationConfig_default create_data copy =
     Config_default create_data copy RTI_MQTT_PublicationConfig_DEFAULT"

section \<open>The topic filter matcher\<close>

subsection \<open>The loop of the source\<close>

text \<open>
  The outcome of one pass through the \<^verbatim>\<open>switch\<close>: the filter is invalid (or the value is in a
  position the code rejects) and the function fails, a character was read outside a string, or
  the loop goes on with new values of \<^verbatim>\<open>f_i\<close>, \<^verbatim>\<open>v_i\<close>, \<^verbatim>\<open>match\<close> and \<^verbatim>\<open>match_done\<close>.
\<close>

datatype tf_step = TF_invalid | TF_oob | TF_next nat nat bool bool

text \<open>The inner loop of the \<^verbatim>\<open>#\<close> case.\<close>

function tf_hash_scan :: "string \<Rightarrow> nat \<Rightarrow> char \<Rightarrow> (nat \<times> char) option" where
  "tf_hash_scan v v_i v_ch =
     (if v_ch \<noteq> CHR ''/'' \<and> v_i + 1 < length v
      then (case cstr_at v (v_i + 1) of
              None \<Rightarrow> None
            | Some c \<Rightarrow> tf_hash_scan v (v_i + 1) c)
      else Some (v_i, v_ch))"
  by pat_completeness auto
termination
  by (relation "measure (\<lambda>(v, v_i, v_ch). length v - v_i)") auto

text \<open>The inner loop of the \<^verbatim>\<open>+\<close> case.\<close>

function tf_plus_scan :: "string \<Rightarrow> nat \<Rightarrow> char \<Rightarrow> (nat \<times> char) option" where
  "tf_plus_scan v v_i v_ch =
     (if v_ch \<noteq> CHR ''/'' \<and> v_ch \<noteq> NUL
      then (case cstr_at v (v_i + 1) of
              None \<Rightarrow> None
            | Some c \<Rightarrow> tf_plus_scan v (v_i + 1) c)
      else Some (v_i, v_ch))"
  by pat_completeness auto
termination
  by (relation "measure (\<lambda>(v, v_i, v_ch). Suc (length v) - v_i)")
    (auto simp: cstr_at_def split: if_splits)

declare tf_hash_scan.simps [simp del] tf_plus_scan.simps [simp del]

text \<open>The body of the loop, one branch per case of the \<^verbatim>\<open>switch\<close>.\<close>

definition tf_switch :: "string \<Rightarrow> nat \<Rightarrow> nat \<Rightarrow> char \<Rightarrow> char \<Rightarrow> char \<Rightarrow> tf_step" where
  "tf_switch v f_i v_i f_ch f_ch_next v_ch =
     (if f_ch = CHR ''#'' then
        if f_ch_next \<noteq> CHR ''/'' \<and> f_ch_next \<noteq> NUL then TF_invalid
        else if v_ch = CHR ''/'' then TF_invalid
        else if f_ch_next = NUL then TF_next (f_i + 1) (length v - 1) True True
        else (case tf_hash_scan v v_i v_ch of
                None \<Rightarrow> TF_oob
              | Some (v_i', v_ch') \<Rightarrow>
                  TF_next (f_i + 1) v_i' (v_ch' = CHR ''/'') (v_ch' \<noteq> CHR ''/''))
      else if f_ch = CHR ''+'' then
        if f_ch_next \<noteq> CHR ''/'' \<and> f_ch_next \<noteq> NUL then TF_invalid
        else if v_ch = CHR ''/'' then TF_next (f_i + 1) v_i False True
        else (case tf_plus_scan v v_i v_ch of
                None \<Rightarrow> TF_oob
              | Some (v_i', v_ch') \<Rightarrow>
                  if f_ch_next = NUL then TF_next (f_i + 1) v_i' (v_ch' = NUL) True
                  else TF_next (f_i + 1) v_i' (v_ch' = CHR ''/'') (v_ch' \<noteq> CHR ''/''))
      else TF_next f_i v_i (f_ch = v_ch) (f_ch \<noteq> v_ch))"

lemma tf_hash_scan_mono: "tf_hash_scan v i c = Some (j, d) \<Longrightarrow> i \<le> j"
proof (induction v i c rule: tf_hash_scan.induct)
  case (1 v i c)
  then show ?case
    by (auto simp: tf_hash_scan.simps [of v i c] split: if_splits option.splits)
qed

lemma tf_plus_scan_mono: "tf_plus_scan v i c = Some (j, d) \<Longrightarrow> i \<le> j"
proof (induction v i c rule: tf_plus_scan.induct)
  case (1 v i c)
  then show ?case
    by (auto simp: tf_plus_scan.simps [of v i c] split: if_splits option.splits)
qed

lemma tf_switch_mono:
  "tf_switch v f_i v_i f_ch f_nx v_ch = TF_next f_i' v_i' m d \<Longrightarrow> v_i < length v \<Longrightarrow> v_i \<le> v_i'"
  by (auto simp: tf_switch_def split: if_splits option.splits prod.splits
      dest: tf_hash_scan_mono tf_plus_scan_mono)

text \<open>The outcome of the whole loop: a failure, or the final \<^verbatim>\<open>match\<close> and \<^verbatim>\<open>v_i\<close>.\<close>

datatype tf_outcome = TF_fail | TF_undefined | TF_exit bool nat

function tf_loop :: "string \<Rightarrow> string \<Rightarrow> nat \<Rightarrow> nat \<Rightarrow> bool \<Rightarrow> bool \<Rightarrow> tf_outcome" where
  "tf_loop f v f_i v_i match match_done =
     (if match \<and> \<not> match_done \<and> f_i < length f \<and> v_i < length v then
        (case (cstr_at f f_i, cstr_at f (f_i + 1), cstr_at v v_i) of
           (Some f_ch, Some f_ch_next, Some v_ch) \<Rightarrow>
             (case tf_switch v f_i v_i f_ch f_ch_next v_ch of
                TF_invalid \<Rightarrow> TF_fail
              | TF_oob \<Rightarrow> TF_undefined
              | TF_next f_i' v_i' m d \<Rightarrow> tf_loop f v (f_i' + 1) (v_i' + 1) m d)
         | _ \<Rightarrow> TF_undefined)
      else TF_exit match v_i)"
  by pat_completeness auto
termination
  by (relation "measure (\<lambda>(f, v, f_i, v_i, m, d). length v - v_i)")
    (auto dest: tf_switch_mono)

declare tf_loop.simps [simp del]

text \<open>
  The function itself: the return code and \<^verbatim>\<open>*match_out\<close>; \<open>None\<close> when a character outside one of
  the strings was read.
\<close>

definition RTI_MQTT_TopicFilter_match :: "string \<Rightarrow> string \<Rightarrow> (retcode \<times> bool) option" where
  "RTI_MQTT_TopicFilter_match topic_filter topic =
     (case tf_loop topic_filter topic 0 0 True False of
        TF_fail \<Rightarrow> Some (DDS_RETCODE_ERROR, False)
      | TF_undefined \<Rightarrow> None
      | TF_exit match v_i \<Rightarrow> Some (DDS_RETCODE_OK, match \<and> v_i = length topic))"

subsection \<open>A reference matcher\<close>

text \<open>
  \<open>tf_spec\<close> works on what is left of the filter and of the value: \<open>None\<close> is the error return.
  A value that has been read to its end is a match whatever is left of the filter.
\<close>

abbreviation rest_level :: "string \<Rightarrow> string" where
  "rest_level \<equiv> dropWhile (\<lambda>c. c \<noteq> CHR ''/'')"

lemma rest_level_shorter: "rest_level s = c # r \<Longrightarrow> length r < length s"
  using length_dropWhile_le [of "\<lambda>c. c \<noteq> CHR ''/''" s] by simp

function tf_spec :: "string \<Rightarrow> string \<Rightarrow> bool option" where
  "tf_spec fs [] = Some True"
| "tf_spec [] (v # vs) = Some False"
| "tf_spec (f # fs) (v # vs) =
     (if f = CHR ''#'' then
        if fs \<noteq> [] \<and> hd fs \<noteq> CHR ''/'' then None
        else if v = CHR ''/'' then None
        else if fs = [] then Some True
        else (case rest_level vs of [] \<Rightarrow> Some False | _ # rest \<Rightarrow> tf_spec (tl fs) rest)
      else if f = CHR ''+'' then
        if fs \<noteq> [] \<and> hd fs \<noteq> CHR ''/'' then None
        else if v = CHR ''/'' then Some False
        else if fs = [] then Some False
        else (case rest_level vs of [] \<Rightarrow> Some False | _ # rest \<Rightarrow> tf_spec (tl fs) rest)
      else if f = v then tf_spec fs vs else Some False)"
  by pat_completeness auto
termination
  by (relation "measure (\<lambda>(fs, vs). length vs)") (auto dest: rest_level_shorter)

lemma rest_level_slash: "rest_level s = c # r \<Longrightarrow> c = CHR ''/''"
  using hd_dropWhile [of "\<lambda>c. c \<noteq> CHR ''/''" s] by simp

lemma rest_level_index:
  assumes "j < length v" and "rest_level (drop j v) = c # r"
  shows "drop (length v - Suc (length r)) v = c # r"
    and "length v - Suc (length r) < length v" and "j \<le> length v - Suc (length r)"
proof -
  from assms(2) obtain p where p: "drop j v = p @ c # r"
    by (metis takeWhile_dropWhile_id)
  then have v: "v = take j v @ p @ c # r"
    by (metis append_take_drop_id)
  have len: "length v = j + length p + Suc (length r)"
    using p assms(1) by (metis add.assoc add_diff_cancel_left' le_add_diff_inverse length_Cons
        length_append length_drop less_imp_le_nat)
  show "drop (length v - Suc (length r)) v = c # r"
    using assms(1) len by (subst v) simp
  show "length v - Suc (length r) < length v" and "j \<le> length v - Suc (length r)"
    using len by simp_all
qed

lemma rest_level_step:
  assumes "j < length v"
  shows "rest_level (drop j v) =
    (if v ! j = CHR ''/'' then drop j v else rest_level (drop (Suc j) v))"
  using assms by (simp add: Cons_nth_drop_Suc [symmetric])

lemma tf_hash_scan_spec:
  assumes "j < length v"
  shows "tf_hash_scan v j (v ! j) =
    (case rest_level (drop j v) of
       [] \<Rightarrow> Some (length v - 1, v ! (length v - 1))
     | c # r \<Rightarrow> Some (length v - Suc (length r), c))"
  using assms
proof (induction "length v - j" arbitrary: j)
  case 0
  then show ?case by simp
next
  case (Suc n)
  show ?case
  proof (cases "v ! j = CHR ''/''")
    case True
    then show ?thesis
      using Suc.prems
      by (simp add: tf_hash_scan.simps [of v j] rest_level_step Cons_nth_drop_Suc [symmetric])
  next
    case False
    show ?thesis
    proof (cases "Suc j < length v")
      case True
      with Suc have "tf_hash_scan v (Suc j) (v ! Suc j) =
          (case rest_level (drop (Suc j) v) of
             [] \<Rightarrow> Some (length v - 1, v ! (length v - 1))
           | c # r \<Rightarrow> Some (length v - Suc (length r), c))" by simp
      with True False Suc.prems show ?thesis
        by (simp add: tf_hash_scan.simps [of v j] rest_level_step [of j])
    next
      case no_next: False
      with Suc.prems have j: "length v = Suc j" by simp
      with False show ?thesis
        by (simp add: tf_hash_scan.simps [of v j] rest_level_step)
    qed
  qed
qed

lemma tf_plus_scan_spec:
  assumes "cstring v" and "j < length v"
  shows "tf_plus_scan v j (v ! j) =
    (case rest_level (drop j v) of
       [] \<Rightarrow> Some (length v, NUL)
     | c # r \<Rightarrow> Some (length v - Suc (length r), c))"
  using assms(2)
proof (induction "length v - j" arbitrary: j)
  case 0
  then show ?case by simp
next
  case (Suc n)
  note nn = cstring_nth [OF assms(1) Suc.prems]
  show ?case
  proof (cases "v ! j = CHR ''/''")
    case True
    then show ?thesis
      using Suc.prems
      by (simp add: tf_plus_scan.simps [of v j] rest_level_step Cons_nth_drop_Suc [symmetric])
  next
    case False
    show ?thesis
    proof (cases "Suc j < length v")
      case True
      with Suc have "tf_plus_scan v (Suc j) (v ! Suc j) =
          (case rest_level (drop (Suc j) v) of
             [] \<Rightarrow> Some (length v, NUL)
           | c # r \<Rightarrow> Some (length v - Suc (length r), c))" by simp
      with True False nn Suc.prems show ?thesis
        by (simp add: tf_plus_scan.simps [of v j] rest_level_step [of j])
    next
      case no_next: False
      with Suc.prems have j: "Suc j = length v" by simp
      then have "tf_plus_scan v (Suc j) NUL = Some (length v, NUL)"
        by (simp add: tf_plus_scan.simps [of v])
      moreover have "cstr_at v (Suc j) = Some NUL" using j by simp
      ultimately show ?thesis using False nn j
        by (simp add: tf_plus_scan.simps [of v j] rest_level_step [of j] no_next)
    qed
  qed
qed

lemma tf_plus_scan_total:
  assumes "cstring v" and "j < length v"
  obtains j' c where "tf_plus_scan v j (v ! j) = Some (j', c)" and "c = NUL \<Longrightarrow> j' = length v"
  using tf_plus_scan_spec [OF assms] rest_level_slash [of "drop j v"]
  by (cases "rest_level (drop j v)") (auto simp: NUL_def simp del: dropWhile_eq_Nil_conv)

lemma tf_loop_stop: "\<not> m \<or> d \<Longrightarrow> tf_loop f v i j m d = TF_exit m j"
  by (subst tf_loop.simps) auto

lemma tf_loop_end: "length f \<le> i \<or> length v \<le> j \<Longrightarrow> tf_loop f v i j m d = TF_exit m j"
  by (subst tf_loop.simps) auto

text \<open>The relation between the loop's outcome and the reference matcher's.\<close>

definition tf_agrees :: "string \<Rightarrow> tf_outcome \<Rightarrow> bool option \<Rightarrow> bool" where
  "tf_agrees v out r \<longleftrightarrow>
     (case out of
        TF_fail \<Rightarrow> r = None
      | TF_undefined \<Rightarrow> False
      | TF_exit m k \<Rightarrow> r = Some (m \<and> k = length v))"

lemma cstr_next:
  assumes "i < length f"
  shows "cstr_at f (i + 1) = Some (if drop (Suc i) f = [] then NUL else hd (drop (Suc i) f))"
  using assms by (cases "Suc i < length f") (auto simp: cstr_at_def hd_drop_conv_nth)

text \<open>One iteration, with the characters read and the recursion of the loop unfolded once.\<close>

lemma tf_loop_unfold:
  assumes "i < length f" and "j < length v"
  shows "tf_loop f v i j True False =
    (case tf_switch v i j (f ! i) (if drop (Suc i) f = [] then NUL else hd (drop (Suc i) f)) (v ! j) of
       TF_invalid \<Rightarrow> TF_fail
     | TF_oob \<Rightarrow> TF_undefined
     | TF_next i' j' m d \<Rightarrow> tf_loop f v (i' + 1) (j' + 1) m d)"
  using assms cstr_next [OF assms(1)] by (simp add: tf_loop.simps [of f v i j])

text \<open>
  A wildcard that is followed by a slash: both kinds go on behind the next slash of the value.
\<close>

lemma tf_loop_wildcard:
  assumes "cstring v" and "j < length v" and "v ! j \<noteq> CHR ''/''"
    and IH: "\<And>r. length r < length (drop j v) \<Longrightarrow> r = drop (length v - length r) v \<Longrightarrow>
      tf_agrees v (tf_loop f v i' (length v - length r) True False) (tf_spec fs r)"
    and st: "st \<in> {tf_hash_scan v j (v ! j), tf_plus_scan v j (v ! j)}"
  shows "\<exists>j' c. st = Some (j', c) \<and>
    tf_agrees v (tf_loop f v i' (Suc j') (c = CHR ''/'') (c \<noteq> CHR ''/''))
      (case rest_level (drop (Suc j) v) of [] \<Rightarrow> Some False | _ # rest \<Rightarrow> tf_spec fs rest)"
proof (cases "rest_level (drop j v)")
  case Nil
  then have nil: "rest_level (drop (Suc j) v) = []"
    using assms(2,3) by (simp add: rest_level_step del: dropWhile_eq_Nil_conv)
  have last: "v ! (length v - 1) \<noteq> CHR ''/''"
  proof -
    have "last (drop j v) \<in> set (drop j v)" using assms(2) by (intro last_in_set) simp
    moreover have "last (drop j v) = v ! (length v - 1)"
      using assms(2) last_conv_nth [of v] by (cases "v = []") (simp_all add: last_drop)
    ultimately show ?thesis using Nil by auto
  qed
  have "st = Some (length v - 1, v ! (length v - 1)) \<or> st = Some (length v, NUL)"
    using st tf_hash_scan_spec [OF assms(2)] tf_plus_scan_spec [OF assms(1,2)] Nil
    by (auto simp del: dropWhile_eq_Nil_conv)
  then obtain j' c where "st = Some (j', c)" and "c \<noteq> CHR ''/''"
    using last by (auto simp: NUL_def)
  with nil show ?thesis
    by (simp add: tf_loop_stop tf_agrees_def del: dropWhile_eq_Nil_conv)
next
  case (Cons c r)
  note c = rest_level_slash [OF Cons]
  note idx = rest_level_index [OF assms(2) Cons]
  have tail: "rest_level (drop (Suc j) v) = c # r"
    using Cons assms(2,3) by (simp add: rest_level_step)
  have short: "length r < length (drop j v)"
    using rest_level_shorter [OF Cons] .
  then have suc: "Suc (length v - Suc (length r)) = length v - length r"
    by simp
  have r: "r = drop (length v - length r) v"
  proof -
    have "r = tl (drop (length v - Suc (length r)) v)" using idx(1) by simp
    also have "\<dots> = drop (Suc (length v - Suc (length r))) v" by (simp add: drop_Suc tl_drop)
    finally show ?thesis unfolding suc .
  qed
  have "st = Some (length v - Suc (length r), c)"
    using st tf_hash_scan_spec [OF assms(2)] tf_plus_scan_spec [OF assms(1,2)] Cons by auto
  with IH [OF short r] c tail suc show ?thesis by simp
qed

lemma tf_loop_spec:
  assumes f: "cstring f" and v: "cstring v"
  shows "i \<le> length f \<Longrightarrow> j \<le> length v \<Longrightarrow>
    tf_agrees v (tf_loop f v i j True False) (tf_spec (drop i f) (drop j v))"
proof (induction "length v - j" arbitrary: i j rule: less_induct)
  case less
  consider "j = length v" | "i = length f" "j < length v" | "i < length f" "j < length v"
    using less.prems by linarith
  then show ?case
  proof cases
    case 1
    then show ?thesis by (simp add: tf_loop_end tf_agrees_def)
  next
    case 2
    then show ?thesis
      by (simp add: tf_loop_end tf_agrees_def Cons_nth_drop_Suc [symmetric])
  next
    case 3
    define fs where "fs = drop (Suc i) f"
    define vs where "vs = drop (Suc j) v"
    have fd: "drop i f = f ! i # fs" and vd: "drop j v = v ! j # vs"
      using 3 by (simp_all add: fs_def vs_def Cons_nth_drop_Suc)
    have nul: "fs \<noteq> [] \<Longrightarrow> hd fs \<noteq> NUL"
      using f 3 by (simp add: fs_def hd_drop_conv_nth)
    have wild: "\<exists>j' c. st = Some (j', c) \<and>
        tf_agrees v (tf_loop f v (Suc (Suc i)) (Suc j') (c = CHR ''/'') (c \<noteq> CHR ''/''))
          (case rest_level vs of [] \<Rightarrow> Some False | _ # rest \<Rightarrow> tf_spec (tl fs) rest)"
      if "v ! j \<noteq> CHR ''/''" and "fs \<noteq> []"
        and "st \<in> {tf_hash_scan v j (v ! j), tf_plus_scan v j (v ! j)}" for st
      unfolding vs_def
    proof (rule tf_loop_wildcard [OF v 3(2) that(1) _ that(3)])
      fix r
      assume r: "length r < length (drop j v)" and rd: "r = drop (length v - length r) v"
      have "tl fs = drop (Suc (Suc i)) f" and "Suc (Suc i) \<le> length f"
        using that(2) by (simp_all add: fs_def drop_Suc tl_drop Suc_le_eq)
      moreover have "length v - (length v - length r) < length v - j"
        using r 3 by simp
      ultimately show "tf_agrees v (tf_loop f v (Suc (Suc i)) (length v - length r) True False)
          (tf_spec (tl fs) r)"
        using less.hyps [of "length v - length r" "Suc (Suc i)"] rd by simp
    qed
    have lit: "tf_agrees v (tf_loop f v (Suc i) (Suc j) True False) (tf_spec fs vs)"
      using less.hyps [of "Suc j" "Suc i"] 3 by (simp add: fs_def vs_def)
    have unf: "tf_loop f v i j True False =
      (case tf_switch v i j (f ! i) (if fs = [] then NUL else hd fs) (v ! j) of
         TF_invalid \<Rightarrow> TF_fail
       | TF_oob \<Rightarrow> TF_undefined
       | TF_next i' j' m d \<Rightarrow> tf_loop f v (i' + 1) (j' + 1) m d)"
      unfolding fs_def by (rule tf_loop_unfold [OF 3])
    consider "f ! i = CHR ''#''" | "f ! i = CHR ''+''" | "f ! i \<noteq> CHR ''#''" "f ! i \<noteq> CHR ''+''"
      by blast
    then show ?thesis
    proof cases
      case 1
      then show ?thesis
        using unf wild [of "tf_hash_scan v j (v ! j)"] nul 3 fd vd
        by (auto simp: tf_switch_def tf_agrees_def tf_loop_stop NUL_def split: if_splits)
    next
      case 2
      obtain j' c where sc: "tf_plus_scan v j (v ! j) = Some (j', c)" "c = NUL \<Longrightarrow> j' = length v"
        using tf_plus_scan_total [OF v 3(2)] by blast
      show ?thesis
      proof (cases "v ! j = CHR ''/'' \<or> fs = [] \<or> hd fs \<noteq> CHR ''/''")
        case True
        then show ?thesis using unf 2 sc nul fd vd
          by (auto simp: tf_switch_def tf_agrees_def tf_loop_stop)
      next
        case False
        then show ?thesis using unf 2 sc wild [of "tf_plus_scan v j (v ! j)"] fd vd
          by (auto simp: tf_switch_def NUL_def)
      qed
    next
      case 3
      then show ?thesis
        using unf lit fd vd by (auto simp: tf_switch_def tf_agrees_def tf_loop_stop)
    qed
  qed
qed

subsection \<open>Topic levels and the MQTT standard\<close>

text \<open>
  Topics and filters as lists of levels, joined with slashes.  \<open>mqtt_match\<close> is the matching of
  MQTT 3.1.1, section 4.7: \<^verbatim>\<open>+\<close> matches one level, \<^verbatim>\<open>#\<close> the level it stands at and
  all below it, the parent level included.
\<close>

fun join_levels :: "string list \<Rightarrow> string" where
  "join_levels [] = []"
| "join_levels [l] = l"
| "join_levels (l # m # ls) = l @ ''/'' @ join_levels (m # ls)"

fun mqtt_match :: "string list \<Rightarrow> string list \<Rightarrow> bool" where
  "mqtt_match [] vs = (vs = [])"
| "mqtt_match (f # fs) vs =
     (if f = ''#'' then fs = []
      else case vs of [] \<Rightarrow> False | v # vs' \<Rightarrow> (f = ''+'' \<or> f = v) \<and> mqtt_match fs vs')"

definition topic_level :: "string \<Rightarrow> bool" where
  "topic_level l \<longleftrightarrow> l \<noteq> [] \<and> set l \<inter> {CHR ''/'', CHR ''#'', CHR ''+'', NUL} = {}"

definition filter_levels :: "string list \<Rightarrow> bool" where
  "filter_levels ls \<longleftrightarrow>
     ls \<noteq> [] \<and> (\<forall>l \<in> set (butlast ls). l = ''+'' \<or> topic_level l) \<and>
     (last ls = ''+'' \<or> last ls = ''#'' \<or> topic_level (last ls))"

lemma filter_levels_Cons:
  "filter_levels (l # m # ls) \<longleftrightarrow> (l = ''+'' \<or> topic_level l) \<and> filter_levels (m # ls)"
  by (auto simp: filter_levels_def)

lemma join_levels_Cons: "ls \<noteq> [] \<Longrightarrow> join_levels (l # ls) = l @ ''/'' @ join_levels ls"
  by (cases ls) auto

lemma set_join_levels: "set (join_levels ls) \<subseteq> (\<Union>l \<in> set ls. set l) \<union> {CHR ''/''}"
  by (induction ls rule: join_levels.induct) auto

lemma cstring_filter: "filter_levels ls \<Longrightarrow> cstring (join_levels ls)"
proof (induction ls rule: join_levels.induct)
  case (3 l m ls)
  then show ?case
    by (auto simp: filter_levels_Cons cstring_def topic_level_def NUL_def)
qed (auto simp: filter_levels_def cstring_def topic_level_def NUL_def)

lemma cstring_topic: "\<forall>l \<in> set ls. topic_level l \<Longrightarrow> cstring (join_levels ls)"
  using set_join_levels [of ls] by (auto simp: cstring_def topic_level_def NUL_def)

definition no_wildcard :: "string \<Rightarrow> bool" where
  "no_wildcard s \<longleftrightarrow> CHR ''#'' \<notin> set s \<and> CHR ''+'' \<notin> set s"

lemma no_wildcard_level [simp]: "topic_level l \<Longrightarrow> no_wildcard l"
  by (auto simp: topic_level_def no_wildcard_def)

text \<open>A common literal prefix is consumed character by character.\<close>

lemma tf_spec_literal [simp]:
  "no_wildcard p \<Longrightarrow> tf_spec (p @ fs) (p @ vs) = tf_spec fs vs"
  by (induction p) (auto simp: no_wildcard_def)

lemma tf_spec_no_wildcard: "no_wildcard f \<Longrightarrow> tf_spec f v = Some (prefix v f)"
proof (induction f arbitrary: v)
  case Nil
  then show ?case by (cases v) auto
next
  case (Cons c f)
  then show ?case by (cases v) (auto simp: no_wildcard_def)
qed

text \<open>
  A literal level of the filter against a different level of the topic, both followed by a
  slash: no match.
\<close>

lemma tf_spec_level_mismatch:
  assumes "topic_level l" and "topic_level w" and "l \<noteq> w"
  shows "tf_spec (l @ CHR ''/'' # fs) (w @ CHR ''/'' # vs) = Some False"
  using assms
proof (induction l arbitrary: w)
  case Nil
  then show ?case by (simp add: topic_level_def)
next
  case (Cons c l)
  from Cons.prems obtain d w' where w: "w = d # w'" by (cases w) (auto simp: topic_level_def)
  show ?case
  proof (cases "c = d \<and> l \<noteq> [] \<and> w' \<noteq> []")
    case True
    with Cons.prems w have "tf_spec (l @ CHR ''/'' # fs) (w' @ CHR ''/'' # vs) = Some False"
      by (intro Cons.IH) (auto simp: topic_level_def)
    with w True Cons.prems show ?thesis by (auto simp: topic_level_def)
  next
    case False
    with Cons.prems w show ?thesis
      by (cases l; cases w') (auto simp: topic_level_def)
  qed
qed

lemma rest_level_topic:
  assumes "topic_level w"
  shows "rest_level (tl w @ CHR ''/'' # vs) = CHR ''/'' # vs"
proof -
  have "\<forall>c \<in> set (tl w). c \<noteq> CHR ''/''"
    using assms by (cases w) (auto simp: topic_level_def)
  then show ?thesis by (simp add: dropWhile_append2)
qed

lemma tf_spec_plus_level:
  assumes "topic_level w"
  shows "tf_spec (CHR ''+'' # CHR ''/'' # fs) (w @ CHR ''/'' # vs) = tf_spec fs vs"
proof -
  from assms obtain c w' where w: "w = c # w'" and "c \<noteq> CHR ''/''"
    by (cases w) (auto simp: topic_level_def)
  with rest_level_topic [OF assms, of vs] show ?thesis by simp
qed

lemma tf_spec_level_step:
  assumes "filter_levels (l # m # ls)" and "\<forall>v \<in> set (w # x # ws). topic_level v"
  shows "tf_spec (join_levels (l # m # ls)) (join_levels (w # x # ws)) =
    (if l = ''+'' \<or> l = w then tf_spec (join_levels (m # ls)) (join_levels (x # ws)) else Some False)"
proof (cases "l = ''+''")
  case True
  then show ?thesis using assms tf_spec_plus_level [of w] by simp
next
  case False
  then have l: "topic_level l" using assms(1) by (simp add: filter_levels_Cons)
  show ?thesis
  proof (cases "l = w")
    case True
    have "tf_spec ((l @ ''/'') @ join_levels (m # ls)) ((l @ ''/'') @ join_levels (x # ws)) =
        tf_spec (join_levels (m # ls)) (join_levels (x # ws))"
      using l by (intro tf_spec_literal) (auto simp: topic_level_def no_wildcard_def)
    with True show ?thesis by simp
  next
    case False
    with \<open>l \<noteq> ''+''\<close> tf_spec_level_mismatch [OF l _ False] assms(2) show ?thesis by simp
  qed
qed

lemma tf_spec_hash_last:
  "topic_level v \<Longrightarrow> tf_spec ''#'' (join_levels (v # vs)) = Some True"
  by (cases v; cases vs) (auto simp: topic_level_def)

text \<open>The two inductions over the levels; both walk the lists together.\<close>

lemma tf_spec_hash_exact:
  "filter_levels fls \<Longrightarrow> \<forall>v \<in> set vls. topic_level v \<Longrightarrow> last fls = ''#'' \<Longrightarrow>
   length fls \<le> length vls \<Longrightarrow>
   tf_spec (join_levels fls) (join_levels vls) = Some (mqtt_match fls vls)"
proof (induction fls vls rule: mqtt_match.induct)
  case (1 vs)
  then show ?case by (simp add: filter_levels_def)
next
  case (2 f fs vs)
  show ?case
  proof (cases fs)
    case Nil
    with 2 obtain v vs' where "vs = v # vs'" "topic_level v" by (cases vs) auto
    with Nil 2 show ?thesis by (simp add: tf_spec_hash_last)
  next
    case (Cons m ls)
    with 2 obtain w x ws where vs: "vs = w # x # ws" by (cases vs rule: remdups_adj.cases) auto
    have "f \<noteq> ''#''"
      using 2 Cons by (auto simp: filter_levels_Cons topic_level_def)
    with 2 Cons vs show ?thesis
      by (simp add: tf_spec_level_step filter_levels_Cons del: join_levels.simps)
  qed
qed

lemma tf_spec_complete:
  "filter_levels fls \<Longrightarrow> \<forall>v \<in> set vls. topic_level v \<Longrightarrow> last fls \<noteq> ''+'' \<Longrightarrow>
   length fls \<le> length vls \<Longrightarrow> mqtt_match fls vls \<Longrightarrow>
   tf_spec (join_levels fls) (join_levels vls) = Some True"
proof (induction fls vls rule: mqtt_match.induct)
  case (1 vs)
  then show ?case by (simp add: filter_levels_def)
next
  case (2 f fs vs)
  show ?case
  proof (cases fs)
    case Nil
    from 2 obtain v vs' where v: "vs = v # vs'" "topic_level v" by (cases vs) auto
    show ?thesis
    proof (cases "f = ''#''")
      case True
      with Nil v show ?thesis by (simp add: tf_spec_hash_last)
    next
      case False
      with 2 Nil v have "f = v" and "vs' = []" by auto
      with Nil v show ?thesis using tf_spec_no_wildcard [of v v] by simp
    qed
  next
    case (Cons m ls)
    with 2 obtain w x ws where vs: "vs = w # x # ws" by (cases vs rule: remdups_adj.cases) auto
    have f: "f \<noteq> ''#''"
      using 2 Cons by (auto simp: filter_levels_Cons topic_level_def)
    have ih: "tf_spec (join_levels fs) (join_levels (x # ws)) = Some True"
      using 2 Cons vs f by (auto simp: filter_levels_Cons simp del: join_levels.simps)
    have "f = ''+'' \<or> f = w" using "2.prems"(5) vs f by simp
    then show ?thesis
      using ih tf_spec_level_step [of f m ls w x ws] 2 Cons vs by (simp del: join_levels.simps)
  qed
qed

lemma match_by_spec:
  assumes "cstring f" and "cstring v"
  shows "RTI_MQTT_TopicFilter_match f v =
    Some (case tf_spec f v of None \<Rightarrow> (DDS_RETCODE_ERROR, False) | Some b \<Rightarrow> (DDS_RETCODE_OK, b))"
  using tf_loop_spec [OF assms, of 0 0]
  by (auto simp: RTI_MQTT_TopicFilter_match_def tf_agrees_def split: tf_outcome.splits)

section \<open>Properties\<close>

text \<open>
  Claim C10.  The character-level loop of \<open>RTI_MQTT_TopicFilter_match\<close>, with its two indices and
  inner scanning loops, is equivalent to the reference matcher on the unread suffixes; in
  particular it terminates with a result and never reads outside the two strings (the result
  is never \<open>None\<close>).
\<close>

theorem topic_filter_match_reference:
  assumes "cstring topic_filter" and "cstring topic"
  shows "RTI_MQTT_TopicFilter_match topic_filter topic =
    Some (case tf_spec topic_filter topic of
            None \<Rightarrow> (DDS_RETCODE_ERROR, False)
          | Some b \<Rightarrow> (DDS_RETCODE_OK, b))"
  by (rule match_by_spec [OF assms])

theorem topic_filter_match_reference_witness:
  "RTI_MQTT_TopicFilter_match ''s/+/t/#'' ''s/12/t/x/y'' = Some (DDS_RETCODE_OK, True)
   \<and> RTI_MQTT_TopicFilter_match ''s/+t'' ''s/1'' = Some (DDS_RETCODE_ERROR, False)"
  using topic_filter_match_reference [of "''s/+/t/#''" "''s/12/t/x/y''"]
    topic_filter_match_reference [of "''s/+t''" "''s/1''"]
  by (simp add: cstring_def NUL_def)

text \<open>The matcher assumes that there are no empty levels, as its comment says; the standard lets a wildcard match one.\<close>

lemma topic_filter_empty_level:
  "RTI_MQTT_TopicFilter_match ''+/finance'' ''/finance'' = Some (DDS_RETCODE_OK, False)"
  "RTI_MQTT_TopicFilter_match ''a/+/b'' ''a//b'' = Some (DDS_RETCODE_OK, False)"
  "mqtt_match [''+'', ''finance''] [[], ''finance'']" "mqtt_match [''a'', ''+'', ''b''] [''a'', [], ''b'']"
  by (simp_all add: match_by_spec cstring_def NUL_def)

text \<open>
  Claim C11.  No message is missed because of a filter that ends in a multi-level wildcard or a
  literal level: whenever the MQTT standard says that a filter (well-formed, not ending in
  \<^verbatim>\<open>+\<close>) matches a topic with at least as many levels, the matcher reports a match.  The levels of
  the filter and of the topic are not empty: the standard matches \<^verbatim>\<open>+/finance\<close> with \<^verbatim>\<open>/finance\<close> and
  \<^verbatim>\<open>a/+/b\<close> with \<^verbatim>\<open>a//b\<close>, but the matcher reports no match there (\<open>topic_filter_empty_level\<close>).
\<close>

theorem topic_filter_match_complete:
  assumes "filter_levels fls" and "\<forall>v \<in> set vls. topic_level v"
    and "last fls \<noteq> ''+''" and "length fls \<le> length vls" and "mqtt_match fls vls"
  shows "RTI_MQTT_TopicFilter_match (join_levels fls) (join_levels vls) = Some (DDS_RETCODE_OK, True)"
  using match_by_spec [OF cstring_filter cstring_topic] tf_spec_complete assms by simp

theorem topic_filter_match_complete_witness:
  "RTI_MQTT_TopicFilter_match (join_levels [''a'', ''+'', ''b'']) (join_levels [''a'', ''x'', ''b''])
     = Some (DDS_RETCODE_OK, True)"
  using topic_filter_match_complete [of "[''a'', ''+'', ''b'']" "[''a'', ''x'', ''b'']"]
  by (simp add: filter_levels_def topic_level_def NUL_def)

text \<open>
  For a filter that ends in \<^verbatim>\<open>#\<close> the matcher agrees exactly with the MQTT
  standard on every topic with at least as many levels as the filter.
\<close>

theorem topic_filter_match_hash:
  assumes "filter_levels fls" and "\<forall>v \<in> set vls. topic_level v"
    and "last fls = ''#''" and "length fls \<le> length vls"
  shows "RTI_MQTT_TopicFilter_match (join_levels fls) (join_levels vls)
    = Some (DDS_RETCODE_OK, mqtt_match fls vls)"
  using match_by_spec [OF cstring_filter cstring_topic] tf_spec_hash_exact assms by simp

theorem topic_filter_match_hash_witness:
  "RTI_MQTT_TopicFilter_match (join_levels [''a'', ''#'']) (join_levels [''b'', ''x'', ''y''])
     = Some (DDS_RETCODE_OK, False)"
  using topic_filter_match_hash [of "[''a'', ''#'']" "[''b'', ''x'', ''y'']"]
  by (simp add: filter_levels_def topic_level_def NUL_def)

text \<open>
  What the matcher does where it departs from the standard.  A filter without
  wildcards matches exactly the topics that are a prefix of it, character by character (the
  standard asks for equality), because the loop stops when the topic is used up and the filter
  need not be; and a filter that ends in \<^verbatim>\<open>+\<close> matches no topic that reaches the wildcard,
  because the index is advanced once more behind the end of the topic.
\<close>

theorem topic_filter_match_departures:
  assumes "no_wildcard p" and "cstring p" and "cstring v" and "cstring w" and "w \<noteq> []"
  shows "RTI_MQTT_TopicFilter_match p v = Some (DDS_RETCODE_OK, prefix v p) \<and>
    RTI_MQTT_TopicFilter_match (p @ ''+'') (p @ w) = Some (DDS_RETCODE_OK, False)"
proof
  show "RTI_MQTT_TopicFilter_match p v = Some (DDS_RETCODE_OK, prefix v p)"
    using match_by_spec [OF assms(2,3)] tf_spec_no_wildcard [OF assms(1)] by simp
next
  have "tf_spec (p @ ''+'') (p @ w) = Some False"
    using assms(1,5) by (cases w) auto
  moreover have "cstring (p @ ''+'')" and "cstring (p @ w)"
    using assms by (auto simp: cstring_def NUL_def)
  ultimately show "RTI_MQTT_TopicFilter_match (p @ ''+'') (p @ w) = Some (DDS_RETCODE_OK, False)"
    by (simp add: match_by_spec)
qed

theorem topic_filter_match_departures_witness:
  "RTI_MQTT_TopicFilter_match ''sensors/'' ''sensors'' = Some (DDS_RETCODE_OK, True) \<and>
   RTI_MQTT_TopicFilter_match (''sensors/'' @ ''+'') (''sensors/'' @ ''temp'')
     = Some (DDS_RETCODE_OK, False)"
  using topic_filter_match_departures [of "''sensors/''" "''sensors''" "''temp''"]
  by (simp add: no_wildcard_def cstring_def NUL_def)

text \<open>
  Conversion between QoS levels and MQTT numbers: encoding and decoding are inverse,
  encoding fails exactly on the values that are not a valid level, and decoding fails exactly
  outside 0, 1, 2.
\<close>

theorem qos_level_roundtrip:
  "(RTI_MQTT_QosLevel_to_mqtt_qos q = (DDS_RETCODE_OK, Some n) \<longleftrightarrow>
     RTI_MQTT_QosLevel_from_mqtt_qos n = (DDS_RETCODE_OK, Some q)) \<and>
   (fst (RTI_MQTT_QosLevel_to_mqtt_qos q) = DDS_RETCODE_OK \<longleftrightarrow> RTI_MQTT_QosLevel_is_valid q) \<and>
   (fst (RTI_MQTT_QosLevel_from_mqtt_qos n) = DDS_RETCODE_OK \<longleftrightarrow> unat n \<le> 2)"
proof -
  have "unat n \<le> 2 \<longleftrightarrow> n = 0 \<or> n = 1 \<or> n = 2"
  proof
    assume "unat n \<le> 2"
    then have "unat n = unat (0 :: u32) \<or> unat n = unat (1 :: u32) \<or> unat n = unat (2 :: u32)" by auto
    then show "n = 0 \<or> n = 1 \<or> n = 2" by (simp only: word_unat_eq_iff)
  qed auto
  then show ?thesis
    by (cases q) (auto simp: RTI_MQTT_QosLevel_from_mqtt_qos_def)
qed

text \<open>
  The overflow test of \<^verbatim>\<open>RTI_MQTT_Time_normalize\<close> is reversed.  Of the times with at
  least one second of nanoseconds and a non-negative number of seconds, those whose sum fits are
  rejected (all but the largest few), and those whose sum does not fit are accepted, with a
  negative number of seconds as the result.
\<close>

theorem time_normalize_overflow_reversed:
  assumes "0 \<le> sint (seconds t)" and "1000000000 \<le> unat (nanoseconds t)"
  shows "(unat (seconds t) + unat (nanoseconds t) div 1000000000 < 2147483647 \<longrightarrow>
      RTI_MQTT_Time_to_seconds t = (DDS_RETCODE_ERROR, None)) \<and>
    (2147483647 < unat (seconds t) + unat (nanoseconds t) div 1000000000 \<longrightarrow>
      (\<exists>s. RTI_MQTT_Time_to_seconds t = (DDS_RETCODE_OK, Some s) \<and> sint s < 0))"
proof -
  let ?ns = "nanoseconds t div 1000000000"
  have ns: "unat ?ns = unat (nanoseconds t) div 1000000000"
    by (simp add: unat_div)
  have lt: "unat (nanoseconds t) div 1000000000 \<le> 4"
    using unat_u32_less [of "nanoseconds t"] by simp
  have pos: "?ns > 0" using assms(2) ns by (simp add: word_less_nat_alt)
  have s: "unat (seconds t) < 2147483648"
    using assms(1) unat_u32_less [of "seconds t"] by (simp add: sint_u32 split: if_splits)
  have d: "unat (INT_MAX - ?ns) = 2147483647 - unat ?ns"
    using lt ns by (subst unat_sub_u32) (simp_all add: INT_MAX_def)
  have a: "unat (seconds t + ?ns) = unat (seconds t) + unat ?ns"
    using s lt ns by (intro unat_add_u32) simp
  have r: "RTI_MQTT_Time_to_seconds t =
      (if unat (seconds t) < 2147483647 - unat ?ns then (DDS_RETCODE_ERROR, None)
       else (DDS_RETCODE_OK, Some (seconds t + ?ns)))"
    using pos d by (simp add: RTI_MQTT_Time_to_seconds_def RTI_MQTT_Time_normalize_def Let_def
        word_less_nat_alt)
  show ?thesis
  proof (intro conjI impI)
    assume "unat (seconds t) + unat (nanoseconds t) div 1000000000 < 2147483647"
    then show "RTI_MQTT_Time_to_seconds t = (DDS_RETCODE_ERROR, None)" using r ns by simp
  next
    assume b: "2147483647 < unat (seconds t) + unat (nanoseconds t) div 1000000000"
    then have "\<not> unat (seconds t) < 2147483647 - unat ?ns" using ns by simp
    moreover have "\<not> unat (seconds t + ?ns) < 2147483648" using a b ns by linarith
    then have "sint (seconds t + ?ns) < 0"
      unfolding sint_u32 using unat_u32_less [of "seconds t + ?ns"] by (simp only: if_False)
    ultimately show "\<exists>s. RTI_MQTT_Time_to_seconds t = (DDS_RETCODE_OK, Some s) \<and> sint s < 0"
      using r by simp
  qed
qed

theorem time_normalize_overflow_reversed_witness:
  "RTI_MQTT_Time_to_seconds \<lparr>seconds = 10, nanoseconds = 1000000000\<rparr> = (DDS_RETCODE_ERROR, None) \<and>
   (\<exists>s. RTI_MQTT_Time_to_seconds \<lparr>seconds = 2147483647, nanoseconds = 2000000000\<rparr>
      = (DDS_RETCODE_OK, Some s) \<and> sint s < 0)"
  using time_normalize_overflow_reversed [of "\<lparr>seconds = 10, nanoseconds = 1000000000\<rparr>"]
    time_normalize_overflow_reversed [of "\<lparr>seconds = 2147483647, nanoseconds = 2000000000\<rparr>"]
  by (simp add: sint_u32)

end
