(* ===== verification/MessageQueue.thy ===== *)
theory MessageQueue
  imports Infrastructure
begin

text \<open>
  Messages and the receive queue of a subscription,
  \<^verbatim>\<open>plugins/adapters/mqtt/srcC/mqtt/Message.c\<close>.

  The queue is a record with the fields of \<^verbatim>\<open>struct RTI_MQTT_MessageReceiveQueue\<close>: indices and
  counters are 32-bit words, the slots are the sequence of pointers to
  \<^verbatim>\<open>struct RTI_MQTT_ReceivedMessage\<close>.  The recursive mutex is its depth.  Three ghost fields
  record effects that leave no trace in the structure: the samples given back to the DDS type
  support, the number of live slot objects and the number of listener calls.

  An operation returns \<open>None\<close> where the C code dereferences a null or dangling pointer or does not
  come back.  The environment record holds the outcomes of the calls into the DDS library and the
  heap; calls made in a loop are numbered, so that any of them may fail.
\<close>

section \<open>Messages\<close>

record message_info =
  info_id :: i32
  info_qos_level :: qos_level
  info_retained :: bool
  info_duplicate :: bool

record mqtt_message =
  msg_topic :: "string option"
  msg_info :: "message_info option"
  msg_payload :: "octet list"

definition RTI_MQTT_Message_to_dynamic_data ::
    "'d dyn_api \<Rightarrow> mqtt_message \<Rightarrow> 'd \<Rightarrow> retcode \<times> 'd" where
  "RTI_MQTT_Message_to_dynamic_data dyn self sample =
     run_steps
       ((case msg_topic self of None \<Rightarrow> [] | Some t \<Rightarrow> [dyn_set_string dyn ''topic'' t]) @
        (case msg_info self of
           None \<Rightarrow> []
         | Some info \<Rightarrow>
             [dyn_set_long dyn ''info.id'' (info_id info),
              dyn_set_long dyn ''info.qos_level'' (long_of_qos_level (info_qos_level info)),
              dyn_set_boolean dyn ''info.retained'' (info_retained info),
              dyn_set_boolean dyn ''info.duplicate'' (info_duplicate info)]) @
        [dyn_set_octet_seq dyn ''payload.data'' (msg_payload self)])
       sample"

text \<open>
  \<open>create_info\<close> is the result of \<^verbatim>\<open>RTI_MQTT_MessageInfoPluginSupport_create_data\<close> (\<open>None\<close> is
  \<^verbatim>\<open>NULL\<close>, which the code then writes through) and \<open>str_replace\<close> says whether
  \<^verbatim>\<open>DDS_String_replace\<close> can allocate its copy.
\<close>

definition set_info :: "(message_info \<Rightarrow> message_info) \<Rightarrow> mqtt_message \<Rightarrow> mqtt_message" where
  "set_info f m = m\<lparr>msg_info := map_option f (msg_info m)\<rparr>"

definition RTI_MQTT_Message_from_dynamic_data ::
    "'d dyn_api \<Rightarrow> message_info option \<Rightarrow> (string \<Rightarrow> bool) \<Rightarrow> mqtt_message \<Rightarrow> 'd
     \<Rightarrow> (retcode \<times> mqtt_message) option" where
  "RTI_MQTT_Message_from_dynamic_data dyn create_info str_replace self sample =
     (let allocd_info = (msg_info self = None);
          self1 = (if allocd_info then self\<lparr>msg_info := create_info\<rparr> else self) in
      if msg_info self1 = None then None
      else
        let (retval, self2) = run_steps
          [\<lambda>m. map_option (\<lambda>v. set_info (info_id_update (\<lambda>_. v)) m)
                 (dyn_get_long dyn ''info.id'' sample),
           \<lambda>m. (case dyn_get_string dyn ''topic'' sample of
                  None \<Rightarrow> None
                | Some v \<Rightarrow> if str_replace v then Some (m\<lparr>msg_topic := Some v\<rparr>) else None),
           \<lambda>m. map_option (\<lambda>v. set_info (info_qos_level_update (\<lambda>_. qos_level_of_long v)) m)
                 (dyn_get_long dyn ''info.qos_level'' sample),
           \<lambda>m. map_option (\<lambda>v. set_info (info_retained_update (\<lambda>_. v)) m)
                 (dyn_get_boolean dyn ''info.retained'' sample),
           \<lambda>m. map_option (\<lambda>v. set_info (info_duplicate_update (\<lambda>_. v)) m)
                 (dyn_get_boolean dyn ''info.duplicate'' sample),
           \<lambda>m. map_option (\<lambda>v. m\<lparr>msg_payload := v\<rparr>)
                 (dyn_get_octet_seq dyn ''payload.data'' sample)]
          self1 in
        Some (retval, if retval \<noteq> DDS_RETCODE_OK \<and> allocd_info then self2\<lparr>msg_info := None\<rparr> else self2))"

section \<open>The queue and its environment\<close>

text \<open>\<^verbatim>\<open>struct RTI_MQTT_ReceivedMessage\<close>, and a pointer to one.\<close>

record 'd rmsg =
  rm_message :: "'d option"
  rm_read :: bool

datatype 'd rmsg_ptr = Null | Dangling | Ref "'d rmsg"

record msg_status =
  received_count :: u32
  unread_count :: u32
  read_count :: u32
  lost_count :: u32

record 'd mrqueue =
  q_lock :: nat
  q_capacity :: u32
  q_size :: u32
  q_head :: u32
  q_next :: u32
  q_next_unread :: u32
  q_read_buffer :: "'d option dds_seq"
  q_dyn_data :: bool
  q_read_buffer_loaned :: bool
  q_queue :: "'d rmsg_ptr dds_seq"
  q_listener_data_avail :: bool
  q_msg_status :: msg_status
  q_notified :: nat
  q_live :: int
  q_freed :: "'d list"

text \<open>
  The environment of a call.  \<open>qe_heap i\<close> and \<open>qe_delete i\<close> are the outcomes of the \<open>i\<close>-th allocation
  and of the \<open>i\<close>-th \<^verbatim>\<open>DDS_DynamicDataTypeSupport_delete_data\<close>; \<open>qe_copy i d\<close> is the sample that
  the \<open>i\<close>-th \<^verbatim>\<open>DDS_DynamicDataTypeSupport_copy_data\<close> leaves in its destination.  The three
  sequence types of the queue (slots, read buffer, the caller's samples) and the octet sequence
  have their own operations.
\<close>

record 'd queue_env =
  qe_heap :: "nat \<Rightarrow> bool"
  qe_mutex_init :: bool
  qe_queue_init :: bool
  qe_buffer_init :: bool
  qe_dyn_new :: bool
  qe_slots :: "'d rmsg_ptr seq_api"
  qe_ptrs :: "'d option seq_api"
  qe_samples :: "'d option seq_api"
  qe_octets :: "octet seq_api"
  qe_octets_init :: bool
  qe_dyn :: "'d dyn_api"
  qe_create :: "'d option"
  qe_copy :: "nat \<Rightarrow> 'd \<Rightarrow> 'd option"
  qe_delete :: "nat \<Rightarrow> bool"

definition RTI_MQTT_SUBSCRIPTION_READ_LENGTH_UNLIMITED :: u32 where
  "RTI_MQTT_SUBSCRIPTION_READ_LENGTH_UNLIMITED = 0"

definition seq_get_length :: "'a dds_seq \<Rightarrow> u32" where
  "seq_get_length s = of_nat (length (seq_buf s))"

definition seq_get_maximum :: "'a dds_seq \<Rightarrow> u32" where
  "seq_get_maximum s = of_nat (seq_max s)"

definition set_elem :: "nat \<Rightarrow> 'a \<Rightarrow> 'a dds_seq \<Rightarrow> 'a dds_seq" where
  "set_elem i x s = s\<lparr>seq_buf := (seq_buf s)[i := x]\<rparr>"

text \<open>
  \<^verbatim>\<open>*get_reference(&self->queue, idx)\<close> dereferenced: \<open>None\<close> outside the sequence and for a
  pointer that is null or dangling.
\<close>

definition slot_at :: "'d mrqueue \<Rightarrow> nat \<Rightarrow> 'd rmsg option" where
  "slot_at q i =
     (if i < length (seq_buf (q_queue q))
      then (case seq_buf (q_queue q) ! i of Ref m \<Rightarrow> Some m | _ \<Rightarrow> None)
      else None)"

definition set_slot :: "nat \<Rightarrow> 'd rmsg_ptr \<Rightarrow> 'd mrqueue \<Rightarrow> 'd mrqueue" where
  "set_slot i p q = q\<lparr>q_queue := set_elem i p (q_queue q)\<rparr>"

definition RTI_MQTT_Mutex_take :: "'d mrqueue \<Rightarrow> 'd mrqueue" where
  "RTI_MQTT_Mutex_take q = q\<lparr>q_lock := q_lock q + 1\<rparr>"

definition RTI_MQTT_Mutex_give :: "'d mrqueue \<Rightarrow> 'd mrqueue" where
  "RTI_MQTT_Mutex_give q = q\<lparr>q_lock := q_lock q - 1\<rparr>"

text \<open>The \<open>i\<close>-th call of \<^verbatim>\<open>DDS_DynamicDataTypeSupport_delete_data\<close>, its result ignored.\<close>

definition delete_sample :: "'d queue_env \<Rightarrow> nat \<Rightarrow> 'd option \<Rightarrow> 'd mrqueue \<Rightarrow> 'd mrqueue" where
  "delete_sample env i d q =
     (case d of
        None \<Rightarrow> q
      | Some x \<Rightarrow> if qe_delete env i then q\<lparr>q_freed := q_freed q @ [x]\<rparr> else q)"

section \<open>Creation and destruction\<close>

definition RTI_MQTT_ReceivedMessage_initialize :: "'d rmsg" where
  "RTI_MQTT_ReceivedMessage_initialize = \<lparr>rm_message = None, rm_read = False\<rparr>"

definition RTI_MQTT_ReceivedMessage_new :: "bool \<Rightarrow> retcode \<times> 'd rmsg_ptr" where
  "RTI_MQTT_ReceivedMessage_new heap_ok =
     (if \<not> heap_ok then (DDS_RETCODE_ERROR, Null)
      else (DDS_RETCODE_OK, Ref RTI_MQTT_ReceivedMessage_initialize))"

definition RTI_MQTT_ReceivedMessage_finalize :: "'d rmsg \<Rightarrow> retcode" where
  "RTI_MQTT_ReceivedMessage_finalize m =
     (if rm_message m \<noteq> None then DDS_RETCODE_ERROR else DDS_RETCODE_OK)"

text \<open>The slot object is released whether or not its finalisation reports an error.\<close>

definition RTI_MQTT_ReceivedMessage_delete :: "'d mrqueue \<Rightarrow> 'd mrqueue" where
  "RTI_MQTT_ReceivedMessage_delete q = q\<lparr>q_live := q_live q - 1\<rparr>"

text \<open>
  The loop that allocates the slots, from index \<open>i\<close>; the result is \<^verbatim>\<open>initd_msgs\<close>, the queue and
  whether the loop reached the capacity.
\<close>

function init_slots :: "'d queue_env \<Rightarrow> nat \<Rightarrow> 'd mrqueue \<Rightarrow> nat \<times> 'd mrqueue \<times> bool" where
  "init_slots env i q =
     (if i < unat (q_capacity q) then
        (case RTI_MQTT_ReceivedMessage_new (qe_heap env i) of
           (rc, msg) \<Rightarrow>
             if rc \<noteq> DDS_RETCODE_OK then (i, q, False)
             else init_slots env (i + 1) ((set_slot i msg q)\<lparr>q_live := q_live q + 1\<rparr>))
      else (i, q, True))"
  by pat_completeness auto
termination
  by (relation "measure (\<lambda>(env, i, q). unat (q_capacity q) - i)") (auto simp: set_slot_def)

declare init_slots.simps [simp del]

text \<open>The loop that deletes the samples and the slot objects with index from \<open>i\<close> below \<open>n\<close>.\<close>

function delete_slots :: "'d queue_env \<Rightarrow> nat \<Rightarrow> nat \<Rightarrow> 'd mrqueue \<Rightarrow> 'd mrqueue option" where
  "delete_slots env i n q =
     (if i < n then
        (case slot_at q i of
           None \<Rightarrow> None
         | Some m \<Rightarrow>
             delete_slots env (i + 1) n
               (set_slot i Dangling
                 (RTI_MQTT_ReceivedMessage_delete (delete_sample env i (rm_message m) q))))
      else Some q)"
  by pat_completeness auto
termination
  by (relation "measure (\<lambda>(env, i, n, q). n - i)") auto

declare delete_slots.simps [simp del]

definition RTI_MQTT_MessageReceiveQueue_initialize_circular ::
    "'d queue_env \<Rightarrow> 'd mrqueue \<Rightarrow> (retcode \<times> 'd mrqueue) option" where
  "RTI_MQTT_MessageReceiveQueue_initialize_circular env self =
     (if q_capacity self = 0 then Some (DDS_RETCODE_ERROR, self)
      else if \<not> qe_buffer_init env then Some (DDS_RETCODE_ERROR, self)
      else
        case seq_set_maximum (qe_ptrs env) (q_capacity self) seq_empty of
          None \<Rightarrow> Some (DDS_RETCODE_ERROR, self\<lparr>q_read_buffer := seq_empty\<rparr>)
        | Some rb \<Rightarrow>
            let self1 = self\<lparr>q_read_buffer := rb, q_read_buffer_loaned := False\<rparr> in
            case seq_set_maximum (qe_slots env) (q_capacity self) (q_queue self) of
              None \<Rightarrow> Some (DDS_RETCODE_ERROR, self1\<lparr>q_read_buffer := seq_empty\<rparr>)
            | Some s1 \<Rightarrow>
                case seq_set_length (qe_slots env) (q_capacity self) s1 of
                  None \<Rightarrow> Some (DDS_RETCODE_ERROR, self1\<lparr>q_queue := s1, q_read_buffer := seq_empty\<rparr>)
                | Some s2 \<Rightarrow>
                    case init_slots env 0 (self1\<lparr>q_queue := s2\<rparr>) of
                      (initd_msgs, self2, ok) \<Rightarrow>
                        if ok then Some (DDS_RETCODE_OK, self2)
                        else map_option (\<lambda>q. (DDS_RETCODE_ERROR, q\<lparr>q_read_buffer := seq_empty\<rparr>))
                               (delete_slots env 0 initd_msgs self2))"

definition RTI_MQTT_MessageReceiveQueue_initialize_unbounded ::
    "'d queue_env \<Rightarrow> 'd mrqueue \<Rightarrow> retcode \<times> 'd mrqueue" where
  "RTI_MQTT_MessageReceiveQueue_initialize_unbounded env self =
     (if q_capacity self > 0 then (DDS_RETCODE_ERROR, self)
      else if \<not> qe_buffer_init env then (DDS_RETCODE_ERROR, self)
      else (DDS_RETCODE_OK, self\<lparr>q_read_buffer := seq_empty, q_read_buffer_loaned := False\<rparr>))"

text \<open>
  The fields as \<^verbatim>\<open>initialize\<close> assigns them.  The members it leaves alone (read buffer, loan flag
  and slots) belong to fresh heap memory and are set before they are read.
\<close>

definition initial_queue :: "u32 \<Rightarrow> msg_status \<Rightarrow> 'd mrqueue" where
  "initial_queue sz status =
     \<lparr>q_lock = 0, q_capacity = sz, q_size = 0, q_head = 0, q_next = 0, q_next_unread = 0,
      q_read_buffer = seq_empty, q_dyn_data = False, q_read_buffer_loaned = False,
      q_queue = seq_empty, q_listener_data_avail = False, q_msg_status = status,
      q_notified = 0, q_live = 0, q_freed = []\<rparr>"

definition RTI_MQTT_MessageReceiveQueue_initialize ::
    "'d queue_env \<Rightarrow> u32 \<Rightarrow> msg_status \<Rightarrow> (retcode \<times> 'd mrqueue) option" where
  "RTI_MQTT_MessageReceiveQueue_initialize env sz status =
     (let self = initial_queue sz status in
      if \<not> qe_mutex_init env then Some (DDS_RETCODE_ERROR, self)
      else if \<not> qe_queue_init env then Some (DDS_RETCODE_ERROR, self)
      else if \<not> qe_dyn_new env then Some (DDS_RETCODE_ERROR, self\<lparr>q_queue := seq_empty\<rparr>)
      else
        let self1 = self\<lparr>q_dyn_data := True\<rparr> in
        map_option
          (\<lambda>(rc, q). if rc \<noteq> DDS_RETCODE_OK
                     then (DDS_RETCODE_ERROR, q\<lparr>q_queue := seq_empty, q_dyn_data := False\<rparr>)
                     else (DDS_RETCODE_OK, q))
          (if q_capacity self1 > 0 then RTI_MQTT_MessageReceiveQueue_initialize_circular env self1
           else Some (RTI_MQTT_MessageReceiveQueue_initialize_unbounded env self1)))"

definition RTI_MQTT_MessageReceiveQueue_new ::
    "'d queue_env \<Rightarrow> bool \<Rightarrow> u32 \<Rightarrow> msg_status \<Rightarrow> (retcode \<times> 'd mrqueue option) option" where
  "RTI_MQTT_MessageReceiveQueue_new env heap_ok sz status =
     (if \<not> heap_ok then Some (DDS_RETCODE_ERROR, None)
      else map_option
             (\<lambda>(rc, q). if rc \<noteq> DDS_RETCODE_OK then (DDS_RETCODE_ERROR, None)
                        else (DDS_RETCODE_OK, Some q))
             (RTI_MQTT_MessageReceiveQueue_initialize env sz status))"

definition RTI_MQTT_MessageReceiveQueue_finalize ::
    "'d queue_env \<Rightarrow> 'd mrqueue \<Rightarrow> (retcode \<times> 'd mrqueue) option" where
  "RTI_MQTT_MessageReceiveQueue_finalize env self =
     map_option
       (\<lambda>q. (DDS_RETCODE_OK,
              q\<lparr>q_queue := seq_empty, q_read_buffer := seq_empty, q_dyn_data := False\<rparr>))
       (delete_slots env 0 (length (seq_buf (q_queue self))) self)"

section \<open>Receiving a message\<close>

text \<open>The result is the queue, \<^verbatim>\<open>*dropped_out\<close> and \<^verbatim>\<open>*lost_out\<close>.\<close>

definition RTI_MQTT_MessageReceiveQueue_receive_circular ::
    "'d mrqueue \<Rightarrow> 'd \<Rightarrow> ('d mrqueue \<times> 'd option \<times> bool) option" where
  "RTI_MQTT_MessageReceiveQueue_receive_circular self msg =
     (case slot_at self (unat (q_next self)) of
        None \<Rightarrow> None
      | Some msg_new \<Rightarrow>
          let dropped = rm_message msg_new;
              lost = (dropped \<noteq> None);
              q1 = set_slot (unat (q_next self)) (Ref (msg_new\<lparr>rm_message := Some msg\<rparr>)) self;
              q2 = (if q_size q1 < q_capacity q1 then q1\<lparr>q_size := q_size q1 + 1\<rparr>
                    else q1\<lparr>q_head := (q_head q1 + 1) mod q_capacity q1\<rparr>);
              q3 = q2\<lparr>q_next := (q_next q2 + 1) mod q_capacity q2\<rparr>;
              q4 = (if lost then q3\<lparr>q_next_unread := (q_next_unread q3 + 1) mod q_capacity q3\<rparr> else q3);
              q5 = (if q_listener_data_avail q4 then q4\<lparr>q_notified := q_notified q4 + 1\<rparr> else q4)
          in Some (q5, dropped, lost))"

definition RTI_MQTT_MessageReceiveQueue_receive_unbounded ::
    "'d queue_env \<Rightarrow> 'd mrqueue \<Rightarrow> 'd \<Rightarrow> (retcode \<times> 'd mrqueue) option" where
  "RTI_MQTT_MessageReceiveQueue_receive_unbounded env self msg =
     (let seq_len = seq_get_length (q_queue self) in
      case seq_ensure_length (qe_slots env) (seq_len + 1) (seq_len + 1) (q_queue self) of
        None \<Rightarrow> Some (DDS_RETCODE_ERROR, self)
      | Some s \<Rightarrow>
          let q1 = self\<lparr>q_queue := s\<rparr> in
          if \<not> unat seq_len < length (seq_buf s) then None
          else
            case RTI_MQTT_ReceivedMessage_new (qe_heap env 0) of
              (rc, msg_ref) \<Rightarrow>
                if rc = DDS_RETCODE_OK then
                  Some (DDS_RETCODE_OK,
                    (set_slot (unat seq_len)
                      (case msg_ref of Ref m \<Rightarrow> Ref (m\<lparr>rm_message := Some msg\<rparr>) | p \<Rightarrow> p) q1)
                      \<lparr>q_live := q_live q1 + 1\<rparr>)
                else
                  let shrink = (\<lambda>q. case seq_set_length (qe_slots env) (seq_get_length (q_queue q) - 1)
                                        (q_queue q) of
                                     None \<Rightarrow> q | Some s' \<Rightarrow> q\<lparr>q_queue := s'\<rparr>) in
                  case seq_buf s ! unat seq_len of
                    Null \<Rightarrow> Some (DDS_RETCODE_ERROR, shrink q1)
                  | Dangling \<Rightarrow> None
                  | Ref m \<Rightarrow>
                      Some (DDS_RETCODE_ERROR,
                        shrink (set_slot (unat seq_len) Dangling
                          (RTI_MQTT_ReceivedMessage_delete (delete_sample env 0 (rm_message m) q1)))))"

text \<open>
  The sample that \<^verbatim>\<open>receive\<close> builds from the buffer: \<open>None\<close> when one of the calls fails.  Nothing
  of the queue has been touched then.
\<close>

definition received_sample ::
    "'d queue_env \<Rightarrow> octet list \<Rightarrow> u32 \<Rightarrow> string \<Rightarrow> message_info option \<Rightarrow> 'd option" where
  "received_sample env buffer buffer_len topic info =
     (case qe_create env of
        None \<Rightarrow> None
      | Some msg \<Rightarrow>
          if \<not> qe_octets_init env then None
          else
            case seq_loan (qe_octets env) buffer buffer_len buffer_len seq_empty of
              None \<Rightarrow> None
            | Some data \<Rightarrow>
                case RTI_MQTT_Message_to_dynamic_data (qe_dyn env)
                       \<lparr>msg_topic = Some topic, msg_info = info, msg_payload = seq_buf data\<rparr> msg of
                  (rc, msg') \<Rightarrow> if rc \<noteq> DDS_RETCODE_OK then None else Some msg')"

definition count_received :: "bool \<Rightarrow> msg_status \<Rightarrow> msg_status" where
  "count_received lost st =
     (let st1 = st\<lparr>received_count := received_count st + 1, unread_count := unread_count st + 1\<rparr> in
      if lost then st1\<lparr>lost_count := lost_count st1 + 1, unread_count := unread_count st1 - 1\<rparr>
      else st1)"

definition RTI_MQTT_MessageReceiveQueue_receive ::
    "'d queue_env \<Rightarrow> 'd mrqueue \<Rightarrow> octet list \<Rightarrow> u32 \<Rightarrow> string \<Rightarrow> message_info option
     \<Rightarrow> (retcode \<times> 'd mrqueue \<times> 'd option \<times> bool) option" where
  "RTI_MQTT_MessageReceiveQueue_receive env self buffer buffer_len topic info =
     (case received_sample env buffer buffer_len topic info of
        None \<Rightarrow> Some (DDS_RETCODE_ERROR, self, None, False)
      | Some msg \<Rightarrow>
          let q1 = RTI_MQTT_Mutex_take self;
              finish = (\<lambda>q dropped lost.
                (DDS_RETCODE_OK,
                 RTI_MQTT_Mutex_give (q\<lparr>q_msg_status := count_received lost (q_msg_status q)\<rparr>),
                 dropped, lost)) in
          if q_capacity q1 > 0 then
            map_option (\<lambda>(q, dropped, lost). finish q dropped lost)
              (RTI_MQTT_MessageReceiveQueue_receive_circular q1 msg)
          else
            map_option (\<lambda>(rc, q). if rc \<noteq> DDS_RETCODE_OK
                          then (DDS_RETCODE_ERROR, RTI_MQTT_Mutex_give q, None, False)
                          else finish q None False)
              (RTI_MQTT_MessageReceiveQueue_receive_unbounded env q1 msg))"

definition RTI_MQTT_MessageReceiveQueue_set_listener ::
    "'d mrqueue \<Rightarrow> bool \<Rightarrow> retcode \<times> 'd mrqueue" where
  "RTI_MQTT_MessageReceiveQueue_set_listener self listener =
     (DDS_RETCODE_OK, self\<lparr>q_listener_data_avail := listener\<rparr>)"

section \<open>Returning a loan\<close>

text \<open>Deletes the samples of the read buffer with index from \<open>i\<close> below \<open>n\<close>.\<close>

function clear_read_buffer :: "'d queue_env \<Rightarrow> nat \<Rightarrow> nat \<Rightarrow> 'd mrqueue \<Rightarrow> 'd mrqueue option" where
  "clear_read_buffer env i n q =
     (if i < n then
        if i < length (seq_buf (q_read_buffer q)) then
          clear_read_buffer env (i + 1) n
            ((delete_sample env i (seq_buf (q_read_buffer q) ! i) q)
              \<lparr>q_read_buffer := set_elem i None (q_read_buffer q)\<rparr>)
        else None
      else Some q)"
  by pat_completeness auto
termination
  by (relation "measure (\<lambda>(env, i, n, q). n - i)") auto

declare clear_read_buffer.simps [simp del]

definition RTI_MQTT_MessageReceiveQueue_return_loan ::
    "'d queue_env \<Rightarrow> 'd mrqueue \<Rightarrow> 'd option dds_seq
     \<Rightarrow> (retcode \<times> 'd mrqueue \<times> 'd option dds_seq) option" where
  "RTI_MQTT_MessageReceiveQueue_return_loan env self messages =
     (let q = RTI_MQTT_Mutex_take self in
      if \<not> q_read_buffer_loaned q then Some (DDS_RETCODE_OK, RTI_MQTT_Mutex_give q, messages)
      else
        let messages_len = seq_get_length messages in
        case seq_unloan (qe_samples env) messages of
          None \<Rightarrow> Some (DDS_RETCODE_ERROR, RTI_MQTT_Mutex_give q, messages)
        | Some messages' \<Rightarrow>
            case seq_set_length (qe_ptrs env) messages_len (q_read_buffer q) of
              None \<Rightarrow> Some (DDS_RETCODE_ERROR, RTI_MQTT_Mutex_give q, messages')
            | Some rb \<Rightarrow>
                case clear_read_buffer env 0 (unat messages_len) (q\<lparr>q_read_buffer := rb\<rparr>) of
                  None \<Rightarrow> None
                | Some q1 \<Rightarrow>
                    case seq_set_length (qe_ptrs env) 0 (q_read_buffer q1) of
                      None \<Rightarrow> Some (DDS_RETCODE_ERROR, RTI_MQTT_Mutex_give q1, messages')
                    | Some rb' \<Rightarrow>
                        Some (DDS_RETCODE_OK,
                          RTI_MQTT_Mutex_give (q1\<lparr>q_read_buffer := rb', q_read_buffer_loaned := False\<rparr>),
                          messages'))"

section \<open>Reading from a circular queue\<close>

text \<open>
  The arguments of the loop once the checks at the start of \<^verbatim>\<open>read_circular\<close> have passed
  (\<open>Inr\<close>), or the point where \<^verbatim>\<open>goto done\<close> left them (\<open>Inl\<close>): \<^verbatim>\<open>max_messages\<close>,
  \<^verbatim>\<open>loan\<close>, the queue and the caller's sequence.
\<close>

type_synonym 'd read_args = "u32 \<times> bool \<times> 'd mrqueue \<times> 'd option dds_seq"

definition read_circular_begin ::
    "'d queue_env \<Rightarrow> 'd mrqueue \<Rightarrow> u32 \<Rightarrow> 'd option dds_seq \<Rightarrow> 'd read_args + 'd read_args" where
  "read_circular_begin env self max_messages messages =
     (let messages_max = seq_get_maximum messages in
      if messages_max > 0 then
        if max_messages = RTI_MQTT_SUBSCRIPTION_READ_LENGTH_UNLIMITED
        then Inl (max_messages, False, self, messages)
        else if messages_max < max_messages then Inl (max_messages, False, self, messages)
        else
          case seq_set_length (qe_samples env) max_messages messages of
            None \<Rightarrow> Inl (max_messages, False, self, messages)
          | Some messages' \<Rightarrow> Inr (max_messages, False, self, messages')
      else
        if max_messages \<noteq> RTI_MQTT_SUBSCRIPTION_READ_LENGTH_UNLIMITED
        then Inl (max_messages, False, self, messages)
        else if q_read_buffer_loaned self then Inl (max_messages, False, self, messages)
        else
          let max_messages' = seq_get_maximum (q_read_buffer self) in
          case seq_set_length (qe_ptrs env) max_messages' (q_read_buffer self) of
            None \<Rightarrow> Inl (max_messages', True, self, messages)
          | Some rb \<Rightarrow>
              let self' = self\<lparr>q_read_buffer := rb\<rparr> in
              case seq_set_length (qe_samples env) 0 messages of
                None \<Rightarrow> Inl (max_messages', True, self', messages)
              | Some messages' \<Rightarrow> Inr (max_messages', True, self', messages'))"

text \<open>
  One slot moved to the read buffer (a loan), or copied to the caller and its sample deleted.
  \<open>None\<close> is undefined behaviour; \<open>Some (ok, \<dots>)\<close> has \<open>ok\<close> false after a failed copy or deletion.
  A null sample makes \<^verbatim>\<open>copy_data\<close> fail.
\<close>

definition take_sample ::
    "'d queue_env \<Rightarrow> bool \<Rightarrow> nat \<Rightarrow> nat \<Rightarrow> 'd rmsg \<Rightarrow> 'd mrqueue \<Rightarrow> 'd option dds_seq
     \<Rightarrow> (bool \<times> 'd mrqueue \<times> 'd option dds_seq) option" where
  "take_sample env loan i idx m q messages =
     (let clear = set_slot idx (Ref (m\<lparr>rm_message := None\<rparr>)) in
      if loan then
        if i < length (seq_buf (q_read_buffer q)) then
          Some (True, clear (q\<lparr>q_read_buffer := set_elem i (rm_message m) (q_read_buffer q)\<rparr>), messages)
        else None
      else if \<not> i < length (seq_buf messages) then None
      else
        case rm_message m of
          None \<Rightarrow> Some (False, q, messages)
        | Some d \<Rightarrow>
            case qe_copy env i d of
              None \<Rightarrow> Some (False, q, messages)
            | Some d' \<Rightarrow>
                let messages' = set_elem i (Some d') messages in
                if \<not> qe_delete env i then Some (False, q, messages')
                else Some (True, clear (delete_sample env i (Some d) q), messages'))"

text \<open>
  The loop.  \<^verbatim>\<open>tot_messages\<close> equals \<open>i\<close> wherever it is read.  The result is whether the loop
  ended without \<^verbatim>\<open>goto done\<close>, \<open>i\<close>, \<open>idx\<close>, the slot \<^verbatim>\<open>rcvd_msg\<close> points to (if any), the queue and the
  caller's sequence.
\<close>

type_synonym 'd read_result = "bool \<times> u32 \<times> u32 \<times> nat option \<times> 'd mrqueue \<times> 'd option dds_seq"

function read_circular_loop ::
    "'d queue_env \<Rightarrow> bool \<Rightarrow> u32 \<Rightarrow> u32 \<Rightarrow> u32 \<Rightarrow> nat option \<Rightarrow> 'd mrqueue \<Rightarrow> 'd option dds_seq
     \<Rightarrow> 'd read_result option" where
  "read_circular_loop env loan max_messages i idx rcvd q messages =
     (if i < max_messages \<and> idx \<noteq> q_next q then
        (case slot_at q (unat idx) of
           None \<Rightarrow> None
         | Some m \<Rightarrow>
             (case take_sample env loan (unat i) (unat idx) m q messages of
                None \<Rightarrow> None
              | Some (ok, q', messages') \<Rightarrow>
                  if \<not> ok then Some (False, i, idx, Some (unat idx), q', messages')
                  else read_circular_loop env loan max_messages (i + 1)
                         ((q_next_unread q' + (i + 1)) mod q_capacity q')
                         (Some (unat idx)) q' messages'))
      else Some (True, i, idx, rcvd, q, messages))"
  by pat_completeness auto
termination
proof (relation "measure (\<lambda>(env, loan, mx, i, idx, rcvd, q, messages). unat mx - unat i)", goal_cases)
  case 1
  show ?case by simp
next
  case (2 env loan mx i idx rcvd q messages)
  then have "i < mx" by blast
  then have "unat (i + 1) = Suc (unat i)" and "unat i < unat mx"
    by (simp_all add: unat_inc_u32 word_less_nat_alt [symmetric])
  then show ?case by simp
qed

declare read_circular_loop.simps [simp del]

text \<open>
  The branch of the error exit that deletes \<^verbatim>\<open>rcvd_msg->message\<close> jumps back to its own label when
  the deletion fails: the deletion is retried, from the \<open>k\<close>-th call on, until it succeeds, and
  \<open>None\<close> is the loop that never ends.
\<close>

partial_function (option) retry_delete :: "'d queue_env \<Rightarrow> nat \<Rightarrow> nat option" where
  "retry_delete env k = (if qe_delete env k then Some k else retry_delete env (k + 1))"

text \<open>The error exit of \<^verbatim>\<open>read_circular\<close>.\<close>

definition read_circular_error ::
    "'d queue_env \<Rightarrow> bool \<Rightarrow> u32 \<Rightarrow> nat option \<Rightarrow> 'd mrqueue \<Rightarrow> 'd option dds_seq
     \<Rightarrow> (retcode \<times> 'd mrqueue \<times> 'd option dds_seq) option" where
  "read_circular_error env loan tot_messages rcvd q messages =
     (if q_read_buffer_loaned q then
        map_option (\<lambda>(_, q', messages'). (DDS_RETCODE_ERROR, q', messages'))
          (RTI_MQTT_MessageReceiveQueue_return_loan env
            (q\<lparr>q_msg_status := (q_msg_status q)
                \<lparr>lost_count := lost_count (q_msg_status q) + tot_messages\<rparr>\<rparr>) messages)
      else if loan then
        map_option (\<lambda>q'. (DDS_RETCODE_ERROR, q', messages))
          (clear_read_buffer env 0 (unat tot_messages) q)
      else
        case rcvd of
          None \<Rightarrow> Some (DDS_RETCODE_ERROR, q, messages)
        | Some idx \<Rightarrow>
            case slot_at q idx of
              None \<Rightarrow> None
            | Some m \<Rightarrow>
                case rm_message m of
                  None \<Rightarrow> Some (DDS_RETCODE_ERROR, q, messages)
                | Some d \<Rightarrow>
                    map_option
                      (\<lambda>k. (DDS_RETCODE_ERROR,
                             set_slot idx (Ref (m\<lparr>rm_message := None\<rparr>)) (delete_sample env k (Some d) q),
                             messages))
                      (retry_delete env (Suc (unat tot_messages))))"

definition RTI_MQTT_MessageReceiveQueue_read_circular ::
    "'d queue_env \<Rightarrow> 'd mrqueue \<Rightarrow> u32 \<Rightarrow> 'd option dds_seq
     \<Rightarrow> (retcode \<times> 'd mrqueue \<times> 'd option dds_seq) option" where
  "RTI_MQTT_MessageReceiveQueue_read_circular env self max_messages messages =
     (case read_circular_begin env self max_messages messages of
        Inl (_, loan, q, messages1) \<Rightarrow> read_circular_error env loan 0 None q messages1
      | Inr (max_messages1, loan, q, messages1) \<Rightarrow>
          case read_circular_loop env loan max_messages1 0 (q_next_unread q) None q messages1 of
            None \<Rightarrow> None
          | Some (ok, tot_messages, idx, rcvd, q1, messages2) \<Rightarrow>
              if \<not> ok then read_circular_error env loan tot_messages rcvd q1 messages2
              else
                let finish = (\<lambda>q messages.
                      Some (DDS_RETCODE_OK,
                        q\<lparr>q_next_unread := idx, q_size := q_size q - tot_messages,
                          q_head := (q_head q + tot_messages) mod q_capacity q\<rparr>, messages)) in
                if loan then
                  if tot_messages > 0 then
                    case seq_loan (qe_samples env) (seq_buf (q_read_buffer q1)) tot_messages tot_messages
                           messages2 of
                      None \<Rightarrow> read_circular_error env loan tot_messages rcvd q1 messages2
                    | Some messages3 \<Rightarrow> finish (q1\<lparr>q_read_buffer_loaned := True\<rparr>) messages3
                  else finish q1 messages2
                else
                  case seq_set_length (qe_samples env) tot_messages messages2 of
                    None \<Rightarrow> read_circular_error env loan tot_messages rcvd q1 messages2
                  | Some messages3 \<Rightarrow> finish q1 messages3)"

section \<open>Reading from an unbounded queue\<close>

definition read_unbounded_begin ::
    "'d queue_env \<Rightarrow> 'd mrqueue \<Rightarrow> u32 \<Rightarrow> 'd option dds_seq \<Rightarrow> 'd read_args + 'd read_args" where
  "read_unbounded_begin env self max_messages messages =
     (let seq_len = seq_get_length (q_queue self); messages_max = seq_get_maximum messages in
      if messages_max > 0 then
        if max_messages = RTI_MQTT_SUBSCRIPTION_READ_LENGTH_UNLIMITED
        then Inl (max_messages, False, self, messages)
        else if messages_max < max_messages then Inl (max_messages, False, self, messages)
        else
          let max_messages' = (if max_messages > seq_len then seq_len else max_messages) in
          case seq_set_length (qe_samples env) max_messages' messages of
            None \<Rightarrow> Inl (max_messages', False, self, messages)
          | Some messages' \<Rightarrow> Inr (max_messages', False, self, messages')
      else
        if max_messages \<noteq> RTI_MQTT_SUBSCRIPTION_READ_LENGTH_UNLIMITED
        then Inl (max_messages, False, self, messages)
        else if q_read_buffer_loaned self then Inl (max_messages, False, self, messages)
        else
          case seq_ensure_length (qe_ptrs env) seq_len seq_len (q_read_buffer self) of
            None \<Rightarrow> Inl (max_messages, False, self, messages)
          | Some rb \<Rightarrow>
              case seq_set_length (qe_ptrs env) seq_len rb of
                None \<Rightarrow> Inl (max_messages, False, self\<lparr>q_read_buffer := rb\<rparr>, messages)
              | Some rb' \<Rightarrow>
                  let self' = self\<lparr>q_read_buffer := rb'\<rparr> in
                  case seq_set_length (qe_samples env) 0 messages of
                    None \<Rightarrow> Inl (max_messages, False, self', messages)
                  | Some messages' \<Rightarrow> Inr (seq_len, True, self', messages'))"

text \<open>The loop; after a failure the slot \<^verbatim>\<open>rcvd_msg\<close> points to is the \<open>i\<close>-th.\<close>

function read_unbounded_loop ::
    "'d queue_env \<Rightarrow> bool \<Rightarrow> nat \<Rightarrow> nat \<Rightarrow> 'd mrqueue \<Rightarrow> 'd option dds_seq
     \<Rightarrow> (bool \<times> nat \<times> 'd mrqueue \<times> 'd option dds_seq) option" where
  "read_unbounded_loop env loan max_messages i q messages =
     (if i < max_messages then
        (case slot_at q i of
           None \<Rightarrow> None
         | Some m \<Rightarrow>
             (case take_sample env loan i i m q messages of
                None \<Rightarrow> None
              | Some (ok, q', messages') \<Rightarrow>
                  if \<not> ok then Some (False, i, q', messages')
                  else read_unbounded_loop env loan max_messages (i + 1)
                         (set_slot i Null (RTI_MQTT_ReceivedMessage_delete q')) messages'))
      else Some (True, i, q, messages))"
  by pat_completeness auto
termination
  by (relation "measure (\<lambda>(env, loan, mx, i, q, messages). mx - i)") auto

declare read_unbounded_loop.simps [simp del]

text \<open>
  The error exit of \<^verbatim>\<open>read_unbounded\<close>; \<open>rcvd\<close> is the slot \<^verbatim>\<open>rcvd_msg\<close> points to when it is not
  null.  Deleting that slot object leaves the pointer in the sequence behind.
\<close>

definition read_unbounded_error ::
    "'d queue_env \<Rightarrow> bool \<Rightarrow> u32 \<Rightarrow> nat option \<Rightarrow> 'd mrqueue \<Rightarrow> 'd option dds_seq
     \<Rightarrow> (retcode \<times> 'd mrqueue \<times> 'd option dds_seq) option" where
  "read_unbounded_error env loan tot_messages rcvd self messages =
     (let q = self\<lparr>q_msg_status := (q_msg_status self)
                \<lparr>lost_count := lost_count (q_msg_status self) + tot_messages\<rparr>\<rparr> in
      if q_read_buffer_loaned q then
        map_option (\<lambda>(_, q', messages'). (DDS_RETCODE_ERROR, q', messages'))
          (RTI_MQTT_MessageReceiveQueue_return_loan env q messages)
      else if loan then
        map_option (\<lambda>q'. (DDS_RETCODE_ERROR, q', messages))
          (clear_read_buffer env 0 (unat tot_messages) q)
      else
        case rcvd of
          None \<Rightarrow> Some (DDS_RETCODE_ERROR, q, messages)
        | Some i \<Rightarrow>
            Some (DDS_RETCODE_ERROR, set_slot i Dangling (RTI_MQTT_ReceivedMessage_delete q), messages))"

definition RTI_MQTT_MessageReceiveQueue_read_unbounded ::
    "'d queue_env \<Rightarrow> 'd mrqueue \<Rightarrow> u32 \<Rightarrow> 'd option dds_seq
     \<Rightarrow> (retcode \<times> 'd mrqueue \<times> 'd option dds_seq) option" where
  "RTI_MQTT_MessageReceiveQueue_read_unbounded env self max_messages messages =
     (let seq_len = seq_get_length (q_queue self) in
      case read_unbounded_begin env self max_messages messages of
        Inl (_, loan, q, messages1) \<Rightarrow> read_unbounded_error env loan 0 None q messages1
      | Inr (max_messages1, loan, q, messages1) \<Rightarrow>
          case read_unbounded_loop env loan (unat max_messages1) 0 q messages1 of
            None \<Rightarrow> None
          | Some (ok, i, q1, messages2) \<Rightarrow>
              if \<not> ok then read_unbounded_error env loan 0 (Some i) q1 messages2
              else
                let tot_messages = of_nat i :: u32;
                    finish = (\<lambda>q messages.
                      if seq_len < tot_messages then None
                      else
                        case seq_set_length (qe_slots env) (seq_len - tot_messages) (q_queue q) of
                          None \<Rightarrow> read_unbounded_error env loan tot_messages None q messages
                        | Some s \<Rightarrow> Some (DDS_RETCODE_OK, q\<lparr>q_queue := s\<rparr>, messages)) in
                if loan then
                  if tot_messages > 0 then
                    case seq_loan (qe_samples env) (seq_buf (q_read_buffer q1)) tot_messages tot_messages
                           messages2 of
                      None \<Rightarrow> read_unbounded_error env loan tot_messages None q1 messages2
                    | Some messages3 \<Rightarrow> finish (q1\<lparr>q_read_buffer_loaned := True\<rparr>) messages3
                  else finish q1 messages2
                else
                  case seq_set_length (qe_samples env) tot_messages messages2 of
                    None \<Rightarrow> read_unbounded_error env loan tot_messages None q1 messages2
                  | Some messages3 \<Rightarrow> finish q1 messages3)"

text \<open>
  In the branch that closes the gap, \<^verbatim>\<open>memmove\<close> would be given the negative number of elements
  \<^verbatim>\<open>seq_len - tot_messages\<close> as a huge unsigned size; it is \<open>None\<close> above.
\<close>

section \<open>Reading\<close>

definition RTI_MQTT_MessageReceiveQueue_read ::
    "'d queue_env \<Rightarrow> 'd mrqueue \<Rightarrow> u32 \<Rightarrow> 'd option dds_seq
     \<Rightarrow> (retcode \<times> 'd mrqueue \<times> 'd option dds_seq) option" where
  "RTI_MQTT_MessageReceiveQueue_read env self max_messages messages =
     (let q = RTI_MQTT_Mutex_take self in
      map_option
        (\<lambda>(rc, q1, messages1).
           if rc \<noteq> DDS_RETCODE_OK then (DDS_RETCODE_ERROR, RTI_MQTT_Mutex_give q1, messages1)
           else
             let messages_len = seq_get_length messages1; st = q_msg_status q1 in
             (DDS_RETCODE_OK,
              RTI_MQTT_Mutex_give
                (q1\<lparr>q_msg_status := st\<lparr>unread_count := unread_count st - messages_len,
                                        read_count := read_count st + messages_len\<rparr>\<rparr>),
              messages1))
        (if q_capacity q > 0 then RTI_MQTT_MessageReceiveQueue_read_circular env q max_messages messages
         else RTI_MQTT_MessageReceiveQueue_read_unbounded env q max_messages messages))"

end
