(* ===== verification/QueueSpec.thy ===== *)
theory QueueSpec
  imports Prelude
begin

text \<open>
  What the gateway expects of a message queue, as a locale: a list of bounded length to which
  messages are added and which is emptied by a reader.  A client's history is a list of
  operations, and the lemmas of the locale say what the reader gets over a whole history.
\<close>

text \<open>A bounded list that drops its oldest element; the second component is the dropped one.\<close>

definition bounded_put :: "nat \<Rightarrow> 'a list \<Rightarrow> 'a \<Rightarrow> 'a list \<times> 'a option" where
  "bounded_put cap xs m =
     (if length xs < cap then (xs @ [m], None) else (tl xs @ [m], Some (hd xs)))"

text \<open>
  An operation adds the message built from an input, or takes everything there is; each has its
  own environment.  \<open>queue_run\<close> concatenates what was taken.
\<close>

datatype ('e, 'i) queue_op = Put 'e 'i | Take_all 'e

fun queue_run ::
    "('e \<Rightarrow> 'i \<Rightarrow> 'q \<Rightarrow> 'q option) \<Rightarrow> ('e \<Rightarrow> 'q \<Rightarrow> ('m list \<times> 'q) option)
     \<Rightarrow> ('e, 'i) queue_op list \<Rightarrow> 'q \<Rightarrow> ('m list \<times> 'q) option" where
  "queue_run put take_all [] q = Some ([], q)"
| "queue_run put take_all (Put e i # ops) q =
     (case put e i q of None \<Rightarrow> None | Some q' \<Rightarrow> queue_run put take_all ops q')"
| "queue_run put take_all (Take_all e # ops) q =
     (case take_all e q of
        None \<Rightarrow> None
      | Some (xs, q') \<Rightarrow>
          map_option (\<lambda>(ys, q''). (xs @ ys, q'')) (queue_run put take_all ops q'))"

text \<open>The messages a history adds, and whether it stays below a capacity.\<close>

fun put_samples :: "('e \<Rightarrow> 'i \<Rightarrow> 'm option) \<Rightarrow> ('e, 'i) queue_op list \<Rightarrow> 'm list" where
  "put_samples sample [] = []"
| "put_samples sample (Put e i # ops) =
     (case sample e i of None \<Rightarrow> put_samples sample ops | Some m \<Rightarrow> m # put_samples sample ops)"
| "put_samples sample (Take_all e # ops) = put_samples sample ops"

fun fits :: "('e \<Rightarrow> 'i \<Rightarrow> 'm option) \<Rightarrow> nat \<Rightarrow> nat \<Rightarrow> ('e, 'i) queue_op list \<Rightarrow> bool" where
  "fits sample cap n [] = True"
| "fits sample cap n (Put e i # ops) =
     (case sample e i of None \<Rightarrow> fits sample cap n ops
      | Some m \<Rightarrow> Suc n < cap \<and> fits sample cap (Suc n) ops)"
| "fits sample cap n (Take_all e # ops) = fits sample cap 0 ops"

fun op_good :: "('e \<Rightarrow> bool) \<Rightarrow> ('e, 'i) queue_op \<Rightarrow> bool" where
  "op_good good (Put e i) = True"
| "op_good good (Take_all e) = good e"

lemma bounded_put_length:
  "0 < cap \<Longrightarrow> length xs \<le> cap \<Longrightarrow>
   length (fst (bounded_put cap xs m)) = min cap (Suc (length xs))"
  by (cases xs) (auto simp: bounded_put_def)

lemma bounded_put_subseq: "subseq (fst (bounded_put cap xs m)) (xs @ [m])"
  by (cases xs) (auto simp: bounded_put_def)

text \<open>
  The contract.  A full queue gives nothing to the reader: the model's queues do not tell it from
  an empty one.
\<close>

locale bounded_queue =
  fixes good :: "'e \<Rightarrow> bool"
    and invar :: "'q \<Rightarrow> bool"
    and contents :: "'q \<Rightarrow> 'm list"
    and cap :: "'q \<Rightarrow> nat"
    and sample :: "'e \<Rightarrow> 'i \<Rightarrow> 'm option"
    and put :: "'e \<Rightarrow> 'i \<Rightarrow> 'q \<Rightarrow> 'q option"
    and take_all :: "'e \<Rightarrow> 'q \<Rightarrow> ('m list \<times> 'q) option"
  assumes bound: "invar q \<Longrightarrow> 0 < cap q \<and> length (contents q) \<le> cap q"
    and put_law: "invar q \<Longrightarrow> \<exists>q'. put e i q = Some q' \<and> invar q' \<and> cap q' = cap q \<and>
      contents q' = (case sample e i of None \<Rightarrow> contents q
                     | Some m \<Rightarrow> fst (bounded_put (cap q) (contents q) m))"
    and take_law: "good e \<Longrightarrow> invar q \<Longrightarrow>
      \<exists>q'. take_all e q = Some (if length (contents q) = cap q then [] else contents q, q') \<and>
        invar q' \<and> cap q' = cap q \<and>
        contents q' = (if length (contents q) = cap q then contents q else [])"
begin

text \<open>Every history runs, and the reader sees some of the messages, in order and without repetition.\<close>

lemma run_subseq:
  "invar q \<Longrightarrow> list_all (op_good good) ops \<Longrightarrow>
   \<exists>xs q'. queue_run put take_all ops q = Some (xs, q') \<and> invar q' \<and> cap q' = cap q \<and>
     subseq (xs @ contents q') (contents q @ put_samples sample ops)"
proof (induction ops arbitrary: q)
  case Nil
  then show ?case by simp
next
  case (Cons op ops)
  show ?case
  proof (cases op)
    case (Put e i)
    from put_law [OF Cons.prems(1), of e i] obtain q1 where q1: "put e i q = Some q1" "invar q1"
      "cap q1 = cap q" and c: "contents q1 = (case sample e i of None \<Rightarrow> contents q
                     | Some m \<Rightarrow> fst (bounded_put (cap q) (contents q) m))" by blast
    from Cons.IH [OF q1(2)] Cons.prems obtain xs q' where r: "queue_run put take_all ops q1 = Some (xs, q')"
      "invar q'" "cap q' = cap q1" "subseq (xs @ contents q') (contents q1 @ put_samples sample ops)"
      by auto
    have "subseq (contents q1 @ put_samples sample ops) (contents q @ put_samples sample (op # ops))"
    proof (cases "sample e i")
      case None
      then show ?thesis using c Put by simp
    next
      case (Some m)
      then have "subseq (contents q1 @ put_samples sample ops) ((contents q @ [m]) @ put_samples sample ops)"
        using c bounded_put_subseq [of "cap q" "contents q" m] by (intro list_emb_append_mono) auto
      then show ?thesis using Put Some by simp
    qed
    with r q1 Put show ?thesis by (auto intro: subseq_order.trans)
  next
    case (Take_all e)
    then have "good e" using Cons.prems by simp
    from take_law [OF this Cons.prems(1)] obtain q1
      where q1: "take_all e q = Some (if length (contents q) = cap q then [] else contents q, q1)"
        "invar q1" "cap q1 = cap q" "contents q1 = (if length (contents q) = cap q then contents q else [])"
      by blast
    from Cons.IH [OF q1(2)] Cons.prems obtain xs q' where r: "queue_run put take_all ops q1 = Some (xs, q')"
      "invar q'" "cap q' = cap q1" "subseq (xs @ contents q') (contents q1 @ put_samples sample ops)"
      by auto
    with q1 Take_all show ?thesis by (auto intro: list_emb_append_mono)
  qed
qed

text \<open>A history that stays below the capacity loses nothing: the reader gets every message, in order.\<close>

lemma run_lossless:
  "invar q \<Longrightarrow> list_all (op_good good) ops \<Longrightarrow> length (contents q) < cap q \<Longrightarrow>
   fits sample (cap q) (length (contents q)) ops \<Longrightarrow>
   \<exists>xs q'. queue_run put take_all ops q = Some (xs, q') \<and> invar q' \<and>
     xs @ contents q' = contents q @ put_samples sample ops"
proof (induction ops arbitrary: q)
  case Nil
  then show ?case by simp
next
  case (Cons op ops)
  show ?case
  proof (cases op)
    case (Put e i)
    from put_law [OF Cons.prems(1), of e i] obtain q1 where q1: "put e i q = Some q1" "invar q1"
      "cap q1 = cap q" and c: "contents q1 = (case sample e i of None \<Rightarrow> contents q
                     | Some m \<Rightarrow> fst (bounded_put (cap q) (contents q) m))" by blast
    then have c1: "contents q1 = contents q @ (case sample e i of None \<Rightarrow> [] | Some m \<Rightarrow> [m])"
      using Cons.prems(3) by (auto simp: bounded_put_def split: option.splits)
    with Cons.prems q1 Put have "length (contents q1) < cap q1"
      "fits sample (cap q1) (length (contents q1)) ops" by (auto split: option.splits)
    with Cons.IH [OF q1(2)] Cons.prems(2) obtain xs q'
      where "queue_run put take_all ops q1 = Some (xs, q')" "invar q'"
        "xs @ contents q' = contents q1 @ put_samples sample ops" by auto
    with q1 c1 Put show ?thesis by (auto split: option.splits)
  next
    case (Take_all e)
    then have "good e" using Cons.prems by simp
    from take_law [OF this Cons.prems(1)] Cons.prems(3) obtain q1
      where q1: "take_all e q = Some (contents q, q1)" "invar q1" "cap q1 = cap q" "contents q1 = []"
      by auto
    with Cons.prems Take_all bound [OF q1(2)] have "length (contents q1) < cap q1"
      "fits sample (cap q1) (length (contents q1)) ops" by auto
    with Cons.IH [OF q1(2)] Cons.prems(2) obtain xs q'
      where "queue_run put take_all ops q1 = Some (xs, q')" "invar q'"
        "xs @ contents q' = contents q1 @ put_samples sample ops" by auto
    with q1 Take_all show ?thesis by auto
  qed
qed

text \<open>Once full, a queue stays full and its reader never gets a message again.\<close>

lemma run_full:
  "invar q \<Longrightarrow> list_all (op_good good) ops \<Longrightarrow> length (contents q) = cap q \<Longrightarrow>
   \<exists>q'. queue_run put take_all ops q = Some ([], q') \<and> invar q' \<and> cap q' = cap q \<and>
     length (contents q') = cap q"
proof (induction ops arbitrary: q)
  case Nil
  then show ?case by simp
next
  case (Cons op ops)
  have "\<exists>q1. invar q1 \<and> cap q1 = cap q \<and> length (contents q1) = cap q1 \<and>
      queue_run put take_all (op # ops) q = queue_run put take_all ops q1"
  proof (cases op)
    case (Put e i)
    from put_law [OF Cons.prems(1), of e i] obtain q1 where q1: "put e i q = Some q1" "invar q1"
      "cap q1 = cap q" and c: "contents q1 = (case sample e i of None \<Rightarrow> contents q
                     | Some m \<Rightarrow> fst (bounded_put (cap q) (contents q) m))" by blast
    have "length (contents q1) = cap q"
      using c Cons.prems(3) bound [OF Cons.prems(1)]
      by (auto simp: bounded_put_length split: option.splits)
    with q1 Put show ?thesis by auto
  next
    case (Take_all e)
    then have "good e" using Cons.prems by simp
    from take_law [OF this Cons.prems(1)] Cons.prems(3) obtain q1
      where "take_all e q = Some ([], q1)" "invar q1" "cap q1 = cap q" "contents q1 = contents q"
      by auto
    with Take_all Cons.prems(3) show ?thesis
      by (intro exI [of _ q1]) (simp add: option.map_id0 case_prod_beta)
  qed
  with Cons.IH Cons.prems(2) show ?case by fastforce
qed

end

end
