(* ===== verification/CircularQueue.thy ===== *)
theory CircularQueue
  imports MessageQueue QueueSpec
begin

text \<open>
  The receive queue with a capacity, as a bounded list.  \<open>circ_inv\<close> is the invariant of the ring of
  slots and \<open>circ_abs\<close> the list of unread samples it stands for; the lemmas show that every operation
  of \<open>MessageQueue\<close> refines an operation on that list: initialisation gives the empty list, a
  received message is appended and pushes out the oldest one when there is no room, a read takes
  messages from the front (and none at all from a full queue), and returning a loan deletes
  exactly the samples that were lent.
\<close>

section \<open>The circular queue as a bounded list\<close>

text \<open>
  The samples in slot order, and seen from the first unread slot.  The invariant says that this
  view is the unread samples, oldest first, followed by empty slots.
\<close>

definition slot_msg :: "'d rmsg_ptr \<Rightarrow> 'd option" where
  "slot_msg p = (case p of Ref m \<Rightarrow> rm_message m | _ \<Rightarrow> None)"

definition slot_msgs :: "'d mrqueue \<Rightarrow> 'd option list" where
  "slot_msgs q = map slot_msg (seq_buf (q_queue q))"

definition ring :: "'d mrqueue \<Rightarrow> 'd option list" where
  "ring q = rotate (unat (q_next_unread q)) (slot_msgs q)"

definition is_ref :: "'d rmsg_ptr \<Rightarrow> bool" where
  "is_ref p = (case p of Ref m \<Rightarrow> True | _ \<Rightarrow> False)"

definition circ_abs :: "'d mrqueue \<Rightarrow> 'd list" where
  "circ_abs q = map the (take (unat (q_size q)) (ring q))"

definition circ_shape :: "'d mrqueue \<Rightarrow> bool" where
  "circ_shape q \<longleftrightarrow>
     0 < unat (q_capacity q) \<and> unat (q_capacity q) < 2147483648 \<and>
     length (seq_buf (q_queue q)) = unat (q_capacity q) \<and>
     (\<forall>p \<in> set (seq_buf (q_queue q)). is_ref p) \<and>
     unat (q_next_unread q) < unat (q_capacity q) \<and>
     seq_max (q_read_buffer q) = unat (q_capacity q)"

definition circ_inv :: "'d mrqueue \<Rightarrow> bool" where
  "circ_inv q \<longleftrightarrow>
     circ_shape q \<and> q_dyn_data q \<and>
     unat (q_size q) \<le> unat (q_capacity q) \<and>
     q_head q = q_next_unread q \<and>
     unat (q_next q) = (unat (q_next_unread q) + unat (q_size q)) mod unat (q_capacity q) \<and>
     ring q = map Some (circ_abs q) @ replicate (unat (q_capacity q) - unat (q_size q)) None"

text \<open>Indices modulo the length of a list.\<close>

lemma mod_add_left_cancel:
  fixes n j k l :: nat
  assumes "(n + j) mod l = (n + k) mod l" and "j < l" and "k < l"
  shows "j = k"
proof -
  have "(int n + int j) mod int l = (int n + int k) mod int l"
    using assms(1) by (metis of_nat_add of_nat_mod)
  then have "int l dvd (int n + int j) - (int n + int k)"
    by (simp only: mod_eq_dvd_iff)
  then have "int l dvd int j - int k" by simp
  then show "j = k"
    using assms(2,3) zdvd_imp_le [of "int l" "int j - int k"] zdvd_imp_le [of "int l" "int k - int j"]
    by (cases j k rule: linorder_cases) (auto simp: dvd_diff_commute)
qed

lemma rotate_list_update:
  assumes "k < length xs"
  shows "rotate n (xs[(n + k) mod length xs := v]) = (rotate n xs)[k := v]"
proof (rule nth_equalityI)
  show "length (rotate n (xs[(n + k) mod length xs := v])) = length ((rotate n xs)[k := v])" by simp
  fix j assume "j < length (rotate n (xs[(n + k) mod length xs := v]))"
  then have j: "j < length xs" by simp
  have "(n + k) mod length xs = (n + j) mod length xs \<longleftrightarrow> k = j"
    using mod_add_left_cancel assms j by blast
  moreover have "(n + j) mod length xs < length xs"
    using j by (intro mod_less_divisor) auto
  ultimately show "rotate n (xs[(n + k) mod length xs := v]) ! j = (rotate n xs)[k := v] ! j"
    using j assms by (auto simp: nth_rotate nth_list_update)
qed

lemma length_slot_msgs [simp]: "length (slot_msgs q) = length (seq_buf (q_queue q))"
  by (simp add: slot_msgs_def)

lemma length_ring [simp]: "length (ring q) = length (seq_buf (q_queue q))"
  by (simp add: ring_def)

lemma set_slot_simps [simp]:
  "q_lock (set_slot i p q) = q_lock q" "q_capacity (set_slot i p q) = q_capacity q"
  "q_size (set_slot i p q) = q_size q" "q_head (set_slot i p q) = q_head q"
  "q_next (set_slot i p q) = q_next q" "q_next_unread (set_slot i p q) = q_next_unread q"
  "q_read_buffer (set_slot i p q) = q_read_buffer q" "q_dyn_data (set_slot i p q) = q_dyn_data q"
  "q_read_buffer_loaned (set_slot i p q) = q_read_buffer_loaned q"
  "q_listener_data_avail (set_slot i p q) = q_listener_data_avail q"
  "q_msg_status (set_slot i p q) = q_msg_status q" "q_notified (set_slot i p q) = q_notified q"
  "q_live (set_slot i p q) = q_live q" "q_freed (set_slot i p q) = q_freed q"
  "seq_buf (q_queue (set_slot i p q)) = (seq_buf (q_queue q))[i := p]"
  "seq_max (q_queue (set_slot i p q)) = seq_max (q_queue q)"
  "seq_loaned (q_queue (set_slot i p q)) = seq_loaned (q_queue q)"
  by (simp_all add: set_slot_def set_elem_def)

lemma slot_msgs_set_slot [simp]: "slot_msgs (set_slot i p q) = (slot_msgs q)[i := slot_msg p]"
  by (simp add: slot_msgs_def map_update)

lemma slot_msg_Ref [simp]: "slot_msg (Ref m) = rm_message m"
  by (simp add: slot_msg_def)

lemma is_ref_simps [simp]: "is_ref (Ref m)" "\<not> is_ref Null" "\<not> is_ref Dangling"
  by (simp_all add: is_ref_def)

lemma slot_at_ref:
  assumes "i < length (seq_buf (q_queue q))" and "is_ref (seq_buf (q_queue q) ! i)"
  obtains m where "slot_at q i = Some m" and "seq_buf (q_queue q) ! i = Ref m"
    and "rm_message m = slot_msgs q ! i"
  using assms by (cases "seq_buf (q_queue q) ! i") (auto simp: slot_at_def slot_msgs_def)

text \<open>The slot \<open>k\<close> places after the first unread one, and what assigning it does to the view.\<close>

lemma circ_slot:
  assumes "circ_shape q" and "k < unat (q_capacity q)"
  obtains m where "slot_at q ((unat (q_next_unread q) + k) mod unat (q_capacity q)) = Some m"
    and "rm_message m = ring q ! k"
proof -
  let ?i = "(unat (q_next_unread q) + k) mod unat (q_capacity q)"
  have len: "length (seq_buf (q_queue q)) = unat (q_capacity q)"
    and i: "?i < length (seq_buf (q_queue q))" and r: "is_ref (seq_buf (q_queue q) ! ?i)"
    using assms(1) by (auto simp: circ_shape_def)
  from slot_at_ref [OF i r] obtain m where "slot_at q ?i = Some m" "rm_message m = slot_msgs q ! ?i"
    by blast
  moreover have "slot_msgs q ! ?i = ring q ! k"
    using assms(2) len by (simp add: ring_def nth_rotate)
  ultimately show thesis by (metis that)
qed

lemma circ_set_slot:
  assumes "circ_shape q" and "k < unat (q_capacity q)"
  shows "ring (set_slot ((unat (q_next_unread q) + k) mod unat (q_capacity q)) (Ref m) q)
      = (ring q)[k := rm_message m]"
    and "circ_shape (set_slot i (Ref m) q)"
proof -
  have "length (seq_buf (q_queue q)) = unat (q_capacity q)"
    using assms by (simp add: circ_shape_def)
  then show "ring (set_slot ((unat (q_next_unread q) + k) mod unat (q_capacity q)) (Ref m) q)
      = (ring q)[k := rm_message m]"
    using assms(2) rotate_list_update [of k "slot_msgs q" "unat (q_next_unread q)"]
    by (simp add: ring_def)
  show "circ_shape (set_slot i (Ref m) q)"
    using assms(1) by (auto simp: circ_shape_def dest!: set_update_subset_insert [THEN subsetD])
qed

lemma unat_wrap:
  assumes "unat (a :: u32) + unat b < 4294967296"
  shows "unat ((a + b) mod c) = (unat a + unat b) mod unat c"
  using assms by (simp add: unat_mod_u32 unat_add_u32)

lemma circ_inv_abs_length: "circ_inv q \<Longrightarrow> length (circ_abs q) = unat (q_size q)"
  by (auto simp: circ_inv_def circ_abs_def circ_shape_def)

lemma circ_bounds:
  assumes "circ_inv q"
  shows "0 < unat (q_capacity q)" and "unat (q_capacity q) < 2147483648"
    and "length (circ_abs q) \<le> unat (q_capacity q)" and "seq_max (q_read_buffer q) = unat (q_capacity q)"
  using assms circ_inv_abs_length [OF assms] by (simp_all add: circ_inv_def circ_shape_def)

text \<open>A queue with a given view satisfies the invariant.\<close>

lemma circ_invI:
  assumes "circ_shape q" and "q_dyn_data q" and "q_head q = q_next_unread q"
    and "ring q = map Some xs @ replicate (unat (q_capacity q) - length xs) None"
    and "unat (q_size q) = length xs" and "length xs \<le> unat (q_capacity q)"
    and "unat (q_next q) = (unat (q_next_unread q) + length xs) mod unat (q_capacity q)"
  shows "circ_inv q" and "circ_abs q = xs"
proof -
  show "circ_abs q = xs"
    using assms(4,5) by (simp add: circ_abs_def o_def)
  then show "circ_inv q"
    using assms by (simp add: circ_inv_def)
qed

lemma mod_Suc_add: "(Suc n mod l + k) mod l = (Suc n + k) mod (l :: nat)"
  by (simp add: mod_add_left_eq)

text \<open>
  The state after a message has been stored: the first \<open>q_next_unread\<close> advances exactly when a
  sample was overwritten, which is exactly when the queue was full.
\<close>

lemma receive_circular_not_full:
  assumes inv: "circ_inv q" and room: "unat (q_size q) < unat (q_capacity q)"
  obtains q' where "RTI_MQTT_MessageReceiveQueue_receive_circular q msg = Some (q', None, False)"
    and "circ_inv q'" and "circ_abs q' = circ_abs q @ [msg]"
    and "\<exists>p s n h. q' = q\<lparr>q_queue := p, q_size := s, q_next := n, q_notified := h\<rparr>"
proof -
  let ?c = "unat (q_capacity q)" and ?n = "unat (q_next_unread q)" and ?s = "unat (q_size q)"
  have sh: "circ_shape q" and nx: "unat (q_next q) = (?n + ?s) mod ?c"
    and rg: "ring q = map Some (circ_abs q) @ replicate (?c - ?s) None"
    and hd: "q_head q = q_next_unread q" and dd: "q_dyn_data q"
    using inv by (auto simp: circ_inv_def)
  have len: "length (circ_abs q) = ?s" using inv by (rule circ_inv_abs_length)
  have c: "?c < 2147483648" "?n < ?c" using sh by (auto simp: circ_shape_def)
  from circ_slot [OF sh room] nx obtain m
    where m: "slot_at q (unat (q_next q)) = Some m" "rm_message m = ring q ! ?s" by metis
  have "rm_message m = None"
    using m(2) rg len room by (simp add: nth_append)
  let ?q1 = "set_slot (unat (q_next q)) (Ref (m\<lparr>rm_message := Some msg\<rparr>)) q"
  let ?q2 = "?q1\<lparr>q_size := q_size q + 1, q_next := (q_next q + 1) mod q_capacity q\<rparr>"
  let ?q' = "if q_listener_data_avail q then ?q2\<lparr>q_notified := q_notified q + 1\<rparr> else ?q2"
  have r: "RTI_MQTT_MessageReceiveQueue_receive_circular q msg = Some (?q', None, False)"
    using m \<open>rm_message m = None\<close> room
    by (simp add: RTI_MQTT_MessageReceiveQueue_receive_circular_def Let_def word_less_nat_alt)
  have fr: "\<exists>p s n h. ?q' = q\<lparr>q_queue := p, q_size := s, q_next := n, q_notified := h\<rparr>"
    by (rule exI [of _ "q_queue ?q1"], rule exI [of _ "q_size ?q2"], rule exI [of _ "q_next ?q2"],
        rule exI [of _ "q_notified ?q'"]) (simp add: set_slot_def)
  have rg': "ring ?q' = map Some (circ_abs q @ [msg]) @ replicate (?c - Suc ?s) None"
  proof -
    have "ring ?q' = (ring q)[?s := Some msg]"
      using circ_set_slot(1) [OF sh room, of "m\<lparr>rm_message := Some msg\<rparr>"] nx
      by (simp add: ring_def slot_msgs_def)
    also have "\<dots> = map Some (circ_abs q @ [msg]) @ replicate (?c - Suc ?s) None"
      using rg len room
      by (cases "?c - ?s") (auto simp: list_update_append)
    finally show ?thesis .
  qed
  have sh': "circ_shape ?q'"
    using circ_set_slot(2) [OF sh room, of "unat (q_next q)" "m\<lparr>rm_message := Some msg\<rparr>"]
    by (simp add: circ_shape_def)
  have sz: "unat (q_size q + 1) = Suc ?s"
    using room by (intro unat_inc_u32) (simp add: word_less_nat_alt)
  have nx': "unat ((q_next q + 1) mod q_capacity q) = (?n + Suc ?s) mod ?c"
    using nx c room by (subst unat_wrap) (simp_all add: mod_Suc_eq order_le_less_trans [OF mod_le_divisor])
  have "circ_inv ?q'" and "circ_abs ?q' = circ_abs q @ [msg]"
    using circ_invI [OF sh', of "circ_abs q @ [msg]"] rg' sz nx' hd dd room len
    by (auto split: if_splits)
  with r fr show thesis by (intro that)
qed

lemma receive_circular_full:
  assumes inv: "circ_inv q" and full: "unat (q_size q) = unat (q_capacity q)"
  obtains q' where "RTI_MQTT_MessageReceiveQueue_receive_circular q msg
        = Some (q', Some (hd (circ_abs q)), True)"
    and "circ_inv q'" and "circ_abs q' = tl (circ_abs q) @ [msg]"
    and "\<exists>p h n u k. q' = q\<lparr>q_queue := p, q_head := h, q_next := n, q_next_unread := u, q_notified := k\<rparr>"
proof -
  let ?c = "unat (q_capacity q)" and ?n = "unat (q_next_unread q)"
  have sh: "circ_shape q" and rg: "ring q = map Some (circ_abs q)"
    and hd: "q_head q = q_next_unread q" and dd: "q_dyn_data q"
    and nx0: "unat (q_next q) = (?n + unat (q_size q)) mod ?c"
    using inv full by (auto simp: circ_inv_def)
  have len: "length (circ_abs q) = ?c" using circ_inv_abs_length [OF inv] full by simp
  have c: "0 < ?c" "?c < 2147483648" "?n < ?c" using sh by (auto simp: circ_shape_def)
  have nx: "unat (q_next q) = (?n + 0) mod ?c" using nx0 full by simp
  from circ_slot [OF sh c(1)] nx obtain m
    where m: "slot_at q (unat (q_next q)) = Some m" "rm_message m = ring q ! 0" by metis
  have dr: "rm_message m = Some (hd (circ_abs q))"
    using m(2) rg len c by (cases "circ_abs q") auto
  have eq: "q_next q = q_next_unread q" using nx c by (simp add: word_unat_eq_iff)
  let ?q1 = "set_slot (unat (q_next q)) (Ref (m\<lparr>rm_message := Some msg\<rparr>)) q"
  let ?p = "(q_next q + 1) mod q_capacity q"
  let ?q2 = "?q1\<lparr>q_head := ?p, q_next := ?p, q_next_unread := ?p\<rparr>"
  let ?q' = "if q_listener_data_avail q then ?q2\<lparr>q_notified := q_notified q + 1\<rparr> else ?q2"
  have r: "RTI_MQTT_MessageReceiveQueue_receive_circular q msg = Some (?q', Some (hd (circ_abs q)), True)"
    using m(1) dr full eq hd
    by (simp add: RTI_MQTT_MessageReceiveQueue_receive_circular_def Let_def word_less_nat_alt)
  have fr: "\<exists>p h n u k. ?q' = q\<lparr>q_queue := p, q_head := h, q_next := n, q_next_unread := u, q_notified := k\<rparr>"
    by (rule exI [of _ "q_queue ?q1"], rule exI [of _ ?p], rule exI [of _ ?p], rule exI [of _ ?p],
        rule exI [of _ "q_notified ?q'"]) (simp add: set_slot_def)
  have p: "unat ?p = Suc ?n mod ?c"
    using eq c by (subst unat_wrap) auto
  have rg': "ring ?q' = map Some (tl (circ_abs q) @ [msg]) @ replicate (?c - ?c) None"
  proof -
    have "slot_msgs ?q2 = slot_msgs ?q1" by (simp add: slot_msgs_def)
    then have "ring ?q' = rotate (Suc ?n mod ?c) (slot_msgs ?q1)"
      using p by (simp add: ring_def slot_msgs_def)
    also have "\<dots> = rotate1 (rotate ?n (slot_msgs ?q1))"
      using sh rotate_conv_mod [of "Suc ?n" "slot_msgs ?q1"] by (simp add: circ_shape_def)
    also have "rotate ?n (slot_msgs ?q1) = (ring q)[0 := Some msg]"
      using circ_set_slot(1) [OF sh c(1), of "m\<lparr>rm_message := Some msg\<rparr>"] nx
      by (simp add: ring_def)
    finally show ?thesis using rg len c by (cases "circ_abs q") auto
  qed
  have sh': "circ_shape ?q'"
    using circ_set_slot(2) [OF sh c(1), of "unat (q_next q)" "m\<lparr>rm_message := Some msg\<rparr>"] p c
    by (simp add: circ_shape_def)
  have "length (tl (circ_abs q) @ [msg]) = ?c" using len c by simp
  then have "circ_inv ?q'" and "circ_abs ?q' = tl (circ_abs q) @ [msg]"
    using circ_invI [OF sh', of "tl (circ_abs q) @ [msg]"] rg' hd dd full p c
    by (auto split: if_splits simp: mod_Suc_add)
  with r fr show thesis by (intro that)
qed

text \<open>
  The calls a copying read makes succeed: \<^verbatim>\<open>copy_data\<close> gives an equal sample and deletions work.
\<close>

definition samples_ok :: "'d queue_env \<Rightarrow> bool" where
  "samples_ok env \<longleftrightarrow> (\<forall>i d. qe_copy env i d = Some d) \<and> (\<forall>i. qe_delete env i)"

text \<open>Where the loop puts the samples.\<close>

definition outbuf :: "bool \<Rightarrow> 'd mrqueue \<Rightarrow> 'd option dds_seq \<Rightarrow> 'd option list" where
  "outbuf loan q messages = (if loan then seq_buf (q_read_buffer q) else seq_buf messages)"

text \<open>What a read leaves alone.\<close>

definition read_frame :: "bool \<Rightarrow> 'd mrqueue \<Rightarrow> 'd option dds_seq \<Rightarrow> 'd mrqueue \<Rightarrow> 'd option dds_seq \<Rightarrow> bool"
  where
  "read_frame loan q messages q' messages' \<longleftrightarrow>
     q'\<lparr>q_queue := q_queue q, q_read_buffer := q_read_buffer q, q_freed := q_freed q\<rparr> = q \<and>
     seq_max (q_read_buffer q') = seq_max (q_read_buffer q) \<and>
     seq_loaned (q_read_buffer q') = seq_loaned (q_read_buffer q) \<and>
     seq_max messages' = seq_max messages \<and> seq_loaned messages' = seq_loaned messages \<and>
     (if loan then messages' = messages else q_read_buffer q' = q_read_buffer q) \<and>
     length (outbuf loan q' messages') = length (outbuf loan q messages)"

lemma read_frame_refl: "read_frame loan q messages q messages"
  by (simp add: read_frame_def)

lemma read_frameD:
  assumes "read_frame loan q messages q' messages'"
  shows "q_lock q' = q_lock q" "q_capacity q' = q_capacity q" "q_size q' = q_size q"
    "q_head q' = q_head q" "q_next q' = q_next q" "q_next_unread q' = q_next_unread q"
    "q_dyn_data q' = q_dyn_data q" "q_read_buffer_loaned q' = q_read_buffer_loaned q"
    "q_listener_data_avail q' = q_listener_data_avail q" "q_msg_status q' = q_msg_status q"
    "q_notified q' = q_notified q" "q_live q' = q_live q"
    "seq_max (q_read_buffer q') = seq_max (q_read_buffer q)"
    "seq_max messages' = seq_max messages" "seq_loaned messages' = seq_loaned messages"
    "length (outbuf loan q' messages') = length (outbuf loan q messages)"
    "loan \<Longrightarrow> messages' = messages" "\<not> loan \<Longrightarrow> q_read_buffer q' = q_read_buffer q"
    "seq_loaned (q_read_buffer q') = seq_loaned (q_read_buffer q)"
  using assms by (cases q; cases q'; simp add: read_frame_def)+

lemma read_frame_trans:
  assumes "read_frame loan q m q1 m1" and "read_frame loan q1 m1 q2 m2"
  shows "read_frame loan q m q2 m2"
  using assms by (cases q; cases q1; cases q2) (simp add: read_frame_def split: if_splits)

lemma take_sample_ok:
  assumes "loan \<or> samples_ok env" and "i < length (outbuf loan q messages)"
    and "rm_message m = Some d"
  obtains q' messages' where "take_sample env loan i idx m q messages = Some (True, q', messages')"
    and "\<exists>b f. q' = set_slot idx (Ref (m\<lparr>rm_message := None\<rparr>)) (q\<lparr>q_read_buffer := b, q_freed := f\<rparr>)
          \<and> seq_max b = seq_max (q_read_buffer q)"
    and "read_frame loan q messages q' messages'"
    and "outbuf loan q' messages' = (outbuf loan q messages)[i := Some d]"
    and "q_freed q' = q_freed q @ (if loan then [] else [d])"
proof -
  let ?m = "Ref (m\<lparr>rm_message := None\<rparr>)"
  show thesis
  proof (cases loan)
    case True
    let ?b = "set_elem i (Some d) (q_read_buffer q)"
    show thesis
    proof (rule that [of "set_slot idx ?m (q\<lparr>q_read_buffer := ?b\<rparr>)" messages])
      show "\<exists>b f. set_slot idx ?m (q\<lparr>q_read_buffer := ?b\<rparr>)
          = set_slot idx ?m (q\<lparr>q_read_buffer := b, q_freed := f\<rparr>) \<and> seq_max b = seq_max (q_read_buffer q)"
        by (intro exI [of _ ?b] exI [of _ "q_freed q"]) (simp add: set_elem_def)
      show "read_frame loan q messages (set_slot idx ?m (q\<lparr>q_read_buffer := ?b\<rparr>)) messages"
        using True by (simp add: read_frame_def set_slot_def set_elem_def outbuf_def)
    qed (use assms True in \<open>simp_all add: take_sample_def outbuf_def set_elem_def\<close>)
  next
    case False
    let ?f = "q_freed q @ [d]" and ?ms = "set_elem i (Some d) messages"
    show thesis
    proof (rule that [of "set_slot idx ?m (q\<lparr>q_freed := ?f\<rparr>)" ?ms])
      show "\<exists>b f. set_slot idx ?m (q\<lparr>q_freed := ?f\<rparr>)
          = set_slot idx ?m (q\<lparr>q_read_buffer := b, q_freed := f\<rparr>) \<and> seq_max b = seq_max (q_read_buffer q)"
        by (intro exI [of _ "q_read_buffer q"] exI [of _ ?f]) simp
      show "read_frame loan q messages (set_slot idx ?m (q\<lparr>q_freed := ?f\<rparr>)) ?ms"
        using False by (simp add: read_frame_def set_slot_def set_elem_def outbuf_def)
    qed (use assms False in \<open>simp_all add: take_sample_def outbuf_def set_elem_def samples_ok_def
        delete_sample_def\<close>)
  qed
qed

text \<open>The state of the loop after \<open>i\<close> of the samples \<open>xs\<close> have been taken out of a queue that is not full.\<close>

definition reading :: "'d mrqueue \<Rightarrow> 'd list \<Rightarrow> nat \<Rightarrow> bool" where
  "reading q xs i \<longleftrightarrow>
     circ_shape q \<and> i \<le> length xs \<and> length xs < unat (q_capacity q) \<and>
     ring q = replicate i None @ map Some (drop i xs)
       @ replicate (unat (q_capacity q) - length xs) None \<and>
     unat (q_next q) = (unat (q_next_unread q) + length xs) mod unat (q_capacity q)"

lemma reading_step:
  assumes rd: "reading q xs i" and i: "i < length xs"
    and q': "q' = set_slot ((unat (q_next_unread q) + i) mod unat (q_capacity q)) (Ref m)
                    (q\<lparr>q_read_buffer := b, q_freed := f\<rparr>)"
    and m: "rm_message m = None" and b: "seq_max b = seq_max (q_read_buffer q)"
  shows "reading q' xs (Suc i)"
proof -
  let ?q0 = "q\<lparr>q_read_buffer := b, q_freed := f\<rparr>"
  have sh: "circ_shape ?q0" and ic: "i < unat (q_capacity ?q0)"
    using rd i b by (auto simp: reading_def circ_shape_def)
  have "ring ?q0 = ring q" by (simp add: ring_def slot_msgs_def)
  then have "ring q' = (ring q)[i := None]"
    using circ_set_slot(1) [OF sh ic, of m] m q' by simp
  also have "\<dots> = replicate (Suc i) None @ map Some (drop (Suc i) xs)
       @ replicate (unat (q_capacity q) - length xs) None"
  proof -
    have "drop i xs = xs ! i # drop (Suc i) xs" using i by (simp add: Cons_nth_drop_Suc)
    then show ?thesis
      using rd by (simp add: reading_def list_update_append replicate_app_Cons_same)
  qed
  finally have "ring q' = replicate (Suc i) None @ map Some (drop (Suc i) xs)
       @ replicate (unat (q_capacity q) - length xs) None" .
  moreover have "circ_shape q'" using circ_set_slot(2) [OF sh ic] q' by simp
  ultimately show ?thesis using rd i q' by (simp add: reading_def)
qed

lemma read_circular_loop_stop:
  "\<not> (i < mx \<and> idx \<noteq> q_next q) \<Longrightarrow>
   read_circular_loop env loan mx i idx rcvd q messages = Some (True, i, idx, rcvd, q, messages)"
  by (subst read_circular_loop.simps) (simp only: if_False)

text \<open>
  The loop takes the samples out in order until the limit or the end of the unread samples is
  reached; in particular it always ends and never meets an empty slot.
\<close>

lemma read_circular_loop_ok:
  assumes env: "loan \<or> samples_ok env"
  shows "reading q xs (unat i) \<Longrightarrow> unat i \<le> N \<Longrightarrow> N = min (length xs) (unat mx) \<Longrightarrow>
    unat idx = (unat (q_next_unread q) + unat i) mod unat (q_capacity q) \<Longrightarrow>
    N \<le> length (outbuf loan q messages) \<Longrightarrow>
    take (unat i) (outbuf loan q messages) = map Some (take (unat i) xs) \<Longrightarrow>
    \<exists>i' idx' rcvd' q' messages'.
      read_circular_loop env loan mx i idx rcvd q messages = Some (True, i', idx', rcvd', q', messages') \<and>
      unat i' = N \<and> unat idx' = (unat (q_next_unread q) + N) mod unat (q_capacity q) \<and>
      reading q' xs N \<and> read_frame loan q messages q' messages' \<and>
      take N (outbuf loan q' messages') = map Some (take N xs) \<and>
      q_freed q' = q_freed q @ (if loan then [] else drop (unat i) (take N xs))"
proof (induction "N - unat i" arbitrary: i idx rcvd q messages)
  case 0
  have iN: "unat i = N" using "0.hyps" "0.prems"(2) by linarith
  have "\<not> (i < mx \<and> idx \<noteq> q_next q)"
  proof
    assume a: "i < mx \<and> idx \<noteq> q_next q"
    then have "unat i < unat mx" by (simp add: word_less_nat_alt)
    with iN 0 have "unat i = length xs" by (simp add: min_def split: if_splits)
    with 0 have "unat idx = unat (q_next q)" by (simp add: reading_def)
    with a show False by (simp add: word_unat_eq_iff)
  qed
  then show ?case
    using 0 iN by (intro exI conjI) (auto simp: read_circular_loop_stop read_frame_refl)
next
  case (Suc n)
  let ?c = "unat (q_capacity q)" and ?n = "unat (q_next_unread q)"
  have iN: "unat i < N" and il: "unat i < length xs" and im: "i < mx"
    using Suc by (auto simp: word_less_nat_alt)
  have sh: "circ_shape q" and ic: "unat i < ?c" and nx: "unat (q_next q) = (?n + length xs) mod ?c"
    and c: "?c < 2147483648" "?n < ?c"
    using Suc.prems(1) il by (auto simp: reading_def circ_shape_def)
  have "unat idx \<noteq> unat (q_next q)"
    using mod_add_left_cancel [of ?n "unat i" ?c "length xs"] Suc.prems il nx
    by (auto simp: reading_def)
  then have ne: "idx \<noteq> q_next q" by auto
  from circ_slot [OF sh ic] Suc.prems(4) obtain m
    where m: "slot_at q (unat idx) = Some m" "rm_message m = ring q ! unat i" by metis
  have d: "rm_message m = Some (xs ! unat i)"
    using m(2) Suc.prems(1) il by (simp add: reading_def nth_append)
  have io: "unat i < length (outbuf loan q messages)" using iN Suc.prems(5) by simp
  from take_sample_ok [OF env io d, of "unat idx"] obtain q' messages' b f
    where t: "take_sample env loan (unat i) (unat idx) m q messages = Some (True, q', messages')"
    and q': "q' = set_slot (unat idx) (Ref (m\<lparr>rm_message := None\<rparr>)) (q\<lparr>q_read_buffer := b, q_freed := f\<rparr>)"
      "seq_max b = seq_max (q_read_buffer q)"
    and fr: "read_frame loan q messages q' messages'"
    and out: "outbuf loan q' messages' = (outbuf loan q messages)[unat i := Some (xs ! unat i)]"
    and fd: "q_freed q' = q_freed q @ (if loan then [] else [xs ! unat i])" by metis
  note frD = read_frameD [OF fr]
  have si: "unat (i + 1) = Suc (unat i)" using im by (rule unat_inc_u32)
  let ?idx = "(q_next_unread q' + (i + 1)) mod q_capacity q'"
  have rd: "reading q' xs (unat (i + 1))"
    unfolding si by (rule reading_step [OF Suc.prems(1) il q'(1) [unfolded Suc.prems(4)] _ q'(2)]) simp
  have ix: "unat ?idx = (unat (q_next_unread q') + unat (i + 1)) mod unat (q_capacity q')"
    by (rule unat_wrap) (use si ic c frD in simp)
  have tk: "take (unat (i + 1)) (outbuf loan q' messages') = map Some (take (unat (i + 1)) xs)"
    using out si il io Suc.prems(6) by (simp add: take_Suc_conv_app_nth)
  have "n = N - unat (i + 1)" and "unat (i + 1) \<le> N" and "N \<le> length (outbuf loan q' messages')"
    using Suc.hyps(2) si iN Suc.prems(5) frD by auto
  from Suc.hyps(1) [OF this(1) rd this(2) Suc.prems(3) ix this(3) tk, of "Some (unat idx)"]
  obtain i' idx' rcvd' q'' messages''
    where r: "read_circular_loop env loan mx (i + 1) ?idx (Some (unat idx)) q' messages'
        = Some (True, i', idx', rcvd', q'', messages'')" "unat i' = N"
      "unat idx' = (unat (q_next_unread q') + N) mod unat (q_capacity q')" "reading q'' xs N"
    and fr': "read_frame loan q' messages' q'' messages''"
    and tk': "take N (outbuf loan q'' messages'') = map Some (take N xs)"
    and fd': "q_freed q'' = q_freed q' @ (if loan then [] else drop (unat (i + 1)) (take N xs))"
    by blast
  have lp: "read_circular_loop env loan mx i idx rcvd q messages
        = Some (True, i', idx', rcvd', q'', messages'')"
    using im ne m(1) t r(1) by (subst read_circular_loop.simps) simp
  have "drop (unat i) (take N xs) = xs ! unat i # drop (Suc (unat i)) (take N xs)"
    using iN il Suc.prems(3) by (subst Cons_nth_drop_Suc [symmetric]) auto
  then have "q_freed q'' = q_freed q @ (if loan then [] else drop (unat i) (take N xs))"
    using fd fd' si by simp
  with lp r tk' frD read_frame_trans [OF fr fr'] show ?case by auto
qed

text \<open>The invariant does not depend on the lock, the counters, the loan flag or the listener.\<close>

lemma circ_cong [simp]:
  "circ_inv (q\<lparr>q_read_buffer_loaned := l\<rparr>) = circ_inv q" "circ_inv (q\<lparr>q_lock := k\<rparr>) = circ_inv q"
  "circ_inv (q\<lparr>q_msg_status := st\<rparr>) = circ_inv q"
  "circ_abs (q\<lparr>q_read_buffer_loaned := l\<rparr>) = circ_abs q" "circ_abs (q\<lparr>q_lock := k\<rparr>) = circ_abs q"
  "circ_abs (q\<lparr>q_msg_status := st\<rparr>) = circ_abs q" "circ_abs (q\<lparr>q_read_buffer := b\<rparr>) = circ_abs q"
  "circ_abs (q\<lparr>q_listener_data_avail := z\<rparr>) = circ_abs q"
  "circ_inv (q\<lparr>q_listener_data_avail := z\<rparr>) = circ_inv q"
  by (simp_all add: circ_inv_def circ_shape_def circ_abs_def ring_def slot_msgs_def)

lemma circ_inv_read_buffer:
  "circ_inv q \<Longrightarrow> seq_max b = seq_max (q_read_buffer q) \<Longrightarrow> circ_inv (q\<lparr>q_read_buffer := b\<rparr>)"
  by (simp add: circ_inv_def circ_shape_def circ_abs_def ring_def slot_msgs_def)

definition read_advance :: "u32 \<Rightarrow> u32 \<Rightarrow> 'd mrqueue \<Rightarrow> 'd mrqueue" where
  "read_advance idx tot q =
     q\<lparr>q_next_unread := idx, q_size := q_size q - tot, q_head := (q_head q + tot) mod q_capacity q\<rparr>"

lemma reading_begin:
  "circ_inv q \<Longrightarrow> unat (q_size q) < unat (q_capacity q) \<Longrightarrow> reading q (circ_abs q) 0"
  by (simp add: circ_inv_abs_length reading_def) (simp add: circ_inv_def)

lemma reading_end:
  assumes rd: "reading q xs N" and dd: "q_dyn_data q" and hd: "q_head q = q_next_unread q"
    and sz: "unat (q_size q) = length xs" and tot: "unat tot = N"
    and idx: "unat idx = (unat (q_next_unread q) + N) mod unat (q_capacity q)"
  shows "circ_inv (read_advance idx tot q)" and "circ_abs (read_advance idx tot q) = drop N xs"
proof -
  let ?c = "unat (q_capacity q)" and ?q = "read_advance idx tot q"
  have c: "0 < ?c" "?c < 2147483648" "unat (q_next_unread q) < ?c" and N: "N \<le> length xs" "length xs < ?c"
    and len: "length (seq_buf (q_queue q)) = ?c"
    using rd by (auto simp: reading_def circ_shape_def)
  have "unat ((q_head q + tot) mod q_capacity q) = unat idx"
    using hd tot idx c N by (subst unat_wrap) auto
  then have hd': "q_head ?q = q_next_unread ?q"
    by (simp add: read_advance_def word_unat_eq_iff)
  have "ring ?q = rotate N (ring q)"
    using idx len rotate_conv_mod [of "unat (q_next_unread q) + N" "slot_msgs q"]
    by (simp add: ring_def read_advance_def slot_msgs_def rotate_rotate add.commute)
  also have "\<dots> = drop N (ring q) @ take N (ring q)"
    using N len by (simp add: rotate_drop_take)
  finally have rg: "ring ?q = map Some (drop N xs)
      @ replicate (unat (q_capacity ?q) - length (drop N xs)) None"
    using rd N by (simp add: reading_def read_advance_def flip: replicate_add)
  have s: "unat (q_size ?q) = length (drop N xs)"
    using sz tot N by (simp add: read_advance_def unat_sub_u32)
  have nx: "unat (q_next ?q) = (unat (q_next_unread ?q) + length (drop N xs)) mod unat (q_capacity ?q)"
  proof -
    have "((unat (q_next_unread q) + N) mod ?c + (length xs - N)) mod ?c
        = (unat (q_next_unread q) + N + (length xs - N)) mod ?c"
      by (rule mod_add_left_eq)
    also have "unat (q_next_unread q) + N + (length xs - N) = unat (q_next_unread q) + length xs"
      using N by simp
    finally show ?thesis
      using rd idx by (simp only: reading_def read_advance_def length_drop) simp
  qed
  have sh: "circ_shape ?q" using rd idx c by (simp add: reading_def circ_shape_def read_advance_def)
  show "circ_inv ?q" and "circ_abs ?q = drop N xs"
    using circ_invI [OF sh _ hd' rg s _ nx] dd N by (simp_all add: read_advance_def)
qed

text \<open>
  The core of a read: \<open>circ_take\<close> samples leave the queue.  When the queue is full its indices
  are equal, the loop takes the queue for empty and nothing is read.
\<close>

definition circ_take :: "'d mrqueue \<Rightarrow> u32 \<Rightarrow> nat" where
  "circ_take q mx =
     (if unat (q_size q) = unat (q_capacity q) then 0 else min (unat (q_size q)) (unat mx))"

lemma circ_read_core:
  assumes inv: "circ_inv q" and env: "loan \<or> samples_ok env"
    and out: "circ_take q mx \<le> length (outbuf loan q messages)"
  obtains tot idx rcvd q' messages'
  where "read_circular_loop env loan mx 0 (q_next_unread q) None q messages
      = Some (True, tot, idx, rcvd, q', messages')"
    and "unat tot = circ_take q mx" and "read_frame loan q messages q' messages'"
    and "take (circ_take q mx) (outbuf loan q' messages') = map Some (take (circ_take q mx) (circ_abs q))"
    and "q_freed q' = q_freed q @ (if loan then [] else take (circ_take q mx) (circ_abs q))"
    and "circ_inv (read_advance idx tot q')"
    and "circ_abs (read_advance idx tot q') = drop (circ_take q mx) (circ_abs q)"
proof (cases "unat (q_size q) = unat (q_capacity q)")
  case True
  then have "q_next_unread q = q_next q"
    using inv by (simp add: circ_inv_def circ_shape_def word_unat_eq_iff)
  moreover have "read_advance (q_next_unread q) 0 q = q"
    using inv by (cases q) (simp add: circ_inv_def circ_shape_def read_advance_def
        word_unat_eq_iff unat_mod_u32)
  ultimately show thesis
    using that [of 0 "q_next_unread q" None q messages] True inv
    by (simp add: circ_take_def read_circular_loop_stop read_frame_refl)
next
  case False
  have len: "length (circ_abs q) = unat (q_size q)" using inv by (rule circ_inv_abs_length)
  have c: "unat (q_next_unread q) < unat (q_capacity q)" and dd: "q_dyn_data q"
    and hd: "q_head q = q_next_unread q" and lt: "unat (q_size q) < unat (q_capacity q)"
    using inv False by (auto simp: circ_inv_def circ_shape_def)
  have N: "circ_take q mx = min (length (circ_abs q)) (unat mx)"
    using False len by (simp add: circ_take_def)
  from read_circular_loop_ok [OF env, of q "circ_abs q" 0 "circ_take q mx" mx "q_next_unread q" messages None]
  obtain tot idx rcvd q' messages'
    where r: "read_circular_loop env loan mx 0 (q_next_unread q) None q messages
      = Some (True, tot, idx, rcvd, q', messages')"
    and t: "unat tot = circ_take q mx"
      "unat idx = (unat (q_next_unread q) + circ_take q mx) mod unat (q_capacity q)"
    and rd: "reading q' (circ_abs q) (circ_take q mx)" and fr: "read_frame loan q messages q' messages'"
    and tk: "take (circ_take q mx) (outbuf loan q' messages') = map Some (take (circ_take q mx) (circ_abs q))"
    and fd: "q_freed q' = q_freed q @ (if loan then [] else take (circ_take q mx) (circ_abs q))"
    using reading_begin [OF inv lt] out N c by auto
  note frD = read_frameD [OF fr]
  from reading_end [OF rd _ _ _ t(1), of idx] t(2) dd hd len frD
  have "circ_inv (read_advance idx tot q')"
    "circ_abs (read_advance idx tot q') = drop (circ_take q mx) (circ_abs q)" by simp_all
  with r t(1) fr tk fd show thesis by (rule that)
qed

text \<open>The documented behaviour of the sequence types of an environment, and that calls succeed.\<close>

definition env_laws :: "'d queue_env \<Rightarrow> bool" where
  "env_laws env \<longleftrightarrow> seq_laws (qe_slots env) \<and> seq_laws (qe_ptrs env) \<and>
     seq_laws (qe_samples env) \<and> seq_laws (qe_octets env)"

definition env_total :: "'d queue_env \<Rightarrow> bool" where
  "env_total env \<longleftrightarrow> seq_total (qe_slots env) \<and> seq_total (qe_ptrs env) \<and>
     seq_total (qe_samples env) \<and> seq_total (qe_octets env)"

definition count_read :: "nat \<Rightarrow> msg_status \<Rightarrow> msg_status" where
  "count_read n st = st\<lparr>unread_count := unread_count st - of_nat n, read_count := read_count st + of_nat n\<rparr>"

lemma mutex_simps [simp]:
  "RTI_MQTT_Mutex_take q = q\<lparr>q_lock := q_lock q + 1\<rparr>" "RTI_MQTT_Mutex_give q = q\<lparr>q_lock := q_lock q - 1\<rparr>"
  by (simp_all add: RTI_MQTT_Mutex_take_def RTI_MQTT_Mutex_give_def)

lemma circ_capacity_pos: "circ_inv q \<Longrightarrow> 0 < q_capacity q"
  by (simp add: circ_inv_def circ_shape_def word_less_nat_alt)

lemma circ_take_le: "circ_inv q \<Longrightarrow> circ_take q mx \<le> length (circ_abs q)"
  by (simp add: circ_take_def circ_inv_abs_length)

text \<open>The loan: both sequences are resized, then the read buffer is lent to the caller.\<close>

lemma read_circular_begin_loan:
  assumes inv: "circ_inv q" and env: "env_laws env" "env_total env"
    and ms: "seq_max messages = 0" "\<not> seq_loaned messages" and nl: "\<not> q_read_buffer_loaned q"
  obtains rb where "read_circular_begin env q RTI_MQTT_SUBSCRIPTION_READ_LENGTH_UNLIMITED messages
      = Inr (q_capacity q, True, q\<lparr>q_read_buffer := rb\<rparr>, seq_empty)"
    and "length (seq_buf rb) = unat (q_capacity q)" and "seq_max rb = seq_max (q_read_buffer q)"
proof -
  let ?c = "q_capacity q" and ?b = "q_read_buffer q"
  have mx: "seq_max ?b = unat ?c" using inv by (simp add: circ_inv_def circ_shape_def)
  have p: "seq_laws (qe_ptrs env)" "seq_total (qe_ptrs env)" "seq_laws (qe_samples env)"
    "seq_total (qe_samples env)" using env by (simp_all add: env_laws_def env_total_def)
  obtain rb where rb: "seq_set_length (qe_ptrs env) ?c ?b = Some rb"
    using p(2) mx by (fastforce simp: seq_total_def)
  obtain m1 where m1: "seq_set_length (qe_samples env) 0 messages = Some m1"
    using p(4) by (fastforce simp: seq_total_def)
  have "m1 = seq_empty"
    using seq_set_lengthD [OF p(3) m1] ms by (cases m1) (simp add: seq_empty_def)
  moreover have "seq_get_maximum ?b = ?c" by (simp add: seq_get_maximum_def mx)
  ultimately show thesis
    using that [of rb] seq_set_lengthD [OF p(1) rb] mx rb m1 ms nl
    by (simp add: read_circular_begin_def seq_get_maximum_def Let_def
        RTI_MQTT_SUBSCRIPTION_READ_LENGTH_UNLIMITED_def)
qed

lemma read_circular_loan:
  assumes inv: "circ_inv q" and env: "env_laws env" "env_total env"
    and ms: "seq_max messages = 0" "\<not> seq_loaned messages" and nl: "\<not> q_read_buffer_loaned q"
  obtains q' messages' N where "N = circ_take q (q_capacity q)"
    and "RTI_MQTT_MessageReceiveQueue_read_circular env q
           RTI_MQTT_SUBSCRIPTION_READ_LENGTH_UNLIMITED messages = Some (DDS_RETCODE_OK, q', messages')"
    and "circ_inv q'" and "circ_abs q' = drop N (circ_abs q)"
    and "seq_buf messages' = map Some (take N (circ_abs q))"
    and "q_read_buffer_loaned q' = (0 < N)" and "seq_loaned messages' = (0 < N)" and "seq_max messages' = N"
    and "take N (seq_buf (q_read_buffer q')) = map Some (take N (circ_abs q))"
    and "q_freed q' = q_freed q" and "q_live q' = q_live q" and "q_lock q' = q_lock q"
    and "q_msg_status q' = q_msg_status q" and "q_capacity q' = q_capacity q"
proof -
  let ?N = "circ_take q (q_capacity q)"
  from read_circular_begin_loan [OF assms] obtain rb
    where b: "read_circular_begin env q RTI_MQTT_SUBSCRIPTION_READ_LENGTH_UNLIMITED messages
      = Inr (q_capacity q, True, q\<lparr>q_read_buffer := rb\<rparr>, seq_empty)"
    and rb: "length (seq_buf rb) = unat (q_capacity q)" "seq_max rb = seq_max (q_read_buffer q)"
    by blast
  let ?q0 = "q\<lparr>q_read_buffer := rb\<rparr>"
  have inv0: "circ_inv ?q0" by (rule circ_inv_read_buffer [OF inv rb(2)])
  have N0: "circ_take ?q0 (q_capacity q) = ?N" by (simp add: circ_take_def)
  have out: "circ_take ?q0 (q_capacity q) \<le> length (outbuf True ?q0 seq_empty)"
    using rb by (simp add: circ_take_def outbuf_def)
  obtain tot idx rcvd q1 m1
    where lp: "read_circular_loop env True (q_capacity q) 0 (q_next_unread q) None ?q0 seq_empty
        = Some (True, tot, idx, rcvd, q1, m1)"
    and t: "unat tot = ?N" and fr: "read_frame True ?q0 seq_empty q1 m1"
    and tk: "take ?N (seq_buf (q_read_buffer q1)) = map Some (take ?N (circ_abs q))"
    and fd: "q_freed q1 = q_freed q" and inv1: "circ_inv (read_advance idx tot q1)"
    and ab: "circ_abs (read_advance idx tot q1) = drop ?N (circ_abs q)"
    by (rule circ_read_core [OF inv0 _ out, of env]) (auto simp: N0 outbuf_def)
  note frD = read_frameD [OF fr]
  show thesis
  proof (cases "?N = 0")
    case True
    with t have "tot = 0" by (simp add: unat_eq_0)
    then have "RTI_MQTT_MessageReceiveQueue_read_circular env q
           RTI_MQTT_SUBSCRIPTION_READ_LENGTH_UNLIMITED messages
        = Some (DDS_RETCODE_OK, read_advance idx tot q1, seq_empty)"
      using b lp frD(17) by (simp add: RTI_MQTT_MessageReceiveQueue_read_circular_def read_advance_def)
    with True inv1 ab frD fd nl show thesis
      by (intro that [of ?N "read_advance idx tot q1" seq_empty])
        (simp_all add: read_advance_def seq_empty_def)
  next
    case False
    with t have t0: "0 < tot" by (simp add: word_less_nat_alt)
    have "seq_total (qe_samples env)" and ls: "seq_laws (qe_samples env)"
      using env by (simp_all add: env_laws_def env_total_def)
    then obtain m2 where m2: "seq_loan (qe_samples env) (seq_buf (q_read_buffer q1)) tot tot seq_empty = Some m2"
      by (fastforce simp: seq_total_def seq_empty_def)
    have m2': "seq_buf m2 = take ?N (seq_buf (q_read_buffer q1))" "seq_loaned m2" "seq_max m2 = ?N"
      using ls m2 t by (auto simp: seq_laws_def)
    let ?q' = "read_advance idx tot (q1\<lparr>q_read_buffer_loaned := True\<rparr>)"
    have r: "RTI_MQTT_MessageReceiveQueue_read_circular env q
           RTI_MQTT_SUBSCRIPTION_READ_LENGTH_UNLIMITED messages = Some (DDS_RETCODE_OK, ?q', m2)"
      using b lp frD(17) t0 m2 by (simp add: RTI_MQTT_MessageReceiveQueue_read_circular_def read_advance_def)
    have "?q' = (read_advance idx tot q1)\<lparr>q_read_buffer_loaned := True\<rparr>" by (simp add: read_advance_def)
    then have i': "circ_inv ?q'" "circ_abs ?q' = drop ?N (circ_abs q)" using inv1 ab by simp_all
    show thesis
      by (rule that [OF refl r i']) (use m2' tk False fd frD in \<open>simp_all add: read_advance_def\<close>)
  qed
qed

lemma read_circular_copy:
  assumes inv: "circ_inv q" and env: "env_laws env" "env_total env" "samples_ok env"
    and ms: "0 < unat mx" "unat mx \<le> seq_max messages" "seq_max messages < 2147483648"
  obtains q' messages' N where "N = circ_take q mx"
    and "RTI_MQTT_MessageReceiveQueue_read_circular env q mx messages = Some (DDS_RETCODE_OK, q', messages')"
    and "circ_inv q'" and "circ_abs q' = drop N (circ_abs q)"
    and "seq_buf messages' = map Some (take N (circ_abs q))"
    and "q_read_buffer_loaned q' = q_read_buffer_loaned q" and "q_read_buffer q' = q_read_buffer q"
    and "q_freed q' = q_freed q @ take N (circ_abs q)" and "q_live q' = q_live q"
    and "q_lock q' = q_lock q" and "q_msg_status q' = q_msg_status q" and "q_capacity q' = q_capacity q"
proof -
  let ?N = "circ_take q mx"
  have l: "seq_laws (qe_samples env)" and tt: "seq_total (qe_samples env)"
    using env by (simp_all add: env_laws_def env_total_def)
  have mm: "unat (seq_get_maximum messages) = seq_max messages"
    using ms by (simp add: seq_get_maximum_def unat_of_nat_u32)
  obtain m0 where m0: "seq_set_length (qe_samples env) mx messages = Some m0"
    using tt ms by (fastforce simp: seq_total_def)
  have b: "read_circular_begin env q mx messages = Inr (mx, False, q, m0)"
    using m0 ms mm
    by (auto simp: read_circular_begin_def RTI_MQTT_SUBSCRIPTION_READ_LENGTH_UNLIMITED_def
        word_less_nat_alt Let_def)
  note m0D = seq_set_lengthD [OF l m0]
  have out: "?N \<le> length (outbuf False q m0)" using m0D by (simp add: circ_take_def outbuf_def)
  obtain tot idx rcvd q1 m1
    where lp: "read_circular_loop env False mx 0 (q_next_unread q) None q m0
        = Some (True, tot, idx, rcvd, q1, m1)"
    and t: "unat tot = ?N" and fr: "read_frame False q m0 q1 m1"
    and tk: "take ?N (seq_buf m1) = map Some (take ?N (circ_abs q))"
    and fd: "q_freed q1 = q_freed q @ take ?N (circ_abs q)" and inv1: "circ_inv (read_advance idx tot q1)"
    and ab: "circ_abs (read_advance idx tot q1) = drop ?N (circ_abs q)"
    by (rule circ_read_core [OF inv _ out, of env]) (auto simp: env outbuf_def)
  note frD = read_frameD [OF fr]
  have "unat tot \<le> seq_max m1" using t ms m0D frD by (simp add: circ_take_def min_def)
  then obtain m2 where m2: "seq_set_length (qe_samples env) tot m1 = Some m2"
    using tt by (fastforce simp: seq_total_def)
  have "?N \<le> length (seq_buf m1)" using frD(16) out by (simp add: outbuf_def)
  then have m2': "seq_buf m2 = map Some (take ?N (circ_abs q))"
    using seq_set_lengthD(5) [OF l m2] t tk by simp
  have r: "RTI_MQTT_MessageReceiveQueue_read_circular env q mx messages
      = Some (DDS_RETCODE_OK, read_advance idx tot q1, m2)"
    using b lp m2 by (simp add: RTI_MQTT_MessageReceiveQueue_read_circular_def read_advance_def)
  show thesis
    by (rule that [OF refl r inv1 ab m2']) (use fd frD in \<open>simp_all add: read_advance_def\<close>)
qed

section \<open>Returning the loan\<close>

lemma delete_sample_simps [simp]:
  "q_queue (delete_sample env i d q) = q_queue q" "q_read_buffer (delete_sample env i d q) = q_read_buffer q"
  by (simp_all add: delete_sample_def split: option.splits)

text \<open>What emptying the read buffer leaves alone.\<close>

definition buffer_frame :: "'d mrqueue \<Rightarrow> 'd mrqueue \<Rightarrow> bool" where
  "buffer_frame q q' \<longleftrightarrow>
     q'\<lparr>q_read_buffer := q_read_buffer q, q_freed := q_freed q\<rparr> = q \<and>
     length (seq_buf (q_read_buffer q')) = length (seq_buf (q_read_buffer q)) \<and>
     seq_max (q_read_buffer q') = seq_max (q_read_buffer q)"

lemma buffer_frame_trans: "buffer_frame q q1 \<Longrightarrow> buffer_frame q1 q2 \<Longrightarrow> buffer_frame q q2"
  by (cases q; cases q1; cases q2) (simp add: buffer_frame_def)

lemma buffer_frame_delete:
  "buffer_frame q ((delete_sample env i d q)\<lparr>q_read_buffer := set_elem k x (q_read_buffer q)\<rparr>)"
  by (cases q) (simp add: buffer_frame_def delete_sample_def set_elem_def split: option.splits)

lemma clear_read_buffer_ok:
  "i \<le> n \<Longrightarrow> n \<le> length (seq_buf (q_read_buffer q)) \<Longrightarrow>
   \<exists>q'. clear_read_buffer env i n q = Some q' \<and> buffer_frame q q' \<and>
     ((\<forall>i. qe_delete env i) \<longrightarrow> q_freed q' = q_freed q @
        List.map_filter (\<lambda>x. x) (drop i (take n (seq_buf (q_read_buffer q)))))"
proof (induction env i n q rule: clear_read_buffer.induct)
  case (1 env i n q)
  let ?rb = "seq_buf (q_read_buffer q)"
  let ?q1 = "(delete_sample env i (?rb ! i) q)\<lparr>q_read_buffer := set_elem i None (q_read_buffer q)\<rparr>"
  show ?case
  proof (cases "i < n")
    case False
    then show ?thesis
      using 1 by (subst clear_read_buffer.simps) (simp add: List.map_filter_simps buffer_frame_def)
  next
    case True
    then have il: "i < length ?rb" using 1 by simp
    have "n \<le> length (seq_buf (q_read_buffer ?q1))" using "1.prems" by (simp add: set_elem_def)
    with "1.IH" [OF True il] True obtain q' where q': "clear_read_buffer env (i + 1) n ?q1 = Some q'"
      "buffer_frame ?q1 q'" and f: "(\<forall>i. qe_delete env i) \<longrightarrow> q_freed q' = q_freed ?q1 @
        List.map_filter (\<lambda>x. x) (drop (i + 1) (take n (seq_buf (q_read_buffer ?q1))))" by auto
    have d: "drop i (take n ?rb) = ?rb ! i # drop (Suc i) (take n ?rb)"
      using True il by (subst Cons_nth_drop_Suc [symmetric]) auto
    have "drop (Suc i) (take n (?rb[i := None])) = drop (Suc i) (take n ?rb)"
      by (simp add: drop_take)
    then have f': "(\<forall>i. qe_delete env i) \<longrightarrow> q_freed q' = q_freed q @
        List.map_filter (\<lambda>x. x) (drop i (take n ?rb))"
      using f d by (auto simp: set_elem_def delete_sample_def List.map_filter_simps split: option.splits)
    have "clear_read_buffer env i n q = Some q'"
      using True il q'(1) by (subst clear_read_buffer.simps) simp
    with f' buffer_frame_trans [OF buffer_frame_delete q'(2)] show ?thesis by blast
  qed
qed

lemma map_filter_Some [simp]: "List.map_filter (\<lambda>x. x) (map Some xs) = xs"
  by (induction xs) (simp_all add: List.map_filter_simps)

text \<open>
  A loan that is returned: the samples lent to the caller are deleted, once each, and the queue
  can be read again.
\<close>

lemma return_loan_ok:
  assumes env: "env_laws env" "env_total env" "\<forall>i. qe_delete env i"
    and q: "q_read_buffer_loaned q" "seq_loaned messages" "seq_buf messages = map Some ds"
    and rb: "take (length ds) (seq_buf (q_read_buffer q)) = map Some ds"
      "length ds \<le> seq_max (q_read_buffer q)" "length ds < 2147483648"
  obtains q' where "RTI_MQTT_MessageReceiveQueue_return_loan env q messages
      = Some (DDS_RETCODE_OK, q', seq_empty)"
    and "\<not> q_read_buffer_loaned q'" and "q_freed q' = q_freed q @ ds"
    and "seq_max (q_read_buffer q') = seq_max (q_read_buffer q)"
    and "q'\<lparr>q_read_buffer := q_read_buffer q, q_freed := q_freed q, q_read_buffer_loaned := True\<rparr> = q"
proof -
  have l: "seq_laws (qe_ptrs env)" "seq_total (qe_ptrs env)" "seq_laws (qe_samples env)"
    "seq_total (qe_samples env)" using env by (simp_all add: env_laws_def env_total_def)
  have n: "unat (seq_get_length messages) = length ds"
    using q rb by (simp add: seq_get_length_def unat_of_nat_u32)
  obtain m1 where "seq_unloan (qe_samples env) messages = Some m1"
    using l(4) q by (fastforce simp: seq_total_def)
  then have m1: "seq_unloan (qe_samples env) messages = Some seq_empty"
    using l(3) by (auto simp: seq_laws_def)
  obtain b1 where b1: "seq_set_length (qe_ptrs env) (seq_get_length messages) (q_read_buffer q) = Some b1"
    using l(2) n rb by (fastforce simp: seq_total_def)
  have "length ds \<le> length (seq_buf (q_read_buffer q))"
    using arg_cong [OF rb(1), of length] by simp
  then have b1': "seq_buf b1 = map Some ds" "seq_max b1 = seq_max (q_read_buffer q)"
    using seq_set_lengthD [OF l(1) b1] n rb by simp_all
  let ?q1 = "q\<lparr>q_lock := q_lock q + 1, q_read_buffer := b1\<rparr>"
  from clear_read_buffer_ok [of 0 "length ds" ?q1 env] b1' env(3)
  obtain q2 where q2: "clear_read_buffer env 0 (length ds) ?q1 = Some q2"
    "q2\<lparr>q_read_buffer := b1, q_freed := q_freed q\<rparr> = ?q1" "seq_max (q_read_buffer q2) = seq_max b1"
    "q_freed q2 = q_freed q @ ds" by (auto simp: buffer_frame_def)
  obtain b3 where b3: "seq_set_length (qe_ptrs env) 0 (q_read_buffer q2) = Some b3"
    using l(2) by (fastforce simp: seq_total_def)
  let ?q' = "q2\<lparr>q_read_buffer := b3, q_read_buffer_loaned := False, q_lock := q_lock q2 - 1\<rparr>"
  have r: "RTI_MQTT_MessageReceiveQueue_return_loan env q messages
      = Some (DDS_RETCODE_OK, ?q', seq_empty)"
    using q m1 b1 q2(1) n b3
    by (simp add: RTI_MQTT_MessageReceiveQueue_return_loan_def Let_def)
  have mx: "seq_max b3 = seq_max (q_read_buffer q)"
    using seq_set_lengthD(2) [OF l(1) b3] q2(3) b1' by simp
  show thesis
    by (rule that [OF r]) (use q2 mx q in \<open>cases q; cases q2; simp\<close>)+
qed

section \<open>Initialisation and finalisation\<close>

lemma init_slots_result:
  "i \<le> unat (q_capacity q) \<Longrightarrow> length (seq_buf (q_queue q)) = unat (q_capacity q) \<Longrightarrow>
   take i (seq_buf (q_queue q)) = replicate i (Ref RTI_MQTT_ReceivedMessage_initialize) \<Longrightarrow>
   \<exists>k q'. init_slots env i q = (k, q', k = unat (q_capacity q)) \<and> i \<le> k \<and> k \<le> unat (q_capacity q) \<and>
     q'\<lparr>q_queue := q_queue q, q_live := q_live q\<rparr> = q \<and>
     length (seq_buf (q_queue q')) = unat (q_capacity q) \<and>
     take k (seq_buf (q_queue q')) = replicate k (Ref RTI_MQTT_ReceivedMessage_initialize) \<and>
     q_live q' = q_live q + int (k - i) \<and> ((\<forall>j. qe_heap env j) \<longrightarrow> k = unat (q_capacity q))"
proof (induction env i q rule: init_slots.induct)
  case (1 env i q)
  let ?m = "Ref RTI_MQTT_ReceivedMessage_initialize" and ?c = "unat (q_capacity q)"
  let ?q1 = "(set_slot i ?m q)\<lparr>q_live := q_live q + 1\<rparr>"
  show ?case
  proof (cases "i < ?c \<and> qe_heap env i")
    case False
    then have "init_slots env i q = (i, q, i = ?c)"
      using "1.prems"(1) by (subst init_slots.simps) (auto simp: RTI_MQTT_ReceivedMessage_new_def)
    then show ?thesis
      using "1.prems" False by (intro exI [of _ i] exI [of _ q]) auto
  next
    case True
    then have new: "RTI_MQTT_ReceivedMessage_new (qe_heap env i) = (DDS_RETCODE_OK, ?m)"
      by (simp add: RTI_MQTT_ReceivedMessage_new_def)
    have cap: "unat (q_capacity ?q1) = ?c" by simp
    have "i + 1 \<le> unat (q_capacity ?q1)" and "length (seq_buf (q_queue ?q1)) = unat (q_capacity ?q1)"
      using True "1.prems" by simp_all
    moreover have "take (i + 1) (seq_buf (q_queue ?q1)) = replicate (i + 1) ?m"
      using True "1.prems" by (simp add: take_Suc_conv_app_nth flip: replicate_append_same)
    ultimately obtain k q'
      where k: "init_slots env (i + 1) ?q1 = (k, q', k = ?c)" "i + 1 \<le> k" "k \<le> ?c"
      and fr: "q'\<lparr>q_queue := q_queue ?q1, q_live := q_live ?q1\<rparr> = ?q1"
      and rest: "length (seq_buf (q_queue q')) = ?c" "take k (seq_buf (q_queue q')) = replicate k ?m"
        "q_live q' = q_live ?q1 + int (k - (i + 1))" "(\<forall>j. qe_heap env j) \<longrightarrow> k = ?c"
      using "1.IH" [OF conjunct1 [OF True] new [symmetric]] unfolding cap by blast
    have "init_slots env i q = (k, q', k = ?c)"
      using True k(1) by (subst init_slots.simps) (simp add: RTI_MQTT_ReceivedMessage_new_def)
    moreover have "q'\<lparr>q_queue := q_queue q, q_live := q_live q\<rparr> = q"
      using fr by (cases q; cases q') (simp add: set_slot_def)
    ultimately show ?thesis
      using k rest by (intro exI [of _ k] exI [of _ q']) auto
  qed
qed

lemma delete_slots_result:
  "i \<le> n \<Longrightarrow> n \<le> length (seq_buf (q_queue q)) \<Longrightarrow> \<forall>j. i \<le> j \<and> j < n \<longrightarrow> is_ref (seq_buf (q_queue q) ! j) \<Longrightarrow>
   \<exists>q'. delete_slots env i n q = Some q' \<and> q_live q' = q_live q - int (n - i) \<and>
     ((\<forall>i. qe_delete env i) \<longrightarrow>
        q_freed q' = q_freed q @ List.map_filter (\<lambda>x. x) (drop i (take n (slot_msgs q))))"
proof (induction env i n q rule: delete_slots.induct)
  case (1 env i n q)
  show ?case
  proof (cases "i < n")
    case False
    then show ?thesis
      using 1 by (subst delete_slots.simps) (simp add: List.map_filter_simps)
  next
    case True
    then have il: "i < length (seq_buf (q_queue q))" and ref: "is_ref (seq_buf (q_queue q) ! i)"
      using "1.prems" by auto
    from slot_at_ref [OF il ref] obtain m
      where m: "slot_at q i = Some m" "rm_message m = slot_msgs q ! i" by blast
    let ?q1 = "set_slot i Dangling
        (RTI_MQTT_ReceivedMessage_delete (delete_sample env i (rm_message m) q))"
    have "n \<le> length (seq_buf (q_queue ?q1))"
      and "\<forall>j. i + 1 \<le> j \<and> j < n \<longrightarrow> is_ref (seq_buf (q_queue ?q1) ! j)"
      using "1.prems" by (auto simp: RTI_MQTT_ReceivedMessage_delete_def nth_list_update)
    with "1.IH" [OF True m(1)] True obtain q' where q': "delete_slots env (i + 1) n ?q1 = Some q'"
      "q_live q' = q_live ?q1 - int (n - (i + 1))"
      "(\<forall>i. qe_delete env i) \<longrightarrow> q_freed q' = q_freed ?q1
         @ List.map_filter (\<lambda>x. x) (drop (i + 1) (take n (slot_msgs ?q1)))"
      by auto
    have d: "drop i (take n (slot_msgs q)) = slot_msgs q ! i # drop (Suc i) (take n (slot_msgs q))"
      using True il by (subst Cons_nth_drop_Suc [symmetric]) auto
    have lv: "q_live ?q1 = q_live q - 1"
      by (simp add: RTI_MQTT_ReceivedMessage_delete_def delete_sample_def split: option.splits)
    have sm: "drop (Suc i) (take n (slot_msgs ?q1)) = drop (Suc i) (take n (slot_msgs q))"
      by (simp add: drop_take) (simp add: RTI_MQTT_ReceivedMessage_delete_def slot_msgs_def)
    have "delete_slots env i n q = Some q'"
      using True m(1) q'(1) by (subst delete_slots.simps) simp
    moreover have "q_live q' = q_live q - int (n - i)" using q'(2) lv True by simp
    moreover have "(\<forall>i. qe_delete env i) \<longrightarrow>
        q_freed q' = q_freed q @ List.map_filter (\<lambda>x. x) (drop i (take n (slot_msgs q)))"
      using q'(3) sm d m(2) by (auto simp: RTI_MQTT_ReceivedMessage_delete_def delete_sample_def
          List.map_filter_simps split: option.splits)
    ultimately show ?thesis by blast
  qed
qed

lemma ring_fresh:
  assumes "seq_buf (q_queue q) = replicate n (Ref RTI_MQTT_ReceivedMessage_initialize)"
  shows "ring q = replicate n None" and "\<forall>p \<in> set (seq_buf (q_queue q)). is_ref p"
proof -
  have "slot_msgs q = replicate n None"
    using assms by (simp add: slot_msgs_def RTI_MQTT_ReceivedMessage_initialize_def)
  then show "ring q = replicate n None"
    by (intro nth_equalityI) (auto simp: ring_def nth_rotate)
  show "\<forall>p \<in> set (seq_buf (q_queue q)). is_ref p"
    using assms by simp
qed

text \<open>
  A successful initialisation gives an empty queue with one live object per slot; a failure
  leaves no object behind.
\<close>

lemma initialize_circular_result:
  assumes env: "env_laws env" and c: "0 < unat cap" and q: "q = (initial_queue cap st)\<lparr>q_dyn_data := True\<rparr>"
  obtains rc q' where "RTI_MQTT_MessageReceiveQueue_initialize_circular env q = Some (rc, q')"
    and "rc = DDS_RETCODE_ERROR \<and> q_live q' = 0 \<or>
      rc = DDS_RETCODE_OK \<and> circ_inv q' \<and> circ_abs q' = [] \<and> q_live q' = int (unat cap) \<and>
      \<not> q_read_buffer_loaned q' \<and> q_msg_status q' = st \<and> q_lock q' = 0 \<and> q_capacity q' = cap \<and>
      q_freed q' = []"
    and "env_total env \<and> (\<forall>j. qe_heap env j) \<and> qe_buffer_init env \<and> unat cap < 2147483648 \<longrightarrow>
      rc = DDS_RETCODE_OK"
proof -
  have l: "seq_laws (qe_ptrs env)" "seq_laws (qe_slots env)" using env by (simp_all add: env_laws_def)
  show thesis
  proof (cases "qe_buffer_init env \<and> seq_set_maximum (qe_ptrs env) cap seq_empty \<noteq> None \<and>
      (\<exists>s1. seq_set_maximum (qe_slots env) cap seq_empty = Some s1 \<and> seq_set_length (qe_slots env) cap s1 \<noteq> None)")
    case False
    then have "\<exists>q'. RTI_MQTT_MessageReceiveQueue_initialize_circular env q = Some (DDS_RETCODE_ERROR, q')
        \<and> q_live q' = 0"
      unfolding RTI_MQTT_MessageReceiveQueue_initialize_circular_def q initial_queue_def Let_def
      using c by (auto split: option.split)
    moreover have "\<not> (env_total env \<and> qe_buffer_init env \<and> unat cap < 2147483648)"
    proof
      assume a: "env_total env \<and> qe_buffer_init env \<and> unat cap < 2147483648"
      then have t: "seq_set_maximum (qe_ptrs env) cap seq_empty \<noteq> None"
        "seq_set_maximum (qe_slots env) cap seq_empty \<noteq> None"
        by (auto simp: env_total_def seq_total_def)
      then obtain s1 where s1: "seq_set_maximum (qe_slots env) cap seq_empty = Some s1" by auto
      then have "unat cap \<le> seq_max s1" using l(2) by (auto simp: seq_laws_def)
      then have "seq_set_length (qe_slots env) cap s1 \<noteq> None"
        using a by (auto simp: env_total_def seq_total_def)
      with False a t s1 show False by auto
    qed
    ultimately show thesis using that by blast
  next
    case True
    then obtain rb s1 s2 where r: "qe_buffer_init env" "seq_set_maximum (qe_ptrs env) cap seq_empty = Some rb"
      "seq_set_maximum (qe_slots env) cap seq_empty = Some s1" "seq_set_length (qe_slots env) cap s1 = Some s2"
      by auto
    have rb: "seq_max rb = unat cap" "unat cap < 2147483648" using l r(2) by (auto simp: seq_laws_def)
    have s2: "length (seq_buf s2) = unat cap" using seq_set_lengthD [OF l(2) r(4)] by simp
    let ?q1 = "q\<lparr>q_read_buffer := rb, q_read_buffer_loaned := False, q_queue := s2\<rparr>"
    have i: "RTI_MQTT_MessageReceiveQueue_initialize_circular env q =
      (case init_slots env 0 ?q1 of (k, q2, ok) \<Rightarrow>
         if ok then Some (DDS_RETCODE_OK, q2)
         else map_option (\<lambda>q. (DDS_RETCODE_ERROR, q\<lparr>q_read_buffer := seq_empty\<rparr>)) (delete_slots env 0 k q2))"
      using r c q by (auto simp: RTI_MQTT_MessageReceiveQueue_initialize_circular_def initial_queue_def)
    from init_slots_result [of 0 ?q1 env] s2 q obtain k q2
      where k: "init_slots env 0 ?q1 = (k, q2, k = unat cap)" "k \<le> unat cap"
      and fr: "q2\<lparr>q_queue := s2, q_live := 0\<rparr> = ?q1" and ln: "length (seq_buf (q_queue q2)) = unat cap"
      and bf: "take k (seq_buf (q_queue q2)) = replicate k (Ref RTI_MQTT_ReceivedMessage_initialize)"
      and lv: "q_live q2 = int k" and hp: "(\<forall>j. qe_heap env j) \<longrightarrow> k = unat cap"
      by (auto simp: initial_queue_def)
    show thesis
    proof (cases "k = unat cap")
      case True
      with bf ln have b: "seq_buf (q_queue q2) = replicate (unat cap) (Ref RTI_MQTT_ReceivedMessage_initialize)"
        by simp
      have f: "q_capacity q2 = cap" "q_next_unread q2 = 0" "q_size q2 = 0" "q_head q2 = 0" "q_next q2 = 0"
        "q_dyn_data q2" "q_read_buffer q2 = rb" "\<not> q_read_buffer_loaned q2" "q_msg_status q2 = st"
        "q_lock q2 = 0" "q_freed q2 = []"
        using fr q by (cases q2; simp add: initial_queue_def)+
      have "circ_shape q2" using ring_fresh(2) [OF b] f rb c b by (simp add: circ_shape_def)
      then have "circ_inv q2" "circ_abs q2 = []"
        using circ_invI [of q2 "[]"] ring_fresh(1) [OF b] f c by simp_all
      with True i k(1) lv f show thesis by (intro that [of DDS_RETCODE_OK q2]) simp_all
    next
      case False
      have "\<forall>j. 0 \<le> j \<and> j < k \<longrightarrow> is_ref (seq_buf (q_queue q2) ! j)"
        using bf by (metis in_set_replicate is_ref_simps(1) nth_mem nth_take length_replicate)
      with delete_slots_result [of 0 k q2 env] k(2) ln lv obtain q3
        where "delete_slots env 0 k q2 = Some q3" "q_live q3 = 0" by auto
      with False i k(1) hp show thesis
        by (intro that [of DDS_RETCODE_ERROR "q3\<lparr>q_read_buffer := seq_empty\<rparr>"]) simp_all
    qed
  qed
qed

section \<open>The operations of the interface\<close>

text \<open>\<^verbatim>\<open>receive\<close> on a circular queue, in terms of the list of unread samples.\<close>

definition receive_input :: "'d queue_env \<Rightarrow> octet list \<times> u32 \<times> string \<times> message_info option \<Rightarrow> 'd option" where
  "receive_input env i = (case i of (buffer, len, topic, info) \<Rightarrow> received_sample env buffer len topic info)"

lemma receive_circ:
  assumes inv: "circ_inv q" and s: "received_sample env buffer len topic info = Some msg"
  obtains q' where "RTI_MQTT_MessageReceiveQueue_receive env q buffer len topic info =
      Some (DDS_RETCODE_OK, q', snd (bounded_put (unat (q_capacity q)) (circ_abs q) msg),
        length (circ_abs q) = unat (q_capacity q))"
    and "circ_inv q'" and "circ_abs q' = fst (bounded_put (unat (q_capacity q)) (circ_abs q) msg)"
    and "q_capacity q' = q_capacity q" and "q_lock q' = q_lock q"
    and "q_read_buffer_loaned q' = q_read_buffer_loaned q" and "q_read_buffer q' = q_read_buffer q"
    and "q_freed q' = q_freed q" and "q_live q' = q_live q"
    and "q_msg_status q' = count_received (length (circ_abs q) = unat (q_capacity q)) (q_msg_status q)"
proof -
  let ?q0 = "q\<lparr>q_lock := q_lock q + 1\<rparr>" and ?c = "unat (q_capacity q)"
  have len: "length (circ_abs q) = unat (q_size q)" using inv by (rule circ_inv_abs_length)
  have cp: "q_capacity q \<noteq> 0" using circ_capacity_pos [OF inv] by auto
  have le: "unat (q_size q) \<le> ?c" using inv by (simp add: circ_inv_def)
  have inv0: "circ_inv ?q0" using inv by simp
  define fin where "fin q1 = q1\<lparr>q_msg_status := count_received (length (circ_abs q) = ?c) (q_msg_status q1),
       q_lock := q_lock q1 - 1\<rparr>" for q1 :: "'a mrqueue"
  have fin [simp]: "circ_inv (fin q1) = circ_inv q1" "circ_abs (fin q1) = circ_abs q1" for q1
    by (simp_all add: fin_def)
  show thesis
  proof (cases "unat (q_size q) < ?c")
    case True
    then have room: "unat (q_size ?q0) < unat (q_capacity ?q0)" by simp
    obtain q1 where q1: "RTI_MQTT_MessageReceiveQueue_receive_circular ?q0 msg = Some (q1, None, False)"
      "circ_inv q1" "circ_abs q1 = circ_abs q @ [msg]"
      and fr: "\<exists>p s n h. q1 = ?q0\<lparr>q_queue := p, q_size := s, q_next := n, q_notified := h\<rparr>"
      by (rule receive_circular_not_full [OF inv0 room, of msg]) simp
    show thesis
      by (rule that [of "fin q1"]) (use True len s q1 fr cp in
          \<open>auto simp: RTI_MQTT_MessageReceiveQueue_receive_def bounded_put_def word_gt_0 fin_def\<close>)
  next
    case False
    then have full: "unat (q_size ?q0) = unat (q_capacity ?q0)" using le by simp
    obtain q1 where q1: "RTI_MQTT_MessageReceiveQueue_receive_circular ?q0 msg
        = Some (q1, Some (hd (circ_abs q)), True)"
      "circ_inv q1" "circ_abs q1 = tl (circ_abs q) @ [msg]"
      and fr: "\<exists>p h n u k. q1 = ?q0\<lparr>q_queue := p, q_head := h, q_next := n, q_next_unread := u, q_notified := k\<rparr>"
      by (rule receive_circular_full [OF inv0 full, of msg]) simp
    show thesis
      by (rule that [of "fin q1"]) (use full len s q1 fr cp in
          \<open>auto simp: RTI_MQTT_MessageReceiveQueue_receive_def bounded_put_def word_gt_0 fin_def\<close>)
  qed
qed

lemma receive_error:
  "received_sample env buffer len topic info = None \<Longrightarrow>
   RTI_MQTT_MessageReceiveQueue_receive env q buffer len topic info = Some (DDS_RETCODE_ERROR, q, None, False)"
  by (simp add: RTI_MQTT_MessageReceiveQueue_receive_def)

text \<open>\<^verbatim>\<open>read\<close> without a buffer: the unread samples are lent to the caller.\<close>

lemma read_circ_loan:
  assumes inv: "circ_inv q" and env: "env_laws env" "env_total env"
    and ms: "seq_max messages = 0" "\<not> seq_loaned messages" and nl: "\<not> q_read_buffer_loaned q"
  obtains q' messages' ds
  where "ds = (if length (circ_abs q) = unat (q_capacity q) then [] else circ_abs q)"
    and "RTI_MQTT_MessageReceiveQueue_read env q RTI_MQTT_SUBSCRIPTION_READ_LENGTH_UNLIMITED messages
      = Some (DDS_RETCODE_OK, q', messages')"
    and "circ_inv q'"
    and "circ_abs q' = (if length (circ_abs q) = unat (q_capacity q) then circ_abs q else [])"
    and "seq_buf messages' = map Some ds" and "q_read_buffer_loaned q' = (ds \<noteq> [])"
    and "seq_loaned messages' = (ds \<noteq> [])" and "take (length ds) (seq_buf (q_read_buffer q')) = map Some ds"
    and "q_freed q' = q_freed q" and "q_live q' = q_live q" and "q_lock q' = q_lock q"
    and "q_msg_status q' = count_read (length ds) (q_msg_status q)" and "q_capacity q' = q_capacity q"
proof -
  let ?q0 = "q\<lparr>q_lock := q_lock q + 1\<rparr>" and ?c = "unat (q_capacity q)"
  have inv0: "circ_inv ?q0" and nl0: "\<not> q_read_buffer_loaned ?q0" using inv nl by simp_all
  have len: "length (circ_abs q) = unat (q_size q)" and cp: "0 < q_capacity q"
    using circ_inv_abs_length [OF inv] circ_capacity_pos [OF inv] .
  have le: "unat (q_size q) \<le> ?c" using inv by (simp add: circ_inv_def)
  obtain N q1 m1 where N: "N = circ_take ?q0 (q_capacity ?q0)"
    and r: "RTI_MQTT_MessageReceiveQueue_read_circular env ?q0
           RTI_MQTT_SUBSCRIPTION_READ_LENGTH_UNLIMITED messages = Some (DDS_RETCODE_OK, q1, m1)"
    and q1: "circ_inv q1" "circ_abs q1 = drop N (circ_abs ?q0)"
      "seq_buf m1 = map Some (take N (circ_abs ?q0))"
      "q_read_buffer_loaned q1 = (0 < N)" "seq_loaned m1 = (0 < N)"
      "take N (seq_buf (q_read_buffer q1)) = map Some (take N (circ_abs ?q0))"
      "q_freed q1 = q_freed ?q0" "q_live q1 = q_live ?q0" "q_lock q1 = q_lock ?q0"
      "q_msg_status q1 = q_msg_status ?q0" "q_capacity q1 = q_capacity ?q0"
    by (rule read_circular_loan [OF inv0 env ms nl0])
  define ds where "ds = (if length (circ_abs q) = ?c then [] else circ_abs q)"
  have N': "N = length ds" "take N (circ_abs q) = ds"
    "drop N (circ_abs q) = (if length (circ_abs q) = ?c then circ_abs q else [])"
    using N len le by (auto simp: circ_take_def ds_def min_def)
  let ?q' = "q1\<lparr>q_msg_status := count_read (length ds) (q_msg_status q1), q_lock := q_lock q1 - 1\<rparr>"
  have "RTI_MQTT_MessageReceiveQueue_read env q RTI_MQTT_SUBSCRIPTION_READ_LENGTH_UNLIMITED messages
      = Some (DDS_RETCODE_OK, ?q', m1)"
    using cp r q1(3) N' by (simp add: RTI_MQTT_MessageReceiveQueue_read_def count_read_def
        seq_get_length_def Let_def)
  then show thesis
    by (rule that [OF ds_def]) (use q1 N' in \<open>simp_all\<close>)
qed

lemma circ_loan_frame:
  assumes "q'\<lparr>q_read_buffer := q_read_buffer q, q_freed := q_freed q, q_read_buffer_loaned := True\<rparr> = q"
    and "seq_max (q_read_buffer q') = seq_max (q_read_buffer q)" and "circ_inv q"
  shows "circ_inv q'" and "circ_abs q' = circ_abs q" and "q_capacity q' = q_capacity q"
    and "q_msg_status q' = q_msg_status q" and "q_live q' = q_live q" and "q_lock q' = q_lock q"
  using assms by (cases q; cases q';
      simp add: circ_inv_def circ_shape_def circ_abs_def ring_def slot_msgs_def)+

section \<open>The circular queue implements the bounded queue\<close>

text \<open>
  The reader's cycle, as in \<^verbatim>\<open>RTI_MQTT_MessageReader\<close>: read with an empty sequence, use the
  samples, return the loan.
\<close>

definition circ_put ::
    "'d queue_env \<Rightarrow> octet list \<times> u32 \<times> string \<times> message_info option \<Rightarrow> 'd mrqueue \<Rightarrow> 'd mrqueue option" where
  "circ_put env i q =
     (case i of (buffer, len, topic, info) \<Rightarrow>
        map_option (\<lambda>(_, q', _). q') (RTI_MQTT_MessageReceiveQueue_receive env q buffer len topic info))"

definition read_cycle :: "'d queue_env \<Rightarrow> 'd mrqueue \<Rightarrow> ('d list \<times> 'd mrqueue) option" where
  "read_cycle env q =
     (case RTI_MQTT_MessageReceiveQueue_read env q RTI_MQTT_SUBSCRIPTION_READ_LENGTH_UNLIMITED seq_empty of
        Some (DDS_RETCODE_OK, q1, messages) \<Rightarrow>
          (case RTI_MQTT_MessageReceiveQueue_return_loan env q1 messages of
             Some (DDS_RETCODE_OK, q2, _) \<Rightarrow> Some (map the (seq_buf messages), q2)
           | _ \<Rightarrow> None)
      | _ \<Rightarrow> None)"

definition reader_env :: "'d queue_env \<Rightarrow> bool" where
  "reader_env env \<longleftrightarrow> env_laws env \<and> env_total env \<and> (\<forall>i. qe_delete env i)"

definition circ_idle :: "'d mrqueue \<Rightarrow> bool" where
  "circ_idle q \<longleftrightarrow> circ_inv q \<and> \<not> q_read_buffer_loaned q"

definition circ_cap :: "'d mrqueue \<Rightarrow> nat" where
  "circ_cap q = unat (q_capacity q)"

lemma read_cycle_circ:
  assumes env: "reader_env env" and q: "circ_idle q"
  obtains q' ds where "ds = (if length (circ_abs q) = circ_cap q then [] else circ_abs q)"
    and "read_cycle env q = Some (ds, q')" and "circ_idle q'" and "circ_cap q' = circ_cap q"
    and "circ_abs q' = (if length (circ_abs q) = circ_cap q then circ_abs q else [])"
    and "q_freed q' = q_freed q @ ds" and "q_live q' = q_live q" and "q_lock q' = q_lock q"
    and "q_msg_status q' = count_read (length ds) (q_msg_status q)"
proof -
  have inv: "circ_inv q" and nl: "\<not> q_read_buffer_loaned q" and e: "env_laws env" "env_total env"
    and d: "\<forall>i. qe_delete env i"
    using env q by (simp_all add: reader_env_def circ_idle_def)
  have se: "seq_max (seq_empty :: 'a option dds_seq) = 0" "\<not> seq_loaned (seq_empty :: 'a option dds_seq)"
    by (simp_all add: seq_empty_def)
  obtain ds q1 ms where ds: "ds = (if length (circ_abs q) = unat (q_capacity q) then [] else circ_abs q)"
    and r: "RTI_MQTT_MessageReceiveQueue_read env q RTI_MQTT_SUBSCRIPTION_READ_LENGTH_UNLIMITED seq_empty
      = Some (DDS_RETCODE_OK, q1, ms)"
    and q1: "circ_inv q1"
      "circ_abs q1 = (if length (circ_abs q) = unat (q_capacity q) then circ_abs q else [])"
      "seq_buf ms = map Some ds" "q_read_buffer_loaned q1 = (ds \<noteq> [])" "seq_loaned ms = (ds \<noteq> [])"
      "take (length ds) (seq_buf (q_read_buffer q1)) = map Some ds" "q_freed q1 = q_freed q"
      "q_live q1 = q_live q" "q_lock q1 = q_lock q"
      "q_msg_status q1 = count_read (length ds) (q_msg_status q)" "q_capacity q1 = q_capacity q"
    by (rule read_circ_loan [OF inv e se nl]) blast
  have mp: "map (the \<circ> Some) ds = ds" by (simp add: o_def)
  show thesis
  proof (cases "ds = []")
    case True
    then have "RTI_MQTT_MessageReceiveQueue_return_loan env q1 ms = Some (DDS_RETCODE_OK, q1, ms)"
      using q1(4) by (simp add: RTI_MQTT_MessageReceiveQueue_return_loan_def)
    with True r q1 ds show thesis
      by (intro that [of ds q1]) (simp_all add: read_cycle_def circ_idle_def circ_cap_def)
  next
    case False
    have ln: "length ds \<le> seq_max (q_read_buffer q1)" "length ds < 2147483648"
      using ds circ_bounds [OF q1(1)] circ_bounds [OF inv] q1(11) by auto
    have ll: "q_read_buffer_loaned q1" "seq_loaned ms" using q1(4,5) False by simp_all
    obtain q2
      where q2: "RTI_MQTT_MessageReceiveQueue_return_loan env q1 ms = Some (DDS_RETCODE_OK, q2, seq_empty)"
      "\<not> q_read_buffer_loaned q2" "q_freed q2 = q_freed q1 @ ds"
      and fr: "q2\<lparr>q_read_buffer := q_read_buffer q1, q_freed := q_freed q1, q_read_buffer_loaned := True\<rparr> = q1"
        "seq_max (q_read_buffer q2) = seq_max (q_read_buffer q1)"
      by (rule return_loan_ok [OF e d ll q1(3,6) ln]) blast
    note f = circ_loan_frame [OF fr q1(1)]
    show thesis
      by (rule that [of ds q2])
        (use ds r q1 q2 f mp in \<open>simp_all add: read_cycle_def circ_idle_def circ_cap_def\<close>)
  qed
qed

lemma circ_put_circ:
  assumes q: "circ_idle q"
  shows "\<exists>q'. circ_put env i q = Some q' \<and> circ_idle q' \<and> circ_cap q' = circ_cap q \<and>
    circ_abs q' = (case receive_input env i of None \<Rightarrow> circ_abs q
                   | Some m \<Rightarrow> fst (bounded_put (circ_cap q) (circ_abs q) m))"
proof -
  obtain buffer len topic info where i: "i = (buffer, len, topic, info)" by (cases i)
  have inv: "circ_inv q" using q by (simp add: circ_idle_def)
  show ?thesis
  proof (cases "received_sample env buffer len topic info")
    case None
    then show ?thesis
      using q i by (simp add: circ_put_def receive_input_def receive_error)
  next
    case (Some m)
    show ?thesis
      by (rule receive_circ [OF inv Some])
        (use q i Some in \<open>simp add: circ_put_def receive_input_def circ_idle_def circ_cap_def\<close>)
  qed
qed

interpretation circ: bounded_queue reader_env circ_idle circ_abs circ_cap receive_input circ_put read_cycle
proof
  fix q :: "'a mrqueue"
  assume "circ_idle q"
  then show "0 < circ_cap q \<and> length (circ_abs q) \<le> circ_cap q"
    using circ_bounds by (auto simp: circ_idle_def circ_cap_def)
next
  fix q :: "'a mrqueue" and env :: "'a queue_env" and i
  assume "circ_idle q"
  then show "\<exists>q'. circ_put env i q = Some q' \<and> circ_idle q' \<and> circ_cap q' = circ_cap q \<and>
    circ_abs q' = (case receive_input env i of None \<Rightarrow> circ_abs q
                   | Some m \<Rightarrow> fst (bounded_put (circ_cap q) (circ_abs q) m))"
    by (rule circ_put_circ)
next
  fix q :: "'a mrqueue" and env :: "'a queue_env"
  assume "reader_env env" and "circ_idle q"
  then show "\<exists>q'. read_cycle env q = Some (if length (circ_abs q) = circ_cap q then [] else circ_abs q, q') \<and>
        circ_idle q' \<and> circ_cap q' = circ_cap q \<and>
        circ_abs q' = (if length (circ_abs q) = circ_cap q then circ_abs q else [])"
    by (rule read_cycle_circ) blast
qed

end
