(* ===== verification/UnboundedQueue.thy ===== *)
theory UnboundedQueue
  imports CircularQueue
begin

text \<open>
  The receive queue without a capacity (\<^verbatim>\<open>capacity == 0\<close>), as a list that grows.  The lemmas
  show that receiving appends and that reading without a buffer empties the queue into the
  caller's sequence, and what a read with a buffer that is too small does to the queue.
\<close>

definition unb_abs :: "'d mrqueue \<Rightarrow> 'd list" where
  "unb_abs q = map the (slot_msgs q)"

definition unb_inv :: "'d mrqueue \<Rightarrow> bool" where
  "unb_inv q \<longleftrightarrow> q_capacity q = 0 \<and> q_dyn_data q \<and> None \<notin> set (slot_msgs q) \<and>
     length (slot_msgs q) < 2147483648 \<and> length (slot_msgs q) \<le> seq_max (q_queue q) \<and>
     \<not> seq_loaned (q_queue q) \<and> \<not> seq_loaned (q_read_buffer q)"

lemma unb_slots: "unb_inv q \<Longrightarrow> slot_msgs q = map Some (unb_abs q)"
proof -
  assume "unb_inv q"
  then have "\<forall>x \<in> set (slot_msgs q). Some (the x) = x"
    unfolding unb_inv_def by (metis option.collapse)
  then show ?thesis by (simp add: unb_abs_def o_def map_idI)
qed

lemma unb_length: "length (unb_abs q) = length (seq_buf (q_queue q))"
  by (simp add: unb_abs_def)

lemma unb_invI:
  assumes "q_capacity q = 0" and "q_dyn_data q" and "slot_msgs q = map Some xs" and "length xs < 2147483648"
    and "length xs \<le> seq_max (q_queue q)" and "\<not> seq_loaned (q_queue q)" and "\<not> seq_loaned (q_read_buffer q)"
  shows "unb_inv q" and "unb_abs q = xs"
  using assms by (auto simp: unb_inv_def unb_abs_def o_def simp flip: length_slot_msgs)

lemma slot_at_msg:
  assumes "i < length (seq_buf (q_queue q))" and "slot_msgs q ! i = Some d"
  obtains m where "slot_at q i = Some m" and "rm_message m = Some d"
  using assms by (cases "seq_buf (q_queue q) ! i") (auto simp: slot_at_def slot_msgs_def slot_msg_def)

section \<open>Receiving\<close>

lemma receive_unbounded_ok:
  assumes inv: "unb_inv q" and room: "length (unb_abs q) < 2147483647"
    and env: "env_laws env" "env_total env" "qe_heap env 0"
  obtains q' where "RTI_MQTT_MessageReceiveQueue_receive_unbounded env q msg = Some (DDS_RETCODE_OK, q')"
    and "unb_inv q'" and "unb_abs q' = unb_abs q @ [msg]" and "q_live q' = q_live q + 1"
    and "q'\<lparr>q_queue := q_queue q, q_live := q_live q\<rparr> = q"
proof -
  let ?n = "length (seq_buf (q_queue q))" and ?l = "seq_get_length (q_queue q)"
  have l: "seq_laws (qe_slots env)" "seq_total (qe_slots env)"
    using env by (simp_all add: env_laws_def env_total_def)
  have n: "unat ?l = ?n" "unat (?l + 1) = Suc ?n"
    using room by (simp_all add: seq_get_length_def unb_length unat_of_nat_u32 unat_add_u32)
  obtain s where s: "seq_ensure_length (qe_slots env) (?l + 1) (?l + 1) (q_queue q) = Some s"
    using l(2) n room inv by (fastforce simp: seq_total_def unb_length unb_inv_def)
  have len: "length (seq_buf s) = Suc ?n" "Suc ?n \<le> seq_max s" "\<not> seq_loaned s" "\<not> seq_loaned (q_read_buffer q)"
    using seq_ensure_lengthD [OF l(1) s] n inv by (simp_all add: unb_inv_def)
  let ?m = "Ref (RTI_MQTT_ReceivedMessage_initialize\<lparr>rm_message := Some msg\<rparr>)"
  let ?q' = "(set_slot ?n ?m (q\<lparr>q_queue := s\<rparr>))\<lparr>q_live := q_live q + 1\<rparr>"
  have r: "RTI_MQTT_MessageReceiveQueue_receive_unbounded env q msg = Some (DDS_RETCODE_OK, ?q')"
    using s n len env(3)
    by (simp add: RTI_MQTT_MessageReceiveQueue_receive_unbounded_def RTI_MQTT_ReceivedMessage_new_def Let_def)
  have "seq_buf (q_queue ?q') = seq_buf (q_queue q) @ [?m]"
    using seq_append_one [OF l(1) s n(2)] by simp
  then have sm: "slot_msgs ?q' = map Some (unb_abs q @ [msg])"
    using unb_slots [OF inv] by (simp add: slot_msgs_def)
  have "q_capacity ?q' = 0" "q_dyn_data ?q'" using inv by (simp_all add: unb_inv_def)
  from unb_invI [OF this sm] room len(2-4) have "unb_inv ?q'" "unb_abs ?q' = unb_abs q @ [msg]"
    by (simp_all add: unb_length)
  with r show thesis by (rule that) (simp_all add: set_slot_def)
qed

lemma receive_unb:
  assumes inv: "unb_inv q" and room: "length (unb_abs q) < 2147483647"
    and env: "env_laws env" "env_total env" "qe_heap env 0"
    and s: "received_sample env buffer len topic info = Some msg"
  obtains q' where "RTI_MQTT_MessageReceiveQueue_receive env q buffer len topic info
      = Some (DDS_RETCODE_OK, q', None, False)"
    and "unb_inv q'" and "unb_abs q' = unb_abs q @ [msg]" and "q_live q' = q_live q + 1"
    and "q_lock q' = q_lock q" and "q_read_buffer_loaned q' = q_read_buffer_loaned q"
    and "q_read_buffer q' = q_read_buffer q" and "q_notified q' = q_notified q"
    and "q_msg_status q' = count_received False (q_msg_status q)"
proof -
  let ?q0 = "q\<lparr>q_lock := q_lock q + 1\<rparr>"
  have a0: "unb_abs ?q0 = unb_abs q" by (simp add: unb_abs_def slot_msgs_def)
  have i0: "unb_inv ?q0" using inv by (simp add: unb_inv_def slot_msgs_def)
  obtain q1 where r: "RTI_MQTT_MessageReceiveQueue_receive_unbounded env ?q0 msg = Some (DDS_RETCODE_OK, q1)"
    and q1: "unb_inv q1" "unb_abs q1 = unb_abs q @ [msg]" "q_live q1 = q_live q + 1"
    and fr: "q1\<lparr>q_queue := q_queue ?q0, q_live := q_live ?q0\<rparr> = ?q0"
    by (rule receive_unbounded_ok [OF i0 _ env, of msg]) (use room a0 in simp_all)
  let ?q' = "q1\<lparr>q_msg_status := count_received False (q_msg_status q1), q_lock := q_lock q1 - 1\<rparr>"
  have fr': "q_lock q1 = q_lock q + 1" "q_read_buffer_loaned q1 = q_read_buffer_loaned q"
    "q_read_buffer q1 = q_read_buffer q" "q_msg_status q1 = q_msg_status q" "q_notified q1 = q_notified q"
    using fr by (cases q; cases q1; simp)+
  show thesis
  proof (rule that [of ?q'])
    show "RTI_MQTT_MessageReceiveQueue_receive env q buffer len topic info
      = Some (DDS_RETCODE_OK, ?q', None, False)"
      using r inv s by (simp add: RTI_MQTT_MessageReceiveQueue_receive_def unb_inv_def)
    show "unb_inv ?q'" using q1(1) by (simp add: unb_inv_def slot_msgs_def)
    show "unb_abs ?q' = unb_abs q @ [msg]" using q1(2) by (simp add: unb_abs_def slot_msgs_def)
  qed (use q1(3) fr' in simp_all)
qed

section \<open>Reading\<close>

text \<open>The state of the loop after \<open>i\<close> of the samples \<open>xs\<close> have been taken.\<close>

definition unb_reading :: "'d mrqueue \<Rightarrow> 'd list \<Rightarrow> nat \<Rightarrow> bool" where
  "unb_reading q xs i \<longleftrightarrow>
     length (seq_buf (q_queue q)) = length xs \<and> i \<le> length xs \<and>
     length xs \<le> seq_max (q_queue q) \<and> take i (seq_buf (q_queue q)) = replicate i Null \<and>
     drop i (slot_msgs q) = map Some (drop i xs) \<and> \<not> seq_loaned (q_queue q)"

lemma unb_reading_step:
  assumes rd: "unb_reading q xs i" and i: "i < length xs"
    and q': "seq_buf (q_queue q') = (seq_buf (q_queue q))[i := Null]"
      "seq_max (q_queue q') = seq_max (q_queue q)" "seq_loaned (q_queue q') = seq_loaned (q_queue q)"
  shows "unb_reading q' xs (Suc i)"
proof -
  have "take (Suc i) (seq_buf (q_queue q')) = replicate (Suc i) Null"
    using rd i q' by (simp add: unb_reading_def take_Suc_conv_app_nth flip: replicate_append_same)
  moreover have "drop (Suc i) (slot_msgs q') = drop (Suc 0) (drop i (slot_msgs q))"
    using q' by (simp add: slot_msgs_def drop_map)
  then have "drop (Suc i) (slot_msgs q') = map Some (drop (Suc i) xs)"
    using rd by (simp only: unb_reading_def) (simp add: drop_map)
  ultimately show ?thesis
    using rd i q' by (simp add: unb_reading_def)
qed

text \<open>What the loop leaves alone besides what \<open>read_frame\<close> says: it also frees slot objects.\<close>

definition unb_frame where
  "unb_frame loan q messages q' messages' \<longleftrightarrow>
     read_frame loan (q\<lparr>q_live := 0\<rparr>) messages (q'\<lparr>q_live := 0\<rparr>) messages'"

lemma read_unbounded_loop_ok:
  assumes env: "loan \<or> samples_ok env"
  shows "unb_reading q xs i \<Longrightarrow> i \<le> n \<Longrightarrow> n \<le> length xs \<Longrightarrow> n \<le> length (outbuf loan q messages) \<Longrightarrow>
    take i (outbuf loan q messages) = map Some (take i xs) \<Longrightarrow>
    \<exists>q' messages'. read_unbounded_loop env loan n i q messages = Some (True, n, q', messages') \<and>
      unb_reading q' xs n \<and> unb_frame loan q messages q' messages' \<and>
      take n (outbuf loan q' messages') = map Some (take n xs) \<and>
      q_live q' = q_live q - int (n - i)"
proof (induction "n - i" arbitrary: i q messages)
  case 0
  then have "i = n" by simp
  with 0 show ?case
    by (subst read_unbounded_loop.simps) (simp add: unb_frame_def read_frame_refl)
next
  case (Suc k)
  have i: "i < n" "i < length xs" "i < length (seq_buf (q_queue q))" using Suc by (auto simp: unb_reading_def)
  have "slot_msgs q ! i = Some (xs ! i)"
    using Suc.prems(1) i nth_drop [of i "slot_msgs q" 0] by (simp add: unb_reading_def)
  from slot_at_msg [OF i(3) this] obtain m where m: "slot_at q i = Some m" "rm_message m = Some (xs ! i)" .
  have io: "i < length (outbuf loan q messages)" using i Suc.prems(4) by simp
  from take_sample_ok [OF env io m(2), of i] obtain q1 m1 b f
    where t: "take_sample env loan i i m q messages = Some (True, q1, m1)"
    and q1: "q1 = set_slot i (Ref (m\<lparr>rm_message := None\<rparr>)) (q\<lparr>q_read_buffer := b, q_freed := f\<rparr>)"
    and fr: "read_frame loan q messages q1 m1"
    and out: "outbuf loan q1 m1 = (outbuf loan q messages)[i := Some (xs ! i)]" by metis
  let ?q2 = "set_slot i Null (RTI_MQTT_ReceivedMessage_delete q1)"
  have o2: "outbuf loan ?q2 m1 = outbuf loan q1 m1"
    by (simp add: outbuf_def RTI_MQTT_ReceivedMessage_delete_def)
  have "seq_buf (q_queue ?q2) = (seq_buf (q_queue q))[i := Null]"
    and "seq_max (q_queue ?q2) = seq_max (q_queue q)"
    and "seq_loaned (q_queue ?q2) = seq_loaned (q_queue q)"
    using q1 by (simp_all add: RTI_MQTT_ReceivedMessage_delete_def)
  from unb_reading_step [OF Suc.prems(1) i(2) this] have rd2: "unb_reading ?q2 xs (Suc i)" .
  have fr2: "unb_frame loan q messages ?q2 m1"
    using fr by (cases q; cases q1; cases loan)
      (simp_all add: unb_frame_def read_frame_def outbuf_def RTI_MQTT_ReceivedMessage_delete_def set_slot_def)
  have lv: "q_live ?q2 = q_live q - 1" using q1 by (simp add: RTI_MQTT_ReceivedMessage_delete_def)
  have tk: "take (Suc i) (outbuf loan ?q2 m1) = map Some (take (Suc i) xs)"
    using o2 out i io Suc.prems(5) by (simp add: take_Suc_conv_app_nth)
  have "k = n - Suc i" "Suc i \<le> n" "n \<le> length (outbuf loan ?q2 m1)"
    using Suc.hyps(2) i o2 out Suc.prems(4) by auto
  from Suc.hyps(1) [OF this(1) rd2 this(2) Suc.prems(3) this(3) tk] obtain q' messages'
    where r: "read_unbounded_loop env loan n (Suc i) ?q2 m1 = Some (True, n, q', messages')"
    "unb_reading q' xs n" "unb_frame loan ?q2 m1 q' messages'"
    "take n (outbuf loan q' messages') = map Some (take n xs)" "q_live q' = q_live ?q2 - int (n - Suc i)"
    by blast
  have "read_unbounded_loop env loan n i q messages = Some (True, n, q', messages')"
    using i(1) m(1) t r(1) by (subst read_unbounded_loop.simps) simp
  moreover have "unb_frame loan q messages q' messages'"
    using read_frame_trans fr2 r(3) unfolding unb_frame_def by blast
  moreover have "q_live q' = q_live q - int (n - i)" using r(5) lv i by simp
  ultimately show ?case using r(2,4) by blast
qed

lemma unb_reading_begin: "unb_inv q \<Longrightarrow> unb_reading q (unb_abs q) 0"
  by (simp add: unb_reading_def unb_length unb_slots) (simp add: unb_inv_def)

lemma unb_frameD:
  assumes "unb_frame loan q messages q' messages'"
  shows "q_lock q' = q_lock q" "q_capacity q' = q_capacity q" "q_dyn_data q' = q_dyn_data q"
    "q_read_buffer_loaned q' = q_read_buffer_loaned q" "q_msg_status q' = q_msg_status q"
    "q_notified q' = q_notified q" "seq_max messages' = seq_max messages"
    "seq_loaned messages' = seq_loaned messages"
    "length (outbuf loan q' messages') = length (outbuf loan q messages)"
    "loan \<Longrightarrow> messages' = messages" "\<not> loan \<Longrightarrow> q_read_buffer q' = q_read_buffer q"
    "seq_loaned (q_read_buffer q') = seq_loaned (q_read_buffer q)"
  using read_frameD [OF assms [unfolded unb_frame_def]] by (simp_all add: outbuf_def split: if_splits)

text \<open>
  A read in either mode, up to the final resizing of the slot sequence: the first \<open>n\<close> slots are
  null afterwards and the others untouched.
\<close>

lemma read_unbounded_begin_loan:
  assumes ln: "length (seq_buf (q_queue q)) < 2147483648" and env: "env_laws env" "env_total env"
    and ms: "seq_max messages = 0" "\<not> seq_loaned messages" and nl: "\<not> q_read_buffer_loaned q"
    and own: "\<not> seq_loaned (q_read_buffer q)"
  obtains rb where "read_unbounded_begin env q RTI_MQTT_SUBSCRIPTION_READ_LENGTH_UNLIMITED messages
      = Inr (seq_get_length (q_queue q), True, q\<lparr>q_read_buffer := rb\<rparr>, seq_empty)"
    and "length (seq_buf rb) = length (seq_buf (q_queue q))" and "\<not> seq_loaned rb"
proof -
  let ?l = "seq_get_length (q_queue q)"
  have p: "seq_laws (qe_ptrs env)" "seq_total (qe_ptrs env)" "seq_laws (qe_samples env)"
    "seq_total (qe_samples env)" using env by (simp_all add: env_laws_def env_total_def)
  have n: "unat ?l = length (seq_buf (q_queue q))" "unat ?l < 2147483648"
    using ln by (simp_all add: seq_get_length_def unat_of_nat_u32)
  obtain b1 where b1: "seq_ensure_length (qe_ptrs env) ?l ?l (q_read_buffer q) = Some b1"
    using p(2) n own by (fastforce simp: seq_total_def)
  have "unat ?l \<le> seq_max b1" using seq_ensure_lengthD [OF p(1) b1] by simp
  then obtain b2 where b2: "seq_set_length (qe_ptrs env) ?l b1 = Some b2"
    using p(2) by (fastforce simp: seq_total_def)
  obtain m1 where m1: "seq_set_length (qe_samples env) 0 messages = Some m1"
    using p(4) by (fastforce simp: seq_total_def)
  have "m1 = seq_empty"
    using seq_set_lengthD [OF p(3) m1] ms by (cases m1) (simp add: seq_empty_def)
  then have "read_unbounded_begin env q RTI_MQTT_SUBSCRIPTION_READ_LENGTH_UNLIMITED messages
      = Inr (?l, True, q\<lparr>q_read_buffer := b2\<rparr>, seq_empty)"
    using b1 b2 m1 ms nl
    by (simp add: read_unbounded_begin_def seq_get_maximum_def Let_def
        RTI_MQTT_SUBSCRIPTION_READ_LENGTH_UNLIMITED_def)
  then show thesis 
    by (rule that) (use seq_set_lengthD [OF p(1) b2] seq_ensure_lengthD [OF p(1) b1] n own in simp_all)
qed

text \<open>Reading with an empty sequence empties the queue and lends every sample to the caller.\<close>

lemma read_unb_loan:
  assumes inv: "unb_inv q" and env: "env_laws env" "env_total env"
    and ms: "seq_max messages = 0" "\<not> seq_loaned messages" and nl: "\<not> q_read_buffer_loaned q"
  obtains q' messages'
  where "RTI_MQTT_MessageReceiveQueue_read env q RTI_MQTT_SUBSCRIPTION_READ_LENGTH_UNLIMITED messages
      = Some (DDS_RETCODE_OK, q', messages')"
    and "unb_inv q'" and "unb_abs q' = []" and "seq_buf messages' = map Some (unb_abs q)"
    and "q_read_buffer_loaned q' = (unb_abs q \<noteq> [])"
    and "q_live q' = q_live q - int (length (unb_abs q))" and "q_lock q' = q_lock q"
    and "q_msg_status q' = count_read (length (unb_abs q)) (q_msg_status q)"
proof -
  let ?q0 = "q\<lparr>q_lock := q_lock q + 1\<rparr>" and ?xs = "unb_abs q" and ?n = "length (unb_abs q)"
  let ?l = "seq_get_length (q_queue q)"
  have a0: "unb_abs ?q0 = ?xs" by (simp add: unb_abs_def slot_msgs_def)
  have i0: "unb_inv ?q0" using inv by (simp add: unb_inv_def slot_msgs_def)
  have p: "seq_laws (qe_slots env)" "seq_total (qe_slots env)" "seq_laws (qe_samples env)"
    "seq_total (qe_samples env)" using env by (simp_all add: env_laws_def env_total_def)
  have n: "unat ?l = ?n" "?n < 2147483648" "of_nat ?n = ?l"
    using inv by (simp_all add: seq_get_length_def unb_length unat_of_nat_u32 unb_inv_def)
  obtain rb where b: "read_unbounded_begin env ?q0 RTI_MQTT_SUBSCRIPTION_READ_LENGTH_UNLIMITED messages
      = Inr (?l, True, ?q0\<lparr>q_read_buffer := rb\<rparr>, seq_empty)" and rb: "length (seq_buf rb) = ?n" "\<not> seq_loaned rb"
    by (rule read_unbounded_begin_loan [OF _ env ms, of ?q0]) (use nl inv in \<open>simp_all add: unb_inv_def unb_length\<close>)
  let ?q1 = "?q0\<lparr>q_read_buffer := rb\<rparr>"
  have "unb_reading ?q1 ?xs 0" using unb_reading_begin [OF inv] by (simp add: unb_reading_def slot_msgs_def)
  from read_unbounded_loop_ok [of True env, OF _ this, of ?n seq_empty] rb obtain q2 m2
    where lp: "read_unbounded_loop env True ?n 0 ?q1 seq_empty = Some (True, ?n, q2, m2)"
    and rd: "unb_reading q2 ?xs ?n" and fr: "unb_frame True ?q1 seq_empty q2 m2"
    and tk: "take ?n (seq_buf (q_read_buffer q2)) = map Some ?xs" and lv: "q_live q2 = q_live q - int ?n"
    by (auto simp: outbuf_def)
  note f = unb_frameD [OF fr]
  obtain s where s: "seq_set_length (qe_slots env) 0 (q_queue q2) = Some s"
    using p(2) by (fastforce simp: seq_total_def)
  have s': "seq_buf s = []" "\<not> seq_loaned s" "\<not> seq_loaned (q_read_buffer q2)"
    using seq_set_lengthD [OF p(1) s] rd f(12) rb(2) by (simp_all add: unb_reading_def)
  define lo where "lo = (\<lambda>q3 :: 'a mrqueue. if ?n = 0 then q3 else q3\<lparr>q_read_buffer_loaned := True\<rparr>)"
  obtain m3 where m3: "RTI_MQTT_MessageReceiveQueue_read_unbounded env ?q0
        RTI_MQTT_SUBSCRIPTION_READ_LENGTH_UNLIMITED messages
      = Some (DDS_RETCODE_OK, (lo q2)\<lparr>q_queue := s\<rparr>, m3)" "seq_buf m3 = map Some ?xs"
  proof (cases "?n = 0")
    case True
    show thesis
      by (rule that [of seq_empty]) (use True b lp n f s in
        \<open>simp_all add: RTI_MQTT_MessageReceiveQueue_read_unbounded_def Let_def lo_def seq_empty_def\<close>)
  next
    case False
    obtain m where m: "seq_loan (qe_samples env) (seq_buf (q_read_buffer q2)) ?l ?l seq_empty = Some m"
      using p(4) by (fastforce simp: seq_total_def seq_empty_def)
    have "seq_buf m = map Some ?xs" using p(3) m n tk by (auto simp: seq_laws_def)
    moreover have "0 < ?l" using False n by (simp add: word_less_nat_alt)
    ultimately show thesis
      by (intro that [of m]) (use False b lp n f s m in
        \<open>simp_all add: RTI_MQTT_MessageReceiveQueue_read_unbounded_def Let_def lo_def\<close>)
  qed
  let ?q' = "((lo q2)\<lparr>q_queue := s\<rparr>)\<lparr>q_msg_status := count_read ?n (q_msg_status q2), q_lock := q_lock q\<rparr>"
  have r: "RTI_MQTT_MessageReceiveQueue_read env q RTI_MQTT_SUBSCRIPTION_READ_LENGTH_UNLIMITED messages
      = Some (DDS_RETCODE_OK, ?q', m3)"
    using m3 inv f(1) by (simp add: RTI_MQTT_MessageReceiveQueue_read_def count_read_def seq_get_length_def
        unb_inv_def Let_def lo_def)
  have sm: "slot_msgs ?q' = map Some []" using s' by (simp add: slot_msgs_def)
  have e: "unb_inv ?q'" "unb_abs ?q' = []"
    using unb_invI [OF _ _ sm] inv f s' by (simp_all add: unb_inv_def lo_def)
  show thesis
    by (rule that [OF r e m3(2)]) (use nl f lv in \<open>simp_all add: lo_def\<close>)
qed

text \<open>
  Reading into a buffer that holds fewer messages than there are: the caller gets the first ones,
  but the slots are not moved to the front before the sequence is shortened, so null slots
  remain.
\<close>

lemma read_unb_partial:
  assumes inv: "unb_inv q" and env: "env_laws env" "env_total env" "samples_ok env"
    and mx: "0 < unat mx" "unat mx < length (unb_abs q)" "unat mx \<le> seq_max messages"
      "seq_max messages < 2147483648"
  obtains q' messages'
  where "RTI_MQTT_MessageReceiveQueue_read env q mx messages = Some (DDS_RETCODE_OK, q', messages')"
    and "seq_buf messages' = map Some (take (unat mx) (unb_abs q))"
    and "length (seq_buf (q_queue q')) = length (unb_abs q) - unat mx"
    and "seq_buf (q_queue q') ! 0 = Null" and "q_capacity q' = 0"
    and "q_read_buffer_loaned q' = q_read_buffer_loaned q" and "\<not> seq_loaned (q_read_buffer q')"
proof -
  let ?q0 = "q\<lparr>q_lock := q_lock q + 1\<rparr>" and ?xs = "unb_abs q" and ?n = "length (unb_abs q)"
  let ?l = "seq_get_length (q_queue q)"
  have p: "seq_laws (qe_slots env)" "seq_total (qe_slots env)" "seq_laws (qe_samples env)"
    "seq_total (qe_samples env)" using env by (simp_all add: env_laws_def env_total_def)
  have n: "unat ?l = ?n" "?n < 2147483648" "?n \<le> seq_max (q_queue q)"
    using inv by (simp_all add: seq_get_length_def unb_length unat_of_nat_u32 unb_inv_def)
  obtain m1 where m1: "seq_set_length (qe_samples env) mx messages = Some m1"
    using p(4) mx by (fastforce simp: seq_total_def)
  note m1D = seq_set_lengthD [OF p(3) m1]
  have b: "read_unbounded_begin env ?q0 mx messages = Inr (mx, False, ?q0, m1)"
    using mx n m1 by (simp add: read_unbounded_begin_def RTI_MQTT_SUBSCRIPTION_READ_LENGTH_UNLIMITED_def
        seq_get_maximum_def word_less_nat_alt unat_of_nat_u32 Let_def unat_eq_0 flip: unat_eq_0)
  have "unb_reading ?q0 ?xs 0" using unb_reading_begin [OF inv] by (simp add: unb_reading_def slot_msgs_def)
  from read_unbounded_loop_ok [of False env, OF _ this, of "unat mx" m1] mx m1D(1) env(3) obtain q2 m2
    where lp: "read_unbounded_loop env False (unat mx) 0 ?q0 m1 = Some (True, unat mx, q2, m2)"
    and rd: "unb_reading q2 ?xs (unat mx)" and fr: "unb_frame False ?q0 m1 q2 m2"
    and tk: "take (unat mx) (seq_buf m2) = map Some (take (unat mx) ?xs)"
    by (auto simp: outbuf_def)
  note f = unb_frameD [OF fr]
  have "unat mx \<le> seq_max m2" using f(7) m1D mx by simp
  then obtain m3 where m3: "seq_set_length (qe_samples env) mx m2 = Some m3"
    using p(4) by (fastforce simp: seq_total_def)
  have m3': "seq_buf m3 = map Some (take (unat mx) ?xs)"
    using seq_set_lengthD(5) [OF p(3) m3] f(9) m1D tk by (simp add: outbuf_def)
  have qm: "?n \<le> seq_max (q_queue q2)" using rd by (simp add: unb_reading_def)
  have u: "unat (?l - mx) = ?n - unat mx" using n mx by (simp add: unat_sub_u32)
  then obtain s where s: "seq_set_length (qe_slots env) (?l - mx) (q_queue q2) = Some s"
    using p(2) n qm mx by (fastforce simp: seq_total_def)
  have ln: "length (seq_buf (q_queue q2)) = ?n" and nl: "take (unat mx) (seq_buf (q_queue q2)) = replicate (unat mx) Null"
    using rd by (simp_all add: unb_reading_def)
  have s': "length (seq_buf s) = ?n - unat mx" "seq_buf s ! 0 = seq_buf (q_queue q2) ! 0"
    using seq_set_lengthD(1,5) [OF p(1) s] u ln mx by simp_all
  have "seq_buf (q_queue q2) ! 0 = take (unat mx) (seq_buf (q_queue q2)) ! 0" using mx by simp
  with s'(2) nl mx have z: "seq_buf s ! 0 = Null" by simp
  have "\<not> ?l < mx" using n mx by (simp add: word_less_nat_alt)
  then have ru: "RTI_MQTT_MessageReceiveQueue_read_unbounded env ?q0 mx messages
      = Some (DDS_RETCODE_OK, q2\<lparr>q_queue := s\<rparr>, m3)"
    using b lp m3 s by (simp add: RTI_MQTT_MessageReceiveQueue_read_unbounded_def Let_def)
  let ?q' = "(q2\<lparr>q_queue := s\<rparr>)\<lparr>q_msg_status := count_read (unat mx) (q_msg_status q2), q_lock := q_lock q\<rparr>"
  have "RTI_MQTT_MessageReceiveQueue_read env q mx messages = Some (DDS_RETCODE_OK, ?q', m3)"
    using ru inv f(1) m3' mx by (simp add: RTI_MQTT_MessageReceiveQueue_read_def count_read_def
        seq_get_length_def unb_inv_def Let_def min_def)
  then show thesis
    by (rule that [OF _ m3']) (use s' z f inv in \<open>simp_all add: unb_inv_def\<close>)
qed

lemma read_null_slot:
  assumes q: "seq_buf (q_queue q) ! 0 = Null" "0 < length (seq_buf (q_queue q))"
      "length (seq_buf (q_queue q)) < 2147483648" "q_capacity q = 0" "\<not> q_read_buffer_loaned q"
      "\<not> seq_loaned (q_read_buffer q)"
    and env: "env_laws env" "env_total env"
  shows "RTI_MQTT_MessageReceiveQueue_read env q RTI_MQTT_SUBSCRIPTION_READ_LENGTH_UNLIMITED seq_empty = None"
proof -
  let ?q0 = "q\<lparr>q_lock := q_lock q + 1\<rparr>" and ?l = "seq_get_length (q_queue q)"
  have se: "seq_max (seq_empty :: 'a option dds_seq) = 0" "\<not> seq_loaned (seq_empty :: 'a option dds_seq)"
    by (simp_all add: seq_empty_def)
  obtain rb where b: "read_unbounded_begin env ?q0 RTI_MQTT_SUBSCRIPTION_READ_LENGTH_UNLIMITED seq_empty
      = Inr (?l, True, ?q0\<lparr>q_read_buffer := rb\<rparr>, seq_empty)"
    by (rule read_unbounded_begin_loan [OF _ env se, of ?q0]) (use q in simp_all)
  have "unat ?l = length (seq_buf (q_queue q))"
    using q by (simp add: seq_get_length_def unat_of_nat_u32)
  then have "read_unbounded_loop env True (unat ?l) 0 (?q0\<lparr>q_read_buffer := rb\<rparr>) seq_empty = None"
    using q by (subst read_unbounded_loop.simps) (simp add: slot_at_def)
  then show ?thesis
    using b q by (simp add: RTI_MQTT_MessageReceiveQueue_read_def
        RTI_MQTT_MessageReceiveQueue_read_unbounded_def Let_def)
qed

end
