(* ===== verification/QueueTheorems.thy ===== *)
theory QueueTheorems
  imports UnboundedQueue
begin

text \<open>
  The properties of messages and of the receive queue, with the concrete environment and queues
  their witnesses use.
\<close>

section \<open>Concrete environment and queues\<close>

definition std_env :: "std_sample queue_env" where
  "std_env =
     \<lparr>qe_heap = (\<lambda>_. True), qe_mutex_init = True, qe_queue_init = True, qe_buffer_init = True,
      qe_dyn_new = True, qe_slots = std_seq Null, qe_ptrs = std_seq None, qe_samples = std_seq None,
      qe_octets = std_seq 0, qe_octets_init = True, qe_dyn = std_dyn, qe_create = Some Map.empty,
      qe_copy = (\<lambda>_ d. Some d), qe_delete = (\<lambda>_. True)\<rparr>"

lemma std_env_ok [simp]:
  "env_laws std_env" "env_total std_env" "reader_env std_env" "samples_ok std_env" "qe_heap std_env 0"
  by (simp_all add: std_env_def env_laws_def env_total_def reader_env_def samples_ok_def)

definition zero_status :: msg_status where
  "zero_status = \<lparr>received_count = 0, unread_count = 0, read_count = 0, lost_count = 0\<rparr>"

text \<open>A queue of capacity 3 that is empty, and one of capacity 2 that is full.\<close>

definition queue3 :: "std_sample mrqueue" where
  "queue3 = (initial_queue 3 zero_status)
     \<lparr>q_dyn_data := True, q_read_buffer := \<lparr>seq_buf = [], seq_max = 3, seq_loaned = False\<rparr>,
      q_queue := \<lparr>seq_buf = [Ref \<lparr>rm_message = None, rm_read = False\<rparr>, Ref \<lparr>rm_message = None, rm_read = False\<rparr>,
                   Ref \<lparr>rm_message = None, rm_read = False\<rparr>], seq_max = 3,
                 seq_loaned = False\<rparr>, q_live := 3\<rparr>"

definition full2 :: "std_sample mrqueue" where
  "full2 = (initial_queue 2 zero_status)
     \<lparr>q_dyn_data := True, q_size := 2, q_read_buffer := \<lparr>seq_buf = [], seq_max = 2, seq_loaned = False\<rparr>,
      q_queue := \<lparr>seq_buf = [Ref \<lparr>rm_message = Some Map.empty, rm_read = False\<rparr>,
                   Ref \<lparr>rm_message = Some Map.empty, rm_read = False\<rparr>], seq_max = 2,
                 seq_loaned = False\<rparr>, q_live := 2,
      q_msg_status := \<lparr>received_count = 2, unread_count = 2, read_count = 0, lost_count = 0\<rparr>\<rparr>"

lemma replicate_3: "replicate 3 x = [x, x, x]"
  by (simp add: numeral_3_eq_3)

lemma replicate_2: "replicate 2 x = [x, x]"
  by (simp add: numeral_2_eq_2)

lemma queue3_ok [simp]: "circ_idle queue3" "circ_abs queue3 = []" "circ_cap queue3 = 3"
  by (simp_all add: queue3_def initial_queue_def circ_idle_def circ_inv_def circ_shape_def circ_abs_def
      ring_def slot_msgs_def circ_cap_def replicate_3)

lemma full2_ok [simp]:
  "circ_idle full2" "circ_abs full2 = [Map.empty, Map.empty]" "circ_cap full2 = 2"
  by (simp_all add: full2_def initial_queue_def circ_idle_def circ_inv_def circ_shape_def circ_abs_def
      ring_def slot_msgs_def circ_cap_def)

definition unb2 :: "std_sample mrqueue" where
  "unb2 = (initial_queue 0 zero_status)
     \<lparr>q_dyn_data := True,
      q_queue := \<lparr>seq_buf = [Ref \<lparr>rm_message = Some Map.empty, rm_read = False\<rparr>,
                   Ref \<lparr>rm_message = Some Map.empty, rm_read = False\<rparr>], seq_max = 2,
                 seq_loaned = False\<rparr>, q_live := 2\<rparr>"

lemma unb2_ok [simp]: "unb_inv unb2" "unb_abs unb2 = [Map.empty, Map.empty]"
  by (simp_all add: unb2_def initial_queue_def unb_inv_def unb_abs_def slot_msgs_def)

definition input1 :: "octet list \<times> u32 \<times> string \<times> message_info option" where
  "input1 = ([104, 105], 2, ''a/b'',
     Some \<lparr>info_id = 7, info_qos_level = QosLevel_ONE, info_retained = False, info_duplicate = False\<rparr>)"

lemma received_input1: "\<exists>m. receive_input std_env input1 = Some m"
  by (simp add: receive_input_def input1_def received_sample_def std_env_def std_seq_def seq_empty_def
      RTI_MQTT_Message_to_dynamic_data_def std_dyn_def)

section \<open>Properties\<close>

text \<open>
  Claim C1.  Lossless FIFO.  Over any interleaving of received messages and read cycles (read
  without a buffer, then return the loan) in which the bounded queue never becomes full, every
  operation succeeds and the reader gets exactly the messages that were received, in order, the
  unread ones still being in the queue.
\<close>

theorem circular_queue_lossless_fifo:
  assumes "circ_idle q" and "list_all (op_good reader_env) ops"
    and "length (circ_abs q) < circ_cap q" and "fits receive_input (circ_cap q) (length (circ_abs q)) ops"
  shows "\<exists>xs q'. queue_run circ_put read_cycle ops q = Some (xs, q') \<and> circ_idle q' \<and>
    xs @ circ_abs q' = circ_abs q @ put_samples receive_input ops"
  using assms by (rule circ.run_lossless)

theorem circular_queue_lossless_fifo_witness:
  "\<exists>m xs q'. receive_input std_env input1 = Some m \<and>
    queue_run circ_put read_cycle
      [Put std_env input1, Take_all std_env, Put std_env input1, Put std_env input1] queue3 = Some (xs, q') \<and>
    circ_idle q' \<and> xs @ circ_abs q' = [m, m, m]"
proof -
  obtain m where m: "receive_input std_env input1 = Some m" using received_input1 by blast
  show ?thesis
    using m circular_queue_lossless_fifo [of queue3
        "[Put std_env input1, Take_all std_env, Put std_env input1, Put std_env input1]"] by auto
qed

text \<open>
  Safety over any history: every operation succeeds, and what the reader has got
  followed by what is still in the queue is a subsequence of what the queue held at first followed
  by what was received: nothing is invented, repeated or reordered.
\<close>

theorem circular_queue_subsequence:
  assumes "circ_idle q" and "list_all (op_good reader_env) ops"
  shows "\<exists>xs q'. queue_run circ_put read_cycle ops q = Some (xs, q') \<and> circ_idle q' \<and>
    circ_cap q' = circ_cap q \<and>
    subseq (xs @ circ_abs q') (circ_abs q @ put_samples receive_input ops)"
  using assms by (rule circ.run_subseq)

theorem circular_queue_subsequence_witness:
  "\<exists>xs q'. queue_run circ_put read_cycle [Put std_env input1, Take_all std_env] full2 = Some (xs, q') \<and>
    circ_idle q' \<and> circ_cap q' = 2 \<and>
    subseq (xs @ circ_abs q')
      (Map.empty # Map.empty # put_samples receive_input [Put std_env input1, Take_all std_env])"
  using circular_queue_subsequence [of full2 "[Put std_env input1, Take_all std_env]"] by simp

text \<open>
  Starvation.  Once the bounded queue is full, a reader never gets a message again,
  whatever is received and however often it reads: with \<^verbatim>\<open>next == next_unread\<close> the read loop
  takes the full queue for an empty one, and every further message pushes out an unread one.
\<close>

theorem circular_queue_full_starves:
  assumes "circ_idle q" and "list_all (op_good reader_env) ops" and "length (circ_abs q) = circ_cap q"
  shows "\<exists>q'. queue_run circ_put read_cycle ops q = Some ([], q') \<and> circ_idle q' \<and>
    circ_cap q' = circ_cap q \<and> length (circ_abs q') = circ_cap q"
  using assms by (rule circ.run_full)

theorem circular_queue_full_starves_witness:
  "\<exists>q'. queue_run circ_put read_cycle [Take_all std_env, Put std_env input1, Take_all std_env] full2
      = Some ([], q') \<and> circ_idle q' \<and> circ_cap q' = 2 \<and> length (circ_abs q') = 2"
  using circular_queue_full_starves [of full2 "[Take_all std_env, Put std_env input1, Take_all std_env]"]
  by simp

text \<open>
  Claim C2.  One received message on a bounded queue: the call succeeds, the message is appended
  and, exactly when the queue was full, the oldest unread one is dropped and reported as lost;
  the invariant, the lock depth and the loan are kept, and no sample is deleted, not even the
  dropped one.
\<close>

theorem circular_receive_refines:
  assumes "circ_inv q" and "received_sample env buffer len topic info = Some msg"
  shows "\<exists>q'. RTI_MQTT_MessageReceiveQueue_receive env q buffer len topic info =
      Some (DDS_RETCODE_OK, q', snd (bounded_put (circ_cap q) (circ_abs q) msg),
        length (circ_abs q) = circ_cap q) \<and>
    circ_inv q' \<and> circ_abs q' = fst (bounded_put (circ_cap q) (circ_abs q) msg) \<and>
    q_lock q' = q_lock q \<and> q_read_buffer_loaned q' = q_read_buffer_loaned q \<and>
    q_read_buffer q' = q_read_buffer q \<and> q_freed q' = q_freed q"
  by (rule receive_circ [OF assms]) (auto simp: circ_cap_def)

theorem circular_receive_refines_witness:
  "\<exists>m q'. RTI_MQTT_MessageReceiveQueue_receive std_env full2 [104, 105] 2 ''a/b'' None =
     Some (DDS_RETCODE_OK, q', Some Map.empty, True) \<and> circ_abs q' = [Map.empty, m]"
proof -
  obtain m where m: "received_sample std_env [104, 105] 2 ''a/b'' None = Some m"
    by (simp add: received_sample_def std_env_def std_seq_def seq_empty_def
        RTI_MQTT_Message_to_dynamic_data_def std_dyn_def)
  have "circ_inv full2" using full2_ok by (simp add: circ_idle_def)
  from circular_receive_refines [OF this m] show ?thesis by (auto simp: bounded_put_def)
qed

text \<open>
  The counters of a subscription on a bounded queue add up: the number of unread messages is the
  number in the queue, and received is unread plus read plus lost (all modulo \<open>2 ^ 32\<close>).
\<close>

definition status_ok :: "'d mrqueue \<Rightarrow> bool" where
  "status_ok q \<longleftrightarrow>
     unread_count (q_msg_status q) = of_nat (length (circ_abs q)) \<and>
     received_count (q_msg_status q) =
       unread_count (q_msg_status q) + read_count (q_msg_status q) + lost_count (q_msg_status q)"

lemma status_receive:
  assumes inv: "circ_inv q" and ok: "status_ok q"
    and r: "RTI_MQTT_MessageReceiveQueue_receive env q buffer len topic info = Some (rc, q', dropped, lost)"
  shows "status_ok q'"
proof (cases "received_sample env buffer len topic info")
  case None
  then show ?thesis using r ok by (simp add: receive_error)
next
  case (Some msg)
  obtain q1 where q1: "RTI_MQTT_MessageReceiveQueue_receive env q buffer len topic info =
      Some (DDS_RETCODE_OK, q1, snd (bounded_put (unat (q_capacity q)) (circ_abs q) msg),
        length (circ_abs q) = unat (q_capacity q))"
    and ab: "circ_abs q1 = fst (bounded_put (unat (q_capacity q)) (circ_abs q) msg)"
    and st: "q_msg_status q1 = count_received (length (circ_abs q) = unat (q_capacity q)) (q_msg_status q)"
    by (rule receive_circ [OF inv Some])
  have "q' = q1" using r q1 by simp
  have b: "0 < unat (q_capacity q)" "length (circ_abs q) \<le> unat (q_capacity q)"
    using circ_bounds [OF inv] by simp_all
  have ln: "length (circ_abs q1) = min (unat (q_capacity q)) (Suc (length (circ_abs q)))"
    unfolding ab by (rule bounded_put_length [OF b])
  show ?thesis
  proof (cases "length (circ_abs q) = unat (q_capacity q)")
    case True
    then show ?thesis using st ln ok \<open>q' = q1\<close>
      by (simp add: status_ok_def count_received_def Let_def algebra_simps)
  next
    case False
    then have "length (circ_abs q1) = Suc (length (circ_abs q))" using ln b by simp
    then show ?thesis using False st ok \<open>q' = q1\<close>
      by (simp add: status_ok_def count_received_def Let_def algebra_simps)
  qed
qed

lemma status_read_cycle:
  assumes q: "circ_idle q" and env: "reader_env env" and ok: "status_ok q"
    and r: "read_cycle env q = Some (ds, q')"
  shows "status_ok q'"
proof -
  obtain q1 ds1 where d: "ds1 = (if length (circ_abs q) = circ_cap q then [] else circ_abs q)"
    and q1: "read_cycle env q = Some (ds1, q1)"
    "circ_abs q1 = (if length (circ_abs q) = circ_cap q then circ_abs q else [])"
    "q_msg_status q1 = count_read (length ds1) (q_msg_status q)"
    by (rule read_cycle_circ [OF env q])
  then have "q' = q1" using r by simp
  with d q1 ok show ?thesis
    by (cases "length (circ_abs q) = circ_cap q") (simp_all add: status_ok_def count_read_def)
qed

text \<open>The messages a history of operations receives and those its reader gets are counted.\<close>

definition received_reads :: "'d mrqueue \<Rightarrow> u32 \<times> u32" where
  "received_reads q = (received_count (q_msg_status q), read_count (q_msg_status q))"

lemma received_put:
  assumes q: "circ_idle q" "status_ok q" and r: "circ_put env i q = Some q'"
  shows "status_ok q'" and "received_reads q' = (fst (received_reads q) +
      (case receive_input env i of None \<Rightarrow> 0 | Some m \<Rightarrow> 1), snd (received_reads q))"
proof -
  obtain buffer len topic info where i: "i = (buffer, len, topic, info)" by (cases i)
  have inv: "circ_inv q" using q(1) by (simp add: circ_idle_def)
  obtain rc dropped lost
    where rr: "RTI_MQTT_MessageReceiveQueue_receive env q buffer len topic info = Some (rc, q', dropped, lost)"
    using r i by (auto simp: circ_put_def)
  show "status_ok q'" using status_receive [OF inv q(2) rr] .
  show "received_reads q' = (fst (received_reads q) +
      (case receive_input env i of None \<Rightarrow> 0 | Some m \<Rightarrow> 1), snd (received_reads q))"
  proof (cases "received_sample env buffer len topic info")
    case None
    then show ?thesis using rr i by (simp add: receive_error receive_input_def received_reads_def)
  next
    case (Some m)
    show ?thesis
      by (rule receive_circ [OF inv Some])
        (use rr i Some in \<open>simp add: receive_input_def received_reads_def count_received_def Let_def\<close>)
  qed
qed

lemma counters_run:
  "circ_idle q \<Longrightarrow> list_all (op_good reader_env) ops \<Longrightarrow> status_ok q \<Longrightarrow>
   \<exists>xs q'. queue_run circ_put read_cycle ops q = Some (xs, q') \<and> circ_idle q' \<and> status_ok q' \<and>
     received_reads q' = (fst (received_reads q) + of_nat (length (put_samples receive_input ops)),
       snd (received_reads q) + of_nat (length xs))"
proof (induction ops arbitrary: q)
  case Nil
  then show ?case by simp
next
  case (Cons op ops)
  show ?case
  proof (cases op)
    case (Put env i)
    obtain q1 where q1: "circ_put env i q = Some q1" "circ_idle q1"
      using circ.put_law [OF Cons.prems(1), of env i] by blast
    note c = received_put [OF Cons.prems(1,3) q1(1)]
    from Cons.IH [OF q1(2) _ c(1)] Cons.prems(2) Put q1(1) c(2) show ?thesis
      by (auto split: option.splits)
  next
    case (Take_all env)
    then have env: "reader_env env" using Cons.prems(2) by simp
    obtain ds q1 where q1: "read_cycle env q = Some (ds, q1)" "circ_idle q1"
      "q_msg_status q1 = count_read (length ds) (q_msg_status q)"
      by (rule read_cycle_circ [OF env Cons.prems(1)])
    have c: "status_ok q1" "received_reads q1 = (fst (received_reads q), snd (received_reads q) + of_nat (length ds))"
      using status_read_cycle [OF Cons.prems(1) env Cons.prems(3) q1(1)] q1(3)
      by (simp_all add: received_reads_def count_read_def)
    from Cons.IH [OF q1(2) _ c(1)] Cons.prems(2) Take_all q1(1) c(2) show ?thesis by auto
  qed
qed

text \<open>
  Claim C12.  The counters of a subscription over a whole history of a bounded queue, made of
  receives, successful or not, and of successful read cycles on loan (read without a buffer, then
  return the loan): every operation succeeds, afterwards unread is still the number of
  messages in the queue and received is unread plus read plus lost, the received counter has grown by
  the number of messages that could be received and the read counter by the number of
  messages that were handed out (all modulo \<open>2 ^ 32\<close>).
\<close>

theorem circular_queue_counters:
  assumes "circ_idle q" and "list_all (op_good reader_env) ops" and "status_ok q"
  shows "\<exists>xs q'. queue_run circ_put read_cycle ops q = Some (xs, q') \<and> circ_idle q' \<and> status_ok q' \<and>
    received_count (q_msg_status q') =
      received_count (q_msg_status q) + of_nat (length (put_samples receive_input ops)) \<and>
    read_count (q_msg_status q') = read_count (q_msg_status q) + of_nat (length xs)"
  using counters_run [OF assms] by (auto simp: received_reads_def)

theorem circular_queue_counters_witness:
  "\<exists>xs q'. queue_run circ_put read_cycle
      [Put std_env input1, Put std_env input1, Take_all std_env, Put std_env input1] queue3 = Some (xs, q') \<and>
     circ_idle q' \<and> status_ok q' \<and> received_count (q_msg_status q') = 3 \<and>
     read_count (q_msg_status q') = of_nat (length xs)"
proof -
  obtain m where m: "receive_input std_env input1 = Some m" using received_input1 by blast
  have "status_ok queue3" unfolding status_ok_def queue3_ok by (simp add: queue3_def initial_queue_def zero_status_def)
  from circular_queue_counters [OF queue3_ok(1) _ this,
      of "[Put std_env input1, Put std_env input1, Take_all std_env, Put std_env input1]"] m
  show ?thesis by (simp add: queue3_def initial_queue_def zero_status_def)
qed

text \<open>
  Claim C13.  A read cycle on loan of a bounded queue (read without a buffer, then return the loan),
  when locks, sequences and the deletion of samples do not fail, hands out every message of the queue in the order they were received and leaves the queue empty,
  except for a full queue, which hands out nothing and keeps its messages; every sample handed
  out is deleted exactly once when the loan is returned, in the order in which it was read, and
  nothing else is; no slot object is allocated or freed and the queue is left unlocked.
\<close>

theorem circular_read_cycle_ownership:
  assumes "reader_env env" and "circ_idle q"
  shows "\<exists>ds q'. read_cycle env q = Some (ds, q') \<and> circ_idle q' \<and>
    ds = (if length (circ_abs q) = circ_cap q then [] else circ_abs q) \<and>
    circ_abs q' = (if length (circ_abs q) = circ_cap q then circ_abs q else []) \<and>
    q_freed q' = q_freed q @ ds \<and>
    q_live q' = q_live q \<and> q_lock q' = q_lock q \<and> \<not> q_read_buffer_loaned q'"
  by (rule read_cycle_circ [OF assms]) (auto simp: circ_idle_def)

definition one3 :: "std_sample mrqueue" where
  "one3 = (initial_queue 3 zero_status)
     \<lparr>q_dyn_data := True, q_size := 1, q_next := 1,
      q_read_buffer := \<lparr>seq_buf = [], seq_max = 3, seq_loaned = False\<rparr>,
      q_queue := \<lparr>seq_buf = [Ref \<lparr>rm_message = Some Map.empty, rm_read = False\<rparr>,
                   Ref \<lparr>rm_message = None, rm_read = False\<rparr>, Ref \<lparr>rm_message = None, rm_read = False\<rparr>],
                 seq_max = 3, seq_loaned = False\<rparr>, q_live := 3\<rparr>"

lemma one3_ok [simp]: "circ_idle one3" "circ_abs one3 = [Map.empty]" "circ_cap one3 = 3"
  by (simp_all add: one3_def initial_queue_def circ_idle_def circ_inv_def circ_shape_def circ_abs_def
      ring_def slot_msgs_def circ_cap_def replicate_2)

theorem circular_read_cycle_ownership_witness:
  "\<exists>q'. read_cycle std_env one3 = Some ([Map.empty], q') \<and> circ_abs q' = [] \<and>
    q_freed q' = [Map.empty] \<and> q_live q' = 3 \<and> \<not> q_read_buffer_loaned q'"
  using circular_read_cycle_ownership [OF std_env_ok(3) one3_ok(1)]
  by (auto simp: one3_ok) (auto simp: one3_def initial_queue_def)

text \<open>
  Creation.  Initialising a queue always comes back.  On success the queue is empty,
  unlocked and satisfies its invariant (bounded for a positive size, unbounded for size 0), with
  one live object per slot; on failure no slot object is left allocated; and it succeeds when
  memory and the other resources are available and the size is below \<open>2 ^ 31\<close>.
\<close>

theorem queue_initialize:
  assumes "env_laws env"
  shows "\<exists>rc q. RTI_MQTT_MessageReceiveQueue_initialize env cap st = Some (rc, q) \<and>
    (rc = DDS_RETCODE_ERROR \<and> q_live q = 0 \<or>
     rc = DDS_RETCODE_OK \<and> q_lock q = 0 \<and> q_msg_status q = st \<and> \<not> q_read_buffer_loaned q \<and>
       (if cap = 0 then unb_inv q \<and> unb_abs q = [] \<and> q_live q = 0
        else circ_idle q \<and> circ_abs q = [] \<and> q_capacity q = cap \<and> q_live q = int (unat cap))) \<and>
    (env_total env \<and> (\<forall>j. qe_heap env j) \<and> qe_mutex_init env \<and> qe_queue_init env \<and> qe_buffer_init env \<and>
       qe_dyn_new env \<and> unat cap < 2147483648 \<longrightarrow> rc = DDS_RETCODE_OK)"
proof (cases "qe_mutex_init env \<and> qe_queue_init env \<and> qe_dyn_new env")
  case False
  then show ?thesis
    by (auto simp: RTI_MQTT_MessageReceiveQueue_initialize_def initial_queue_def Let_def)
next
  case True
  let ?q = "(initial_queue cap st)\<lparr>q_dyn_data := True\<rparr> :: 'a mrqueue"
  show ?thesis
  proof (cases "cap = 0")
    case c: True
    have "slot_msgs (?q\<lparr>q_read_buffer := seq_empty, q_read_buffer_loaned := False\<rparr>) = map Some []"
      by (simp add: slot_msgs_def initial_queue_def seq_empty_def)
    from unb_invI [OF _ _ this] c True show ?thesis
      by (auto simp: RTI_MQTT_MessageReceiveQueue_initialize_def initial_queue_def Let_def
          RTI_MQTT_MessageReceiveQueue_initialize_unbounded_def)
  next
    case False
    then have c: "0 < unat cap" "0 < cap" by (simp_all add: word_neq_0_conv unat_gt_0)
    obtain rc q where r: "RTI_MQTT_MessageReceiveQueue_initialize_circular env ?q = Some (rc, q)"
      and d: "rc = DDS_RETCODE_ERROR \<and> q_live q = 0 \<or>
        rc = DDS_RETCODE_OK \<and> circ_inv q \<and> circ_abs q = [] \<and> q_live q = int (unat cap) \<and>
        \<not> q_read_buffer_loaned q \<and> q_msg_status q = st \<and> q_lock q = 0 \<and> q_capacity q = cap \<and> q_freed q = []"
      and t: "env_total env \<and> (\<forall>j. qe_heap env j) \<and> qe_buffer_init env \<and> unat cap < 2147483648 \<longrightarrow>
        rc = DDS_RETCODE_OK"
      by (rule initialize_circular_result [OF assms c(1) refl, where st = st])
    have "RTI_MQTT_MessageReceiveQueue_initialize env cap st = Some
        (if rc = DDS_RETCODE_OK then (DDS_RETCODE_OK, q)
         else (DDS_RETCODE_ERROR, q\<lparr>q_queue := seq_empty, q_dyn_data := False\<rparr>))"
      using True c r by (simp add: RTI_MQTT_MessageReceiveQueue_initialize_def Let_def initial_queue_def)
    with d t False show ?thesis by (auto simp: circ_idle_def)
  qed
qed

theorem queue_initialize_witness:
  "\<exists>q. RTI_MQTT_MessageReceiveQueue_initialize std_env 3 zero_status = Some (DDS_RETCODE_OK, q) \<and>
     circ_idle q \<and> circ_abs q = [] \<and> q_live q = 3"
  using queue_initialize [OF std_env_ok(1), of 3 zero_status]
  by (auto simp: std_env_ok(2)) (simp_all add: std_env_def)

lemma mset_rotate: "mset (rotate n xs) = mset xs"
  unfolding rotate_drop_take by (metis append_take_drop_id mset_append union_commute)

text \<open>
  Destruction of a bounded queue: every slot object is freed and every unread sample
  is deleted.
\<close>

theorem circular_queue_finalize:
  assumes "circ_inv q" and "\<forall>i. qe_delete env i" and "q_live q = int (circ_cap q)"
  shows "\<exists>q'. RTI_MQTT_MessageReceiveQueue_finalize env q = Some (DDS_RETCODE_OK, q') \<and> q_live q' = 0 \<and>
    mset (q_freed q') = mset (q_freed q) + mset (circ_abs q)"
proof -
  let ?n = "length (seq_buf (q_queue q))"
  have sh: "circ_shape q" and n: "?n = circ_cap q"
    using assms(1) by (auto simp: circ_inv_def circ_shape_def circ_cap_def)
  then have "\<forall>j. 0 \<le> j \<and> j < ?n \<longrightarrow> is_ref (seq_buf (q_queue q) ! j)"
    by (auto simp: circ_shape_def)
  from delete_slots_result [OF _ _ this, of env] assms(2,3) n obtain q'
    where q': "delete_slots env 0 ?n q = Some q'" "q_live q' = 0"
    "q_freed q' = q_freed q @ List.map_filter (\<lambda>x. x) (slot_msgs q)" by auto
  have "mset (ring q) = mset (slot_msgs q)" by (simp add: ring_def mset_rotate)
  then have "mset (List.map_filter (\<lambda>x. x) (slot_msgs q)) = mset (List.map_filter (\<lambda>x. x) (ring q))"
    by (simp add: List.map_filter_def mset_map mset_filter)
  also have "List.map_filter (\<lambda>x. x) (ring q) = circ_abs q"
    using assms(1) by (simp add: circ_inv_def List.map_filter_def o_def)
  finally show ?thesis
    using q' by (auto simp: RTI_MQTT_MessageReceiveQueue_finalize_def)
qed

theorem circular_queue_finalize_witness:
  "\<exists>q'. RTI_MQTT_MessageReceiveQueue_finalize std_env full2 = Some (DDS_RETCODE_OK, q') \<and> q_live q' = 0 \<and>
    mset (q_freed q') = {#Map.empty, Map.empty#}"
proof -
  have "circ_inv full2" "\<forall>i. qe_delete std_env i" "q_live full2 = int (circ_cap full2)" "q_freed full2 = []"
    using full2_ok(1) by (simp_all add: circ_idle_def std_env_def circ_cap_def full2_def initial_queue_def)
  with circular_queue_finalize [of full2 std_env] full2_ok(2) show ?thesis by simp
qed

text \<open>
  Claim C14.  The unbounded queue: a received message is appended and none is lost, and a read
  without a buffer then lends the caller every message, in order, and leaves the queue empty.  The
  listener is not told of the message.
\<close>

theorem unbounded_queue_fifo:
  assumes "unb_inv q" and "length (unb_abs q) < 2147483647" and "\<not> q_read_buffer_loaned q"
    and "env_laws env" and "env_total env" and "qe_heap env 0"
    and "received_sample env buffer len topic info = Some msg"
  shows "\<exists>q1 q2 messages.
    RTI_MQTT_MessageReceiveQueue_receive env q buffer len topic info
      = Some (DDS_RETCODE_OK, q1, None, False) \<and> unb_abs q1 = unb_abs q @ [msg] \<and>
    q_notified q1 = q_notified q \<and>
    RTI_MQTT_MessageReceiveQueue_read env q1 RTI_MQTT_SUBSCRIPTION_READ_LENGTH_UNLIMITED seq_empty
      = Some (DDS_RETCODE_OK, q2, messages) \<and>
    seq_buf messages = map Some (unb_abs q @ [msg]) \<and> unb_inv q2 \<and> unb_abs q2 = [] \<and>
    q_live q2 = q_live q - int (length (unb_abs q)) \<and> q_lock q2 = q_lock q"
proof -
  obtain q1 where q1: "RTI_MQTT_MessageReceiveQueue_receive env q buffer len topic info
      = Some (DDS_RETCODE_OK, q1, None, False)" "unb_inv q1" "unb_abs q1 = unb_abs q @ [msg]"
      "q_live q1 = q_live q + 1" "q_lock q1 = q_lock q" "q_notified q1 = q_notified q"
    and nl: "q_read_buffer_loaned q1 = q_read_buffer_loaned q"
    by (rule receive_unb [OF assms(1,2,4,5,6,7)])
  have se: "seq_max (seq_empty :: 'a option dds_seq) = 0" "\<not> seq_loaned (seq_empty :: 'a option dds_seq)"
    by (simp_all add: seq_empty_def)
  have "\<not> q_read_buffer_loaned q1" using nl assms(3) by simp
  then obtain q2 ms where "RTI_MQTT_MessageReceiveQueue_read env q1
        RTI_MQTT_SUBSCRIPTION_READ_LENGTH_UNLIMITED seq_empty = Some (DDS_RETCODE_OK, q2, ms)"
      "unb_inv q2" "unb_abs q2 = []" "seq_buf ms = map Some (unb_abs q1)"
      "q_live q2 = q_live q1 - int (length (unb_abs q1))" "q_lock q2 = q_lock q1"
    by (rule read_unb_loan [OF q1(2) assms(4,5) se]) blast
  with q1 show ?thesis by auto
qed

theorem unbounded_queue_fifo_witness:
  "\<exists>m q1 q2 messages.
    RTI_MQTT_MessageReceiveQueue_receive std_env unb2 [104, 105] 2 ''a/b'' None
      = Some (DDS_RETCODE_OK, q1, None, False) \<and>
    RTI_MQTT_MessageReceiveQueue_read std_env q1 RTI_MQTT_SUBSCRIPTION_READ_LENGTH_UNLIMITED seq_empty
      = Some (DDS_RETCODE_OK, q2, messages) \<and>
    seq_buf messages = [Some Map.empty, Some Map.empty, Some m]"
proof -
  obtain m where m: "received_sample std_env [104, 105] 2 ''a/b'' None = Some m"
    by (simp add: received_sample_def std_env_def std_seq_def seq_empty_def
        RTI_MQTT_Message_to_dynamic_data_def std_dyn_def)
  have "\<not> q_read_buffer_loaned unb2" by (simp add: unb2_def initial_queue_def)
  with unbounded_queue_fifo [of unb2 std_env, OF _ _ _ _ _ _ m] show ?thesis by fastforce
qed

text \<open>
  Reading part of an unbounded queue corrupts it.  A read into a buffer that holds
  fewer messages than are waiting succeeds and returns the first ones, but the test that guards
  the move of the remaining slots is reversed and the sequence is cut off at its end instead: the
  next read dereferences a null slot.
\<close>

theorem unbounded_partial_read_corrupts:
  assumes "unb_inv q" and "\<not> q_read_buffer_loaned q" and "env_laws env" and "env_total env"
    and "samples_ok env" and "0 < unat n" and "unat n < length (unb_abs q)"
    and "unat n \<le> seq_max messages" and "seq_max messages < 2147483648"
  shows "\<exists>q' messages'. RTI_MQTT_MessageReceiveQueue_read env q n messages
      = Some (DDS_RETCODE_OK, q', messages') \<and>
    seq_buf messages' = map Some (take (unat n) (unb_abs q)) \<and>
    RTI_MQTT_MessageReceiveQueue_read env q' RTI_MQTT_SUBSCRIPTION_READ_LENGTH_UNLIMITED seq_empty = None"
proof -
  obtain q' ms where r: "RTI_MQTT_MessageReceiveQueue_read env q n messages = Some (DDS_RETCODE_OK, q', ms)"
    "seq_buf ms = map Some (take (unat n) (unb_abs q))"
    and q': "length (seq_buf (q_queue q')) = length (unb_abs q) - unat n" "seq_buf (q_queue q') ! 0 = Null"
    "q_capacity q' = 0" "q_read_buffer_loaned q' = q_read_buffer_loaned q" "\<not> seq_loaned (q_read_buffer q')"
    by (rule read_unb_partial [OF assms(1,3,4,5,6,7,8,9)])
  have "length (unb_abs q) < 2147483648" using assms(1) by (simp add: unb_inv_def unb_length)
  with q' assms(2,7) read_null_slot [OF q'(2) _ _ q'(3) _ q'(5) assms(3,4)]
  have "RTI_MQTT_MessageReceiveQueue_read env q' RTI_MQTT_SUBSCRIPTION_READ_LENGTH_UNLIMITED seq_empty = None"
    by simp
  with r show ?thesis by blast
qed

theorem unbounded_partial_read_corrupts_witness:
  "\<exists>q' messages'. RTI_MQTT_MessageReceiveQueue_read std_env unb2 1
       \<lparr>seq_buf = [], seq_max = 1, seq_loaned = False\<rparr> = Some (DDS_RETCODE_OK, q', messages') \<and>
    seq_buf messages' = [Some Map.empty] \<and>
    RTI_MQTT_MessageReceiveQueue_read std_env q' RTI_MQTT_SUBSCRIPTION_READ_LENGTH_UNLIMITED seq_empty = None"
proof -
  have "\<not> q_read_buffer_loaned unb2" by (simp add: unb2_def initial_queue_def)
  with unbounded_partial_read_corrupts
    [of unb2 std_env 1 "\<lparr>seq_buf = [], seq_max = 1, seq_loaned = False\<rparr>"] show ?thesis
    by simp
qed

text \<open>
  Reading while a loan is outstanding.  With an empty sequence, a second read before
  the loan has been returned is refused and changes nothing, neither the queue nor the loan.
\<close>

theorem read_in_progress_refused:
  assumes "env_laws env" and "q_read_buffer_loaned q" and "seq_max messages = 0" and "\<not> seq_loaned messages"
  shows "RTI_MQTT_MessageReceiveQueue_read env q RTI_MQTT_SUBSCRIPTION_READ_LENGTH_UNLIMITED messages
    = Some (DDS_RETCODE_ERROR, q, messages)"
proof -
  have "seq_unloan (qe_samples env) messages = None"
    using assms(1,4) by (cases "seq_unloan (qe_samples env) messages") (auto simp: env_laws_def seq_laws_def)
  then have l: "RTI_MQTT_MessageReceiveQueue_return_loan env (q\<lparr>q_lock := Suc (q_lock q)\<rparr>) messages
      = Some (DDS_RETCODE_ERROR, q\<lparr>q_lock := Suc (q_lock q)\<rparr>, messages)"
    using assms(2) by (cases q) (simp add: RTI_MQTT_MessageReceiveQueue_return_loan_def Let_def)
  have id: "q\<lparr>q_lock := k, q_msg_status := q_msg_status q\<rparr> = q\<lparr>q_lock := k\<rparr>" for k by (cases q) simp
  have id': "q\<lparr>q_lock := q_lock q\<rparr> = q" by (cases q) simp
  show ?thesis
    using assms l
    by (auto simp: RTI_MQTT_MessageReceiveQueue_read_def RTI_MQTT_MessageReceiveQueue_read_circular_def
        RTI_MQTT_MessageReceiveQueue_read_unbounded_def read_circular_begin_def read_unbounded_begin_def
        read_circular_error_def read_unbounded_error_def seq_get_maximum_def Let_def
        RTI_MQTT_SUBSCRIPTION_READ_LENGTH_UNLIMITED_def id id')
qed

theorem read_in_progress_refused_witness:
  "RTI_MQTT_MessageReceiveQueue_read std_env (full2\<lparr>q_read_buffer_loaned := True\<rparr>)
     RTI_MQTT_SUBSCRIPTION_READ_LENGTH_UNLIMITED seq_empty
   = Some (DDS_RETCODE_ERROR, full2\<lparr>q_read_buffer_loaned := True\<rparr>, seq_empty)"
  using read_in_progress_refused [of std_env "full2\<lparr>q_read_buffer_loaned := True\<rparr>" seq_empty]
  by (simp add: seq_empty_def)

lemma retry_delete_never:
  assumes "\<forall>i. \<not> qe_delete env i"
  shows "retry_delete env k = None"
proof -
  have "retry_delete env k = Some j \<Longrightarrow> qe_delete env j" for j
    by (erule retry_delete.raw_induct [rotated]) (auto split: if_splits)
  with assms show ?thesis by (cases "retry_delete env k") auto
qed

text \<open>
  A read that cannot delete a sample it has copied does not come back: the error exit
  of \<^verbatim>\<open>read_circular\<close> jumps to its own label when the deletion fails again, so if the type support
  keeps refusing, the loop is endless (and the queue stays locked).
\<close>

theorem circular_read_retry_endless:
  assumes "circ_idle q" and "0 < length (circ_abs q)" and "length (circ_abs q) < circ_cap q"
    and "env_laws env" and "env_total env" and "\<forall>i d. qe_copy env i d = Some d" and "\<forall>i. \<not> qe_delete env i"
    and "0 < unat n" and "unat n \<le> seq_max messages" and "seq_max messages < 2147483648"
  shows "RTI_MQTT_MessageReceiveQueue_read env q n messages = None"
proof -
  let ?q0 = "q\<lparr>q_lock := Suc (q_lock q)\<rparr>"
  have inv: "circ_inv ?q0" and nl: "\<not> q_read_buffer_loaned q" using assms(1) by (simp_all add: circ_idle_def)
  have p: "seq_laws (qe_samples env)" "seq_total (qe_samples env)"
    using assms by (simp_all add: env_laws_def env_total_def)
  obtain m0 where m0: "seq_set_length (qe_samples env) n messages = Some m0"
    using p(2) assms by (fastforce simp: seq_total_def)
  have b: "read_circular_begin env ?q0 n messages = Inr (n, False, ?q0, m0)"
    using m0 assms by (auto simp: read_circular_begin_def RTI_MQTT_SUBSCRIPTION_READ_LENGTH_UNLIMITED_def
        seq_get_maximum_def word_less_nat_alt unat_of_nat_u32 Let_def)
  let ?i = "unat (q_next_unread ?q0)"
  have sh: "circ_shape ?q0" and c: "0 < unat (q_capacity ?q0)" "?i < unat (q_capacity ?q0)"
    using inv by (auto simp: circ_inv_def circ_shape_def)
  from circ_slot [OF sh c(1)] c(2) obtain m
    where m: "slot_at ?q0 ?i = Some m" "rm_message m = ring ?q0 ! 0" by auto
  have "ring ?q0 = map Some (circ_abs ?q0) @ replicate (unat (q_capacity q) - unat (q_size q)) None"
    using inv by (simp add: circ_inv_def)
  with m(2) assms(2) have d: "rm_message m = Some (circ_abs q ! 0)" by (simp add: nth_append)
  have "q_next_unread ?q0 \<noteq> q_next ?q0"
  proof
    assume e: "q_next_unread ?q0 = q_next ?q0"
    have "unat (q_next ?q0) = (?i + length (circ_abs q)) mod unat (q_capacity q)"
      using inv circ_inv_abs_length [OF inv] by (simp add: circ_inv_def)
    with e c have "(?i + 0) mod unat (q_capacity q) = (?i + length (circ_abs q)) mod unat (q_capacity q)"
      by simp
    with mod_add_left_cancel [OF this] assms(2,3) c show False by (simp add: circ_cap_def)
  qed
  moreover have "0 < length (seq_buf m0)" using seq_set_lengthD(1) [OF p(1) m0] assms(8) by simp
  moreover have "0 < n" using assms(8) by (simp add: word_less_nat_alt)
  ultimately have "read_circular_loop env False n 0 (q_next_unread ?q0) None ?q0 m0
      = Some (False, 0, q_next_unread ?q0, Some ?i, ?q0, set_elem 0 (Some (circ_abs q ! 0)) m0)"
    using m(1) d assms(6,7) by (subst read_circular_loop.simps) (simp add: take_sample_def Let_def)
  then have "RTI_MQTT_MessageReceiveQueue_read_circular env ?q0 n messages = None"
    using b m(1) d nl retry_delete_never [OF assms(7)]
    by (simp add: RTI_MQTT_MessageReceiveQueue_read_circular_def read_circular_error_def)
  moreover have "0 < q_capacity q" using c by (simp add: word_less_nat_alt)
  ultimately show ?thesis by (simp add: RTI_MQTT_MessageReceiveQueue_read_def)
qed

theorem circular_read_retry_endless_witness:
  "RTI_MQTT_MessageReceiveQueue_read (std_env\<lparr>qe_delete := (\<lambda>_. False)\<rparr>) one3 1
     \<lparr>seq_buf = [], seq_max = 1, seq_loaned = False\<rparr> = None"
  by (rule circular_read_retry_endless) (simp_all add: std_env_def env_laws_def env_total_def)

text \<open>
  Messages and samples.  A message with a topic and metadata that has been written
  into a sample is read back unchanged, into any message object: \<^verbatim>\<open>from_dynamic_data\<close> inverts
  \<^verbatim>\<open>to_dynamic_data\<close>.
\<close>

theorem message_dynamic_data_roundtrip:
  assumes "dyn_laws dyn" and "msg_topic m = Some t" and "msg_info m = Some info"
    and "info_qos_level info \<notin> range QosLevel_other" and "str_replace t"
    and "msg_info self \<noteq> None \<or> create_info \<noteq> None"
    and "RTI_MQTT_Message_to_dynamic_data dyn m sample = (DDS_RETCODE_OK, d)"
  shows "RTI_MQTT_Message_from_dynamic_data dyn create_info str_replace self d = Some (DDS_RETCODE_OK, m)"
proof -
  obtain d1 d2 d3 d4 d5
    where s: "dyn_set_string dyn ''topic'' t sample = Some d1"
      "dyn_set_long dyn ''info.id'' (info_id info) d1 = Some d2"
      "dyn_set_long dyn ''info.qos_level'' (long_of_qos_level (info_qos_level info)) d2 = Some d3"
      "dyn_set_boolean dyn ''info.retained'' (info_retained info) d3 = Some d4"
      "dyn_set_boolean dyn ''info.duplicate'' (info_duplicate info) d4 = Some d5"
      "dyn_set_octet_seq dyn ''payload.data'' (msg_payload m) d5 = Some d"
    using assms(2,3,7) by (auto simp: RTI_MQTT_Message_to_dynamic_data_def split: option.splits)
  have ne: "\<And>m v d d'. dyn_set_string dyn m v d = Some d' \<Longrightarrow>
      dyn_get_string dyn m d' = Some v \<and> dyn_same_except dyn m d d'"
    "\<And>m v d d'. dyn_set_long dyn m v d = Some d' \<Longrightarrow>
      dyn_get_long dyn m d' = Some v \<and> dyn_same_except dyn m d d'"
    "\<And>m v d d'. dyn_set_boolean dyn m v d = Some d' \<Longrightarrow>
      dyn_get_boolean dyn m d' = Some v \<and> dyn_same_except dyn m d d'"
    "\<And>m v d d'. dyn_set_octet_seq dyn m v d = Some d' \<Longrightarrow>
      dyn_get_octet_seq dyn m d' = Some v \<and> dyn_same_except dyn m d d'"
    using assms(1) by (auto simp: dyn_laws_def)
  have g: "dyn_get_string dyn ''topic'' d = Some t" "dyn_get_long dyn ''info.id'' d = Some (info_id info)"
    "dyn_get_long dyn ''info.qos_level'' d = Some (long_of_qos_level (info_qos_level info))"
    "dyn_get_boolean dyn ''info.retained'' d = Some (info_retained info)"
    "dyn_get_boolean dyn ''info.duplicate'' d = Some (info_duplicate info)"
    "dyn_get_octet_seq dyn ''payload.data'' d = Some (msg_payload m)"
    using ne(1) [OF s(1)] ne(2) [OF s(2)] ne(2) [OF s(3)] ne(3) [OF s(4)] ne(3) [OF s(5)] ne(4) [OF s(6)]
    by (simp_all add: dyn_same_except_def)
  have q: "qos_level_of_long (long_of_qos_level (info_qos_level info)) = info_qos_level info"
    using assms(4) by (rule qos_level_of_long_of)
  have e: "\<lparr>msg_topic = Some t, msg_info = Some info, msg_payload = msg_payload m\<rparr> = m"
    using assms(2,3) by (cases m) simp
  have i: "a\<lparr>info_id := info_id info, info_qos_level := info_qos_level info,
      info_retained := info_retained info, info_duplicate := info_duplicate info\<rparr> = info"
    for a :: message_info by (cases a; cases info) simp
  show ?thesis
    using assms(5,6) g q
    by (cases "msg_info self"; cases create_info; cases self)
      (auto simp: RTI_MQTT_Message_from_dynamic_data_def Let_def set_info_def e i)
qed

theorem message_dynamic_data_roundtrip_witness:
  "\<exists>d m. RTI_MQTT_Message_to_dynamic_data std_dyn m Map.empty = (DDS_RETCODE_OK, d) \<and>
    m = \<lparr>msg_topic = Some ''a/b'', msg_info = Some \<lparr>info_id = 7, info_qos_level = QosLevel_TWO,
          info_retained = True, info_duplicate = False\<rparr>, msg_payload = [1, 2]\<rparr> \<and>
    RTI_MQTT_Message_from_dynamic_data std_dyn (msg_info m) (\<lambda>_. True)
      \<lparr>msg_topic = None, msg_info = None, msg_payload = []\<rparr> d = Some (DDS_RETCODE_OK, m)"
proof -
  let ?m = "\<lparr>msg_topic = Some ''a/b'', msg_info = Some \<lparr>info_id = 7, info_qos_level = QosLevel_TWO,
          info_retained = True, info_duplicate = False\<rparr>, msg_payload = [1, 2]\<rparr>"
  obtain d where d: "RTI_MQTT_Message_to_dynamic_data std_dyn ?m Map.empty = (DDS_RETCODE_OK, d)"
    by (simp add: RTI_MQTT_Message_to_dynamic_data_def std_dyn_def)
  have "QosLevel_TWO \<notin> range QosLevel_other" by auto
  with message_dynamic_data_roundtrip [OF dyn_laws_std_dyn, of ?m _ _ "\<lambda>_. True"
      "\<lparr>msg_topic = None, msg_info = None, msg_payload = []\<rparr>" "msg_info ?m" Map.empty d] d
  show ?thesis by auto
qed

end
