(* ===== verification/Requests.thy ===== *)
theory Requests
  imports Infrastructure
begin

text \<open>
  Pending requests, the part of \<^verbatim>\<open>plugins/adapters/mqtt/srcC/mqtt/Client.c\<close> by which a thread of the
  gateway waits for the outcome of an asynchronous MQTT operation: a guard condition that the
  reply handler triggers and a wait set the caller blocks on.

  The environment of a wait says which replies the MQTT library delivers while the thread waits
  and after it has given up, and the results of the DDS calls.
\<close>

section \<open>Requests\<close>

record request =
  req_result :: retcode
  req_triggered :: bool
  req_timeout :: mqtt_time

record request_env =
  re_heap :: bool
  re_guard_new :: bool
  re_waitset_new :: bool
  re_set_maximum :: bool
  re_attach :: bool

definition RTI_MQTT_Client_new_request :: "request_env \<Rightarrow> mqtt_time \<Rightarrow> retcode \<times> request option" where
  "RTI_MQTT_Client_new_request env timeout =
     (if \<not> re_heap env then (DDS_RETCODE_ERROR, None)
      else if \<not> re_guard_new env then (DDS_RETCODE_ERROR, None)
      else if \<not> re_waitset_new env then (DDS_RETCODE_ERROR, None)
      else if \<not> re_set_maximum env then (DDS_RETCODE_ERROR, None)
      else if \<not> re_attach env then (DDS_RETCODE_ERROR, None)
      else (DDS_RETCODE_OK,
            Some \<lparr>req_result = DDS_RETCODE_ERROR, req_triggered = False, req_timeout = timeout\<rparr>))"

text \<open>The pointer is cleared and the call succeeds whether or not there was a request.\<close>

definition RTI_MQTT_Client_delete_request :: "request option \<Rightarrow> retcode \<times> request option" where
  "RTI_MQTT_Client_delete_request req = (DDS_RETCODE_OK, None)"

text \<open>
  The handler: stores the result and triggers the condition.  The second component is false when
  the condition cannot be triggered; the caller then puts the client into its error state.
\<close>

definition RTI_MQTT_Client_handle_request_result :: "bool \<Rightarrow> request \<Rightarrow> retcode \<Rightarrow> request \<times> bool" where
  "RTI_MQTT_Client_handle_request_result set_trigger_ok req result =
     (let req1 = req\<lparr>req_result := result\<rparr> in
      if set_trigger_ok then (req1\<lparr>req_triggered := True\<rparr>, True) else (req1, False))"

section \<open>Waiting\<close>

text \<open>
  \<open>we_reply\<close> is the reply that arrives while the thread is blocked and \<open>we_late\<close> one that arrives
  after the wait has ended; \<open>we_wait d\<close> is what \<^verbatim>\<open>DDS_WaitSet_wait\<close> returns with the duration \<open>d\<close>
  when no condition is triggered (a timeout or an error); \<open>we_active\<close> says that the triggered condition is listed and
  \<open>we_reset\<close> that it can be reset.
\<close>

record wait_env =
  we_reply :: "retcode option"
  we_late :: "retcode option"
  we_wait :: "(i32 \<times> u32) option \<Rightarrow> retcode"
  we_active :: bool
  we_reset :: bool
  we_trigger :: bool

text \<open>A zero timeout waits forever, \<^verbatim>\<open>DDS_DURATION_INFINITE\<close>, which is \<open>None\<close>.\<close>

definition request_duration :: "request \<Rightarrow> (i32 \<times> u32) option" where
  "request_duration req =
     (if \<not> RTI_MQTT_Time_is_zero (req_timeout req)
      then Some (snd (RTI_MQTT_Time_to_dds_duration (req_timeout req))) else None)"

definition RTI_MQTT_Client_wait_for_request :: "wait_env \<Rightarrow> request \<Rightarrow> retcode \<times> request" where
  "RTI_MQTT_Client_wait_for_request we req =
     (let retcode = (if req_triggered req then DDS_RETCODE_OK else we_wait we (request_duration req)) in
      if retcode \<noteq> DDS_RETCODE_OK then (retcode, req)
      else if \<not> (req_triggered req \<and> we_active we) then (DDS_RETCODE_ERROR, req)
      else if \<not> we_reset we then (DDS_RETCODE_ERROR, req)
      else (req_result req, req\<lparr>req_triggered := False\<rparr>))"

text \<open>
  The whole wait on a state that holds the request, with the handler run where the replies
  arrive: a condition that is still triggered from before ends the wait at once, so the reply
  comes after it.
\<close>

definition await ::
    "('c \<Rightarrow> request) \<Rightarrow> (request \<Rightarrow> 'c \<Rightarrow> 'c) \<Rightarrow> ('c \<Rightarrow> retcode \<Rightarrow> 'c) \<Rightarrow> wait_env \<Rightarrow> 'c \<Rightarrow> retcode \<times> 'c" where
  "await get put handler we c =
     (let deliver = (\<lambda>r c. case r of None \<Rightarrow> c | Some x \<Rightarrow> handler c x);
          stale = req_triggered (get c);
          c1 = (if stale then c else deliver (we_reply we) c);
          (rc, req) = RTI_MQTT_Client_wait_for_request we (get c1);
          c2 = put req c1;
          c3 = (if stale then deliver (we_reply we) c2 else c2)
      in (rc, deliver (we_late we) c3))"

text \<open>The DDS calls of the wait succeed, and a wait without a reply does not report success.\<close>

definition wait_ok :: "wait_env \<Rightarrow> bool" where
  "wait_ok we \<longleftrightarrow> we_active we \<and> we_reset we \<and> we_trigger we \<and> (\<forall>d. we_wait we d \<noteq> DDS_RETCODE_OK)"

text \<open>A wait on the request alone, and a sequence of waits, one per operation.\<close>

definition request_wait :: "wait_env \<Rightarrow> request \<Rightarrow> retcode \<times> request" where
  "request_wait we =
     await (\<lambda>r. r) (\<lambda>r _. r) (\<lambda>r x. fst (RTI_MQTT_Client_handle_request_result (we_trigger we) r x)) we"

fun request_waits :: "wait_env list \<Rightarrow> request \<Rightarrow> retcode list \<times> request" where
  "request_waits [] r = ([], r)"
| "request_waits (we # wes) r =
     (case request_wait we r of (rc, r1) \<Rightarrow>
      case request_waits wes r1 of (rcs, r2) \<Rightarrow> (rc # rcs, r2))"

lemma request_wait_fresh:
  "wait_ok we \<Longrightarrow> \<not> req_triggered r \<Longrightarrow> we_late we = None \<Longrightarrow>
   request_wait we r =
     (case we_reply we of
        None \<Rightarrow> (we_wait we (request_duration r), r)
      | Some x \<Rightarrow> (x, r\<lparr>req_result := x, req_triggered := False\<rparr>))"
  by (cases "we_reply we")
    (auto simp: request_wait_def await_def RTI_MQTT_Client_wait_for_request_def wait_ok_def
      RTI_MQTT_Client_handle_request_result_def Let_def)

lemma request_wait_stale:
  "wait_ok we \<Longrightarrow> req_triggered r \<Longrightarrow> we_late we = None \<Longrightarrow>
   request_wait we r =
     (req_result r, case we_reply we of
        None \<Rightarrow> r\<lparr>req_triggered := False\<rparr>
      | Some x \<Rightarrow> r\<lparr>req_result := x, req_triggered := True\<rparr>)"
  by (cases "we_reply we"; cases r)
    (auto simp: request_wait_def await_def RTI_MQTT_Client_wait_for_request_def wait_ok_def
      RTI_MQTT_Client_handle_request_result_def Let_def)

lemma request_waits_stale:
  assumes "\<forall>we \<in> set wes. wait_ok we \<and> we_late we = None \<and> we_reply we \<noteq> None"
  shows "req_triggered r \<Longrightarrow>
    fst (request_waits wes r) = butlast (req_result r # map (the \<circ> we_reply) wes) \<and>
    req_triggered (snd (request_waits wes r))"
  using assms
proof (induction wes arbitrary: r)
  case Nil
  then show ?case by simp
next
  case (Cons we wes)
  obtain x where x: "we_reply we = Some x" using Cons.prems by auto
  let ?r = "r\<lparr>req_result := x, req_triggered := True\<rparr>"
  have w: "request_wait we r = (req_result r, ?r)"
    using Cons.prems x by (simp add: request_wait_stale)
  have "fst (request_waits wes ?r) = butlast (x # map (the \<circ> we_reply) wes) \<and>
      req_triggered (snd (request_waits wes ?r))"
    using Cons.IH [of ?r] Cons.prems by (simp add: o_def)
  with w x show ?case by (cases "request_waits wes ?r") (auto simp: o_def)
qed

section \<open>Properties\<close>

text \<open>
  A request that is not triggered: a wait returns exactly the reply that arrives
  during it, or the code of the wait set when none does, and leaves the request untriggered, ready
  for the next operation.
\<close>

theorem request_wait_returns_reply:
  assumes "wait_ok we" and "\<not> req_triggered req" and "we_late we = None"
  shows "fst (request_wait we req) = (case we_reply we of None \<Rightarrow> we_wait we (request_duration req) | Some x \<Rightarrow> x) \<and>
    \<not> req_triggered (snd (request_wait we req))"
  using assms by (auto simp: request_wait_fresh split: option.splits)

definition reply_env :: "retcode \<Rightarrow> wait_env" where
  "reply_env x = \<lparr>we_reply = Some x, we_late = None, we_wait = (\<lambda>_. DDS_RETCODE_TIMEOUT), we_active = True,
     we_reset = True, we_trigger = True\<rparr>"

definition req0 :: request where
  "req0 = \<lparr>req_result = DDS_RETCODE_ERROR, req_triggered = False, req_timeout = RTI_MQTT_Time_ZERO\<rparr>"

theorem request_wait_returns_reply_witness:
  "fst (request_wait (reply_env DDS_RETCODE_OK) req0) = DDS_RETCODE_OK"
  using request_wait_returns_reply [of "reply_env DDS_RETCODE_OK" req0]
  by (simp add: reply_env_def req0_def wait_ok_def)

text \<open>
  A late reply shifts all later results by one.  When a wait has timed out and its
  reply arrives afterwards, the condition stays triggered: each following operation on the same
  request returns at once with the result of the operation before it, for as long as every
  operation gets its reply.
\<close>

theorem request_late_reply_shifts_results:
  assumes "wait_ok we" and "\<not> req_triggered req" and "we_reply we = None" and "we_late we = Some late"
    and "\<forall>we \<in> set wes. wait_ok we \<and> we_late we = None \<and> we_reply we \<noteq> None"
  shows "fst (request_waits (we # wes) req) =
    we_wait we (request_duration req) # butlast (late # map (the \<circ> we_reply) wes)"
proof -
  have "request_wait we req = (we_wait we (request_duration req), req\<lparr>req_result := late, req_triggered := True\<rparr>)"
    using assms by (simp add: request_wait_def await_def RTI_MQTT_Client_wait_for_request_def
        RTI_MQTT_Client_handle_request_result_def wait_ok_def Let_def)
  then show ?thesis
    using request_waits_stale [OF assms(5), of "req\<lparr>req_result := late, req_triggered := True\<rparr>"]
    by (cases "request_waits wes (req\<lparr>req_result := late, req_triggered := True\<rparr>)") simp
qed

theorem request_late_reply_shifts_results_witness:
  "fst (request_waits
      [(reply_env DDS_RETCODE_OK)\<lparr>we_reply := None, we_late := Some DDS_RETCODE_OK\<rparr>,
       reply_env DDS_RETCODE_ERROR, reply_env DDS_RETCODE_OK] req0) =
   [DDS_RETCODE_TIMEOUT, DDS_RETCODE_OK, DDS_RETCODE_ERROR]"
  using request_late_reply_shifts_results
    [of "(reply_env DDS_RETCODE_OK)\<lparr>we_reply := None, we_late := Some DDS_RETCODE_OK\<rparr>" req0
      DDS_RETCODE_OK "[reply_env DDS_RETCODE_ERROR, reply_env DDS_RETCODE_OK]"]
  by (simp add: reply_env_def req0_def wait_ok_def)

end
