(* ===== verification/Subscription.thy ===== *)
theory Subscription
  imports QueueTheorems Requests
begin

text \<open>
  Subscriptions, \<^verbatim>\<open>plugins/adapters/mqtt/srcC/mqtt/Subscription.c\<close>: a topic filter list and a receive
  queue.  A subscription object is identified by \<open>s_ptr\<close>, which stands for its address.  The
  message counters \<^verbatim>\<open>data->message_status\<close> are those of the queue, which shares the structure.
  The functions take and release the client's recursive \<^verbatim>\<open>sub_lock\<close> around reads of the
  configuration only, which leaves its depth unchanged.
\<close>

section \<open>The subscription object\<close>

text \<open>\<^verbatim>\<open>RTI_MQTT_SubscriptionParams\<close>: what is submitted to the broker for one topic filter.\<close>

record sub_params =
  sp_topic :: string
  sp_max_qos :: qos_level

record 'd subscription =
  s_ptr :: nat
  s_config :: subscription_config
  s_queue :: "'d mrqueue"
  s_data_avail_listener :: bool
  s_req_sub :: "request option"
  s_req_unsub :: "request option"
  s_params :: "sub_params list"
  s_listener_calls :: nat

section \<open>Creation\<close>

record 'd sub_env =
  se_ptr :: nat
  se_heap :: bool
  se_status_new :: bool
  se_config_copy :: bool
  se_queue_heap :: bool
  se_queue_env :: "'d queue_env"

text \<open>
  \<^verbatim>\<open>initialize\<close>: the status object with zeroed counters, a copy of the configuration, and the queue.
  On failure everything is finalised again.
\<close>

definition RTI_MQTT_Subscription_initialize ::
    "'d sub_env \<Rightarrow> subscription_config \<Rightarrow> (retcode \<times> 'd subscription option) option" where
  "RTI_MQTT_Subscription_initialize env config =
     (if \<not> se_status_new env then Some (DDS_RETCODE_ERROR, None)
      else if \<not> se_config_copy env then Some (DDS_RETCODE_ERROR, None)
      else
        case RTI_MQTT_MessageReceiveQueue_new (se_queue_env env) (se_queue_heap env)
               (message_queue_size config) zero_status of
          None \<Rightarrow> None
        | Some (_, None) \<Rightarrow> Some (DDS_RETCODE_ERROR, None)
        | Some (rc, Some queue) \<Rightarrow>
            if rc \<noteq> DDS_RETCODE_OK then Some (DDS_RETCODE_ERROR, None)
            else Some (DDS_RETCODE_OK,
              Some \<lparr>s_ptr = se_ptr env, s_config = config, s_queue = queue, s_data_avail_listener = False,
                    s_req_sub = None, s_req_unsub = None, s_params = [], s_listener_calls = 0\<rparr>))"

definition RTI_MQTT_Subscription_new ::
    "'d sub_env \<Rightarrow> subscription_config \<Rightarrow> (retcode \<times> 'd subscription option) option" where
  "RTI_MQTT_Subscription_new env config =
     (if \<not> se_heap env then Some (DDS_RETCODE_ERROR, None)
      else RTI_MQTT_Subscription_initialize env config)"

text \<open>Deleting a subscription deletes its queue; the result is the queue after its finalisation.\<close>

definition RTI_MQTT_Subscription_finalize ::
    "'d queue_env \<Rightarrow> 'd subscription \<Rightarrow> (retcode \<times> 'd mrqueue) option" where
  "RTI_MQTT_Subscription_finalize env self =
     map_option (\<lambda>(_, q). (DDS_RETCODE_OK, q)) (RTI_MQTT_MessageReceiveQueue_finalize env (s_queue self))"

section \<open>Matching and receiving\<close>

fun match_filters :: "string list \<Rightarrow> string \<Rightarrow> (retcode \<times> bool) option" where
  "match_filters [] topic = Some (DDS_RETCODE_OK, False)"
| "match_filters (f # fs) topic =
     (case RTI_MQTT_TopicFilter_match f topic of
        None \<Rightarrow> None
      | Some (rc, match) \<Rightarrow>
          if rc \<noteq> DDS_RETCODE_OK then Some (DDS_RETCODE_ERROR, False)
          else if match then Some (DDS_RETCODE_OK, True)
          else match_filters fs topic)"

definition RTI_MQTT_Subscription_match ::
    "'d subscription \<Rightarrow> string \<Rightarrow> (retcode \<times> bool) option" where
  "RTI_MQTT_Subscription_match self topic_name = match_filters (topic_filters (s_config self)) topic_name"

definition RTI_MQTT_Subscription_receive ::
    "'d queue_env \<Rightarrow> 'd subscription \<Rightarrow> octet list \<Rightarrow> u32 \<Rightarrow> string \<Rightarrow> message_info option
     \<Rightarrow> (retcode \<times> 'd subscription) option" where
  "RTI_MQTT_Subscription_receive env self buffer buffer_len topic info =
     (case RTI_MQTT_MessageReceiveQueue_receive env (s_queue self) buffer buffer_len topic info of
        None \<Rightarrow> None
      | Some (rc, q, _, _) \<Rightarrow>
          let self1 = self\<lparr>s_queue := q\<rparr> in
          if rc \<noteq> DDS_RETCODE_OK then Some (DDS_RETCODE_ERROR, self1)
          else Some (DDS_RETCODE_OK,
                 if s_data_avail_listener self1
                 then self1\<lparr>s_listener_calls := s_listener_calls self1 + 1\<rparr> else self1))"

definition RTI_MQTT_Subscription_read ::
    "'d queue_env \<Rightarrow> 'd subscription \<Rightarrow> u32 \<Rightarrow> 'd option dds_seq
     \<Rightarrow> (retcode \<times> 'd subscription \<times> 'd option dds_seq) option" where
  "RTI_MQTT_Subscription_read env self max_messages messages =
     map_option
       (\<lambda>(rc, q, messages1).
          (if rc \<noteq> DDS_RETCODE_OK then DDS_RETCODE_ERROR else DDS_RETCODE_OK, self\<lparr>s_queue := q\<rparr>, messages1))
       (RTI_MQTT_MessageReceiveQueue_read env (s_queue self) max_messages messages)"

definition RTI_MQTT_Subscription_return_loan ::
    "'d queue_env \<Rightarrow> 'd subscription \<Rightarrow> 'd option dds_seq
     \<Rightarrow> (retcode \<times> 'd subscription \<times> 'd option dds_seq) option" where
  "RTI_MQTT_Subscription_return_loan env self messages =
     map_option
       (\<lambda>(rc, q, messages1).
          (if rc \<noteq> DDS_RETCODE_OK then DDS_RETCODE_ERROR else DDS_RETCODE_OK, self\<lparr>s_queue := q\<rparr>, messages1))
       (RTI_MQTT_MessageReceiveQueue_return_loan env (s_queue self) messages)"

definition RTI_MQTT_Subscription_set_data_available_listener ::
    "'d subscription \<Rightarrow> bool \<Rightarrow> retcode \<times> 'd subscription" where
  "RTI_MQTT_Subscription_set_data_available_listener self listener =
     (DDS_RETCODE_OK, self\<lparr>s_data_avail_listener := listener\<rparr>)"

section \<open>Lemmas\<close>

text \<open>The outcome of a filter list, by the reference matcher: the first filter that is invalid or matches decides.\<close>

fun filters_spec :: "string list \<Rightarrow> string \<Rightarrow> bool option" where
  "filters_spec [] topic = Some False"
| "filters_spec (f # fs) topic =
     (case tf_spec f topic of
        None \<Rightarrow> None
      | Some True \<Rightarrow> Some True
      | Some False \<Rightarrow> filters_spec fs topic)"

lemma match_filters_spec:
  "\<forall>f \<in> set fs. cstring f \<Longrightarrow> cstring topic \<Longrightarrow>
   match_filters fs topic =
     Some (case filters_spec fs topic of
             None \<Rightarrow> (DDS_RETCODE_ERROR, False)
           | Some b \<Rightarrow> (DDS_RETCODE_OK, b))"
  by (induction fs) (auto simp: match_by_spec split: option.splits bool.splits)

lemma filters_spec_valid:
  "\<forall>f \<in> set fs. tf_spec f topic \<noteq> None \<Longrightarrow>
   filters_spec fs topic = Some (\<exists>f \<in> set fs. tf_spec f topic = Some True)"
  by (induction fs) (auto split: option.splits bool.splits)

lemma receive_spec:
  "RTI_MQTT_Subscription_receive env s buffer len topic info = Some (rc, s') \<Longrightarrow>
   s_ptr s' = s_ptr s \<and> s_config s' = s_config s \<and> s_params s' = s_params s \<and>
   s_req_sub s' = s_req_sub s \<and> s_req_unsub s' = s_req_unsub s \<and>
   s_data_avail_listener s' = s_data_avail_listener s"
  by (auto simp: RTI_MQTT_Subscription_receive_def Let_def split: option.splits if_splits)

section \<open>Properties\<close>

text \<open>
  A subscription with valid topic filters takes a message exactly when one of its
  filters matches the topic; the search always comes back.
\<close>

theorem subscription_match_any:
  assumes "\<forall>f \<in> set (topic_filters (s_config sub)). cstring f \<and> tf_spec f topic \<noteq> None" and "cstring topic"
  shows "RTI_MQTT_Subscription_match sub topic =
    Some (DDS_RETCODE_OK, \<exists>f \<in> set (topic_filters (s_config sub)).
            RTI_MQTT_TopicFilter_match f topic = Some (DDS_RETCODE_OK, True))"
proof -
  have "RTI_MQTT_TopicFilter_match f topic = Some (DDS_RETCODE_OK, True) \<longleftrightarrow> tf_spec f topic = Some True"
    if "f \<in> set (topic_filters (s_config sub))" for f
    using match_by_spec [of f topic] assms that by (auto split: option.splits)
  then show ?thesis
    using assms match_filters_spec [of "topic_filters (s_config sub)" topic]
      filters_spec_valid [of "topic_filters (s_config sub)" topic]
    by (auto simp: RTI_MQTT_Subscription_match_def)
qed

definition example_sub :: "std_sample subscription" where
  "example_sub = \<lparr>s_ptr = 1, s_config = \<lparr>topic_filters = [''x'', ''a/#''], max_qos = QosLevel_ONE, message_queue_size = 3\<rparr>,
     s_queue = queue3, s_data_avail_listener = True, s_req_sub = None, s_req_unsub = None, s_params = [],
     s_listener_calls = 0\<rparr>"

theorem subscription_match_any_witness:
  "\<exists>b. RTI_MQTT_Subscription_match example_sub ''a/b'' = Some (DDS_RETCODE_OK, b) \<and> b"
  using subscription_match_any [of example_sub "''a/b''"] match_by_spec [of "''a/#''" "''a/b''"]
  by (auto simp: example_sub_def cstring_def NUL_def)

end
