(* ===== verification/Publication.thy ===== *)
theory Publication
  imports Requests
begin

text \<open>
  Publications, \<^verbatim>\<open>plugins/adapters/mqtt/srcC/mqtt/Publication.c\<close>: the object, its creation, the buffer
  that keeps the topic of the message being written, and the counters that the results of
  writes update.  The functions that talk to the client are in \<open>Client\<close>.
\<close>

section \<open>The publication object\<close>

record pub_status =
  sent_count :: u32
  pending_count :: u32
  ok_count :: u32
  error_count :: u32

text \<open>A \<^verbatim>\<open>char *\<close> that points to heap memory: the string in it and the number of bytes allocated.\<close>

record char_buf =
  cb_text :: string
  cb_alloc :: nat

record publication =
  p_ptr :: nat
  p_config :: publication_config
  p_status :: pub_status
  p_req :: "request option"
  p_last_write_qos :: qos_level
  p_topic :: "char_buf option"
  p_topic_len :: u32
  p_payload :: "octet list"

text \<open>\<^verbatim>\<open>RTI_MQTT_WriteParams\<close>.\<close>

record write_params =
  wp_qos_level :: qos_level
  wp_retained :: bool

text \<open>
  \<open>pe_string_dup\<close> says whether \<^verbatim>\<open>DDS_String_dup\<close> can allocate; \<open>pe_string_replace p s\<close> is the pointer
  after \<^verbatim>\<open>DDS_String_replace(&p, s)\<close>.
\<close>

record pub_env =
  pe_ptr :: nat
  pe_heap :: bool
  pe_payload_init :: bool
  pe_status_new :: bool
  pe_config_copy :: bool
  pe_string_dup :: "string \<Rightarrow> bool"
  pe_string_replace :: "char_buf option \<Rightarrow> string \<Rightarrow> char_buf option"

definition MQTT_TOPIC_NAME_MAX_LEN :: nat where
  "MQTT_TOPIC_NAME_MAX_LEN = 65535"

definition RTI_MQTT_Publication_is_configuration_valid :: "qos_level \<Rightarrow> string option \<Rightarrow> bool" where
  "RTI_MQTT_Publication_is_configuration_valid qos topic =
     (if \<not> RTI_MQTT_QosLevel_is_valid qos then False
      else
        case topic of
          None \<Rightarrow> False
        | Some t \<Rightarrow> \<not> (length t = 0 \<or> length t > MQTT_TOPIC_NAME_MAX_LEN))"

text \<open>
  \<^verbatim>\<open>store_topic\<close>: a topic that is no longer than the first one is copied into the buffer; \<open>None\<close> when
  the copy would run over its end.
\<close>

definition RTI_MQTT_Publication_store_topic ::
    "pub_env \<Rightarrow> publication \<Rightarrow> string \<Rightarrow> (retcode \<times> publication) option" where
  "RTI_MQTT_Publication_store_topic env self topic =
     (case p_topic self of
        None \<Rightarrow>
          if \<not> pe_string_dup env topic then Some (DDS_RETCODE_ERROR, self)
          else Some (DDS_RETCODE_OK,
            self\<lparr>p_topic := Some \<lparr>cb_text = topic, cb_alloc = length topic + 1\<rparr>,
                 p_topic_len := of_nat (length topic)\<rparr>)
      | Some buf \<Rightarrow>
          let topic_len = of_nat (length topic) :: u32 in
          if topic_len \<le> p_topic_len self then
            if unat topic_len + 1 \<le> cb_alloc buf then
              Some (DDS_RETCODE_OK,
                self\<lparr>p_topic := Some (buf\<lparr>cb_text := take (unat topic_len) topic\<rparr>)\<rparr>)
            else None
          else
            case pe_string_replace env (p_topic self) topic of
              None \<Rightarrow> Some (DDS_RETCODE_ERROR, self\<lparr>p_topic := None\<rparr>)
            | Some buf' \<Rightarrow>
                Some (DDS_RETCODE_OK,
                  self\<lparr>p_topic := Some buf', p_topic_len := of_nat (length (cb_text buf'))\<rparr>))"

section \<open>Creation\<close>

definition zero_pub_status :: pub_status where
  "zero_pub_status = \<lparr>sent_count = 0, pending_count = 0, ok_count = 0, error_count = 0\<rparr>"

definition RTI_MQTT_Publication_initialize ::
    "pub_env \<Rightarrow> publication_config \<Rightarrow> (retcode \<times> publication option) option" where
  "RTI_MQTT_Publication_initialize env config =
     (if \<not> pcfg_use_message_info config \<and>
         \<not> RTI_MQTT_Publication_is_configuration_valid (pcfg_qos config) (Some (pcfg_topic config))
      then Some (DDS_RETCODE_ERROR, None)
      else if \<not> pe_payload_init env then Some (DDS_RETCODE_ERROR, None)
      else if \<not> pe_status_new env then Some (DDS_RETCODE_ERROR, None)
      else if \<not> pe_config_copy env then Some (DDS_RETCODE_ERROR, None)
      else
        let self = \<lparr>p_ptr = pe_ptr env, p_config = config, p_status = zero_pub_status, p_req = None,
                    p_last_write_qos = QosLevel_UNKNOWN, p_topic = None, p_topic_len = 0,
                    p_payload = []\<rparr> in
        if pcfg_use_message_info config then
          map_option (\<lambda>(rc, self1). if rc \<noteq> DDS_RETCODE_OK then (DDS_RETCODE_ERROR, None)
                                    else (DDS_RETCODE_OK, Some self1))
            (RTI_MQTT_Publication_store_topic env self (pcfg_topic config))
        else Some (DDS_RETCODE_OK, Some self))"

definition RTI_MQTT_Publication_new ::
    "pub_env \<Rightarrow> publication_config \<Rightarrow> (retcode \<times> publication option) option" where
  "RTI_MQTT_Publication_new env config =
     (if \<not> pe_heap env then Some (DDS_RETCODE_ERROR, None)
      else RTI_MQTT_Publication_initialize env config)"

section \<open>Results of writes\<close>

definition count_result :: "retcode \<Rightarrow> pub_status \<Rightarrow> pub_status" where
  "count_result result st =
     (let st1 = st\<lparr>pending_count := pending_count st - 1\<rparr> in
      if result = DDS_RETCODE_OK then st1\<lparr>ok_count := ok_count st1 + 1\<rparr>
      else st1\<lparr>error_count := error_count st1 + 1\<rparr>)"

definition RTI_MQTT_Publication_on_write_result :: "publication \<Rightarrow> retcode \<Rightarrow> retcode \<times> publication" where
  "RTI_MQTT_Publication_on_write_result self result =
     (case p_last_write_qos self of
        QosLevel_ZERO \<Rightarrow> (DDS_RETCODE_OK, self\<lparr>p_status := count_result result (p_status self)\<rparr>)
      | QosLevel_ONE \<Rightarrow> (DDS_RETCODE_OK, self\<lparr>p_status := count_result result (p_status self)\<rparr>)
      | QosLevel_TWO \<Rightarrow>
          (DDS_RETCODE_OK,
           if result \<noteq> DDS_RETCODE_OK then self\<lparr>p_status := count_result result (p_status self)\<rparr>
           else self)
      | _ \<Rightarrow> (DDS_RETCODE_ERROR, self))"

definition RTI_MQTT_Publication_on_write_delivery_result ::
    "publication \<Rightarrow> retcode \<Rightarrow> retcode \<times> publication" where
  "RTI_MQTT_Publication_on_write_delivery_result self result =
     (if p_last_write_qos self \<noteq> QosLevel_TWO then (DDS_RETCODE_ERROR, self)
      else if pending_count (p_status self) = 0 then (DDS_RETCODE_ERROR, self)
      else (DDS_RETCODE_OK, self\<lparr>p_status := count_result result (p_status self)\<rparr>))"

section \<open>Lemmas\<close>

text \<open>The buffer has room for as many characters as \<^verbatim>\<open>topic_len\<close> says.\<close>

definition topic_buf_ok :: "publication \<Rightarrow> bool" where
  "topic_buf_ok p \<longleftrightarrow>
     (case p_topic p of None \<Rightarrow> True | Some b \<Rightarrow> unat (p_topic_len p) + 1 \<le> cb_alloc b)"

text \<open>What \<^verbatim>\<open>DDS_String_replace\<close> documents: a null pointer on failure, else a copy that just fits.\<close>

definition string_replace_laws :: "(char_buf option \<Rightarrow> string \<Rightarrow> char_buf option) \<Rightarrow> bool" where
  "string_replace_laws f \<longleftrightarrow>
     (\<forall>p s b. f p s = Some b \<longrightarrow> cb_text b = s \<and> cb_alloc b = length s + 1)"

definition std_string_replace :: "char_buf option \<Rightarrow> string \<Rightarrow> char_buf option" where
  "std_string_replace p s = Some \<lparr>cb_text = s, cb_alloc = length s + 1\<rparr>"

lemma string_replace_laws_std [simp]: "string_replace_laws std_string_replace"
  by (simp add: string_replace_laws_def std_string_replace_def)

definition std_pub_env :: pub_env where
  "std_pub_env = \<lparr>pe_ptr = 1, pe_heap = True, pe_payload_init = True, pe_status_new = True,
     pe_config_copy = True, pe_string_dup = (\<lambda>_. True), pe_string_replace = std_string_replace\<rparr>"

definition pub_status_ok :: "pub_status \<Rightarrow> bool" where
  "pub_status_ok st \<longleftrightarrow> sent_count st = pending_count st + ok_count st + error_count st"

lemma count_result_ok: "pub_status_ok st \<Longrightarrow> pub_status_ok (count_result r st)"
  by (simp add: pub_status_ok_def count_result_def Let_def algebra_simps)

lemma is_configuration_valid_iff:
  "RTI_MQTT_Publication_is_configuration_valid q (Some t) \<longleftrightarrow>
     RTI_MQTT_QosLevel_is_valid q \<and> t \<noteq> [] \<and> length t \<le> 65535"
  by (auto simp: RTI_MQTT_Publication_is_configuration_valid_def MQTT_TOPIC_NAME_MAX_LEN_def)

section \<open>Properties\<close>

text \<open>
  Storing a topic never writes outside the buffer, and on success the buffer holds
  exactly the topic; the buffer stays consistent with its recorded length, so this holds for every
  sequence of topics.
\<close>

theorem store_topic_safe:
  assumes "topic_buf_ok p" and "string_replace_laws (pe_string_replace env)" and "length topic < 4294967296"
  shows "\<exists>rc p'. RTI_MQTT_Publication_store_topic env p topic = Some (rc, p') \<and> topic_buf_ok p' \<and>
    (rc = DDS_RETCODE_OK \<longrightarrow> (\<exists>b. p_topic p' = Some b \<and> cb_text b = topic \<and> length topic < cb_alloc b))"
proof -
  have u: "unat (of_nat (length topic) :: u32) = length topic" using assms(3) by (rule unat_of_nat_u32)
  show ?thesis
  proof (cases "p_topic p")
    case None
    then show ?thesis
      using u by (auto simp: RTI_MQTT_Publication_store_topic_def topic_buf_ok_def)
  next
    case (Some b)
    then have b: "unat (p_topic_len p) + 1 \<le> cb_alloc b" using assms(1) by (simp add: topic_buf_ok_def)
    show ?thesis
    proof (cases "length topic \<le> unat (p_topic_len p)")
      case True
      then show ?thesis
        using Some b u by (auto simp: RTI_MQTT_Publication_store_topic_def topic_buf_ok_def word_le_nat_alt Let_def)
    next
      case False
      then have "\<not> (of_nat (length topic) :: u32) \<le> p_topic_len p" using u by (simp add: word_le_nat_alt)
      then show ?thesis
        using Some assms(2) u
        by (cases "pe_string_replace env (p_topic p) topic")
          (auto simp: RTI_MQTT_Publication_store_topic_def topic_buf_ok_def string_replace_laws_def Let_def)
    qed
  qed
qed

theorem store_topic_safe_witness:
  "\<exists>p p'. RTI_MQTT_Publication_initialize std_pub_env
      (RTI_MQTT_PublicationConfig_DEFAULT\<lparr>pcfg_topic := ''abc'', pcfg_use_message_info := True\<rparr>)
      = Some (DDS_RETCODE_OK, Some p) \<and>
    RTI_MQTT_Publication_store_topic std_pub_env p ''x'' = Some (DDS_RETCODE_OK, p') \<and>
    map_option cb_text (p_topic p') = Some ''x''"
proof -
  let ?c = "RTI_MQTT_PublicationConfig_DEFAULT\<lparr>pcfg_topic := ''abc'', pcfg_use_message_info := True\<rparr>"
  obtain p where p: "RTI_MQTT_Publication_initialize std_pub_env ?c = Some (DDS_RETCODE_OK, Some p)"
    and ok: "topic_buf_ok p" "p_topic p = Some \<lparr>cb_text = ''abc'', cb_alloc = 4\<rparr>" "p_topic_len p = 3"
    by (simp add: RTI_MQTT_Publication_initialize_def std_pub_env_def RTI_MQTT_Publication_store_topic_def
        topic_buf_ok_def)
  have l: "string_replace_laws (pe_string_replace std_pub_env)" by (simp add: std_pub_env_def)
  obtain rc p' where s: "RTI_MQTT_Publication_store_topic std_pub_env p ''x'' = Some (rc, p')"
    and r: "rc = DDS_RETCODE_OK \<longrightarrow> (\<exists>b. p_topic p' = Some b \<and> cb_text b = ''x'' \<and> length ''x'' < cb_alloc b)"
    using store_topic_safe [OF ok(1) l, of "''x''"] by auto
  have "rc = DDS_RETCODE_OK"
    using s ok(2,3) by (simp add: RTI_MQTT_Publication_store_topic_def Let_def)
  with p s r show ?thesis by auto
qed

text \<open>
  The counters of a publication: the result of a write with QoS 0 or 1, and of a
  successful write with QoS 2 (which is counted by the delivery handler the client runs next),
  moves one message from pending to ok or to error and keeps
  sent = pending + ok + error (modulo \<open>2 ^ 32\<close>).
\<close>

definition write_result_steps :: "publication \<Rightarrow> retcode \<Rightarrow> publication" where
  "write_result_steps p result =
     (let (rc, p1) = RTI_MQTT_Publication_on_write_result p result;
          retcode = (if rc \<noteq> DDS_RETCODE_OK then DDS_RETCODE_ERROR else result) in
      if p_last_write_qos p \<noteq> QosLevel_TWO then p1
      else snd (RTI_MQTT_Publication_on_write_delivery_result p1 retcode))"

theorem write_result_counted_once:
  assumes "RTI_MQTT_QosLevel_is_valid (p_last_write_qos p)" and "pending_count (p_status p) \<noteq> 0"
    and "p_last_write_qos p = QosLevel_TWO \<longrightarrow>
      result = DDS_RETCODE_OK \<or> pending_count (p_status p) = 1"
  shows "p_status (write_result_steps p result) = count_result result (p_status p) \<and>
    (pub_status_ok (p_status p) \<longrightarrow> pub_status_ok (p_status (write_result_steps p result)))"
proof -
  have "p_status (write_result_steps p result) = count_result result (p_status p)"
    using assms by (cases "p_last_write_qos p")
      (auto simp: write_result_steps_def RTI_MQTT_Publication_on_write_result_def
        RTI_MQTT_Publication_on_write_delivery_result_def count_result_def Let_def)
  then show ?thesis by (simp add: count_result_ok)
qed

definition example_pub :: publication where
  "example_pub = \<lparr>p_ptr = 1, p_config = RTI_MQTT_PublicationConfig_DEFAULT\<lparr>pcfg_topic := ''t''\<rparr>,
     p_status = \<lparr>sent_count = 2, pending_count = 2, ok_count = 0, error_count = 0\<rparr>,
     p_req = Some req0, p_last_write_qos = QosLevel_TWO, p_topic = None, p_topic_len = 0, p_payload = []\<rparr>"

theorem write_result_counted_once_witness:
  "p_status (write_result_steps example_pub DDS_RETCODE_OK)
     = \<lparr>sent_count = 2, pending_count = 1, ok_count = 1, error_count = 0\<rparr>"
  using write_result_counted_once [of example_pub DDS_RETCODE_OK]
  by (simp add: example_pub_def count_result_def)

text \<open>
  A failed QoS 2 write is counted twice when an earlier write is still pending: the
  result handler and the delivery handler, which are run one after the other, both move a message
  from pending to error.
\<close>

theorem write_error_qos2_counted_twice:
  assumes "p_last_write_qos p = QosLevel_TWO" and "result \<noteq> DDS_RETCODE_OK"
    and "1 < unat (pending_count (p_status p))"
  shows "p_status (write_result_steps p result) = count_result result (count_result result (p_status p))"
proof -
  have "pending_count (p_status p) \<noteq> 1" using assms(3) by auto
  then show ?thesis
    using assms by (simp add: write_result_steps_def RTI_MQTT_Publication_on_write_result_def
        RTI_MQTT_Publication_on_write_delivery_result_def count_result_def Let_def)
qed

theorem write_error_qos2_counted_twice_witness:
  "p_status (write_result_steps example_pub DDS_RETCODE_ERROR)
     = \<lparr>sent_count = 2, pending_count = 0, ok_count = 0, error_count = 2\<rparr>"
  using write_error_qos2_counted_twice [of example_pub DDS_RETCODE_ERROR]
  by (simp add: example_pub_def count_result_def)

end
