(* ===== verification/PointerSeq.thy ===== *)
theory PointerSeq
  imports Prelude
begin

text \<open>
  The removal of an element from a sequence of pointers, which the client and the transformation
  plugins do by the same two loops: one finds the position of the pointer, one moves the elements
  after it to the left.  The sequence is then shortened by one.
\<close>

fun find_index :: "('a \<Rightarrow> bool) \<Rightarrow> 'a list \<Rightarrow> nat option" where
  "find_index P [] = None"
| "find_index P (x # xs) = (if P x then Some 0 else map_option Suc (find_index P xs))"

text \<open>The loop that moves the elements after position \<open>i\<close> one place to the left.\<close>

function shift_left :: "'a list \<Rightarrow> nat \<Rightarrow> 'a list" where
  "shift_left xs i = (if i + 1 < length xs then shift_left (xs[i := xs ! (i + 1)]) (i + 1) else xs)"
  by auto
termination by (relation "measure (\<lambda>(xs, i). length xs - i)") auto

declare shift_left.simps [simp del]

lemma find_index_Some:
  "find_index P xs = Some i \<Longrightarrow> i < length xs \<and> P (xs ! i) \<and> (\<forall>j < i. \<not> P (xs ! j))"
  by (induction xs arbitrary: i) (auto simp: nth_Cons less_Suc_eq_0_disj split: if_splits nat.splits)

lemma find_index_None: "find_index P xs = None \<longleftrightarrow> (\<forall>x \<in> set xs. \<not> P x)"
  by (induction xs) auto

lemma shift_left_eq:
  "i < length xs \<Longrightarrow> shift_left xs i = take i xs @ drop (Suc i) xs @ [last xs]"
proof (induction xs i rule: shift_left.induct)
  case (1 xs i)
  show ?case
  proof (cases "i + 1 < length xs")
    case True
    let ?ys = "xs[i := xs ! (i + 1)]"
    have "shift_left xs i = take (i + 1) ?ys @ drop (Suc (i + 1)) ?ys @ [last ?ys]"
      using 1(1) [OF True] True by (simp add: shift_left.simps [of xs i])
    moreover have "last ?ys = last xs" using True by (cases "xs = []") (auto simp: last_conv_nth)
    moreover have "drop (Suc i) xs = xs ! (i + 1) # drop (Suc (Suc i)) xs"
      using True by (simp add: Cons_nth_drop_Suc)
    ultimately show ?thesis using True by (simp add: take_Suc_conv_app_nth take_update_swap list_update_append)
  next
    case False
    with 1(2) have i: "i = length xs - 1" "xs \<noteq> []" by auto
    then have "take i xs @ [last xs] = xs" "drop (Suc i) xs = []"
      using append_butlast_last_id [OF i(2)] by (simp_all add: i(1) butlast_conv_take)
    with False show ?thesis by (simp add: shift_left.simps [of xs i])
  qed
qed

lemma filter_drop_one:
  assumes "i < length xs" and "distinct (map key xs)"
  shows "filter (\<lambda>x. key x \<noteq> key (xs ! i)) xs = take i xs @ drop (Suc i) xs"
proof -
  have s: "xs = take i xs @ xs ! i # drop (Suc i) xs" using assms(1) by (simp add: id_take_nth_drop)
  have "distinct (map key (take i xs @ xs ! i # drop (Suc i) xs))" using assms(2) s by simp
  then have "key (xs ! i) \<notin> key ` set (take i xs)" "key (xs ! i) \<notin> key ` set (drop (Suc i) xs)" by auto
  then have "filter (\<lambda>x. key x \<noteq> key (xs ! i)) (take i xs) = take i xs"
    "filter (\<lambda>x. key x \<noteq> key (xs ! i)) (drop (Suc i) xs) = drop (Suc i) xs"
    by (auto intro!: filter_True simp: image_iff)
  then show ?thesis by (subst s) simp
qed

text \<open>Both loops and the shortening together remove the element with a given key.\<close>

lemma remove_by_key:
  assumes "find_index (\<lambda>x. p = key x) xs = Some i" and "distinct (map key xs)"
  shows "take (length xs - 1) (shift_left xs i) = filter (\<lambda>x. key x \<noteq> p) xs"
    and "length (shift_left xs i) = length xs"
proof -
  have i: "i < length xs" "p = key (xs ! i)" using find_index_Some [OF assms(1)] by auto
  then have "xs \<noteq> []" by auto
  with i show "take (length xs - 1) (shift_left xs i) = filter (\<lambda>x. key x \<noteq> p) xs"
      "length (shift_left xs i) = length xs"
    using filter_drop_one [OF i(1) assms(2)] by (simp_all add: shift_left_eq)
qed

section \<open>Sequences of pointers\<close>

text \<open>Adding a pointer at the end: \<^verbatim>\<open>ensure_length\<close> by one more, then the assignment through the reference.\<close>

definition add_pointer :: "nat seq_api \<Rightarrow> nat \<Rightarrow> nat dds_seq \<Rightarrow> nat dds_seq option" where
  "add_pointer a k s =
     (let n = length (seq_buf s) in
      map_option (\<lambda>s1. s1\<lparr>seq_buf := (seq_buf s1)[n := k]\<rparr>)
        (seq_ensure_length a (of_nat (n + 1)) (of_nat (n + 1)) s))"

text \<open>Removing the pointer at an index: the loop, then \<^verbatim>\<open>set_length\<close>, whose failure is only logged.\<close>

definition drop_pointer :: "nat seq_api \<Rightarrow> nat \<Rightarrow> nat dds_seq \<Rightarrow> nat dds_seq" where
  "drop_pointer a rm_i s =
     (let s1 = s\<lparr>seq_buf := shift_left (seq_buf s) rm_i\<rparr> in
      case seq_set_length a (of_nat (length (seq_buf s) - 1)) s1 of None \<Rightarrow> s1 | Some s2 \<Rightarrow> s2)"

text \<open>Room for every element, no element twice, and a buffer of its own.\<close>

definition pointers_ok :: "nat dds_seq \<Rightarrow> bool" where
  "pointers_ok s \<longleftrightarrow> distinct (seq_buf s) \<and> length (seq_buf s) \<le> seq_max s \<and> \<not> seq_loaned s"

lemma add_pointer_ok:
  assumes "seq_laws a" "seq_total a" "length (seq_buf s) < 2147483647" "\<not> seq_loaned s"
  obtains s' where "add_pointer a k s = Some s'" "seq_buf s' = seq_buf s @ [k]" "length (seq_buf s') \<le> seq_max s'"
    "\<not> seq_loaned s'"
proof -
  let ?n = "length (seq_buf s) + 1"
  obtain s1 where s1: "seq_ensure_length a (of_nat ?n) (of_nat ?n) s = Some s1" "unat (of_nat ?n :: u32) = ?n"
    using seq_grow [OF assms(2,4), of ?n] assms(3) by auto
  let ?s' = "s1\<lparr>seq_buf := (seq_buf s1)[length (seq_buf s) := k]\<rparr>"
  have "add_pointer a k s = Some ?s'" using s1(1) by (simp add: add_pointer_def Let_def)
  moreover have "seq_buf ?s' = seq_buf s @ [k]" using seq_append_one [OF assms(1) s1(1)] s1(2) by simp
  moreover have "length (seq_buf ?s') \<le> seq_max ?s'"
    using seq_ensure_lengthD(1,4) [OF assms(1) s1(1)] by simp
  moreover have "\<not> seq_loaned ?s'" using seq_ensure_lengthD(3) [OF assms(1) s1(1)] assms(4) by simp
  ultimately show thesis by (rule that)
qed

lemma drop_pointer_ok:
  assumes "seq_laws a" "seq_total a" "pointers_ok s" "length (seq_buf s) < 2147483648"
    and "find_index (\<lambda>x. x = k) (seq_buf s) = Some i"
  shows "seq_buf (drop_pointer a i s) = filter (\<lambda>x. x \<noteq> k) (seq_buf s) \<and> pointers_ok (drop_pointer a i s)"
proof -
  let ?s1 = "s\<lparr>seq_buf := shift_left (seq_buf s) i\<rparr>"
  let ?w = "of_nat (length (seq_buf s) - 1) :: u32"
  have "find_index (\<lambda>x. k = x) (seq_buf s) = Some i" using assms(5) by (simp add: eq_commute)
  then have r: "take (length (seq_buf s) - 1) (shift_left (seq_buf s) i) = filter (\<lambda>x. x \<noteq> k) (seq_buf s)"
      "length (shift_left (seq_buf s) i) = length (seq_buf s)"
    using remove_by_key [of k "\<lambda>x. x"] assms(3) by (auto simp: pointers_ok_def)
  have u: "unat ?w = length (seq_buf s) - 1" using assms(4) by (intro unat_of_nat_u32) simp
  have "unat ?w \<le> seq_max ?s1" using assms(3) unfolding u pointers_ok_def by auto
  then obtain s2 where s2: "seq_set_length a ?w ?s1 = Some s2"
    using assms(2) unfolding seq_total_def by (metis not_None_eq)
  note d = seq_set_lengthD [OF assms(1) s2]
  have "seq_buf s2 = filter (\<lambda>x. x \<noteq> k) (seq_buf s)" using d(5) u r by simp
  with s2 d(1-4) assms(3) show ?thesis by (simp add: drop_pointer_def Let_def pointers_ok_def)
qed

section \<open>Registries\<close>

text \<open>
  What an owner of such a list promises: while there is room a new address is added at the end, and an
  address is removed without disturbing the others.  A history is a list of additions and removals.
\<close>

datatype registry_op = Register nat | Unregister nat

locale registry =
  fixes env_ok :: "'e \<Rightarrow> bool" and ok :: "'s \<Rightarrow> bool" and keys :: "'s \<Rightarrow> nat list" and cap :: nat
    and add :: "'e \<Rightarrow> nat \<Rightarrow> 's \<Rightarrow> 's" and rem :: "'e \<Rightarrow> nat \<Rightarrow> 's \<Rightarrow> 's"
  assumes add_ok: "env_ok e \<Longrightarrow> ok s \<Longrightarrow> k \<notin> set (keys s) \<Longrightarrow> length (keys s) < cap \<Longrightarrow>
      ok (add e k s) \<and> keys (add e k s) = keys s @ [k]"
    and rem_ok: "env_ok e \<Longrightarrow> ok s \<Longrightarrow> length (keys s) \<le> cap \<Longrightarrow>
      ok (rem e k s) \<and> keys (rem e k s) = filter (\<lambda>x. x \<noteq> k) (keys s)"
    and ok_distinct: "ok s \<Longrightarrow> distinct (keys s)"
begin

lemma add_rem:
  assumes "env_ok e" "env_ok e'" "ok s" "k \<notin> set (keys s)" "length (keys s) < cap"
  shows "ok (rem e' k (add e k s)) \<and> keys (rem e' k (add e k s)) = keys s"
proof -
  have a: "ok (add e k s)" "keys (add e k s) = keys s @ [k]" using add_ok [OF assms(1,3-5)] by auto
  have "length (keys (add e k s)) \<le> cap" using assms(5) a by simp
  then have "ok (rem e' k (add e k s))" "keys (rem e' k (add e k s)) = filter (\<lambda>x. x \<noteq> k) (keys s @ [k])"
    using rem_ok [OF assms(2) a(1)] a(2) by auto
  moreover have "filter (\<lambda>x. x \<noteq> k) (keys s) = keys s" using assms(4) by (auto intro: filter_True)
  ultimately show ?thesis by simp
qed

end

end
