(* ===== verification/Client.thy ===== *)
theory Client
  imports Subscription Publication PointerSeq
begin

text \<open>
  The MQTT client, \<^verbatim>\<open>plugins/adapters/mqtt/srcC/mqtt/Client.c\<close> and \<^verbatim>\<open>ClientApiPaho.c\<close>: the connection
  state machine, the subscriptions and publications it owns, the requests it waits for, and the
  calls it makes into the Paho library.

  The client record has the fields of \<^verbatim>\<open>struct RTI_MQTT_Client\<close>; the four recursive mutexes are
  their depths.  Two ghost fields record effects outside the structure: the calls made to Paho, in
  order, and the number of reconnection threads spawned.  Paho is a parameter: the environment
  says which calls it accepts and which replies it delivers to each wait.  Callbacks that arrive
  during a wait run in that wait; other interleavings are sequences of operations.

  Subscriptions and publications are identified by a number that stands for their address.

  Operations return \<open>None\<close> where the C code dereferences a null or dangling pointer, keeps a freed
  object in one of the client's lists, or does not come back.
\<close>

section \<open>State\<close>

datatype client_state =
    ClientStateKind_DISCONNECTED
  | ClientStateKind_DISCONNECTING
  | ClientStateKind_CONNECTING
  | ClientStateKind_CONNECTED
  | ClientStateKind_ERROR

datatype mqtt_version = MQTTVERSION_DEFAULT | MQTTVERSION_3_1_1 | MQTTVERSION_3_1

datatype ssl_version =
    MQTT_SSL_VERSION_DEFAULT | MQTT_SSL_VERSION_TLS_1_0 | MQTT_SSL_VERSION_TLS_1_1 | MQTT_SSL_VERSION_TLS_1_2

record ssl_opts =
  ssl_trustStore :: "string option"
  ssl_privateKey :: "string option"
  ssl_privateKeyPassword :: "string option"
  ssl_keyStore :: "string option"
  ssl_enabledCipherSuites :: "string option"
  ssl_sslVersion :: ssl_version
  ssl_enableServerCertAuth :: bool

record conn_opts =
  co_keepAliveInterval :: i32
  co_cleansession :: bool
  co_maxInflight :: u32
  co_connectTimeout :: i32
  co_serverURIs :: "string list"
  co_MQTTVersion :: mqtt_version
  co_username :: "string option"
  co_password :: "octet list option"
  co_ssl :: "ssl_opts option"

datatype paho_call =
    MQTTAsync_create string string bool "string option"
  | MQTTAsync_setCallbacks
  | MQTTAsync_destroy
  | MQTTAsync_connect conn_opts
  | MQTTAsync_disconnect
  | MQTTAsync_subscribeMany "(string \<times> i32) list"
  | MQTTAsync_unsubscribeMany "string list"
  | MQTTAsync_sendMessage string "octet list" i32 bool

record 'd client =
  c_state :: client_state
  c_config :: client_config
  c_client :: bool
  c_req_connect :: "request option"
  c_req_disconnect :: "request option"
  c_req_sub :: "request option"
  c_req_unsub :: "request option"
  c_params :: "sub_params list"
  c_subscriptions :: "'d subscription list"
  c_publications :: "publication list"
  c_cfg_lock :: nat
  c_mqtt_lock :: nat
  c_sub_lock :: nat
  c_pub_lock :: nat
  c_calls :: "paho_call list"
  c_threads :: nat

text \<open>
  The environment of an operation: the outcome of each Paho call, the waits, by the request they
  are for, and the outcomes of allocations and sequence operations.
\<close>

record client_env =
  ce_paho :: "paho_call \<Rightarrow> bool"
  ce_wait_connect :: wait_env
  ce_wait_disconnect :: wait_env
  ce_wait_sub :: wait_env
  ce_wait_unsub :: wait_env
  ce_wait_write :: wait_env
  ce_alloc :: bool
  ce_password_alloc :: "nat \<Rightarrow> bool"
  ce_params_copy :: bool
  ce_params_ensure :: "nat \<Rightarrow> bool"
  ce_params_string :: "string \<Rightarrow> bool"
  ce_params_set_length :: bool
  ce_params_copy_one :: "sub_params \<Rightarrow> bool"
  ce_ensure_length :: bool
  ce_set_length :: bool
  ce_set_maximum :: bool
  ce_req_sub :: request_env
  ce_req_unsub :: request_env
  ce_req_pub :: request_env
  ce_seq_finalize :: bool
  ce_mutex_finalize :: bool
  ce_thread_spawn :: bool

section \<open>Mutexes and state changes\<close>

definition cfg_take :: "'d client \<Rightarrow> 'd client" where "cfg_take c = c\<lparr>c_cfg_lock := c_cfg_lock c + 1\<rparr>"
definition cfg_give :: "'d client \<Rightarrow> 'd client" where "cfg_give c = c\<lparr>c_cfg_lock := c_cfg_lock c - 1\<rparr>"
definition mqtt_take :: "'d client \<Rightarrow> 'd client" where "mqtt_take c = c\<lparr>c_mqtt_lock := c_mqtt_lock c + 1\<rparr>"
definition mqtt_give :: "'d client \<Rightarrow> 'd client" where "mqtt_give c = c\<lparr>c_mqtt_lock := c_mqtt_lock c - 1\<rparr>"
definition sub_take :: "'d client \<Rightarrow> 'd client" where "sub_take c = c\<lparr>c_sub_lock := c_sub_lock c + 1\<rparr>"
definition sub_give :: "'d client \<Rightarrow> 'd client" where "sub_give c = c\<lparr>c_sub_lock := c_sub_lock c - 1\<rparr>"
definition pub_take :: "'d client \<Rightarrow> 'd client" where "pub_take c = c\<lparr>c_pub_lock := c_pub_lock c + 1\<rparr>"
definition pub_give :: "'d client \<Rightarrow> 'd client" where "pub_give c = c\<lparr>c_pub_lock := c_pub_lock c - 1\<rparr>"

lemmas lock_defs = cfg_take_def cfg_give_def mqtt_take_def mqtt_give_def sub_take_def sub_give_def
  pub_take_def pub_give_def

definition RTI_MQTT_Client_set_state :: "client_state \<Rightarrow> 'd client \<Rightarrow> 'd client" where
  "RTI_MQTT_Client_set_state next_state self = cfg_give ((cfg_take self)\<lparr>c_state := next_state\<rparr>)"

text \<open>A call into Paho: recorded, and accepted or not.\<close>

definition paho :: "client_env \<Rightarrow> paho_call \<Rightarrow> 'd client \<Rightarrow> bool \<times> 'd client" where
  "paho env call c = (ce_paho env call, c\<lparr>c_calls := c_calls c @ [call]\<rparr>)"

section \<open>The Paho layer\<close>

text \<open>
  \<^verbatim>\<open>RTI_MQTT_ClientMqttApi_Paho_create_client\<close>; the persistence level DURABLE is the flag of the call.
  When the callbacks cannot be set the cleanup calls \<^verbatim>\<open>MQTTAsync_destroy\<close> with the handle in place of
  its address (\<open>None\<close>).
\<close>

definition RTI_MQTT_ClientMqttApi_Paho_create_client ::
    "client_env \<Rightarrow> 'd client \<Rightarrow> (retcode \<times> 'd client) option" where
  "RTI_MQTT_ClientMqttApi_Paho_create_client env self =
     (let c = mqtt_take self;
          fail = (\<lambda>c. if c_client c then None else Some (DDS_RETCODE_ERROR, mqtt_give c));
          client_id = cfg_id (c_config c);
          durable = (cfg_persistence_level (c_config c) = PersistenceLevel_DURABLE) in
      case cfg_server_uris (c_config c) of
        [] \<Rightarrow> None
      | client_addr # _ \<Rightarrow>
          if client_addr = [] then fail c
          else if client_id = [] then fail c
          else
            case paho env (MQTTAsync_create client_addr client_id durable
                            (if durable then cfg_persistence_storage (c_config c) else None)) c of
              (ok, c1) \<Rightarrow>
                if \<not> ok then fail c1
                else
                  case paho env MQTTAsync_setCallbacks (c1\<lparr>c_client := True\<rparr>) of
                    (ok, c2) \<Rightarrow>
                      if \<not> ok then fail c2 else Some (DDS_RETCODE_OK, mqtt_give c2))"

definition RTI_MQTT_ClientMqttApi_Paho_delete_client :: "client_env \<Rightarrow> 'd client \<Rightarrow> retcode \<times> 'd client" where
  "RTI_MQTT_ClientMqttApi_Paho_delete_client env self =
     (let c = mqtt_take self in
      if \<not> c_client c then (DDS_RETCODE_OK, mqtt_give c)
      else (DDS_RETCODE_OK, mqtt_give ((snd (paho env MQTTAsync_destroy c))\<lparr>c_client := False\<rparr>)))"

text \<open>An optional setting is passed on when it is not the empty string.\<close>

definition ssl_string :: "string \<Rightarrow> string option" where
  "ssl_string s = (if length s > 0 then Some s else None)"

fun ssl_version_of :: "ssl_tls_protocol_version \<Rightarrow> ssl_version" where
  "ssl_version_of TLS_DEFAULT = MQTT_SSL_VERSION_DEFAULT"
| "ssl_version_of TLS_1_0 = MQTT_SSL_VERSION_TLS_1_0"
| "ssl_version_of TLS_1_1 = MQTT_SSL_VERSION_TLS_1_1"
| "ssl_version_of TLS_1_2 = MQTT_SSL_VERSION_TLS_1_2"

definition ssl_opts_of :: "ssl_tls_config \<Rightarrow> ssl_opts" where
  "ssl_opts_of tls =
     \<lparr>ssl_trustStore = ssl_string (tls_ca tls), ssl_privateKey = ssl_string (tls_private_key tls),
      ssl_privateKeyPassword = ssl_string (tls_private_key_password tls),
      ssl_keyStore = ssl_string (tls_identity tls),
      ssl_enabledCipherSuites = ssl_string (tls_cypher_suites tls),
      ssl_sslVersion = ssl_version_of (tls_protocol_version tls),
      ssl_enableServerCertAuth = tls_verify_server_certificate tls\<rparr>"

fun mqtt_version_of :: "mqtt_protocol_version \<Rightarrow> mqtt_version option" where
  "mqtt_version_of MQTT_DEFAULT = Some MQTTVERSION_DEFAULT"
| "mqtt_version_of MQTT_3_1_1 = Some MQTTVERSION_3_1_1"
| "mqtt_version_of MQTT_3_1 = Some MQTTVERSION_3_1"
| "mqtt_version_of MQTT_5 = None"

text \<open>The options of the connection, or \<open>None\<close> when a setting is rejected or memory runs out.\<close>

definition conn_opts_of :: "client_env \<Rightarrow> client_config \<Rightarrow> conn_opts option" where
  "conn_opts_of env cfg =
     (case RTI_MQTT_Time_to_seconds (cfg_keep_alive_period cfg) of
        (_, None) \<Rightarrow> None
      | (_, Some keep_alive) \<Rightarrow>
          (case RTI_MQTT_Time_to_seconds (cfg_connect_timeout cfg) of
             (_, None) \<Rightarrow> None
           | (_, Some timeout) \<Rightarrow>
               (case mqtt_version_of (cfg_protocol_version cfg) of
                  None \<Rightarrow> None
                | Some version \<Rightarrow>
                    let opts = (\<lambda>password.
                      \<lparr>co_keepAliveInterval = keep_alive, co_cleansession = cfg_clean_session cfg,
                       co_maxInflight = cfg_max_unack_messages cfg, co_connectTimeout = timeout,
                       co_serverURIs = cfg_server_uris cfg, co_MQTTVersion = version,
                       co_username = cfg_username cfg, co_password = password,
                       co_ssl = map_option ssl_opts_of (cfg_ssl_tls_config cfg)\<rparr>) in
                    (case cfg_password cfg of
                       None \<Rightarrow> Some (opts None)
                     | Some pw \<Rightarrow>
                         (case RTI_MQTT_DDS_OctetSeq_to_string (ce_password_alloc env) pw of
                            (_, None) \<Rightarrow> None
                          | (_, Some s) \<Rightarrow> Some (opts (Some s)))))))"

definition RTI_MQTT_ClientMqttApi_Paho_connect :: "client_env \<Rightarrow> 'd client \<Rightarrow> retcode \<times> 'd client" where
  "RTI_MQTT_ClientMqttApi_Paho_connect env self =
     (let c = mqtt_take self in
      case conn_opts_of env (c_config c) of
        None \<Rightarrow> (DDS_RETCODE_ERROR, mqtt_give c)
      | Some opts \<Rightarrow>
          (case paho env (MQTTAsync_connect opts) c of
             (ok, c1) \<Rightarrow> (if ok then DDS_RETCODE_OK else DDS_RETCODE_ERROR, mqtt_give c1)))"

definition RTI_MQTT_ClientMqttApi_Paho_disconnect :: "client_env \<Rightarrow> 'd client \<Rightarrow> retcode \<times> 'd client" where
  "RTI_MQTT_ClientMqttApi_Paho_disconnect env self =
     (case paho env MQTTAsync_disconnect (mqtt_take self) of
        (ok, c1) \<Rightarrow> (if ok then DDS_RETCODE_OK else DDS_RETCODE_ERROR, mqtt_give c1))"

text \<open>The topics and QoS numbers handed to Paho; \<open>None\<close> when a QoS level is invalid.\<close>

fun sub_requests :: "sub_params list \<Rightarrow> (string \<times> i32) list option" where
  "sub_requests [] = Some []"
| "sub_requests (p # ps) =
     (case RTI_MQTT_QosLevel_to_mqtt_qos (sp_max_qos p) of
        (rc, Some qos) \<Rightarrow> map_option (\<lambda>rs. (sp_topic p, qos) # rs) (sub_requests ps)
      | (rc, None) \<Rightarrow> None)"

definition RTI_MQTT_ClientMqttApi_Paho_submit_subscriptions ::
    "client_env \<Rightarrow> sub_params list \<Rightarrow> 'd client \<Rightarrow> retcode \<times> 'd client" where
  "RTI_MQTT_ClientMqttApi_Paho_submit_subscriptions env params self =
     (if \<not> ce_alloc env then (DDS_RETCODE_ERROR, self)
      else
        case sub_requests params of
          None \<Rightarrow> (DDS_RETCODE_ERROR, self)
        | Some reqs \<Rightarrow>
            (case paho env (MQTTAsync_subscribeMany reqs) (mqtt_take self) of
               (ok, c1) \<Rightarrow> (if ok then DDS_RETCODE_OK else DDS_RETCODE_ERROR, mqtt_give c1)))"

definition RTI_MQTT_ClientMqttApi_Paho_cancel_subscriptions ::
    "client_env \<Rightarrow> sub_params list \<Rightarrow> 'd client \<Rightarrow> retcode \<times> 'd client" where
  "RTI_MQTT_ClientMqttApi_Paho_cancel_subscriptions env params self =
     (if \<not> ce_alloc env then (DDS_RETCODE_ERROR, self)
      else
        case paho env (MQTTAsync_unsubscribeMany (map sp_topic params)) (mqtt_take self) of
          (ok, c1) \<Rightarrow> (if ok then DDS_RETCODE_OK else DDS_RETCODE_ERROR, mqtt_give c1))"

definition RTI_MQTT_ClientMqttApi_Paho_write_message ::
    "client_env \<Rightarrow> octet list \<Rightarrow> string \<Rightarrow> write_params \<Rightarrow> 'd client \<Rightarrow> retcode \<times> 'd client" where
  "RTI_MQTT_ClientMqttApi_Paho_write_message env buffer topic params self =
     (case RTI_MQTT_QosLevel_to_mqtt_qos (wp_qos_level params) of
        (_, None) \<Rightarrow> (DDS_RETCODE_ERROR, self)
      | (_, Some qos) \<Rightarrow>
          (case paho env (MQTTAsync_sendMessage topic buffer qos (wp_retained params)) (mqtt_take self) of
             (ok, c1) \<Rightarrow> (if ok then DDS_RETCODE_OK else DDS_RETCODE_ERROR, mqtt_give c1)))"

text \<open>
  The callback of Paho for a lost connection spawns a thread that runs
  \<^verbatim>\<open>RTI_MQTT_Client_on_connection_lost\<close>.
\<close>

definition RTI_MQTT_ClientMqttApi_Paho_on_connection_lost :: "client_env \<Rightarrow> 'd client \<Rightarrow> 'd client" where
  "RTI_MQTT_ClientMqttApi_Paho_on_connection_lost env self =
     (if ce_thread_spawn env then self\<lparr>c_threads := c_threads self + 1\<rparr> else self)"

section \<open>Request results\<close>

text \<open>
  \<^verbatim>\<open>handle_request_result\<close> on a request and its client: a condition that cannot be triggered puts
  the client into its error state.
\<close>

definition handle_result :: "wait_env \<Rightarrow> request \<times> 'd client \<Rightarrow> retcode \<Rightarrow> request \<times> 'd client" where
  "handle_result we rq result =
     (case rq of (req, c) \<Rightarrow>
        case RTI_MQTT_Client_handle_request_result (we_trigger we) req result of
          (req1, ok) \<Rightarrow> (req1, if ok then c else RTI_MQTT_Client_set_state ClientStateKind_ERROR c))"

definition RTI_MQTT_Client_on_subscription_result ::
    "wait_env \<Rightarrow> request \<times> 'd client \<Rightarrow> retcode \<Rightarrow> request \<times> 'd client" where
  "RTI_MQTT_Client_on_subscription_result we = handle_result we"

definition RTI_MQTT_Client_on_unsubscription_result ::
    "wait_env \<Rightarrow> request \<times> 'd client \<Rightarrow> retcode \<Rightarrow> request \<times> 'd client" where
  "RTI_MQTT_Client_on_unsubscription_result we = handle_result we"

definition RTI_MQTT_Client_on_disconnection_result ::
    "wait_env \<Rightarrow> request \<times> 'd client \<Rightarrow> retcode \<Rightarrow> request \<times> 'd client" where
  "RTI_MQTT_Client_on_disconnection_result we = handle_result we"

text \<open>A failure reported while the client is connected starts the recovery instead.\<close>

definition RTI_MQTT_Client_on_connection_result ::
    "client_env \<Rightarrow> wait_env \<Rightarrow> request \<times> 'd client \<Rightarrow> retcode \<Rightarrow> request \<times> 'd client" where
  "RTI_MQTT_Client_on_connection_result env we rq result =
     (case rq of (req, c) \<Rightarrow>
        if c_state c = ClientStateKind_CONNECTED \<and> result \<noteq> DDS_RETCODE_OK \<and> cfg_reconnect (c_config c)
        then (req, RTI_MQTT_ClientMqttApi_Paho_on_connection_lost env c)
        else handle_result we (req, c) result)"

definition await_request ::
    "(request \<times> 'd client \<Rightarrow> retcode \<Rightarrow> request \<times> 'd client) \<Rightarrow> wait_env \<Rightarrow> request \<Rightarrow> 'd client
     \<Rightarrow> retcode \<times> request \<times> 'd client" where
  "await_request handler we req c = await fst (\<lambda>r (_, c). (r, c)) handler we (req, c)"

section \<open>Submitting and cancelling subscriptions\<close>

text \<open>
  The result has the return code, whether Paho accepted the request (so that its callback may
  still be called with it), the request and the client.  Nothing is submitted for an empty list.
\<close>

definition RTI_MQTT_Client_submit_subscriptions ::
    "client_env \<Rightarrow> sub_params list \<Rightarrow> request \<Rightarrow> 'd client \<Rightarrow> retcode \<times> bool \<times> request \<times> 'd client" where
  "RTI_MQTT_Client_submit_subscriptions env params req self =
     (if params = [] then (DDS_RETCODE_OK, False, req, self)
      else
        case RTI_MQTT_ClientMqttApi_Paho_submit_subscriptions env params self of
          (rc, c1) \<Rightarrow>
            if rc \<noteq> DDS_RETCODE_OK then (DDS_RETCODE_ERROR, False, req, c1)
            else
              case await_request (RTI_MQTT_Client_on_subscription_result (ce_wait_sub env))
                     (ce_wait_sub env) req c1 of
                (rc, req1, c2) \<Rightarrow>
                  (if rc \<noteq> DDS_RETCODE_OK then DDS_RETCODE_ERROR else DDS_RETCODE_OK, True, req1, c2))"

definition RTI_MQTT_Client_cancel_subscriptions ::
    "client_env \<Rightarrow> sub_params list \<Rightarrow> request \<Rightarrow> 'd client \<Rightarrow> retcode \<times> bool \<times> request \<times> 'd client" where
  "RTI_MQTT_Client_cancel_subscriptions env params req self =
     (if params = [] then (DDS_RETCODE_OK, False, req, self)
      else
        case RTI_MQTT_ClientMqttApi_Paho_cancel_subscriptions env params self of
          (rc, c1) \<Rightarrow>
            if rc \<noteq> DDS_RETCODE_OK then (DDS_RETCODE_ERROR, False, req, c1)
            else
              case await_request (RTI_MQTT_Client_on_unsubscription_result (ce_wait_unsub env))
                     (ce_wait_unsub env) req c1 of
                (rc, req1, c2) \<Rightarrow>
                  (if rc \<noteq> DDS_RETCODE_OK then DDS_RETCODE_ERROR else DDS_RETCODE_OK, True, req1, c2))"

text \<open>
  All subscriptions at once, with a copy of the client's request on the stack: the copy shares the
  guard condition with the original but has a result of its own, and a reply after the wait has
  ended is delivered to a variable that no longer exists (\<open>None\<close>).
\<close>

definition RTI_MQTT_Client_submit_all_subscriptions ::
    "client_env \<Rightarrow> 'd client \<Rightarrow> (retcode \<times> 'd client) option" where
  "RTI_MQTT_Client_submit_all_subscriptions env self =
     (let c1 = sub_take self in
      case c_req_sub c1 of
        None \<Rightarrow> None
      | Some req \<Rightarrow>
          if \<not> ce_params_copy env then Some (DDS_RETCODE_ERROR, sub_give c1)
          else
            case RTI_MQTT_Client_submit_subscriptions env (c_params c1) req (sub_give c1) of
              (rc, submitted, req1, c2) \<Rightarrow>
                if submitted \<and> we_late (ce_wait_sub env) \<noteq> None then None
                else Some (if rc \<noteq> DDS_RETCODE_OK then DDS_RETCODE_ERROR else DDS_RETCODE_OK,
                           c2\<lparr>c_req_sub := Some (req\<lparr>req_triggered := req_triggered req1\<rparr>)\<rparr>))"

definition RTI_MQTT_Client_cancel_all_subscriptions ::
    "client_env \<Rightarrow> 'd client \<Rightarrow> (retcode \<times> 'd client) option" where
  "RTI_MQTT_Client_cancel_all_subscriptions env self =
     (let c1 = sub_take self in
      case c_req_unsub c1 of
        None \<Rightarrow> None
      | Some req \<Rightarrow>
          if \<not> ce_params_copy env then Some (DDS_RETCODE_ERROR, sub_give c1)
          else
            case RTI_MQTT_Client_cancel_subscriptions env (c_params c1) req (sub_give c1) of
              (rc, submitted, req1, c2) \<Rightarrow>
                if submitted \<and> we_late (ce_wait_unsub env) \<noteq> None then None
                else Some (if rc \<noteq> DDS_RETCODE_OK then DDS_RETCODE_ERROR else DDS_RETCODE_OK,
                           c2\<lparr>c_req_unsub := Some (req\<lparr>req_triggered := req_triggered req1\<rparr>)\<rparr>))"

section \<open>Connecting and disconnecting\<close>

definition RTI_MQTT_Client_disconnect :: "client_env \<Rightarrow> 'd client \<Rightarrow> (retcode \<times> 'd client) option" where
  "RTI_MQTT_Client_disconnect env self =
     (let c = cfg_take self in
      if c_state c = ClientStateKind_DISCONNECTED then Some (DDS_RETCODE_OK, cfg_give c)
      else if c_state c = ClientStateKind_CONNECTING \<or> c_state c = ClientStateKind_DISCONNECTING
      then Some (DDS_RETCODE_ERROR, cfg_give c)
      else
        let unsubscribe = cfg_unsubscribe_on_disconnect (c_config c);
            c1 = cfg_give (RTI_MQTT_Client_set_state ClientStateKind_DISCONNECTING c) in
        case (if unsubscribe then RTI_MQTT_Client_cancel_all_subscriptions env c1
              else Some (DDS_RETCODE_OK, c1)) of
          None \<Rightarrow> None
        | Some (rc, c2) \<Rightarrow>
            if rc \<noteq> DDS_RETCODE_OK then Some (DDS_RETCODE_ERROR, c2)
            else
              case RTI_MQTT_ClientMqttApi_Paho_disconnect env c2 of
                (rc, c3) \<Rightarrow>
                  if rc \<noteq> DDS_RETCODE_OK then Some (DDS_RETCODE_ERROR, c3)
                  else
                    case c_req_disconnect c3 of
                      None \<Rightarrow> None
                    | Some req \<Rightarrow>
                        case await_request
                               (RTI_MQTT_Client_on_disconnection_result (ce_wait_disconnect env))
                               (ce_wait_disconnect env) req c3 of
                          (rc, req1, c4) \<Rightarrow>
                            let c5 = c4\<lparr>c_req_disconnect := Some req1\<rparr> in
                            if rc \<noteq> DDS_RETCODE_OK then Some (DDS_RETCODE_ERROR, c5)
                            else Some (DDS_RETCODE_OK,
                                       RTI_MQTT_Client_set_state ClientStateKind_DISCONNECTED c5))"

definition RTI_MQTT_Client_connect :: "client_env \<Rightarrow> 'd client \<Rightarrow> (retcode \<times> 'd client) option" where
  "RTI_MQTT_Client_connect env self =
     (let c = cfg_take self in
      if c_state c = ClientStateKind_CONNECTED then Some (DDS_RETCODE_OK, cfg_give c)
      else if c_state c \<noteq> ClientStateKind_DISCONNECTED then Some (DDS_RETCODE_ERROR, cfg_give c)
      else
        let c1 = cfg_give (RTI_MQTT_Client_set_state ClientStateKind_CONNECTING c);
            fail = (\<lambda>c. Some (DDS_RETCODE_ERROR,
                     cfg_give (RTI_MQTT_Client_set_state ClientStateKind_DISCONNECTED (cfg_take c)))) in
        case RTI_MQTT_ClientMqttApi_Paho_connect env c1 of
          (rc, c2) \<Rightarrow>
            if rc \<noteq> DDS_RETCODE_OK then fail c2
            else
              case c_req_connect c2 of
                None \<Rightarrow> None
              | Some req \<Rightarrow>
                  case await_request (RTI_MQTT_Client_on_connection_result env (ce_wait_connect env))
                         (ce_wait_connect env) req c2 of
                    (rc, req1, c3) \<Rightarrow>
                      let c4 = c3\<lparr>c_req_connect := Some req1\<rparr> in
                      if rc \<noteq> DDS_RETCODE_OK then fail c4
                      else
                        let c5 = cfg_give (RTI_MQTT_Client_set_state ClientStateKind_CONNECTED (cfg_take c4)) in
                        case RTI_MQTT_Client_submit_all_subscriptions env c5 of
                          None \<Rightarrow> None
                        | Some (rc, c6) \<Rightarrow>
                            if rc = DDS_RETCODE_OK then Some (DDS_RETCODE_OK, c6)
                            else map_option (\<lambda>(_, c7). (DDS_RETCODE_ERROR, c7))
                                   (RTI_MQTT_Client_disconnect env c6))"

text \<open>
  The recovery: reconnect until the client is connected; the environment of each attempt is
  numbered, and \<open>None\<close> is a loop that never ends.
\<close>

partial_function (option) reconnect_loop ::
    "(nat \<Rightarrow> client_env) \<Rightarrow> nat \<Rightarrow> 'd client \<Rightarrow> (retcode \<times> 'd client) option" where
  "reconnect_loop envs k c =
     (case RTI_MQTT_Client_connect (envs k) c of
        None \<Rightarrow> None
      | Some (_, c1) \<Rightarrow>
          if c_state c1 = ClientStateKind_CONNECTED then Some (DDS_RETCODE_OK, c1)
          else reconnect_loop envs (k + 1) c1)"

definition RTI_MQTT_Client_on_connection_lost ::
    "(nat \<Rightarrow> client_env) \<Rightarrow> 'd client \<Rightarrow> (retcode \<times> 'd client) option" where
  "RTI_MQTT_Client_on_connection_lost envs self =
     reconnect_loop envs 0 (cfg_give (RTI_MQTT_Client_set_state ClientStateKind_DISCONNECTED (cfg_take self)))"

section \<open>Parameters of the subscriptions\<close>

text \<open>The elements filled in by the loop over the topic filters; \<open>None\<close> when a string cannot be copied.\<close>

fun fill_params :: "client_env \<Rightarrow> qos_level \<Rightarrow> string list \<Rightarrow> sub_params list option" where
  "fill_params env qos [] = Some []"
| "fill_params env qos (t_filter # fs) =
     (if \<not> ce_params_string env t_filter then None
      else map_option (\<lambda>ps. \<lparr>sp_topic = t_filter, sp_max_qos = qos\<rparr> # ps) (fill_params env qos fs))"

text \<open>One entry per topic filter is added to \<open>params\<close>, which is cut back to its old length on failure.\<close>

definition RTI_MQTT_Client_get_subscription_params ::
    "client_env \<Rightarrow> subscription_config \<Rightarrow> sub_params list \<Rightarrow> retcode \<times> sub_params list" where
  "RTI_MQTT_Client_get_subscription_params env cfg params =
     (let params_len = length params + length (topic_filters cfg) in
      if \<not> ce_params_ensure env params_len then (DDS_RETCODE_ERROR, params)
      else
        case fill_params env (max_qos cfg) (topic_filters cfg) of
          None \<Rightarrow> (DDS_RETCODE_ERROR, params)
        | Some ps \<Rightarrow> (DDS_RETCODE_OK, params @ ps))"

text \<open>The loop over the subscriptions; \<open>None\<close> when a sequence operation fails.\<close>

fun collect_params :: "client_env \<Rightarrow> 'd subscription list \<Rightarrow> sub_params list \<Rightarrow> sub_params list option" where
  "collect_params env [] params = Some params"
| "collect_params env (sub # subs) params =
     (if \<not> ce_params_ensure env (length params + length (s_params sub)) then None
      else if \<not> list_all (ce_params_copy_one env) (s_params sub) then None
      else collect_params env subs (params @ s_params sub))"

definition RTI_MQTT_Client_get_all_subscription_params ::
    "client_env \<Rightarrow> 'd subscription list \<Rightarrow> sub_params list \<Rightarrow> retcode \<times> sub_params list" where
  "RTI_MQTT_Client_get_all_subscription_params env subs params =
     (if \<not> ce_params_set_length env then (DDS_RETCODE_ERROR, params)
      else
        case collect_params env subs [] of
          None \<Rightarrow> (DDS_RETCODE_ERROR, [])
        | Some all \<Rightarrow> (DDS_RETCODE_OK, all))"

section \<open>The lists of subscriptions and publications\<close>

text \<open>
  The removal of an element from a pointer sequence: the return code and the new contents.  When
  the length cannot be set the moved elements stay, with the last one twice.
\<close>

definition remove_from_seq :: "client_env \<Rightarrow> ('a \<Rightarrow> bool) \<Rightarrow> 'a list \<Rightarrow> retcode \<times> 'a list" where
  "remove_from_seq env P xs =
     (case find_index P xs of
        None \<Rightarrow> (DDS_RETCODE_ERROR, xs)
      | Some rm_i \<Rightarrow>
          let ys = shift_left xs rm_i in
          if \<not> ce_set_length env then (DDS_RETCODE_ERROR, ys)
          else if \<not> ce_set_maximum env then (DDS_RETCODE_ERROR, take (length ys - 1) ys)
          else (DDS_RETCODE_OK, take (length ys - 1) ys))"

definition put_sub :: "'d subscription \<Rightarrow> 'd client \<Rightarrow> 'd client" where
  "put_sub sub c =
     c\<lparr>c_subscriptions := map (\<lambda>s. if s_ptr s = s_ptr sub then sub else s) (c_subscriptions c)\<rparr>"

definition put_pub :: "publication \<Rightarrow> 'd client \<Rightarrow> 'd client" where
  "put_pub pub c =
     c\<lparr>c_publications := map (\<lambda>p. if p_ptr p = p_ptr pub then pub else p) (c_publications c)\<rparr>"

definition RTI_MQTT_Client_add_subscription ::
    "client_env \<Rightarrow> 'd subscription \<Rightarrow> 'd client \<Rightarrow> retcode \<times> 'd client" where
  "RTI_MQTT_Client_add_subscription env sub self =
     (let c = sub_take self in
      if \<not> ce_ensure_length env then (DDS_RETCODE_ERROR, sub_give c)
      else (DDS_RETCODE_OK, sub_give (c\<lparr>c_subscriptions := c_subscriptions c @ [sub]\<rparr>)))"

definition RTI_MQTT_Client_remove_subscription ::
    "client_env \<Rightarrow> nat \<Rightarrow> 'd client \<Rightarrow> retcode \<times> 'd client" where
  "RTI_MQTT_Client_remove_subscription env sub self =
     (let c = sub_take self in
      case remove_from_seq env (\<lambda>s. sub = s_ptr s) (c_subscriptions c) of
        (rc, subs) \<Rightarrow> (rc, sub_give (c\<lparr>c_subscriptions := subs\<rparr>)))"

definition RTI_MQTT_Client_add_publication ::
    "client_env \<Rightarrow> publication \<Rightarrow> 'd client \<Rightarrow> retcode \<times> 'd client" where
  "RTI_MQTT_Client_add_publication env pub self =
     (let c = pub_take self in
      if \<not> ce_ensure_length env then (DDS_RETCODE_ERROR, pub_give c)
      else (DDS_RETCODE_OK, pub_give (c\<lparr>c_publications := c_publications c @ [pub]\<rparr>)))"

definition RTI_MQTT_Client_remove_publication ::
    "client_env \<Rightarrow> nat \<Rightarrow> 'd client \<Rightarrow> retcode \<times> 'd client" where
  "RTI_MQTT_Client_remove_publication env pub self =
     (let c = pub_take self in
      case remove_from_seq env (\<lambda>p. pub = p_ptr p) (c_publications c) of
        (rc, pubs) \<Rightarrow> (rc, pub_give (c\<lparr>c_publications := pubs\<rparr>)))"


section \<open>Requests of a subscription or a publication\<close>

definition RTI_MQTT_Client_create_subscription_requests ::
    "client_env \<Rightarrow> 'd subscription \<Rightarrow> 'd client \<Rightarrow> retcode \<times> 'd subscription \<times> 'd client" where
  "RTI_MQTT_Client_create_subscription_requests env sub self =
     (let c = sub_take self;
          timeout = cfg_max_reply_timeout (c_config c) in
      case RTI_MQTT_Client_get_subscription_params env (s_config sub) (s_params sub) of
        (rc, ps) \<Rightarrow>
          let sub1 = sub\<lparr>s_params := ps\<rparr>; c1 = put_sub sub1 c in
          if rc \<noteq> DDS_RETCODE_OK then (DDS_RETCODE_ERROR, sub1, sub_give c1)
          else
            case RTI_MQTT_Client_get_all_subscription_params env (c_subscriptions c1) (c_params c1) of
              (rc, all) \<Rightarrow>
                let c2 = c1\<lparr>c_params := all\<rparr> in
                if rc \<noteq> DDS_RETCODE_OK then (DDS_RETCODE_ERROR, sub1, sub_give c2)
                else
                  case RTI_MQTT_Client_new_request (ce_req_sub env) timeout of
                    (rc, req) \<Rightarrow>
                      let sub2 = sub1\<lparr>s_req_sub := req\<rparr>; c3 = put_sub sub2 c2 in
                      if rc \<noteq> DDS_RETCODE_OK then (DDS_RETCODE_ERROR, sub2, sub_give c3)
                      else
                        case RTI_MQTT_Client_new_request (ce_req_unsub env) timeout of
                          (rc, req) \<Rightarrow>
                            let sub3 = sub2\<lparr>s_req_unsub := req\<rparr>; c4 = put_sub sub3 c3 in
                            if rc \<noteq> DDS_RETCODE_OK then (DDS_RETCODE_ERROR, sub3, sub_give c4)
                            else (DDS_RETCODE_OK, sub3, sub_give c4))"

definition RTI_MQTT_Client_delete_subscription_requests ::
    "client_env \<Rightarrow> 'd subscription \<Rightarrow> 'd client \<Rightarrow> retcode \<times> 'd subscription \<times> 'd client" where
  "RTI_MQTT_Client_delete_subscription_requests env sub self =
     (let c = sub_take self in
      if \<not> ce_params_set_length env then (DDS_RETCODE_ERROR, sub, sub_give c)
      else
        let sub1 = sub\<lparr>s_params := []\<rparr>; c1 = put_sub sub1 c in
        case RTI_MQTT_Client_get_all_subscription_params env (c_subscriptions c1) (c_params c1) of
          (rc, all) \<Rightarrow>
            let c2 = c1\<lparr>c_params := all\<rparr> in
            if rc \<noteq> DDS_RETCODE_OK then (DDS_RETCODE_ERROR, sub1, sub_give c2)
            else
              case RTI_MQTT_Client_delete_request (s_req_sub sub1) of
                (rc, req) \<Rightarrow>
                  let sub2 = sub1\<lparr>s_req_sub := req\<rparr>; c3 = put_sub sub2 c2 in
                  if rc \<noteq> DDS_RETCODE_OK then (DDS_RETCODE_ERROR, sub2, sub_give c3)
                  else
                    case RTI_MQTT_Client_delete_request (s_req_unsub sub2) of
                      (rc, req) \<Rightarrow>
                        let sub3 = sub2\<lparr>s_req_unsub := req\<rparr>; c4 = put_sub sub3 c3 in
                        if rc \<noteq> DDS_RETCODE_OK then (DDS_RETCODE_ERROR, sub3, sub_give c4)
                        else (DDS_RETCODE_OK, sub3, sub_give c4))"

definition RTI_MQTT_Client_create_publication_requests ::
    "client_env \<Rightarrow> publication \<Rightarrow> 'd client \<Rightarrow> retcode \<times> publication \<times> 'd client" where
  "RTI_MQTT_Client_create_publication_requests env pub self =
     (let c = pub_take self in
      case RTI_MQTT_Client_new_request (ce_req_pub env) (cfg_max_reply_timeout (c_config c)) of
        (rc, req) \<Rightarrow>
          let pub1 = pub\<lparr>p_req := req\<rparr> in
          (if rc \<noteq> DDS_RETCODE_OK then DDS_RETCODE_ERROR else DDS_RETCODE_OK, pub1,
           pub_give (put_pub pub1 c)))"

definition RTI_MQTT_Client_delete_publication_requests ::
    "publication \<Rightarrow> 'd client \<Rightarrow> retcode \<times> publication \<times> 'd client" where
  "RTI_MQTT_Client_delete_publication_requests pub self =
     (let c = pub_take self in
      case RTI_MQTT_Client_delete_request (p_req pub) of
        (rc, req) \<Rightarrow>
          let pub1 = pub\<lparr>p_req := req\<rparr> in
          (if rc \<noteq> DDS_RETCODE_OK then DDS_RETCODE_ERROR else DDS_RETCODE_OK, pub1,
           pub_give (put_pub pub1 c)))"

section \<open>Subscribing and unsubscribing\<close>

definition listed_sub :: "nat \<Rightarrow> 'd client \<Rightarrow> bool" where
  "listed_sub p c \<longleftrightarrow> list_ex (\<lambda>s. s_ptr s = p) (c_subscriptions c)"

definition listed_pub :: "nat \<Rightarrow> 'd client \<Rightarrow> bool" where
  "listed_pub p c \<longleftrightarrow> list_ex (\<lambda>q. p_ptr q = p) (c_publications c)"

text \<open>\<^verbatim>\<open>RTI_MQTT_Subscription_delete\<close>, seen from the client: the object must not be listed any more.\<close>

definition delete_sub :: "'d queue_env \<Rightarrow> 'd subscription \<Rightarrow> 'd client \<Rightarrow> 'd client option" where
  "delete_sub qenv sub c =
     (if listed_sub (s_ptr sub) c then None
      else map_option (\<lambda>_. c) (RTI_MQTT_Subscription_finalize qenv sub))"

text \<open>The cleanup after an error in \<^verbatim>\<open>RTI_MQTT_Client_subscribe\<close>.\<close>

definition subscribe_error ::
    "client_env \<Rightarrow> 'd queue_env \<Rightarrow> bool \<Rightarrow> 'd subscription \<Rightarrow> 'd client
     \<Rightarrow> (retcode \<times> nat option \<times> 'd client) option" where
  "subscribe_error env qenv sub_added sub c =
     (case RTI_MQTT_Client_delete_subscription_requests env sub c of
        (_, sub1, c1) \<Rightarrow>
          let c2 = (if sub_added then snd (RTI_MQTT_Client_remove_subscription env (s_ptr sub1) c1) else c1) in
          map_option (\<lambda>c3. (DDS_RETCODE_ERROR, None, c3)) (delete_sub qenv sub1 c2))"

text \<open>
  A new subscription; its number is returned on success.  When the object cannot be created the
  cleanup is called with a null pointer (\<open>None\<close>).  A reply that arrives after a failed
  subscription has been deleted reaches a freed request (\<open>None\<close>).
\<close>

definition RTI_MQTT_Client_subscribe ::
    "client_env \<Rightarrow> 'd sub_env \<Rightarrow> subscription_config \<Rightarrow> 'd client
     \<Rightarrow> (retcode \<times> nat option \<times> 'd client) option" where
  "RTI_MQTT_Client_subscribe env se config self =
     (case RTI_MQTT_Subscription_new se config of
        None \<Rightarrow> None
      | Some (_, None) \<Rightarrow> None
      | Some (_, Some sub) \<Rightarrow>
          let qenv = se_queue_env se in
          case RTI_MQTT_Client_add_subscription env sub self of
            (rc, c1) \<Rightarrow>
              if rc \<noteq> DDS_RETCODE_OK then subscribe_error env qenv False sub c1
              else
                case RTI_MQTT_Client_create_subscription_requests env sub c1 of
                  (rc, sub1, c2) \<Rightarrow>
                    if rc \<noteq> DDS_RETCODE_OK then subscribe_error env qenv True sub1 c2
                    else
                      case s_req_sub sub1 of
                        None \<Rightarrow> None
                      | Some req \<Rightarrow>
                          case RTI_MQTT_Client_submit_subscriptions env (s_params sub1) req c2 of
                            (rc, submitted, req1, c3) \<Rightarrow>
                              let sub2 = sub1\<lparr>s_req_sub := Some req1\<rparr>; c4 = put_sub sub2 c3 in
                              if rc \<noteq> DDS_RETCODE_OK then
                                (if submitted \<and> we_late (ce_wait_sub env) \<noteq> None then None
                                 else subscribe_error env qenv True sub2 c4)
                              else Some (DDS_RETCODE_OK, Some (s_ptr sub2), c4))"

text \<open>A failure to cancel the subscription at the broker is ignored.\<close>

definition RTI_MQTT_Client_unsubscribe ::
    "client_env \<Rightarrow> 'd queue_env \<Rightarrow> 'd subscription \<Rightarrow> 'd client \<Rightarrow> (retcode \<times> 'd client) option" where
  "RTI_MQTT_Client_unsubscribe env qenv sub self =
     (case s_req_unsub sub of
        None \<Rightarrow> None
      | Some req \<Rightarrow>
          case RTI_MQTT_Client_cancel_subscriptions env (s_params sub) req self of
            (_, submitted, req1, c1) \<Rightarrow>
              if submitted \<and> we_late (ce_wait_unsub env) \<noteq> None then None
              else
                let sub1 = sub\<lparr>s_req_unsub := Some req1\<rparr> in
                case RTI_MQTT_Client_delete_subscription_requests env sub1 (put_sub sub1 c1) of
                  (rc, sub2, c2) \<Rightarrow>
                    map_option
                      (\<lambda>c3. (if rc \<noteq> DDS_RETCODE_OK then DDS_RETCODE_ERROR else DDS_RETCODE_OK, c3))
                      (delete_sub qenv sub2 (snd (RTI_MQTT_Client_remove_subscription env (s_ptr sub2) c2))))"

section \<open>Publishing and unpublishing\<close>

definition publish_error ::
    "client_env \<Rightarrow> bool \<Rightarrow> publication \<Rightarrow> 'd client \<Rightarrow> (retcode \<times> nat option \<times> 'd client) option" where
  "publish_error env pub_added pub c =
     (case RTI_MQTT_Client_delete_publication_requests pub c of
        (_, pub1, c1) \<Rightarrow>
          let c2 = (if pub_added then snd (RTI_MQTT_Client_remove_publication env (p_ptr pub1) c1) else c1) in
          if listed_pub (p_ptr pub1) c2 then None else Some (DDS_RETCODE_ERROR, None, c2))"

definition RTI_MQTT_Client_publish ::
    "client_env \<Rightarrow> pub_env \<Rightarrow> publication_config \<Rightarrow> 'd client
     \<Rightarrow> (retcode \<times> nat option \<times> 'd client) option" where
  "RTI_MQTT_Client_publish env pe config self =
     (case RTI_MQTT_Publication_new pe config of
        None \<Rightarrow> None
      | Some (_, None) \<Rightarrow> None
      | Some (_, Some pub) \<Rightarrow>
          case RTI_MQTT_Client_add_publication env pub self of
            (rc, c1) \<Rightarrow>
              if rc \<noteq> DDS_RETCODE_OK then publish_error env False pub c1
              else
                case RTI_MQTT_Client_create_publication_requests env pub c1 of
                  (rc, pub1, c2) \<Rightarrow>
                    if rc \<noteq> DDS_RETCODE_OK then publish_error env True pub1 c2
                    else Some (DDS_RETCODE_OK, Some (p_ptr pub1), c2))"

definition RTI_MQTT_Client_unpublish ::
    "client_env \<Rightarrow> publication \<Rightarrow> 'd client \<Rightarrow> (retcode \<times> 'd client) option" where
  "RTI_MQTT_Client_unpublish env pub self =
     (case RTI_MQTT_Client_delete_publication_requests pub self of
        (rc, pub1, c1) \<Rightarrow>
          let c2 = snd (RTI_MQTT_Client_remove_publication env (p_ptr pub1) c1) in
          if listed_pub (p_ptr pub1) c2 then None
          else Some (if rc \<noteq> DDS_RETCODE_OK then DDS_RETCODE_ERROR else DDS_RETCODE_OK, c2))"


section \<open>Writing messages\<close>

text \<open>The request handler of a publication, on the publication and its client.\<close>

definition pub_handle_result ::
    "wait_env \<Rightarrow> publication \<times> 'd client \<Rightarrow> retcode \<Rightarrow> publication \<times> 'd client" where
  "pub_handle_result we pc result =
     (case pc of (pub, c) \<Rightarrow>
        case p_req pub of
          None \<Rightarrow> (pub, c)
        | Some req \<Rightarrow>
            (case handle_result we (req, c) result of (req1, c1) \<Rightarrow> (pub\<lparr>p_req := Some req1\<rparr>, c1)))"

definition RTI_MQTT_Client_on_write_delivery_result ::
    "wait_env \<Rightarrow> publication \<times> 'd client \<Rightarrow> retcode \<Rightarrow> publication \<times> 'd client" where
  "RTI_MQTT_Client_on_write_delivery_result we pc result =
     (case pc of (pub, c) \<Rightarrow>
        if p_last_write_qos pub \<noteq> QosLevel_TWO then pub_handle_result we (pub, c) DDS_RETCODE_ERROR
        else
          case RTI_MQTT_Publication_on_write_delivery_result pub result of
            (rc, pub1) \<Rightarrow>
              pub_handle_result we (pub1, c) (if rc \<noteq> DDS_RETCODE_OK then DDS_RETCODE_ERROR else result))"

definition RTI_MQTT_Client_on_write_result ::
    "wait_env \<Rightarrow> publication \<times> 'd client \<Rightarrow> retcode \<Rightarrow> publication \<times> 'd client" where
  "RTI_MQTT_Client_on_write_result we pc result =
     (case pc of (pub, c) \<Rightarrow>
        case RTI_MQTT_Publication_on_write_result pub result of
          (rc, pub1) \<Rightarrow>
            let retcode = (if rc \<noteq> DDS_RETCODE_OK then DDS_RETCODE_ERROR else result) in
            if p_last_write_qos pub \<noteq> QosLevel_TWO then pub_handle_result we (pub1, c) retcode
            else RTI_MQTT_Client_on_write_delivery_result we (pub1, c) retcode)"

definition RTI_MQTT_Client_write_message ::
    "client_env \<Rightarrow> octet list \<Rightarrow> string \<Rightarrow> write_params \<Rightarrow> 'd client \<Rightarrow> retcode \<times> 'd client" where
  "RTI_MQTT_Client_write_message env buffer topic params self =
     (case RTI_MQTT_ClientMqttApi_Paho_write_message env buffer topic params (pub_take self) of
        (rc, c1) \<Rightarrow> (if rc \<noteq> DDS_RETCODE_OK then DDS_RETCODE_ERROR else DDS_RETCODE_OK, pub_give c1))"

text \<open>The wait of a publication that has a request; its replies run \<^verbatim>\<open>RTI_MQTT_Client_on_write_result\<close>.\<close>

definition RTI_MQTT_Client_wait_for_write_result ::
    "client_env \<Rightarrow> publication \<Rightarrow> 'd client \<Rightarrow> (retcode \<times> publication \<times> 'd client) option" where
  "RTI_MQTT_Client_wait_for_write_result env pub self =
     (if p_req pub = None then None
      else
        case await (\<lambda>(p, _). the (p_req p)) (\<lambda>r (p, c). (p\<lparr>p_req := Some r\<rparr>, c))
               (RTI_MQTT_Client_on_write_result (ce_wait_write env)) (ce_wait_write env) (pub, self) of
          (rc, pub1, c1) \<Rightarrow>
            Some (if rc \<noteq> DDS_RETCODE_OK then DDS_RETCODE_ERROR else DDS_RETCODE_OK, pub1, c1))"

text \<open>The functions of \<^verbatim>\<open>Publication.c\<close> that use the client.\<close>

definition RTI_MQTT_Publication_write_w_params ::
    "client_env \<Rightarrow> publication \<Rightarrow> octet list \<Rightarrow> string option \<Rightarrow> write_params \<Rightarrow> 'd client
     \<Rightarrow> (retcode \<times> publication \<times> 'd client) option" where
  "RTI_MQTT_Publication_write_w_params env self buffer topic params client =
     (if \<not> RTI_MQTT_Publication_is_configuration_valid (wp_qos_level params) topic
      then Some (DDS_RETCODE_ERROR, self, client)
      else
        let st = p_status self;
            self1 = self\<lparr>p_last_write_qos := wp_qos_level params,
                         p_status := st\<lparr>pending_count := pending_count st + 1\<rparr>\<rparr> in
        case RTI_MQTT_Client_write_message env buffer (the topic) params client of
          (rc, c1) \<Rightarrow>
            if rc \<noteq> DDS_RETCODE_OK then
              let st1 = p_status self1; self2 = self1\<lparr>p_status := st1\<lparr>pending_count := pending_count st1 - 1\<rparr>\<rparr> in
              Some (DDS_RETCODE_ERROR, self2, put_pub self2 c1)
            else
              let st1 = p_status self1; self2 = self1\<lparr>p_status := st1\<lparr>sent_count := sent_count st1 + 1\<rparr>\<rparr> in
              case RTI_MQTT_Client_wait_for_write_result env self2 c1 of
                None \<Rightarrow> None
              | Some (rc, self3, c2) \<Rightarrow>
                  Some (if rc \<noteq> DDS_RETCODE_OK then DDS_RETCODE_ERROR else DDS_RETCODE_OK, self3,
                        put_pub self3 c2))"

record 'd write_env =
  wr_dyn :: "'d dyn_api"
  wr_pub :: pub_env
  wr_topic_size :: "string \<Rightarrow> u32"
  wr_payload_copy :: bool

text \<open>
  The topic and parameters of a write: those of the configuration, or those of the message itself
  when the publication uses the message information.
\<close>

definition write_target ::
    "'d write_env \<Rightarrow> publication \<Rightarrow> 'd \<Rightarrow> ((retcode \<times> publication) \<times> write_params) option" where
  "write_target we self message =
     (let params = \<lparr>wp_qos_level = QosLevel_ZERO, wp_retained = False\<rparr>;
          fail = (\<lambda>p. Some ((DDS_RETCODE_ERROR, p), params)) in
      if \<not> pcfg_use_message_info (p_config self) then
        map_option (\<lambda>r. (r, \<lparr>wp_qos_level = pcfg_qos (p_config self), wp_retained = pcfg_retained (p_config self)\<rparr>))
          (RTI_MQTT_Publication_store_topic (wr_pub we) self (pcfg_topic (p_config self)))
      else if \<not> dyn_member_exists (wr_dyn we) ''info'' message then fail self
      else
        case dyn_get_long (wr_dyn we) ''info.qos_level'' message of
          None \<Rightarrow> fail self
        | Some qos \<Rightarrow>
            (case dyn_get_boolean (wr_dyn we) ''info.retained'' message of
               None \<Rightarrow> fail self
             | Some retained \<Rightarrow>
                 (case dyn_get_string (wr_dyn we) ''topic'' message of
                    None \<Rightarrow> fail self
                  | Some topic \<Rightarrow>
                      (case pe_string_replace (wr_pub we) (p_topic self) topic of
                         None \<Rightarrow> fail (self\<lparr>p_topic := None\<rparr>)
                       | Some buf \<Rightarrow>
                           Some ((DDS_RETCODE_OK,
                                  self\<lparr>p_topic := Some buf, p_topic_len := wr_topic_size we topic\<rparr>),
                                 \<lparr>wp_qos_level = qos_level_of_long qos, wp_retained = retained\<rparr>)))))"

definition RTI_MQTT_Publication_write ::
    "client_env \<Rightarrow> 'm write_env \<Rightarrow> publication \<Rightarrow> 'm \<Rightarrow> 'd client
     \<Rightarrow> (retcode \<times> publication \<times> 'd client) option" where
  "RTI_MQTT_Publication_write env we self message client =
     (case write_target we self message of
        None \<Rightarrow> None
      | Some ((rc, self1), params) \<Rightarrow>
          let c1 = pub_give (put_pub self1 (pub_take client)) in
          if rc \<noteq> DDS_RETCODE_OK then Some (DDS_RETCODE_ERROR, self1, c1)
          else
            case dyn_get_octet_seq (wr_dyn we) ''payload.data'' message of
              None \<Rightarrow> Some (DDS_RETCODE_ERROR, self1, c1)
            | Some payload \<Rightarrow>
                if \<not> wr_payload_copy we then Some (DDS_RETCODE_ERROR, self1, c1)
                else
                  let self2 = self1\<lparr>p_payload := payload\<rparr> in
                  map_option (\<lambda>(rc, p, c). (if rc \<noteq> DDS_RETCODE_OK then DDS_RETCODE_ERROR else DDS_RETCODE_OK, p, c))
                    (RTI_MQTT_Publication_write_w_params env self2 payload
                       (map_option cb_text (p_topic self2)) params (put_pub self2 c1)))"

section \<open>Arrival of messages\<close>

text \<open>The loop over the subscriptions: each one that matches receives the message; an error ends it.\<close>

fun deliver_to :: "(nat \<Rightarrow> 'd queue_env) \<Rightarrow> octet list \<Rightarrow> u32 \<Rightarrow> string \<Rightarrow> message_info option
    \<Rightarrow> 'd subscription list \<Rightarrow> (retcode \<times> 'd subscription list) option" where
  "deliver_to qenvs buffer buffer_len topic info [] = Some (DDS_RETCODE_OK, [])"
| "deliver_to qenvs buffer buffer_len topic info (sub # subs) =
     (case RTI_MQTT_Subscription_match sub topic of
        None \<Rightarrow> None
      | Some (rc, match) \<Rightarrow>
          if rc \<noteq> DDS_RETCODE_OK then Some (DDS_RETCODE_ERROR, sub # subs)
          else if \<not> match then
            map_option (\<lambda>(rc, subs1). (rc, sub # subs1))
              (deliver_to qenvs buffer buffer_len topic info subs)
          else
            case RTI_MQTT_Subscription_receive (qenvs (s_ptr sub)) sub buffer buffer_len topic info of
              None \<Rightarrow> None
            | Some (rc, sub') \<Rightarrow>
                if rc \<noteq> DDS_RETCODE_OK then Some (DDS_RETCODE_ERROR, sub' # subs)
                else map_option (\<lambda>(rc, subs1). (rc, sub' # subs1))
                       (deliver_to qenvs buffer buffer_len topic info subs))"

definition RTI_MQTT_Client_on_message_arrived ::
    "(nat \<Rightarrow> 'd queue_env) \<Rightarrow> string \<Rightarrow> octet list \<Rightarrow> u32 \<Rightarrow> message_info option \<Rightarrow> 'd client
     \<Rightarrow> (retcode \<times> 'd client) option" where
  "RTI_MQTT_Client_on_message_arrived qenvs topic buffer buffer_len info self =
     (let c = sub_take self in
      case deliver_to qenvs buffer buffer_len topic info (c_subscriptions c) of
        None \<Rightarrow> None
      | Some (rc, subs) \<Rightarrow>
          let c1 = sub_give (c\<lparr>c_subscriptions := subs\<rparr>) in
          Some (if rc \<noteq> DDS_RETCODE_OK
                then (DDS_RETCODE_ERROR, RTI_MQTT_Client_set_state ClientStateKind_ERROR c1)
                else (DDS_RETCODE_OK, c1)))"

text \<open>
  The callback of Paho.  Its local \<^verbatim>\<open>msg_info\<close> has no initialiser and \<^verbatim>\<open>id\<close> is never assigned:
  \<open>stack_id\<close> is the number that happens to be there.  The result is what Paho is told, whether the
  message has been accepted.
\<close>

record mqtt_msg =
  mm_payload :: "octet list"
  mm_payloadlen :: i32
  mm_qos :: i32
  mm_retained :: i32
  mm_dup :: i32

definition RTI_MQTT_ClientMqttApi_Paho_on_message_arrived ::
    "(nat \<Rightarrow> 'd queue_env) \<Rightarrow> i32 \<Rightarrow> string \<Rightarrow> mqtt_msg \<Rightarrow> 'd client \<Rightarrow> (bool \<times> 'd client) option" where
  "RTI_MQTT_ClientMqttApi_Paho_on_message_arrived qenvs stack_id topic_name message self =
     (case RTI_MQTT_QosLevel_from_mqtt_qos (mm_qos message) of
        (_, None) \<Rightarrow> Some (False, self)
      | (_, Some qos) \<Rightarrow>
          let info = \<lparr>info_id = stack_id, info_qos_level = qos, info_retained = (mm_retained message \<noteq> 0),
                      info_duplicate = (mm_dup message \<noteq> 0)\<rparr> in
          map_option (\<lambda>(rc, c). (rc = DDS_RETCODE_OK, c))
            (RTI_MQTT_Client_on_message_arrived qenvs topic_name (mm_payload message)
               (mm_payloadlen message) (Some info) self))"


section \<open>Creation and deletion\<close>

text \<open>
  The loops of \<^verbatim>\<open>RTI_MQTT_Client_finalize\<close>: the first subscription, then the first publication, is
  removed until there is none; an error ends them.  The environments of the turns are numbered.
\<close>

partial_function (option) unsubscribe_all ::
    "(nat \<Rightarrow> client_env) \<Rightarrow> (nat \<Rightarrow> 'd queue_env) \<Rightarrow> nat \<Rightarrow> 'd client \<Rightarrow> (retcode \<times> 'd client) option" where
  "unsubscribe_all envs qenvs k c =
     (case c_subscriptions c of
        [] \<Rightarrow> Some (DDS_RETCODE_OK, c)
      | sub # _ \<Rightarrow>
          case RTI_MQTT_Client_unsubscribe (envs k) (qenvs (s_ptr sub)) sub c of
            None \<Rightarrow> None
          | Some (rc, c1) \<Rightarrow>
              if rc \<noteq> DDS_RETCODE_OK then Some (DDS_RETCODE_ERROR, c1)
              else unsubscribe_all envs qenvs (k + 1) c1)"

partial_function (option) unpublish_all ::
    "(nat \<Rightarrow> client_env) \<Rightarrow> nat \<Rightarrow> 'd client \<Rightarrow> (retcode \<times> 'd client) option" where
  "unpublish_all envs k c =
     (case c_publications c of
        [] \<Rightarrow> Some (DDS_RETCODE_OK, c)
      | pub # _ \<Rightarrow>
          case RTI_MQTT_Client_unpublish (envs k) pub c of
            None \<Rightarrow> None
          | Some (rc, c1) \<Rightarrow>
              if rc \<noteq> DDS_RETCODE_OK then Some (DDS_RETCODE_ERROR, c1)
              else unpublish_all envs (k + 1) c1)"

text \<open>
  The client is not disconnected first.  The second component is the client when it is given
  back: without its Paho handle and requests.
\<close>

definition RTI_MQTT_Client_finalize ::
    "(nat \<Rightarrow> client_env) \<Rightarrow> (nat \<Rightarrow> 'd queue_env) \<Rightarrow> 'd client \<Rightarrow> (retcode \<times> 'd client) option" where
  "RTI_MQTT_Client_finalize envs qenvs self =
     (let env = envs 0 in
      case unsubscribe_all envs qenvs 0 self of
        None \<Rightarrow> None
      | Some (rc, c1) \<Rightarrow>
          if rc \<noteq> DDS_RETCODE_OK then Some (DDS_RETCODE_ERROR, c1)
          else
            case unpublish_all envs 0 c1 of
              None \<Rightarrow> None
            | Some (rc, c2) \<Rightarrow>
                if rc \<noteq> DDS_RETCODE_OK then Some (DDS_RETCODE_ERROR, c2)
                else if \<not> ce_seq_finalize env then Some (DDS_RETCODE_ERROR, c2)
                else
                  case RTI_MQTT_ClientMqttApi_Paho_delete_client env c2 of
                    (rc, c3) \<Rightarrow>
                      if rc \<noteq> DDS_RETCODE_OK then Some (DDS_RETCODE_ERROR, c3)
                      else
                        let c4 = c3\<lparr>c_req_connect := snd (RTI_MQTT_Client_delete_request (c_req_connect c3)),
                                    c_req_disconnect := snd (RTI_MQTT_Client_delete_request (c_req_disconnect c3)),
                                    c_req_sub := snd (RTI_MQTT_Client_delete_request (c_req_sub c3)),
                                    c_req_unsub := snd (RTI_MQTT_Client_delete_request (c_req_unsub c3)),
                                    c_params := []\<rparr> in
                        Some (if \<not> ce_mutex_finalize env then DDS_RETCODE_ERROR else DDS_RETCODE_OK, c4))"

record init_env =
  ie_heap :: bool
  ie_mutex :: bool
  ie_status_new :: bool
  ie_config_copy :: bool
  ie_seq_init :: bool
  ie_req_connect :: request_env
  ie_req_disconnect :: request_env
  ie_req_sub :: request_env
  ie_req_unsub :: request_env

text \<open>The object after \<^verbatim>\<open>RTI_MQTT_Client_INITIALIZER\<close> and the copy of the configuration.\<close>

definition initial_client :: "client_config \<Rightarrow> 'd client" where
  "initial_client config =
     \<lparr>c_state = ClientStateKind_DISCONNECTED, c_config = config, c_client = False, c_req_connect = None,
      c_req_disconnect = None, c_req_sub = None, c_req_unsub = None, c_params = [], c_subscriptions = [],
      c_publications = [], c_cfg_lock = 0, c_mqtt_lock = 0, c_sub_lock = 0, c_pub_lock = 0, c_calls = [],
      c_threads = 0\<rparr>"

text \<open>On an error the client is finalised; the calls to Paho made until then remain.\<close>

definition RTI_MQTT_Client_initialize ::
    "init_env \<Rightarrow> client_env \<Rightarrow> (nat \<Rightarrow> 'd queue_env) \<Rightarrow> client_config \<Rightarrow> (retcode \<times> 'd client) option" where
  "RTI_MQTT_Client_initialize ie env qenvs config =
     (let c = initial_client config;
          fail = (\<lambda>c. map_option (\<lambda>(_, c1). (DDS_RETCODE_ERROR, c1)) (RTI_MQTT_Client_finalize (\<lambda>_. env) qenvs c));
          max_reply = cfg_max_reply_timeout config in
      if \<not> ie_mutex ie then Some (DDS_RETCODE_ERROR, c)
      else if \<not> ie_status_new ie then fail c
      else if \<not> ie_config_copy ie then fail c
      else if length (cfg_server_uris config) = 0 then fail c
      else if \<not> ie_seq_init ie then fail c
      else
        case RTI_MQTT_Client_new_request (ie_req_connect ie) (cfg_connect_timeout config) of
          (rc, req) \<Rightarrow>
            let c1 = c\<lparr>c_req_connect := req\<rparr> in
            if rc \<noteq> DDS_RETCODE_OK then fail c1
            else
              case RTI_MQTT_Client_new_request (ie_req_disconnect ie) max_reply of
                (rc, req) \<Rightarrow>
                  let c2 = c1\<lparr>c_req_disconnect := req\<rparr> in
                  if rc \<noteq> DDS_RETCODE_OK then fail c2
                  else
                    case RTI_MQTT_Client_new_request (ie_req_sub ie) max_reply of
                      (rc, req) \<Rightarrow>
                        let c3 = c2\<lparr>c_req_sub := req\<rparr> in
                        if rc \<noteq> DDS_RETCODE_OK then fail c3
                        else
                          case RTI_MQTT_Client_new_request (ie_req_unsub ie) max_reply of
                            (rc, req) \<Rightarrow>
                              let c4 = c3\<lparr>c_req_unsub := req\<rparr> in
                              if rc \<noteq> DDS_RETCODE_OK then fail c4
                              else
                                case RTI_MQTT_ClientMqttApi_Paho_create_client env c4 of
                                  None \<Rightarrow> None
                                | Some (rc, c5) \<Rightarrow>
                                    if rc \<noteq> DDS_RETCODE_OK then fail c5 else Some (DDS_RETCODE_OK, c5))"

definition RTI_MQTT_Client_new ::
    "init_env \<Rightarrow> client_env \<Rightarrow> (nat \<Rightarrow> 'd queue_env) \<Rightarrow> client_config \<Rightarrow> (retcode \<times> 'd client option) option" where
  "RTI_MQTT_Client_new ie env qenvs config =
     (if \<not> ie_heap ie then Some (DDS_RETCODE_ERROR, None)
      else
        map_option (\<lambda>(rc, c). if rc \<noteq> DDS_RETCODE_OK then (DDS_RETCODE_ERROR, None) else (DDS_RETCODE_OK, Some c))
          (RTI_MQTT_Client_initialize ie env qenvs config))"

text \<open>\<^verbatim>\<open>RTI_MQTT_Client_delete\<close>: nothing of the client is left, whatever the finalisation reports.\<close>

definition RTI_MQTT_Client_delete ::
    "(nat \<Rightarrow> client_env) \<Rightarrow> (nat \<Rightarrow> 'd queue_env) \<Rightarrow> 'd client option \<Rightarrow> paho_call list option" where
  "RTI_MQTT_Client_delete envs qenvs self =
     (case self of
        None \<Rightarrow> Some []
      | Some c \<Rightarrow> map_option (\<lambda>(_, c1). c_calls c1) (RTI_MQTT_Client_finalize envs qenvs c))"

definition RTI_MQTT_ClientMqttApi_Paho_connection_lost_thread ::
    "(nat \<Rightarrow> client_env) \<Rightarrow> 'd client \<Rightarrow> 'd client option" where
  "RTI_MQTT_ClientMqttApi_Paho_connection_lost_thread envs self =
     map_option snd (RTI_MQTT_Client_on_connection_lost envs self)"


end
