(* ===== verification/ClientLemmas.thy ===== *)
theory ClientLemmas
  imports Client "HOL-Library.Sublist"
begin

text \<open>
  Lemmas on the client: every operation with its locks resolved, as an equation on the fields it
  changes; what an operation leaves alone (\<open>frame\<close> and its stronger forms), proved for
  every operation; the invariant of the client and that the operations keep it.
\<close>

section \<open>Locks\<close>

named_theorems client_eqs "operations with their locks resolved"

definition log :: "paho_call \<Rightarrow> 'd client \<Rightarrow> 'd client" where
  "log call c = c\<lparr>c_calls := c_calls c @ [call]\<rparr>"

lemma log_sel [simp]:
  "c_state (log x c) = c_state c" "c_config (log x c) = c_config c" "c_client (log x c) = c_client c"
  "c_req_connect (log x c) = c_req_connect c" "c_req_disconnect (log x c) = c_req_disconnect c"
  "c_req_sub (log x c) = c_req_sub c" "c_req_unsub (log x c) = c_req_unsub c"
  "c_params (log x c) = c_params c" "c_subscriptions (log x c) = c_subscriptions c"
  "c_publications (log x c) = c_publications c" "c_cfg_lock (log x c) = c_cfg_lock c"
  "c_mqtt_lock (log x c) = c_mqtt_lock c" "c_sub_lock (log x c) = c_sub_lock c"
  "c_pub_lock (log x c) = c_pub_lock c" "c_calls (log x c) = c_calls c @ [x]" "c_threads (log x c) = c_threads c"
  by (simp_all add: log_def)

lemma set_state_eq [client_eqs]: "RTI_MQTT_Client_set_state st c = c\<lparr>c_state := st\<rparr>"
  by (cases c) (simp add: RTI_MQTT_Client_set_state_def lock_defs)

lemma give_take [client_eqs]:
  "cfg_give (cfg_take c) = c" "mqtt_give (mqtt_take c) = c" "sub_give (sub_take c) = c"
  "pub_give (pub_take c) = c" "cfg_give ((cfg_take c)\<lparr>c_state := st\<rparr>) = c\<lparr>c_state := st\<rparr>"
  "mqtt_give (log x (mqtt_take c)) = log x c" "pub_give (log x (pub_take c)) = log x c"
  by (cases c, simp add: lock_defs log_def)+

lemma take_sel [simp]:
  "c_state (cfg_take c) = c_state c" "c_config (cfg_take c) = c_config c"
  "c_config (mqtt_take c) = c_config c" "c_client (mqtt_take c) = c_client c"
  "c_params (sub_take c) = c_params c" "c_req_sub (sub_take c) = c_req_sub c"
  "c_req_unsub (sub_take c) = c_req_unsub c" "c_subscriptions (sub_take c) = c_subscriptions c"
  "c_config (sub_take c) = c_config c" "c_config (pub_take c) = c_config c"
  "c_publications (pub_take c) = c_publications c"
  by (simp_all add: lock_defs)

lemma paho_eq [client_eqs]: "paho env call c = (ce_paho env call, log call c)"
  by (simp add: paho_def log_def)

section \<open>The Paho layer\<close>

definition rc_of :: "bool \<Rightarrow> retcode" where
  "rc_of b = (if b then DDS_RETCODE_OK else DDS_RETCODE_ERROR)"

lemma rc_of_ok [simp]: "rc_of b = DDS_RETCODE_OK \<longleftrightarrow> b" by (simp add: rc_of_def)

lemma rc_of_error [simp]: "rc_of b = DDS_RETCODE_ERROR \<longleftrightarrow> \<not> b" by (simp add: rc_of_def)

lemma Paho_connect_eq [client_eqs]:
  "RTI_MQTT_ClientMqttApi_Paho_connect env c =
     (case conn_opts_of env (c_config c) of
        None \<Rightarrow> (DDS_RETCODE_ERROR, c)
      | Some opts \<Rightarrow> (rc_of (ce_paho env (MQTTAsync_connect opts)), log (MQTTAsync_connect opts) c))"
  by (simp add: RTI_MQTT_ClientMqttApi_Paho_connect_def Let_def client_eqs rc_of_def split: option.split)

lemma Paho_disconnect_eq [client_eqs]:
  "RTI_MQTT_ClientMqttApi_Paho_disconnect env c =
     (rc_of (ce_paho env MQTTAsync_disconnect), log MQTTAsync_disconnect c)"
  by (simp add: RTI_MQTT_ClientMqttApi_Paho_disconnect_def client_eqs rc_of_def)

lemma Paho_submit_eq [client_eqs]:
  "RTI_MQTT_ClientMqttApi_Paho_submit_subscriptions env params c =
     (case (if ce_alloc env then sub_requests params else None) of
        None \<Rightarrow> (DDS_RETCODE_ERROR, c)
      | Some reqs \<Rightarrow> (rc_of (ce_paho env (MQTTAsync_subscribeMany reqs)), log (MQTTAsync_subscribeMany reqs) c))"
  by (simp add: RTI_MQTT_ClientMqttApi_Paho_submit_subscriptions_def client_eqs rc_of_def split: option.split)

lemma Paho_cancel_eq [client_eqs]:
  "RTI_MQTT_ClientMqttApi_Paho_cancel_subscriptions env params c =
     (if \<not> ce_alloc env then (DDS_RETCODE_ERROR, c)
      else (rc_of (ce_paho env (MQTTAsync_unsubscribeMany (map sp_topic params))),
            log (MQTTAsync_unsubscribeMany (map sp_topic params)) c))"
  by (simp add: RTI_MQTT_ClientMqttApi_Paho_cancel_subscriptions_def client_eqs rc_of_def)

lemma Paho_write_eq [client_eqs]:
  "RTI_MQTT_ClientMqttApi_Paho_write_message env buffer topic params c =
     (case snd (RTI_MQTT_QosLevel_to_mqtt_qos (wp_qos_level params)) of
        None \<Rightarrow> (DDS_RETCODE_ERROR, c)
      | Some qos \<Rightarrow>
          (rc_of (ce_paho env (MQTTAsync_sendMessage topic buffer qos (wp_retained params))),
           log (MQTTAsync_sendMessage topic buffer qos (wp_retained params)) c))"
  by (simp add: RTI_MQTT_ClientMqttApi_Paho_write_message_def client_eqs rc_of_def split: option.split prod.split)

lemma write_message_eq [client_eqs]:
  "RTI_MQTT_Client_write_message env buffer topic params c =
     RTI_MQTT_ClientMqttApi_Paho_write_message env buffer topic params c"
  by (simp add: RTI_MQTT_Client_write_message_def client_eqs rc_of_def split: option.split)

section \<open>Waiting\<close>

lemma await_inv:
  assumes "I x" and "\<And>x r. I x \<Longrightarrow> I (handler x r)" and "\<And>r x. I x \<Longrightarrow> I (put r x)"
  shows "I (snd (await get put handler we x))"
  using assms by (auto simp: await_def Let_def split: option.split prod.split)

text \<open>A wait that succeeds or fails with the reply, and leaves the client as it is.\<close>

lemma handle_result_ok: "we_trigger we \<Longrightarrow>
  handle_result we (req, c) r = (req\<lparr>req_result := r, req_triggered := True\<rparr>, c)"
  by (simp add: handle_result_def RTI_MQTT_Client_handle_request_result_def Let_def)

lemma await_request_eq:
  assumes "wait_ok we" and "\<not> req_triggered req" and "we_late we = None"
    and "\<And>r. we_reply we = Some r \<Longrightarrow>
      handler (req, c) r = (req\<lparr>req_result := r, req_triggered := True\<rparr>, c)"
  shows "await_request handler we req c =
    (case we_reply we of
       None \<Rightarrow> (we_wait we (request_duration req), req, c)
     | Some r \<Rightarrow> (r, req\<lparr>req_result := r, req_triggered := False\<rparr>, c))"
  using assms
  by (auto simp: await_request_def await_def RTI_MQTT_Client_wait_for_request_def wait_ok_def Let_def
      split: option.splits)

definition wait_result :: "wait_env \<Rightarrow> request \<Rightarrow> retcode" where
  "wait_result we req = (case we_reply we of None \<Rightarrow> we_wait we (request_duration req) | Some r \<Rightarrow> r)"

definition wait_request :: "wait_env \<Rightarrow> request \<Rightarrow> request" where
  "wait_request we req = (case we_reply we of None \<Rightarrow> req | Some r \<Rightarrow> req\<lparr>req_result := r, req_triggered := False\<rparr>)"

definition quiet :: "wait_env \<Rightarrow> bool" where
  "quiet we \<longleftrightarrow> wait_ok we \<and> we_late we = None"

lemma await_handle_eq:
  "quiet we \<Longrightarrow> \<not> req_triggered req \<Longrightarrow>
   await_request (handle_result we) we req c = (wait_result we req, wait_request we req, c)"
  by (subst await_request_eq)
    (auto simp: quiet_def wait_ok_def handle_result_ok wait_result_def wait_request_def split: option.split)

lemma await_connect_eq:
  "quiet we \<Longrightarrow> \<not> req_triggered req \<Longrightarrow> c_state c \<noteq> ClientStateKind_CONNECTED \<Longrightarrow>
   await_request (RTI_MQTT_Client_on_connection_result env we) we req c =
     (wait_result we req, wait_request we req, c)"
  by (subst await_request_eq)
    (auto simp: quiet_def wait_ok_def handle_result_ok wait_result_def wait_request_def
      RTI_MQTT_Client_on_connection_result_def split: option.split)

lemma wait_request_sel [simp]:
  "req_triggered (wait_request we req) \<longleftrightarrow> we_reply we = None \<and> req_triggered req"
  "req_timeout (wait_request we req) = req_timeout req"
  by (auto simp: wait_request_def split: option.split)

section \<open>What an operation leaves alone\<close>

definition locks :: "'d client \<Rightarrow> nat \<times> nat \<times> nat \<times> nat" where
  "locks c = (c_cfg_lock c, c_mqtt_lock c, c_sub_lock c, c_pub_lock c)"

text \<open>Locks are balanced, the configuration is constant, and calls to Paho are only added.\<close>

definition frame :: "'d client \<Rightarrow> 'd client \<Rightarrow> bool" where
  "frame c c' \<longleftrightarrow> locks c' = locks c \<and> c_config c' = c_config c \<and> prefix (c_calls c) (c_calls c')"

lemma frame_refl [simp]: "frame c c" by (simp add: frame_def)

lemma frame_trans: "frame a b \<Longrightarrow> frame b c \<Longrightarrow> frame a c"
  by (auto simp: frame_def intro: prefix_order.trans)

text \<open>
  An operation on the connection: besides, the subscriptions, the publications and the parameters
  to submit are unchanged, and no request appears or disappears.
\<close>

definition link_frame :: "'d client \<Rightarrow> 'd client \<Rightarrow> bool" where
  "link_frame c c' \<longleftrightarrow>
     frame c c' \<and> c_client c' = c_client c \<and> c_params c' = c_params c \<and>
     c_subscriptions c' = c_subscriptions c \<and> c_publications c' = c_publications c \<and>
     (c_req_connect c' = None \<longleftrightarrow> c_req_connect c = None) \<and>
     (c_req_disconnect c' = None \<longleftrightarrow> c_req_disconnect c = None) \<and>
     (c_req_sub c' = None \<longleftrightarrow> c_req_sub c = None) \<and> (c_req_unsub c' = None \<longleftrightarrow> c_req_unsub c = None)"

lemma link_frame_refl [simp]: "link_frame c c" by (simp add: link_frame_def)

lemma link_frame_trans: "link_frame a b \<Longrightarrow> link_frame b c \<Longrightarrow> link_frame a c"
  by (auto simp: link_frame_def intro: frame_trans)

lemma link_frame_frame: "link_frame c c' \<Longrightarrow> frame c c'" by (simp add: link_frame_def)

lemma link_frame_steps [simp]:
  "link_frame a (c\<lparr>c_state := st\<rparr>) \<longleftrightarrow> link_frame a c"
  "link_frame a (c\<lparr>c_threads := n\<rparr>) \<longleftrightarrow> link_frame a c"
  by (simp_all add: link_frame_def frame_def locks_def)

lemma link_frame_reqs [simp]:
  "c_req_connect c \<noteq> None \<Longrightarrow> link_frame a (c\<lparr>c_req_connect := Some r\<rparr>) \<longleftrightarrow> link_frame a c"
  "c_req_connect c \<noteq> None \<Longrightarrow> link_frame (c\<lparr>c_req_connect := Some r\<rparr>) a \<longleftrightarrow> link_frame c a"
  "c_req_disconnect c \<noteq> None \<Longrightarrow> link_frame a (c\<lparr>c_req_disconnect := Some r\<rparr>) \<longleftrightarrow> link_frame a c"
  "c_req_disconnect c \<noteq> None \<Longrightarrow> link_frame (c\<lparr>c_req_disconnect := Some r\<rparr>) a \<longleftrightarrow> link_frame c a"
  "c_req_sub c \<noteq> None \<Longrightarrow> link_frame a (c\<lparr>c_req_sub := Some r\<rparr>) \<longleftrightarrow> link_frame a c"
  "c_req_sub c \<noteq> None \<Longrightarrow> link_frame (c\<lparr>c_req_sub := Some r\<rparr>) a \<longleftrightarrow> link_frame c a"
  "c_req_unsub c \<noteq> None \<Longrightarrow> link_frame a (c\<lparr>c_req_unsub := Some r\<rparr>) \<longleftrightarrow> link_frame a c"
  "c_req_unsub c \<noteq> None \<Longrightarrow> link_frame (c\<lparr>c_req_unsub := Some r\<rparr>) a \<longleftrightarrow> link_frame c a"
  by (simp_all add: link_frame_def frame_def locks_def del: not_None_eq)

lemma link_frame_log: "link_frame a c \<Longrightarrow> link_frame a (log x c)"
  by (simp add: link_frame_def frame_def locks_def prefix_order.trans [OF _ prefixI [OF refl]])

text \<open>The handlers change no request of the client but the one they are for.\<close>

definition reqs :: "'d client \<Rightarrow> request option \<times> request option \<times> request option \<times> request option" where
  "reqs c = (c_req_connect c, c_req_disconnect c, c_req_sub c, c_req_unsub c)"

lemma reqs_steps [simp]:
  "reqs (c\<lparr>c_state := st\<rparr>) = reqs c" "reqs (c\<lparr>c_threads := n\<rparr>) = reqs c" "reqs (log x c) = reqs c"
  by (simp_all add: reqs_def)

definition handler_ok :: "(request \<times> 'd client \<Rightarrow> retcode \<Rightarrow> request \<times> 'd client) \<Rightarrow> bool" where
  "handler_ok h \<longleftrightarrow> (\<forall>req c r. link_frame c (snd (h (req, c) r)) \<and> reqs (snd (h (req, c) r)) = reqs c)"

lemma handler_ok_handle_result [simp]: "handler_ok (handle_result we)"
  by (auto simp: handler_ok_def handle_result_def client_eqs split: prod.split)

lemma handler_ok_on_connection_result [simp]: "handler_ok (RTI_MQTT_Client_on_connection_result env we)"
  using handler_ok_handle_result [of we]
  by (auto simp: handler_ok_def RTI_MQTT_Client_on_connection_result_def
      RTI_MQTT_ClientMqttApi_Paho_on_connection_lost_def)

lemma await_request_link:
  assumes "await_request h we req c = (rc, req1, c1)" and "handler_ok h"
  shows "link_frame c c1 \<and> reqs c1 = reqs c"
proof -
  have "link_frame c (snd (snd (await_request h we req c))) \<and> reqs (snd (snd (await_request h we req c))) = reqs c"
    unfolding await_request_def
  proof (rule await_inv)
    fix x :: "request \<times> 'a client" and r
    assume "link_frame c (snd x) \<and> reqs (snd x) = reqs c"
    then show "link_frame c (snd (h x r)) \<and> reqs (snd (h x r)) = reqs c"
      using assms(2) unfolding handler_ok_def by (metis link_frame_trans prod.collapse)
  qed (auto split: prod.split)
  with assms(1) show ?thesis by simp
qed

lemma submit_link:
  assumes "RTI_MQTT_Client_submit_subscriptions env ps req c = (rc, sm, req1, c1)"
  shows "link_frame c c1 \<and> reqs c1 = reqs c"
  using assms
  by (auto simp: RTI_MQTT_Client_submit_subscriptions_def client_eqs RTI_MQTT_Client_on_subscription_result_def
      split: if_splits option.splits prod.splits
      dest!: await_request_link [OF _ handler_ok_handle_result] intro: link_frame_log
      link_frame_trans [OF link_frame_log [OF link_frame_refl]])

lemma cancel_link:
  assumes "RTI_MQTT_Client_cancel_subscriptions env ps req c = (rc, sm, req1, c1)"
  shows "link_frame c c1 \<and> reqs c1 = reqs c"
  using assms
  by (auto simp: RTI_MQTT_Client_cancel_subscriptions_def client_eqs RTI_MQTT_Client_on_unsubscription_result_def
      split: if_splits option.splits prod.splits
      dest!: await_request_link [OF _ handler_ok_handle_result] intro: link_frame_log
      link_frame_trans [OF link_frame_log [OF link_frame_refl]])


section \<open>The operations on the connection\<close>

lemma submit_all_link:
  assumes "RTI_MQTT_Client_submit_all_subscriptions env c = Some (rc, c1)"
  shows "link_frame c c1"
  using assms
  by (auto simp: RTI_MQTT_Client_submit_all_subscriptions_def client_eqs Let_def reqs_def
      split: if_splits option.splits prod.splits dest!: submit_link)

lemma cancel_all_link:
  assumes "RTI_MQTT_Client_cancel_all_subscriptions env c = Some (rc, c1)"
  shows "link_frame c c1"
  using assms
  by (auto simp: RTI_MQTT_Client_cancel_all_subscriptions_def client_eqs Let_def reqs_def
      split: if_splits option.splits prod.splits dest!: cancel_link)

text \<open>\<^verbatim>\<open>disconnect\<close> and \<^verbatim>\<open>connect\<close> without their locks.\<close>

lemma disconnect_eq:
  "RTI_MQTT_Client_disconnect env c =
     (if c_state c = ClientStateKind_DISCONNECTED then Some (DDS_RETCODE_OK, c)
      else if c_state c = ClientStateKind_CONNECTING \<or> c_state c = ClientStateKind_DISCONNECTING
      then Some (DDS_RETCODE_ERROR, c)
      else
        case (if cfg_unsubscribe_on_disconnect (c_config c)
              then RTI_MQTT_Client_cancel_all_subscriptions env (c\<lparr>c_state := ClientStateKind_DISCONNECTING\<rparr>)
              else Some (DDS_RETCODE_OK, c\<lparr>c_state := ClientStateKind_DISCONNECTING\<rparr>)) of
          None \<Rightarrow> None
        | Some (rc, c2) \<Rightarrow>
            if rc \<noteq> DDS_RETCODE_OK then Some (DDS_RETCODE_ERROR, c2)
            else if \<not> ce_paho env MQTTAsync_disconnect
            then Some (DDS_RETCODE_ERROR, log MQTTAsync_disconnect c2)
            else
              case c_req_disconnect c2 of
                None \<Rightarrow> None
              | Some req \<Rightarrow>
                  case await_request (handle_result (ce_wait_disconnect env)) (ce_wait_disconnect env) req
                         (log MQTTAsync_disconnect c2) of
                    (rc, req1, c4) \<Rightarrow>
                      Some (if rc \<noteq> DDS_RETCODE_OK then (DDS_RETCODE_ERROR, c4\<lparr>c_req_disconnect := Some req1\<rparr>)
                            else (DDS_RETCODE_OK, c4\<lparr>c_req_disconnect := Some req1,
                                                    c_state := ClientStateKind_DISCONNECTED\<rparr>)))"
  by (simp add: RTI_MQTT_Client_disconnect_def client_eqs Let_def RTI_MQTT_Client_on_disconnection_result_def
      cong: if_cong split: option.split prod.split)

lemma connect_eq:
  "RTI_MQTT_Client_connect env c =
     (if c_state c = ClientStateKind_CONNECTED then Some (DDS_RETCODE_OK, c)
      else if c_state c \<noteq> ClientStateKind_DISCONNECTED then Some (DDS_RETCODE_ERROR, c)
      else
        case RTI_MQTT_ClientMqttApi_Paho_connect env (c\<lparr>c_state := ClientStateKind_CONNECTING\<rparr>) of
          (rc, c2) \<Rightarrow>
            if rc \<noteq> DDS_RETCODE_OK then Some (DDS_RETCODE_ERROR, c2\<lparr>c_state := ClientStateKind_DISCONNECTED\<rparr>)
            else
              case c_req_connect c2 of
                None \<Rightarrow> None
              | Some req \<Rightarrow>
                  case await_request (RTI_MQTT_Client_on_connection_result env (ce_wait_connect env))
                         (ce_wait_connect env) req c2 of
                    (rc, req1, c3) \<Rightarrow>
                      if rc \<noteq> DDS_RETCODE_OK
                      then Some (DDS_RETCODE_ERROR,
                             c3\<lparr>c_req_connect := Some req1, c_state := ClientStateKind_DISCONNECTED\<rparr>)
                      else
                        case RTI_MQTT_Client_submit_all_subscriptions env
                               (c3\<lparr>c_req_connect := Some req1, c_state := ClientStateKind_CONNECTED\<rparr>) of
                          None \<Rightarrow> None
                        | Some (rc, c6) \<Rightarrow>
                            if rc = DDS_RETCODE_OK then Some (DDS_RETCODE_OK, c6)
                            else map_option (\<lambda>(_, c7). (DDS_RETCODE_ERROR, c7))
                                   (RTI_MQTT_Client_disconnect env c6))"
  by (simp add: RTI_MQTT_Client_connect_def client_eqs Let_def cong: if_cong split: option.split prod.split)

lemma link_frame_logD: "link_frame (log x c) d \<Longrightarrow> link_frame c d"
  by (rule link_frame_trans [OF link_frame_log [OF link_frame_refl]])

lemma link_frame_state [simp]: "link_frame (c\<lparr>c_state := st\<rparr>) d \<longleftrightarrow> link_frame c d"
  by (simp add: link_frame_def frame_def locks_def)

lemma disconnect_link:
  assumes "RTI_MQTT_Client_disconnect env c = Some (rc, c1)"
  shows "link_frame c c1"
proof -
  let ?d = "c\<lparr>c_state := ClientStateKind_DISCONNECTING\<rparr>"
  define X where "X = (if cfg_unsubscribe_on_disconnect (c_config c)
    then RTI_MQTT_Client_cancel_all_subscriptions env ?d else Some (DDS_RETCODE_OK, ?d))"
  have canc: "link_frame c c2" if "X = Some (rc, c2)" for rc c2
    using that cancel_all_link [of env ?d rc c2] by (auto simp: X_def split: if_splits)
  show ?thesis
    using assms unfolding disconnect_eq X_def [symmetric]
    by (auto simp: reqs_def split: if_splits option.splits prod.splits
        dest!: canc await_request_link [OF _ handler_ok_handle_result] link_frame_logD
        intro!: link_frame_log intro: link_frame_trans)
qed

lemma connect_link:
  assumes "RTI_MQTT_Client_connect env c = Some (rc, c1)"
  shows "link_frame c c1"
  using assms unfolding connect_eq Paho_connect_eq
  by (auto simp: reqs_def split: if_splits option.splits prod.splits
      dest!: await_request_link [OF _ handler_ok_on_connection_result] link_frame_logD
        submit_all_link disconnect_link
      intro!: link_frame_log intro: link_frame_trans) (blast intro: link_frame_trans)

lemma reconnect_loop_link:
  assumes "reconnect_loop envs k c = Some y"
  shows "link_frame c (snd y) \<and> fst y = DDS_RETCODE_OK \<and> c_state (snd y) = ClientStateKind_CONNECTED"
proof (rule reconnect_loop.raw_induct [OF _ assms])
  fix loop envs k and c :: "'a client" and y
  assume IH: "\<And>envs k c y. loop envs k c = Some y \<Longrightarrow>
      link_frame c (snd y) \<and> fst y = DDS_RETCODE_OK \<and> c_state (snd y) = ClientStateKind_CONNECTED"
    and body: "(case RTI_MQTT_Client_connect (envs k) c of None \<Rightarrow> None
          | Some (_, c1) \<Rightarrow> if c_state c1 = ClientStateKind_CONNECTED then Some (DDS_RETCODE_OK, c1)
                          else loop envs (k + 1) c1) = Some y"
  obtain rc c1 where c1: "RTI_MQTT_Client_connect (envs k) c = Some (rc, c1)"
    using body by (auto split: option.splits)
  note link = connect_link [OF c1]
  show "link_frame c (snd y) \<and> fst y = DDS_RETCODE_OK \<and> c_state (snd y) = ClientStateKind_CONNECTED"
  proof (cases "c_state c1 = ClientStateKind_CONNECTED")
    case True
    with body c1 link show ?thesis by auto
  next
    case False
    with body c1 have "loop envs (k + 1) c1 = Some y" by simp
    from IH [OF this] link show ?thesis by (blast intro: link_frame_trans)
  qed
qed

lemma on_connection_lost_link:
  "RTI_MQTT_Client_on_connection_lost envs c = Some (rc, c1) \<Longrightarrow> link_frame c c1"
  by (auto simp: RTI_MQTT_Client_on_connection_lost_def client_eqs dest!: reconnect_loop_link)

section \<open>The lists\<close>

text \<open>Removing an element by its address, when the length can be set.\<close>

lemma remove_from_seq_eq:
  assumes "ce_set_length env" and "distinct (map key xs)"
  shows "snd (remove_from_seq env (\<lambda>x. p = key x) xs) = filter (\<lambda>x. key x \<noteq> p) xs"
proof (cases "find_index (\<lambda>x. p = key x) xs")
  case None
  then have "filter (\<lambda>x. key x \<noteq> p) xs = xs" by (auto simp: find_index_None intro!: filter_True)
  with None show ?thesis by (simp add: remove_from_seq_def)
next
  case (Some i)
  note r = remove_by_key [OF Some assms(2)]
  with Some assms(1) show ?thesis by (simp add: remove_from_seq_def Let_def)
qed


section \<open>Subscribing with enough memory\<close>

definition params_ok :: "client_env \<Rightarrow> bool" where
  "params_ok env \<longleftrightarrow>
     (\<forall>n. ce_params_ensure env n) \<and> (\<forall>s. ce_params_string env s) \<and> ce_params_set_length env \<and>
     (\<forall>p. ce_params_copy_one env p) \<and> ce_set_length env"

text \<open>What a subscription asks of the broker: each of its filters, with its QoS.\<close>

definition params_for :: "subscription_config \<Rightarrow> sub_params list" where
  "params_for cfg = map (\<lambda>f. \<lparr>sp_topic = f, sp_max_qos = max_qos cfg\<rparr>) (topic_filters cfg)"

lemma fill_params_ok: "\<forall>s. ce_params_string env s \<Longrightarrow>
  fill_params env q fs = Some (map (\<lambda>f. \<lparr>sp_topic = f, sp_max_qos = q\<rparr>) fs)"
  by (induction fs) auto

lemma collect_params_ok: "params_ok env \<Longrightarrow>
  collect_params env subs ps = Some (ps @ concat (map s_params subs))"
  by (induction subs arbitrary: ps) (auto simp: params_ok_def list_all_iff)

lemma get_params_ok: "params_ok env \<Longrightarrow>
  RTI_MQTT_Client_get_subscription_params env cfg ps = (DDS_RETCODE_OK, ps @ params_for cfg)"
  by (simp add: RTI_MQTT_Client_get_subscription_params_def params_ok_def fill_params_ok params_for_def Let_def)

lemma get_all_params_ok: "params_ok env \<Longrightarrow>
  RTI_MQTT_Client_get_all_subscription_params env subs ps = (DDS_RETCODE_OK, concat (map s_params subs))"
  by (simp add: RTI_MQTT_Client_get_all_subscription_params_def collect_params_ok)
    (simp add: params_ok_def)

definition with_sub :: "'d subscription \<Rightarrow> 'd subscription list \<Rightarrow> 'd subscription list" where
  "with_sub sub = map (\<lambda>s. if s_ptr s = s_ptr sub then sub else s)"

lemma put_sub_eq: "put_sub sub c = c\<lparr>c_subscriptions := with_sub sub (c_subscriptions c)\<rparr>"
  by (simp add: put_sub_def with_sub_def)

lemma with_sub_twice: "s_ptr a = s_ptr b \<Longrightarrow> with_sub a (with_sub b xs) = with_sub a xs"
  by (induction xs) (auto simp: with_sub_def)

lemma with_sub_append [simp]: "with_sub a (xs @ ys) = with_sub a xs @ with_sub a ys"
  by (simp add: with_sub_def)

lemma with_sub_absent [simp]: "s_ptr a \<notin> s_ptr ` set xs \<Longrightarrow> with_sub a xs = xs"
  by (induction xs) (auto simp: with_sub_def)

lemma with_sub_one [simp]: "s_ptr a = s_ptr b \<Longrightarrow> with_sub a [b] = [a]"
  by (simp add: with_sub_def)

lemma with_sub_same: "distinct (map s_ptr xs) \<Longrightarrow> a \<in> set xs \<Longrightarrow> with_sub a xs = xs"
  by (auto simp: with_sub_def inj_on_def distinct_map intro!: map_idI)

lemma map_ptr_with_sub [simp]: "map s_ptr (with_sub a xs) = map s_ptr xs"
  by (simp add: with_sub_def)

lemma with_sub_filter: "filter (\<lambda>s. s_ptr s \<noteq> s_ptr a) (with_sub a xs) = filter (\<lambda>s. s_ptr s \<noteq> s_ptr a) xs"
  by (induction xs) (auto simp: with_sub_def)

lemma sub_take_out [client_eqs]:
  "(sub_take c)\<lparr>c_subscriptions := xs\<rparr> = sub_take (c\<lparr>c_subscriptions := xs\<rparr>)"
  "(sub_take c)\<lparr>c_params := ps\<rparr> = sub_take (c\<lparr>c_params := ps\<rparr>)"
  "put_sub sub (sub_take c) = sub_take (put_sub sub c)"
  "(pub_take c)\<lparr>c_publications := ys\<rparr> = pub_take (c\<lparr>c_publications := ys\<rparr>)"
  "put_pub pub (pub_take c) = pub_take (put_pub pub c)"
  by (simp_all add: lock_defs put_sub_def put_pub_def)

lemma add_subscription_eq [client_eqs]:
  "RTI_MQTT_Client_add_subscription env sub c =
     (if ce_ensure_length env then (DDS_RETCODE_OK, c\<lparr>c_subscriptions := c_subscriptions c @ [sub]\<rparr>)
      else (DDS_RETCODE_ERROR, c))"
  by (simp add: RTI_MQTT_Client_add_subscription_def Let_def client_eqs)

lemma add_publication_eq [client_eqs]:
  "RTI_MQTT_Client_add_publication env pub c =
     (if ce_ensure_length env then (DDS_RETCODE_OK, c\<lparr>c_publications := c_publications c @ [pub]\<rparr>)
      else (DDS_RETCODE_ERROR, c))"
  by (simp add: RTI_MQTT_Client_add_publication_def Let_def client_eqs)

lemma remove_subscription_eq:
  assumes "ce_set_length env" and "distinct (map s_ptr (c_subscriptions c))"
  shows "snd (RTI_MQTT_Client_remove_subscription env p c) =
    c\<lparr>c_subscriptions := filter (\<lambda>s. s_ptr s \<noteq> p) (c_subscriptions c)\<rparr>"
  using remove_from_seq_eq [OF assms, of p]
  by (simp add: RTI_MQTT_Client_remove_subscription_def Let_def client_eqs case_prod_beta)

lemma remove_publication_eq:
  assumes "ce_set_length env" and "distinct (map p_ptr (c_publications c))"
  shows "snd (RTI_MQTT_Client_remove_publication env p c) =
    c\<lparr>c_publications := filter (\<lambda>q. p_ptr q \<noteq> p) (c_publications c)\<rparr>"
  using remove_from_seq_eq [OF assms, of p]
  by (simp add: RTI_MQTT_Client_remove_publication_def Let_def client_eqs case_prod_beta)

lemma delete_requests_eq:
  assumes "params_ok env"
  shows "RTI_MQTT_Client_delete_subscription_requests env sub c =
    (let sub' = sub\<lparr>s_params := [], s_req_sub := None, s_req_unsub := None\<rparr> in
     (DDS_RETCODE_OK, sub',
      c\<lparr>c_subscriptions := with_sub sub' (c_subscriptions c),
        c_params := concat (map s_params (with_sub sub' (c_subscriptions c)))\<rparr>))"
proof -
  have "ce_params_set_length env" using assms by (simp add: params_ok_def)
  moreover have "map s_params (with_sub (sub\<lparr>s_params := []\<rparr>) xs) =
      map s_params (with_sub (sub\<lparr>s_params := [], s_req_sub := None, s_req_unsub := None\<rparr>) xs)" for xs
    by (simp add: with_sub_def)
  ultimately show ?thesis
    using assms by (simp add: RTI_MQTT_Client_delete_subscription_requests_def Let_def client_eqs put_sub_eq
        get_all_params_ok RTI_MQTT_Client_delete_request_def with_sub_twice)
qed


lemma new_request_ok:
  "RTI_MQTT_Client_new_request re t = (rc, r) \<Longrightarrow> rc = DDS_RETCODE_OK \<longleftrightarrow> r \<noteq> None"
  "RTI_MQTT_Client_new_request re t = (rc, Some q) \<Longrightarrow>
     q = \<lparr>req_result = DDS_RETCODE_ERROR, req_triggered = False, req_timeout = t\<rparr>"
  by (auto simp: RTI_MQTT_Client_new_request_def split: if_splits)

definition with_reqs ::
    "'d subscription \<Rightarrow> request option \<Rightarrow> request option \<Rightarrow> 'd subscription" where
  "with_reqs sub r1 r2 = sub\<lparr>s_params := params_for (s_config sub), s_req_sub := r1, s_req_unsub := r2\<rparr>"

lemma with_reqs_sel [simp]:
  "s_ptr (with_reqs sub r1 r2) = s_ptr sub" "s_config (with_reqs sub r1 r2) = s_config sub"
  "s_params (with_reqs sub r1 r2) = params_for (s_config sub)" "s_req_sub (with_reqs sub r1 r2) = r1"
  "s_req_unsub (with_reqs sub r1 r2) = r2"
  "s_queue (with_reqs sub r1 r2) = s_queue sub"
  by (simp_all add: with_reqs_def)

lemma create_requests_eq:
  assumes "params_ok env" and "s_params sub = []" "s_req_sub sub = None" "s_req_unsub sub = None"
    and "s_ptr sub \<notin> s_ptr ` set subs"
    and "RTI_MQTT_Client_create_subscription_requests env sub (c\<lparr>c_subscriptions := subs @ [sub]\<rparr>) = (rc, sub1, c1)"
  shows "sub1 = with_reqs sub (s_req_sub sub1) (s_req_unsub sub1) \<and>
    c1 = c\<lparr>c_subscriptions := subs @ [sub1], c_params := concat (map s_params subs) @ params_for (s_config sub)\<rparr> \<and>
    (rc = DDS_RETCODE_OK \<longleftrightarrow> s_req_sub sub1 \<noteq> None \<and> s_req_unsub sub1 \<noteq> None)"
proof -
  obtain rc1 q1 where n1: "RTI_MQTT_Client_new_request (ce_req_sub env) (cfg_max_reply_timeout (c_config c)) = (rc1, q1)"
    by force
  obtain rc2 q2 where n2: "RTI_MQTT_Client_new_request (ce_req_unsub env) (cfg_max_reply_timeout (c_config c)) = (rc2, q2)"
    by force
  show ?thesis
    using assms new_request_ok(1) [OF n1] new_request_ok(1) [OF n2]
    by (cases sub) (auto simp: RTI_MQTT_Client_create_subscription_requests_def Let_def client_eqs put_sub_eq get_params_ok
        get_all_params_ok with_reqs_def n1 n2 split: if_splits)
qed

lemma new_subscription_facts:
  "RTI_MQTT_Subscription_new se cfg = Some (rc, Some sub) \<Longrightarrow>
   rc = DDS_RETCODE_OK \<and> s_ptr sub = se_ptr se \<and> s_config sub = cfg \<and> s_params sub = [] \<and>
   s_req_sub sub = None \<and> s_req_unsub sub = None"
  by (auto simp: RTI_MQTT_Subscription_new_def RTI_MQTT_Subscription_initialize_def
      split: if_splits option.splits prod.splits)

text \<open>The cleanup after a failed subscription brings back the list and the parameters.\<close>

lemma subscribe_error_eq:
  assumes "params_ok env" and "distinct (map s_ptr subs)" and "s_ptr sub \<notin> s_ptr ` set subs"
    and "c_subscriptions c = subs @ (if added then [sub] else [])"
    and "subscribe_error env qenv added sub c = Some (rc, p, c')"
  shows "rc = DDS_RETCODE_ERROR \<and> p = None \<and>
    c' = c\<lparr>c_subscriptions := subs, c_params := concat (map s_params subs)\<rparr>"
proof -
  have len: "ce_set_length env" using assms(1) by (simp add: params_ok_def)
  have f: "filter (\<lambda>s. s_ptr s \<noteq> s_ptr sub) subs = subs"
    using assms(3) by (auto intro!: filter_True simp: image_iff)
  show ?thesis
    using assms len f
    by (cases added)
      (auto simp: subscribe_error_def delete_requests_eq Let_def delete_sub_def remove_subscription_eq
        split: if_splits option.splits)
qed


text \<open>Operations that change the subscriptions, or the publications, and otherwise only the connection.\<close>

definition subs_frame :: "'d client \<Rightarrow> 'd client \<Rightarrow> bool" where
  "subs_frame c c' \<longleftrightarrow> link_frame c (c'\<lparr>c_subscriptions := c_subscriptions c, c_params := c_params c\<rparr>)"

definition pubs_frame :: "'d client \<Rightarrow> 'd client \<Rightarrow> bool" where
  "pubs_frame c c' \<longleftrightarrow> link_frame c (c'\<lparr>c_publications := c_publications c\<rparr>)"

lemma subs_frame_simps [simp]:
  "subs_frame c c" "subs_frame c (c'\<lparr>c_subscriptions := x\<rparr>) \<longleftrightarrow> subs_frame c c'"
  "subs_frame c (c'\<lparr>c_params := y\<rparr>) \<longleftrightarrow> subs_frame c c'"
  "subs_frame c (put_sub s c') \<longleftrightarrow> subs_frame c c'"
  "subs_frame c (c'\<lparr>c_state := st\<rparr>) \<longleftrightarrow> subs_frame c c'"
  by (auto simp: subs_frame_def link_frame_def frame_def locks_def put_sub_def)

lemma pubs_frame_simps [simp]:
  "pubs_frame c c" "pubs_frame c (c'\<lparr>c_publications := x\<rparr>) \<longleftrightarrow> pubs_frame c c'"
  "pubs_frame c (put_pub s c') \<longleftrightarrow> pubs_frame c c'"
  by (auto simp: pubs_frame_def link_frame_def frame_def locks_def put_pub_def)

lemma subs_frame_link: "subs_frame a b \<Longrightarrow> link_frame b c \<Longrightarrow> subs_frame a c"
  by (auto simp: subs_frame_def link_frame_def frame_def locks_def)

lemma pubs_frame_link: "pubs_frame a b \<Longrightarrow> link_frame b c \<Longrightarrow> pubs_frame a c"
  by (auto simp: pubs_frame_def link_frame_def frame_def locks_def)

lemma subs_frame_frame: "subs_frame c c' \<Longrightarrow> frame c c'"
  by (simp add: subs_frame_def link_frame_def frame_def locks_def)

lemma pubs_frame_frame: "pubs_frame c c' \<Longrightarrow> frame c c'"
  by (simp add: pubs_frame_def link_frame_def frame_def locks_def)

section \<open>The outcome of subscribing and unsubscribing\<close>

definition sub_ready :: "'d subscription \<Rightarrow> bool" where
  "sub_ready s \<longleftrightarrow>
     s_params s = params_for (s_config s) \<and> sub_requests (s_params s) \<noteq> None \<and> s_req_sub s \<noteq> None \<and>
     s_req_unsub s \<noteq> None"

lemma submit_ok_requests:
  "RTI_MQTT_Client_submit_subscriptions env ps req c = (DDS_RETCODE_OK, sm, req1, c1) \<Longrightarrow> sub_requests ps \<noteq> None"
  by (auto simp: RTI_MQTT_Client_submit_subscriptions_def client_eqs split: if_splits option.splits prod.splits)

lemma subscribe_outcome:
  assumes "params_ok env" and d: "distinct (map s_ptr (c_subscriptions c))"
    and fresh: "se_ptr se \<notin> s_ptr ` set (c_subscriptions c)"
    and run: "RTI_MQTT_Client_subscribe env se cfg c = Some (rc, p, c')"
  shows "subs_frame c c' \<and>
    (rc = DDS_RETCODE_OK \<and> p = Some (se_ptr se) \<and>
       (\<exists>s. s_ptr s = se_ptr se \<and> s_config s = cfg \<and> sub_ready s \<and>
            c_subscriptions c' = c_subscriptions c @ [s] \<and>
            c_params c' = concat (map s_params (c_subscriptions c)) @ params_for cfg) \<or>
     rc = DDS_RETCODE_ERROR \<and> p = None \<and> c_subscriptions c' = c_subscriptions c \<and>
       c_params c' = concat (map s_params (c_subscriptions c)))"
proof -
  let ?subs = "c_subscriptions c"
  obtain rc0 sub where n: "RTI_MQTT_Subscription_new se cfg = Some (rc0, Some sub)"
    using run by (auto simp: RTI_MQTT_Client_subscribe_def split: option.splits prod.splits)
  note sub = new_subscription_facts [OF n]
  have fresh': "s_ptr sub \<notin> s_ptr ` set ?subs" using sub fresh by simp
  show ?thesis
  proof (cases "ce_ensure_length env")
    case False
    then have "subscribe_error env (se_queue_env se) False sub c = Some (rc, p, c')"
      using run n by (simp add: RTI_MQTT_Client_subscribe_def client_eqs Let_def)
    from subscribe_error_eq [OF assms(1) d fresh' _ this] show ?thesis by simp
  next
    case True
    let ?c1 = "c\<lparr>c_subscriptions := ?subs @ [sub]\<rparr>"
    obtain rc1 sub1 c2 where cr: "RTI_MQTT_Client_create_subscription_requests env sub ?c1 = (rc1, sub1, c2)"
      by (metis prod_cases3)
    have e: "sub1 = with_reqs sub (s_req_sub sub1) (s_req_unsub sub1)"
        "c2 = c\<lparr>c_subscriptions := ?subs @ [sub1], c_params := concat (map s_params ?subs) @ params_for (s_config sub)\<rparr>"
        "rc1 = DDS_RETCODE_OK \<longleftrightarrow> s_req_sub sub1 \<noteq> None \<and> s_req_unsub sub1 \<noteq> None"
      using create_requests_eq [OF assms(1) _ _ _ fresh' cr] sub by simp_all
    have sub1: "s_ptr sub1 = se_ptr se" "s_config sub1 = cfg" "s_params sub1 = params_for cfg"
      using e(1) sub by (metis with_reqs_sel)+
    have fresh1: "s_ptr sub1 \<notin> s_ptr ` set ?subs" using sub1 fresh by simp
    show ?thesis
    proof (cases "rc1 = DDS_RETCODE_OK")
      case False
      then have "subscribe_error env (se_queue_env se) True sub1 c2 = Some (rc, p, c')"
        using run n cr True by (simp add: RTI_MQTT_Client_subscribe_def client_eqs Let_def)
      from subscribe_error_eq [OF assms(1) d fresh1 _ this] e(2) show ?thesis by simp
    next
      case ok1: True
      then obtain req where req: "s_req_sub sub1 = Some req" using e(3) by auto
      obtain rc3 sm req1 c3 where sb:
        "RTI_MQTT_Client_submit_subscriptions env (s_params sub1) req c2 = (rc3, sm, req1, c3)"
        by (metis prod_cases4)
      let ?s2 = "sub1\<lparr>s_req_sub := Some req1\<rparr>"
      have l: "link_frame c2 c3" using submit_link [OF sb] by simp
      have c3: "c_subscriptions c3 = ?subs @ [sub1]" "c_params c3 = concat (map s_params ?subs) @ params_for cfg"
        using l e(2) sub by (auto simp: link_frame_def)
      have fr: "subs_frame c c3" using subs_frame_link [OF _ l, of c] e(2) by simp
      have ps: "put_sub ?s2 c3 = c3\<lparr>c_subscriptions := ?subs @ [?s2]\<rparr>"
        using c3 fresh1 by (simp add: put_sub_eq)
      show ?thesis
      proof (cases "rc3 = DDS_RETCODE_OK")
        case False
        then have "subscribe_error env (se_queue_env se) True ?s2 (put_sub ?s2 c3) = Some (rc, p, c')"
          using run n cr True ok1 req sb
          by (simp add: RTI_MQTT_Client_subscribe_def client_eqs Let_def split: if_splits)
        from subscribe_error_eq [OF assms(1) d _ _ this] fresh1 ps fr show ?thesis by simp
      next
        case ok3: True
        then have "rc = DDS_RETCODE_OK" "p = Some (s_ptr sub1)" "c' = put_sub ?s2 c3"
          using run n cr True ok1 req sb by (simp_all add: RTI_MQTT_Client_subscribe_def client_eqs Let_def)
        moreover have "sub_requests (s_params sub1) \<noteq> None" using sb ok3 submit_ok_requests by metis
        then have "sub_ready ?s2" using sub1 e(3) ok1 by (simp add: sub_ready_def)
        ultimately show ?thesis using sub1 ps fr c3 by auto
      qed
    qed
  qed
qed


lemma concat_without:
  "f a' = [] \<Longrightarrow> s_ptr a' = s_ptr a \<Longrightarrow>
   concat (map f (with_sub a' xs)) = concat (map f (filter (\<lambda>s. s_ptr s \<noteq> s_ptr a) xs))"
  by (induction xs) (auto simp: with_sub_def)

lemma unsubscribe_outcome:
  assumes "params_ok env" and d: "distinct (map s_ptr (c_subscriptions c))"
    and run: "RTI_MQTT_Client_unsubscribe env qenv sub c = Some (rc, c')"
  shows "rc = DDS_RETCODE_OK \<and> subs_frame c c' \<and>
    c_subscriptions c' = filter (\<lambda>s. s_ptr s \<noteq> s_ptr sub) (c_subscriptions c) \<and>
    c_params c' = concat (map s_params (c_subscriptions c'))"
proof -
  obtain req where req: "s_req_unsub sub = Some req"
    using run by (auto simp: RTI_MQTT_Client_unsubscribe_def split: option.splits)
  obtain rc1 sm req1 c1 where cn:
    "RTI_MQTT_Client_cancel_subscriptions env (s_params sub) req c = (rc1, sm, req1, c1)"
    by (metis prod_cases4)
  have l: "link_frame c c1" using cancel_link [OF cn] by simp
  then have subs: "c_subscriptions c1 = c_subscriptions c" by (simp add: link_frame_def)
  let ?s1 = "sub\<lparr>s_req_unsub := Some req1\<rparr>"
  let ?s2 = "sub\<lparr>s_params := [], s_req_sub := None, s_req_unsub := None\<rparr>"
  let ?rest = "filter (\<lambda>s. s_ptr s \<noteq> s_ptr sub) (c_subscriptions c)"
  have f: "filter (\<lambda>s. s_ptr s \<noteq> s_ptr sub) (with_sub ?s2 (with_sub ?s1 (c_subscriptions c))) = ?rest"
    using with_sub_filter [of ?s2] with_sub_twice [of ?s2 ?s1 "c_subscriptions c"] by simp
  have p: "concat (map s_params (with_sub ?s2 (with_sub ?s1 (c_subscriptions c)))) = concat (map s_params ?rest)"
    using concat_without [of s_params ?s2 sub "c_subscriptions c"] with_sub_twice [of ?s2 ?s1 "c_subscriptions c"]
    by simp
  have len: "ce_set_length env" using assms(1) by (simp add: params_ok_def)
  have "rc = DDS_RETCODE_OK \<and> c' = c1\<lparr>c_subscriptions := ?rest, c_params := concat (map s_params ?rest)\<rparr>"
    using run req cn subs f p d len
    by (auto simp: RTI_MQTT_Client_unsubscribe_def delete_requests_eq [OF assms(1)] Let_def put_sub_eq delete_sub_def
        remove_subscription_eq split: if_splits option.splits)
  with subs_frame_link [OF _ l, of c] show ?thesis by simp
qed

section \<open>The outcome of publishing and unpublishing\<close>

definition with_pub :: "publication \<Rightarrow> publication list \<Rightarrow> publication list" where
  "with_pub pub = map (\<lambda>p. if p_ptr p = p_ptr pub then pub else p)"

lemma put_pub_eq: "put_pub pub c = c\<lparr>c_publications := with_pub pub (c_publications c)\<rparr>"
  by (simp add: put_pub_def with_pub_def)

lemma with_pub_append [simp]: "with_pub a (xs @ ys) = with_pub a xs @ with_pub a ys"
  by (simp add: with_pub_def)

lemma with_pub_absent [simp]: "p_ptr a \<notin> p_ptr ` set xs \<Longrightarrow> with_pub a xs = xs"
  by (induction xs) (auto simp: with_pub_def)

lemma with_pub_one [simp]: "p_ptr a = p_ptr b \<Longrightarrow> with_pub a [b] = [a]"
  by (simp add: with_pub_def)

lemma map_ptr_with_pub [simp]: "map p_ptr (with_pub a xs) = map p_ptr xs"
  by (simp add: with_pub_def)

lemma with_pub_filter: "filter (\<lambda>s. p_ptr s \<noteq> p_ptr a) (with_pub a xs) = filter (\<lambda>s. p_ptr s \<noteq> p_ptr a) xs"
  by (induction xs) (auto simp: with_pub_def)

lemma create_pub_requests_eq [client_eqs]:
  "RTI_MQTT_Client_create_publication_requests env pub c =
     (case RTI_MQTT_Client_new_request (ce_req_pub env) (cfg_max_reply_timeout (c_config c)) of
        (rc, req) \<Rightarrow> (rc_of (rc = DDS_RETCODE_OK), pub\<lparr>p_req := req\<rparr>, put_pub (pub\<lparr>p_req := req\<rparr>) c))"
  by (simp add: RTI_MQTT_Client_create_publication_requests_def Let_def client_eqs rc_of_def split: prod.split)

lemma delete_pub_requests_eq [client_eqs]:
  "RTI_MQTT_Client_delete_publication_requests pub c =
     (DDS_RETCODE_OK, pub\<lparr>p_req := None\<rparr>, put_pub (pub\<lparr>p_req := None\<rparr>) c)"
  by (simp add: RTI_MQTT_Client_delete_publication_requests_def RTI_MQTT_Client_delete_request_def Let_def client_eqs)

lemma new_publication_facts:
  "RTI_MQTT_Publication_new pe cfg = Some (rc, Some pub) \<Longrightarrow> p_ptr pub = pe_ptr pe \<and> p_config pub = cfg"
  by (auto simp: RTI_MQTT_Publication_new_def RTI_MQTT_Publication_initialize_def
      RTI_MQTT_Publication_store_topic_def Let_def split: if_splits option.splits prod.splits)

lemma publish_outcome:
  assumes "ce_set_length env" and d: "distinct (map p_ptr (c_publications c))"
    and fresh: "pe_ptr pe \<notin> p_ptr ` set (c_publications c)"
    and run: "RTI_MQTT_Client_publish env pe cfg c = Some (rc, p, c')"
  shows "pubs_frame c c' \<and>
    (rc = DDS_RETCODE_OK \<and> p = Some (pe_ptr pe) \<and>
       (\<exists>q. p_ptr q = pe_ptr pe \<and> p_config q = cfg \<and> p_req q \<noteq> None \<and> c_publications c' = c_publications c @ [q]) \<or>
     rc = DDS_RETCODE_ERROR \<and> p = None \<and> c_publications c' = c_publications c)"
proof -
  obtain rc0 pub where n: "RTI_MQTT_Publication_new pe cfg = Some (rc0, Some pub)"
    using run by (auto simp: RTI_MQTT_Client_publish_def split: option.splits prod.splits)
  note pub = new_publication_facts [OF n]
  obtain rc1 q where r: "RTI_MQTT_Client_new_request (ce_req_pub env) (cfg_max_reply_timeout (c_config c)) = (rc1, q)"
    by force
  have f: "filter (\<lambda>s. p_ptr s \<noteq> pe_ptr pe) (c_publications c) = c_publications c"
    using fresh by (auto intro!: filter_True simp: image_iff)
  show ?thesis
    using run n pub fresh d assms(1) f r new_request_ok(1) [OF r]
    by (auto simp: RTI_MQTT_Client_publish_def publish_error_def client_eqs Let_def put_pub_eq remove_publication_eq
        split: if_splits)
qed

lemma unpublish_outcome:
  assumes "ce_set_length env" and "distinct (map p_ptr (c_publications c))"
    and "RTI_MQTT_Client_unpublish env pub c = Some (rc, c')"
  shows "rc = DDS_RETCODE_OK \<and> pubs_frame c c' \<and>
    c_publications c' = filter (\<lambda>p. p_ptr p \<noteq> p_ptr pub) (c_publications c)"
  using assms with_pub_filter [of "pub\<lparr>p_req := None\<rparr>"]
  by (auto simp: RTI_MQTT_Client_unpublish_def client_eqs Let_def put_pub_eq remove_publication_eq
      split: if_splits)


section \<open>Writing and receiving\<close>

definition pub_step :: "publication \<Rightarrow> 'd client \<Rightarrow> publication \<times> 'd client \<Rightarrow> bool" where
  "pub_step p c x \<longleftrightarrow>
     p_ptr (fst x) = p_ptr p \<and> p_config (fst x) = p_config p \<and> (p_req (fst x) = None \<longleftrightarrow> p_req p = None) \<and>
     link_frame c (snd x)"

lemma pub_handle_result_step: "pub_step p c x \<Longrightarrow> pub_step p c (pub_handle_result we x r)"
  by (cases x) (auto simp: pub_step_def pub_handle_result_def handle_result_def client_eqs
      split: option.split prod.split)

lemma pub_step_status: "pub_step p c (q, d) \<Longrightarrow> pub_step p c (q\<lparr>p_status := st\<rparr>, d)"
  by (simp add: pub_step_def)

lemma on_write_result_step: "pub_step p c x \<Longrightarrow> pub_step p c (RTI_MQTT_Client_on_write_result we x r)"
  by (cases x; cases "p_last_write_qos (fst x)")
    (auto simp: RTI_MQTT_Client_on_write_result_def RTI_MQTT_Client_on_write_delivery_result_def
      RTI_MQTT_Publication_on_write_result_def RTI_MQTT_Publication_on_write_delivery_result_def Let_def
      intro!: pub_handle_result_step pub_step_status)

lemma wait_for_write_result_step:
  assumes "RTI_MQTT_Client_wait_for_write_result env p c = Some (rc, p1, c1)"
  shows "pub_step p c (p1, c1)"
proof -
  have "pub_step p c (snd (await (\<lambda>(p, _). the (p_req p)) (\<lambda>r (p, c). (p\<lparr>p_req := Some r\<rparr>, c))
      (RTI_MQTT_Client_on_write_result (ce_wait_write env)) (ce_wait_write env) (p, c)))"
    if "p_req p \<noteq> None"
  proof (rule await_inv)
    show "pub_step p c (p, c)" by (simp add: pub_step_def)
    show "pub_step p c (case x of (q, d) \<Rightarrow> (q\<lparr>p_req := Some r\<rparr>, d))" if "pub_step p c x" for r x
      using that \<open>p_req p \<noteq> None\<close> by (cases x) (simp add: pub_step_def del: not_None_eq)
  qed (rule on_write_result_step)
  with assms show ?thesis
    by (auto simp: RTI_MQTT_Client_wait_for_write_result_def split: if_splits prod.splits)
qed

text \<open>The publications keep their addresses and their requests.\<close>

definition pubs_kept :: "'d client \<Rightarrow> 'd client \<Rightarrow> bool" where
  "pubs_kept c c' \<longleftrightarrow>
     pubs_frame c c' \<and> map p_ptr (c_publications c') = map p_ptr (c_publications c) \<and>
     ((\<forall>q \<in> set (c_publications c). p_req q \<noteq> None) \<longrightarrow> (\<forall>q \<in> set (c_publications c'). p_req q \<noteq> None))"

lemma pubs_kept_refl [simp]: "pubs_kept c c" by (simp add: pubs_kept_def)

lemma pubs_kept_link: "pubs_kept a b \<Longrightarrow> link_frame b c \<Longrightarrow> pubs_kept a c"
  using pubs_frame_link [of a b c] by (simp add: pubs_kept_def link_frame_def)

lemma pubs_kept_put: "pubs_kept a b \<Longrightarrow> p_req p \<noteq> None \<Longrightarrow> pubs_kept a (put_pub p b)"
  by (auto simp: pubs_kept_def put_pub_eq) (auto simp: with_pub_def)

lemma write_w_params_kept:
  assumes run: "RTI_MQTT_Publication_write_w_params env p buffer topic wp c = Some (rc, p1, c1)"
    and c0: "pubs_kept c0 c" and req: "p_req p \<noteq> None"
  shows "pubs_kept c0 c1"
proof (cases "RTI_MQTT_Publication_is_configuration_valid (wp_qos_level wp) topic")
  case False
  with run c0 show ?thesis by (simp add: RTI_MQTT_Publication_write_w_params_def)
next
  case True
  obtain rc2 c2 where w: "RTI_MQTT_Client_write_message env buffer (the topic) wp c = (rc2, c2)" by force
  have "link_frame c c2" using w by (auto simp: client_eqs split: option.splits intro: link_frame_log)
  with c0 have k: "pubs_kept c0 c2" by (rule pubs_kept_link)
  have wait: "pubs_kept c0 (put_pub q d)"
    if "RTI_MQTT_Client_wait_for_write_result env a c2 = Some (rc, q, d)" "p_req a = p_req p" for rc q d a
    using wait_for_write_result_step [OF that(1)] that(2) req k
    by (auto simp: pub_step_def simp del: not_None_eq intro!: pubs_kept_put intro: pubs_kept_link)
  show ?thesis
    using run True w k req
    by (auto simp: RTI_MQTT_Publication_write_w_params_def Let_def simp del: not_None_eq split: if_splits option.splits
        intro!: pubs_kept_put dest!: wait)
qed

lemma write_target_facts:
  assumes "write_target we p m = Some ((rc, p1), wp)"
  shows "p_ptr p1 = p_ptr p \<and> p_req p1 = p_req p \<and> p_config p1 = p_config p \<and> p_status p1 = p_status p"
  using assms
  by (auto simp: write_target_def Let_def RTI_MQTT_Publication_store_topic_def
      split: if_splits option.splits)

lemma publication_write_kept:
  assumes run: "RTI_MQTT_Publication_write env we p m c = Some (rc, p1, c1)" and req: "p_req p \<noteq> None"
  shows "pubs_kept c c1"
proof -
  obtain rc0 p0 wp where t: "write_target we p m = Some ((rc0, p0), wp)"
    using run by (auto simp: RTI_MQTT_Publication_write_def split: option.splits prod.splits)
  have p0: "p_req p0 \<noteq> None" using write_target_facts [OF t] req by simp
  have wp: "pubs_kept c c1"
    if "RTI_MQTT_Publication_write_w_params env (p0\<lparr>p_payload := b\<rparr>) b tp wp
          (put_pub (p0\<lparr>p_payload := b\<rparr>) (put_pub p0 c)) = Some (rc, p1, c1)" for rc p1 c1 b tp
    by (rule write_w_params_kept [OF that]) (use p0 in \<open>auto intro!: pubs_kept_put\<close>)
  show ?thesis
    using run t p0
    by (auto simp: RTI_MQTT_Publication_write_def client_eqs Let_def simp del: not_None_eq
        split: if_splits option.splits intro!: pubs_kept_put dest!: wp)
qed

text \<open>What the arrival of a message does not change of a subscription.\<close>

definition sub_kept :: "'d subscription \<Rightarrow> 'd subscription \<Rightarrow> bool" where
  "sub_kept s s' \<longleftrightarrow>
     s_ptr s' = s_ptr s \<and> s_config s' = s_config s \<and> s_params s' = s_params s \<and> s_req_sub s' = s_req_sub s \<and>
     s_req_unsub s' = s_req_unsub s"

lemma sub_kept_refl [simp]: "sub_kept s s" by (simp add: sub_kept_def)

lemma deliver_to_kept:
  "deliver_to qenvs buffer len topic info subs = Some (rc, subs') \<Longrightarrow> list_all2 sub_kept subs subs'"
proof (induction subs arbitrary: rc subs')
  case Nil
  then show ?case by simp
next
  case (Cons sub subs)
  have refl: "list_all2 sub_kept xs xs" for xs :: "'a subscription list" by (simp add: list.rel_refl)
  have rcv: "sub_kept sub sub'"
    if "RTI_MQTT_Subscription_receive (qenvs (s_ptr sub)) sub buffer len topic info = Some (rc, sub')" for rc sub'
    using receive_spec [OF that] by (simp add: sub_kept_def)
  show ?case
    using Cons.prems Cons.IH refl
    by (auto split: option.splits if_splits prod.splits dest!: rcv)
qed

lemma sub_kept_ready: "sub_kept s s' \<Longrightarrow> sub_ready s \<Longrightarrow> sub_ready s'"
  unfolding sub_kept_def sub_ready_def by (elim conjE) (simp del: not_None_eq)

lemma list_all2_kept:
  assumes "list_all2 sub_kept xs ys"
  shows "map s_ptr ys = map s_ptr xs \<and> map s_params ys = map s_params xs \<and>
    ((\<forall>s \<in> set xs. sub_ready s) \<longrightarrow> (\<forall>s \<in> set ys. sub_ready s))"
  using assms
proof (induction xs ys rule: list_all2_induct)
  case Nil
  then show ?case by simp
next
  case (Cons x xs y ys)
  then have "s_ptr y = s_ptr x" "s_params y = s_params x" by (simp_all add: sub_kept_def)
  with Cons sub_kept_ready [of x y] show ?case by simp
qed

lemma on_message_arrived_kept:
  assumes "RTI_MQTT_Client_on_message_arrived qenvs topic buffer len info c = Some (rc, c1)"
  shows "subs_frame c c1 \<and> c_params c1 = c_params c \<and> list_all2 sub_kept (c_subscriptions c) (c_subscriptions c1)"
  using assms
  by (auto simp: RTI_MQTT_Client_on_message_arrived_def client_eqs Let_def split: option.splits if_splits
      dest!: deliver_to_kept)

section \<open>The invariant of the client\<close>

definition client_inv :: "'d client \<Rightarrow> bool" where
  "client_inv c \<longleftrightarrow>
     locks c = (0, 0, 0, 0) \<and> c_req_connect c \<noteq> None \<and> c_req_disconnect c \<noteq> None \<and> c_req_sub c \<noteq> None \<and>
     c_req_unsub c \<noteq> None \<and>
     distinct (map s_ptr (c_subscriptions c)) \<and> (\<forall>s \<in> set (c_subscriptions c). sub_ready s) \<and>
     c_params c = concat (map s_params (c_subscriptions c)) \<and>
     distinct (map p_ptr (c_publications c)) \<and> (\<forall>p \<in> set (c_publications c). p_req p \<noteq> None)"

lemma client_inv_link: "client_inv c \<Longrightarrow> link_frame c c' \<Longrightarrow> client_inv c'"
  by (simp add: client_inv_def link_frame_def frame_def del: not_None_eq)

lemma client_inv_subs:
  assumes "client_inv c" and "subs_frame c c'" and "distinct (map s_ptr (c_subscriptions c'))"
    and "\<forall>s \<in> set (c_subscriptions c'). sub_ready s" and "c_params c' = concat (map s_params (c_subscriptions c'))"
  shows "client_inv c'"
  using assms by (simp add: client_inv_def subs_frame_def link_frame_def frame_def locks_def del: not_None_eq)

lemma client_inv_pubs:
  assumes "client_inv c" and "pubs_frame c c'" and "distinct (map p_ptr (c_publications c'))"
    and "\<forall>p \<in> set (c_publications c'). p_req p \<noteq> None"
  shows "client_inv c'"
  using assms by (simp add: client_inv_def pubs_frame_def link_frame_def frame_def locks_def del: not_None_eq)

lemma client_inv_params:
  "client_inv c \<Longrightarrow> c_params c = concat (map (\<lambda>s. params_for (s_config s)) (c_subscriptions c))"
  by (auto simp: client_inv_def sub_ready_def intro!: arg_cong [where f = concat] map_cong)


end
