(* ===== verification/ClientTheorems.thy ===== *)
theory ClientTheorems
  imports ClientLemmas
begin

text \<open>
  The client as a system: events, reachable states, and the properties of connecting, recovering,
  subscribing, dispatching and writing.  The contract of an operation is the locale \<open>inv_op\<close>; every
  operation of the client is an interpretation of it, and an operation on the connection only is one
  by the sublocale \<open>link_op\<close>.
\<close>

section \<open>The contract of an operation\<close>

fun run_ops :: "('e \<Rightarrow> 'd client \<Rightarrow> ('r \<times> 'd client) option) \<Rightarrow> 'e list \<Rightarrow> 'd client \<Rightarrow> 'd client option" where
  "run_ops f [] c = Some c"
| "run_ops f (e # es) c = (case f e c of None \<Rightarrow> None | Some (_, c1) \<Rightarrow> run_ops f es c1)"

text \<open>Under its precondition an operation keeps the invariant, the configuration and the balance of the locks.\<close>

locale inv_op =
  fixes ok :: "'e \<Rightarrow> 'd client \<Rightarrow> bool" and f :: "'e \<Rightarrow> 'd client \<Rightarrow> ('r \<times> 'd client) option"
  assumes f_inv: "client_inv c \<Longrightarrow> ok e c \<Longrightarrow> f e c = Some (r, c') \<Longrightarrow> client_inv c' \<and> frame c c'"
begin

lemma inv: "client_inv c \<Longrightarrow> ok e c \<Longrightarrow> f e c = Some (r, c') \<Longrightarrow> client_inv c'"
  using f_inv by blast

lemma frame: "client_inv c \<Longrightarrow> ok e c \<Longrightarrow> f e c = Some (r, c') \<Longrightarrow> frame c c'"
  using f_inv by blast

end

text \<open>An operation on the connection, which has no precondition.\<close>

locale link_op =
  fixes f :: "'e \<Rightarrow> 'd client \<Rightarrow> ('r \<times> 'd client) option"
  assumes f_link: "f e c = Some (r, c') \<Longrightarrow> link_frame c c'"
begin

lemma runs_link: "run_ops f es c = Some c' \<Longrightarrow> link_frame c c'"
  by (induction es arbitrary: c) (auto split: option.splits dest!: f_link intro: link_frame_trans)

lemma keeps_subscriptions:
  "run_ops f es c = Some c' \<Longrightarrow> c_subscriptions c' = c_subscriptions c \<and> c_params c' = c_params c"
  using runs_link [of es c c'] by (simp add: link_frame_def)

end

sublocale link_op \<subseteq> op: inv_op "\<lambda>_ _. True" f
  by unfold_locales (auto dest!: f_link intro: client_inv_link link_frame_frame)

interpretation connect_op: link_op RTI_MQTT_Client_connect
  by unfold_locales (rule connect_link)

interpretation disconnect_op: link_op RTI_MQTT_Client_disconnect
  by unfold_locales (rule disconnect_link)

interpretation lost_op: link_op RTI_MQTT_Client_on_connection_lost
  by unfold_locales (rule on_connection_lost_link)

section \<open>Events\<close>

text \<open>
  The public operations and the callbacks of Paho; a subscription or publication is named by its
  address.  An event for an object the client does not have is not possible (\<open>None\<close>).
\<close>

datatype 'd event =
    Ev_connect client_env
  | Ev_disconnect client_env
  | Ev_lost "nat \<Rightarrow> client_env"
  | Ev_subscribe client_env "'d sub_env" subscription_config
  | Ev_unsubscribe client_env "'d queue_env" nat
  | Ev_publish client_env pub_env publication_config
  | Ev_unpublish client_env nat
  | Ev_write client_env "'d write_env" nat 'd
  | Ev_message "nat \<Rightarrow> 'd queue_env" i32 string mqtt_msg

definition find_sub :: "nat \<Rightarrow> 'd client \<Rightarrow> 'd subscription option" where
  "find_sub p c = find (\<lambda>s. s_ptr s = p) (c_subscriptions c)"

definition find_pub :: "nat \<Rightarrow> 'd client \<Rightarrow> publication option" where
  "find_pub p c = find (\<lambda>q. p_ptr q = p) (c_publications c)"

fun client_step :: "'d event \<Rightarrow> 'd client \<Rightarrow> 'd client option" where
  "client_step (Ev_connect env) c = map_option snd (RTI_MQTT_Client_connect env c)"
| "client_step (Ev_disconnect env) c = map_option snd (RTI_MQTT_Client_disconnect env c)"
| "client_step (Ev_lost envs) c = RTI_MQTT_ClientMqttApi_Paho_connection_lost_thread envs c"
| "client_step (Ev_subscribe env se cfg) c = map_option (snd \<circ> snd) (RTI_MQTT_Client_subscribe env se cfg c)"
| "client_step (Ev_unsubscribe env qenv p) c =
     Option.bind (find_sub p c) (\<lambda>s. map_option snd (RTI_MQTT_Client_unsubscribe env qenv s c))"
| "client_step (Ev_publish env pe cfg) c = map_option (snd \<circ> snd) (RTI_MQTT_Client_publish env pe cfg c)"
| "client_step (Ev_unpublish env p) c =
     Option.bind (find_pub p c) (\<lambda>q. map_option snd (RTI_MQTT_Client_unpublish env q c))"
| "client_step (Ev_write env we p m) c =
     Option.bind (find_pub p c) (\<lambda>q. map_option (snd \<circ> snd) (RTI_MQTT_Publication_write env we q m c))"
| "client_step (Ev_message qenvs i topic msg) c =
     map_option snd (RTI_MQTT_ClientMqttApi_Paho_on_message_arrived qenvs i topic msg c)"

text \<open>
  The environment of an event gives enough memory for the parameter lists, and the allocator returns
  an address that is not in use.  Nothing is assumed of Paho, of the replies, or of other memory.
\<close>

fun event_ok :: "'d event \<Rightarrow> 'd client \<Rightarrow> bool" where
  "event_ok (Ev_subscribe env se cfg) c \<longleftrightarrow> params_ok env \<and> find_sub (se_ptr se) c = None"
| "event_ok (Ev_unsubscribe env _ _) c \<longleftrightarrow> params_ok env"
| "event_ok (Ev_publish env pe cfg) c \<longleftrightarrow> ce_set_length env \<and> find_pub (pe_ptr pe) c = None"
| "event_ok (Ev_unpublish env _) c \<longleftrightarrow> ce_set_length env"
| "event_ok _ c \<longleftrightarrow> True"

inductive reachable :: "client_config \<Rightarrow> 'd client \<Rightarrow> bool" for cfg where
  new: "RTI_MQTT_Client_new ie env qenvs cfg = Some (rc, Some c) \<Longrightarrow> reachable cfg c"
| step: "reachable cfg c \<Longrightarrow> event_ok ev c \<Longrightarrow> client_step ev c = Some c' \<Longrightarrow> reachable cfg c'"

inductive_cases reachableE: "reachable cfg c"

section \<open>Every event keeps the invariant\<close>

lemma find_sub_facts:
  "find_sub p c = None \<longleftrightarrow> p \<notin> s_ptr ` set (c_subscriptions c)"
  "find_sub p c = Some s \<Longrightarrow> s \<in> set (c_subscriptions c) \<and> s_ptr s = p"
  by (auto simp: find_sub_def find_None_iff find_Some_iff)

lemma find_pub_facts:
  "find_pub p c = None \<longleftrightarrow> p \<notin> p_ptr ` set (c_publications c)"
  "find_pub p c = Some q \<Longrightarrow> q \<in> set (c_publications c) \<and> p_ptr q = p"
  by (auto simp: find_pub_def find_None_iff find_Some_iff)

lemma subscribe_inv:
  assumes "client_inv c" and "params_ok env" and "find_sub (se_ptr se) c = None"
    and "RTI_MQTT_Client_subscribe env se cfg c = Some (rc, p, c')"
  shows "client_inv c' \<and> frame c c'"
proof -
  have d: "distinct (map s_ptr (c_subscriptions c))" "\<forall>s \<in> set (c_subscriptions c). sub_ready s"
    using assms(1) by (simp_all add: client_inv_def)
  have fresh: "se_ptr se \<notin> s_ptr ` set (c_subscriptions c)" using assms(3) by (simp add: find_sub_facts)
  note o = subscribe_outcome [OF assms(2) d(1) fresh assms(4)]
  have "client_inv c'"
  proof (rule client_inv_subs [OF assms(1)])
    show "subs_frame c c'" using o by simp
    show "distinct (map s_ptr (c_subscriptions c'))" using o d(1) fresh by auto
    show "\<forall>s \<in> set (c_subscriptions c'). sub_ready s" using o d(2) by auto
    show "c_params c' = concat (map s_params (c_subscriptions c'))" using o by (auto simp: sub_ready_def)
  qed
  with o show ?thesis by (blast intro: subs_frame_frame)
qed

lemma unsubscribe_inv:
  assumes "client_inv c" and "params_ok env" and "RTI_MQTT_Client_unsubscribe env qenv s c = Some (rc, c')"
  shows "client_inv c' \<and> frame c c'"
proof -
  have d: "distinct (map s_ptr (c_subscriptions c))" "\<forall>s \<in> set (c_subscriptions c). sub_ready s"
    using assms(1) by (simp_all add: client_inv_def)
  note o = unsubscribe_outcome [OF assms(2) d(1) assms(3)]
  have "client_inv c'"
    by (rule client_inv_subs [OF assms(1)]) (use o d in \<open>auto simp: distinct_map_filter\<close>)
  with o show ?thesis by (blast intro: subs_frame_frame)
qed

lemma publish_inv:
  assumes "client_inv c" and "ce_set_length env" and "find_pub (pe_ptr pe) c = None"
    and "RTI_MQTT_Client_publish env pe cfg c = Some (rc, p, c')"
  shows "client_inv c' \<and> frame c c'"
proof -
  have d: "distinct (map p_ptr (c_publications c))" "\<forall>p \<in> set (c_publications c). p_req p \<noteq> None"
    using assms(1) by (simp_all add: client_inv_def)
  have fresh: "pe_ptr pe \<notin> p_ptr ` set (c_publications c)" using assms(3) by (simp add: find_pub_facts)
  note o = publish_outcome [OF assms(2) d(1) fresh assms(4)]
  have "client_inv c'"
  proof (rule client_inv_pubs [OF assms(1)])
    show "pubs_frame c c'" using o by simp
    show "distinct (map p_ptr (c_publications c'))" using o d(1) fresh by auto
    show "\<forall>p \<in> set (c_publications c'). p_req p \<noteq> None" using o d(2) by auto
  qed
  with o show ?thesis by (blast intro: pubs_frame_frame)
qed

lemma unpublish_inv:
  assumes "client_inv c" and "ce_set_length env" and "RTI_MQTT_Client_unpublish env q c = Some (rc, c')"
  shows "client_inv c' \<and> frame c c'"
proof -
  have d: "distinct (map p_ptr (c_publications c))" "\<forall>p \<in> set (c_publications c). p_req p \<noteq> None"
    using assms(1) by (simp_all add: client_inv_def)
  note o = unpublish_outcome [OF assms(2) d(1) assms(3)]
  have "client_inv c'"
    by (rule client_inv_pubs [OF assms(1)]) (use o d in \<open>auto simp: distinct_map_filter\<close>)
  with o show ?thesis by (blast intro: pubs_frame_frame)
qed

lemma write_inv:
  assumes "client_inv c" and "find_pub p c = Some q" and "RTI_MQTT_Publication_write env we q m c = Some (rc, q', c')"
  shows "client_inv c' \<and> frame c c'"
proof -
  have r: "\<forall>p \<in> set (c_publications c). p_req p \<noteq> None" and d: "distinct (map p_ptr (c_publications c))"
    using assms(1) by (simp_all add: client_inv_def)
  have "p_req q \<noteq> None" using find_pub_facts(2) [OF assms(2)] r by blast
  from publication_write_kept [OF assms(3) this] have k: "pubs_kept c c'" .
  then have f: "pubs_frame c c'" by (simp add: pubs_kept_def)
  have "client_inv c'"
    by (rule client_inv_pubs [OF assms(1) f]) (use k r d in \<open>auto simp: pubs_kept_def\<close>)
  with pubs_frame_frame [OF f] show ?thesis by simp
qed

lemma message_inv:
  assumes "client_inv c"
    and "RTI_MQTT_ClientMqttApi_Paho_on_message_arrived qenvs i topic msg c = Some (b, c')"
  shows "client_inv c' \<and> frame c c'"
proof (cases "snd (RTI_MQTT_QosLevel_from_mqtt_qos (mm_qos msg))")
  case None
  then have "c' = c" using assms(2)
    by (auto simp: RTI_MQTT_ClientMqttApi_Paho_on_message_arrived_def split: prod.splits)
  with assms(1) show ?thesis by simp
next
  case (Some q)
  then obtain rc info where "RTI_MQTT_Client_on_message_arrived qenvs topic (mm_payload msg) (mm_payloadlen msg)
      (Some info) c = Some (rc, c')"
    using assms(2)
    by (auto simp: RTI_MQTT_ClientMqttApi_Paho_on_message_arrived_def Let_def split: prod.splits)
  from on_message_arrived_kept [OF this] have k: "subs_frame c c'" "c_params c' = c_params c"
    "list_all2 sub_kept (c_subscriptions c) (c_subscriptions c')" by simp_all
  have "client_inv c'"
    by (rule client_inv_subs [OF assms(1) k(1)])
      (use list_all2_kept [OF k(3)] k(2) assms(1) in \<open>auto simp: client_inv_def\<close>)
  with subs_frame_frame [OF k(1)] show ?thesis by simp
qed

interpretation subscribe_op: inv_op
  "\<lambda>(env, se, cfg) c. params_ok env \<and> find_sub (se_ptr se) c = None"
  "\<lambda>(env, se, cfg) c. map_option (\<lambda>(rc, p, c'). ((rc, p), c')) (RTI_MQTT_Client_subscribe env se cfg c)"
  by unfold_locales (auto dest: subscribe_inv)

interpretation unsubscribe_op: inv_op
  "\<lambda>(env, qenv, s) c. params_ok env" "\<lambda>(env, qenv, s) c. RTI_MQTT_Client_unsubscribe env qenv s c"
  by unfold_locales (auto dest: unsubscribe_inv)

interpretation publish_op: inv_op
  "\<lambda>(env, pe, cfg) c. ce_set_length env \<and> find_pub (pe_ptr pe) c = None"
  "\<lambda>(env, pe, cfg) c. map_option (\<lambda>(rc, p, c'). ((rc, p), c')) (RTI_MQTT_Client_publish env pe cfg c)"
  by unfold_locales (auto dest: publish_inv)

interpretation unpublish_op: inv_op
  "\<lambda>(env, q) c. ce_set_length env" "\<lambda>(env, q) c. RTI_MQTT_Client_unpublish env q c"
  by unfold_locales (auto dest: unpublish_inv)

interpretation write_op: inv_op
  "\<lambda>(env, we, q, m) c. find_pub (p_ptr q) c = Some q"
  "\<lambda>(env, we, q, m) c. map_option (\<lambda>(rc, q', c'). ((rc, q'), c')) (RTI_MQTT_Publication_write env we q m c)"
  by unfold_locales (auto dest: write_inv)

interpretation message_op: inv_op
  "\<lambda>_ _. True"
  "\<lambda>(qenvs, i, topic, msg) c. RTI_MQTT_ClientMqttApi_Paho_on_message_arrived qenvs i topic msg c"
  by unfold_locales (auto dest: message_inv)


lemma step_inv:
  assumes "client_inv c" and "event_ok ev c" and "client_step ev c = Some c'"
  shows "client_inv c' \<and> frame c c'"
proof (cases ev)
  case (Ev_connect env)
  with assms connect_op.op.f_inv [of c env] show ?thesis by auto
next
  case (Ev_disconnect env)
  with assms disconnect_op.op.f_inv [of c env] show ?thesis by auto
next
  case (Ev_lost envs)
  with assms lost_op.op.f_inv [of c envs] show ?thesis
    by (auto simp: RTI_MQTT_ClientMqttApi_Paho_connection_lost_thread_def)
next
  case (Ev_subscribe env se cfg)
  with assms subscribe_op.f_inv [of c "(env, se, cfg)"] show ?thesis by auto
next
  case (Ev_unsubscribe env qenv p)
  with assms show ?thesis by (auto simp: bind_eq_Some_conv dest: unsubscribe_op.f_inv [of c "(env, qenv, _)", simplified])
next
  case (Ev_publish env pe cfg)
  with assms publish_op.f_inv [of c "(env, pe, cfg)"] show ?thesis by auto
next
  case (Ev_unpublish env p)
  with assms show ?thesis by (auto simp: bind_eq_Some_conv dest: unpublish_op.f_inv [of c "(env, _)", simplified])
next
  case (Ev_write env we p m)
  with assms obtain q rc q' where "find_pub p c = Some q"
    "RTI_MQTT_Publication_write env we q m c = Some (rc, q', c')"
    by (auto simp: bind_eq_Some_conv)
  with assms(1) write_op.f_inv [of c "(env, we, q, m)"] find_pub_facts(2) [of p c q] show ?thesis by auto
next
  case (Ev_message qenvs i topic msg)
  with assms message_op.f_inv [of c "(qenvs, i, topic, msg)"] show ?thesis by auto
qed

lemma paho_create_ok:
  assumes "RTI_MQTT_ClientMqttApi_Paho_create_client env c = Some (DDS_RETCODE_OK, c')"
  shows "c_client c' \<and> (\<exists>ks. c' = c\<lparr>c_client := True, c_calls := ks\<rparr>)"
  using assms
  by (auto simp: RTI_MQTT_ClientMqttApi_Paho_create_client_def paho_def Let_def lock_defs split: list.splits if_splits)

lemma client_new_facts:
  assumes "RTI_MQTT_Client_new ie env qenvs cfg = Some (rc, Some c)"
  shows "client_inv c \<and> c_config c = cfg \<and> c_state c = ClientStateKind_DISCONNECTED \<and> c_client c \<and>
    c_subscriptions c = [] \<and> c_publications c = [] \<and> (\<forall>r \<in> set_option (c_req_connect c). \<not> req_triggered r) \<and>
    (\<forall>r \<in> set_option (c_req_disconnect c). \<not> req_triggered r) \<and> (\<forall>r \<in> set_option (c_req_sub c). \<not> req_triggered r) \<and>
    (\<forall>r \<in> set_option (c_req_unsub c). \<not> req_triggered r)"
proof -
  have i: "RTI_MQTT_Client_initialize ie env qenvs cfg = Some (DDS_RETCODE_OK, c)"
    using assms by (auto simp: RTI_MQTT_Client_new_def split: if_splits)
  obtain r1 r2 r3 r4 where "RTI_MQTT_ClientMqttApi_Paho_create_client env
      ((initial_client cfg)\<lparr>c_req_connect := Some r1, c_req_disconnect := Some r2, c_req_sub := Some r3,
        c_req_unsub := Some r4\<rparr>) = Some (DDS_RETCODE_OK, c)"
    and "\<not> req_triggered r1" "\<not> req_triggered r2" "\<not> req_triggered r3" "\<not> req_triggered r4"
    using i
    by (auto simp: RTI_MQTT_Client_initialize_def Let_def RTI_MQTT_Client_new_request_def
        split: if_splits option.splits prod.splits)
  with paho_create_ok [OF this(1)] show ?thesis
    by (auto simp: initial_client_def client_inv_def locks_def)
qed

lemma reachable_inv: "reachable cfg c \<Longrightarrow> client_inv c \<and> c_config c = cfg"
proof (induction rule: reachable.induct)
  case (new ie env qenvs rc c)
  then show ?case using client_new_facts by blast
next
  case (step c ev c')
  then show ?case using step_inv [of c ev c'] by (auto simp: frame_def)
qed


section \<open>Connecting\<close>

text \<open>What the broker is asked for: every filter of every subscription, in order, with its QoS.\<close>

definition all_requests :: "'d subscription list \<Rightarrow> (string \<times> i32) list" where
  "all_requests subs = concat (map (\<lambda>s. the (sub_requests (params_for (s_config s)))) subs)"

lemma sub_requests_append:
  "sub_requests (ps @ qs) =
     (case sub_requests ps of None \<Rightarrow> None | Some xs \<Rightarrow> map_option (\<lambda>ys. xs @ ys) (sub_requests qs))"
  by (cases "sub_requests qs"; induction ps) (auto split: option.splits prod.splits)

lemma sub_requests_all:
  assumes "\<forall>s \<in> set subs. sub_ready s"
  shows "sub_requests (concat (map s_params subs)) = Some (all_requests subs)"
proof -
  have "sub_requests (s_params s) = Some (the (sub_requests (params_for (s_config s))))" if "sub_ready s" for s :: "'a subscription"
    using that by (auto simp: sub_ready_def)
  with assms show ?thesis by (induction subs) (auto simp: all_requests_def sub_requests_append)
qed

lemma sub_requests_topics: "sub_requests ps = Some rs \<Longrightarrow> map fst rs = map sp_topic ps"
  by (induction ps arbitrary: rs) (auto split: option.splits prod.splits)

lemma all_requests_topics:
  assumes "\<forall>s \<in> set subs. sub_ready s"
  shows "map fst (all_requests subs) = concat (map (topic_filters \<circ> s_config) subs)"
proof -
  have "map fst (the (sub_requests (params_for (s_config s)))) = topic_filters (s_config s)"
    if "sub_ready s" for s :: "'a subscription"
    using that sub_requests_topics [of "params_for (s_config s)"]
    by (auto simp: sub_ready_def) (simp add: params_for_def o_def)
  with assms show ?thesis by (induction subs) (auto simp: all_requests_def)
qed

text \<open>The calls of a successful resubmission, nothing when there is no filter.\<close>

definition resubscribe_calls :: "'d subscription list \<Rightarrow> paho_call list" where
  "resubscribe_calls subs =
     (if concat (map (topic_filters \<circ> s_config) subs) = [] then []
      else [MQTTAsync_subscribeMany (all_requests subs)])"

text \<open>The requests of the client are not triggered by a reply nobody waited for.\<close>

definition untriggered :: "'d client \<Rightarrow> bool" where
  "untriggered c \<longleftrightarrow>
     (\<forall>r \<in> set_option (c_req_connect c) \<union> set_option (c_req_disconnect c) \<union> set_option (c_req_sub c) \<union>
         set_option (c_req_unsub c). \<not> req_triggered r)"

definition quiet_env :: "client_env \<Rightarrow> bool" where
  "quiet_env env \<longleftrightarrow>
     quiet (ce_wait_connect env) \<and> quiet (ce_wait_disconnect env) \<and> quiet (ce_wait_sub env) \<and>
     quiet (ce_wait_unsub env)"

lemma wait_result_ok: "quiet we \<Longrightarrow> wait_result we req = DDS_RETCODE_OK \<longleftrightarrow> we_reply we = Some DDS_RETCODE_OK"
  by (auto simp: wait_result_def quiet_def wait_ok_def split: option.split)

lemma no_params: "client_inv c \<Longrightarrow> c_params c = [] \<longleftrightarrow> concat (map (topic_filters \<circ> s_config) (c_subscriptions c)) = []"
  by (simp add: client_inv_params params_for_def)

definition submit_accepted :: "client_env \<Rightarrow> 'd subscription list \<Rightarrow> bool" where
  "submit_accepted env subs \<longleftrightarrow>
     ce_params_copy env \<and>
     (resubscribe_calls subs = [] \<or>
      ce_alloc env \<and> ce_paho env (MQTTAsync_subscribeMany (all_requests subs)) \<and>
      we_reply (ce_wait_sub env) = Some DDS_RETCODE_OK)"

lemma submit_all_outcome:
  assumes inv: "client_inv c" and q: "quiet_env env" "untriggered c"
  shows "\<exists>c'. RTI_MQTT_Client_submit_all_subscriptions env c =
      Some (rc_of (submit_accepted env (c_subscriptions c)), c') \<and>
    c_state c' = c_state c \<and> untriggered c' \<and>
    (submit_accepted env (c_subscriptions c) \<longrightarrow> c_calls c' = c_calls c @ resubscribe_calls (c_subscriptions c))"
proof -
  obtain req where req: "c_req_sub c = Some req" using inv by (auto simp: client_inv_def)
  have nt: "\<not> req_triggered req" using q(2) req by (simp add: untriggered_def)
  have ps: "sub_requests (c_params c) = Some (all_requests (c_subscriptions c))"
    using inv sub_requests_all by (auto simp: client_inv_def)
  have emp: "c_params c = [] \<longleftrightarrow> resubscribe_calls (c_subscriptions c) = []"
    using no_params [OF inv] by (simp add: resubscribe_calls_def)
  have quiet: "quiet (ce_wait_sub env)" "we_late (ce_wait_sub env) = None" using q(1) by (auto simp: quiet_env_def quiet_def)
  have same: "c\<lparr>c_req_sub := Some req\<rparr> = c" using req by (cases c) simp
  have same': "req\<lparr>req_triggered := False\<rparr> = req" using nt by (cases req) simp
  have rs: "resubscribe_calls (c_subscriptions c) = [MQTTAsync_subscribeMany (all_requests (c_subscriptions c))]"
    if "c_params c \<noteq> []"
    using that emp unfolding resubscribe_calls_def by (metis (full_types))
  show ?thesis
    using req nt ps emp quiet same same' rs q(2)
    by (auto simp: RTI_MQTT_Client_submit_all_subscriptions_def RTI_MQTT_Client_submit_subscriptions_def client_eqs
        Let_def RTI_MQTT_Client_on_subscription_result_def await_handle_eq wait_result_ok submit_accepted_def
        untriggered_def rc_of_def split: if_splits)
qed


text \<open>Paho takes the connection request and the broker accepts it.\<close>

definition connect_accepted :: "client_env \<Rightarrow> client_config \<Rightarrow> bool" where
  "connect_accepted env cfg \<longleftrightarrow>
     (\<exists>opts. conn_opts_of env cfg = Some opts \<and> ce_paho env (MQTTAsync_connect opts)) \<and>
     we_reply (ce_wait_connect env) = Some DDS_RETCODE_OK"

lemma untriggered_steps [simp]:
  "untriggered (c\<lparr>c_state := st\<rparr>) \<longleftrightarrow> untriggered c" "untriggered (log x c) \<longleftrightarrow> untriggered c"
  by (simp_all add: untriggered_def)

lemma connect_rejected:
  assumes inv: "client_inv c" and q: "quiet_env env" "untriggered c"
    and st: "c_state c = ClientStateKind_DISCONNECTED" and rej: "\<not> connect_accepted env (c_config c)"
  shows "\<exists>c'. RTI_MQTT_Client_connect env c = Some (DDS_RETCODE_ERROR, c') \<and>
    c_state c' = ClientStateKind_DISCONNECTED \<and> untriggered c'"
proof -
  obtain req where req: "c_req_connect c = Some req" using inv by (auto simp: client_inv_def)
  have nt: "\<not> req_triggered req" using q(2) req by (simp add: untriggered_def)
  have quiet: "quiet (ce_wait_connect env)" using q(1) by (simp add: quiet_env_def)
  show ?thesis
    using st rej req nt quiet q(2)
    by (auto simp: connect_eq Paho_connect_eq connect_accepted_def await_connect_eq wait_result_ok untriggered_def
        split: option.split)
qed

lemma connect_reaches_submit:
  assumes inv: "client_inv c" and q: "quiet_env env" "untriggered c"
    and st: "c_state c = ClientStateKind_DISCONNECTED" and acc: "connect_accepted env (c_config c)"
  shows "\<exists>c1. client_inv c1 \<and> untriggered c1 \<and> c_state c1 = ClientStateKind_CONNECTED \<and>
    c_subscriptions c1 = c_subscriptions c \<and> c_config c1 = c_config c \<and>
    c_calls c1 = c_calls c @ [MQTTAsync_connect (the (conn_opts_of env (c_config c)))] \<and>
    RTI_MQTT_Client_connect env c =
      (case RTI_MQTT_Client_submit_all_subscriptions env c1 of
         None \<Rightarrow> None
       | Some (rc, c6) \<Rightarrow>
           if rc = DDS_RETCODE_OK then Some (DDS_RETCODE_OK, c6)
           else map_option (\<lambda>(_, c7). (DDS_RETCODE_ERROR, c7)) (RTI_MQTT_Client_disconnect env c6))"
proof -
  obtain req where req: "c_req_connect c = Some req" using inv by (auto simp: client_inv_def)
  have nt: "\<not> req_triggered req" using q(2) req by (simp add: untriggered_def)
  have quiet: "quiet (ce_wait_connect env)" using q(1) by (simp add: quiet_env_def)
  obtain opts where opts: "conn_opts_of env (c_config c) = Some opts" "ce_paho env (MQTTAsync_connect opts)"
    "we_reply (ce_wait_connect env) = Some DDS_RETCODE_OK"
    using acc by (auto simp: connect_accepted_def)
  let ?c1 = "(log (MQTTAsync_connect opts) (c\<lparr>c_state := ClientStateKind_CONNECTING\<rparr>))
    \<lparr>c_req_connect := Some (wait_request (ce_wait_connect env) req), c_state := ClientStateKind_CONNECTED\<rparr>"
  have "link_frame c ?c1" using req by (simp add: link_frame_log)
  then have "client_inv ?c1" by (rule client_inv_link [OF inv])
  moreover have "untriggered ?c1" using q(2) nt by (simp add: untriggered_def)
  moreover have "RTI_MQTT_Client_connect env c =
      (case RTI_MQTT_Client_submit_all_subscriptions env ?c1 of
         None \<Rightarrow> None
       | Some (rc, c6) \<Rightarrow>
           if rc = DDS_RETCODE_OK then Some (DDS_RETCODE_OK, c6)
           else map_option (\<lambda>(_, c7). (DDS_RETCODE_ERROR, c7)) (RTI_MQTT_Client_disconnect env c6))"
    using st req nt quiet opts
    by (simp add: connect_eq Paho_connect_eq await_connect_eq wait_result_ok [THEN iffD2])
  ultimately show ?thesis using opts(1) by (intro exI [of _ ?c1]) simp
qed

lemma connect_succeeds:
  assumes inv: "client_inv c" and q: "quiet_env env" "untriggered c"
    and st: "c_state c = ClientStateKind_DISCONNECTED" and acc: "connect_accepted env (c_config c)"
    and sub: "submit_accepted env (c_subscriptions c)"
  shows "\<exists>c'. RTI_MQTT_Client_connect env c = Some (DDS_RETCODE_OK, c') \<and>
    c_state c' = ClientStateKind_CONNECTED \<and> untriggered c' \<and>
    c_calls c' = c_calls c @ MQTTAsync_connect (the (conn_opts_of env (c_config c))) #
      resubscribe_calls (c_subscriptions c)"
proof -
  obtain c1 where c1: "client_inv c1" "untriggered c1" "c_state c1 = ClientStateKind_CONNECTED"
    "c_subscriptions c1 = c_subscriptions c"
    "c_calls c1 = c_calls c @ [MQTTAsync_connect (the (conn_opts_of env (c_config c)))]"
    and e: "RTI_MQTT_Client_connect env c =
      (case RTI_MQTT_Client_submit_all_subscriptions env c1 of
         None \<Rightarrow> None
       | Some (rc, c6) \<Rightarrow>
           if rc = DDS_RETCODE_OK then Some (DDS_RETCODE_OK, c6)
           else map_option (\<lambda>(_, c7). (DDS_RETCODE_ERROR, c7)) (RTI_MQTT_Client_disconnect env c6))"
    using connect_reaches_submit [OF inv q st acc] by blast
  from submit_all_outcome [OF c1(1) q(1) c1(2)] sub c1 e show ?thesis by auto
qed


lemma cancel_all_outcome:
  assumes inv: "client_inv c" and q: "quiet_env env" "untriggered c"
  shows "\<exists>rc c'. RTI_MQTT_Client_cancel_all_subscriptions env c = Some (rc, c') \<and>
    c_state c' = c_state c \<and> untriggered c'"
proof -
  obtain req where req: "c_req_unsub c = Some req" using inv by (auto simp: client_inv_def)
  have nt: "\<not> req_triggered req" using q(2) req by (simp add: untriggered_def)
  have quiet: "quiet (ce_wait_unsub env)" "we_late (ce_wait_unsub env) = None"
    using q(1) by (auto simp: quiet_env_def quiet_def)
  show ?thesis
    using req nt quiet q(2)
    by (auto simp: RTI_MQTT_Client_cancel_all_subscriptions_def RTI_MQTT_Client_cancel_subscriptions_def client_eqs
        Let_def RTI_MQTT_Client_on_unsubscription_result_def await_handle_eq untriggered_def)
qed

text \<open>A client that is told to disconnect ends disconnected, or stays in the state of disconnecting.\<close>

lemma disconnect_outcome:
  assumes inv: "client_inv c" and q: "quiet_env env" "untriggered c"
    and st: "c_state c = ClientStateKind_CONNECTED \<or> c_state c = ClientStateKind_ERROR"
  shows "\<exists>rc c'. RTI_MQTT_Client_disconnect env c = Some (rc, c') \<and> untriggered c' \<and>
    (rc = DDS_RETCODE_OK \<and> c_state c' = ClientStateKind_DISCONNECTED \<or>
     rc = DDS_RETCODE_ERROR \<and> c_state c' = ClientStateKind_DISCONNECTING)"
proof -
  let ?d = "c\<lparr>c_state := ClientStateKind_DISCONNECTING\<rparr>"
  have d: "client_inv ?d" "untriggered ?d" using inv q(2) by (auto intro: client_inv_link)
  define X where "X = (if cfg_unsubscribe_on_disconnect (c_config c)
    then RTI_MQTT_Client_cancel_all_subscriptions env ?d else Some (DDS_RETCODE_OK, ?d))"
  obtain rc2 c2 where X: "X = Some (rc2, c2)" "c_state c2 = ClientStateKind_DISCONNECTING" "untriggered c2"
    using cancel_all_outcome [OF d(1) q(1) d(2)] d(2)
    by (cases "cfg_unsubscribe_on_disconnect (c_config c)") (auto simp: X_def)
  have "link_frame c c2" using X(1) cancel_all_link [of env ?d] by (auto simp: X_def split: if_splits)
  from client_inv_link [OF inv this] obtain req where req: "c_req_disconnect c2 = Some req"
    by (auto simp: client_inv_def)
  have nt: "\<not> req_triggered req" using X(3) req by (simp add: untriggered_def)
  have quiet: "quiet (ce_wait_disconnect env)" using q(1) by (simp add: quiet_env_def)
  have "RTI_MQTT_Client_disconnect env c =
    (case X of None \<Rightarrow> None
     | Some (rc, c2) \<Rightarrow>
         if rc \<noteq> DDS_RETCODE_OK then Some (DDS_RETCODE_ERROR, c2)
         else if \<not> ce_paho env MQTTAsync_disconnect
         then Some (DDS_RETCODE_ERROR, log MQTTAsync_disconnect c2)
         else
           case c_req_disconnect c2 of
             None \<Rightarrow> None
           | Some req \<Rightarrow>
               case await_request (handle_result (ce_wait_disconnect env)) (ce_wait_disconnect env) req
                      (log MQTTAsync_disconnect c2) of
                 (rc, req1, c4) \<Rightarrow>
                   Some (if rc \<noteq> DDS_RETCODE_OK then (DDS_RETCODE_ERROR, c4\<lparr>c_req_disconnect := Some req1\<rparr>)
                         else (DDS_RETCODE_OK, c4\<lparr>c_req_disconnect := Some req1,
                                                 c_state := ClientStateKind_DISCONNECTED\<rparr>)))"
    using st unfolding disconnect_eq X_def by auto
  then show ?thesis
    using X req nt quiet by (auto simp: await_handle_eq untriggered_def)
qed

section \<open>Properties\<close>

text \<open>
  Claim C3.  In every state the client can reach by any sequence of its operations and of the
  callbacks of Paho, the locks are balanced, every request exists, the addresses of subscriptions and
  publications are distinct, and the list of parameters kept for the next connection is exactly that
  of the current subscriptions: each topic filter of each subscription with its QoS, in order.
\<close>

theorem client_invariant:
  assumes "reachable cfg c"
  shows "client_inv c \<and> c_config c = cfg \<and>
    c_params c = concat (map (\<lambda>s. params_for (s_config s)) (c_subscriptions c))"
  using reachable_inv [OF assms] client_inv_params by blast

text \<open>
  Claim C4.  Connecting a disconnected client, none of whose requests is still triggered by a
  reply that came after its wait (\<open>untriggered\<close>), when the replies to its own requests arrive
  during their waits or not at all and signalling and waiting themselves do not fail (\<open>quiet_env\<close>):
  whatever Paho and the broker answer, it comes back; it succeeds exactly when the connection is
  accepted and all current subscriptions are accepted, after sending the connection request and one
  request with every topic filter; after a failure the client is disconnected, or disconnecting when
  the connection was accepted.  Without the two conditions this fails: the guard condition of
  a request is not reset before the request, so a late reply decides the outcome of the next wait.
\<close>

theorem connect_outcome:
  assumes "reachable cfg c" and "quiet_env env" and "untriggered c" and "c_state c = ClientStateKind_DISCONNECTED"
  shows "\<exists>rc c'. RTI_MQTT_Client_connect env c = Some (rc, c') \<and>
    (rc = DDS_RETCODE_OK \<longleftrightarrow> connect_accepted env cfg \<and> submit_accepted env (c_subscriptions c)) \<and>
    (rc = DDS_RETCODE_OK \<longrightarrow> c_state c' = ClientStateKind_CONNECTED \<and>
       c_calls c' = c_calls c @ MQTTAsync_connect (the (conn_opts_of env cfg)) # resubscribe_calls (c_subscriptions c)) \<and>
    (rc \<noteq> DDS_RETCODE_OK \<longrightarrow>
       c_state c' = ClientStateKind_DISCONNECTED \<or>
       connect_accepted env cfg \<and> c_state c' = ClientStateKind_DISCONNECTING)"
proof -
  have inv: "client_inv c" "c_config c = cfg" using reachable_inv [OF assms(1)] by simp_all
  note q = assms(2,3) and st = assms(4)
  show ?thesis
  proof (cases "connect_accepted env cfg")
    case False
    with connect_rejected [OF inv(1) q st] inv(2) show ?thesis by fastforce
  next
    case acc: True
    obtain c1 where c1: "client_inv c1" "untriggered c1" "c_state c1 = ClientStateKind_CONNECTED"
      "c_subscriptions c1 = c_subscriptions c"
      and e: "RTI_MQTT_Client_connect env c =
        (case RTI_MQTT_Client_submit_all_subscriptions env c1 of
           None \<Rightarrow> None
         | Some (rc, c6) \<Rightarrow>
             if rc = DDS_RETCODE_OK then Some (DDS_RETCODE_OK, c6)
             else map_option (\<lambda>(_, c7). (DDS_RETCODE_ERROR, c7)) (RTI_MQTT_Client_disconnect env c6))"
      using connect_reaches_submit [OF inv(1) q st] acc inv(2) by blast
    show ?thesis
    proof (cases "submit_accepted env (c_subscriptions c)")
      case True
      with connect_succeeds [OF inv(1) q st] acc inv(2) show ?thesis by fastforce
    next
      case False
      then obtain c6 where c6: "RTI_MQTT_Client_submit_all_subscriptions env c1 = Some (DDS_RETCODE_ERROR, c6)"
        "c_state c6 = ClientStateKind_CONNECTED" "untriggered c6"
        using submit_all_outcome [OF c1(1) q(1) c1(2)] c1 by (auto simp: rc_of_def)
      have "client_inv c6" using client_inv_link [OF c1(1) submit_all_link [OF c6(1)]] .
      from disconnect_outcome [OF this q(1) c6(3)] c6 e False acc show ?thesis by auto
    qed
  qed
qed




text \<open>
  Why the two properties above need requests that are not triggered: a late success of an earlier
  connection request makes a client report a connection for which the broker has sent no reply at all.
\<close>

lemma connect_stale_reply:
  assumes "c_state c = ClientStateKind_DISCONNECTED" and "c_req_connect c = Some req"
    and "req_triggered req" and "req_result req = DDS_RETCODE_OK"
    and "wait_ok (ce_wait_connect env)" and "we_reply (ce_wait_connect env) = None" and "we_late (ce_wait_connect env) = None"
    and "conn_opts_of env (c_config c) = Some opts" and "ce_paho env (MQTTAsync_connect opts)"
    and "client_inv c" and "c_subscriptions c = []" and "ce_params_copy env"
  shows "\<exists>c'. RTI_MQTT_Client_connect env c = Some (DDS_RETCODE_OK, c') \<and> c_state c' = ClientStateKind_CONNECTED"
proof -
  have p: "c_params c = []" "\<exists>r. c_req_sub c = Some r" using assms(10,11) client_inv_params [OF assms(10)]
    by (auto simp: client_inv_def)
  have w: "await_request h (ce_wait_connect env) req d = (DDS_RETCODE_OK, req\<lparr>req_triggered := False\<rparr>, d)" for h and d :: "'a client"
    using assms(3-7) by (simp add: await_request_def await_def RTI_MQTT_Client_wait_for_request_def wait_ok_def Let_def)
  show ?thesis
    using assms p
    by (auto simp: connect_eq Paho_connect_eq w RTI_MQTT_Client_submit_all_subscriptions_def
        RTI_MQTT_Client_submit_subscriptions_def client_eqs Let_def)
qed

lemma stuck_disconnecting:
  assumes "c_state c = ClientStateKind_DISCONNECTING"
  shows "RTI_MQTT_Client_connect env c = Some (DDS_RETCODE_ERROR, c)"
    and "RTI_MQTT_Client_disconnect env c = Some (DDS_RETCODE_ERROR, c)"
  using assms by (simp_all add: connect_eq disconnect_eq)

lemma reconnect_loop_stuck:
  assumes "c_state c = ClientStateKind_DISCONNECTING"
  shows "reconnect_loop envs k c = None"
proof -
  have "c_state c \<noteq> ClientStateKind_DISCONNECTING" if "reconnect_loop envs k c = Some y" for y
  proof (rule reconnect_loop.raw_induct [OF _ that])
    fix loop envs k and c :: "'a client" and y
    assume "\<And>envs k c y. loop envs k c = Some y \<Longrightarrow> c_state c \<noteq> ClientStateKind_DISCONNECTING"
      and "(case RTI_MQTT_Client_connect (envs k) c of None \<Rightarrow> None
            | Some (_, c1) \<Rightarrow> if c_state c1 = ClientStateKind_CONNECTED then Some (DDS_RETCODE_OK, c1)
                            else loop envs (k + 1) c1) = Some y"
    then show "c_state c \<noteq> ClientStateKind_DISCONNECTING"
      using stuck_disconnecting(1) [of c] by (cases y) auto
  qed
  with assms show ?thesis by (cases "reconnect_loop envs k c") auto
qed

text \<open>
  A failed disconnection is final.  When Paho or the broker refuses to disconnect, the
  client stays in the state of disconnecting, from which every later call to connect or disconnect
  fails without doing anything.  When this happens inside the recovery of a lost connection (the
  broker accepts the connection, refuses the subscriptions, and the disconnection then fails), the
  recovery thread calls connect forever, whatever the broker would answer later.
\<close>

theorem failed_disconnect_stuck:
  assumes "reachable cfg c" and "untriggered c" and "quiet_env env"
    and "c_state c = ClientStateKind_CONNECTED" and "RTI_MQTT_Client_disconnect env c = Some (rc, d)"
    and "rc \<noteq> DDS_RETCODE_OK"
  shows "c_state d = ClientStateKind_DISCONNECTING \<and>
    (\<forall>env. RTI_MQTT_Client_connect env d = Some (DDS_RETCODE_ERROR, d)) \<and>
    (\<forall>env. RTI_MQTT_Client_disconnect env d = Some (DDS_RETCODE_ERROR, d)) \<and>
    (\<forall>envs k e. RTI_MQTT_Client_connect (envs k) e = Some (DDS_RETCODE_ERROR, d) \<longrightarrow> reconnect_loop envs k e = None)"
proof -
  have "client_inv c" using reachable_inv [OF assms(1)] by simp
  from disconnect_outcome [OF this assms(3,2)] assms(4-6) have st: "c_state d = ClientStateKind_DISCONNECTING" by auto
  have "reconnect_loop envs k e = None" if "RTI_MQTT_Client_connect (envs k) e = Some (DDS_RETCODE_ERROR, d)" for envs k e
    using that st reconnect_loop_stuck [OF st] by (subst reconnect_loop.simps) simp
  with st stuck_disconnecting [OF st] show ?thesis by blast
qed

section \<open>Successful subscriptions\<close>

text \<open>Memory and the broker give the client what it asks for; waits are quiet.\<close>

definition serving_env :: "client_env \<Rightarrow> bool" where
  "serving_env env \<longleftrightarrow>
     params_ok env \<and> quiet_env env \<and> ce_alloc env \<and> ce_params_copy env \<and> ce_ensure_length env \<and>
     (\<forall>call. ce_paho env call) \<and> we_reply (ce_wait_sub env) = Some DDS_RETCODE_OK \<and>
     (\<forall>t. fst (RTI_MQTT_Client_new_request (ce_req_sub env) t) = DDS_RETCODE_OK) \<and>
     (\<forall>t. fst (RTI_MQTT_Client_new_request (ce_req_unsub env) t) = DDS_RETCODE_OK)"

lemma subscribe_succeeds:
  assumes env: "serving_env env" and new: "RTI_MQTT_Subscription_new se cfg = Some (DDS_RETCODE_OK, Some sub)"
    and fresh: "se_ptr se \<notin> s_ptr ` set (c_subscriptions c)"
    and qos: "RTI_MQTT_QosLevel_is_valid (max_qos cfg)" and ne: "topic_filters cfg \<noteq> []"
  shows "\<exists>c' s r. RTI_MQTT_Client_subscribe env se cfg c = Some (DDS_RETCODE_OK, Some (se_ptr se), c') \<and>
    c_calls c' = c_calls c @ [MQTTAsync_subscribeMany (the (sub_requests (params_for cfg)))] \<and>
    c_state c' = c_state c \<and> (untriggered c \<longrightarrow> untriggered c') \<and>
    c_subscriptions c' = c_subscriptions c @ [s] \<and> s_ptr s = se_ptr se \<and> s_config s = cfg \<and>
    s_params s = params_for cfg \<and> s_queue s = s_queue sub \<and> s_req_unsub s = Some r \<and> \<not> req_triggered r"
proof -
  note sub = new_subscription_facts [OF new]
  have fresh': "s_ptr sub \<notin> s_ptr ` set (c_subscriptions c)" using sub fresh by simp
  have len: "ce_ensure_length env" "params_ok env" using env by (simp_all add: serving_env_def)
  obtain sub1 c2 rc1 where cr: "RTI_MQTT_Client_create_subscription_requests env sub
      (c\<lparr>c_subscriptions := c_subscriptions c @ [sub]\<rparr>) = (rc1, sub1, c2)"
    by (metis prod_cases3)
  let ?r = "\<lparr>req_result = DDS_RETCODE_ERROR, req_triggered = False, req_timeout = cfg_max_reply_timeout (c_config c)\<rparr>"
  have nr: "RTI_MQTT_Client_new_request (ce_req_sub env) (cfg_max_reply_timeout (c_config c)) = (DDS_RETCODE_OK, Some ?r)"
    "RTI_MQTT_Client_new_request (ce_req_unsub env) (cfg_max_reply_timeout (c_config c)) = (DDS_RETCODE_OK, Some ?r)"
    using env unfolding serving_env_def RTI_MQTT_Client_new_request_def by (auto split: if_splits)
  have e: "rc1 = DDS_RETCODE_OK" "sub1 = with_reqs sub (Some ?r) (Some ?r)"
      "c2 = c\<lparr>c_subscriptions := c_subscriptions c @ [sub1],
              c_params := concat (map s_params (c_subscriptions c)) @ params_for cfg\<rparr>"
    using cr sub fresh' len(2)
    by (auto simp: RTI_MQTT_Client_create_subscription_requests_def Let_def client_eqs put_sub_eq get_params_ok
        get_all_params_ok with_reqs_def nr)
  have reqs: "sub_requests (map (\<lambda>f. \<lparr>sp_topic = f, sp_max_qos = max_qos cfg\<rparr>) fs) \<noteq> None" for fs
    using qos by (induction fs) auto
  obtain rs where rs: "sub_requests (params_for cfg) = Some rs" using reqs by (auto simp: params_for_def)
  have ne': "params_for cfg \<noteq> []" using ne by (simp add: params_for_def)
  have q: "quiet (ce_wait_sub env)" "we_reply (ce_wait_sub env) = Some DDS_RETCODE_OK"
    using env by (simp_all add: serving_env_def quiet_env_def)
  have "RTI_MQTT_Client_submit_subscriptions env (s_params sub1) ?r c2 =
      (DDS_RETCODE_OK, True, wait_request (ce_wait_sub env) ?r, log (MQTTAsync_subscribeMany rs) c2)"
    using env ne' rs sub q e(2)
    by (simp add: RTI_MQTT_Client_submit_subscriptions_def client_eqs RTI_MQTT_Client_on_subscription_result_def
        await_handle_eq wait_result_ok serving_env_def)
  with new cr e len sub rs fresh' show ?thesis
    by (auto simp: RTI_MQTT_Client_subscribe_def client_eqs Let_def put_sub_eq untriggered_def)
qed

lemma unsubscribe_calls:
  assumes run: "RTI_MQTT_Client_unsubscribe env qenv s c = Some (rc, c')"
    and env: "serving_env env" "s_req_unsub s = Some r" "\<not> req_triggered r" "s_params s \<noteq> []"
  shows "c_calls c' = c_calls c @ [MQTTAsync_unsubscribeMany (map sp_topic (s_params s))]"
proof -
  have q: "quiet (ce_wait_unsub env)" "params_ok env" using env by (simp_all add: serving_env_def quiet_env_def)
  have rm: "c_calls (snd (RTI_MQTT_Client_remove_subscription env p d)) = c_calls d" for p and d :: "'a client"
    by (simp add: RTI_MQTT_Client_remove_subscription_def Let_def client_eqs case_prod_beta)
  show ?thesis
    using run env q
    by (auto simp: RTI_MQTT_Client_unsubscribe_def RTI_MQTT_Client_cancel_subscriptions_def client_eqs
        RTI_MQTT_Client_on_unsubscription_result_def await_handle_eq delete_requests_eq Let_def put_sub_eq delete_sub_def
        rm serving_env_def split: if_splits option.splits)
qed

definition unsub_env :: "client_env \<Rightarrow> bool" where
  "unsub_env env \<longleftrightarrow> params_ok env \<and> we_late (ce_wait_unsub env) = None"

lemma unsubscribe_finishes:
  assumes env: "unsub_env env" and r: "s_req_unsub s = Some r"
    and d: "distinct (map s_ptr (c_subscriptions c))" and fin: "RTI_MQTT_Subscription_finalize qenv s \<noteq> None"
  shows "\<exists>c'. RTI_MQTT_Client_unsubscribe env qenv s c = Some (DDS_RETCODE_OK, c')"
proof -
  have q: "params_ok env" "ce_set_length env" "we_late (ce_wait_unsub env) = None"
    using env by (simp_all add: unsub_env_def params_ok_def)
  obtain rc1 sm req1 c1 where cn: "RTI_MQTT_Client_cancel_subscriptions env (s_params s) r c = (rc1, sm, req1, c1)"
    by (metis prod_cases4)
  have d1: "distinct (map s_ptr (c_subscriptions c1))" using cancel_link [OF cn] d by (simp add: link_frame_def)
  have fin': "RTI_MQTT_Subscription_finalize qenv (s\<lparr>s_params := a, s_req_sub := b, s_req_unsub := x\<rparr>) =
      RTI_MQTT_Subscription_finalize qenv s" for a b x
    by (simp add: RTI_MQTT_Subscription_finalize_def)
  show ?thesis
    using r cn q d1 fin
    by (auto simp: RTI_MQTT_Client_unsubscribe_def delete_requests_eq Let_def put_sub_eq delete_sub_def
        remove_subscription_eq fin' listed_sub_def list_ex_iff)
qed



section \<open>Dispatching messages\<close>

definition sub_matches :: "'d subscription \<Rightarrow> string \<Rightarrow> bool" where
  "sub_matches s topic \<longleftrightarrow>
     (\<exists>f \<in> set (topic_filters (s_config s)). RTI_MQTT_TopicFilter_match f topic = Some (DDS_RETCODE_OK, True))"

definition filters_valid :: "string \<Rightarrow> 'd subscription \<Rightarrow> bool" where
  "filters_valid topic s \<longleftrightarrow> (\<forall>f \<in> set (topic_filters (s_config s)). cstring f \<and> tf_spec f topic \<noteq> None)"

lemma match_valid:
  assumes "filters_valid topic s" and "cstring topic"
  shows "RTI_MQTT_Subscription_match s topic = Some (DDS_RETCODE_OK, sub_matches s topic)"
proof -
  have "RTI_MQTT_TopicFilter_match f topic = Some (DDS_RETCODE_OK, True) \<longleftrightarrow> tf_spec f topic = Some True"
    if "f \<in> set (topic_filters (s_config s))" for f
    using match_by_spec [of f topic] assms that by (auto simp: filters_valid_def split: option.splits)
  then show ?thesis
    using assms match_filters_spec [of "topic_filters (s_config s)" topic]
      filters_spec_valid [of "topic_filters (s_config s)" topic]
    by (auto simp: RTI_MQTT_Subscription_match_def filters_valid_def sub_matches_def)
qed

text \<open>
  A queue of either kind that can take a message: a bounded one always, an unbounded one while there
  is memory and the length stays within the type of a sequence length.  The message goes to the end;
  a full bounded queue gives its oldest message up for it.
\<close>

definition queue_ready :: "'d queue_env \<Rightarrow> 'd mrqueue \<Rightarrow> bool" where
  "queue_ready env q \<longleftrightarrow>
     circ_inv q \<or>
     unb_inv q \<and> length (unb_abs q) < 2147483647 \<and> env_laws env \<and> env_total env \<and> qe_heap env 0"

definition queue_added :: "'d mrqueue \<Rightarrow> 'd \<Rightarrow> 'd mrqueue \<Rightarrow> bool" where
  "queue_added q m q' \<longleftrightarrow>
     (if q_capacity q = 0 then unb_inv q' \<and> unb_abs q' = unb_abs q @ [m]
      else circ_inv q' \<and> circ_abs q' = fst (bounded_put (circ_cap q) (circ_abs q) m))"

lemma receive_ready:
  assumes "queue_ready env q" and "received_sample env buffer len topic info = Some msg"
  obtains q' d l where "RTI_MQTT_MessageReceiveQueue_receive env q buffer len topic info = Some (DDS_RETCODE_OK, q', d, l)"
    and "queue_added q msg q'"
proof (cases "circ_inv q")
  case True
  then have c: "q_capacity q \<noteq> 0" using circ_capacity_pos by fastforce
  obtain q' where q': "RTI_MQTT_MessageReceiveQueue_receive env q buffer len topic info =
      Some (DDS_RETCODE_OK, q', snd (bounded_put (unat (q_capacity q)) (circ_abs q) msg),
        length (circ_abs q) = unat (q_capacity q))"
    "circ_inv q'" "circ_abs q' = fst (bounded_put (unat (q_capacity q)) (circ_abs q) msg)"
    by (rule receive_circ [OF True assms(2)])
  from q'(1) show thesis by (rule that) (use c q' in \<open>simp add: queue_added_def circ_cap_def\<close>)
next
  case False
  then have u: "unb_inv q" "length (unb_abs q) < 2147483647" "env_laws env" "env_total env" "qe_heap env 0"
    using assms(1) by (auto simp: queue_ready_def)
  then have c: "q_capacity q = 0" by (simp add: unb_inv_def)
  obtain q' where q': "RTI_MQTT_MessageReceiveQueue_receive env q buffer len topic info = Some (DDS_RETCODE_OK, q', None, False)"
    "unb_inv q'" "unb_abs q' = unb_abs q @ [msg]"
    by (rule receive_unb [OF u assms(2)])
  from q'(1) show thesis by (rule that) (use c q' in \<open>simp add: queue_added_def\<close>)
qed

text \<open>
  What a message does to one subscription: if a filter matches, the sample is put into its queue, and
  its listener is called; otherwise nothing changes.
\<close>

definition dispatched :: "(nat \<Rightarrow> 'd) \<Rightarrow> string \<Rightarrow> 'd subscription \<Rightarrow> 'd subscription \<Rightarrow> bool" where
  "dispatched msg topic s s' \<longleftrightarrow>
     (if sub_matches s topic then
        sub_kept s s' \<and> queue_added (s_queue s) (msg (s_ptr s)) (s_queue s') \<and>
        s_listener_calls s' = s_listener_calls s + (if s_data_avail_listener s then 1 else 0)
      else s' = s)"

lemma deliver_to_dispatched:
  assumes "cstring topic"
    and "\<forall>s \<in> set subs. filters_valid topic s \<and> queue_ready (qenvs (s_ptr s)) (s_queue s) \<and>
      received_sample (qenvs (s_ptr s)) buffer len topic info = Some (msg (s_ptr s))"
  shows "\<exists>subs'. deliver_to qenvs buffer len topic info subs = Some (DDS_RETCODE_OK, subs') \<and>
    list_all2 (dispatched msg topic) subs subs'"
  using assms(2)
proof (induction subs)
  case Nil
  then show ?case by simp
next
  case (Cons s subs)
  then have v: "filters_valid topic s" "queue_ready (qenvs (s_ptr s)) (s_queue s)"
    "received_sample (qenvs (s_ptr s)) buffer len topic info = Some (msg (s_ptr s))" by simp_all
  obtain subs' where IH: "deliver_to qenvs buffer len topic info subs = Some (DDS_RETCODE_OK, subs')"
    "list_all2 (dispatched msg topic) subs subs'"
    using Cons by auto
  show ?case
  proof (cases "sub_matches s topic")
    case False
    then have "dispatched msg topic s s" by (simp add: dispatched_def)
    with IH match_valid [OF v(1) assms(1)] False show ?thesis by simp
  next
    case True
    obtain q' d l where q': "RTI_MQTT_MessageReceiveQueue_receive (qenvs (s_ptr s)) (s_queue s) buffer len topic info =
        Some (DDS_RETCODE_OK, q', d, l)" "queue_added (s_queue s) (msg (s_ptr s)) q'"
      by (rule receive_ready [OF v(2,3)])
    then obtain s' where s': "RTI_MQTT_Subscription_receive (qenvs (s_ptr s)) s buffer len topic info = Some (DDS_RETCODE_OK, s')"
      "s_queue s' = q'" "s_listener_calls s' = s_listener_calls s + (if s_data_avail_listener s then 1 else 0)"
      by (simp add: RTI_MQTT_Subscription_receive_def Let_def)
    have "dispatched msg topic s s'"
      using True s' q' receive_spec [OF s'(1)] by (simp add: dispatched_def sub_kept_def)
    with IH match_valid [OF v(1) assms(1)] True s' show ?thesis by simp
  qed
qed

text \<open>
  Claim C6.  A message that arrives is delivered to exactly the subscriptions with a topic filter
  that matches it: each of them has it at the end of its queue, bounded (with the oldest message
  dropped when it is full) or unbounded, and its listener called, every other subscription is
  untouched, and the state of the connection does not change.  This is for topics on which matching
  none of the filters is an error, and for messages that can be turned into a sample, an
  unbounded queue needing memory and a length below \<open>2 ^ 31 - 1\<close>.
\<close>

theorem message_dispatch:
  assumes "cstring topic"
    and "\<forall>s \<in> set (c_subscriptions c). filters_valid topic s \<and> queue_ready (qenvs (s_ptr s)) (s_queue s) \<and>
      received_sample (qenvs (s_ptr s)) buffer len topic info = Some (msg (s_ptr s))"
  shows "\<exists>subs'. RTI_MQTT_Client_on_message_arrived qenvs topic buffer len info c =
      Some (DDS_RETCODE_OK, c\<lparr>c_subscriptions := subs'\<rparr>) \<and>
    list_all2 (dispatched msg topic) (c_subscriptions c) subs'"
  using deliver_to_dispatched [OF assms]
  by (auto simp: RTI_MQTT_Client_on_message_arrived_def Let_def client_eqs)

section \<open>Writing\<close>

lemma pub_handle_ok:
  "we_trigger we \<Longrightarrow> p_req p = Some req \<Longrightarrow>
   pub_handle_result we (p, c) r = (p\<lparr>p_req := Some (req\<lparr>req_result := r, req_triggered := True\<rparr>)\<rparr>, c)"
  by (simp add: pub_handle_result_def handle_result_ok)

text \<open>The result handler on a publication with its request: the counters, then the trigger.\<close>

definition write_reply :: "publication \<Rightarrow> retcode \<Rightarrow> retcode" where
  "write_reply p result =
     (if p_last_write_qos p = QosLevel_TWO \<and> pending_count (p_status (snd (RTI_MQTT_Publication_on_write_result p result))) = 0
      then DDS_RETCODE_ERROR else result)"

lemma on_write_result_eq:
  assumes "we_trigger we" and "p_req p = Some req" and "RTI_MQTT_QosLevel_is_valid (p_last_write_qos p)"
  shows "RTI_MQTT_Client_on_write_result we (p, c) r =
    ((write_result_steps p r)\<lparr>p_req := Some (req\<lparr>req_result := write_reply p r, req_triggered := True\<rparr>)\<rparr>, c)"
  using assms
  by (cases "p_last_write_qos p")
    (auto simp: RTI_MQTT_Client_on_write_result_def RTI_MQTT_Client_on_write_delivery_result_def
      RTI_MQTT_Publication_on_write_result_def RTI_MQTT_Publication_on_write_delivery_result_def
      write_result_steps_def write_reply_def pub_handle_ok Let_def)

lemma wait_for_write_result_eq:
  assumes "quiet (ce_wait_write env)" and "p_req p = Some req" and "\<not> req_triggered req"
    and "RTI_MQTT_QosLevel_is_valid (p_last_write_qos p)"
  shows "RTI_MQTT_Client_wait_for_write_result env p c =
    (case we_reply (ce_wait_write env) of
       None \<Rightarrow> Some (DDS_RETCODE_ERROR, p, c)
     | Some r \<Rightarrow> Some (rc_of (write_reply p r = DDS_RETCODE_OK),
         (write_result_steps p r)\<lparr>p_req := Some (req\<lparr>req_result := write_reply p r, req_triggered := False\<rparr>)\<rparr>, c))"
proof -
  have same: "p\<lparr>p_req := Some req\<rparr> = p" using assms(2) by (cases p) simp
  show ?thesis
    using assms same
    by (auto simp: RTI_MQTT_Client_wait_for_write_result_def await_def Let_def quiet_def wait_ok_def
        RTI_MQTT_Client_wait_for_request_def on_write_result_eq rc_of_def split: option.split)
qed

text \<open>
  The counters after a write that Paho accepted, by the reply of the broker.  A failed reply to a
  write of QoS 2 is counted a second time when another write is pending.
\<close>

definition written_status :: "qos_level \<Rightarrow> retcode option \<Rightarrow> pub_status \<Rightarrow> pub_status" where
  "written_status qos reply st =
     (let st1 = st\<lparr>pending_count := pending_count st + 1, sent_count := sent_count st + 1\<rparr> in
      case reply of
        None \<Rightarrow> st1
      | Some r \<Rightarrow>
          if qos = QosLevel_TWO \<and> r \<noteq> DDS_RETCODE_OK \<and> pending_count st \<noteq> 0
          then count_result r (count_result r st1) else count_result r st1)"

text \<open>What a write leaves as it is: identity, configuration, topic, and a request that is not triggered.\<close>

definition pub_after :: "publication \<Rightarrow> publication \<Rightarrow> bool" where
  "pub_after p p' \<longleftrightarrow>
     p_ptr p' = p_ptr p \<and> p_config p' = p_config p \<and> p_topic p' = p_topic p \<and> p_topic_len p' = p_topic_len p \<and>
     (\<exists>r. p_req p' = Some r \<and> \<not> req_triggered r)"

lemma write_result_steps_sel [simp]:
  "p_ptr (write_result_steps p r) = p_ptr p" "p_config (write_result_steps p r) = p_config p"
  "p_topic (write_result_steps p r) = p_topic p" "p_topic_len (write_result_steps p r) = p_topic_len p"
  by (cases "p_last_write_qos p"; simp add: write_result_steps_def RTI_MQTT_Publication_on_write_result_def
      RTI_MQTT_Publication_on_write_delivery_result_def Let_def)+

lemma find_pub_put:
  "find_pub p c = Some q \<Longrightarrow> p_ptr q' = p \<Longrightarrow> find_pub p (put_pub q' c) = Some q'"
proof -
  have "find (\<lambda>s. p_ptr s = p) (with_pub q' xs) = Some q'" if "find (\<lambda>s. p_ptr s = p) xs = Some q" "p_ptr q' = p" for xs
    using that by (induction xs) (auto simp: with_pub_def split: if_splits)
  then show "find_pub p c = Some q \<Longrightarrow> p_ptr q' = p \<Longrightarrow> find_pub p (put_pub q' c) = Some q'"
    by (simp add: find_pub_def put_pub_eq)
qed

lemma write_w_params_eq:
  assumes v: "RTI_MQTT_Publication_is_configuration_valid (wp_qos_level wp) (Some topic)"
    and w: "quiet (ce_wait_write env)" and req: "p_req p = Some req" "\<not> req_triggered req"
    and qos: "RTI_MQTT_QosLevel_to_mqtt_qos (wp_qos_level wp) = (rcq, Some q)"
    and nowrap: "wp_qos_level wp = QosLevel_TWO \<longrightarrow> pending_count (p_status p) \<noteq> - 1"
  shows "\<exists>p' c'. RTI_MQTT_Publication_write_w_params env p buffer (Some topic) wp c =
      Some (rc_of (ce_paho env (MQTTAsync_sendMessage topic buffer q (wp_retained wp)) \<and>
                   we_reply (ce_wait_write env) = Some DDS_RETCODE_OK), p', c') \<and>
    c_calls c' = c_calls c @ [MQTTAsync_sendMessage topic buffer q (wp_retained wp)] \<and>
    p_status p' = (if ce_paho env (MQTTAsync_sendMessage topic buffer q (wp_retained wp))
                   then written_status (wp_qos_level wp) (we_reply (ce_wait_write env)) (p_status p) else p_status p) \<and>
    pub_after p p' \<and> c' = put_pub p' (log (MQTTAsync_sendMessage topic buffer q (wp_retained wp)) c)"
proof -
  let ?call = "MQTTAsync_sendMessage topic buffer q (wp_retained wp)"
  let ?p2 = "p\<lparr>p_last_write_qos := wp_qos_level wp, p_status := (p_status p)
    \<lparr>pending_count := pending_count (p_status p) + 1, sent_count := sent_count (p_status p) + 1\<rparr>\<rparr>"
  have vq: "RTI_MQTT_QosLevel_is_valid (p_last_write_qos ?p2)"
    using v by (simp add: is_configuration_valid_iff)
  have wt: "RTI_MQTT_Client_wait_for_write_result env ?p2 d =
    (case we_reply (ce_wait_write env) of
       None \<Rightarrow> Some (DDS_RETCODE_ERROR, ?p2, d)
     | Some r \<Rightarrow> Some (rc_of (write_reply ?p2 r = DDS_RETCODE_OK),
         (write_result_steps ?p2 r)\<lparr>p_req := Some (req\<lparr>req_result := write_reply ?p2 r, req_triggered := False\<rparr>)\<rparr>, d))" for d :: "'a client"
    by (rule wait_for_write_result_eq [OF w _ req(2) vq]) (simp add: req)
  have nz: "wp_qos_level wp = QosLevel_TWO \<Longrightarrow> pending_count (p_status p) + 1 \<noteq> 0"
    using nowrap by (auto simp: eq_neg_iff_add_eq_0)
  have st: "p_status (write_result_steps ?p2 r) = written_status (wp_qos_level wp) (Some r) (p_status p) \<and>
      (write_reply ?p2 r = DDS_RETCODE_OK \<longleftrightarrow> r = DDS_RETCODE_OK)"
    if "we_reply (ce_wait_write env) = Some r" for r
    using vq that nz
    by (cases "wp_qos_level wp")
      (auto simp: write_result_steps_def write_reply_def RTI_MQTT_Publication_on_write_result_def
        RTI_MQTT_Publication_on_write_delivery_result_def written_status_def count_result_def Let_def)
  have same: "p_status p = (p_status p)\<lparr>pending_count := pending_count (p_status p)\<rparr>"
    by (cases "p_status p") simp
  have wr: "RTI_MQTT_Client_write_message env buffer topic wp c = (rc_of (ce_paho env ?call), log ?call c)"
    using qos by (simp add: client_eqs)
  show ?thesis
    using v wr st same req
    by (cases "we_reply (ce_wait_write env)")
      (auto simp: RTI_MQTT_Publication_write_w_params_def Let_def wt put_pub_def written_status_def rc_of_def pub_after_def)
qed


lemma store_topic_ok:
  assumes "topic_buf_ok p" and "string_replace_laws (pe_string_replace env)" and "length topic < 4294967296"
    and "pe_string_dup env topic" and "pe_string_replace env (p_topic p) topic \<noteq> None"
  shows "\<exists>p' b. RTI_MQTT_Publication_store_topic env p topic = Some (DDS_RETCODE_OK, p') \<and>
    p_topic p' = Some b \<and> cb_text b = topic \<and> p_req p' = p_req p \<and> p_status p' = p_status p \<and>
    p_ptr p' = p_ptr p \<and> p_config p' = p_config p \<and> topic_buf_ok p'"
proof -
  have u: "unat (of_nat (length topic) :: u32) = length topic" using assms(3) by (rule unat_of_nat_u32)
  show ?thesis
    using assms u
    by (cases "p_topic p")
      (auto simp: RTI_MQTT_Publication_store_topic_def Let_def topic_buf_ok_def string_replace_laws_def word_le_nat_alt)
qed

lemma write_fixed_topic:
  assumes cfg: "\<not> pcfg_use_message_info (p_config p)"
      "RTI_MQTT_Publication_is_configuration_valid (pcfg_qos (p_config p)) (Some (pcfg_topic (p_config p)))"
      "RTI_MQTT_QosLevel_to_mqtt_qos (pcfg_qos (p_config p)) = (rcq, Some q)"
    and mem: "topic_buf_ok p" "string_replace_laws (pe_string_replace (wr_pub we))"
      "pe_string_dup (wr_pub we) (pcfg_topic (p_config p))"
      "pe_string_replace (wr_pub we) (p_topic p) (pcfg_topic (p_config p)) \<noteq> None" "wr_payload_copy we"
    and msg: "dyn_get_octet_seq (wr_dyn we) ''payload.data'' message = Some payload"
    and req: "quiet (ce_wait_write env)" "p_req p = Some req" "\<not> req_triggered req"
    and qos2: "pcfg_qos (p_config p) = QosLevel_TWO \<longrightarrow> pending_count (p_status p) \<noteq> - 1"
  shows "\<exists>p' c'. RTI_MQTT_Publication_write env we p message c =
      Some (rc_of (ce_paho env (MQTTAsync_sendMessage (pcfg_topic (p_config p)) payload q (pcfg_retained (p_config p))) \<and>
                   we_reply (ce_wait_write env) = Some DDS_RETCODE_OK), p', c') \<and>
    c_calls c' = c_calls c @
      [MQTTAsync_sendMessage (pcfg_topic (p_config p)) payload q (pcfg_retained (p_config p))] \<and>
    p_status p' =
      (if ce_paho env (MQTTAsync_sendMessage (pcfg_topic (p_config p)) payload q (pcfg_retained (p_config p)))
       then written_status (pcfg_qos (p_config p)) (we_reply (ce_wait_write env)) (p_status p) else p_status p) \<and>
    p_ptr p' = p_ptr p \<and> p_config p' = p_config p \<and> topic_buf_ok p' \<and>
    (\<exists>r. p_req p' = Some r \<and> \<not> req_triggered r) \<and>
    (find_pub (p_ptr p) c = Some p \<longrightarrow> find_pub (p_ptr p) c' = Some p')"
proof -
  let ?wp = "\<lparr>wp_qos_level = pcfg_qos (p_config p), wp_retained = pcfg_retained (p_config p)\<rparr>"
  have len: "length (pcfg_topic (p_config p)) < 4294967296" using cfg(2) by (simp add: is_configuration_valid_iff)
  obtain p1 b where p1: "RTI_MQTT_Publication_store_topic (wr_pub we) p (pcfg_topic (p_config p)) = Some (DDS_RETCODE_OK, p1)"
    "p_topic p1 = Some b" "cb_text b = pcfg_topic (p_config p)" "p_req p1 = p_req p" "p_status p1 = p_status p"
    "p_ptr p1 = p_ptr p" "p_config p1 = p_config p" "topic_buf_ok p1"
    using store_topic_ok [OF mem(1,2) len mem(3,4)] by blast
  let ?p2 = "p1\<lparr>p_payload := payload\<rparr>"
  have t: "write_target we p message = Some ((DDS_RETCODE_OK, p1), ?wp)"
    using cfg(1) p1(1) by (simp add: write_target_def Let_def)
  let ?b = "ce_paho env (MQTTAsync_sendMessage (pcfg_topic (p_config p)) payload q (pcfg_retained (p_config p))) \<and>
    we_reply (ce_wait_write env) = Some DDS_RETCODE_OK"
  have "\<exists>p' c'. RTI_MQTT_Publication_write_w_params env ?p2 payload (Some (pcfg_topic (p_config p))) ?wp
        (put_pub ?p2 (put_pub p1 c)) =
      Some (rc_of (ce_paho env (MQTTAsync_sendMessage (pcfg_topic (p_config p)) payload q (wp_retained ?wp)) \<and>
                   we_reply (ce_wait_write env) = Some DDS_RETCODE_OK), p', c') \<and>
    c_calls c' = c_calls (put_pub ?p2 (put_pub p1 c)) @
      [MQTTAsync_sendMessage (pcfg_topic (p_config p)) payload q (wp_retained ?wp)] \<and>
    p_status p' = (if ce_paho env (MQTTAsync_sendMessage (pcfg_topic (p_config p)) payload q (wp_retained ?wp))
                   then written_status (wp_qos_level ?wp) (we_reply (ce_wait_write env)) (p_status ?p2) else p_status ?p2) \<and>
    pub_after ?p2 p' \<and> c' = put_pub p' (log (MQTTAsync_sendMessage (pcfg_topic (p_config p)) payload q (wp_retained ?wp))
      (put_pub ?p2 (put_pub p1 c)))"
    using cfg req p1 qos2 by (intro write_w_params_eq) simp_all
  then obtain p' c' where w: "RTI_MQTT_Publication_write_w_params env ?p2 payload (Some (pcfg_topic (p_config p))) ?wp
        (put_pub ?p2 (put_pub p1 c)) = Some (rc_of ?b, p', c')"
    and st: "c_calls c' = c_calls c @
      [MQTTAsync_sendMessage (pcfg_topic (p_config p)) payload q (pcfg_retained (p_config p))]"
      "p_status p' =
      (if ce_paho env (MQTTAsync_sendMessage (pcfg_topic (p_config p)) payload q (pcfg_retained (p_config p)))
       then written_status (pcfg_qos (p_config p)) (we_reply (ce_wait_write env)) (p_status p) else p_status p)"
    and aft: "pub_after ?p2 p'"
      "c' = put_pub p' (log (MQTTAsync_sendMessage (pcfg_topic (p_config p)) payload q (wp_retained ?wp))
      (put_pub ?p2 (put_pub p1 c)))"
    using p1(5) by (auto simp: put_pub_def)
  have "RTI_MQTT_Publication_write env we p message c = Some (rc_of ?b, p', c')"
    using t msg mem(5) p1 w by (simp add: RTI_MQTT_Publication_write_def client_eqs Let_def) (simp add: rc_of_def)
  moreover have "p_ptr p' = p_ptr p" "p_config p' = p_config p" "topic_buf_ok p'" "\<exists>r. p_req p' = Some r \<and> \<not> req_triggered r"
    using aft(1) p1(6-8) by (auto simp: pub_after_def topic_buf_ok_def split: option.splits)
  moreover from this have "find_pub (p_ptr p) c' = Some p'" if "find_pub (p_ptr p) c = Some p"
  proof -
    have "find_pub (p_ptr p) (put_pub ?p2 (put_pub p1 c)) = Some ?p2"
      using find_pub_put [OF find_pub_put [OF that p1(6)], of ?p2] p1(6) by simp
    then have "find_pub (p_ptr p) (log x (put_pub ?p2 (put_pub p1 c))) = Some ?p2" for x
      by (simp add: find_pub_def)
    with aft(2) \<open>p_ptr p' = p_ptr p\<close> show ?thesis by (simp add: find_pub_put)
  qed
  ultimately show ?thesis using st by blast
qed


section \<open>Deletion\<close>

lemma unsubscribe_all_ends:
  assumes "\<forall>k. unsub_env (envs k)" and "client_inv c"
    and "\<forall>s \<in> set (c_subscriptions c). RTI_MQTT_Subscription_finalize (qenvs (s_ptr s)) s \<noteq> None"
  shows "\<exists>c'. unsubscribe_all envs qenvs k c = Some (DDS_RETCODE_OK, c') \<and> client_inv c' \<and> c_subscriptions c' = [] \<and>
    c_publications c' = c_publications c \<and> c_client c' = c_client c"
  using assms(2,3)
proof (induction "length (c_subscriptions c)" arbitrary: c k)
  case 0
  then show ?case by (subst unsubscribe_all.simps) simp
next
  case (Suc n)
  then obtain s subs where s: "c_subscriptions c = s # subs" by (cases "c_subscriptions c") auto
  have d: "distinct (map s_ptr (c_subscriptions c))" "sub_ready s"
    using Suc.prems(1) s by (auto simp: client_inv_def)
  obtain r where r: "s_req_unsub s = Some r" using d(2) by (auto simp: sub_ready_def)
  have env: "unsub_env (envs k)" "params_ok (envs k)" using assms(1) by (auto simp: unsub_env_def)
  obtain c1 where c1: "RTI_MQTT_Client_unsubscribe (envs k) (qenvs (s_ptr s)) s c = Some (DDS_RETCODE_OK, c1)"
    using unsubscribe_finishes [OF env(1) r d(1)] Suc.prems(2) s by auto
  note o = unsubscribe_outcome [OF env(2) d(1) c1]
  have subs: "c_subscriptions c1 = subs"
    using o s d(1) by (auto intro!: filter_True simp: image_iff)
  have inv: "client_inv c1" using unsubscribe_inv [OF Suc.prems(1) env(2) c1] by simp
  have keep: "c_publications c1 = c_publications c" "c_client c1 = c_client c"
    using o by (simp_all add: subs_frame_def link_frame_def)
  have "\<exists>c'. unsubscribe_all envs qenvs (k + 1) c1 = Some (DDS_RETCODE_OK, c') \<and> client_inv c' \<and>
      c_subscriptions c' = [] \<and> c_publications c' = c_publications c1 \<and> c_client c' = c_client c1"
    using Suc.hyps(2) Suc.prems(2) s subs inv by (intro Suc.hyps(1)) auto
  with s c1 keep show ?case by (subst unsubscribe_all.simps) simp
qed

lemma unpublish_all_ends:
  assumes "\<forall>k. ce_set_length (envs k)" and "client_inv c"
  shows "\<exists>c'. unpublish_all envs k c = Some (DDS_RETCODE_OK, c') \<and> c_publications c' = [] \<and>
    c_subscriptions c' = c_subscriptions c \<and> c_client c' = c_client c"
  using assms(2)
proof (induction "length (c_publications c)" arbitrary: c k)
  case 0
  then show ?case by (subst unpublish_all.simps) simp
next
  case (Suc n)
  then obtain p pubs where p: "c_publications c = p # pubs" by (cases "c_publications c") auto
  have d: "distinct (map p_ptr (c_publications c))" using Suc.prems by (simp add: client_inv_def)
  have env: "ce_set_length (envs k)" using assms(1) by blast
  obtain rc1 c1 where c1: "RTI_MQTT_Client_unpublish (envs k) p c = Some (rc1, c1)"
    using d env with_pub_filter [of "p\<lparr>p_req := None\<rparr>"]
    by (auto simp: RTI_MQTT_Client_unpublish_def client_eqs Let_def put_pub_eq remove_publication_eq listed_pub_def
        list_ex_iff)
  note o = unpublish_outcome [OF env d c1]
  have pubs: "c_publications c1 = pubs"
    using o p d by (auto intro!: filter_True simp: image_iff)
  have inv: "client_inv c1" using unpublish_inv [OF Suc.prems env c1] by simp
  have "\<exists>c'. unpublish_all envs (k + 1) c1 = Some (DDS_RETCODE_OK, c') \<and> c_publications c' = [] \<and>
      c_subscriptions c' = c_subscriptions c1 \<and> c_client c' = c_client c1"
    using Suc.hyps(2) p pubs inv by (intro Suc.hyps(1)) auto
  with p c1 o show ?case by (subst unpublish_all.simps) (simp add: pubs_frame_def link_frame_def)
qed

lemma finalize_ends:
  assumes inv: "client_inv c" and "\<forall>k. unsub_env (envs k)" and "ce_seq_finalize (envs 0)" and "ce_mutex_finalize (envs 0)"
    and "\<forall>s \<in> set (c_subscriptions c). RTI_MQTT_Subscription_finalize (qenvs (s_ptr s)) s \<noteq> None"
  shows "\<exists>c'. RTI_MQTT_Client_finalize envs qenvs c = Some (DDS_RETCODE_OK, c') \<and>
    c_subscriptions c' = [] \<and> c_publications c' = [] \<and> \<not> c_client c' \<and> reqs c' = (None, None, None, None) \<and>
    (c_client c \<longrightarrow> last (c_calls c') = MQTTAsync_destroy)"
proof -
  obtain c1 where c1: "unsubscribe_all envs qenvs 0 c = Some (DDS_RETCODE_OK, c1)" "client_inv c1"
    "c_subscriptions c1 = []" "c_client c1 = c_client c"
    using unsubscribe_all_ends [OF assms(2) inv assms(5)] by blast
  have len: "\<forall>k. ce_set_length (envs k)" using assms(2) by (simp add: unsub_env_def params_ok_def)
  obtain c2 where c2: "unpublish_all envs 0 c1 = Some (DDS_RETCODE_OK, c2)" "c_publications c2 = []"
    "c_subscriptions c2 = []" "c_client c2 = c_client c"
    using unpublish_all_ends [OF len c1(2)] c1 by metis
  have "RTI_MQTT_ClientMqttApi_Paho_delete_client env d =
      (DDS_RETCODE_OK, if c_client d then (log MQTTAsync_destroy d)\<lparr>c_client := False\<rparr> else d)" for env and d :: "'a client"
    by (cases d) (simp add: RTI_MQTT_ClientMqttApi_Paho_delete_client_def paho_def log_def lock_defs Let_def)
  with c1 c2 assms(3,4) show ?thesis
    by (simp add: RTI_MQTT_Client_finalize_def Let_def RTI_MQTT_Client_delete_request_def reqs_def)
qed

text \<open>
  Claim C9.  Deleting a client ends, from every state it can be in and whatever the broker answers
  to the cancelled subscriptions: every subscription and publication is removed, the Paho client is
  destroyed, and no request is left.
\<close>

theorem client_finalize_complete:
  assumes "reachable cfg c" and "\<forall>k. unsub_env (envs k)" and "ce_seq_finalize (envs 0)" and "ce_mutex_finalize (envs 0)"
    and "\<forall>s \<in> set (c_subscriptions c). RTI_MQTT_Subscription_finalize (qenvs (s_ptr s)) s \<noteq> None"
  shows "\<exists>c'. RTI_MQTT_Client_finalize envs qenvs c = Some (DDS_RETCODE_OK, c') \<and>
    c_subscriptions c' = [] \<and> c_publications c' = [] \<and> \<not> c_client c' \<and> reqs c' = (None, None, None, None) \<and>
    (c_client c \<longrightarrow> last (c_calls c') = MQTTAsync_destroy)"
  using finalize_ends [OF _ assms(2-5)] reachable_inv [OF assms(1)] by blast

end
