(* ===== verification/ClientWitnesses.thy ===== *)
theory ClientWitnesses
  imports ClientTheorems
begin

text \<open>
  The properties of the client at a concrete client: one made by \<^verbatim>\<open>RTI_MQTT_Client_new\<close> from the default
  configuration with an id and a server, connected, and with one subscription.
\<close>

section \<open>A concrete client\<close>

definition ok_request_env :: request_env where
  "ok_request_env = \<lparr>re_heap = True, re_guard_new = True, re_waitset_new = True, re_set_maximum = True, re_attach = True\<rparr>"

text \<open>Every call succeeds and every request is answered with success.\<close>

definition example_env :: client_env where
  "example_env =
     \<lparr>ce_paho = (\<lambda>_. True), ce_wait_connect = reply_env DDS_RETCODE_OK, ce_wait_disconnect = reply_env DDS_RETCODE_OK,
      ce_wait_sub = reply_env DDS_RETCODE_OK, ce_wait_unsub = reply_env DDS_RETCODE_OK,
      ce_wait_write = reply_env DDS_RETCODE_OK, ce_alloc = True, ce_password_alloc = (\<lambda>_. True), ce_params_copy = True,
      ce_params_ensure = (\<lambda>_. True), ce_params_string = (\<lambda>_. True), ce_params_set_length = True,
      ce_params_copy_one = (\<lambda>_. True), ce_ensure_length = True, ce_set_length = True, ce_set_maximum = True,
      ce_req_sub = ok_request_env, ce_req_unsub = ok_request_env, ce_req_pub = ok_request_env, ce_seq_finalize = True,
      ce_mutex_finalize = True, ce_thread_spawn = True\<rparr>"

text \<open>The broker rejects the connection; Paho refuses to disconnect.\<close>

definition rejecting_env :: client_env where
  "rejecting_env = example_env\<lparr>ce_wait_connect := reply_env DDS_RETCODE_ERROR\<rparr>"

definition no_disconnect_env :: client_env where
  "no_disconnect_env = example_env\<lparr>ce_paho := (\<lambda>call. call \<noteq> MQTTAsync_disconnect)\<rparr>"

definition example_init :: init_env where
  "example_init = \<lparr>ie_heap = True, ie_mutex = True, ie_status_new = True, ie_config_copy = True, ie_seq_init = True,
     ie_req_connect = ok_request_env, ie_req_disconnect = ok_request_env, ie_req_sub = ok_request_env,
     ie_req_unsub = ok_request_env\<rparr>"

definition example_cfg :: client_config where
  "example_cfg = RTI_MQTT_ClientConfig_DEFAULT\<lparr>cfg_id := ''gw'', cfg_server_uris := [''tcp://b'']\<rparr>"

definition example_scfg :: subscription_config where
  "example_scfg = \<lparr>topic_filters = [''a/#'', ''b''], max_qos = QosLevel_ONE, message_queue_size = 0\<rparr>"

definition example_se :: "std_sample sub_env" where
  "example_se = \<lparr>se_ptr = 1, se_heap = True, se_status_new = True, se_config_copy = True, se_queue_heap = True,
     se_queue_env = std_env\<rparr>"

lemma quiet_reply_env [simp]: "quiet (reply_env x)"
  by (simp add: quiet_def wait_ok_def reply_env_def)

lemma example_env_ok [simp]:
  "serving_env example_env" "quiet_env example_env" "unsub_env example_env" "quiet_env rejecting_env"
  "quiet_env no_disconnect_env" "serving_env no_disconnect_env \<longleftrightarrow> False"
  by (auto simp: serving_env_def quiet_env_def unsub_env_def params_ok_def example_env_def rejecting_env_def
      no_disconnect_env_def ok_request_env_def RTI_MQTT_Client_new_request_def)
    (auto simp: reply_env_def)

lemma example_conn_opts: "conn_opts_of env example_cfg \<noteq> None"
  by (simp add: conn_opts_of_def example_cfg_def RTI_MQTT_ClientConfig_DEFAULT_def RTI_MQTT_Time_to_seconds_def
      RTI_MQTT_Time_normalize_def Let_def)

lemma example_accepted [simp]:
  "connect_accepted example_env example_cfg" "\<not> connect_accepted rejecting_env example_cfg"
  "submit_accepted example_env subs"
  using example_conn_opts [of example_env]
  by (auto simp: connect_accepted_def submit_accepted_def example_env_def rejecting_env_def reply_env_def)

lemma example_new:
  "\<exists>c :: std_sample client. reachable example_cfg c \<and> untriggered c \<and> c_state c = ClientStateKind_DISCONNECTED \<and>
     c_subscriptions c = [] \<and> c_publications c = [] \<and> c_client c"
proof -
  obtain c :: "std_sample client" where
    c: "RTI_MQTT_Client_new example_init example_env (\<lambda>_. std_env) example_cfg = Some (DDS_RETCODE_OK, Some c)"
    by (simp add: RTI_MQTT_Client_new_def RTI_MQTT_Client_initialize_def example_init_def ok_request_env_def
        RTI_MQTT_Client_new_request_def example_cfg_def Let_def RTI_MQTT_ClientMqttApi_Paho_create_client_def
        initial_client_def paho_def lock_defs example_env_def RTI_MQTT_ClientConfig_DEFAULT_def)
  with client_new_facts [OF c] reachable.new [OF c] show ?thesis
    by (intro exI [of _ c]) (simp add: untriggered_def ball_Un)
qed

lemma example_connected:
  "\<exists>c :: std_sample client. reachable example_cfg c \<and> untriggered c \<and> c_state c = ClientStateKind_CONNECTED \<and>
     c_subscriptions c = []"
proof -
  obtain c :: "std_sample client" where c: "reachable example_cfg c" "untriggered c"
    "c_state c = ClientStateKind_DISCONNECTED" "c_subscriptions c = []" using example_new by blast
  have inv: "client_inv c" "c_config c = example_cfg" using reachable_inv [OF c(1)] by simp_all
  obtain c' where c': "RTI_MQTT_Client_connect example_env c = Some (DDS_RETCODE_OK, c')"
    "c_state c' = ClientStateKind_CONNECTED" "untriggered c'"
    using connect_succeeds [OF inv(1) _ c(2,3), of example_env] inv(2) by auto
  have "reachable example_cfg c'"
    by (rule reachable.step [OF c(1), of "Ev_connect example_env"]) (simp_all add: c')
  with c' c(4) connect_link [OF c'(1)] show ?thesis by (auto simp: link_frame_def)
qed

lemma example_sub_new:
  "\<exists>sub. RTI_MQTT_Subscription_new example_se example_scfg = Some (DDS_RETCODE_OK, Some sub) \<and>
     RTI_MQTT_Subscription_finalize std_env sub \<noteq> None"
  by (simp add: RTI_MQTT_Subscription_new_def RTI_MQTT_Subscription_initialize_def example_se_def example_scfg_def
      RTI_MQTT_MessageReceiveQueue_new_def RTI_MQTT_MessageReceiveQueue_initialize_def initial_queue_def std_env_def
      RTI_MQTT_MessageReceiveQueue_initialize_unbounded_def RTI_MQTT_Subscription_finalize_def Let_def
      RTI_MQTT_MessageReceiveQueue_finalize_def delete_slots.simps seq_empty_def)

lemma example_subscribed:
  "\<exists>c :: std_sample client. reachable example_cfg c \<and> untriggered c \<and> c_state c = ClientStateKind_CONNECTED \<and>
     map s_config (c_subscriptions c) = [example_scfg] \<and>
     (\<forall>s \<in> set (c_subscriptions c). RTI_MQTT_Subscription_finalize std_env s \<noteq> None)"
proof -
  obtain c :: "std_sample client" where c: "reachable example_cfg c" "untriggered c"
    "c_state c = ClientStateKind_CONNECTED" "c_subscriptions c = []" using example_connected by blast
  obtain sub where sub: "RTI_MQTT_Subscription_new example_se example_scfg = Some (DDS_RETCODE_OK, Some sub)"
    "RTI_MQTT_Subscription_finalize std_env sub \<noteq> None"
    using example_sub_new by blast
  obtain c' s where c': "RTI_MQTT_Client_subscribe example_env example_se example_scfg c = Some (DDS_RETCODE_OK, Some 1, c')"
    "untriggered c'" "c_state c' = ClientStateKind_CONNECTED" "c_subscriptions c' = [s]" "s_config s = example_scfg"
    "s_queue s = s_queue sub"
    using subscribe_succeeds [OF example_env_ok(1) sub(1), of c] c
    by (auto simp: example_scfg_def example_se_def)
  have "reachable example_cfg c'"
    by (rule reachable.step [OF c(1), of "Ev_subscribe example_env example_se example_scfg"])
      (use c c' in \<open>simp_all add: find_sub_def\<close>, simp add: example_env_def params_ok_def)
  with c' sub(2) show ?thesis
    by (intro exI [of _ c']) (simp add: RTI_MQTT_Subscription_finalize_def)
qed

section \<open>Witnesses\<close>

theorem client_invariant_witness:
  "\<exists>c :: std_sample client. reachable example_cfg c \<and> length (c_subscriptions c) = 1 \<and> c_params c =
     [\<lparr>sp_topic = ''a/#'', sp_max_qos = QosLevel_ONE\<rparr>, \<lparr>sp_topic = ''b'', sp_max_qos = QosLevel_ONE\<rparr>]"
proof -
  obtain c :: "std_sample client" where c: "reachable example_cfg c" "map s_config (c_subscriptions c) = [example_scfg]"
    using example_subscribed by auto
  have "map (\<lambda>s. params_for (s_config s)) (c_subscriptions c) = map params_for (map s_config (c_subscriptions c))"
    by simp
  with client_invariant [OF c(1)] c have "c_params c = params_for example_scfg" by simp
  moreover have "length (c_subscriptions c) = 1" using arg_cong [OF c(2), of length] by simp
  ultimately show ?thesis using c(1) by (auto simp: params_for_def example_scfg_def)
qed

theorem connect_outcome_witness:
  "\<exists>(c :: std_sample client) c'. RTI_MQTT_Client_connect example_env c = Some (DDS_RETCODE_OK, c') \<and>
     c_state c = ClientStateKind_DISCONNECTED \<and> c_state c' = ClientStateKind_CONNECTED"
proof -
  obtain c :: "std_sample client" where c: "reachable example_cfg c" "untriggered c"
    "c_state c = ClientStateKind_DISCONNECTED" using example_new by blast
  from connect_outcome [OF c(1) example_env_ok(2) c(2,3)] c(3) show ?thesis by auto
qed


theorem failed_disconnect_stuck_witness:
  "\<exists>(c :: std_sample client) d. RTI_MQTT_Client_disconnect no_disconnect_env c = Some (DDS_RETCODE_ERROR, d) \<and>
     c_state d = ClientStateKind_DISCONNECTING \<and>
     RTI_MQTT_Client_connect example_env d = Some (DDS_RETCODE_ERROR, d) \<and>
     reconnect_loop (\<lambda>_. example_env) 0 d = None"
proof -
  obtain c :: "std_sample client" where c: "reachable example_cfg c" "untriggered c"
    "c_state c = ClientStateKind_CONNECTED" "c_subscriptions c = []"
    using example_connected by blast
  obtain d where d: "RTI_MQTT_Client_disconnect no_disconnect_env c = Some (DDS_RETCODE_ERROR, d)"
    using disconnect_outcome [OF _ example_env_ok(5) c(2)] reachable_inv [OF c(1)] c(3)
    by (auto simp: disconnect_eq no_disconnect_env_def split: option.splits if_splits)
  have s: "c_state d = ClientStateKind_DISCONNECTING" "RTI_MQTT_Client_connect example_env d = Some (DDS_RETCODE_ERROR, d)"
    and n: "\<forall>envs k e. RTI_MQTT_Client_connect (envs k) e = Some (DDS_RETCODE_ERROR, d) \<longrightarrow> reconnect_loop envs k e = None"
    using failed_disconnect_stuck [OF c(1,2) example_env_ok(5) c(3) d] by auto
  from n [rule_format, of "\<lambda>_. example_env" 0 d] s(2) have "reconnect_loop (\<lambda>_. example_env) 0 d = None" by simp
  with d s show ?thesis by blast
qed


text \<open>A bounded and an unbounded queue whose subscriptions match, and one that does not.\<close>

theorem message_dispatch_witness:
  "\<exists>c' s' u'. RTI_MQTT_Client_on_message_arrived (\<lambda>_. std_env) ''a/b'' [1] 1 None
       ((initial_client example_cfg)\<lparr>c_subscriptions := [example_sub, example_sub\<lparr>s_ptr := 2, s_queue := unb2\<rparr>,
          example_sub\<lparr>s_ptr := 3, s_config := example_scfg\<lparr>topic_filters := [''x'']\<rparr>\<rparr>]\<rparr>)
       = Some (DDS_RETCODE_OK, c') \<and>
     c_subscriptions c' = [s', u', example_sub\<lparr>s_ptr := 3, s_config := example_scfg\<lparr>topic_filters := [''x'']\<rparr>\<rparr>] \<and>
     length (circ_abs (s_queue s')) = 1 \<and> s_listener_calls s' = 1 \<and> length (unb_abs (s_queue u')) = 3"
proof -
  let ?u = "example_sub\<lparr>s_ptr := 2, s_queue := unb2\<rparr>"
  let ?no = "example_sub\<lparr>s_ptr := 3, s_config := example_scfg\<lparr>topic_filters := [''x'']\<rparr>\<rparr>"
  let ?c = "(initial_client example_cfg)\<lparr>c_subscriptions := [example_sub, ?u, ?no]\<rparr>"
  obtain m where m: "received_sample std_env [1] 1 ''a/b'' None = Some m"
    by (simp add: received_sample_def std_env_def std_seq_def seq_empty_def
        RTI_MQTT_Message_to_dynamic_data_def std_dyn_def)
  have v: "filters_valid ''a/b'' example_sub" "filters_valid ''a/b'' ?u" "filters_valid ''a/b'' ?no"
    "sub_matches example_sub ''a/b''" "sub_matches ?u ''a/b''" "\<not> sub_matches ?no ''a/b''"
    using match_by_spec [of "''a/#''" "''a/b''"] match_by_spec [of "''x''" "''a/b''"]
    by (auto simp: filters_valid_def sub_matches_def example_sub_def example_scfg_def cstring_def NUL_def)
  have q: "circ_inv queue3" "circ_abs queue3 = []" "circ_cap queue3 = 3" "q_capacity queue3 = 3" "q_capacity unb2 = 0"
    using queue3_ok by (simp_all add: circ_idle_def circ_cap_def queue3_def unb2_def initial_queue_def)
  have ex: "s_queue example_sub = queue3" "s_ptr example_sub = 1" "s_listener_calls example_sub = 0"
    "s_data_avail_listener example_sub" by (simp_all add: example_sub_def)
  have r: "\<forall>s \<in> set (c_subscriptions ?c). filters_valid ''a/b'' s \<and> queue_ready std_env (s_queue s) \<and>
      received_sample std_env [1] 1 ''a/b'' None = Some m"
    using v m q ex by (simp add: queue_ready_def)
  have "cstring ''a/b''" by (simp add: cstring_def NUL_def)
  from message_dispatch [of "''a/b''" ?c "\<lambda>_. std_env" "[1]" 1 None "\<lambda>_. m", OF this r] obtain subs'
    where on: "RTI_MQTT_Client_on_message_arrived (\<lambda>_. std_env) ''a/b'' [1] 1 None ?c =
        Some (DDS_RETCODE_OK, ?c\<lparr>c_subscriptions := subs'\<rparr>)"
      and d: "list_all2 (dispatched (\<lambda>_. m) ''a/b'') [example_sub, ?u, ?no] subs'"
    by auto
  from d obtain s' u' where "subs' = [s', u', ?no]" "queue_added queue3 m (s_queue s')" "s_listener_calls s' = 1"
    "queue_added unb2 m (s_queue u')"
    using v ex by (auto simp: dispatched_def list_all2_Cons1)
  with on q show ?thesis by (auto simp: queue_added_def bounded_put_def)
qed


text \<open>A publication to a fixed topic with QoS 1, whose request is fresh.\<close>

definition example_wpub :: publication where
  "example_wpub = example_pub\<lparr>p_config := RTI_MQTT_PublicationConfig_DEFAULT\<lparr>pcfg_topic := ''t'', pcfg_qos := QosLevel_ONE\<rparr>\<rparr>"

definition example_we :: "std_sample write_env" where
  "example_we = \<lparr>wr_dyn = std_dyn, wr_pub = std_pub_env, wr_topic_size = (\<lambda>t. of_nat (length t)), wr_payload_copy = True\<rparr>"


theorem client_finalize_complete_witness:
  "\<exists>(c :: std_sample client) c'. length (c_subscriptions c) = 1 \<and>
     RTI_MQTT_Client_finalize (\<lambda>_. example_env) (\<lambda>_. std_env) c = Some (DDS_RETCODE_OK, c') \<and>
     c_subscriptions c' = [] \<and> \<not> c_client c'"
proof -
  obtain c :: "std_sample client" where c: "reachable example_cfg c" "map s_config (c_subscriptions c) = [example_scfg]"
    "\<forall>s \<in> set (c_subscriptions c). RTI_MQTT_Subscription_finalize std_env s \<noteq> None"
    using example_subscribed by auto
  have "length (c_subscriptions c) = 1" using arg_cong [OF c(2), of length] by simp
  moreover have "ce_seq_finalize example_env" "ce_mutex_finalize example_env" by (simp_all add: example_env_def)
  with client_finalize_complete [OF c(1), of "\<lambda>_. example_env" "\<lambda>_. std_env"] c(3) obtain c' where
    "RTI_MQTT_Client_finalize (\<lambda>_. example_env) (\<lambda>_. std_env) c = Some (DDS_RETCODE_OK, c')"
    "c_subscriptions c' = []" "\<not> c_client c'"
    by auto
  ultimately show ?thesis by blast
qed


end
