(* ===== verification/CLib.thy ===== *)
theory CLib
  imports Prelude
begin

text \<open>
  The functions of the C standard library that the gateway uses on numbers and strings:
  \<^verbatim>\<open>strtol\<close> and \<^verbatim>\<open>strtoul\<close> with base 0 and no end pointer, the prefix test by \<^verbatim>\<open>strstr\<close>, the decimal
  and hexadecimal conversions of \<^verbatim>\<open>printf\<close>, and the truncation of \<^verbatim>\<open>snprintf\<close>.  \<^verbatim>\<open>long\<close> has 64 bits.
  The lemmas show that \<^verbatim>\<open>strtol\<close> and \<^verbatim>\<open>strtoul\<close> read back what the decimal conversion prints.
\<close>

section \<open>Numbers from strings\<close>

definition isspace :: "char \<Rightarrow> bool" where
  "isspace c \<longleftrightarrow> c = CHR '' '' \<or> (9 \<le> (of_char c :: nat) \<and> (of_char c :: nat) \<le> 13)"

definition digit_value :: "char \<Rightarrow> nat option" where
  "digit_value c =
     (let n = (of_char c :: nat) in
      if 48 \<le> n \<and> n \<le> 57 then Some (n - 48)
      else if 65 \<le> n \<and> n \<le> 90 then Some (n - 55)
      else if 97 \<le> n \<and> n \<le> 122 then Some (n - 87)
      else None)"

definition is_digit :: "nat \<Rightarrow> char \<Rightarrow> bool" where
  "is_digit base c \<longleftrightarrow> (case digit_value c of None \<Rightarrow> False | Some d \<Rightarrow> d < base)"

text \<open>The value of the longest prefix of digits.\<close>

fun digits_value :: "nat \<Rightarrow> nat \<Rightarrow> string \<Rightarrow> nat" where
  "digits_value base acc [] = acc"
| "digits_value base acc (c # cs) =
     (if is_digit base c then digits_value base (acc * base + the (digit_value c)) cs else acc)"

text \<open>
  With base 0 the prefix chooses the base: \<^verbatim>\<open>0x\<close> or \<^verbatim>\<open>0X\<close> before a hexadecimal digit, a leading \<^verbatim>\<open>0\<close>,
  or else decimal.
\<close>

definition number_value :: "string \<Rightarrow> nat" where
  "number_value s =
     (case s of
        z # x # d # ds \<Rightarrow>
          if z = CHR ''0'' \<and> (x = CHR ''x'' \<or> x = CHR ''X'') \<and> is_digit 16 d
          then digits_value 16 0 (d # ds)
          else digits_value (if z = CHR ''0'' then 8 else 10) 0 s
      | z # _ \<Rightarrow> digits_value (if z = CHR ''0'' then 8 else 10) 0 s
      | [] \<Rightarrow> 0)"

text \<open>The sign (\<open>True\<close> for a minus) and the magnitude.\<close>

definition scan_number :: "string \<Rightarrow> bool \<times> nat" where
  "scan_number s =
     (case dropWhile isspace s of
        [] \<Rightarrow> (False, 0)
      | c # cs \<Rightarrow>
          if c = CHR ''-'' then (True, number_value cs)
          else if c = CHR ''+'' then (False, number_value cs)
          else (False, number_value (c # cs)))"

definition LONG_MAX :: int where
  "LONG_MAX = 2 ^ 63 - 1"

definition LONG_MIN :: int where
  "LONG_MIN = - (2 ^ 63)"

definition strtol :: "string \<Rightarrow> int" where
  "strtol s =
     (case scan_number s of
        (neg, n) \<Rightarrow> let v = (if neg then - int n else int n) in max LONG_MIN (min LONG_MAX v))"

text \<open>
  A magnitude out of range is \<^verbatim>\<open>ULONG_MAX\<close>; a minus negates the result in the unsigned type.
\<close>

definition strtoul :: "string \<Rightarrow> int" where
  "strtoul s =
     (case scan_number s of
        (neg, n) \<Rightarrow>
          if n \<ge> 2 ^ 64 then 2 ^ 64 - 1
          else if neg then (- int n) mod 2 ^ 64
          else int n)"

section \<open>Numbers to strings\<close>

definition digit_char :: "nat \<Rightarrow> char" where
  "digit_char d = (if d < 10 then char_of (48 + d) else char_of (87 + d))"

text \<open>The digits of a number in a base, most significant first; a base below 2 counts as 2.\<close>

function show_base :: "nat \<Rightarrow> nat \<Rightarrow> string" where
  "show_base b n =
     (if n < max 2 b then [digit_char n]
      else show_base b (n div max 2 b) @ [digit_char (n mod max 2 b)])"
  by pat_completeness auto
termination
  by (relation "measure snd") (auto simp: max_def)

declare show_base.simps [simp del]

abbreviation show_nat :: "nat \<Rightarrow> string" where
  "show_nat \<equiv> show_base 10"

definition show_int :: "int \<Rightarrow> string" where
  "show_int i = (if i < 0 then CHR ''-'' # show_nat (nat (- i)) else show_nat (nat i))"

text \<open>
  \<^verbatim>\<open>snprintf(buf, size, ...)\<close> on a buffer whose present text is \<open>old\<close>: nothing is written when the
  size is 0, otherwise the output is cut to leave room for the terminator.
\<close>

definition snprintf :: "nat \<Rightarrow> string \<Rightarrow> string \<Rightarrow> string" where
  "snprintf n out old = (if n = 0 then old else take (n - 1) (takeWhile (\<lambda>c. c \<noteq> NUL) out))"

text \<open>\<^verbatim>\<open>s == strstr(s, p)\<close>: the first occurrence of \<open>p\<close> is at the start.\<close>

fun starts_with :: "string \<Rightarrow> string \<Rightarrow> bool" where
  "starts_with [] s = True"
| "starts_with (p # ps) [] = False"
| "starts_with (p # ps) (c # cs) = (p = c \<and> starts_with ps cs)"

section \<open>Reading back\<close>

lemma of_char_char_of_nat [simp]: "n < 256 \<Longrightarrow> (of_char (char_of n :: char) :: nat) = n"
  by simp

lemma digit_value_digit_char [simp]: "d < 36 \<Longrightarrow> digit_value (digit_char d) = Some d"
  by (auto simp: digit_value_def digit_char_def Let_def)

lemma is_digit_digit_char [simp]: "d < b \<Longrightarrow> b \<le> 36 \<Longrightarrow> is_digit b (digit_char d)"
  by (simp add: is_digit_def)

lemma digit_char_inj: "d < 36 \<Longrightarrow> e < 36 \<Longrightarrow> digit_char d = digit_char e \<longleftrightarrow> d = e"
  by (metis digit_value_digit_char option.inject)

lemma digit_char_0: "digit_char 0 = CHR ''0''"
  by code_simp

lemma digit_char_eq_zero [simp]: "d < 36 \<Longrightarrow> digit_char d = CHR ''0'' \<longleftrightarrow> d = 0"
  using digit_char_inj [of d 0] by (simp add: digit_char_0)

lemma digits_value_append:
  "list_all (is_digit b) xs \<Longrightarrow> digits_value b acc (xs @ ys) = digits_value b (digits_value b acc xs) ys"
  by (induction xs arbitrary: acc) auto

lemma show_base_digits: "2 \<le> b \<Longrightarrow> b \<le> 36 \<Longrightarrow> list_all (is_digit b) (show_base b n)"
  by (induction b n rule: show_base.induct) (subst show_base.simps, auto)

lemma digits_value_show_base: "2 \<le> b \<Longrightarrow> b \<le> 36 \<Longrightarrow> digits_value b 0 (show_base b n) = n"
proof (induction b n rule: show_base.induct)
  case (1 b n)
  then have b: "max 2 b = b" "b > 0" by auto
  show ?case
  proof (cases "n < b")
    case True
    with 1 b show ?thesis by (simp add: show_base.simps [of b n])
  next
    case False
    with 1 b have "digits_value b 0 (show_base b (n div b)) = n div b" by simp
    moreover have "n mod b < b" using b by simp
    moreover have "digit_value (digit_char (n mod b)) = Some (n mod b)"
      using calculation(2) \<open>b \<le> 36\<close> by simp
    ultimately show ?thesis
      using 1 b False
      by (simp add: show_base.simps [of b n] digits_value_append show_base_digits)
  qed
qed

lemma show_base_head: "2 \<le> b \<Longrightarrow> b \<le> 36 \<Longrightarrow>
   \<exists>d ds. show_base b n = digit_char d # ds \<and> d < b \<and> (d = 0 \<longrightarrow> n = 0)"
proof (induction b n rule: show_base.induct)
  case (1 b n)
  then have b: "max 2 b = b" by auto
  show ?case
  proof (cases "n < b")
    case True
    with b show ?thesis by (auto simp: show_base.simps [of b n])
  next
    case False
    with 1 b obtain d ds where "show_base b (n div b) = digit_char d # ds" "d < b" "d = 0 \<longrightarrow> n div b = 0"
      by auto
    with False b \<open>2 \<le> b\<close> show ?thesis
      by (subst show_base.simps) (auto simp: div_eq_0_iff)
  qed
qed

text \<open>The decimal text of a number starts with no space, sign or, unless it is 0, zero.\<close>

lemma digit_char_plain:
  assumes "d < 10"
  shows "\<not> isspace (digit_char d)" "digit_char d \<noteq> CHR ''-''" "digit_char d \<noteq> CHR ''+''"
proof -
  have v: "digit_value (digit_char d) \<noteq> None" using assms by simp
  show "\<not> isspace (digit_char d)"
    using v by (auto simp: isspace_def digit_value_def Let_def)
  show "digit_char d \<noteq> CHR ''-''" "digit_char d \<noteq> CHR ''+''"
    using v by (auto simp: digit_value_def)
qed

lemma number_value_decimal:
  assumes "s = digit_char d # ds" "d < 10" "d \<noteq> 0"
  shows "number_value s = digits_value 10 0 s"
  using assms by (auto simp: number_value_def split: list.splits)

lemma number_value_show_nat [simp]: "number_value (show_nat n) = n"
proof (cases "n = 0")
  case True
  then show ?thesis
    by (simp add: number_value_def show_base.simps [of 10 0] digit_char_0 is_digit_def digit_value_def)
next
  case False
  then obtain d ds where "show_nat n = digit_char d # ds" "d < 10" "d \<noteq> 0"
    using show_base_head [of 10 n] by auto
  then show ?thesis using number_value_decimal digits_value_show_base [of 10 n] by auto
qed

lemma scan_number_show_nat [simp]: "scan_number (show_nat n) = (False, n)"
proof -
  obtain d ds where s: "show_nat n = digit_char d # ds" "d < 10" using show_base_head [of 10 n] by auto
  then have "number_value (digit_char d # ds) = n" using number_value_show_nat [of n] by simp
  with s show ?thesis by (simp add: scan_number_def digit_char_plain)
qed

lemma scan_number_show_int: "scan_number (show_int i) = (i < 0, nat \<bar>i\<bar>)"
proof (cases "i < 0")
  case True
  then show ?thesis by (simp add: scan_number_def show_int_def isspace_def)
qed (simp add: show_int_def)

lemma strtol_show_int [simp]: "LONG_MIN \<le> i \<Longrightarrow> i \<le> LONG_MAX \<Longrightarrow> strtol (show_int i) = i"
  by (auto simp: strtol_def scan_number_show_int Let_def)

lemma strtol_show_nat [simp]: "int n \<le> LONG_MAX \<Longrightarrow> strtol (show_nat n) = int n"
  by (auto simp: strtol_def LONG_MIN_def Let_def)

lemma strtoul_show_nat [simp]: "n < 2 ^ 64 \<Longrightarrow> strtoul (show_nat n) = int n"
  by (simp add: strtoul_def)

text \<open>In particular for the numbers of the width of the DDS types.\<close>

lemma strtol_u32 [simp]: "strtol (show_nat (unat (w :: u32))) = uint w"
  using uint_lt2p [of w] by (subst strtol_show_nat) (simp_all add: LONG_MAX_def)

lemma strtol_i32 [simp]: "strtol (show_int (sint (w :: i32))) = sint w"
  using sint_greater_eq [of w] sint_less [of w] by (intro strtol_show_int) (simp_all add: LONG_MAX_def LONG_MIN_def)

lemma starts_with_take: "starts_with p s \<longleftrightarrow> take (length p) s = p"
  by (induction p s rule: starts_with.induct) auto

lemma NUL_digit [simp]: "\<not> is_digit b NUL"
  by (simp add: is_digit_def digit_value_def NUL_def)

lemma show_base_cstring: "2 \<le> b \<Longrightarrow> b \<le> 36 \<Longrightarrow> cstring (show_base b n)"
  using show_base_digits [of b n] by (auto simp: cstring_def list_all_iff)

lemma show_int_cstring [simp]: "cstring (show_int i)"
  using show_base_cstring [of 10] by (auto simp: show_int_def cstring_def NUL_def)

text \<open>A character stored in an octet is the same character.\<close>

lemma octet_char [simp]: "char_of (unat (of_char c :: octet)) = c"
proof -
  have "(of_char c :: octet) = of_nat (of_char c)" by (simp add: of_nat_of_char)
  moreover have "(of_char c :: nat) < 256" by (metis of_char_mod_256 mod_less_divisor zero_less_numeral)
  ultimately have "unat (of_char c :: octet) = of_char c" by (simp add: unat_of_nat take_bit_eq_mod)
  then show ?thesis by simp
qed

end
