(* ===== verification/PropertyList.thy ===== *)
theory PropertyList
  imports Prelude
begin

text \<open>
  The properties of Routing Service, from which the plugins fill in their configuration objects.
  The property list belongs to Routing Service; it is a parameter, the function that looks up a
  name.  A parser is a list of steps, one per property, run in order until one fails.
\<close>

type_synonym properties = "string \<Rightarrow> string option"

text \<open>\<^verbatim>\<open>RTI_RS_MQTT_lookup_property\<close> and \<^verbatim>\<open>RTI_TSFM_lookup_property\<close>: run the statements of the macro's last argument when the property is found.\<close>

definition lookup_property ::
    "properties \<Rightarrow> string \<Rightarrow> (string \<Rightarrow> 'c \<Rightarrow> 'c option) \<Rightarrow> 'c \<Rightarrow> 'c option" where
  "lookup_property properties p set_val config =
     (case properties p of None \<Rightarrow> Some config | Some pval \<Rightarrow> set_val pval config)"

text \<open>
  What the parsers of a configuration share: the defaults, then the properties in order.  The
  caller's pointer is updated only on success; an object that the call allocated is deleted on
  failure, one of the caller's keeps what the steps before the failing one assigned.  The last
  component lists the deleted objects.
\<close>

definition Config_parse ::
    "('c option \<Rightarrow> retcode \<times> 'c option \<times> 'c list) \<Rightarrow> ('c \<Rightarrow> 'c option) list \<Rightarrow> 'c option
     \<Rightarrow> retcode \<times> 'c option \<times> 'c list" where
  "Config_parse default_config steps config_out =
     (case default_config config_out of
        (rc, config, deleted) \<Rightarrow>
          if rc \<noteq> DDS_RETCODE_OK then (DDS_RETCODE_ERROR, config, deleted)
          else
            case config of
              None \<Rightarrow> (DDS_RETCODE_ERROR, config_out, deleted)
            | Some c \<Rightarrow>
                case run_steps steps c of
                  (rc, c1) \<Rightarrow>
                    if rc = DDS_RETCODE_OK then (DDS_RETCODE_OK, Some c1, [])
                    else if config_out = None then (DDS_RETCODE_ERROR, None, [c1])
                    else (DDS_RETCODE_ERROR, Some c1, []))"

lemma run_steps_keeps:
  "\<forall>f \<in> set steps. \<forall>x y. f x = Some y \<longrightarrow> P y = P x \<Longrightarrow> P (snd (run_steps steps x)) = P x"
  by (induction steps arbitrary: x) (auto split: option.splits)

lemma run_steps_nth:
  assumes "run_steps steps x = (DDS_RETCODE_OK, z)" "n < length steps"
  shows "\<exists>y y'. (steps ! n) y = Some y' \<and> run_steps (drop (Suc n) steps) y' = (DDS_RETCODE_OK, z)"
  using assms by (induction steps arbitrary: x n) (auto simp: nth_Cons split: option.splits nat.splits)

lemma lookup_property_simps [simp]:
  "properties p = None \<Longrightarrow> lookup_property properties p f c = Some c"
  "properties p = Some v \<Longrightarrow> lookup_property properties p f c = f v c"
  by (simp_all add: lookup_property_def)

lemma Config_parse_ok:
  assumes "default_config config_out = (DDS_RETCODE_OK, Some c, [])"
  shows "Config_parse default_config steps config_out = (DDS_RETCODE_OK, Some c1, []) \<longleftrightarrow>
           run_steps steps c = (DDS_RETCODE_OK, c1)"
    and "fst (Config_parse default_config steps config_out) = DDS_RETCODE_OK \<longleftrightarrow>
           fst (run_steps steps c) = DDS_RETCODE_OK"
  by (auto simp: Config_parse_def assms split: prod.splits)



end
