(* ===== verification/Properties.thy ===== *)
theory Properties
  imports Infrastructure CLib PropertyList
begin

text \<open>
  The configuration of the MQTT adapter, \<^verbatim>\<open>plugins/adapters/mqtt/srcC/adapter/Properties.c\<close>: the values
  of the Routing Service properties are converted to the configuration objects of the client, of
  subscriptions and of publications.

  The property list belongs to Routing Service; it is a parameter, the function that looks up a
  name.  The outcomes of allocations and of the DDS calls are in the environment.  A conversion
  returns \<open>None\<close> where the C function returns \<^verbatim>\<open>DDS_RETCODE_ERROR\<close>.  The model is the build
  with TLS (\<^verbatim>\<open>RTI_MQTT_USE_SSL\<close>).
\<close>

record prop_env =
  pe_strings :: "string seq_api"
  pe_octets :: "octet seq_api"
  pe_dup :: "string \<Rightarrow> bool"
  pe_string_alloc :: "nat \<Rightarrow> bool"
  pe_string_seq_copy :: bool
  pe_string_seq_finalize :: bool
  pe_octet_seq_copy :: bool
  pe_octet_seq_finalize :: bool
  pe_password_alloc :: bool
  pe_tls_alloc :: bool
  pe_tls_initialize :: "ssl_tls_config option"

section \<open>Values from strings\<close>

definition RTI_MQTT_MqttProtocolVersion_from_string :: "string \<Rightarrow> mqtt_protocol_version option" where
  "RTI_MQTT_MqttProtocolVersion_from_string str =
     (if str = ''default'' \<or> str = ''MQTT_DEFAULT'' then Some MQTT_DEFAULT
      else if str = ''3.1'' \<or> str = ''MQTT_3_1'' then Some MQTT_3_1
      else if str = ''3.1.1'' \<or> str = ''MQTT_3_1_1'' then Some MQTT_3_1_1
      else if str = ''5'' \<or> str = ''MQTT_5'' then Some MQTT_5
      else None)"

definition RTI_MQTT_SslTlsProtocolVersion_from_string :: "string \<Rightarrow> ssl_tls_protocol_version option" where
  "RTI_MQTT_SslTlsProtocolVersion_from_string str =
     (if str = ''default'' \<or> str = ''TLS_DEFAULT'' then Some TLS_DEFAULT
      else if str = ''1.0'' \<or> str = ''TLS_1_0'' then Some TLS_1_0
      else if str = ''1.1'' \<or> str = ''TLS_1_1'' then Some TLS_1_1
      else if str = ''1.2'' \<or> str = ''TLS_1_2'' then Some TLS_1_2
      else None)"

definition RTI_MQTT_QosLevel_from_string :: "string \<Rightarrow> qos_level option" where
  "RTI_MQTT_QosLevel_from_string str =
     (if str = ''zero'' \<or> str = ''ZERO'' \<or> str = ''Zero'' \<or> str = ''0'' then Some QosLevel_ZERO
      else if str = ''one'' \<or> str = ''ONE'' \<or> str = ''One'' \<or> str = ''1'' then Some QosLevel_ONE
      else if str = ''two'' \<or> str = ''TWO'' \<or> str = ''Two'' \<or> str = ''2'' then Some QosLevel_TWO
      else None)"

definition RTI_MQTT_PersistenceLevel_from_string :: "string \<Rightarrow> persistence_level option" where
  "RTI_MQTT_PersistenceLevel_from_string str =
     (if str \<in> {''none'', ''NONE'', ''n'', ''N'', ''no'', ''NO'', ''No'', ''0''}
      then Some PersistenceLevel_NONE
      else if str \<in> {''durable'', ''DURABLE'', ''Durable'', ''y'', ''Y'', ''yes'', ''YES'', ''Yes'', ''1''}
      then Some PersistenceLevel_DURABLE
      else None)"

definition DDS_Boolean_from_string :: "string \<Rightarrow> bool option" where
  "DDS_Boolean_from_string str =
     (if str \<in> {''t'', ''T'', ''true'', ''TRUE'', ''True'', ''y'', ''Y'', ''yes'', ''YES'', ''Yes'', ''1''}
      then Some True
      else if str \<in> {''f'', ''F'', ''false'', ''FALSE'', ''False'', ''n'', ''N'', ''no'', ''NO'', ''No'', ''0''}
      then Some False
      else None)"

subsection \<open>Lists of strings\<close>

text \<open>
  The inner loop: the number of characters from \<open>k\<close> to the next semicolon or the terminator.
  \<open>None\<close> is a read beyond the terminator.
\<close>

function seq_scan :: "string \<Rightarrow> nat \<Rightarrow> nat \<Rightarrow> nat option" where
  "seq_scan str k n =
     (case cstr_at str (k + n) of
        None \<Rightarrow> None
      | Some cur_ch \<Rightarrow> if cur_ch \<noteq> CHR '';'' \<and> cur_ch \<noteq> NUL then seq_scan str k (n + 1) else Some n)"
  by pat_completeness auto
termination
  by (relation "measure (\<lambda>(str, k, n). Suc (length str) - (k + n))")
    (auto simp: cstr_at_def split: if_splits)

text \<open>The outer loop; the flag of the result is \<open>False\<close> after a failed call.\<close>

function string_seq_loop ::
    "prop_env \<Rightarrow> string \<Rightarrow> nat \<Rightarrow> nat \<Rightarrow> string dds_seq \<Rightarrow> (bool \<times> string dds_seq) option" where
  "string_seq_loop env str consumed_len seq_len seq =
     (if consumed_len < length str then
        case seq_scan str consumed_len 0 of
          None \<Rightarrow> None
        | Some cur_str_len \<Rightarrow>
            case seq_ensure_length (pe_strings env) (of_nat (seq_len + 1)) (of_nat (seq_len + 1)) seq of
              None \<Rightarrow> Some (False, seq)
            | Some seq1 \<Rightarrow>
                if \<not> pe_string_alloc env seq_len then Some (False, seq1)
                else
                  string_seq_loop env str (consumed_len + cur_str_len + 1) (seq_len + 1)
                    (seq1\<lparr>seq_buf := (seq_buf seq1)[seq_len := take cur_str_len (drop consumed_len str)]\<rparr>)
      else Some (True, seq))"
  by pat_completeness auto
termination
  by (relation "measure (\<lambda>(env, str, consumed_len, seq_len, seq). length str - consumed_len)") auto

declare seq_scan.simps [simp del] string_seq_loop.simps [simp del]

text \<open>
  \<^verbatim>\<open>DDS_StringSeq_set_length\<close> returns a boolean, nonzero for success; the source compares it with
  \<^verbatim>\<open>DDS_RETCODE_OK\<close>, which is zero.
\<close>

definition DDS_StringSeq_from_string ::
    "prop_env \<Rightarrow> string \<Rightarrow> string dds_seq \<Rightarrow> (retcode \<times> string dds_seq) option" where
  "DDS_StringSeq_from_string env str seq =
     (let orig_seq_len = length (seq_buf seq);
          set_length = (\<lambda>n s. case seq_set_length (pe_strings env) (of_nat n) s of None \<Rightarrow> s | Some s' \<Rightarrow> s') in
      if str = [] then
        case seq_set_length (pe_strings env) 0 seq of
          None \<Rightarrow> Some (DDS_RETCODE_OK, seq)
        | Some seq1 \<Rightarrow> Some (DDS_RETCODE_ERROR, set_length orig_seq_len seq1)
      else
        case string_seq_loop env str 0 orig_seq_len seq of
          None \<Rightarrow> None
        | Some (ok, seq1) \<Rightarrow>
            if ok then Some (DDS_RETCODE_OK, seq1)
            else Some (DDS_RETCODE_ERROR, set_length orig_seq_len seq1))"

text \<open>
  The characters are copied into the contiguous buffer of the sequence, \<^verbatim>\<open>strlen(str)\<close> of them: the
  text ends at the first zero octet.
\<close>

definition DDS_OctetSeq_from_string ::
    "prop_env \<Rightarrow> string \<Rightarrow> octet dds_seq \<Rightarrow> retcode \<times> octet dds_seq" where
  "DDS_OctetSeq_from_string env chars seq =
     (let str = takeWhile (\<lambda>c. c \<noteq> NUL) chars in
      if str = [] then
        case seq_set_length (pe_octets env) 0 seq of
          None \<Rightarrow> (DDS_RETCODE_ERROR,
                    case seq_set_length (pe_octets env) 0 seq of None \<Rightarrow> seq | Some s \<Rightarrow> s)
        | Some seq1 \<Rightarrow> (DDS_RETCODE_OK, seq1)
      else
        case seq_ensure_length (pe_octets env) (of_nat (length str)) (of_nat (length str)) seq of
          None \<Rightarrow> (DDS_RETCODE_ERROR,
                    case seq_set_length (pe_octets env) (of_nat (length (seq_buf seq))) seq of
                      None \<Rightarrow> seq | Some s \<Rightarrow> s)
        | Some seq1 \<Rightarrow>
            (DDS_RETCODE_OK, seq1\<lparr>seq_buf := map of_char str @ drop (length str) (seq_buf seq1)\<rparr>))"

section \<open>The client\<close>

text \<open>
  A property whose value is a list: parsed into a sequence of its own, which is copied and
  finalised.
\<close>

definition parse_strings :: "prop_env \<Rightarrow> string \<Rightarrow> string list option" where
  "parse_strings env pval =
     (case DDS_StringSeq_from_string env pval seq_empty of
        None \<Rightarrow> None
      | Some (rc, seq) \<Rightarrow>
          if rc \<noteq> DDS_RETCODE_OK \<or> \<not> pe_string_seq_copy env \<or> \<not> pe_string_seq_finalize env then None
          else Some (seq_buf seq))"

definition parse_password :: "prop_env \<Rightarrow> string \<Rightarrow> octet list option \<Rightarrow> octet list option" where
  "parse_password env pval password =
     (case DDS_OctetSeq_from_string env pval seq_empty of
        (rc, seq) \<Rightarrow>
          if rc \<noteq> DDS_RETCODE_OK then None
          else
            case password of
              Some _ \<Rightarrow>
                if pe_octet_seq_copy env \<and> pe_octet_seq_finalize env then Some (seq_buf seq) else None
            | None \<Rightarrow> if pe_password_alloc env then Some (seq_buf seq) else None)"

text \<open>\<^verbatim>\<open>allocate_ssl_tls_config\<close>.\<close>

definition allocate_ssl_tls_config :: "prop_env \<Rightarrow> client_config \<Rightarrow> client_config option" where
  "allocate_ssl_tls_config env c =
     (case cfg_ssl_tls_config c of
        Some _ \<Rightarrow> Some c
      | None \<Rightarrow>
          if \<not> pe_tls_alloc env then None
          else
            case pe_tls_initialize env of
              None \<Rightarrow> None
            | Some tls \<Rightarrow>
                Some (c\<lparr>cfg_ssl_tls_config := Some (tls\<lparr>tls_verify_server_certificate := True\<rparr>)\<rparr>))"

text \<open>The loop over the server URIs, which stops at the first one that needs TLS.\<close>

fun scan_uris :: "prop_env \<Rightarrow> string list \<Rightarrow> client_config \<Rightarrow> client_config option" where
  "scan_uris env [] c = Some c"
| "scan_uris env (uri # uris) c =
     (if cfg_ssl_tls_config c \<noteq> None then Some c
      else if starts_with ''ssl'' uri then
        case allocate_ssl_tls_config env c of None \<Rightarrow> None | Some c1 \<Rightarrow> scan_uris env uris c1
      else scan_uris env uris c)"

text \<open>A TLS property: allocate the TLS configuration if there is none, then set a field of it.\<close>

definition tls_property ::
    "prop_env \<Rightarrow> properties \<Rightarrow> string \<Rightarrow> (string \<Rightarrow> ssl_tls_config \<Rightarrow> ssl_tls_config option)
     \<Rightarrow> client_config \<Rightarrow> client_config option" where
  "tls_property env properties p set_val =
     lookup_property properties p (\<lambda>pval c.
       case allocate_ssl_tls_config env c of
         None \<Rightarrow> None
       | Some c1 \<Rightarrow>
           case cfg_ssl_tls_config c1 of
             None \<Rightarrow> None
           | Some tls \<Rightarrow> map_option (\<lambda>t. c1\<lparr>cfg_ssl_tls_config := Some t\<rparr>) (set_val pval tls))"

definition client_tls_steps ::
    "prop_env \<Rightarrow> properties \<Rightarrow> (client_config \<Rightarrow> client_config option) list" where
  "client_tls_steps env properties =
     [\<lambda>c. scan_uris env (cfg_server_uris c) c,
      tls_property env properties ''client.ssl.ca''
        (\<lambda>pval t. if pe_dup env ''client.ssl.ca'' then Some (t\<lparr>tls_ca := pval\<rparr>) else None),
      tls_property env properties ''client.ssl.id''
        (\<lambda>pval t. if pe_dup env ''client.ssl.id'' then Some (t\<lparr>tls_identity := pval\<rparr>) else None),
      tls_property env properties ''client.ssl.key''
        (\<lambda>pval t. if pe_dup env ''client.ssl.key'' then Some (t\<lparr>tls_private_key := pval\<rparr>) else None),
      tls_property env properties ''client.ssl.key_password''
        (\<lambda>pval t. if pe_dup env ''client.ssl.key_password''
                   then Some (t\<lparr>tls_private_key_password := pval\<rparr>) else None),
      tls_property env properties ''client.ssl.cypher suites''
        (\<lambda>pval t. if pe_dup env ''client.ssl.cypher suites''
                   then Some (t\<lparr>tls_cypher_suites := pval\<rparr>) else None),
      tls_property env properties ''client.ssl.protocol_version''
        (\<lambda>pval t. map_option (\<lambda>v. t\<lparr>tls_protocol_version := v\<rparr>)
                   (RTI_MQTT_SslTlsProtocolVersion_from_string pval)),
      tls_property env properties ''client.ssl.verify_server_certificate''
        (\<lambda>pval t. map_option (\<lambda>v. t\<lparr>tls_verify_server_certificate := v\<rparr>)
                   (DDS_Boolean_from_string pval))]"

text \<open>
  The assignments of \<^verbatim>\<open>strtol\<close> convert from \<^verbatim>\<open>long\<close> to a 32-bit field.  The properties of the keep-alive
  period assign \<^verbatim>\<open>connect_timeout\<close>, as in the source.
\<close>

definition to_32 :: "string \<Rightarrow> 32 word" where
  "to_32 pval = word_of_int (strtol pval)"

definition client_property_steps ::
    "prop_env \<Rightarrow> properties \<Rightarrow> (client_config \<Rightarrow> client_config option) list" where
  "client_property_steps env properties =
     [lookup_property properties ''client.id''
        (\<lambda>pval c. if pe_dup env ''client.id'' then Some (c\<lparr>cfg_id := pval\<rparr>) else None),
      lookup_property properties ''client.protocol_version''
        (\<lambda>pval c. map_option (\<lambda>v. c\<lparr>cfg_protocol_version := v\<rparr>)
                   (RTI_MQTT_MqttProtocolVersion_from_string pval)),
      lookup_property properties ''client.servers''
        (\<lambda>pval c. map_option (\<lambda>v. c\<lparr>cfg_server_uris := v\<rparr>) (parse_strings env pval)),
      lookup_property properties ''client.connection_timeout.sec''
        (\<lambda>pval c. Some (c\<lparr>cfg_connect_timeout := (cfg_connect_timeout c)\<lparr>seconds := to_32 pval\<rparr>\<rparr>)),
      lookup_property properties ''client.connection_timeout.nanosec''
        (\<lambda>pval c. Some (c\<lparr>cfg_connect_timeout := (cfg_connect_timeout c)\<lparr>nanoseconds := to_32 pval\<rparr>\<rparr>)),
      lookup_property properties ''client.max_connection_retries''
        (\<lambda>pval c. Some (c\<lparr>cfg_max_connection_retries := to_32 pval\<rparr>)),
      lookup_property properties ''client.keep_alive_period.sec''
        (\<lambda>pval c. Some (c\<lparr>cfg_connect_timeout := (cfg_connect_timeout c)\<lparr>seconds := to_32 pval\<rparr>\<rparr>)),
      lookup_property properties ''client.keep_alive_period.nanosec''
        (\<lambda>pval c. Some (c\<lparr>cfg_connect_timeout := (cfg_connect_timeout c)\<lparr>nanoseconds := to_32 pval\<rparr>\<rparr>)),
      lookup_property properties ''client.clean_session''
        (\<lambda>pval c. map_option (\<lambda>v. c\<lparr>cfg_clean_session := v\<rparr>) (DDS_Boolean_from_string pval)),
      lookup_property properties ''client.unsubscribe_on_disconnect''
        (\<lambda>pval c. map_option (\<lambda>v. c\<lparr>cfg_unsubscribe_on_disconnect := v\<rparr>) (DDS_Boolean_from_string pval)),
      lookup_property properties ''client.max_reply_timeout.sec''
        (\<lambda>pval c. Some (c\<lparr>cfg_max_reply_timeout := (cfg_max_reply_timeout c)\<lparr>seconds := to_32 pval\<rparr>\<rparr>)),
      lookup_property properties ''client.max_reply_timeout.nanosec''
        (\<lambda>pval c. Some (c\<lparr>cfg_max_reply_timeout := (cfg_max_reply_timeout c)\<lparr>nanoseconds := to_32 pval\<rparr>\<rparr>)),
      lookup_property properties ''client.reconnect''
        (\<lambda>pval c. map_option (\<lambda>v. c\<lparr>cfg_reconnect := v\<rparr>) (DDS_Boolean_from_string pval)),
      lookup_property properties ''client.max_unack_messages''
        (\<lambda>pval c. Some (c\<lparr>cfg_max_unack_messages := to_32 pval\<rparr>)),
      lookup_property properties ''client.persistence''
        (\<lambda>pval c. map_option (\<lambda>v. c\<lparr>cfg_persistence_level := v\<rparr>) (RTI_MQTT_PersistenceLevel_from_string pval)),
      lookup_property properties ''client.persistence_storage''
        (\<lambda>pval c. if pe_dup env ''client.persistence_storage''
                   then Some (c\<lparr>cfg_persistence_storage := Some pval\<rparr>) else None),
      lookup_property properties ''client.username''
        (\<lambda>pval c. if pe_dup env ''client.username'' then Some (c\<lparr>cfg_username := Some pval\<rparr>) else None),
      lookup_property properties ''client.password''
        (\<lambda>pval c. map_option (\<lambda>v. c\<lparr>cfg_password := Some v\<rparr>) (parse_password env pval (cfg_password c)))]"


definition RTI_MQTT_ClientConfig_parse_from_properties ::
    "prop_env \<Rightarrow> (bool \<Rightarrow> client_config option) \<Rightarrow> (client_config \<Rightarrow> client_config \<Rightarrow> client_config option)
     \<Rightarrow> properties \<Rightarrow> client_config option \<Rightarrow> retcode \<times> client_config option \<times> client_config list" where
  "RTI_MQTT_ClientConfig_parse_from_properties env create_data copy properties =
     Config_parse (RTI_MQTT_ClientConfig_default create_data copy)
       (client_property_steps env properties @ client_tls_steps env properties)"

text \<open>
  The configuration of a broker connection holds the one of its client.  The functions that the IDL
  compiler generates for a type, its \<^verbatim>\<open>create_data\<close> and \<^verbatim>\<open>copy\<close>, are parameters; the functions of the
  member type are the ones for the outer type at that member.
\<close>

record broker_connection_config =
  bc_client :: client_config

definition RTI_RS_MQTT_BrokerConnectionConfig_DEFAULT :: broker_connection_config where
  "RTI_RS_MQTT_BrokerConnectionConfig_DEFAULT = \<lparr>bc_client = RTI_MQTT_ClientConfig_DEFAULT\<rparr>"

definition RTI_RS_MQTT_BrokerConnectionConfig_new ::
    "(bool \<Rightarrow> broker_connection_config option) \<Rightarrow> bool \<Rightarrow> retcode \<times> broker_connection_config option" where
  "RTI_RS_MQTT_BrokerConnectionConfig_new = Config_new"

definition RTI_RS_MQTT_BrokerConnectionConfig_default ::
    "(bool \<Rightarrow> broker_connection_config option)
     \<Rightarrow> (broker_connection_config \<Rightarrow> broker_connection_config \<Rightarrow> broker_connection_config option)
     \<Rightarrow> broker_connection_config option
     \<Rightarrow> retcode \<times> broker_connection_config option \<times> broker_connection_config list" where
  "RTI_RS_MQTT_BrokerConnectionConfig_default create_data copy =
     Config_default create_data copy RTI_RS_MQTT_BrokerConnectionConfig_DEFAULT"

text \<open>
  The parser of an outer configuration: its defaults, then the parser of the member, which works in
  place on the caller's object.
\<close>

definition Outer_parse ::
    "('c option \<Rightarrow> retcode \<times> 'c option \<times> 'c list) \<Rightarrow> ('m option \<Rightarrow> retcode \<times> 'm option \<times> 'm list)
     \<Rightarrow> ('c \<Rightarrow> 'm) \<Rightarrow> ('m \<Rightarrow> 'c \<Rightarrow> 'c) \<Rightarrow> 'c option \<Rightarrow> retcode \<times> 'c option \<times> 'c list" where
  "Outer_parse default_config parse_member member set_member config_out =
     (case default_config config_out of
        (rc, config, deleted) \<Rightarrow>
          if rc \<noteq> DDS_RETCODE_OK then (DDS_RETCODE_ERROR, config, deleted)
          else
            case config of
              None \<Rightarrow> (DDS_RETCODE_ERROR, config_out, deleted)
            | Some c \<Rightarrow>
                case parse_member (Some (member c)) of
                  (rc, m, _) \<Rightarrow>
                    let c1 = (case m of None \<Rightarrow> c | Some m1 \<Rightarrow> set_member m1 c) in
                    if rc = DDS_RETCODE_OK then (DDS_RETCODE_OK, Some c1, [])
                    else if config_out = None then (DDS_RETCODE_ERROR, None, [c1])
                    else (DDS_RETCODE_ERROR, Some c1, []))"

definition RTI_RS_MQTT_BrokerConnectionConfig_parse_from_properties ::
    "prop_env \<Rightarrow> (bool \<Rightarrow> broker_connection_config option)
     \<Rightarrow> (broker_connection_config \<Rightarrow> broker_connection_config \<Rightarrow> broker_connection_config option)
     \<Rightarrow> (bool \<Rightarrow> client_config option) \<Rightarrow> (client_config \<Rightarrow> client_config \<Rightarrow> client_config option)
     \<Rightarrow> properties \<Rightarrow> broker_connection_config option
     \<Rightarrow> retcode \<times> broker_connection_config option \<times> broker_connection_config list" where
  "RTI_RS_MQTT_BrokerConnectionConfig_parse_from_properties env create_data copy create_client copy_client properties =
     Outer_parse (RTI_RS_MQTT_BrokerConnectionConfig_default create_data copy)
       (RTI_MQTT_ClientConfig_parse_from_properties env create_client copy_client properties)
       bc_client (\<lambda>m c. c\<lparr>bc_client := m\<rparr>)"

section \<open>Readers and writers\<close>

definition subscription_property_steps ::
    "prop_env \<Rightarrow> properties \<Rightarrow> (subscription_config \<Rightarrow> subscription_config option) list" where
  "subscription_property_steps env properties =
     [lookup_property properties ''subscription.topics''
        (\<lambda>pval c. map_option (\<lambda>v. c\<lparr>topic_filters := v\<rparr>) (parse_strings env pval)),
      lookup_property properties ''subscription.max_qos''
        (\<lambda>pval c. map_option (\<lambda>v. c\<lparr>max_qos := v\<rparr>) (RTI_MQTT_QosLevel_from_string pval)),
      lookup_property properties ''subscription.queue_size''
        (\<lambda>pval c. Some (c\<lparr>message_queue_size := to_32 pval\<rparr>))]"

definition RTI_MQTT_SubscriptionConfig_parse_from_properties ::
    "prop_env \<Rightarrow> (bool \<Rightarrow> subscription_config option)
     \<Rightarrow> (subscription_config \<Rightarrow> subscription_config \<Rightarrow> subscription_config option)
     \<Rightarrow> properties \<Rightarrow> subscription_config option
     \<Rightarrow> retcode \<times> subscription_config option \<times> subscription_config list" where
  "RTI_MQTT_SubscriptionConfig_parse_from_properties env create_data copy properties =
     Config_parse (RTI_MQTT_SubscriptionConfig_default create_data copy)
       (subscription_property_steps env properties)"

record message_reader_config =
  mr_sub :: subscription_config

definition RTI_RS_MQTT_MessageReaderConfig_DEFAULT :: message_reader_config where
  "RTI_RS_MQTT_MessageReaderConfig_DEFAULT = \<lparr>mr_sub = RTI_MQTT_SubscriptionConfig_DEFAULT\<rparr>"

definition RTI_RS_MQTT_MessageReaderConfig_new ::
    "(bool \<Rightarrow> message_reader_config option) \<Rightarrow> bool \<Rightarrow> retcode \<times> message_reader_config option" where
  "RTI_RS_MQTT_MessageReaderConfig_new = Config_new"

definition RTI_RS_MQTT_MessageReaderConfig_default ::
    "(bool \<Rightarrow> message_reader_config option)
     \<Rightarrow> (message_reader_config \<Rightarrow> message_reader_config \<Rightarrow> message_reader_config option)
     \<Rightarrow> message_reader_config option \<Rightarrow> retcode \<times> message_reader_config option \<times> message_reader_config list" where
  "RTI_RS_MQTT_MessageReaderConfig_default create_data copy =
     Config_default create_data copy RTI_RS_MQTT_MessageReaderConfig_DEFAULT"

definition RTI_RS_MQTT_MessageReaderConfig_parse_from_properties ::
    "prop_env \<Rightarrow> (bool \<Rightarrow> message_reader_config option)
     \<Rightarrow> (message_reader_config \<Rightarrow> message_reader_config \<Rightarrow> message_reader_config option)
     \<Rightarrow> (bool \<Rightarrow> subscription_config option)
     \<Rightarrow> (subscription_config \<Rightarrow> subscription_config \<Rightarrow> subscription_config option)
     \<Rightarrow> properties \<Rightarrow> message_reader_config option
     \<Rightarrow> retcode \<times> message_reader_config option \<times> message_reader_config list" where
  "RTI_RS_MQTT_MessageReaderConfig_parse_from_properties env create_data copy create_sub copy_sub properties =
     Outer_parse (RTI_RS_MQTT_MessageReaderConfig_default create_data copy)
       (RTI_MQTT_SubscriptionConfig_parse_from_properties env create_sub copy_sub properties)
       mr_sub (\<lambda>m c. c\<lparr>mr_sub := m\<rparr>)"

definition publication_property_steps ::
    "prop_env \<Rightarrow> properties \<Rightarrow> (publication_config \<Rightarrow> publication_config option) list" where
  "publication_property_steps env properties =
     [lookup_property properties ''publication.topic''
        (\<lambda>pval c. if pe_dup env ''publication.topic'' then Some (c\<lparr>pcfg_topic := pval\<rparr>) else None),
      lookup_property properties ''publication.qos''
        (\<lambda>pval c. map_option (\<lambda>v. c\<lparr>pcfg_qos := v\<rparr>) (RTI_MQTT_QosLevel_from_string pval)),
      lookup_property properties ''publication.retained''
        (\<lambda>pval c. map_option (\<lambda>v. c\<lparr>pcfg_retained := v\<rparr>) (DDS_Boolean_from_string pval)),
      lookup_property properties ''publication.use_message_info''
        (\<lambda>pval c. map_option (\<lambda>v. c\<lparr>pcfg_use_message_info := v\<rparr>) (DDS_Boolean_from_string pval)),
      lookup_property properties ''publication.max_wait_time.sec''
        (\<lambda>pval c. Some (c\<lparr>pcfg_max_wait_time := (pcfg_max_wait_time c)\<lparr>seconds := to_32 pval\<rparr>\<rparr>)),
      lookup_property properties ''publication.max_wait_time.nanosec''
        (\<lambda>pval c. Some (c\<lparr>pcfg_max_wait_time := (pcfg_max_wait_time c)\<lparr>nanoseconds := to_32 pval\<rparr>\<rparr>))]"

definition RTI_MQTT_PublicationConfig_parse_from_properties ::
    "prop_env \<Rightarrow> (bool \<Rightarrow> publication_config option)
     \<Rightarrow> (publication_config \<Rightarrow> publication_config \<Rightarrow> publication_config option)
     \<Rightarrow> properties \<Rightarrow> publication_config option
     \<Rightarrow> retcode \<times> publication_config option \<times> publication_config list" where
  "RTI_MQTT_PublicationConfig_parse_from_properties env create_data copy properties =
     Config_parse (RTI_MQTT_PublicationConfig_default create_data copy)
       (publication_property_steps env properties)"

record message_writer_config =
  mw_pub :: publication_config

definition RTI_RS_MQTT_MessageWriterConfig_DEFAULT :: message_writer_config where
  "RTI_RS_MQTT_MessageWriterConfig_DEFAULT = \<lparr>mw_pub = RTI_MQTT_PublicationConfig_DEFAULT\<rparr>"

definition RTI_RS_MQTT_MessageWriterConfig_new ::
    "(bool \<Rightarrow> message_writer_config option) \<Rightarrow> bool \<Rightarrow> retcode \<times> message_writer_config option" where
  "RTI_RS_MQTT_MessageWriterConfig_new = Config_new"

definition RTI_RS_MQTT_MessageWriterConfig_default ::
    "(bool \<Rightarrow> message_writer_config option)
     \<Rightarrow> (message_writer_config \<Rightarrow> message_writer_config \<Rightarrow> message_writer_config option)
     \<Rightarrow> message_writer_config option \<Rightarrow> retcode \<times> message_writer_config option \<times> message_writer_config list" where
  "RTI_RS_MQTT_MessageWriterConfig_default create_data copy =
     Config_default create_data copy RTI_RS_MQTT_MessageWriterConfig_DEFAULT"

definition RTI_RS_MQTT_MessageWriterConfig_parse_from_properties ::
    "prop_env \<Rightarrow> (bool \<Rightarrow> message_writer_config option)
     \<Rightarrow> (message_writer_config \<Rightarrow> message_writer_config \<Rightarrow> message_writer_config option)
     \<Rightarrow> (bool \<Rightarrow> publication_config option)
     \<Rightarrow> (publication_config \<Rightarrow> publication_config \<Rightarrow> publication_config option)
     \<Rightarrow> properties \<Rightarrow> message_writer_config option
     \<Rightarrow> retcode \<times> message_writer_config option \<times> message_writer_config list" where
  "RTI_RS_MQTT_MessageWriterConfig_parse_from_properties env create_data copy create_pub copy_pub properties =
     Outer_parse (RTI_RS_MQTT_MessageWriterConfig_default create_data copy)
       (RTI_MQTT_PublicationConfig_parse_from_properties env create_pub copy_pub properties)
       mw_pub (\<lambda>m c. c\<lparr>mw_pub := m\<rparr>)"


section \<open>Lists of strings are split at semicolons\<close>

text \<open>The reference: the pieces between semicolons, a trailing semicolon adding none.\<close>

abbreviation piece :: "string \<Rightarrow> string" where
  "piece s \<equiv> takeWhile (\<lambda>c. c \<noteq> CHR '';'') s"

function split_list :: "string \<Rightarrow> string list" where
  "split_list s = (if s = [] then [] else piece s # split_list (drop (length (piece s) + 1) s))"
  by pat_completeness auto
termination
  by (relation "measure length") auto

declare split_list.simps [simp del]

lemma split_list_Nil [simp]: "split_list [] = []"
  by (simp add: split_list.simps)

fun join_list :: "string list \<Rightarrow> string" where
  "join_list [] = []"
| "join_list [x] = x"
| "join_list (x # y # xs) = x @ CHR '';'' # join_list (y # xs)"

lemma split_join:
  "xs \<noteq> [] \<Longrightarrow> last xs \<noteq> [] \<Longrightarrow> \<forall>x \<in> set xs. CHR '';'' \<notin> set x \<Longrightarrow> split_list (join_list xs) = xs"
proof (induction xs rule: join_list.induct)
  case (2 x)
  then have "piece x = x" by (auto intro: takeWhile_eq_all_conv [THEN iffD2])
  with 2 show ?case by (simp add: split_list.simps [of x] del: takeWhile_eq_all_conv)
next
  case (3 x y xs)
  then have "piece (join_list (x # y # xs)) = x" by (auto simp: takeWhile_append)
  moreover have "join_list (x # y # xs) \<noteq> []" by simp
  ultimately show ?case using 3 by (subst split_list.simps) simp
qed simp

lemma length_split_list: "length (split_list s) \<le> length s"
proof (induction s rule: split_list.induct)
  case (1 s)
  show ?case
  proof (cases "s = []")
    case False
    with 1 have "length (split_list (drop (length (piece s) + 1) s)) \<le> length s - (length (piece s) + 1)" by simp
    moreover have "length s > 0" using False by simp
    ultimately have "Suc (length (split_list (drop (length (piece s) + 1) s))) \<le> length s" by linarith
    then show ?thesis using False by (subst split_list.simps) simp
  qed simp
qed

lemma seq_scan_piece:
  "cstring str \<Longrightarrow> k + n \<le> length str \<Longrightarrow> seq_scan str k n = Some (n + length (piece (drop (k + n) str)))"
proof (induction str k n rule: seq_scan.induct)
  case (1 str k n)
  show ?case
  proof (cases "k + n = length str")
    case True
    then have "cstr_at str (k + n) = Some NUL" by simp
    with True show ?thesis by (simp add: seq_scan.simps [of str k n])
  next
    case False
    with 1 have lt: "k + n < length str" by simp
    then have d: "drop (k + n) str = str ! (k + n) # drop (k + (n + 1)) str"
      by (simp add: Cons_nth_drop_Suc)
    show ?thesis
      using lt 1 by (subst seq_scan.simps) (simp add: d)
  qed
qed

text \<open>The calls that the loop makes when nothing fails.\<close>

definition strings_ok :: "prop_env \<Rightarrow> bool" where
  "strings_ok env \<longleftrightarrow> seq_laws (pe_strings env) \<and> seq_total (pe_strings env) \<and> (\<forall>k. pe_string_alloc env k)"

lemma string_seq_loop_split:
  "strings_ok env \<Longrightarrow> cstring str \<Longrightarrow> length (seq_buf seq) = seq_len \<Longrightarrow>
   seq_len + (length str - consumed_len) < 2147483648 \<Longrightarrow> \<not> seq_loaned seq \<Longrightarrow>
    \<exists>seq'. string_seq_loop env str consumed_len seq_len seq = Some (True, seq') \<and>
      seq_buf seq' = seq_buf seq @ split_list (drop consumed_len str)"
proof (induction env str consumed_len seq_len seq rule: string_seq_loop.induct)
  case (1 env str consumed_len seq_len seq)
  show ?case
  proof (cases "consumed_len < length str")
    case False
    then show ?thesis by (simp add: string_seq_loop.simps [of env str consumed_len])
  next
    case True
    let ?s = "drop consumed_len str"
    have scan: "seq_scan str consumed_len 0 = Some (length (piece ?s))"
      using True 1(3) seq_scan_piece [of str consumed_len 0] by simp
    have "seq_total (pe_strings env)" "\<not> seq_loaned seq" "seq_len + 1 < 2147483648"
      using 1(2,5,6) True by (auto simp: strings_ok_def)
    then obtain seq1 where
      e: "seq_ensure_length (pe_strings env) (of_nat (seq_len + 1)) (of_nat (seq_len + 1)) seq = Some seq1"
      and u: "unat (of_nat (seq_len + 1) :: u32) = seq_len + 1"
      by (rule seq_grow)
    have laws: "seq_laws (pe_strings env)" using 1(2) by (simp add: strings_ok_def)
    let ?seq2 = "seq1\<lparr>seq_buf := (seq_buf seq1)[seq_len := take (length (piece ?s)) ?s]\<rparr>"
    have b: "seq_buf ?seq2 = seq_buf seq @ [piece ?s]"
      using seq_append_one [OF laws e] u 1(4) by (simp add: takeWhile_eq_take [symmetric])
    have alloc: "pe_string_alloc env seq_len" using 1(2) by (simp add: strings_ok_def)
    have "\<exists>seq'. string_seq_loop env str (consumed_len + length (piece ?s) + 1) (seq_len + 1) ?seq2 = Some (True, seq') \<and>
            seq_buf seq' = seq_buf ?seq2 @ split_list (drop (consumed_len + length (piece ?s) + 1) str)"
    proof (rule 1(1) [OF True scan e])
      show "\<not> \<not> pe_string_alloc env seq_len" using alloc by simp
      show "length (seq_buf ?seq2) = seq_len + 1" using b 1(4) by simp
      show "seq_len + 1 + (length str - (consumed_len + length (piece ?s) + 1)) < 2147483648"
        using 1(5) True by linarith
      show "\<not> seq_loaned ?seq2" using seq_ensure_lengthD(3) [OF laws e] 1(6) by simp
    qed (use 1 in auto)
    moreover have "split_list ?s = piece ?s # split_list (drop (consumed_len + length (piece ?s) + 1) str)"
      using True by (subst split_list.simps) (simp add: add.commute)
    ultimately show ?thesis
      using True scan e alloc b by (subst string_seq_loop.simps) auto
  qed
qed

lemma string_seq_from_string_split:
  assumes "strings_ok env" "cstring str" "str \<noteq> []" "length (seq_buf seq) + length str < 2147483648"
    and "\<not> seq_loaned seq"
  shows "\<exists>seq'. DDS_StringSeq_from_string env str seq = Some (DDS_RETCODE_OK, seq') \<and>
           seq_buf seq' = seq_buf seq @ split_list str"
  using string_seq_loop_split [OF assms(1,2) refl, of seq 0] assms(3-5)
  by (auto simp: DDS_StringSeq_from_string_def)

lemma parse_strings_split:
  assumes "strings_ok env" "pe_string_seq_copy env" "pe_string_seq_finalize env"
    and "cstring str" "str \<noteq> []" "length str < 2147483648"
  shows "parse_strings env str = Some (split_list str)"
proof -
  obtain seq' where "DDS_StringSeq_from_string env str seq_empty = Some (DDS_RETCODE_OK, seq')"
      "seq_buf seq' = split_list str"
    using string_seq_from_string_split [OF assms(1,4,5), of seq_empty] assms(6) by (auto simp: seq_empty_def)
  then show ?thesis using assms by (simp add: parse_strings_def)
qed

text \<open>A list can be written as the value of a property when its pieces have no separator and the last is not empty.\<close>

definition listable :: "string list \<Rightarrow> bool" where
  "listable xs \<longleftrightarrow> xs \<noteq> [] \<and> last xs \<noteq> [] \<and> (\<forall>x \<in> set xs. CHR '';'' \<notin> set x \<and> cstring x) \<and>
     length (join_list xs) < 2147483648"

lemma cstring_join: "\<forall>x \<in> set xs. cstring x \<Longrightarrow> cstring (join_list xs)"
  by (induction xs rule: join_list.induct) (auto simp: cstring_def NUL_def)

lemma join_not_Nil: "xs \<noteq> [] \<Longrightarrow> last xs \<noteq> [] \<Longrightarrow> join_list xs \<noteq> []"
  by (induction xs rule: join_list.induct) auto

lemma parse_strings_join [simp]:
  assumes "strings_ok env" "pe_string_seq_copy env" "pe_string_seq_finalize env" "listable xs"
  shows "parse_strings env (join_list xs) = Some xs"
  using assms parse_strings_split [OF assms(1-3), of "join_list xs"]
  by (simp add: listable_def cstring_join join_not_Nil split_join)

text \<open>
  A list property is split at its semicolons: appending the parsed value of a list written
  with separators to a sequence of strings returns success and appends exactly the elements of the
  list, in order.
\<close>

theorem string_list_roundtrip:
  assumes "strings_ok env" "listable xs" "length (seq_buf seq) + length (join_list xs) < 2147483648"
    and "\<not> seq_loaned seq"
  shows "\<exists>seq'. DDS_StringSeq_from_string env (join_list xs) seq = Some (DDS_RETCODE_OK, seq') \<and>
           seq_buf seq' = seq_buf seq @ xs"
  using string_seq_from_string_split [OF assms(1), of "join_list xs" seq] assms
  by (simp add: listable_def cstring_join join_not_Nil split_join)

text \<open>
  An empty value is refused when the DDS call succeeds: its boolean result is taken for a return
  code.
\<close>

lemma empty_list_refused:
  assumes "seq_total (pe_strings env)" "pe_string_seq_copy env" "pe_string_seq_finalize env"
  shows "parse_strings env [] = None"
proof -
  have "seq_set_length (pe_strings env) 0 seq_empty \<noteq> None"
    using assms(1) by (simp add: seq_total_def)
  then show ?thesis by (auto simp: parse_strings_def DDS_StringSeq_from_string_def Let_def)
qed

section \<open>Defaults\<close>

text \<open>The functions generated for a configuration type: creation succeeds and a copy is a copy.\<close>

definition type_support_ok :: "(bool \<Rightarrow> 'c option) \<Rightarrow> ('c \<Rightarrow> 'c \<Rightarrow> 'c option) \<Rightarrow> bool" where
  "type_support_ok create_data copy \<longleftrightarrow> create_data False \<noteq> None \<and> (\<forall>x y. copy x y = Some y)"

lemma Config_default_ok [simp]:
  "type_support_ok create_data copy \<Longrightarrow>
   Config_default create_data copy dflt config_out = (DDS_RETCODE_OK, Some dflt, [])"
  by (auto simp: Config_default_def Config_new_def type_support_ok_def split: option.splits)

section \<open>Every configuration can be written as properties\<close>

text \<open>The texts that stand for a value.\<close>

definition show_boolean :: "bool \<Rightarrow> string" where
  "show_boolean b = (if b then ''true'' else ''false'')"

fun show_qos :: "qos_level \<Rightarrow> string" where
  "show_qos QosLevel_ZERO = ''0''"
| "show_qos QosLevel_ONE = ''1''"
| "show_qos QosLevel_TWO = ''2''"
| "show_qos _ = ''''"

fun show_protocol :: "mqtt_protocol_version \<Rightarrow> string" where
  "show_protocol MQTT_DEFAULT = ''default''"
| "show_protocol MQTT_3_1 = ''3.1''"
| "show_protocol MQTT_3_1_1 = ''3.1.1''"
| "show_protocol MQTT_5 = ''5''"

fun show_tls_protocol :: "ssl_tls_protocol_version \<Rightarrow> string" where
  "show_tls_protocol TLS_DEFAULT = ''default''"
| "show_tls_protocol TLS_1_0 = ''1.0''"
| "show_tls_protocol TLS_1_1 = ''1.1''"
| "show_tls_protocol TLS_1_2 = ''1.2''"

fun show_persistence :: "persistence_level \<Rightarrow> string" where
  "show_persistence PersistenceLevel_NONE = ''none''"
| "show_persistence PersistenceLevel_DURABLE = ''durable''"

definition show_octets :: "octet list \<Rightarrow> string" where
  "show_octets os = map (\<lambda>w. char_of (unat w)) os"

lemma from_string_show [simp]:
  "DDS_Boolean_from_string (show_boolean b) = Some b"
  "RTI_MQTT_QosLevel_is_valid q \<Longrightarrow> RTI_MQTT_QosLevel_from_string (show_qos q) = Some q"
  "RTI_MQTT_MqttProtocolVersion_from_string (show_protocol v) = Some v"
  "RTI_MQTT_SslTlsProtocolVersion_from_string (show_tls_protocol t) = Some t"
  "RTI_MQTT_PersistenceLevel_from_string (show_persistence l) = Some l"
proof -
  show "DDS_Boolean_from_string (show_boolean b) = Some b"
    by (cases b) (simp_all add: DDS_Boolean_from_string_def show_boolean_def)
  show "RTI_MQTT_QosLevel_is_valid q \<Longrightarrow> RTI_MQTT_QosLevel_from_string (show_qos q) = Some q"
    by (cases q) (simp_all add: RTI_MQTT_QosLevel_from_string_def)
  show "RTI_MQTT_MqttProtocolVersion_from_string (show_protocol v) = Some v"
    by (cases v) (simp_all add: RTI_MQTT_MqttProtocolVersion_from_string_def)
  show "RTI_MQTT_SslTlsProtocolVersion_from_string (show_tls_protocol t) = Some t"
    by (cases t) (simp_all add: RTI_MQTT_SslTlsProtocolVersion_from_string_def)
  show "RTI_MQTT_PersistenceLevel_from_string (show_persistence l) = Some l"
    by (cases l) (simp_all add: RTI_MQTT_PersistenceLevel_from_string_def)
qed

lemma to_32_show [simp]: "to_32 (show_int (sint w)) = w" "to_32 (show_nat (unat w)) = w"
  by (simp_all add: to_32_def)

lemma unat_octet_less: "unat (w :: octet) < 256"
  using unsigned_less [of w] by simp

lemma of_char_show_octets [simp]: "map of_char (show_octets os) = os"
proof -
  have "(of_char (char_of (unat w) :: char) :: octet) = w" for w
  proof -
    have "(of_char (char_of (unat w) :: char) :: nat) = unat w"
      using unat_octet_less [of w] by (rule of_char_char_of_nat)
    then have "of_nat (of_char (char_of (unat w) :: char)) = w" by (simp del: of_char_of)
    then show ?thesis by (simp only: of_nat_of_char)
  qed
  then show ?thesis by (simp add: show_octets_def o_def)
qed

definition octets_ok :: "prop_env \<Rightarrow> bool" where
  "octets_ok env \<longleftrightarrow> seq_laws (pe_octets env) \<and> seq_total (pe_octets env) \<and> pe_octet_seq_copy env \<and>
     pe_octet_seq_finalize env \<and> pe_password_alloc env"

lemma show_octets_text: "0 \<notin> set os \<Longrightarrow> takeWhile (\<lambda>c. c \<noteq> NUL) (show_octets os) = show_octets os"
proof -
  assume z: "0 \<notin> set os"
  have "(char_of (unat w) :: char) \<noteq> NUL" if "w \<in> set os" for w :: octet
  proof
    assume "(char_of (unat w) :: char) = NUL"
    then have "(of_char (char_of (unat w) :: char) :: nat) = 0" by (simp only: NUL_def) simp
    then have "unat w = 0" using of_char_char_of_nat [OF unat_octet_less [of w]] by (simp del: of_char_of)
    then show False using z that by (simp add: unat_eq_0)
  qed
  then show ?thesis by (auto simp: show_octets_def takeWhile_eq_all_conv)
qed

lemma parse_password_show [simp]:
  assumes "octets_ok env" "length os < 2147483648" "0 \<notin> set os"
  shows "parse_password env (show_octets os) password = Some os"
proof (cases "os = []")
  case True
  then obtain s where s: "seq_set_length (pe_octets env) 0 seq_empty = Some s"
    using assms unfolding octets_ok_def seq_total_def
    by (metis not_None_eq unsigned_0 zero_le)
  then have "seq_buf s = []"
    using seq_set_lengthD(1) [OF _ s] assms by (simp add: octets_ok_def)
  with s True assms show ?thesis
    by (simp add: parse_password_def DDS_OctetSeq_from_string_def show_octets_def octets_ok_def Let_def split: option.splits)
next
  case False
  let ?n = "of_nat (length os) :: u32"
  have "seq_total (pe_octets env)" using assms by (simp add: octets_ok_def)
  then obtain s where s: "seq_ensure_length (pe_octets env) ?n ?n seq_empty = Some s" and u: "unat ?n = length os"
    using assms(2) by (rule seq_grow [OF _ seq_empty_owned])
  then have "length (seq_buf s) = length os"
    using seq_ensure_lengthD(1) [OF _ s] assms u by (simp add: octets_ok_def)
  moreover have "show_octets os \<noteq> []" "length (show_octets os) = length os"
    using False by (simp_all add: show_octets_def)
  ultimately show ?thesis
    using s assms False
    by (simp add: parse_password_def DDS_OctetSeq_from_string_def octets_ok_def Let_def show_octets_text
        split: option.splits)
qed


definition client_properties :: "client_config \<Rightarrow> properties" where
  "client_properties c p =
     (if p = ''client.id'' then Some (cfg_id c)
      else if p = ''client.protocol_version'' then Some (show_protocol (cfg_protocol_version c))
      else if p = ''client.servers'' then
        (if cfg_server_uris c = [] then None else Some (join_list (cfg_server_uris c)))
      else if p = ''client.connection_timeout.sec'' then Some (show_int (sint (seconds (cfg_connect_timeout c))))
      else if p = ''client.connection_timeout.nanosec'' then Some (show_nat (unat (nanoseconds (cfg_connect_timeout c))))
      else if p = ''client.max_connection_retries'' then Some (show_nat (unat (cfg_max_connection_retries c)))
      else if p = ''client.clean_session'' then Some (show_boolean (cfg_clean_session c))
      else if p = ''client.unsubscribe_on_disconnect'' then Some (show_boolean (cfg_unsubscribe_on_disconnect c))
      else if p = ''client.max_reply_timeout.sec'' then Some (show_int (sint (seconds (cfg_max_reply_timeout c))))
      else if p = ''client.max_reply_timeout.nanosec'' then Some (show_nat (unat (nanoseconds (cfg_max_reply_timeout c))))
      else if p = ''client.reconnect'' then Some (show_boolean (cfg_reconnect c))
      else if p = ''client.max_unack_messages'' then Some (show_nat (unat (cfg_max_unack_messages c)))
      else if p = ''client.persistence'' then Some (show_persistence (cfg_persistence_level c))
      else if p = ''client.persistence_storage'' then cfg_persistence_storage c
      else if p = ''client.username'' then cfg_username c
      else if p = ''client.password'' then map_option show_octets (cfg_password c)
      else
        case cfg_ssl_tls_config c of
          None \<Rightarrow> None
        | Some t \<Rightarrow>
            if p = ''client.ssl.ca'' then Some (tls_ca t)
            else if p = ''client.ssl.id'' then Some (tls_identity t)
            else if p = ''client.ssl.key'' then Some (tls_private_key t)
            else if p = ''client.ssl.key_password'' then Some (tls_private_key_password t)
            else if p = ''client.ssl.cypher suites'' then Some (tls_cypher_suites t)
            else if p = ''client.ssl.protocol_version'' then Some (show_tls_protocol (tls_protocol_version t))
            else if p = ''client.ssl.verify_server_certificate''
            then Some (show_boolean (tls_verify_server_certificate t))
            else None)"

definition client_writable :: "client_config \<Rightarrow> bool" where
  "client_writable c \<longleftrightarrow>
     (cfg_server_uris c = [] \<or> listable (cfg_server_uris c)) \<and>
     cfg_keep_alive_period c = cfg_keep_alive_period RTI_MQTT_ClientConfig_DEFAULT \<and>
     (\<forall>os. cfg_password c = Some os \<longrightarrow> length os < 2147483648 \<and> 0 \<notin> set os) \<and>
     (cfg_ssl_tls_config c = None \<longrightarrow> (\<forall>uri \<in> set (cfg_server_uris c). \<not> starts_with ''ssl'' uri))"

definition prop_env_ok :: "prop_env \<Rightarrow> bool" where
  "prop_env_ok env \<longleftrightarrow> strings_ok env \<and> octets_ok env \<and> (\<forall>p. pe_dup env p) \<and> pe_string_seq_copy env \<and>
     pe_string_seq_finalize env \<and> pe_tls_alloc env \<and> pe_tls_initialize env \<noteq> None"

lemma prop_env_okD:
  assumes "prop_env_ok env"
  shows "strings_ok env" "octets_ok env" "pe_dup env p" "pe_string_seq_copy env" "pe_string_seq_finalize env"
    "pe_tls_alloc env" "\<exists>t. pe_tls_initialize env = Some t"
  using assms by (auto simp: prop_env_ok_def)

lemma run_steps_Cons_Some: "f x = Some y \<Longrightarrow> run_steps (f # fs) x = run_steps fs y"
  by simp

lemma client_properties_simps [simp]:
  "client_properties c ''client.id'' = Some (cfg_id c)"
  "client_properties c ''client.protocol_version'' = Some (show_protocol (cfg_protocol_version c))"
  "client_properties c ''client.servers'' = (if cfg_server_uris c = [] then None else Some (join_list (cfg_server_uris c)))"
  "client_properties c ''client.connection_timeout.sec'' = Some (show_int (sint (seconds (cfg_connect_timeout c))))"
  "client_properties c ''client.connection_timeout.nanosec'' = Some (show_nat (unat (nanoseconds (cfg_connect_timeout c))))"
  "client_properties c ''client.max_connection_retries'' = Some (show_nat (unat (cfg_max_connection_retries c)))"
  "client_properties c ''client.clean_session'' = Some (show_boolean (cfg_clean_session c))"
  "client_properties c ''client.unsubscribe_on_disconnect'' = Some (show_boolean (cfg_unsubscribe_on_disconnect c))"
  "client_properties c ''client.max_reply_timeout.sec'' = Some (show_int (sint (seconds (cfg_max_reply_timeout c))))"
  "client_properties c ''client.max_reply_timeout.nanosec'' = Some (show_nat (unat (nanoseconds (cfg_max_reply_timeout c))))"
  "client_properties c ''client.reconnect'' = Some (show_boolean (cfg_reconnect c))"
  "client_properties c ''client.max_unack_messages'' = Some (show_nat (unat (cfg_max_unack_messages c)))"
  "client_properties c ''client.persistence'' = Some (show_persistence (cfg_persistence_level c))"
  "client_properties c ''client.persistence_storage'' = cfg_persistence_storage c"
  "client_properties c ''client.username'' = cfg_username c"
  "client_properties c ''client.password'' = map_option show_octets (cfg_password c)"
  "client_properties c ''client.keep_alive_period.sec'' = None"
  "client_properties c ''client.keep_alive_period.nanosec'' = None"
  by (simp_all add: client_properties_def split: option.split)

lemma client_properties_tls [simp]:
  "client_properties c ''client.ssl.ca'' = map_option tls_ca (cfg_ssl_tls_config c)"
  "client_properties c ''client.ssl.id'' = map_option tls_identity (cfg_ssl_tls_config c)"
  "client_properties c ''client.ssl.key'' = map_option tls_private_key (cfg_ssl_tls_config c)"
  "client_properties c ''client.ssl.key_password'' = map_option tls_private_key_password (cfg_ssl_tls_config c)"
  "client_properties c ''client.ssl.cypher suites'' = map_option tls_cypher_suites (cfg_ssl_tls_config c)"
  "client_properties c ''client.ssl.protocol_version'' = map_option (\<lambda>t. show_tls_protocol (tls_protocol_version t)) (cfg_ssl_tls_config c)"
  "client_properties c ''client.ssl.verify_server_certificate'' = map_option (\<lambda>t. show_boolean (tls_verify_server_certificate t)) (cfg_ssl_tls_config c)"
  by (simp_all add: client_properties_def split: option.split)

lemma run_client_steps:
  assumes "prop_env_ok env" "client_writable c"
  shows "run_steps (client_property_steps env (client_properties c)) RTI_MQTT_ClientConfig_DEFAULT =
           (DDS_RETCODE_OK, c\<lparr>cfg_ssl_tls_config := None\<rparr>)"
  using assms
  by (cases "cfg_server_uris c = []"; cases "cfg_persistence_storage c"; cases "cfg_username c"; cases "cfg_password c")
    (simp_all add: client_property_steps_def lookup_property_def prop_env_okD
      client_writable_def RTI_MQTT_ClientConfig_DEFAULT_def)

subsection \<open>TLS\<close>

definition initial_tls :: "prop_env \<Rightarrow> ssl_tls_config" where
  "initial_tls env = (the (pe_tls_initialize env))\<lparr>tls_verify_server_certificate := True\<rparr>"

text \<open>A successful allocation gives the client a TLS configuration and changes nothing else.\<close>

definition with_tls :: "prop_env \<Rightarrow> client_config \<Rightarrow> client_config" where
  "with_tls env c = (case cfg_ssl_tls_config c of None \<Rightarrow> c\<lparr>cfg_ssl_tls_config := Some (initial_tls env)\<rparr> | Some _ \<Rightarrow> c)"

lemma allocate_ssl_tls_config_SomeD: "allocate_ssl_tls_config env c = Some c' \<Longrightarrow> c' = with_tls env c"
  by (auto simp: allocate_ssl_tls_config_def with_tls_def initial_tls_def split: option.splits if_splits)

lemma allocate_ssl_tls_config_ok:
  "pe_tls_alloc env \<Longrightarrow> pe_tls_initialize env \<noteq> None \<Longrightarrow> allocate_ssl_tls_config env c = Some (with_tls env c)"
  by (auto simp: allocate_ssl_tls_config_def with_tls_def initial_tls_def split: option.splits)

lemma with_tls_Some [simp]: "cfg_ssl_tls_config c = Some t \<Longrightarrow> with_tls env c = c"
  by (simp add: with_tls_def)

lemma with_tls_None [simp]:
  "cfg_ssl_tls_config c = None \<Longrightarrow> with_tls env c = c\<lparr>cfg_ssl_tls_config := Some (initial_tls env)\<rparr>"
  by (simp add: with_tls_def)

lemma scan_uris_Some [simp]: "cfg_ssl_tls_config c = Some t \<Longrightarrow> scan_uris env uris c = Some c"
  by (cases uris) simp_all

lemma scan_uris_SomeD:
  "scan_uris env uris c = Some c' \<Longrightarrow>
   c' = (if \<exists>uri \<in> set uris. starts_with ''ssl'' uri then with_tls env c else c)"
proof (induction uris)
  case (Cons uri uris)
  then show ?case
    by (cases "cfg_ssl_tls_config c") (auto split: if_splits option.splits dest: allocate_ssl_tls_config_SomeD)
qed simp

lemma scan_uris_ok:
  "pe_tls_alloc env \<Longrightarrow> pe_tls_initialize env \<noteq> None \<Longrightarrow> \<exists>c'. scan_uris env uris c = Some c'"
  by (induction uris arbitrary: c) (auto simp: allocate_ssl_tls_config_ok)

lemma run_tls_steps:
  assumes "prop_env_ok env" "client_writable c"
  shows "run_steps (client_tls_steps env (client_properties c)) (c\<lparr>cfg_ssl_tls_config := None\<rparr>) = (DDS_RETCODE_OK, c)"
proof -
  let ?c0 = "c\<lparr>cfg_ssl_tls_config := None\<rparr>"
  have a: "allocate_ssl_tls_config env x = Some (with_tls env x)" for x
    using assms by (simp add: allocate_ssl_tls_config_ok prop_env_ok_def)
  obtain c1 where c1: "scan_uris env (cfg_server_uris c) ?c0 = Some c1"
    using scan_uris_ok assms prop_env_okD(6,7) [OF assms(1)] by (metis option.distinct(1))
  have c1_cases: "c1 = ?c0 \<or> c1 = c\<lparr>cfg_ssl_tls_config := Some (initial_tls env)\<rparr>"
    using scan_uris_SomeD [OF c1] by (auto split: if_splits)
  show ?thesis
  proof (cases "cfg_ssl_tls_config c")
    case None
    then have "c1 = ?c0" using scan_uris_SomeD [OF c1] assms by (auto simp: client_writable_def split: if_splits)
    with None c1 show ?thesis by (simp add: client_tls_steps_def tls_property_def)
  next
    case (Some t)
    with c1 c1_cases a assms show ?thesis
      by (auto simp: client_tls_steps_def tls_property_def prop_env_okD)
  qed
qed

lemma client_config_parse_properties:
  assumes "prop_env_ok env" "type_support_ok create_data copy" "client_writable c"
  shows "RTI_MQTT_ClientConfig_parse_from_properties env create_data copy (client_properties c) config_out =
           (DDS_RETCODE_OK, Some c, [])"
  unfolding RTI_MQTT_ClientConfig_parse_from_properties_def
  by (subst Config_parse_ok [of _ _ RTI_MQTT_ClientConfig_DEFAULT])
    (simp_all add: RTI_MQTT_ClientConfig_default_def assms run_steps_append run_client_steps run_tls_steps)

subsection \<open>When TLS is used, and how the server is checked\<close>

definition tls_properties :: "string list" where
  "tls_properties =
     [''client.ssl.ca'', ''client.ssl.id'', ''client.ssl.key'', ''client.ssl.key_password'',
      ''client.ssl.cypher suites'', ''client.ssl.protocol_version'', ''client.ssl.verify_server_certificate'']"

definition verifies_server :: "client_config \<Rightarrow> bool" where
  "verifies_server c = (case cfg_ssl_tls_config c of None \<Rightarrow> True | Some t \<Rightarrow> tls_verify_server_certificate t)"

lemma with_tls_keeps [simp]:
  "cfg_server_uris (with_tls env c) = cfg_server_uris c" "cfg_ssl_tls_config (with_tls env c) \<noteq> None"
  "verifies_server (with_tls env c) = verifies_server c"
  by (simp_all add: with_tls_def verifies_server_def initial_tls_def split: option.split)

lemma tls_propertyE:
  assumes "tls_property env properties p f c = Some c'"
  obtains "properties p = None" "c' = c"
  | v t t' where "properties p = Some v" "cfg_ssl_tls_config (with_tls env c) = Some t" "f v t = Some t'"
      "c' = (with_tls env c)\<lparr>cfg_ssl_tls_config := Some t'\<rparr>"
  using assms unfolding tls_property_def lookup_property_def
  by (auto split: option.splits dest!: allocate_ssl_tls_config_SomeD)

text \<open>What a TLS property keeps: the URIs, and the check of the server unless it is the property for that.\<close>

lemma tls_property_keeps:
  assumes "tls_property env properties p f c = Some c'"
  shows "cfg_server_uris c' = cfg_server_uris c"
    and "cfg_ssl_tls_config c' \<noteq> None \<longleftrightarrow> cfg_ssl_tls_config c \<noteq> None \<or> properties p \<noteq> None"
    and "\<forall>v t t'. f v t = Some t' \<longrightarrow> tls_verify_server_certificate t' = tls_verify_server_certificate t \<Longrightarrow>
         verifies_server c' = verifies_server c"
proof -
  show "cfg_server_uris c' = cfg_server_uris c" using assms by (cases rule: tls_propertyE) simp_all
  show "cfg_ssl_tls_config c' \<noteq> None \<longleftrightarrow> cfg_ssl_tls_config c \<noteq> None \<or> properties p \<noteq> None"
    using assms by (cases rule: tls_propertyE) simp_all
  assume f: "\<forall>v t t'. f v t = Some t' \<longrightarrow> tls_verify_server_certificate t' = tls_verify_server_certificate t"
  show "verifies_server c' = verifies_server c"
    using assms
  proof (cases rule: tls_propertyE)
    case (2 v t t')
    then have "verifies_server c' = tls_verify_server_certificate t" using f by (simp add: verifies_server_def)
    also have "\<dots> = verifies_server (with_tls env c)" using 2 by (simp add: verifies_server_def)
    finally show ?thesis by simp
  qed simp
qed

text \<open>The TLS steps change the TLS part only.\<close>

lemma tls_property_frame:
  "tls_property env properties p f c = Some c' \<Longrightarrow> c' = c\<lparr>cfg_ssl_tls_config := cfg_ssl_tls_config c'\<rparr>"
  by (erule tls_propertyE) (simp_all add: with_tls_def split: option.splits)

lemma client_tls_steps_frame:
  "g \<in> set (client_tls_steps env properties) \<Longrightarrow> g c = Some c' \<Longrightarrow>
   c' = c\<lparr>cfg_ssl_tls_config := cfg_ssl_tls_config c'\<rparr>"
  by (auto simp: client_tls_steps_def with_tls_def intro: tls_property_frame dest!: scan_uris_SomeD
      split: option.splits if_splits)

lemma client_tls_steps_keep:
  assumes "g \<in> set (client_tls_steps env properties)" "g c = Some c'"
    and "\<And>x v. P (x\<lparr>cfg_ssl_tls_config := v\<rparr>) = P x"
  shows "P c' = P c"
  using client_tls_steps_frame [OF assms(1,2)] assms(3) by metis

lemma run_tls_steps_outcome:
  assumes "run_steps (client_tls_steps env properties) c0 = (DDS_RETCODE_OK, c)" "cfg_ssl_tls_config c0 = None"
  shows "cfg_server_uris c = cfg_server_uris c0"
    and "cfg_ssl_tls_config c \<noteq> None \<longleftrightarrow>
           (\<exists>uri \<in> set (cfg_server_uris c0). starts_with ''ssl'' uri) \<or> (\<exists>p \<in> set tls_properties. properties p \<noteq> None)"
    and "verifies_server c \<longleftrightarrow>
           (case properties ''client.ssl.verify_server_certificate'' of
              None \<Rightarrow> True | Some v \<Rightarrow> DDS_Boolean_from_string v = Some True)"
proof -
  obtain c1 c2 c3 c4 c5 c6 c7 where s:
    "scan_uris env (cfg_server_uris c0) c0 = Some c1"
    "tls_property env properties ''client.ssl.ca''
       (\<lambda>pval t. if pe_dup env ''client.ssl.ca'' then Some (t\<lparr>tls_ca := pval\<rparr>) else None) c1 = Some c2"
    "tls_property env properties ''client.ssl.id''
       (\<lambda>pval t. if pe_dup env ''client.ssl.id'' then Some (t\<lparr>tls_identity := pval\<rparr>) else None) c2 = Some c3"
    "tls_property env properties ''client.ssl.key''
       (\<lambda>pval t. if pe_dup env ''client.ssl.key'' then Some (t\<lparr>tls_private_key := pval\<rparr>) else None) c3 = Some c4"
    "tls_property env properties ''client.ssl.key_password''
       (\<lambda>pval t. if pe_dup env ''client.ssl.key_password''
                 then Some (t\<lparr>tls_private_key_password := pval\<rparr>) else None) c4 = Some c5"
    "tls_property env properties ''client.ssl.cypher suites''
       (\<lambda>pval t. if pe_dup env ''client.ssl.cypher suites''
                 then Some (t\<lparr>tls_cypher_suites := pval\<rparr>) else None) c5 = Some c6"
    "tls_property env properties ''client.ssl.protocol_version''
       (\<lambda>pval t. map_option (\<lambda>v. t\<lparr>tls_protocol_version := v\<rparr>)
                 (RTI_MQTT_SslTlsProtocolVersion_from_string pval)) c6 = Some c7"
    "tls_property env properties ''client.ssl.verify_server_certificate''
       (\<lambda>pval t. map_option (\<lambda>v. t\<lparr>tls_verify_server_certificate := v\<rparr>)
                 (DDS_Boolean_from_string pval)) c7 = Some c"
    using assms(1) unfolding client_tls_steps_def run_steps_OK_Cons by auto
  note k = s(2-8) [THEN tls_property_keeps(1)]
  note n = s(2-8) [THEN tls_property_keeps(2)]
  have scan: "c1 = (if \<exists>uri \<in> set (cfg_server_uris c0). starts_with ''ssl'' uri then with_tls env c0 else c0)"
    using scan_uris_SomeD [OF s(1)] .
  show "cfg_server_uris c = cfg_server_uris c0" using k scan by (auto split: if_splits)
  show "cfg_ssl_tls_config c \<noteq> None \<longleftrightarrow>
           (\<exists>uri \<in> set (cfg_server_uris c0). starts_with ''ssl'' uri) \<or> (\<exists>p \<in> set tls_properties. properties p \<noteq> None)"
    unfolding tls_properties_def using scan assms(2) by (simp add: n del: not_None_eq split: if_splits) blast+
  have "verifies_server c7 = verifies_server c6"
    by (rule tls_property_keeps(3) [OF s(7)]) auto
  also have "\<dots> = verifies_server c5" by (rule tls_property_keeps(3) [OF s(6)]) auto
  also have "\<dots> = verifies_server c4" by (rule tls_property_keeps(3) [OF s(5)]) auto
  also have "\<dots> = verifies_server c3" by (rule tls_property_keeps(3) [OF s(4)]) auto
  also have "\<dots> = verifies_server c2" by (rule tls_property_keeps(3) [OF s(3)]) auto
  also have "\<dots> = verifies_server c1" by (rule tls_property_keeps(3) [OF s(2)]) auto
  also have "verifies_server c1 = verifies_server c0" using scan by (auto split: if_splits)
  finally have c7: "verifies_server c7" using assms(2) by (simp add: verifies_server_def)
  show "verifies_server c \<longleftrightarrow>
           (case properties ''client.ssl.verify_server_certificate'' of
              None \<Rightarrow> True | Some v \<Rightarrow> DDS_Boolean_from_string v = Some True)"
    using s(8)
  proof (cases rule: tls_propertyE)
    case (2 v t t')
    then show ?thesis by (auto simp: verifies_server_def)
  qed (simp add: c7)
qed


text \<open>A parse that succeeded ran all the steps from the defaults.\<close>

lemma Outer_parse_OK:
  assumes "default_config config_out = (DDS_RETCODE_OK, Some c, [])"
  shows "Outer_parse default_config parse_member member set_member config_out = (DDS_RETCODE_OK, Some c', d) \<longleftrightarrow>
           d = [] \<and> (\<exists>m deleted. parse_member (Some (member c)) = (DDS_RETCODE_OK, m, deleted) \<and>
             c' = (case m of None \<Rightarrow> c | Some m1 \<Rightarrow> set_member m1 c))"
  by (auto simp: Outer_parse_def assms Let_def split: prod.splits)

lemma broker_parse_OK:
  assumes "type_support_ok create_data copy" "type_support_ok create_client copy_client"
  shows "RTI_RS_MQTT_BrokerConnectionConfig_parse_from_properties env create_data copy create_client copy_client
           properties config_out = (DDS_RETCODE_OK, Some bc, d) \<longleftrightarrow>
         d = [] \<and>
         run_steps (client_property_steps env properties @ client_tls_steps env properties)
           RTI_MQTT_ClientConfig_DEFAULT = (DDS_RETCODE_OK, bc_client bc)"
proof -
  have member: "RTI_MQTT_ClientConfig_parse_from_properties env create_client copy_client properties (Some x) =
      (DDS_RETCODE_OK, m, deleted) \<longleftrightarrow>
      deleted = [] \<and> (\<exists>c. m = Some c \<and> run_steps (client_property_steps env properties @ client_tls_steps env properties)
           RTI_MQTT_ClientConfig_DEFAULT = (DDS_RETCODE_OK, c))" for x m deleted
    using assms(2)
    by (auto simp: RTI_MQTT_ClientConfig_parse_from_properties_def Config_parse_def
        RTI_MQTT_ClientConfig_default_def split: prod.splits)
  show ?thesis
    unfolding RTI_RS_MQTT_BrokerConnectionConfig_parse_from_properties_def
    using assms(1)
    by (subst Outer_parse_OK [of _ _ RTI_RS_MQTT_BrokerConnectionConfig_DEFAULT])
      (auto simp: RTI_RS_MQTT_BrokerConnectionConfig_default_def member)
qed

lemma broker_config_parsed:
  assumes "prop_env_ok env" "type_support_ok create_data copy" "type_support_ok create_client copy_client"
    and "client_writable (bc_client bc)"
  shows "RTI_RS_MQTT_BrokerConnectionConfig_parse_from_properties env create_data copy create_client copy_client
           (client_properties (bc_client bc)) config_out = (DDS_RETCODE_OK, Some bc, [])"
  by (simp add: broker_parse_OK [OF assms(2,3)] run_steps_append run_client_steps [OF assms(1,4)]
      run_tls_steps [OF assms(1,4)])

text \<open>
  Claim C15. A configuration of a broker connection can be written as properties, and parsing them
  returns success and that configuration, field by field, whether the caller passes an object to
  fill in or not.  The configurations this holds for are those that properties can express:
  the keep-alive period is the default one (no property sets it), no server URI contains the
  separator \<^verbatim>\<open>;\<close> and the last one is not empty, the password contains no zero octet (its text ends
  there), and there is a TLS part when a server URI starts with \<^verbatim>\<open>ssl\<close>.
\<close>

theorem broker_config_roundtrip:
  assumes "prop_env_ok env" "type_support_ok create_data copy" "type_support_ok create_client copy_client"
    and "client_writable (bc_client bc)"
  shows "RTI_RS_MQTT_BrokerConnectionConfig_parse_from_properties env create_data copy create_client copy_client
           (client_properties (bc_client bc)) config_out = (DDS_RETCODE_OK, Some bc, [])"
  by (rule broker_config_parsed [OF assms])

text \<open>
  Whatever the properties, a configuration that is accepted has a TLS part exactly when a
  server URI starts with ssl or a TLS property is given, and with TLS the certificate of the server
  is verified unless the property that controls it is given and says no.
\<close>

theorem broker_config_tls:
  assumes "type_support_ok create_data copy" "type_support_ok create_client copy_client"
    and "RTI_RS_MQTT_BrokerConnectionConfig_parse_from_properties env create_data copy create_client copy_client
           properties config_out = (DDS_RETCODE_OK, Some bc, d)"
  shows "(cfg_ssl_tls_config (bc_client bc) \<noteq> None \<longleftrightarrow>
           (\<exists>uri \<in> set (cfg_server_uris (bc_client bc)). starts_with ''ssl'' uri) \<or>
           (\<exists>p \<in> set tls_properties. properties p \<noteq> None)) \<and>
         (\<forall>t. cfg_ssl_tls_config (bc_client bc) = Some t \<longrightarrow>
           (tls_verify_server_certificate t \<longleftrightarrow>
             (case properties ''client.ssl.verify_server_certificate'' of
                None \<Rightarrow> True | Some v \<Rightarrow> DDS_Boolean_from_string v = Some True)))"
proof -
  let ?c = "bc_client bc"
  obtain c0 where c0: "run_steps (client_property_steps env properties) RTI_MQTT_ClientConfig_DEFAULT = (DDS_RETCODE_OK, c0)"
      "run_steps (client_tls_steps env properties) c0 = (DDS_RETCODE_OK, ?c)"
    using assms(3) by (auto simp: broker_parse_OK [OF assms(1,2)] run_steps_append split: prod.splits if_splits)
  have "cfg_ssl_tls_config (snd (run_steps (client_property_steps env properties) RTI_MQTT_ClientConfig_DEFAULT)) =
        cfg_ssl_tls_config RTI_MQTT_ClientConfig_DEFAULT"
    by (rule run_steps_keeps) (auto simp: client_property_steps_def lookup_property_def split: option.splits if_splits)
  then have none: "cfg_ssl_tls_config c0 = None" using c0(1) by (simp add: RTI_MQTT_ClientConfig_DEFAULT_def)
  note out = run_tls_steps_outcome [OF c0(2) none]
  have "tls_verify_server_certificate t = verifies_server ?c" if "cfg_ssl_tls_config ?c = Some t" for t
    using that by (simp add: verifies_server_def)
  with out show ?thesis by simp
qed

text \<open>
  The properties of the keep-alive period never reach it: the period is the default one in
  every configuration that is accepted, and the given number of seconds replaces the connection
  timeout instead.
\<close>

theorem keep_alive_sets_connect_timeout:
  assumes "type_support_ok create_data copy" "type_support_ok create_client copy_client"
    and "RTI_RS_MQTT_BrokerConnectionConfig_parse_from_properties env create_data copy create_client copy_client
           properties config_out = (DDS_RETCODE_OK, Some bc, d)"
  shows "cfg_keep_alive_period (bc_client bc) = cfg_keep_alive_period RTI_MQTT_ClientConfig_DEFAULT \<and>
         (\<forall>v. properties ''client.keep_alive_period.sec'' = Some v \<longrightarrow>
            seconds (cfg_connect_timeout (bc_client bc)) = to_32 v)"
proof -
  let ?steps = "client_property_steps env properties @ client_tls_steps env properties"
  have run: "run_steps ?steps RTI_MQTT_ClientConfig_DEFAULT = (DDS_RETCODE_OK, bc_client bc)"
    using assms(3) by (simp add: broker_parse_OK [OF assms(1,2)])
  have "cfg_keep_alive_period (snd (run_steps ?steps RTI_MQTT_ClientConfig_DEFAULT)) =
        cfg_keep_alive_period RTI_MQTT_ClientConfig_DEFAULT"
    by (rule run_steps_keeps)
      (auto simp: client_property_steps_def lookup_property_def dest: client_tls_steps_keep [where P = cfg_keep_alive_period]
        split: option.splits if_splits)
  then have period: "cfg_keep_alive_period (bc_client bc) = cfg_keep_alive_period RTI_MQTT_ClientConfig_DEFAULT"
    using run by simp
  have "seconds (cfg_connect_timeout (bc_client bc)) = to_32 v"
    if v: "properties ''client.keep_alive_period.sec'' = Some v" for v
  proof -
    let ?late = "drop 7 ?steps"
    have sixth: "?steps ! 6 = lookup_property properties ''client.keep_alive_period.sec''
        (\<lambda>pval c. Some (c\<lparr>cfg_connect_timeout := (cfg_connect_timeout c)\<lparr>seconds := to_32 pval\<rparr>\<rparr>))"
      by (simp add: client_property_steps_def)
    obtain c6 c7 where c7: "(?steps ! 6) c6 = Some c7" "run_steps ?late c7 = (DDS_RETCODE_OK, bc_client bc)"
      using run_steps_nth [OF run, of 6] by (auto simp: client_property_steps_def)
    then have sec: "seconds (cfg_connect_timeout c7) = to_32 v" using sixth v by auto
    have "seconds (cfg_connect_timeout (snd (run_steps ?late c7))) = seconds (cfg_connect_timeout c7)"
      by (rule run_steps_keeps [where P = "\<lambda>c. seconds (cfg_connect_timeout c)"])
        (auto simp: client_property_steps_def lookup_property_def split: option.splits if_splits
          dest: client_tls_steps_keep [where P = "\<lambda>c. seconds (cfg_connect_timeout c)"])
    with c7 sec show ?thesis by simp
  qed
  with period show ?thesis by simp
qed

subsection \<open>Readers and writers\<close>

definition reader_properties :: "subscription_config \<Rightarrow> properties" where
  "reader_properties c p =
     (if p = ''subscription.topics'' then
        (if topic_filters c = [] then None else Some (join_list (topic_filters c)))
      else if p = ''subscription.max_qos'' then Some (show_qos (max_qos c))
      else if p = ''subscription.queue_size'' then Some (show_nat (unat (message_queue_size c)))
      else None)"

definition writer_properties :: "publication_config \<Rightarrow> properties" where
  "writer_properties c p =
     (if p = ''publication.topic'' then Some (pcfg_topic c)
      else if p = ''publication.qos'' then Some (show_qos (pcfg_qos c))
      else if p = ''publication.retained'' then Some (show_boolean (pcfg_retained c))
      else if p = ''publication.use_message_info'' then Some (show_boolean (pcfg_use_message_info c))
      else if p = ''publication.max_wait_time.sec'' then Some (show_int (sint (seconds (pcfg_max_wait_time c))))
      else if p = ''publication.max_wait_time.nanosec'' then Some (show_nat (unat (nanoseconds (pcfg_max_wait_time c))))
      else None)"

lemma run_subscription_steps:
  assumes "prop_env_ok env" "topic_filters c = [] \<or> listable (topic_filters c)" "RTI_MQTT_QosLevel_is_valid (max_qos c)"
  shows "run_steps (subscription_property_steps env (reader_properties c)) RTI_MQTT_SubscriptionConfig_DEFAULT =
           (DDS_RETCODE_OK, c)"
  using assms
  by (cases "topic_filters c = []")
    (simp_all add: subscription_property_steps_def reader_properties_def lookup_property_def prop_env_okD
      RTI_MQTT_SubscriptionConfig_DEFAULT_def)

lemma run_publication_steps:
  assumes "prop_env_ok env" "RTI_MQTT_QosLevel_is_valid (pcfg_qos c)"
  shows "run_steps (publication_property_steps env (writer_properties c)) RTI_MQTT_PublicationConfig_DEFAULT =
           (DDS_RETCODE_OK, c)"
  using assms
  by (simp add: publication_property_steps_def writer_properties_def lookup_property_def prop_env_okD
      RTI_MQTT_PublicationConfig_DEFAULT_def)

lemma reader_config_parsed:
  assumes "prop_env_ok env" "type_support_ok create_r copy_r" "type_support_ok create_s copy_s"
    and "topic_filters (mr_sub rc) = [] \<or> listable (topic_filters (mr_sub rc))"
    and "RTI_MQTT_QosLevel_is_valid (max_qos (mr_sub rc))"
  shows "RTI_RS_MQTT_MessageReaderConfig_parse_from_properties env create_r copy_r create_s copy_s
           (reader_properties (mr_sub rc)) r_out = (DDS_RETCODE_OK, Some rc, [])"
proof -
  have "RTI_MQTT_SubscriptionConfig_parse_from_properties env create_s copy_s (reader_properties (mr_sub rc)) (Some x) =
      (DDS_RETCODE_OK, Some (mr_sub rc), [])" for x
    using assms run_subscription_steps [OF assms(1,4,5)]
    by (simp add: RTI_MQTT_SubscriptionConfig_parse_from_properties_def Config_parse_def
        RTI_MQTT_SubscriptionConfig_default_def)
  with assms(2) show ?thesis
    by (simp add: RTI_RS_MQTT_MessageReaderConfig_parse_from_properties_def Outer_parse_def
        RTI_RS_MQTT_MessageReaderConfig_default_def)
qed

lemma writer_config_parsed:
  assumes "prop_env_ok env" "type_support_ok create_w copy_w" "type_support_ok create_p copy_p"
    and "RTI_MQTT_QosLevel_is_valid (pcfg_qos (mw_pub wc))"
  shows "RTI_RS_MQTT_MessageWriterConfig_parse_from_properties env create_w copy_w create_p copy_p
           (writer_properties (mw_pub wc)) w_out = (DDS_RETCODE_OK, Some wc, [])"
proof -
  have "RTI_MQTT_PublicationConfig_parse_from_properties env create_p copy_p (writer_properties (mw_pub wc)) (Some x) =
      (DDS_RETCODE_OK, Some (mw_pub wc), [])" for x
    using assms run_publication_steps [OF assms(1,4)]
    by (simp add: RTI_MQTT_PublicationConfig_parse_from_properties_def Config_parse_def
        RTI_MQTT_PublicationConfig_default_def)
  with assms(2) show ?thesis
    by (simp add: RTI_RS_MQTT_MessageWriterConfig_parse_from_properties_def Outer_parse_def
        RTI_RS_MQTT_MessageWriterConfig_default_def)
qed

text \<open>
  Every configuration of a stream reader and of a stream writer with a valid QoS level can
  be written as properties: parsing them returns success and that configuration.
\<close>

theorem stream_config_roundtrip:
  assumes "prop_env_ok env"
    and "type_support_ok create_r copy_r" "type_support_ok create_s copy_s"
    and "type_support_ok create_w copy_w" "type_support_ok create_p copy_p"
    and "topic_filters (mr_sub rc) = [] \<or> listable (topic_filters (mr_sub rc))"
    and "RTI_MQTT_QosLevel_is_valid (max_qos (mr_sub rc))" "RTI_MQTT_QosLevel_is_valid (pcfg_qos (mw_pub wc))"
  shows "RTI_RS_MQTT_MessageReaderConfig_parse_from_properties env create_r copy_r create_s copy_s
           (reader_properties (mr_sub rc)) r_out = (DDS_RETCODE_OK, Some rc, []) \<and>
         RTI_RS_MQTT_MessageWriterConfig_parse_from_properties env create_w copy_w create_p copy_p
           (writer_properties (mw_pub wc)) w_out = (DDS_RETCODE_OK, Some wc, [])"
  using reader_config_parsed [OF assms(1-3,6,7)] writer_config_parsed [OF assms(1,4,5,8)] by simp

section \<open>Examples\<close>

definition example_tls :: ssl_tls_config where
  "example_tls = \<lparr>tls_ca = '''', tls_identity = '''', tls_private_key = '''', tls_private_key_password = '''',
     tls_protocol_version = TLS_DEFAULT, tls_verify_server_certificate = False, tls_cypher_suites = ''''\<rparr>"

definition example_prop_env :: prop_env where
  "example_prop_env =
     \<lparr>pe_strings = std_seq '''', pe_octets = std_seq 0, pe_dup = (\<lambda>_. True), pe_string_alloc = (\<lambda>_. True),
      pe_string_seq_copy = True, pe_string_seq_finalize = True, pe_octet_seq_copy = True,
      pe_octet_seq_finalize = True, pe_password_alloc = True, pe_tls_alloc = True,
      pe_tls_initialize = Some example_tls\<rparr>"

lemma example_prop_env_ok [simp]: "prop_env_ok example_prop_env" "strings_ok example_prop_env"
  by (simp_all add: prop_env_ok_def strings_ok_def octets_ok_def example_prop_env_def)

abbreviation std_copy :: "'c \<Rightarrow> 'c \<Rightarrow> 'c option" where
  "std_copy x y \<equiv> Some y"

lemma type_support_ok_std [simp]: "type_support_ok (\<lambda>_. Some c) std_copy"
  by (simp add: type_support_ok_def)

definition example_broker_config :: broker_connection_config where
  "example_broker_config =
     \<lparr>bc_client = RTI_MQTT_ClientConfig_DEFAULT\<lparr>cfg_id := ''gw'', cfg_server_uris := [''ssl://a:8883'', ''tcp://b''],
        cfg_password := Some [1, 2], cfg_ssl_tls_config := Some example_tls\<rparr>\<rparr>"

lemma example_broker_writable: "client_writable (bc_client example_broker_config)"
  by (simp add: client_writable_def example_broker_config_def listable_def cstring_def NUL_def
      RTI_MQTT_ClientConfig_DEFAULT_def)

theorem string_list_roundtrip_witness:
  "listable [''a/#'', ''b''] \<and>
   (\<exists>seq'. DDS_StringSeq_from_string example_prop_env ''a/#;b'' seq_empty = Some (DDS_RETCODE_OK, seq') \<and>
      seq_buf seq' = [''a/#'', ''b''])"
proof -
  have l: "listable [''a/#'', ''b'']" by (simp add: listable_def cstring_def NUL_def)
  with string_list_roundtrip [of example_prop_env "[''a/#'', ''b'']" seq_empty] show ?thesis
    by (simp add: seq_empty_def)
qed

lemma example_broker_parsed:
  "RTI_RS_MQTT_BrokerConnectionConfig_parse_from_properties example_prop_env
     (\<lambda>_. Some RTI_RS_MQTT_BrokerConnectionConfig_DEFAULT) std_copy (\<lambda>_. Some RTI_MQTT_ClientConfig_DEFAULT) std_copy
     (client_properties (bc_client example_broker_config)) None = (DDS_RETCODE_OK, Some example_broker_config, [])"
  by (simp add: broker_parse_OK run_steps_append run_client_steps run_tls_steps example_broker_writable)

theorem broker_config_roundtrip_witness:
  "RTI_RS_MQTT_BrokerConnectionConfig_parse_from_properties example_prop_env
     (\<lambda>_. Some RTI_RS_MQTT_BrokerConnectionConfig_DEFAULT) std_copy (\<lambda>_. Some RTI_MQTT_ClientConfig_DEFAULT) std_copy
     (client_properties (bc_client example_broker_config)) None = (DDS_RETCODE_OK, Some example_broker_config, [])"
  by (rule broker_config_roundtrip) (simp_all add: example_broker_writable)

theorem broker_config_tls_witness:
  "(\<exists>uri \<in> set (cfg_server_uris (bc_client example_broker_config)). starts_with ''ssl'' uri) \<and>
   \<not> tls_verify_server_certificate example_tls \<and>
   client_properties (bc_client example_broker_config) ''client.ssl.verify_server_certificate'' = Some ''false''"
  using broker_config_tls [OF type_support_ok_std type_support_ok_std example_broker_parsed]
  by (simp add: example_broker_config_def show_boolean_def example_tls_def DDS_Boolean_from_string_def)

text \<open>A property list with nothing but a keep-alive period of 30 seconds.\<close>

definition keep_alive_properties :: properties where
  "keep_alive_properties p = (if p = ''client.keep_alive_period.sec'' then Some ''30'' else None)"

definition keep_alive_config :: broker_connection_config where
  "keep_alive_config =
     \<lparr>bc_client = RTI_MQTT_ClientConfig_DEFAULT\<lparr>cfg_connect_timeout := \<lparr>seconds = 30, nanoseconds = 0\<rparr>\<rparr>\<rparr>"

lemma to_32_30: "to_32 ''30'' = 30"
  by code_simp

lemma keep_alive_parsed:
  "RTI_RS_MQTT_BrokerConnectionConfig_parse_from_properties example_prop_env
     (\<lambda>_. Some RTI_RS_MQTT_BrokerConnectionConfig_DEFAULT) std_copy (\<lambda>_. Some RTI_MQTT_ClientConfig_DEFAULT) std_copy
     keep_alive_properties None = (DDS_RETCODE_OK, Some keep_alive_config, [])"
  by (simp add: broker_parse_OK client_property_steps_def client_tls_steps_def tls_property_def lookup_property_def
      keep_alive_properties_def keep_alive_config_def RTI_MQTT_ClientConfig_DEFAULT_def to_32_30)

theorem keep_alive_sets_connect_timeout_witness:
  "seconds (cfg_connect_timeout (bc_client keep_alive_config)) = 30 \<and>
   cfg_keep_alive_period (bc_client keep_alive_config) = \<lparr>seconds = 10, nanoseconds = 0\<rparr>"
  using keep_alive_sets_connect_timeout [OF type_support_ok_std type_support_ok_std keep_alive_parsed]
  by (simp add: keep_alive_properties_def to_32_30 RTI_MQTT_ClientConfig_DEFAULT_def)

theorem stream_config_roundtrip_witness:
  "RTI_RS_MQTT_MessageReaderConfig_parse_from_properties example_prop_env
     (\<lambda>_. Some RTI_RS_MQTT_MessageReaderConfig_DEFAULT) std_copy (\<lambda>_. Some RTI_MQTT_SubscriptionConfig_DEFAULT) std_copy
     (reader_properties \<lparr>topic_filters = [''a/#'', ''b''], max_qos = QosLevel_ONE, message_queue_size = 100\<rparr>) None =
       (DDS_RETCODE_OK,
        Some \<lparr>mr_sub = \<lparr>topic_filters = [''a/#'', ''b''], max_qos = QosLevel_ONE, message_queue_size = 100\<rparr>\<rparr>, []) \<and>
   RTI_RS_MQTT_MessageWriterConfig_parse_from_properties example_prop_env
     (\<lambda>_. Some RTI_RS_MQTT_MessageWriterConfig_DEFAULT) std_copy (\<lambda>_. Some RTI_MQTT_PublicationConfig_DEFAULT) std_copy
     (writer_properties RTI_MQTT_PublicationConfig_DEFAULT) None =
       (DDS_RETCODE_OK, Some RTI_RS_MQTT_MessageWriterConfig_DEFAULT, [])"
  using stream_config_roundtrip [of example_prop_env "\<lambda>_. Some RTI_RS_MQTT_MessageReaderConfig_DEFAULT" std_copy
      "\<lambda>_. Some RTI_MQTT_SubscriptionConfig_DEFAULT" std_copy
      "\<lambda>_. Some RTI_RS_MQTT_MessageWriterConfig_DEFAULT" std_copy "\<lambda>_. Some RTI_MQTT_PublicationConfig_DEFAULT" std_copy
      "\<lparr>mr_sub = \<lparr>topic_filters = [''a/#'', ''b''], max_qos = QosLevel_ONE, message_queue_size = 100\<rparr>\<rparr>"
      RTI_RS_MQTT_MessageWriterConfig_DEFAULT None None]
  by (simp add: listable_def cstring_def NUL_def RTI_RS_MQTT_MessageWriterConfig_DEFAULT_def
      RTI_MQTT_PublicationConfig_DEFAULT_def)

end
