(* ===== verification/Streams.thy ===== *)
theory Streams
  imports ClientWitnesses Properties
begin

text \<open>
  The stream readers and writers of the MQTT adapter, \<^verbatim>\<open>plugins/adapters/mqtt/srcC/adapter/MessageReader.c\<close>
  and \<^verbatim>\<open>MessageWriter.c\<close>: a reader owns a subscription of the client and lends its unread messages to
  Routing Service, a writer owns a publication.  A subscription or publication is named by its
  address; an operation on an address that the client does not hold has no result (\<open>None\<close>), as any
  use of a null or dangling pointer.
\<close>

section \<open>State\<close>

text \<open>
  Of a sample info only \<^verbatim>\<open>valid_data\<close> is written; \<open>r_info_seq\<close> holds these flags, and \<open>r_info_ptr_seq\<close>
  the pointers to them, by index.  \<open>r_notified\<close> counts the calls of the Routing Service listener.
\<close>

record reader =
  r_config :: "message_reader_config option"
  r_listener :: bool
  r_sub :: "nat option"
  r_info_seq :: "bool dds_seq"
  r_info_ptr_seq :: "nat option dds_seq"
  r_notified :: nat

record writer =
  w_config :: "message_writer_config option"
  w_pub :: "nat option"

text \<open>
  The environment of an operation: the allocation of the object, the generated functions of the
  configuration types, and the environments of the calls into the client, the queue and DDS.  The
  environments of calls made in a loop are numbered.
\<close>

record 'd stream_env =
  st_heap :: bool
  st_prop :: prop_env
  st_reader_create :: "bool \<Rightarrow> message_reader_config option"
  st_reader_copy :: "message_reader_config \<Rightarrow> message_reader_config \<Rightarrow> message_reader_config option"
  st_sub_create :: "bool \<Rightarrow> subscription_config option"
  st_sub_copy :: "subscription_config \<Rightarrow> subscription_config \<Rightarrow> subscription_config option"
  st_writer_create :: "bool \<Rightarrow> message_writer_config option"
  st_writer_copy :: "message_writer_config \<Rightarrow> message_writer_config \<Rightarrow> message_writer_config option"
  st_pub_create :: "bool \<Rightarrow> publication_config option"
  st_pub_copy :: "publication_config \<Rightarrow> publication_config \<Rightarrow> publication_config option"
  st_client :: client_env
  st_sub :: "'d sub_env"
  st_pub :: pub_env
  st_queue :: "'d queue_env"
  st_infos :: "bool seq_api"
  st_info_ptrs :: "nat option seq_api"
  st_discontiguous :: bool
  st_retry :: "nat \<Rightarrow> 'd queue_env"
  st_write_client :: "nat \<Rightarrow> client_env"
  st_write :: "nat \<Rightarrow> 'd write_env"

section \<open>Readers\<close>

text \<open>The listener that the reader sets on its subscription.\<close>

definition RTI_RS_MQTT_MessageReader_on_mqtt_data_available :: "reader \<Rightarrow> reader" where
  "RTI_RS_MQTT_MessageReader_on_mqtt_data_available self =
     (if r_listener self then self\<lparr>r_notified := r_notified self + 1\<rparr> else self)"

text \<open>
  Without memory for the object its fields are used all the same.  A discovery reader has no
  subscription; it is made before the client of the connection.
\<close>

definition RTI_RS_MQTT_MessageReader_new_internal ::
    "'d stream_env \<Rightarrow> bool \<Rightarrow> properties \<Rightarrow> bool \<Rightarrow> 'd client option
     \<Rightarrow> (retcode \<times> reader option \<times> 'd client option) option" where
  "RTI_RS_MQTT_MessageReader_new_internal env listener properties discovery client =
     (if \<not> st_heap env then None
      else
        let reader = \<lparr>r_config = None, r_listener = listener, r_sub = None, r_info_seq = seq_empty,
                      r_info_ptr_seq = seq_empty, r_notified = 0\<rparr> in
        case RTI_RS_MQTT_MessageReaderConfig_parse_from_properties (st_prop env) (st_reader_create env)
               (st_reader_copy env) (st_sub_create env) (st_sub_copy env) properties None of
          (rc, config, _) \<Rightarrow>
            if rc \<noteq> DDS_RETCODE_OK then Some (DDS_RETCODE_ERROR, None, client)
            else if discovery then Some (DDS_RETCODE_OK, Some (reader\<lparr>r_config := config\<rparr>), client)
            else
              case (config, client) of
                (Some cfg, Some c) \<Rightarrow>
                  (case RTI_MQTT_Client_subscribe (st_client env) (st_sub env) (mr_sub cfg) c of
                     None \<Rightarrow> None
                   | Some (rc, sub, c1) \<Rightarrow>
                       if rc \<noteq> DDS_RETCODE_OK then Some (DDS_RETCODE_ERROR, None, Some c1)
                       else
                         case Option.bind sub (\<lambda>p. find_sub p c1) of
                           None \<Rightarrow> None
                         | Some s \<Rightarrow>
                             case RTI_MQTT_Subscription_set_data_available_listener s True of
                               (rc, s1) \<Rightarrow>
                                 if rc \<noteq> DDS_RETCODE_OK then
                                   map_option (\<lambda>(_, c2). (DDS_RETCODE_ERROR, None, Some c2))
                                     (RTI_MQTT_Client_unsubscribe (st_client env) (st_queue env) s1 (put_sub s1 c1))
                                 else
                                   Some (DDS_RETCODE_OK, Some (reader\<lparr>r_config := config, r_sub := sub\<rparr>),
                                         Some (put_sub s1 c1)))
              | _ \<Rightarrow> None)"

definition RTI_RS_MQTT_MessageReader_new_discovery ::
    "'d stream_env \<Rightarrow> bool \<Rightarrow> properties \<Rightarrow> 'd client option \<Rightarrow> (retcode \<times> reader option \<times> 'd client option) option" where
  "RTI_RS_MQTT_MessageReader_new_discovery env listener properties client =
     RTI_RS_MQTT_MessageReader_new_internal env listener properties True client"

definition RTI_RS_MQTT_MessageReader_new ::
    "'d stream_env \<Rightarrow> bool \<Rightarrow> properties \<Rightarrow> 'd client option \<Rightarrow> (retcode \<times> reader option \<times> 'd client option) option" where
  "RTI_RS_MQTT_MessageReader_new env listener properties client =
     RTI_RS_MQTT_MessageReader_new_internal env listener properties False client"

definition RTI_RS_MQTT_MessageReader_delete ::
    "'d stream_env \<Rightarrow> reader \<Rightarrow> 'd client option \<Rightarrow> 'd client option option" where
  "RTI_RS_MQTT_MessageReader_delete env reader client =
     (case r_sub reader of
        None \<Rightarrow> Some client
      | Some p \<Rightarrow>
          case client of
            None \<Rightarrow> None
          | Some c \<Rightarrow>
              case find_sub p c of
                None \<Rightarrow> None
              | Some s \<Rightarrow>
                  map_option (\<lambda>(_, c1). Some c1)
                    (RTI_MQTT_Client_unsubscribe (st_client env) (st_queue env) s c))"

text \<open>What a read gives Routing Service: the samples, the pointers to the infos, and their number.\<close>

record 'd read_out =
  out_samples :: "'d option list option"
  out_infos :: "nat option list option"
  out_count :: nat

definition no_samples :: "'d read_out" where
  "no_samples = \<lparr>out_samples = None, out_infos = None, out_count = 0\<rparr>"

text \<open>A discovery reader has no streams to report: a list of length zero is allocated.\<close>

definition RTI_RS_MQTT_MessageReader_read_discovery :: "'d stream_env \<Rightarrow> 'd read_out" where
  "RTI_RS_MQTT_MessageReader_read_discovery env =
     (if st_heap env then no_samples\<lparr>out_samples := Some []\<rparr> else no_samples)"

text \<open>The loop over the infos: turn \<open>i\<close> marks info \<open>i\<close> as valid and sets pointer \<open>i\<close> to it.\<close>

fun fill_infos :: "nat \<Rightarrow> nat \<Rightarrow> bool list \<times> nat option list \<Rightarrow> bool list \<times> nat option list" where
  "fill_infos i 0 x = x"
| "fill_infos i (Suc k) (infos, ptrs) = fill_infos (i + 1) k (infos[i := True], ptrs[i := Some i])"

text \<open>The error path: a loan that cannot be returned is returned again, from the start of the cleanup.\<close>

partial_function (option) return_messages ::
    "(nat \<Rightarrow> 'd queue_env) \<Rightarrow> nat \<Rightarrow> 'd subscription \<Rightarrow> 'd option dds_seq \<Rightarrow> 'd subscription option" where
  "return_messages envs k sub messages =
     (case RTI_MQTT_Subscription_return_loan (envs k) sub messages of
        None \<Rightarrow> None
      | Some (rc, sub1, messages1) \<Rightarrow>
          if rc \<noteq> DDS_RETCODE_OK then return_messages envs (k + 1) sub1 messages1 else Some sub1)"

definition RTI_RS_MQTT_MessageReader_read ::
    "'d stream_env \<Rightarrow> bool \<Rightarrow> reader \<Rightarrow> 'd client \<Rightarrow> ('d read_out \<times> reader \<times> 'd client) option" where
  "RTI_RS_MQTT_MessageReader_read env is_discovery self c =
     (if is_discovery then Some (RTI_RS_MQTT_MessageReader_read_discovery env, self, c)
      else
        case Option.bind (r_sub self) (\<lambda>p. find_sub p c) of
          None \<Rightarrow> None
        | Some sub \<Rightarrow>
            case RTI_MQTT_Subscription_read (st_queue env) sub RTI_MQTT_SUBSCRIPTION_READ_LENGTH_UNLIMITED seq_empty of
              None \<Rightarrow> None
            | Some (rc, sub1, messages) \<Rightarrow>
                let c1 = put_sub sub1 c;
                    n = length (seq_buf messages);
                    fail = (\<lambda>self1. map_option (\<lambda>sub2. (no_samples, self1, put_sub sub2 c1))
                              (return_messages (st_retry env) 0 sub1 messages)) in
                if rc \<noteq> DDS_RETCODE_OK then Some (no_samples, self, c1)
                else if n = 0 then Some (no_samples, self, c1)
                else if \<not> st_discontiguous env then fail self
                else
                  case seq_ensure_length (st_infos env) (of_nat n) (of_nat n) (r_info_seq self) of
                    None \<Rightarrow> fail self
                  | Some infos \<Rightarrow>
                      let self1 = self\<lparr>r_info_seq := infos\<rparr> in
                      case seq_ensure_length (st_info_ptrs env) (of_nat n) (of_nat n) (r_info_ptr_seq self1) of
                        None \<Rightarrow> fail self1
                      | Some ptrs \<Rightarrow>
                          case fill_infos 0 n (seq_buf infos, seq_buf ptrs) of
                            (infos1, ptrs1) \<Rightarrow>
                              Some (\<lparr>out_samples = Some (seq_buf messages), out_infos = Some ptrs1, out_count = n\<rparr>,
                                    self1\<lparr>r_info_seq := infos\<lparr>seq_buf := infos1\<rparr>,
                                          r_info_ptr_seq := ptrs\<lparr>seq_buf := ptrs1\<rparr>\<rparr>, c1))"

definition RTI_RS_MQTT_MessageReader_return_loan ::
    "'d stream_env \<Rightarrow> 'd option list \<Rightarrow> nat \<Rightarrow> reader \<Rightarrow> 'd client \<Rightarrow> 'd client option" where
  "RTI_RS_MQTT_MessageReader_return_loan env samples_list n self c =
     (case seq_loan (qe_samples (st_queue env)) samples_list (of_nat n) (of_nat n) seq_empty of
        None \<Rightarrow> Some c
      | Some messages \<Rightarrow>
          case Option.bind (r_sub self) (\<lambda>p. find_sub p c) of
            None \<Rightarrow> None
          | Some sub \<Rightarrow>
              map_option (\<lambda>(_, sub1, _). put_sub sub1 c)
                (RTI_MQTT_Subscription_return_loan (st_queue env) sub messages))"

section \<open>Writers\<close>

definition RTI_RS_MQTT_MessageWriter_delete ::
    "'d stream_env \<Rightarrow> writer \<Rightarrow> 'd client option \<Rightarrow> 'd client option option" where
  "RTI_RS_MQTT_MessageWriter_delete env writer client =
     (case w_pub writer of
        None \<Rightarrow> Some client
      | Some p \<Rightarrow>
          case client of
            None \<Rightarrow> None
          | Some c \<Rightarrow>
              case find_pub p c of
                None \<Rightarrow> None
              | Some pub \<Rightarrow> map_option (\<lambda>(_, c1). Some c1) (RTI_MQTT_Client_unpublish (st_client env) pub c))"

definition RTI_RS_MQTT_MessageWriter_new ::
    "'d stream_env \<Rightarrow> properties \<Rightarrow> 'd client option \<Rightarrow> (retcode \<times> writer option \<times> 'd client option) option" where
  "RTI_RS_MQTT_MessageWriter_new env properties client =
     (if \<not> st_heap env then Some (DDS_RETCODE_ERROR, None, client)
      else
        let writer = \<lparr>w_config = None, w_pub = None\<rparr>;
            fail = (\<lambda>w c. map_option (\<lambda>c1. (DDS_RETCODE_ERROR, None, c1)) (RTI_RS_MQTT_MessageWriter_delete env w c)) in
        case RTI_RS_MQTT_MessageWriterConfig_parse_from_properties (st_prop env) (st_writer_create env)
               (st_writer_copy env) (st_pub_create env) (st_pub_copy env) properties None of
          (rc, config, _) \<Rightarrow>
            if rc \<noteq> DDS_RETCODE_OK then fail writer client
            else
              case (config, client) of
                (Some cfg, Some c) \<Rightarrow>
                  (case RTI_MQTT_Client_publish (st_client env) (st_pub env) (mw_pub cfg) c of
                     None \<Rightarrow> None
                   | Some (rc, pub, c1) \<Rightarrow>
                       let writer1 = writer\<lparr>w_config := config, w_pub := pub\<rparr> in
                       if rc \<noteq> DDS_RETCODE_OK then fail writer1 (Some c1)
                       else Some (DDS_RETCODE_OK, Some writer1, Some c1))
              | _ \<Rightarrow> None)"

text \<open>The loop of a write; the result is the number of messages written before the first failure.\<close>

fun write_loop :: "'d stream_env \<Rightarrow> nat \<Rightarrow> 'd list \<Rightarrow> nat \<Rightarrow> 'd client \<Rightarrow> (nat \<times> 'd client) option" where
  "write_loop env p [] written c = Some (written, c)"
| "write_loop env p (sample # samples) written c =
     (case find_pub p c of
        None \<Rightarrow> None
      | Some pub \<Rightarrow>
          case RTI_MQTT_Publication_write (st_write_client env written) (st_write env written) pub sample c of
            None \<Rightarrow> None
          | Some (rc, _, c1) \<Rightarrow>
              if rc \<noteq> DDS_RETCODE_OK then Some (written, c1)
              else write_loop env p samples (written + 1) c1)"

definition RTI_RS_MQTT_MessageWriter_write ::
    "'d stream_env \<Rightarrow> 'd list \<Rightarrow> writer \<Rightarrow> 'd client \<Rightarrow> (nat \<times> 'd client) option" where
  "RTI_RS_MQTT_MessageWriter_write env samples_list writer c =
     (case w_pub writer of
        None \<Rightarrow> if samples_list = [] then Some (0, c) else None
      | Some p \<Rightarrow> write_loop env p samples_list 0 c)"

section \<open>Lemmas\<close>

lemma find_sub_put:
  "find_sub p c = Some s \<Longrightarrow> s_ptr s' = p \<Longrightarrow> find_sub p (put_sub s' c) = Some s'"
proof -
  have "find (\<lambda>s. s_ptr s = p) (with_sub s' xs) = Some s'" if "find (\<lambda>s. s_ptr s = p) xs = Some s" "s_ptr s' = p"
    for xs :: "'a subscription list"
    using that by (induction xs) (auto simp: with_sub_def split: if_splits)
  then show "find_sub p c = Some s \<Longrightarrow> s_ptr s' = p \<Longrightarrow> find_sub p (put_sub s' c) = Some s'"
    by (simp add: find_sub_def put_sub_eq)
qed

text \<open>The other subscriptions of the client.\<close>

definition other_subs :: "nat \<Rightarrow> 'd client \<Rightarrow> 'd subscription list" where
  "other_subs p c = filter (\<lambda>s. s_ptr s \<noteq> p) (c_subscriptions c)"

lemma other_subs_put [simp]: "s_ptr s = p \<Longrightarrow> other_subs p (put_sub s c) = other_subs p c"
  using with_sub_filter [of s "c_subscriptions c"] by (auto simp: other_subs_def put_sub_eq)

lemma fill_infos_tail:
  "length infos = i + k \<Longrightarrow> length ptrs = i + k \<Longrightarrow>
   fill_infos i k (infos, ptrs) = (take i infos @ replicate k True, take i ptrs @ map Some [i..<i + k])"
proof (induction k arbitrary: i infos ptrs)
  case (Suc k)
  then have "fill_infos (i + 1) k (infos[i := True], ptrs[i := Some i]) =
      (take (i + 1) (infos[i := True]) @ replicate k True, take (i + 1) (ptrs[i := Some i]) @ map Some [i + 1..<i + 1 + k])"
    by (intro Suc.IH) simp_all
  moreover have "[i..<i + Suc k] = i # [Suc i..<Suc (i + k)]" by (simp add: upt_conv_Cons)
  ultimately show ?case using Suc.prems by (simp add: take_Suc_conv_app_nth)
qed simp

lemma fill_infos_all:
  "length infos = n \<Longrightarrow> length ptrs = n \<Longrightarrow> fill_infos 0 n (infos, ptrs) = (replicate n True, map Some [0..<n])"
  using fill_infos_tail [of infos 0 n ptrs] by simp

lemmas stream_read_defs = RTI_RS_MQTT_MessageReader_read_def RTI_MQTT_Subscription_read_def Let_def

text \<open>A reader with the memory it needs.\<close>

definition reading_env :: "'d stream_env \<Rightarrow> bool" where
  "reading_env env \<longleftrightarrow>
     reader_env (st_queue env) \<and> seq_laws (st_infos env) \<and> seq_total (st_infos env) \<and>
     seq_laws (st_info_ptrs env) \<and> seq_total (st_info_ptrs env) \<and> st_discontiguous env"

lemma seq_loan_all:
  assumes "seq_laws a" "seq_total a" "length xs < 2147483648"
  obtains s where "seq_loan a xs (of_nat (length xs)) (of_nat (length xs)) seq_empty = Some s" "seq_buf s = xs" "seq_loaned s"
proof -
  have u: "unat (of_nat (length xs) :: u32) = length xs" using assms(3) by (intro unat_of_nat_u32) simp
  have "seq_loan a xs (of_nat (length xs)) (of_nat (length xs)) seq_empty \<noteq> None"
    using assms(2) by (simp add: seq_total_def seq_empty_def)
  then obtain s where s: "seq_loan a xs (of_nat (length xs)) (of_nat (length xs)) seq_empty = Some s" by auto
  with assms(1) have "seq_buf s = take (unat (of_nat (length xs) :: u32)) xs" "seq_loaned s"
    unfolding seq_laws_def by blast+
  with s u that show thesis by simp
qed

text \<open>The infos of a read that gives \<open>n\<close> messages.\<close>

lemma infos_filled:
  assumes "reading_env env" "n < 2147483648" "\<not> seq_loaned (r_info_seq r)" "\<not> seq_loaned (r_info_ptr_seq r)"
  obtains infos ptrs where
    "seq_ensure_length (st_infos env) (of_nat n) (of_nat n) (r_info_seq r) = Some infos"
    "seq_ensure_length (st_info_ptrs env) (of_nat n) (of_nat n) (r_info_ptr_seq r) = Some ptrs"
    "fill_infos 0 n (seq_buf infos, seq_buf ptrs) = (replicate n True, map Some [0..<n])"
proof -
  have e: "seq_laws (st_infos env)" "seq_total (st_infos env)" "seq_laws (st_info_ptrs env)" "seq_total (st_info_ptrs env)"
    using assms(1) by (simp_all add: reading_env_def)
  obtain infos where i: "seq_ensure_length (st_infos env) (of_nat n) (of_nat n) (r_info_seq r) = Some infos"
      "unat (of_nat n :: u32) = n" using seq_grow [OF e(2) assms(3,2)] .
  obtain ptrs where p: "seq_ensure_length (st_info_ptrs env) (of_nat n) (of_nat n) (r_info_ptr_seq r) = Some ptrs"
    using seq_grow [OF e(4) assms(4,2)] by metis
  show thesis
    using i(2) seq_ensure_lengthD(1) [OF e(1) i(1)] seq_ensure_lengthD(1) [OF e(3) p]
    by (intro that [OF i(1) p] fill_infos_all) simp_all
qed

section \<open>Properties\<close>

text \<open>The sequences of infos that a reader keeps are its own.\<close>

definition infos_owned :: "reader \<Rightarrow> bool" where
  "infos_owned r \<longleftrightarrow> \<not> seq_loaned (r_info_seq r) \<and> \<not> seq_loaned (r_info_ptr_seq r)"

lemma reader_cycle_some:
  assumes "reading_env env" "r_sub r = Some p" "find_sub p c = Some s" "circ_idle (s_queue s)"
    and "ds = circ_abs (s_queue s)" "ds \<noteq> []" "length ds < circ_cap (s_queue s)" "infos_owned r"
  shows "\<exists>r1 c1 c2 s2.
    RTI_RS_MQTT_MessageReader_read env False r c =
      Some (\<lparr>out_samples = Some (map Some ds), out_infos = Some (map Some [0..<length ds]), out_count = length ds\<rparr>, r1, c1) \<and>
    seq_buf (r_info_seq r1) = replicate (length ds) True \<and>
    RTI_RS_MQTT_MessageReader_return_loan env (map Some ds) (length ds) r1 c1 = Some c2 \<and>
    find_sub p c2 = Some s2 \<and> circ_idle (s_queue s2) \<and> circ_abs (s_queue s2) = [] \<and>
    q_freed (s_queue s2) = q_freed (s_queue s) @ ds \<and> other_subs p c2 = other_subs p c"
proof -
  let ?q = "s_queue s" and ?n = "length ds"
  have e: "env_laws (st_queue env)" "env_total (st_queue env)" "\<forall>i. qe_delete (st_queue env) i"
    using assms(1) by (simp_all add: reading_env_def reader_env_def)
  have sp: "s_ptr s = p" using find_sub_facts(2) [OF assms(3)] by simp
  have se: "seq_max (seq_empty :: 'a option dds_seq) = 0" "\<not> seq_loaned (seq_empty :: 'a option dds_seq)"
    by (simp_all add: seq_empty_def)
  have inv: "circ_inv ?q" "\<not> q_read_buffer_loaned ?q" using assms(4) by (simp_all add: circ_idle_def)
  have cap: "length (circ_abs ?q) \<noteq> unat (q_capacity ?q)" using assms(5,7) by (simp add: circ_cap_def)
  obtain q1 ms where r: "RTI_MQTT_MessageReceiveQueue_read (st_queue env) ?q
        RTI_MQTT_SUBSCRIPTION_READ_LENGTH_UNLIMITED seq_empty = Some (DDS_RETCODE_OK, q1, ms)"
      and q1: "circ_inv q1" "circ_abs q1 = []" "seq_buf ms = map Some ds" "q_read_buffer_loaned q1"
        "take ?n (seq_buf (q_read_buffer q1)) = map Some ds" "q_freed q1 = q_freed ?q" "q_capacity q1 = q_capacity ?q"
    by (rule read_circ_loan [OF inv(1) e(1,2) se inv(2)]) (use cap assms(5,6) in auto)
  have ln: "?n \<le> seq_max (q_read_buffer q1)" "?n < 2147483648"
    using circ_bounds [OF q1(1)] circ_bounds [OF inv(1)] q1(7) assms(5) by auto
  have own: "\<not> seq_loaned (r_info_seq r)" "\<not> seq_loaned (r_info_ptr_seq r)"
    using assms(8) by (simp_all add: infos_owned_def)
  obtain infos ptrs where
      i: "seq_ensure_length (st_infos env) (of_nat ?n) (of_nat ?n) (r_info_seq r) = Some infos"
      "seq_ensure_length (st_info_ptrs env) (of_nat ?n) (of_nat ?n) (r_info_ptr_seq r) = Some ptrs"
      "fill_infos 0 ?n (seq_buf infos, seq_buf ptrs) = (replicate ?n True, map Some [0..<?n])"
    by (rule infos_filled [OF assms(1) ln(2) own])
  let ?r1 = "r\<lparr>r_info_seq := infos\<lparr>seq_buf := replicate ?n True\<rparr>,
      r_info_ptr_seq := ptrs\<lparr>seq_buf := map Some [0..<?n]\<rparr>\<rparr>"
  let ?s1 = "s\<lparr>s_queue := q1\<rparr>"
  let ?c1 = "put_sub ?s1 c"
  have read: "RTI_RS_MQTT_MessageReader_read env False r c =
      Some (\<lparr>out_samples = Some (map Some ds), out_infos = Some (map Some [0..<?n]), out_count = ?n\<rparr>, ?r1, ?c1)"
    using assms(1,2,3,6) r q1(3) i by (simp add: stream_read_defs reading_env_def)
  have f1: "find_sub p ?c1 = Some ?s1" using find_sub_put [OF assms(3), of ?s1] sp by simp
  have sa: "seq_laws (qe_samples (st_queue env))" "seq_total (qe_samples (st_queue env))"
    using e by (simp_all add: env_laws_def env_total_def)
  obtain m where m: "seq_loan (qe_samples (st_queue env)) (map Some ds) (of_nat ?n) (of_nat ?n) seq_empty = Some m"
      "seq_buf m = map Some ds" "seq_loaned m"
    using seq_loan_all [OF sa, of "map Some ds"] ln(2) by auto
  obtain q2 where q2: "RTI_MQTT_MessageReceiveQueue_return_loan (st_queue env) q1 m = Some (DDS_RETCODE_OK, q2, seq_empty)"
      "\<not> q_read_buffer_loaned q2" "q_freed q2 = q_freed q1 @ ds"
      and fr: "q2\<lparr>q_read_buffer := q_read_buffer q1, q_freed := q_freed q1, q_read_buffer_loaned := True\<rparr> = q1"
        "seq_max (q_read_buffer q2) = seq_max (q_read_buffer q1)"
    by (rule return_loan_ok [OF e q1(4) m(3,2) q1(5) ln]) blast
  let ?c2 = "put_sub (?s1\<lparr>s_queue := q2\<rparr>) ?c1"
  have "RTI_RS_MQTT_MessageReader_return_loan env (map Some ds) ?n ?r1 ?c1 = Some ?c2"
    using m(1) f1 assms(2) q2(1)
    by (simp add: RTI_RS_MQTT_MessageReader_return_loan_def RTI_MQTT_Subscription_return_loan_def)
  moreover have "find_sub p ?c2 = Some (?s1\<lparr>s_queue := q2\<rparr>)"
    using find_sub_put [OF f1, of "?s1\<lparr>s_queue := q2\<rparr>"] sp by simp
  ultimately show ?thesis
    using read circ_loan_frame [OF fr q1(1)] q2 q1 sp by (auto simp: circ_idle_def)
qed

lemma reader_cycle_none:
  assumes "reading_env env" "r_sub r = Some p" "find_sub p c = Some s" "circ_idle (s_queue s)"
    and "circ_abs (s_queue s) = [] \<or> length (circ_abs (s_queue s)) = circ_cap (s_queue s)"
  shows "\<exists>c1 s1. RTI_RS_MQTT_MessageReader_read env False r c = Some (no_samples, r, c1) \<and>
    find_sub p c1 = Some s1 \<and> circ_idle (s_queue s1) \<and> circ_abs (s_queue s1) = circ_abs (s_queue s) \<and>
    q_freed (s_queue s1) = q_freed (s_queue s) \<and> other_subs p c1 = other_subs p c"
proof -
  let ?q = "s_queue s"
  have e: "env_laws (st_queue env)" "env_total (st_queue env)"
    using assms(1) by (simp_all add: reading_env_def reader_env_def)
  have sp: "s_ptr s = p" using find_sub_facts(2) [OF assms(3)] by simp
  have se: "seq_max (seq_empty :: 'a option dds_seq) = 0" "\<not> seq_loaned (seq_empty :: 'a option dds_seq)"
    by (simp_all add: seq_empty_def)
  have inv: "circ_inv ?q" "\<not> q_read_buffer_loaned ?q" using assms(4) by (simp_all add: circ_idle_def)
  obtain q1 ms where r: "RTI_MQTT_MessageReceiveQueue_read (st_queue env) ?q
        RTI_MQTT_SUBSCRIPTION_READ_LENGTH_UNLIMITED seq_empty = Some (DDS_RETCODE_OK, q1, ms)"
      and q1: "circ_inv q1" "circ_abs q1 = circ_abs ?q" "seq_buf ms = []" "\<not> q_read_buffer_loaned q1" "q_freed q1 = q_freed ?q"
    by (rule read_circ_loan [OF inv(1) e se inv(2)]) (use assms(5) in \<open>auto simp: circ_cap_def\<close>)
  let ?s1 = "s\<lparr>s_queue := q1\<rparr>"
  have "RTI_RS_MQTT_MessageReader_read env False r c = Some (no_samples, r, put_sub ?s1 c)"
    using assms(2,3) r q1(3) by (simp add: stream_read_defs)
  moreover have "find_sub p (put_sub ?s1 c) = Some ?s1" using find_sub_put [OF assms(3), of ?s1] sp by simp
  ultimately show ?thesis using q1 sp by (auto simp: circ_idle_def)
qed

text \<open>
  Claim C18. A read cycle of a stream reader on a bounded queue, when locks, sequences and the deletion of
  samples do not fail.  While the queue is neither empty nor
  full, a read gives Routing Service exactly the unread messages, in order, each with its own info
  marked as valid; when Routing Service returns them the queue is empty and idle again, every message
  has been freed once, and no other subscription of the client has changed.  On an empty queue, and
  also on a full one, a read gives no samples and changes neither the messages in the queue nor
  any other subscription.
\<close>

theorem stream_reader_cycle:
  assumes "reading_env env" "r_sub r = Some p" "find_sub p c = Some s" "circ_idle (s_queue s)" "infos_owned r"
    and "ds = circ_abs (s_queue s)"
  shows "if ds \<noteq> [] \<and> length ds < circ_cap (s_queue s)
    then \<exists>r1 c1 c2 s2.
      RTI_RS_MQTT_MessageReader_read env False r c =
        Some (\<lparr>out_samples = Some (map Some ds), out_infos = Some (map Some [0..<length ds]), out_count = length ds\<rparr>, r1, c1) \<and>
      seq_buf (r_info_seq r1) = replicate (length ds) True \<and>
      RTI_RS_MQTT_MessageReader_return_loan env (map Some ds) (length ds) r1 c1 = Some c2 \<and>
      find_sub p c2 = Some s2 \<and> circ_idle (s_queue s2) \<and> circ_abs (s_queue s2) = [] \<and>
      q_freed (s_queue s2) = q_freed (s_queue s) @ ds \<and> other_subs p c2 = other_subs p c
    else \<exists>c1 s1. RTI_RS_MQTT_MessageReader_read env False r c = Some (no_samples, r, c1) \<and>
      find_sub p c1 = Some s1 \<and> circ_idle (s_queue s1) \<and> circ_abs (s_queue s1) = ds \<and>
      q_freed (s_queue s1) = q_freed (s_queue s) \<and> other_subs p c1 = other_subs p c"
proof -
  have "length ds \<le> circ_cap (s_queue s)" using circ.bound [OF assms(4)] assms(6) by simp
  then show ?thesis
    using reader_cycle_some [OF assms(1-4,6)] reader_cycle_none [OF assms(1-4)] assms(5,6) by auto
qed


text \<open>The message of a publication with a fixed topic, and whether its \<open>i\<close>-th write is acknowledged.\<close>

definition send_call :: "publication \<Rightarrow> octet list \<Rightarrow> paho_call" where
  "send_call q payload =
     MQTTAsync_sendMessage (pcfg_topic (p_config q)) payload (the (snd (RTI_MQTT_QosLevel_to_mqtt_qos (pcfg_qos (p_config q)))))
       (pcfg_retained (p_config q))"

definition acknowledged :: "'d stream_env \<Rightarrow> publication \<Rightarrow> nat \<Rightarrow> octet list \<Rightarrow> bool" where
  "acknowledged env q i payload \<longleftrightarrow>
     ce_paho (st_write_client env i) (send_call q payload) \<and>
     we_reply (ce_wait_write (st_write_client env i)) = Some DDS_RETCODE_OK"

text \<open>A publication with a fixed topic that is ready to write, and an environment with enough memory.\<close>

definition pub_writable :: "publication \<Rightarrow> bool" where
  "pub_writable q \<longleftrightarrow>
     \<not> pcfg_use_message_info (p_config q) \<and> topic_buf_ok q \<and>
     RTI_MQTT_Publication_is_configuration_valid (pcfg_qos (p_config q)) (Some (pcfg_topic (p_config q))) \<and>
     (\<exists>r. p_req q = Some r \<and> \<not> req_triggered r) \<and>
     (pcfg_qos (p_config q) = QosLevel_TWO \<longrightarrow> pending_count (p_status q) \<noteq> - 1)"

definition writing_env :: "'d stream_env \<Rightarrow> publication \<Rightarrow> bool" where
  "writing_env env q \<longleftrightarrow>
     (\<forall>i. string_replace_laws (pe_string_replace (wr_pub (st_write env i))) \<and>
          pe_string_dup (wr_pub (st_write env i)) (pcfg_topic (p_config q)) \<and>
          (\<forall>b. pe_string_replace (wr_pub (st_write env i)) b (pcfg_topic (p_config q)) \<noteq> None) \<and>
          wr_payload_copy (st_write env i) \<and> quiet (ce_wait_write (st_write_client env i)))"

lemma valid_qos_number: "RTI_MQTT_QosLevel_is_valid l \<Longrightarrow> \<exists>rc n. RTI_MQTT_QosLevel_to_mqtt_qos l = (rc, Some n)"
  by (cases l) simp_all

lemma write_one:
  assumes "writing_env env q" "pub_writable q" "find_pub (p_ptr q) c = Some q"
    and "dyn_get_octet_seq (wr_dyn (st_write env i)) ''payload.data'' sample = Some payload"
  shows "\<exists>q' c'. RTI_MQTT_Publication_write (st_write_client env i) (st_write env i) q sample c =
           Some (rc_of (acknowledged env q i payload), q', c') \<and>
         c_calls c' = c_calls c @ [send_call q payload] \<and> find_pub (p_ptr q) c' = Some q' \<and>
         p_ptr q' = p_ptr q \<and> p_config q' = p_config q \<and> (acknowledged env q i payload \<longrightarrow> pub_writable q')"
proof -
  obtain r where r: "p_req q = Some r" "\<not> req_triggered r" using assms(2) by (auto simp: pub_writable_def)
  have v: "RTI_MQTT_Publication_is_configuration_valid (pcfg_qos (p_config q)) (Some (pcfg_topic (p_config q)))"
    and p: "\<not> pcfg_use_message_info (p_config q)" "topic_buf_ok q"
    using assms(2) by (simp_all add: pub_writable_def)
  then obtain rcq n where n: "RTI_MQTT_QosLevel_to_mqtt_qos (pcfg_qos (p_config q)) = (rcq, Some n)"
    using valid_qos_number by (auto simp: is_configuration_valid_iff)
  have e: "string_replace_laws (pe_string_replace (wr_pub (st_write env i)))"
      "pe_string_dup (wr_pub (st_write env i)) (pcfg_topic (p_config q))"
      "pe_string_replace (wr_pub (st_write env i)) (p_topic q) (pcfg_topic (p_config q)) \<noteq> None"
      "wr_payload_copy (st_write env i)" "quiet (ce_wait_write (st_write_client env i))"
    and q2: "pcfg_qos (p_config q) = QosLevel_TWO \<longrightarrow> pending_count (p_status q) \<noteq> - 1"
    using assms(1,2) by (simp_all add: writing_env_def pub_writable_def)
  have call: "MQTTAsync_sendMessage (pcfg_topic (p_config q)) payload n (pcfg_retained (p_config q)) = send_call q payload"
    by (simp add: send_call_def n)
  show ?thesis
    using write_fixed_topic [OF p(1) v n p(2) e(1-4) assms(4) e(5) r q2, of c] assms(3) v p(1) q2
    unfolding call
    by (auto simp: acknowledged_def pub_writable_def written_status_def count_result_def Let_def)
qed

lemma write_loop_sends:
  assumes "writing_env env q" "pub_writable q" "find_pub (p_ptr q) c = Some q" "length payloads = length samples"
    and "\<forall>i < length samples.
      dyn_get_octet_seq (wr_dyn (st_write env (k + i))) ''payload.data'' (samples ! i) = Some (payloads ! i)"
  shows "\<exists>n c'. write_loop env (p_ptr q) samples k c = Some (k + n, c') \<and> n \<le> length samples \<and>
    (\<forall>i < n. acknowledged env q (k + i) (payloads ! i)) \<and>
    (n < length samples \<longrightarrow> \<not> acknowledged env q (k + n) (payloads ! n)) \<and>
    c_calls c' = c_calls c @ map (send_call q) (take (Suc n) payloads)"
  using assms
proof (induction samples arbitrary: k c q payloads)
  case (Cons sample samples)
  obtain payload rest where ps: "payloads = payload # rest" "length rest = length samples"
    using Cons.prems(4) by (cases payloads) auto
  have d: "dyn_get_octet_seq (wr_dyn (st_write env k)) ''payload.data'' sample = Some payload"
    using Cons.prems(5) ps by force
  obtain q' c1 where w: "RTI_MQTT_Publication_write (st_write_client env k) (st_write env k) q sample c =
        Some (rc_of (acknowledged env q k payload), q', c1)"
      "c_calls c1 = c_calls c @ [send_call q payload]" "find_pub (p_ptr q') c1 = Some q'"
      "p_ptr q' = p_ptr q" "p_config q' = p_config q" "acknowledged env q k payload \<longrightarrow> pub_writable q'"
    using write_one [OF Cons.prems(1-3) d] by auto
  show ?case
  proof (cases "acknowledged env q k payload")
    case False
    then show ?thesis using w(1,2) Cons.prems(3) ps
      by (intro exI [of _ 0] exI [of _ c1]) (simp add: rc_of_def)
  next
    case True
    have same: "send_call q' = send_call q" "\<And>i x. acknowledged env q' i x = acknowledged env q i x"
      using w(5) by (auto simp: send_call_def acknowledged_def)
    have we: "writing_env env q'" using Cons.prems(1) w(5) by (simp add: writing_env_def)
    have tl: "\<forall>i < length samples.
        dyn_get_octet_seq (wr_dyn (st_write env (Suc k + i))) ''payload.data'' (samples ! i) = Some (rest ! i)"
    proof (intro allI impI)
      fix i assume "i < length samples"
      then show "dyn_get_octet_seq (wr_dyn (st_write env (Suc k + i))) ''payload.data'' (samples ! i) = Some (rest ! i)"
        using Cons.prems(5) [rule_format, of "Suc i"] ps(1) by simp
    qed
    obtain n c' where n: "write_loop env (p_ptr q') samples (Suc k) c1 = Some (Suc k + n, c')" "n \<le> length samples"
        "\<forall>i < n. acknowledged env q (Suc k + i) (rest ! i)"
        "n < length samples \<longrightarrow> \<not> acknowledged env q (Suc k + n) (rest ! n)"
        "c_calls c' = c_calls c1 @ map (send_call q) (take (Suc n) rest)"
      using Cons.IH [OF we w(6) [rule_format, OF True] w(3) ps(2) tl] unfolding same by blast
    have "write_loop env (p_ptr q) (sample # samples) k c = Some (k + Suc n, c')"
      using w(1,4) n(1) Cons.prems(3) True by (simp add: rc_of_def)
    moreover have "\<forall>i < Suc n. acknowledged env q (k + i) (payloads ! i)"
      using n(3) True ps(1) by (auto simp: nth_Cons less_Suc_eq_0_disj split: nat.splits)
    ultimately show ?thesis using n w(2) ps(1) by (intro exI [of _ "Suc n"] exI [of _ c']) auto
  qed
qed simp



section \<open>Creation and deletion\<close>

text \<open>A reader made from the properties of a configuration subscribes to its topics and listens.\<close>

definition making_env :: "'d stream_env \<Rightarrow> bool" where
  "making_env env \<longleftrightarrow>
     st_heap env \<and> prop_env_ok (st_prop env) \<and> type_support_ok (st_reader_create env) (st_reader_copy env) \<and>
     type_support_ok (st_sub_create env) (st_sub_copy env) \<and> type_support_ok (st_writer_create env) (st_writer_copy env) \<and>
     type_support_ok (st_pub_create env) (st_pub_copy env)"

definition subscribable :: "subscription_config \<Rightarrow> bool" where
  "subscribable cfg \<longleftrightarrow> listable (topic_filters cfg) \<and> RTI_MQTT_QosLevel_is_valid (max_qos cfg)"

lemma reader_properties_parsed:
  assumes "making_env env" "subscribable scfg"
  shows "RTI_RS_MQTT_MessageReaderConfig_parse_from_properties (st_prop env) (st_reader_create env) (st_reader_copy env)
    (st_sub_create env) (st_sub_copy env) (reader_properties scfg) None = (DDS_RETCODE_OK, Some \<lparr>mr_sub = scfg\<rparr>, [])"
  using reader_config_parsed [of "st_prop env" "st_reader_create env" "st_reader_copy env" "st_sub_create env"
      "st_sub_copy env" "\<lparr>mr_sub = scfg\<rparr>" None] assms
  by (simp add: making_env_def subscribable_def)

lemma listable_not_Nil: "listable xs \<Longrightarrow> xs \<noteq> []"
  by (simp add: listable_def)


lemma find_append_None: "find P xs = None \<Longrightarrow> find P (xs @ ys) = find P ys"
  by (induction xs) (auto split: if_splits)

lemma reader_new_succeeds:
  fixes c :: "'d client"
  assumes "making_env env" "subscribable scfg" "serving_env (st_client env)"
    and "RTI_MQTT_Subscription_new (st_sub env) scfg = Some (DDS_RETCODE_OK, Some sub)"
    and "find_sub (se_ptr (st_sub env)) c = None"
  obtains r c1 s req where
    "RTI_RS_MQTT_MessageReader_new env listener (reader_properties scfg) (Some c) = Some (DDS_RETCODE_OK, Some r, Some c1)"
    "r_sub r = Some (se_ptr (st_sub env))" "r_listener r = listener" "r_config r = Some \<lparr>mr_sub = scfg\<rparr>"
    "c_subscriptions c1 = c_subscriptions c @ [s]" "s_ptr s = se_ptr (st_sub env)" "s_config s = scfg"
    "s_data_avail_listener s" "s_queue s = s_queue sub" "s_params s = params_for scfg"
    "s_req_unsub s = Some req" "\<not> req_triggered req"
    "c_calls c1 = c_calls c @ [MQTTAsync_subscribeMany (the (sub_requests (params_for scfg)))]"
proof -
  let ?p = "se_ptr (st_sub env)"
  have fresh: "?p \<notin> s_ptr ` set (c_subscriptions c)" using assms(5) by (simp add: find_sub_facts)
  have cfg: "RTI_MQTT_QosLevel_is_valid (max_qos scfg)" "topic_filters scfg \<noteq> []"
    using assms(2) by (simp_all add: subscribable_def listable_not_Nil)
  obtain c1 s req where s: "RTI_MQTT_Client_subscribe (st_client env) (st_sub env) scfg c = Some (DDS_RETCODE_OK, Some ?p, c1)"
      "c_calls c1 = c_calls c @ [MQTTAsync_subscribeMany (the (sub_requests (params_for scfg)))]"
      "c_subscriptions c1 = c_subscriptions c @ [s]" "s_ptr s = ?p" "s_config s = scfg"
      "s_params s = params_for scfg" "s_queue s = s_queue sub" "s_req_unsub s = Some req" "\<not> req_triggered req"
    using subscribe_succeeds [OF assms(3,4) fresh cfg] by blast
  let ?s1 = "s\<lparr>s_data_avail_listener := True\<rparr>"
  have "find_sub ?p c1 = Some s"
    using s(3,4) assms(5) by (simp add: find_sub_def find_append_None)
  then have new: "RTI_RS_MQTT_MessageReader_new env listener (reader_properties scfg) (Some c) =
      Some (DDS_RETCODE_OK, Some \<lparr>r_config = Some \<lparr>mr_sub = scfg\<rparr>, r_listener = listener, r_sub = Some ?p,
        r_info_seq = seq_empty, r_info_ptr_seq = seq_empty, r_notified = 0\<rparr>, Some (put_sub ?s1 c1))"
    using assms(1) s(1) reader_properties_parsed [OF assms(1,2)]
    by (simp add: RTI_RS_MQTT_MessageReader_new_def RTI_RS_MQTT_MessageReader_new_internal_def making_env_def Let_def
        RTI_MQTT_Subscription_set_data_available_listener_def)
  show thesis
    by (rule that [OF new, of ?s1 req]) (use s fresh in \<open>auto simp: put_sub_eq\<close>)
qed

lemma reader_delete_succeeds:
  assumes "serving_env (st_client env)" "r_sub r = Some (s_ptr s)" "c_subscriptions c1 = subs @ [s]"
    and "distinct (map s_ptr (subs @ [s]))" "s_req_unsub s = Some req" "\<not> req_triggered req" "s_params s \<noteq> []"
    and "RTI_MQTT_Subscription_finalize (st_queue env) s \<noteq> None"
  obtains c2 where "RTI_RS_MQTT_MessageReader_delete env r (Some c1) = Some (Some c2)"
    "c_subscriptions c2 = subs" "c_params c2 = concat (map s_params subs)"
    "c_calls c2 = c_calls c1 @ [MQTTAsync_unsubscribeMany (map sp_topic (s_params s))]"
proof -
  have d1: "distinct (map s_ptr (c_subscriptions c1))" using assms(3,4) by simp
  have ue: "unsub_env (st_client env)" "params_ok (st_client env)"
    using assms(1) by (simp_all add: serving_env_def unsub_env_def quiet_env_def quiet_def)
  have nin: "s_ptr s \<notin> s_ptr ` set subs" using assms(4) by auto
  then have "find (\<lambda>x. s_ptr x = s_ptr s) subs = None" unfolding find_None_iff by (metis imageI)
  then have f: "find_sub (s_ptr s) c1 = Some s" by (simp add: find_sub_def assms(3) find_append_None)
  obtain rc c2 where u: "RTI_MQTT_Client_unsubscribe (st_client env) (st_queue env) s c1 = Some (rc, c2)"
    using unsubscribe_finishes [OF ue(1) assms(5) d1 assms(8)] by blast
  note o = unsubscribe_outcome [OF ue(2) d1 u]
  have "filter (\<lambda>x. s_ptr x \<noteq> s_ptr s) subs = subs" using nin by (auto intro!: filter_True simp: image_iff)
  with o u f assms(2,3) unsubscribe_calls [OF u assms(1,5,6,7)] show thesis
    by (intro that [of c2]) (auto simp: RTI_RS_MQTT_MessageReader_delete_def)
qed


section \<open>Examples\<close>

definition example_stream_env :: "std_sample stream_env" where
  "example_stream_env =
     \<lparr>st_heap = True, st_prop = example_prop_env,
      st_reader_create = (\<lambda>_. Some RTI_RS_MQTT_MessageReaderConfig_DEFAULT), st_reader_copy = std_copy,
      st_sub_create = (\<lambda>_. Some RTI_MQTT_SubscriptionConfig_DEFAULT), st_sub_copy = std_copy,
      st_writer_create = (\<lambda>_. Some RTI_RS_MQTT_MessageWriterConfig_DEFAULT), st_writer_copy = std_copy,
      st_pub_create = (\<lambda>_. Some RTI_MQTT_PublicationConfig_DEFAULT), st_pub_copy = std_copy,
      st_client = example_env, st_sub = example_se, st_pub = std_pub_env, st_queue = std_env,
      st_infos = std_seq False, st_info_ptrs = std_seq None, st_discontiguous = True, st_retry = (\<lambda>_. std_env),
      st_write_client = (\<lambda>_. example_env), st_write = (\<lambda>_. example_we)\<rparr>"

definition example_reader :: reader where
  "example_reader = \<lparr>r_config = None, r_listener = True, r_sub = Some 1, r_info_seq = seq_empty,
     r_info_ptr_seq = seq_empty, r_notified = 0\<rparr>"

definition example_reading :: "std_sample client" where
  "example_reading = (initial_client example_cfg)\<lparr>c_subscriptions := [example_sub\<lparr>s_queue := one3\<rparr>]\<rparr>"

theorem stream_reader_cycle_witness:
  "\<exists>r1 c1 c2.
    RTI_RS_MQTT_MessageReader_read example_stream_env False example_reader example_reading =
      Some (\<lparr>out_samples = Some [Some Map.empty], out_infos = Some [Some 0], out_count = 1\<rparr>, r1, c1) \<and>
    RTI_RS_MQTT_MessageReader_return_loan example_stream_env [Some Map.empty] 1 r1 c1 = Some c2"
proof -
  have "reading_env example_stream_env" by (simp add: reading_env_def example_stream_env_def)
  from stream_reader_cycle [OF this, of example_reader 1 example_reading "example_sub\<lparr>s_queue := one3\<rparr>" "[Map.empty]"]
  show ?thesis by (auto simp: example_reader_def example_reading_def example_sub_def find_sub_def infos_owned_def)
qed

definition example_writing :: "std_sample client" where
  "example_writing = (initial_client example_cfg)\<lparr>c_publications := [example_wpub]\<rparr>"



end
