(* ===== verification/BrokerConnection.thy ===== *)
theory BrokerConnection
  imports Streams PointerSeq
begin

text \<open>
  The connections of the MQTT adapter and its plugin object,
  \<^verbatim>\<open>plugins/adapters/mqtt/srcC/adapter/BrokerConnection.c\<close> and \<^verbatim>\<open>Plugin.c\<close>.  A connection owns a client and the
  lists of its readers and writers, the plugin the list of connections.  The lists hold addresses;
  the objects are in a store, from which an object is removed when it is freed.
\<close>

section \<open>State\<close>

text \<open>
  The object comes from \<^verbatim>\<open>malloc\<close>; \<open>cn_readers_init\<close> and \<open>cn_writers_init\<close> tell whether the two sequences
  in it have been initialised.
\<close>

record 'd connection =
  cn_config :: "broker_connection_config option"
  cn_client :: "'d client option"
  cn_readers :: "nat dds_seq"
  cn_writers :: "nat dds_seq"
  cn_readers_init :: bool
  cn_writers_init :: bool
  cn_listener_in :: bool
  cn_listener_out :: bool
  cn_disc_in :: "nat option"
  cn_disc_out :: "nat option"
  cn_reader_store :: "nat \<Rightarrow> reader option"
  cn_writer_store :: "nat \<Rightarrow> writer option"

text \<open>
  The environment.  \<open>bn_finalize_garbage\<close> is whether DDS can finalise a sequence that was never
  initialised.  The type names are those of the generated type support.
\<close>

record 'd conn_env =
  bn_heap :: bool
  bn_prop :: prop_env
  bn_broker_create :: "bool \<Rightarrow> broker_connection_config option"
  bn_broker_copy :: "broker_connection_config \<Rightarrow> broker_connection_config \<Rightarrow> broker_connection_config option"
  bn_client_create :: "bool \<Rightarrow> client_config option"
  bn_client_copy :: "client_config \<Rightarrow> client_config \<Rightarrow> client_config option"
  bn_disc_in :: "'d stream_env"
  bn_disc_in_ptr :: nat
  bn_disc_out :: "'d stream_env"
  bn_disc_out_ptr :: nat
  bn_typecode :: bool
  bn_init :: init_env
  bn_client :: client_env
  bn_turns :: "nat \<Rightarrow> client_env"
  bn_queues :: "nat \<Rightarrow> 'd queue_env"
  bn_writers_initialize :: bool
  bn_readers_initialize :: bool
  bn_finalize_garbage :: bool
  bn_readers :: "nat seq_api"
  bn_writers :: "nat seq_api"
  bn_message_type :: string
  bn_keyed_type :: string

section \<open>Creation and deletion\<close>

definition delete_discovery ::
    "'d stream_env \<Rightarrow> nat option \<Rightarrow> 'd connection \<Rightarrow> 'd connection option" where
  "delete_discovery env reader self =
     (case reader of
        None \<Rightarrow> Some self
      | Some p \<Rightarrow>
          case cn_reader_store self p of
            None \<Rightarrow> None
          | Some r \<Rightarrow>
              map_option (\<lambda>client. self\<lparr>cn_client := client, cn_reader_store := (cn_reader_store self)(p := None)\<rparr>)
                (RTI_RS_MQTT_MessageReader_delete env r (cn_client self)))"

text \<open>
  The result is the list of calls its client has made to Paho in the end.  The readers and writers
  of the connection are not deleted; their subscriptions and publications are, with the client.
\<close>

definition RTI_RS_MQTT_BrokerConnection_delete :: "'d conn_env \<Rightarrow> 'd connection \<Rightarrow> paho_call list option" where
  "RTI_RS_MQTT_BrokerConnection_delete env self =
     (case (case cn_client self of
              None \<Rightarrow> Some self
            | Some c \<Rightarrow> map_option (\<lambda>(_, c1). self\<lparr>cn_client := Some c1\<rparr>) (RTI_MQTT_Client_disconnect (bn_client env) c)) of
        None \<Rightarrow> None
      | Some self1 \<Rightarrow>
          case delete_discovery (bn_disc_in env) (cn_disc_in self1) self1 of
            None \<Rightarrow> None
          | Some self2 \<Rightarrow>
              case delete_discovery (bn_disc_out env) (cn_disc_out self2) self2 of
                None \<Rightarrow> None
              | Some self3 \<Rightarrow>
                  case RTI_MQTT_Client_delete (bn_turns env) (bn_queues env) (cn_client self3) of
                    None \<Rightarrow> None
                  | Some calls \<Rightarrow>
                      if (cn_readers_init self3 \<and> cn_writers_init self3) \<or> bn_finalize_garbage env
                      then Some calls else None)"

definition initial_connection :: "bool \<Rightarrow> bool \<Rightarrow> 'd connection" where
  "initial_connection listener_in listener_out =
     \<lparr>cn_config = None, cn_client = None, cn_readers = seq_empty, cn_writers = seq_empty, cn_readers_init = False,
      cn_writers_init = False, cn_listener_in = listener_in, cn_listener_out = listener_out, cn_disc_in = None,
      cn_disc_out = None, cn_reader_store = Map.empty, cn_writer_store = Map.empty\<rparr>"

definition RTI_RS_MQTT_BrokerConnection_new ::
    "'d conn_env \<Rightarrow> bool \<Rightarrow> bool \<Rightarrow> properties \<Rightarrow> (retcode \<times> 'd connection option \<times> paho_call list) option" where
  "RTI_RS_MQTT_BrokerConnection_new env listener_in listener_out properties =
     (if \<not> bn_heap env then Some (DDS_RETCODE_ERROR, None, [])
      else
        let conn = initial_connection listener_in listener_out;
            fail = (\<lambda>conn. map_option (\<lambda>calls. (DDS_RETCODE_ERROR, None, calls))
                      (RTI_RS_MQTT_BrokerConnection_delete env conn)) in
        case RTI_RS_MQTT_BrokerConnectionConfig_parse_from_properties (bn_prop env) (bn_broker_create env)
               (bn_broker_copy env) (bn_client_create env) (bn_client_copy env) properties None of
          (rc, config, _) \<Rightarrow>
            let conn1 = conn\<lparr>cn_config := config\<rparr> in
            if rc \<noteq> DDS_RETCODE_OK then fail conn1
            else
              case RTI_RS_MQTT_MessageReader_new_discovery (bn_disc_in env) listener_in properties (cn_client conn1) of
                None \<Rightarrow> None
              | Some (rc, reader, _) \<Rightarrow>
                  if rc \<noteq> DDS_RETCODE_OK then fail conn1
                  else
                    let conn2 = conn1\<lparr>cn_disc_in := Some (bn_disc_in_ptr env),
                                      cn_reader_store := (cn_reader_store conn1)(bn_disc_in_ptr env := reader)\<rparr> in
                    case RTI_RS_MQTT_MessageReader_new_discovery (bn_disc_out env) listener_out properties (cn_client conn2) of
                      None \<Rightarrow> None
                    | Some (rc, reader, _) \<Rightarrow>
                        if rc \<noteq> DDS_RETCODE_OK then fail conn2
                        else
                          let conn3 = conn2\<lparr>cn_disc_out := Some (bn_disc_out_ptr env),
                                            cn_reader_store := (cn_reader_store conn2)(bn_disc_out_ptr env := reader)\<rparr> in
                          if \<not> bn_typecode env then fail conn3
                          else
                            case config of
                              None \<Rightarrow> None
                            | Some cfg \<Rightarrow>
                                case RTI_MQTT_Client_new (bn_init env) (bn_client env) (bn_queues env) (bc_client cfg) of
                                  None \<Rightarrow> None
                                | Some (rc, client) \<Rightarrow>
                                    let conn4 = conn3\<lparr>cn_client := client\<rparr> in
                                    if rc \<noteq> DDS_RETCODE_OK then fail conn4
                                    else if \<not> bn_writers_initialize env then fail conn4
                                    else
                                      let conn5 = conn4\<lparr>cn_writers_init := True\<rparr> in
                                      if \<not> bn_readers_initialize env then fail conn5
                                      else
                                        let conn6 = conn5\<lparr>cn_readers_init := True\<rparr> in
                                        case client of
                                          None \<Rightarrow> None
                                        | Some c \<Rightarrow>
                                            case RTI_MQTT_Client_connect (bn_client env) c of
                                              None \<Rightarrow> None
                                            | Some (rc, c1) \<Rightarrow>
                                                let conn7 = conn6\<lparr>cn_client := Some c1\<rparr> in
                                                if rc \<noteq> DDS_RETCODE_OK then fail conn7
                                                else Some (DDS_RETCODE_OK, Some conn7, []))"

section \<open>Streams\<close>

record stream_info =
  si_dynamic_type :: bool
  si_type_name :: string

definition RTI_RS_MQTT_BrokerConnection_validate_stream :: "'d conn_env \<Rightarrow> stream_info \<Rightarrow> retcode" where
  "RTI_RS_MQTT_BrokerConnection_validate_stream env stream_info =
     (if \<not> si_dynamic_type stream_info \<or>
         (si_type_name stream_info \<noteq> bn_message_type env \<and> si_type_name stream_info \<noteq> bn_keyed_type env)
      then DDS_RETCODE_ERROR else DDS_RETCODE_OK)"

text \<open>
  The new object has address \<open>k\<close>.  After the assignment to the list nothing can fail, so the part of
  the cleanup that would take the pointer out of the list again is never reached.
\<close>

definition RTI_RS_MQTT_BrokerConnection_create_stream_reader ::
    "'d conn_env \<Rightarrow> 'd stream_env \<Rightarrow> nat \<Rightarrow> stream_info \<Rightarrow> properties \<Rightarrow> bool \<Rightarrow> 'd connection
     \<Rightarrow> (nat option \<times> 'd connection) option" where
  "RTI_RS_MQTT_BrokerConnection_create_stream_reader env senv k stream_info properties listener self =
     (if RTI_RS_MQTT_BrokerConnection_validate_stream env stream_info \<noteq> DDS_RETCODE_OK then Some (None, self)
      else
        case RTI_RS_MQTT_MessageReader_new senv listener properties (cn_client self) of
          None \<Rightarrow> None
        | Some (rc, reader, client) \<Rightarrow>
            let self1 = self\<lparr>cn_client := client\<rparr> in
            if rc \<noteq> DDS_RETCODE_OK then Some (None, self1)
            else
              case reader of
                None \<Rightarrow> None
              | Some r \<Rightarrow>
                  case add_pointer (bn_readers env) k (cn_readers self1) of
                    None \<Rightarrow>
                      map_option (\<lambda>client1. (None, self1\<lparr>cn_client := client1\<rparr>))
                        (RTI_RS_MQTT_MessageReader_delete senv r (cn_client self1))
                  | Some readers \<Rightarrow>
                      Some (Some k, self1\<lparr>cn_readers := readers,
                                          cn_reader_store := (cn_reader_store self1)(k \<mapsto> r)\<rparr>))"

definition RTI_RS_MQTT_BrokerConnection_delete_stream_reader ::
    "'d conn_env \<Rightarrow> 'd stream_env \<Rightarrow> nat \<Rightarrow> 'd connection \<Rightarrow> 'd connection option" where
  "RTI_RS_MQTT_BrokerConnection_delete_stream_reader env senv k self =
     (case find_index (\<lambda>x. x = k) (seq_buf (cn_readers self)) of
        None \<Rightarrow> Some self
      | Some rm_i \<Rightarrow>
          case cn_reader_store self k of
            None \<Rightarrow> None
          | Some r \<Rightarrow>
              case RTI_RS_MQTT_MessageReader_delete senv r (cn_client self) of
                None \<Rightarrow> None
              | Some client \<Rightarrow>
                  Some (self\<lparr>cn_client := client, cn_reader_store := (cn_reader_store self)(k := None),
                             cn_readers := drop_pointer (bn_readers env) rm_i (cn_readers self)\<rparr>))"

definition RTI_RS_MQTT_BrokerConnection_create_stream_writer ::
    "'d conn_env \<Rightarrow> 'd stream_env \<Rightarrow> nat \<Rightarrow> stream_info \<Rightarrow> properties \<Rightarrow> 'd connection
     \<Rightarrow> (nat option \<times> 'd connection) option" where
  "RTI_RS_MQTT_BrokerConnection_create_stream_writer env senv k stream_info properties self =
     (if RTI_RS_MQTT_BrokerConnection_validate_stream env stream_info \<noteq> DDS_RETCODE_OK then Some (None, self)
      else
        case RTI_RS_MQTT_MessageWriter_new senv properties (cn_client self) of
          None \<Rightarrow> None
        | Some (rc, writer, client) \<Rightarrow>
            let self1 = self\<lparr>cn_client := client\<rparr> in
            if rc \<noteq> DDS_RETCODE_OK then Some (None, self1)
            else
              case writer of
                None \<Rightarrow> None
              | Some w \<Rightarrow>
                  case add_pointer (bn_writers env) k (cn_writers self1) of
                    None \<Rightarrow>
                      map_option (\<lambda>client1. (None, self1\<lparr>cn_client := client1\<rparr>))
                        (RTI_RS_MQTT_MessageWriter_delete senv w (cn_client self1))
                  | Some writers \<Rightarrow>
                      Some (Some k, self1\<lparr>cn_writers := writers,
                                          cn_writer_store := (cn_writer_store self1)(k \<mapsto> w)\<rparr>))"

definition RTI_RS_MQTT_BrokerConnection_delete_stream_writer ::
    "'d conn_env \<Rightarrow> 'd stream_env \<Rightarrow> nat \<Rightarrow> 'd connection \<Rightarrow> 'd connection option" where
  "RTI_RS_MQTT_BrokerConnection_delete_stream_writer env senv k self =
     (case find_index (\<lambda>x. x = k) (seq_buf (cn_writers self)) of
        None \<Rightarrow> Some self
      | Some rm_i \<Rightarrow>
          case cn_writer_store self k of
            None \<Rightarrow> None
          | Some w \<Rightarrow>
              case RTI_RS_MQTT_MessageWriter_delete senv w (cn_client self) of
                None \<Rightarrow> None
              | Some client \<Rightarrow>
                  Some (self\<lparr>cn_client := client, cn_writer_store := (cn_writer_store self)(k := None),
                             cn_writers := drop_pointer (bn_writers env) rm_i (cn_writers self)\<rparr>))"

definition RTI_RS_MQTT_MessageReader_is_discovery :: "nat \<Rightarrow> 'd connection \<Rightarrow> bool" where
  "RTI_RS_MQTT_MessageReader_is_discovery k conn \<longleftrightarrow> cn_disc_in conn = Some k \<or> cn_disc_out conn = Some k"

definition RTI_RS_MQTT_BrokerConnection_get_input_discovery_reader :: "'d connection \<Rightarrow> nat option" where
  "RTI_RS_MQTT_BrokerConnection_get_input_discovery_reader self = cn_disc_in self"

definition RTI_RS_MQTT_BrokerConnection_get_output_discovery_reader :: "'d connection \<Rightarrow> nat option" where
  "RTI_RS_MQTT_BrokerConnection_get_output_discovery_reader self = cn_disc_out self"

definition RTI_RS_MQTT_BrokerConnection_to_string :: "'d connection \<Rightarrow> string option" where
  "RTI_RS_MQTT_BrokerConnection_to_string self = map_option (\<lambda>c. cfg_id (c_config c)) (cn_client self)"

text \<open>A session is the connection itself, once its client is connected.\<close>

definition RTI_RS_MQTT_BrokerConnection_create_session ::
    "'d conn_env \<Rightarrow> 'd connection \<Rightarrow> (bool \<times> 'd connection) option" where
  "RTI_RS_MQTT_BrokerConnection_create_session env self =
     (case cn_client self of
        None \<Rightarrow> None
      | Some c \<Rightarrow>
          map_option (\<lambda>(rc, c1). (rc = DDS_RETCODE_OK, self\<lparr>cn_client := Some c1\<rparr>))
            (RTI_MQTT_Client_connect (bn_client env) c))"

section \<open>The plugin\<close>

text \<open>\<open>pg_done\<close> records, for each connection that was deleted, the calls its client had made.\<close>

record 'd adapter_plugin =
  pg_connections :: "nat dds_seq"
  pg_store :: "nat \<Rightarrow> 'd connection option"
  pg_done :: "(nat \<times> paho_call list) list"

record plugin_env =
  pn_heap :: bool
  pn_connections_initialize :: bool
  pn_connections_finalize :: bool
  pn_connections :: "nat seq_api"

definition RTI_RS_MQTT_AdapterPlugin_new :: "plugin_env \<Rightarrow> retcode \<times> 'd adapter_plugin option" where
  "RTI_RS_MQTT_AdapterPlugin_new env =
     (if \<not> pn_heap env \<or> \<not> pn_connections_initialize env then (DDS_RETCODE_ERROR, None)
      else (DDS_RETCODE_OK, Some \<lparr>pg_connections = seq_empty, pg_store = Map.empty, pg_done = []\<rparr>))"

definition RTI_RS_MQTT_AdapterPlugin_create :: "plugin_env \<Rightarrow> 'd adapter_plugin option" where
  "RTI_RS_MQTT_AdapterPlugin_create env =
     (case RTI_RS_MQTT_AdapterPlugin_new env of (rc, plugin) \<Rightarrow> if rc \<noteq> DDS_RETCODE_OK then None else plugin)"

definition RTI_RS_MQTT_AdapterPlugin_create_connection ::
    "plugin_env \<Rightarrow> 'd conn_env \<Rightarrow> nat \<Rightarrow> bool \<Rightarrow> bool \<Rightarrow> properties \<Rightarrow> 'd adapter_plugin
     \<Rightarrow> (nat option \<times> 'd adapter_plugin) option" where
  "RTI_RS_MQTT_AdapterPlugin_create_connection penv env k listener_in listener_out properties self =
     (case RTI_RS_MQTT_BrokerConnection_new env listener_in listener_out properties of
        None \<Rightarrow> None
      | Some (rc, conn, calls) \<Rightarrow>
          if rc \<noteq> DDS_RETCODE_OK then Some (None, self)
          else
            case conn of
              None \<Rightarrow> None
            | Some cn \<Rightarrow>
                case add_pointer (pn_connections penv) k (pg_connections self) of
                  None \<Rightarrow>
                    map_option (\<lambda>calls. (None, self\<lparr>pg_done := pg_done self @ [(k, calls)]\<rparr>))
                      (RTI_RS_MQTT_BrokerConnection_delete env cn)
                | Some connections \<Rightarrow>
                    Some (Some k, self\<lparr>pg_connections := connections, pg_store := (pg_store self)(k \<mapsto> cn)\<rparr>))"

definition RTI_RS_MQTT_AdapterPlugin_delete_connection ::
    "plugin_env \<Rightarrow> 'd conn_env \<Rightarrow> nat \<Rightarrow> 'd adapter_plugin \<Rightarrow> 'd adapter_plugin option" where
  "RTI_RS_MQTT_AdapterPlugin_delete_connection penv env k self =
     (case find_index (\<lambda>x. x = k) (seq_buf (pg_connections self)) of
        None \<Rightarrow> Some self
      | Some rm_i \<Rightarrow>
          case pg_store self k of
            None \<Rightarrow> None
          | Some cn \<Rightarrow>
              case RTI_RS_MQTT_BrokerConnection_delete env cn of
                None \<Rightarrow> None
              | Some calls \<Rightarrow>
                  Some (self\<lparr>pg_store := (pg_store self)(k := None), pg_done := pg_done self @ [(k, calls)],
                             pg_connections := drop_pointer (pn_connections penv) rm_i (pg_connections self)\<rparr>))"

text \<open>
  The loop of \<^verbatim>\<open>RTI_RS_MQTT_AdapterPlugin_delete\<close> deletes the first connection until there is none; the
  environment of a turn is that of the connection.
\<close>

partial_function (option) delete_connections ::
    "plugin_env \<Rightarrow> (nat \<Rightarrow> 'd conn_env) \<Rightarrow> 'd adapter_plugin \<Rightarrow> 'd adapter_plugin option" where
  "delete_connections penv envs self =
     (case seq_buf (pg_connections self) of
        [] \<Rightarrow> Some self
      | k # _ \<Rightarrow>
          case RTI_RS_MQTT_AdapterPlugin_delete_connection penv (envs k) k self of
            None \<Rightarrow> None
          | Some self1 \<Rightarrow> delete_connections penv envs self1)"

text \<open>A plugin whose list cannot be finalised is not freed.\<close>

definition RTI_RS_MQTT_AdapterPlugin_delete ::
    "plugin_env \<Rightarrow> (nat \<Rightarrow> 'd conn_env) \<Rightarrow> 'd adapter_plugin \<Rightarrow> (bool \<times> 'd adapter_plugin) option" where
  "RTI_RS_MQTT_AdapterPlugin_delete penv envs self =
     map_option (\<lambda>self1. (pn_connections_finalize penv, self1)) (delete_connections penv envs self)"

section \<open>Deletion of a connection\<close>

text \<open>
  A connection as it is from its creation on: its client keeps its invariant and has a Paho handle, its
  requests are not triggered, and the discovery readers are two objects without a subscription.
\<close>

definition conn_wf :: "'d connection \<Rightarrow> bool" where
  "conn_wf cn \<longleftrightarrow>
     cn_readers_init cn \<and> cn_writers_init cn \<and>
     (\<exists>c. cn_client cn = Some c \<and> client_inv c \<and> untriggered c \<and> c_client c) \<and>
     (\<exists>a b ra rb. cn_disc_in cn = Some a \<and> cn_disc_out cn = Some b \<and> a \<noteq> b \<and>
        cn_reader_store cn a = Some ra \<and> r_sub ra = None \<and> cn_reader_store cn b = Some rb \<and> r_sub rb = None)"

text \<open>The environment of a deletion: no reply is late, and the sequences can be shortened and finalised.\<close>

definition closing_env :: "'d conn_env \<Rightarrow> bool" where
  "closing_env env \<longleftrightarrow>
     quiet_env (bn_client env) \<and> (\<forall>k. unsub_env (bn_turns env k)) \<and>
     ce_seq_finalize (bn_turns env 0) \<and> ce_mutex_finalize (bn_turns env 0)"

definition queues_close :: "'d conn_env \<Rightarrow> 'd connection \<Rightarrow> bool" where
  "queues_close env cn \<longleftrightarrow>
     (\<forall>c. cn_client cn = Some c \<longrightarrow>
        (\<forall>s \<in> set (c_subscriptions c). RTI_MQTT_Subscription_finalize (bn_queues env (s_ptr s)) s \<noteq> None))"

lemma disconnect_returns:
  assumes "client_inv c" "quiet_env env" "untriggered c"
  obtains rc c' where "RTI_MQTT_Client_disconnect env c = Some (rc, c')" "link_frame c c'"
proof -
  have "\<exists>rc c'. RTI_MQTT_Client_disconnect env c = Some (rc, c')"
    using disconnect_outcome [OF assms] by (cases "c_state c") (auto simp: disconnect_eq)
  then obtain rc c' where r: "RTI_MQTT_Client_disconnect env c = Some (rc, c')" by blast
  with disconnect_op.f_link that show thesis by blast
qed

lemma connection_delete_ends:
  assumes "conn_wf cn" "closing_env env" "queues_close env cn"
  obtains calls where "RTI_RS_MQTT_BrokerConnection_delete env cn = Some calls" "last calls = MQTTAsync_destroy"
proof -
  obtain c where c: "cn_client cn = Some c" "client_inv c" "untriggered c" "c_client c"
    using assms(1) by (auto simp: conn_wf_def)
  have init: "cn_readers_init cn" "cn_writers_init cn" using assms(1) by (simp_all add: conn_wf_def)
  obtain a b ra rb where d: "cn_disc_in cn = Some a" "cn_disc_out cn = Some b" "a \<noteq> b"
      "cn_reader_store cn a = Some ra" "r_sub ra = None" "cn_reader_store cn b = Some rb" "r_sub rb = None"
    using assms(1) by (auto simp: conn_wf_def)
  have q: "quiet_env (bn_client env)" "\<forall>k. unsub_env (bn_turns env k)" "ce_seq_finalize (bn_turns env 0)"
      "ce_mutex_finalize (bn_turns env 0)" using assms(2) by (simp_all add: closing_env_def)
  obtain rc c1 where c1: "RTI_MQTT_Client_disconnect (bn_client env) c = Some (rc, c1)" "link_frame c c1"
    by (rule disconnect_returns [OF c(2) q(1) c(3)])
  have keep: "c_subscriptions c1 = c_subscriptions c" "c_client c1" "client_inv c1"
    using c1(2) c(4) client_inv_link [OF c(2) c1(2)] by (simp_all add: link_frame_def)
  have fin: "\<forall>s \<in> set (c_subscriptions c1). RTI_MQTT_Subscription_finalize (bn_queues env (s_ptr s)) s \<noteq> None"
    using assms(3) c(1) keep(1) by (simp add: queues_close_def)
  obtain c2 where c2: "RTI_MQTT_Client_finalize (bn_turns env) (bn_queues env) c1 = Some (DDS_RETCODE_OK, c2)"
      "last (c_calls c2) = MQTTAsync_destroy"
    using finalize_ends [OF keep(3) q(2,3,4) fin] keep(2) by auto
  have "RTI_RS_MQTT_BrokerConnection_delete env cn = Some (c_calls c2)"
    using c(1) c1(1) d init c2(1)
    by (simp add: RTI_RS_MQTT_BrokerConnection_delete_def delete_discovery_def RTI_RS_MQTT_MessageReader_delete_def
        RTI_MQTT_Client_delete_def)
  with c2(2) that show thesis by blast
qed

section \<open>Creation of a connection\<close>

text \<open>A property list without properties of subscriptions gives the default reader.\<close>

lemma default_reader_parsed:
  assumes "type_support_ok create_r copy_r" "type_support_ok create_s copy_s"
    and "properties ''subscription.topics'' = None" "properties ''subscription.max_qos'' = None"
      "properties ''subscription.queue_size'' = None"
  shows "RTI_RS_MQTT_MessageReaderConfig_parse_from_properties env create_r copy_r create_s copy_s properties None =
    (DDS_RETCODE_OK, Some RTI_RS_MQTT_MessageReaderConfig_DEFAULT, [])"
proof -
  have "RTI_MQTT_SubscriptionConfig_parse_from_properties env create_s copy_s properties (Some x) =
      (DDS_RETCODE_OK, Some RTI_MQTT_SubscriptionConfig_DEFAULT, [])" for x
    using assms
    by (simp add: RTI_MQTT_SubscriptionConfig_parse_from_properties_def Config_parse_def
        RTI_MQTT_SubscriptionConfig_default_def subscription_property_steps_def)
  with assms(1) show ?thesis
    by (simp add: RTI_RS_MQTT_MessageReaderConfig_parse_from_properties_def Outer_parse_def
        RTI_RS_MQTT_MessageReaderConfig_default_def RTI_RS_MQTT_MessageReaderConfig_DEFAULT_def)
qed

lemma discovery_reader_made:
  assumes "making_env env"
  obtains r where "RTI_RS_MQTT_MessageReader_new_discovery env listener (client_properties cfg) client =
      Some (DDS_RETCODE_OK, Some r, client)" "r_sub r = None"
proof -
  have p: "client_properties cfg ''subscription.topics'' = None" "client_properties cfg ''subscription.max_qos'' = None"
    "client_properties cfg ''subscription.queue_size'' = None"
    by (simp_all add: client_properties_def split: option.split)
  have t: "type_support_ok (st_reader_create env) (st_reader_copy env)" "type_support_ok (st_sub_create env) (st_sub_copy env)"
    "st_heap env" using assms by (simp_all add: making_env_def)
  show thesis
    using that default_reader_parsed [OF t(1,2) p] t(3)
    by (simp add: RTI_RS_MQTT_MessageReader_new_discovery_def RTI_RS_MQTT_MessageReader_new_internal_def Let_def)
qed


text \<open>An environment in which everything but the broker is at hand.\<close>

definition opening_env :: "'d conn_env \<Rightarrow> bool" where
  "opening_env env \<longleftrightarrow>
     bn_heap env \<and> prop_env_ok (bn_prop env) \<and> type_support_ok (bn_broker_create env) (bn_broker_copy env) \<and>
     type_support_ok (bn_client_create env) (bn_client_copy env) \<and> making_env (bn_disc_in env) \<and> making_env (bn_disc_out env) \<and>
     bn_disc_in_ptr env \<noteq> bn_disc_out_ptr env \<and> bn_typecode env \<and> bn_writers_initialize env \<and> bn_readers_initialize env"

text \<open>Creation up to the connection of the client.\<close>

lemma connection_new_connects:
  assumes "opening_env env" "client_writable (bc_client bc)"
    and "RTI_MQTT_Client_new (bn_init env) (bn_client env) (bn_queues env) (bc_client bc) = Some (DDS_RETCODE_OK, Some c0)"
  obtains cn where
    "RTI_RS_MQTT_BrokerConnection_new env listener_in listener_out (client_properties (bc_client bc)) =
      (case RTI_MQTT_Client_connect (bn_client env) c0 of
         None \<Rightarrow> None
       | Some (rc, c1) \<Rightarrow>
           if rc \<noteq> DDS_RETCODE_OK
           then map_option (\<lambda>calls. (DDS_RETCODE_ERROR, None, calls))
                  (RTI_RS_MQTT_BrokerConnection_delete env (cn\<lparr>cn_client := Some c1\<rparr>))
           else Some (DDS_RETCODE_OK, Some (cn\<lparr>cn_client := Some c1\<rparr>), []))"
    "cn_config cn = Some bc" "cn_readers cn = seq_empty" "cn_writers cn = seq_empty" "cn_client cn = Some c0" "conn_wf cn"
proof -
  let ?props = "client_properties (bc_client bc)"
  let ?conn = "(initial_connection listener_in listener_out :: 'a connection)\<lparr>cn_config := Some bc\<rparr>"
  have o: "prop_env_ok (bn_prop env)" "type_support_ok (bn_broker_create env) (bn_broker_copy env)"
    "type_support_ok (bn_client_create env) (bn_client_copy env)" "making_env (bn_disc_in env)" "making_env (bn_disc_out env)"
    "bn_disc_in_ptr env \<noteq> bn_disc_out_ptr env"
    using assms(1) by (simp_all add: opening_env_def)
  obtain ri where ri: "RTI_RS_MQTT_MessageReader_new_discovery (bn_disc_in env) listener_in ?props None =
      Some (DDS_RETCODE_OK, Some ri, None :: 'a client option)" "r_sub ri = None"
    by (rule discovery_reader_made [OF o(4)])
  obtain ro where ro: "RTI_RS_MQTT_MessageReader_new_discovery (bn_disc_out env) listener_out ?props None =
      Some (DDS_RETCODE_OK, Some ro, None :: 'a client option)" "r_sub ro = None"
    by (rule discovery_reader_made [OF o(5)])
  let ?cn = "?conn\<lparr>cn_disc_in := Some (bn_disc_in_ptr env), cn_disc_out := Some (bn_disc_out_ptr env),
      cn_reader_store := [bn_disc_in_ptr env \<mapsto> ri, bn_disc_out_ptr env \<mapsto> ro], cn_client := Some c0,
      cn_writers_init := True, cn_readers_init := True\<rparr>"
  note facts = client_new_facts [OF assms(3)]
  have "untriggered c0" using facts by (auto simp: untriggered_def)
  then have "conn_wf ?cn" using facts ri(2) ro(2) o(6) by (simp add: conn_wf_def)
  moreover have "RTI_RS_MQTT_BrokerConnection_new env listener_in listener_out ?props =
      (case RTI_MQTT_Client_connect (bn_client env) c0 of
         None \<Rightarrow> None
       | Some (rc, c1) \<Rightarrow>
           if rc \<noteq> DDS_RETCODE_OK
           then map_option (\<lambda>calls. (DDS_RETCODE_ERROR, None, calls))
                  (RTI_RS_MQTT_BrokerConnection_delete env (?cn\<lparr>cn_client := Some c1\<rparr>))
           else Some (DDS_RETCODE_OK, Some (?cn\<lparr>cn_client := Some c1\<rparr>), []))"
    using assms(1,3) broker_config_parsed [OF o(1,2,3) assms(2)] ri(1) ro(1)
    by (simp add: RTI_RS_MQTT_BrokerConnection_new_def opening_env_def initial_connection_def Let_def
        split: option.split prod.split)
  ultimately show thesis by (intro that [of ?cn]) (simp_all add: initial_connection_def)
qed

lemma connection_accepted:
  assumes "opening_env env" "client_writable (bc_client bc)" "quiet_env (bn_client env)" "ce_params_copy (bn_client env)"
    and "RTI_MQTT_Client_new (bn_init env) (bn_client env) (bn_queues env) (bc_client bc) = Some (DDS_RETCODE_OK, Some c0)"
    and "connect_accepted (bn_client env) (bc_client bc)"
  obtains cn c1 where
    "RTI_RS_MQTT_BrokerConnection_new env listener_in listener_out (client_properties (bc_client bc)) =
       Some (DDS_RETCODE_OK, Some cn, [])"
    "cn_config cn = Some bc" "cn_readers cn = seq_empty" "cn_writers cn = seq_empty" "conn_wf cn" "cn_client cn = Some c1"
    "c_state c1 = ClientStateKind_CONNECTED" "c_config c1 = bc_client bc" "c_subscriptions c1 = []"
    "c_calls c1 = c_calls c0 @ [MQTTAsync_connect (the (conn_opts_of (bn_client env) (bc_client bc)))]"
proof -
  obtain cn where cn: "RTI_RS_MQTT_BrokerConnection_new env listener_in listener_out (client_properties (bc_client bc)) =
      (case RTI_MQTT_Client_connect (bn_client env) c0 of
         None \<Rightarrow> None
       | Some (rc, c1) \<Rightarrow>
           if rc \<noteq> DDS_RETCODE_OK
           then map_option (\<lambda>calls. (DDS_RETCODE_ERROR, None, calls))
                  (RTI_RS_MQTT_BrokerConnection_delete env (cn\<lparr>cn_client := Some c1\<rparr>))
           else Some (DDS_RETCODE_OK, Some (cn\<lparr>cn_client := Some c1\<rparr>), []))"
    "cn_config cn = Some bc" "cn_readers cn = seq_empty" "cn_writers cn = seq_empty" "conn_wf cn"
    using connection_new_connects [OF assms(1,2,5)] .
  note f = client_new_facts [OF assms(5)]
  then have inv: "client_inv c0" "untriggered c0" "c_state c0 = ClientStateKind_DISCONNECTED" "c_config c0 = bc_client bc"
    "c_subscriptions c0 = []" by (auto simp: untriggered_def)
  have "resubscribe_calls (c_subscriptions c0) = []" using inv(5) by (simp add: resubscribe_calls_def)
  with assms(4) have "submit_accepted (bn_client env) (c_subscriptions c0)" by (simp add: submit_accepted_def)
  with connect_succeeds [OF inv(1) assms(3) inv(2,3)] assms(6) inv(4,5) obtain c1 where
    c1: "RTI_MQTT_Client_connect (bn_client env) c0 = Some (DDS_RETCODE_OK, c1)" "c_state c1 = ClientStateKind_CONNECTED"
      "untriggered c1" "c_calls c1 = c_calls c0 @ [MQTTAsync_connect (the (conn_opts_of (bn_client env) (bc_client bc)))]"
    by (auto simp: resubscribe_calls_def)
  have l: "link_frame c0 c1" using connect_link [OF c1(1)] .
  have "conn_wf (cn\<lparr>cn_client := Some c1\<rparr>)"
    using cn(5) c1(3) client_inv_link [OF inv(1) l] l f by (auto simp: conn_wf_def link_frame_def)
  then show thesis
    by (intro that [of "cn\<lparr>cn_client := Some c1\<rparr>" c1]) (use cn c1 l inv in \<open>simp_all add: link_frame_def frame_def\<close>)
qed

section \<open>Properties\<close>

text \<open>
  Claim C20. A connection made from the properties of a configuration, with enough memory: when the
  broker accepts, the connection is established, without streams, and its client is connected with
  exactly that configuration, after one connection request; when it does not, the creation reports an
  error and nothing is left of the connection, the last call of its client being the destruction of
  the Paho client.
\<close>

theorem connection_from_properties:
  assumes "opening_env env" "client_writable (bc_client bc)" "closing_env env" "ce_params_copy (bn_client env)"
    and "RTI_MQTT_Client_new (bn_init env) (bn_client env) (bn_queues env) (bc_client bc) = Some (DDS_RETCODE_OK, Some c0)"
  shows "(connect_accepted (bn_client env) (bc_client bc) \<longrightarrow>
      (\<exists>cn c1. RTI_RS_MQTT_BrokerConnection_new env listener_in listener_out (client_properties (bc_client bc)) =
          Some (DDS_RETCODE_OK, Some cn, []) \<and>
        cn_config cn = Some bc \<and> seq_buf (cn_readers cn) = [] \<and> seq_buf (cn_writers cn) = [] \<and>
        cn_client cn = Some c1 \<and> c_state c1 = ClientStateKind_CONNECTED \<and> c_config c1 = bc_client bc \<and>
        c_calls c1 = c_calls c0 @ [MQTTAsync_connect (the (conn_opts_of (bn_client env) (bc_client bc)))])) \<and>
    (\<not> connect_accepted (bn_client env) (bc_client bc) \<longrightarrow>
      (\<exists>calls. RTI_RS_MQTT_BrokerConnection_new env listener_in listener_out (client_properties (bc_client bc)) =
          Some (DDS_RETCODE_ERROR, None, calls) \<and> last calls = MQTTAsync_destroy))"
proof -
  obtain cn where cn: "RTI_RS_MQTT_BrokerConnection_new env listener_in listener_out (client_properties (bc_client bc)) =
      (case RTI_MQTT_Client_connect (bn_client env) c0 of
         None \<Rightarrow> None
       | Some (rc, c1) \<Rightarrow>
           if rc \<noteq> DDS_RETCODE_OK
           then map_option (\<lambda>calls. (DDS_RETCODE_ERROR, None, calls))
                  (RTI_RS_MQTT_BrokerConnection_delete env (cn\<lparr>cn_client := Some c1\<rparr>))
           else Some (DDS_RETCODE_OK, Some (cn\<lparr>cn_client := Some c1\<rparr>), []))"
    "cn_config cn = Some bc" "cn_readers cn = seq_empty" "cn_writers cn = seq_empty" "conn_wf cn"
    using connection_new_connects [OF assms(1,2,5)] .
  note f = client_new_facts [OF assms(5)]
  then have inv: "client_inv c0" "untriggered c0" "c_state c0 = ClientStateKind_DISCONNECTED" "c_config c0 = bc_client bc"
    "c_subscriptions c0 = []" by (auto simp: untriggered_def)
  have q: "quiet_env (bn_client env)" using assms(3) by (simp add: closing_env_def)
  show ?thesis
  proof (cases "connect_accepted (bn_client env) (bc_client bc)")
    case True
    obtain cn' c1 where
      a: "RTI_RS_MQTT_BrokerConnection_new env listener_in listener_out (client_properties (bc_client bc)) =
         Some (DDS_RETCODE_OK, Some cn', [])"
        "cn_config cn' = Some bc" "cn_readers cn' = seq_empty" "cn_writers cn' = seq_empty" "cn_client cn' = Some c1"
        "c_state c1 = ClientStateKind_CONNECTED" "c_config c1 = bc_client bc"
        "c_calls c1 = c_calls c0 @ [MQTTAsync_connect (the (conn_opts_of (bn_client env) (bc_client bc)))]"
      by (rule connection_accepted [OF assms(1,2) q assms(4,5) True, of listener_in listener_out]) blast
    from a(3,4) have "seq_buf (cn_readers cn') = []" "seq_buf (cn_writers cn') = []" by (simp_all add: seq_empty_def)
    with True a show ?thesis by blast
  next
    case False
    with connect_rejected [OF inv(1) q inv(2,3)] inv(4) obtain c1 where
      c1: "RTI_MQTT_Client_connect (bn_client env) c0 = Some (DDS_RETCODE_ERROR, c1)" "untriggered c1" by auto
    have l: "link_frame c0 c1" using connect_link [OF c1(1)] .
    have wf: "conn_wf (cn\<lparr>cn_client := Some c1\<rparr>)"
      using cn(5) c1(2) client_inv_link [OF inv(1) l] l f by (auto simp: conn_wf_def link_frame_def)
    have qc: "queues_close env (cn\<lparr>cn_client := Some c1\<rparr>)"
      using l inv(5) by (simp add: queues_close_def link_frame_def)
    from connection_delete_ends [OF wf assms(3) qc] False cn(1) c1(1) show ?thesis by auto
  qed
qed

text \<open>
  When the properties are refused, the cleanup finalises the two sequences of an object that comes
  from \<^verbatim>\<open>malloc\<close> and was never initialised.
\<close>

lemma connection_bad_properties:
  assumes "bn_heap env"
    and "RTI_RS_MQTT_BrokerConnectionConfig_parse_from_properties (bn_prop env) (bn_broker_create env) (bn_broker_copy env)
           (bn_client_create env) (bn_client_copy env) properties None = (rc, config, d)" "rc \<noteq> DDS_RETCODE_OK"
  shows "RTI_RS_MQTT_BrokerConnection_new env listener_in listener_out properties =
    (if bn_finalize_garbage env then Some (DDS_RETCODE_ERROR, None, []) else None)"
  using assms
  by (simp add: RTI_RS_MQTT_BrokerConnection_new_def RTI_RS_MQTT_BrokerConnection_delete_def delete_discovery_def
      initial_connection_def RTI_MQTT_Client_delete_def Let_def)




section \<open>The connections of the plugin\<close>

definition closable :: "'d connection \<Rightarrow> bool" where
  "closable cn \<longleftrightarrow> conn_wf cn \<and> (\<forall>env. closing_env env \<longrightarrow> queues_close env cn)"

definition plugin_ok :: "'d adapter_plugin \<Rightarrow> bool" where
  "plugin_ok p \<longleftrightarrow>
     pointers_ok (pg_connections p) \<and>
     (\<forall>k \<in> set (seq_buf (pg_connections p)). \<exists>cn. pg_store p k = Some cn \<and> closable cn)"

lemma delete_connection_ok:
  assumes "plugin_ok p" "seq_laws (pn_connections penv)" "seq_total (pn_connections penv)" "closing_env env"
    and "length (seq_buf (pg_connections p)) < 2147483648"
  obtains p' where "RTI_RS_MQTT_AdapterPlugin_delete_connection penv env k p = Some p'" "plugin_ok p'"
    "seq_buf (pg_connections p') = filter (\<lambda>x. x \<noteq> k) (seq_buf (pg_connections p))"
    "k \<in> set (seq_buf (pg_connections p)) \<Longrightarrow> \<exists>calls. pg_done p' = pg_done p @ [(k, calls)] \<and> last calls = MQTTAsync_destroy"
    "k \<in> set (seq_buf (pg_connections p)) \<Longrightarrow> pg_store p' k = None"
proof (cases "find_index (\<lambda>x. x = k) (seq_buf (pg_connections p))")
  case None
  then have "k \<notin> set (seq_buf (pg_connections p))" using find_index_None [of "\<lambda>x. x = k"] by auto
  then have "filter (\<lambda>x. x \<noteq> k) (seq_buf (pg_connections p)) = seq_buf (pg_connections p)" by (auto intro: filter_True)
  with None assms(1) \<open>k \<notin> _\<close> show thesis
    by (intro that [of p]) (simp_all add: RTI_RS_MQTT_AdapterPlugin_delete_connection_def)
next
  case (Some i)
  let ?cs = "pg_connections p"
  have "k \<in> set (seq_buf ?cs)" using find_index_Some [OF Some] by auto
  then obtain cn where cn: "pg_store p k = Some cn" "conn_wf cn" "queues_close env cn"
    using assms(1,4) by (auto simp: plugin_ok_def closable_def)
  obtain calls where calls: "RTI_RS_MQTT_BrokerConnection_delete env cn = Some calls" "last calls = MQTTAsync_destroy"
    by (rule connection_delete_ends [OF cn(2) assms(4) cn(3)])
  have "pointers_ok ?cs" using assms(1) by (simp add: plugin_ok_def)
  note d = drop_pointer_ok [OF assms(2,3) this assms(5) Some]
  let ?p = "p\<lparr>pg_store := (pg_store p)(k := None), pg_done := pg_done p @ [(k, calls)],
      pg_connections := drop_pointer (pn_connections penv) i ?cs\<rparr>"
  have "RTI_RS_MQTT_AdapterPlugin_delete_connection penv env k p = Some ?p"
    using Some cn(1) calls(1) by (simp add: RTI_RS_MQTT_AdapterPlugin_delete_connection_def)
  moreover have "plugin_ok ?p" using assms(1) d by (auto simp: plugin_ok_def)
  ultimately show thesis using d calls(2) by (intro that [of ?p]) auto
qed

text \<open>The creation of a connection, and its deletion, as the operations of a registry.\<close>

type_synonym 'd plugin_call = "plugin_env \<times> 'd conn_env \<times> bool \<times> bool \<times> properties"

definition plugin_call_ok :: "'d plugin_call \<Rightarrow> bool" where
  "plugin_call_ok e \<longleftrightarrow>
     (case e of (penv, env, listener_in, listener_out, properties) \<Rightarrow>
        seq_laws (pn_connections penv) \<and> seq_total (pn_connections penv) \<and> closing_env env \<and>
        (\<exists>cn. RTI_RS_MQTT_BrokerConnection_new env listener_in listener_out properties =
           Some (DDS_RETCODE_OK, Some cn, []) \<and> closable cn))"

definition plugin_add :: "'d plugin_call \<Rightarrow> nat \<Rightarrow> 'd adapter_plugin \<Rightarrow> 'd adapter_plugin" where
  "plugin_add e k p =
     (case e of (penv, env, listener_in, listener_out, properties) \<Rightarrow>
        case RTI_RS_MQTT_AdapterPlugin_create_connection penv env k listener_in listener_out properties p of
          None \<Rightarrow> p | Some (_, p') \<Rightarrow> p')"

definition plugin_rem :: "'d plugin_call \<Rightarrow> nat \<Rightarrow> 'd adapter_plugin \<Rightarrow> 'd adapter_plugin" where
  "plugin_rem e k p =
     (case e of (penv, env, _) \<Rightarrow>
        case RTI_RS_MQTT_AdapterPlugin_delete_connection penv env k p of None \<Rightarrow> p | Some p' \<Rightarrow> p')"

lemma create_connection_ok:
  assumes "plugin_call_ok (penv, env, li, lo, props)" "plugin_ok p" "k \<notin> set (seq_buf (pg_connections p))"
    and "length (seq_buf (pg_connections p)) < 2147483647"
  obtains p' where "RTI_RS_MQTT_AdapterPlugin_create_connection penv env k li lo props p = Some (Some k, p')"
    "plugin_ok p'" "seq_buf (pg_connections p') = seq_buf (pg_connections p) @ [k]"
proof -
  obtain cn where cn: "RTI_RS_MQTT_BrokerConnection_new env li lo props = Some (DDS_RETCODE_OK, Some cn, [])" "closable cn"
    using assms(1) by (auto simp: plugin_call_ok_def)
  have a: "seq_laws (pn_connections penv)" "seq_total (pn_connections penv)"
    using assms(1) by (simp_all add: plugin_call_ok_def)
  obtain cs where cs: "add_pointer (pn_connections penv) k (pg_connections p) = Some cs"
      "seq_buf cs = seq_buf (pg_connections p) @ [k]" "length (seq_buf cs) \<le> seq_max cs" "\<not> seq_loaned cs"
    using add_pointer_ok [OF a assms(4)] assms(2) by (auto simp: plugin_ok_def pointers_ok_def)
  let ?p = "p\<lparr>pg_connections := cs, pg_store := (pg_store p)(k \<mapsto> cn)\<rparr>"
  have "RTI_RS_MQTT_AdapterPlugin_create_connection penv env k li lo props p = Some (Some k, ?p)"
    using cn(1) cs(1) by (simp add: RTI_RS_MQTT_AdapterPlugin_create_connection_def)
  moreover have "plugin_ok ?p" using assms(2,3) cs(2-4) cn(2) by (auto simp: plugin_ok_def pointers_ok_def)
  ultimately show thesis using cs(2) by (intro that [of ?p]) simp_all
qed

interpretation connections: registry plugin_call_ok plugin_ok "\<lambda>p. seq_buf (pg_connections p)" 2147483647
  plugin_add plugin_rem
proof
  fix e :: "'a plugin_call" and p :: "'a adapter_plugin" and k
  assume e: "plugin_call_ok e" and p: "plugin_ok p"
  obtain penv env li lo props where t: "e = (penv, env, li, lo, props)" by (cases e)
  { assume a: "k \<notin> set (seq_buf (pg_connections p))" "length (seq_buf (pg_connections p)) < 2147483647"
    obtain p' where "RTI_RS_MQTT_AdapterPlugin_create_connection penv env k li lo props p = Some (Some k, p')"
        "plugin_ok p'" "seq_buf (pg_connections p') = seq_buf (pg_connections p) @ [k]"
      by (rule create_connection_ok [OF _ p a]) (use e t in simp)
    then show "plugin_ok (plugin_add e k p) \<and>
        seq_buf (pg_connections (plugin_add e k p)) = seq_buf (pg_connections p) @ [k]"
      by (simp add: plugin_add_def t) }
  assume "length (seq_buf (pg_connections p)) \<le> 2147483647"
  then have len: "length (seq_buf (pg_connections p)) < 2147483648" by simp
  have c: "seq_laws (pn_connections penv)" "seq_total (pn_connections penv)" "closing_env env"
    using e by (simp_all add: plugin_call_ok_def t)
  obtain p' where "RTI_RS_MQTT_AdapterPlugin_delete_connection penv env k p = Some p'" "plugin_ok p'"
      "seq_buf (pg_connections p') = filter (\<lambda>x. x \<noteq> k) (seq_buf (pg_connections p))"
    by (rule delete_connection_ok [OF p c len, of k]) blast
  then show "plugin_ok (plugin_rem e k p) \<and>
      seq_buf (pg_connections (plugin_rem e k p)) = filter (\<lambda>x. x \<noteq> k) (seq_buf (pg_connections p))"
    by (simp add: plugin_rem_def t)
qed (simp add: plugin_ok_def pointers_ok_def)

lemma delete_connections_all:
  assumes "plugin_ok p" "seq_laws (pn_connections penv)" "seq_total (pn_connections penv)" "\<forall>k. closing_env (envs k)"
    and "length (seq_buf (pg_connections p)) < 2147483648"
  shows "\<exists>p' callss. delete_connections penv envs p = Some p' \<and> seq_buf (pg_connections p') = [] \<and>
    pg_done p' = pg_done p @ zip (seq_buf (pg_connections p)) callss \<and>
    length callss = length (seq_buf (pg_connections p)) \<and> (\<forall>calls \<in> set callss. last calls = MQTTAsync_destroy)"
  using assms(1,5)
proof (induction "seq_buf (pg_connections p)" arbitrary: p)
  case Nil
  then have e: "seq_buf (pg_connections p) = []" by simp
  then have "delete_connections penv envs p = Some p" by (subst delete_connections.simps) simp
  with e show ?case by (intro exI [of _ p] exI [of _ "[]"]) simp
next
  case (Cons k ks)
  have eq: "seq_buf (pg_connections p) = k # ks" using Cons.hyps(2) by simp
  obtain p1 where p1: "RTI_RS_MQTT_AdapterPlugin_delete_connection penv (envs k) k p = Some p1" "plugin_ok p1"
      "seq_buf (pg_connections p1) = filter (\<lambda>x. x \<noteq> k) (seq_buf (pg_connections p))"
      "\<exists>calls. pg_done p1 = pg_done p @ [(k, calls)] \<and> last calls = MQTTAsync_destroy"
    by (rule delete_connection_ok [OF Cons.prems(1) assms(2,3), of "envs k" k]) (use assms(4) Cons.prems(2) eq in auto)
  have "k \<notin> set ks" using Cons.prems(1) eq by (auto simp: plugin_ok_def pointers_ok_def)
  then have rest: "ks = seq_buf (pg_connections p1)" using p1(3) eq by (auto intro!: sym [OF filter_True])
  have "length (seq_buf (pg_connections p1)) < 2147483648" using Cons.prems(2) eq unfolding rest [symmetric] by simp
  from Cons.hyps(1) [OF rest p1(2) this] obtain p' callss where
    p': "delete_connections penv envs p1 = Some p'" "seq_buf (pg_connections p') = []"
      "pg_done p' = pg_done p1 @ zip ks callss" "length callss = length ks" "\<forall>calls \<in> set callss. last calls = MQTTAsync_destroy"
    unfolding rest [symmetric] by blast
  obtain calls where calls: "pg_done p1 = pg_done p @ [(k, calls)]" "last calls = MQTTAsync_destroy" using p1(4) by blast
  have "delete_connections penv envs p = Some p'" using eq p1(1) p'(1) by (subst delete_connections.simps) simp
  with p' calls eq show ?case by (intro exI [of _ p'] exI [of _ "calls # callss"]) simp
qed


text \<open>
  Claim C22. A new connection can be created and deleted without disturbing the others, and deleting the
  plugin always ends: it deletes every connection, each one once and in the order of the list, the
  last call of each client being the destruction of its Paho client, and leaves the list empty.
\<close>

theorem plugin_connections:
  assumes "plugin_call_ok e" "plugin_ok p" "k \<notin> set (seq_buf (pg_connections p))"
    and "length (seq_buf (pg_connections p)) < 2147483647"
    and "seq_laws (pn_connections penv)" "seq_total (pn_connections penv)" "\<forall>k. closing_env (envs k)"
  shows "seq_buf (pg_connections (plugin_rem e k (plugin_add e k p))) = seq_buf (pg_connections p) \<and>
    (\<exists>p' callss. RTI_RS_MQTT_AdapterPlugin_delete penv envs (plugin_add e k p) = Some (pn_connections_finalize penv, p') \<and>
       seq_buf (pg_connections p') = [] \<and>
       pg_done p' = pg_done (plugin_add e k p) @ zip (seq_buf (pg_connections p) @ [k]) callss \<and>
       length callss = length (seq_buf (pg_connections p)) + 1 \<and> (\<forall>calls \<in> set callss. last calls = MQTTAsync_destroy))"
proof -
  have a: "plugin_ok (plugin_add e k p)" "seq_buf (pg_connections (plugin_add e k p)) = seq_buf (pg_connections p) @ [k]"
    using connections.add_ok [OF assms(1-4)] by auto
  have "length (seq_buf (pg_connections (plugin_add e k p))) < 2147483648" using a(2) assms(4) by simp
  from delete_connections_all [OF a(1) assms(5,6,7) this] a(2)
    connections.add_rem [OF assms(1,1,2,3,4)]
  show ?thesis by (auto simp: RTI_RS_MQTT_AdapterPlugin_delete_def)
qed

text \<open>
  When the list of the plugin cannot be shortened, which is only logged, the loop comes back to the
  connection it has just freed.
\<close>

lemma plugin_delete_uses_freed:
  assumes "seq_buf (pg_connections p) = [k]" "\<And>n s. seq_set_length (pn_connections penv) n s = None"
  shows "RTI_RS_MQTT_AdapterPlugin_delete penv envs p = None"
proof -
  have "delete_connections penv envs p = None"
  proof (cases "RTI_RS_MQTT_AdapterPlugin_delete_connection penv (envs k) k p")
    case None
    with assms(1) show ?thesis by (subst delete_connections.simps) simp
  next
    case (Some p1)
    then have p1: "seq_buf (pg_connections p1) = [k]" "pg_store p1 k = None"
      using assms by (auto simp: RTI_RS_MQTT_AdapterPlugin_delete_connection_def drop_pointer_def Let_def shift_left.simps
          split: option.splits)
    then have "RTI_RS_MQTT_AdapterPlugin_delete_connection penv (envs k) k p1 = None"
      by (simp add: RTI_RS_MQTT_AdapterPlugin_delete_connection_def)
    with p1(1) have "delete_connections penv envs p1 = None" by (subst delete_connections.simps) simp
    with assms(1) Some show ?thesis by (subst delete_connections.simps) simp
  qed
  then show ?thesis by (simp add: RTI_RS_MQTT_AdapterPlugin_delete_def)
qed

section \<open>Examples\<close>

definition example_conn_env :: "std_sample conn_env" where
  "example_conn_env =
     \<lparr>bn_heap = True, bn_prop = example_prop_env, bn_broker_create = (\<lambda>_. Some RTI_RS_MQTT_BrokerConnectionConfig_DEFAULT),
      bn_broker_copy = std_copy, bn_client_create = (\<lambda>_. Some RTI_MQTT_ClientConfig_DEFAULT), bn_client_copy = std_copy,
      bn_disc_in = example_stream_env, bn_disc_in_ptr = 1, bn_disc_out = example_stream_env, bn_disc_out_ptr = 2,
      bn_typecode = True, bn_init = example_init, bn_client = example_env, bn_turns = (\<lambda>_. example_env),
      bn_queues = (\<lambda>_. std_env), bn_writers_initialize = True, bn_readers_initialize = True, bn_finalize_garbage = False,
      bn_readers = std_seq 0, bn_writers = std_seq 0, bn_message_type = ''RTI::MQTT::Message'',
      bn_keyed_type = ''RTI::MQTT::KeyedMessage''\<rparr>"


lemma example_conn_env_ok [simp]:
  "opening_env example_conn_env" "closing_env example_conn_env" "ce_params_copy (bn_client example_conn_env)"
  "client_writable example_cfg" "making_env example_stream_env" "subscribable example_scfg"
proof -
  show m: "making_env example_stream_env" by (simp add: making_env_def example_stream_env_def)
  then show "opening_env example_conn_env" by (simp add: opening_env_def example_conn_env_def)
  show "closing_env example_conn_env" "ce_params_copy (bn_client example_conn_env)"
    by (simp_all add: closing_env_def example_conn_env_def) (simp_all add: example_env_def)
  show "client_writable example_cfg"
    by (simp add: client_writable_def example_cfg_def RTI_MQTT_ClientConfig_DEFAULT_def listable_def cstring_def NUL_def)
  show "subscribable example_scfg"
    by (simp add: subscribable_def example_scfg_def listable_def cstring_def NUL_def)
qed

lemma example_client_new:
  "\<exists>c0. RTI_MQTT_Client_new (bn_init example_conn_env) (bn_client example_conn_env) (bn_queues example_conn_env)
     (bc_client \<lparr>bc_client = example_cfg\<rparr>) = Some (DDS_RETCODE_OK, Some c0)"
  by (simp add: RTI_MQTT_Client_new_def RTI_MQTT_Client_initialize_def example_conn_env_def example_init_def
      ok_request_env_def RTI_MQTT_Client_new_request_def example_cfg_def Let_def
      RTI_MQTT_ClientMqttApi_Paho_create_client_def initial_client_def paho_def lock_defs example_env_def
      RTI_MQTT_ClientConfig_DEFAULT_def)

theorem connection_from_properties_witness:
  "\<exists>cn c1. RTI_RS_MQTT_BrokerConnection_new example_conn_env True True (client_properties example_cfg) =
      Some (DDS_RETCODE_OK, Some cn, []) \<and>
    cn_client cn = Some c1 \<and> c_state c1 = ClientStateKind_CONNECTED \<and> c_config c1 = example_cfg"
proof -
  obtain c0 where c0: "RTI_MQTT_Client_new (bn_init example_conn_env) (bn_client example_conn_env)
      (bn_queues example_conn_env) (bc_client \<lparr>bc_client = example_cfg\<rparr>) = Some (DDS_RETCODE_OK, Some c0)"
    using example_client_new by blast
  have "connect_accepted (bn_client example_conn_env) example_cfg" by (simp add: example_conn_env_def)
  with connection_from_properties [OF _ _ _ _ c0, of True True] show ?thesis by auto
qed

definition example_info :: stream_info where
  "example_info = \<lparr>si_dynamic_type = True, si_type_name = ''RTI::MQTT::Message''\<rparr>"


definition example_plugin_env :: plugin_env where
  "example_plugin_env = \<lparr>pn_heap = True, pn_connections_initialize = True, pn_connections_finalize = True,
     pn_connections = std_seq 0\<rparr>"

definition empty_plugin :: "std_sample adapter_plugin" where
  "empty_plugin = \<lparr>pg_connections = seq_empty, pg_store = Map.empty, pg_done = []\<rparr>"

theorem plugin_connections_witness:
  "\<exists>p' calls. RTI_RS_MQTT_AdapterPlugin_delete example_plugin_env (\<lambda>_. example_conn_env)
      (plugin_add (example_plugin_env, example_conn_env, True, True, client_properties example_cfg) 7 empty_plugin) =
        Some (True, p') \<and>
    seq_buf (pg_connections p') = [] \<and> last calls = MQTTAsync_destroy \<and> (7, calls) \<in> set (pg_done p')"
proof -
  obtain c0 where c0: "RTI_MQTT_Client_new (bn_init example_conn_env) (bn_client example_conn_env)
      (bn_queues example_conn_env) (bc_client \<lparr>bc_client = example_cfg\<rparr>) = Some (DDS_RETCODE_OK, Some c0)"
    using example_client_new by blast
  have q: "quiet_env (bn_client example_conn_env)"
      "connect_accepted (bn_client example_conn_env) (bc_client \<lparr>bc_client = example_cfg\<rparr>)"
    by (simp_all add: example_conn_env_def)
  obtain cn c1 where cn: "RTI_RS_MQTT_BrokerConnection_new example_conn_env True True (client_properties example_cfg) =
       Some (DDS_RETCODE_OK, Some cn, [])" "conn_wf cn" "cn_client cn = Some c1" "c_subscriptions c1 = []"
    by (rule connection_accepted [OF _ _ q(1) _ c0 q(2), of True True]) simp_all
  then have e: "plugin_call_ok (example_plugin_env, example_conn_env, True, True, client_properties example_cfg)"
    by (simp add: plugin_call_ok_def closable_def queues_close_def example_plugin_env_def)
  have p: "plugin_ok empty_plugin" "seq_buf (pg_connections empty_plugin) = []" "seq_laws (pn_connections example_plugin_env)"
    "seq_total (pn_connections example_plugin_env)" "pn_connections_finalize example_plugin_env"
    by (simp_all add: plugin_ok_def empty_plugin_def pointers_ok_def seq_empty_def example_plugin_env_def)
  from plugin_connections [OF e p(1) _ _ p(3,4), of 7 "\<lambda>_. example_conn_env"] p(2,5) obtain p' callss where
    r: "RTI_RS_MQTT_AdapterPlugin_delete example_plugin_env (\<lambda>_. example_conn_env)
      (plugin_add (example_plugin_env, example_conn_env, True, True, client_properties example_cfg) 7 empty_plugin) = Some (True, p')"
      "seq_buf (pg_connections p') = []"
      "pg_done p' = pg_done (plugin_add (example_plugin_env, example_conn_env, True, True, client_properties example_cfg) 7
         empty_plugin) @ zip [7] callss" "length callss = 1" "\<forall>calls \<in> set callss. last calls = MQTTAsync_destroy"
    by auto
  then obtain calls where "callss = [calls]" by (cases callss) auto
  with r show ?thesis by auto
qed


end
