(* ===== verification/Transformation.thy ===== *)
theory Transformation
  imports PropertyList PointerSeq
begin

text \<open>
  The framework of the transformation plugins, \<^verbatim>\<open>common/transformation/srcC\<close>: the configuration of a
  transformation, the loop that transforms the samples of a read (\<^verbatim>\<open>Transformation.c\<close>), the plugin that
  keeps the list of its transformations (\<^verbatim>\<open>TransformationPlugin.c\<close>), and the functions that
  \<^verbatim>\<open>TransformationTemplateDefine.h\<close> generates for each kind of transformation.

  A transformation is generic in the configuration \<open>'c\<close> and the state \<open>'s\<close> that its kind adds, and
  in the two functions of the user plugin.  A user function gets the input and the output sample by
  reference and may change both.  A sample list is a list of pointers, \<open>None\<close> the null pointer.  The
  mutex of the framework exists when it is compiled in (\<^verbatim>\<open>RTI_TSFM_ENABLE_MUTEX\<close>); it is not recursive.

  Operations return \<open>None\<close> where the C code frees an object twice or does not come back.
\<close>

section \<open>Types\<close>

datatype tsfm_kind = TransformationKind_SERIALIZER | TransformationKind_DESERIALIZER

record tsfm_config =
  tc_type :: tsfm_kind
  tc_input_type :: string
  tc_output_type :: string

record tsfm_plugin_config =
  pc_dll :: string
  pc_create_fn :: string

type_synonym ('c, 's, 'd) user_fn = "'c \<Rightarrow> 's \<Rightarrow> 'd \<Rightarrow> 'd \<Rightarrow> (retcode \<times> 's \<times> 'd \<times> 'd) option"

record ('c, 's, 'd) user_plugin =
  up_serialize_sample :: "('c, 's, 'd) user_fn"
  up_deserialize_sample :: "('c, 's, 'd) user_fn"

text \<open>\<^verbatim>\<open>struct RTI_TSFM_TransformationImpl\<close>; \<open>t_tsupport\<close> says whether there is a type support object.\<close>

record 'd transformation =
  t_config :: "tsfm_config option"
  t_tsupport :: bool
  t_read_buffer :: "'d option dds_seq"
  t_read_buffer_loaned :: bool
  t_locked :: bool

text \<open>\<^verbatim>\<open>struct RTI_TSFM_TransformationPluginImpl\<close>; a transformation is its address.\<close>

record tsfm_plugin =
  pl_transforms :: "nat dds_seq"
  pl_config :: "tsfm_plugin_config option"
  pl_user_plugin :: bool
  pl_locked :: bool

text \<open>The outcomes of the calls into the DDS library, the operating system and the heap.\<close>

record 'd tsfm_env =
  te_config_alloc :: bool
  te_input_type_alloc :: bool
  te_output_type_alloc :: bool
  te_input_type_copy :: bool
  te_output_type_copy :: bool
  te_dup :: "string \<Rightarrow> bool"
  te_type_name_replace :: bool
  te_tsupport_new :: bool
  te_samples_initialize :: bool
  te_samples_finalize :: bool
  te_samples :: "'d option seq_api"
  te_contiguous_buffer :: bool
  te_create_data :: "nat \<Rightarrow> 'd option"
  te_clear_all_members :: "'d \<Rightarrow> 'd"
  te_use_mutex :: bool
  te_mutex_initialize :: bool
  te_mutex_finalize :: bool
  te_mutex_take :: bool
  te_mutex_give :: bool
  te_transforms :: "nat seq_api"
  te_transforms_initialize :: bool
  te_plugin_config_alloc :: bool
  te_dll_alloc :: bool
  te_create_fn_alloc :: bool
  te_plugin_config_copy :: bool
  te_plugin_alloc :: bool
  te_user_plugin_alloc :: bool
  te_transform_alloc :: bool

section \<open>The mutex\<close>

text \<open>The POSIX implementation, with a mutex of the default kind: a thread that takes it again does not come back.\<close>

definition RTI_TSFM_Mutex_take :: "'d tsfm_env \<Rightarrow> bool \<Rightarrow> (retcode \<times> bool) option" where
  "RTI_TSFM_Mutex_take env locked =
     (if \<not> te_mutex_take env then Some (DDS_RETCODE_ERROR, locked)
      else if locked then None
      else Some (DDS_RETCODE_OK, True))"

definition RTI_TSFM_Mutex_give :: "'d tsfm_env \<Rightarrow> bool \<Rightarrow> retcode \<times> bool" where
  "RTI_TSFM_Mutex_give env locked =
     (if \<not> te_mutex_give env then (DDS_RETCODE_ERROR, locked) else (DDS_RETCODE_OK, False))"

section \<open>The configuration of a transformation\<close>

definition RTI_TSFM_TransformationKind_from_string :: "string \<Rightarrow> tsfm_kind option" where
  "RTI_TSFM_TransformationKind_from_string str =
     (if str \<in> {''serialize'', ''serializer'', ''s'', ''S'', ''RTI_TSFM_TransformationKind_SERIALIZER''}
      then Some TransformationKind_SERIALIZER
      else if str \<in> {''deserialize'', ''deserializer'', ''d'', ''D'', ''RTI_TSFM_TransformationKind_DESERIALIZER''}
      then Some TransformationKind_DESERIALIZER
      else None)"

definition RTI_TSFM_TransformationConfig_DEFAULT :: tsfm_config where
  "RTI_TSFM_TransformationConfig_DEFAULT =
     \<lparr>tc_type = TransformationKind_SERIALIZER, tc_input_type = [], tc_output_type = []\<rparr>"

definition RTI_TSFM_TransformationConfig_new :: "'d tsfm_env \<Rightarrow> retcode \<times> tsfm_config option" where
  "RTI_TSFM_TransformationConfig_new env =
     (if \<not> te_config_alloc env \<or> \<not> te_input_type_alloc env \<or> \<not> te_output_type_alloc env
      then (DDS_RETCODE_ERROR, None)
      else (DDS_RETCODE_OK,
            Some \<lparr>tc_type = TransformationKind_SERIALIZER, tc_input_type = [], tc_output_type = []\<rparr>))"

text \<open>The result is the new value of the caller's pointer and the objects deleted.\<close>

definition RTI_TSFM_TransformationConfig_default ::
    "'d tsfm_env \<Rightarrow> tsfm_config option \<Rightarrow> retcode \<times> tsfm_config option \<times> tsfm_config list" where
  "RTI_TSFM_TransformationConfig_default env config_out =
     (case (case config_out of None \<Rightarrow> snd (RTI_TSFM_TransformationConfig_new env) | Some c \<Rightarrow> Some c) of
        None \<Rightarrow> (DDS_RETCODE_ERROR, config_out, [])
      | Some config \<Rightarrow>
          let c1 = config\<lparr>tc_type := tc_type RTI_TSFM_TransformationConfig_DEFAULT\<rparr>;
              c2 = c1\<lparr>tc_input_type := tc_input_type RTI_TSFM_TransformationConfig_DEFAULT\<rparr>;
              c3 = c2\<lparr>tc_output_type := tc_output_type RTI_TSFM_TransformationConfig_DEFAULT\<rparr>;
              fail = (\<lambda>c. if config_out = None then (DDS_RETCODE_ERROR, None, [c])
                           else (DDS_RETCODE_ERROR, Some c, [])) in
          if \<not> te_input_type_copy env then fail c1
          else if \<not> te_output_type_copy env then fail c2
          else (DDS_RETCODE_OK, Some c3, []))"

definition transformation_property_steps ::
    "'d tsfm_env \<Rightarrow> properties \<Rightarrow> (tsfm_config \<Rightarrow> tsfm_config option) list" where
  "transformation_property_steps env properties =
     [lookup_property properties ''transform_type''
        (\<lambda>pval c. map_option (\<lambda>k. c\<lparr>tc_type := k\<rparr>) (RTI_TSFM_TransformationKind_from_string pval)),
      lookup_property properties ''input_type''
        (\<lambda>pval c. if te_dup env ''input_type'' then Some (c\<lparr>tc_input_type := pval\<rparr>) else None),
      lookup_property properties ''output_type''
        (\<lambda>pval c. if te_dup env ''output_type'' then Some (c\<lparr>tc_output_type := pval\<rparr>) else None)]"

definition RTI_TSFM_TransformationConfig_parse_from_properties_alloc ::
    "'d tsfm_env \<Rightarrow> properties \<Rightarrow> tsfm_config option \<Rightarrow> retcode \<times> tsfm_config option \<times> tsfm_config list" where
  "RTI_TSFM_TransformationConfig_parse_from_properties_alloc env properties =
     Config_parse (RTI_TSFM_TransformationConfig_default env) (transformation_property_steps env properties)"

definition RTI_TSFM_TransformationConfig_parse_from_properties ::
    "'d tsfm_env \<Rightarrow> tsfm_config \<Rightarrow> properties \<Rightarrow> retcode \<times> tsfm_config" where
  "RTI_TSFM_TransformationConfig_parse_from_properties env config properties =
     (case RTI_TSFM_TransformationConfig_parse_from_properties_alloc env properties (Some config) of
        (rc, c, _) \<Rightarrow> (rc, case c of None \<Rightarrow> config | Some c1 \<Rightarrow> c1))"

section \<open>A transformation\<close>

text \<open>
  The type name is filled in from the type of the output stream, or has to agree with it.  The
  second component is the configuration, the third whether a type support object was created.
\<close>

definition RTI_TSFM_Transformation_create_type_support ::
    "'d tsfm_env \<Rightarrow> string \<Rightarrow> string \<Rightarrow> retcode \<times> string \<times> bool" where
  "RTI_TSFM_Transformation_create_type_support env type_info_name type_name =
     (if type_name = [] \<and> \<not> te_type_name_replace env then (DDS_RETCODE_ERROR, type_name, False)
      else if type_name \<noteq> [] \<and> type_name \<noteq> type_info_name then (DDS_RETCODE_ERROR, type_name, False)
      else
        let name = (if type_name = [] then type_info_name else type_name) in
        if \<not> te_tsupport_new env then (DDS_RETCODE_ERROR, name, False)
        else (DDS_RETCODE_OK, name, True))"

text \<open>
  \<^verbatim>\<open>RTI_TSFM_Transformation_finalize\<close>: the samples of the read buffer are deleted, then the
  configuration and the type support.  The second component lists the deleted samples.
\<close>

definition RTI_TSFM_Transformation_finalize ::
    "'d tsfm_env \<Rightarrow> 'd transformation \<Rightarrow> retcode \<times> 'd list \<times> 'd transformation" where
  "RTI_TSFM_Transformation_finalize env self =
     (let deleted = map the (filter (\<lambda>p. p \<noteq> None) (seq_buf (t_read_buffer self)));
          t1 = self\<lparr>t_read_buffer := seq_empty, t_config := None, t_tsupport := False\<rparr>;
          ok = te_samples_finalize env \<and> (te_use_mutex env \<longrightarrow> te_mutex_finalize env) in
      (if ok then DDS_RETCODE_OK else DDS_RETCODE_ERROR, deleted, t1))"

text \<open>
  \<^verbatim>\<open>config\<close> is the configuration the caller has set, if any; it stays with the object when the
  initialisation fails, one that was parsed here does not.
\<close>

definition RTI_TSFM_Transformation_initialize ::
    "'d tsfm_env \<Rightarrow> string \<Rightarrow> properties \<Rightarrow> tsfm_config option \<Rightarrow> retcode \<times> 'd transformation" where
  "RTI_TSFM_Transformation_initialize env output_type_name properties config =
     (let t0 = \<lparr>t_config = config, t_tsupport = False, t_read_buffer = seq_empty,
                t_read_buffer_loaned = False, t_locked = False\<rparr>;
          fail = (\<lambda>t keep. (DDS_RETCODE_ERROR,
                    (snd (snd (RTI_TSFM_Transformation_finalize env t)))\<lparr>t_config := keep\<rparr>)) in
      if te_use_mutex env \<and> \<not> te_mutex_initialize env then (DDS_RETCODE_ERROR, t0)
      else if \<not> te_samples_initialize env then fail t0 config
      else
        case (case config of
                Some c \<Rightarrow> (DDS_RETCODE_OK, Some c)
              | None \<Rightarrow> (case RTI_TSFM_TransformationConfig_parse_from_properties_alloc env properties None of
                           (rc, c, _) \<Rightarrow> (rc, c))) of
          (rc, c) \<Rightarrow>
            if rc \<noteq> DDS_RETCODE_OK then fail t0 None
            else
              case c of
                None \<Rightarrow> fail t0 None
              | Some c1 \<Rightarrow>
                  case RTI_TSFM_Transformation_create_type_support env output_type_name (tc_output_type c1) of
                    (rc, name, tsupport) \<Rightarrow>
                      let c2 = c1\<lparr>tc_output_type := name\<rparr>;
                          t1 = t0\<lparr>t_config := Some c2, t_tsupport := tsupport\<rparr> in
                      if rc \<noteq> DDS_RETCODE_OK then fail t1 (if config = None then None else Some c2)
                      else (DDS_RETCODE_OK, t1))"

text \<open>
  The loop over the samples, from position \<open>i\<close>: each input is a pointer and whether it is valid.  A
  result is whether all went well, the state of the user plugin, the input samples, the read
  buffer and the number of samples that were transformed.
\<close>

fun transform_loop ::
    "'d tsfm_env \<Rightarrow> ('c, 's, 'd) user_fn \<Rightarrow> 'c \<Rightarrow> nat \<Rightarrow> ('d option \<times> bool) list \<Rightarrow> 's
     \<Rightarrow> 'd option list \<Rightarrow> nat \<Rightarrow> (bool \<times> 's \<times> 'd option list \<times> 'd option list \<times> nat) option" where
  "transform_loop env fn cfg i [] st out_samples n = Some (True, st, [], out_samples, n)"
| "transform_loop env fn cfg i ((in_sample, valid_data) # ins) st out_samples n =
     (if \<not> valid_data then
        map_option (\<lambda>(ok, st1, ins1, outs1, n1). (ok, st1, in_sample # ins1, outs1, n1))
          (transform_loop env fn cfg (i + 1) ins st out_samples n)
      else
        let out_sample = (case out_samples ! i of None \<Rightarrow> te_create_data env i | Some d \<Rightarrow> Some d);
            outs = out_samples[i := out_sample] in
        case in_sample of
          None \<Rightarrow> Some (False, st, in_sample # map fst ins, outs, n)
        | Some x \<Rightarrow>
            case out_sample of
              None \<Rightarrow> Some (False, st, in_sample # map fst ins, outs, n)
            | Some y \<Rightarrow>
                case fn cfg st x y of
                  None \<Rightarrow> None
                | Some (rc, st1, x1, y1) \<Rightarrow>
                    if rc \<noteq> DDS_RETCODE_OK
                    then Some (False, st1, Some x1 # map fst ins, outs[i := Some y1], n)
                    else
                      map_option (\<lambda>(ok, st2, ins2, outs2, n2). (ok, st2, Some x1 # ins2, outs2, n2))
                        (transform_loop env fn cfg (i + 1) ins st1 (outs[i := Some y1]) (n + 1)))"

text \<open>
  \<^verbatim>\<open>RTI_TSFM_Transformation_transform\<close>.  The last component is what the caller gets on success: the
  samples and their number; the infos are those of the input.  The error path has nothing to undo:
  its condition that \<^verbatim>\<open>out_samples\<close> is null and samples were made never holds.
\<close>

definition RTI_TSFM_Transformation_transform ::
    "'d tsfm_env \<Rightarrow> ('c, 's, 'd) user_plugin \<Rightarrow> 'c \<Rightarrow> ('d option \<times> bool) list \<Rightarrow> 's \<Rightarrow> 'd transformation
     \<Rightarrow> (retcode \<times> 's \<times> 'd transformation \<times> 'd option list \<times> ('d option list \<times> nat) option) option" where
  "RTI_TSFM_Transformation_transform env plugin cfg ins st self =
     (if t_read_buffer_loaned self then Some (DDS_RETCODE_ERROR, st, self, map fst ins, None)
      else
        let out_samples_len = max (seq_max (t_read_buffer self)) (length ins) in
        case seq_ensure_length (te_samples env) (of_nat out_samples_len) (of_nat out_samples_len)
               (t_read_buffer self) of
          None \<Rightarrow> Some (DDS_RETCODE_ERROR, st, self, map fst ins, None)
        | Some buffer \<Rightarrow>
            let t1 = self\<lparr>t_read_buffer := buffer\<rparr> in
            if \<not> te_contiguous_buffer env then Some (DDS_RETCODE_ERROR, st, t1, map fst ins, None)
            else
              case t_config self of
                None \<Rightarrow> None
              | Some config \<Rightarrow>
                  let fn = (case tc_type config of
                              TransformationKind_SERIALIZER \<Rightarrow> up_serialize_sample plugin
                            | TransformationKind_DESERIALIZER \<Rightarrow> up_deserialize_sample plugin) in
                  case transform_loop env fn cfg 0 ins st (seq_buf buffer) 0 of
                    None \<Rightarrow> None
                  | Some (ok, st1, ins1, outs, n) \<Rightarrow>
                      let t2 = t1\<lparr>t_read_buffer := buffer\<lparr>seq_buf := outs\<rparr>\<rparr> in
                      if \<not> ok then Some (DDS_RETCODE_ERROR, st1, t2, ins1, None)
                      else Some (DDS_RETCODE_OK, st1, t2\<lparr>t_read_buffer_loaned := True\<rparr>, ins1, Some (outs, n)))"

text \<open>The loaned samples are cleared, a null pointer being refused by DDS without effect.\<close>

definition RTI_TSFM_Transformation_return_loan ::
    "'d tsfm_env \<Rightarrow> nat \<Rightarrow> 'd transformation \<Rightarrow> 'd transformation" where
  "RTI_TSFM_Transformation_return_loan env n self =
     (let buf = seq_buf (t_read_buffer self) in
      self\<lparr>t_read_buffer := (t_read_buffer self)\<lparr>seq_buf :=
             map (map_option (te_clear_all_members env)) (take n buf) @ drop n buf\<rparr>,
           t_read_buffer_loaned := False\<rparr>)"

definition RTI_TSFM_Transformation_update :: "properties \<Rightarrow> 'd transformation \<Rightarrow> retcode \<times> 'd transformation" where
  "RTI_TSFM_Transformation_update properties self = (DDS_RETCODE_ERROR, self)"


section \<open>The plugin\<close>

definition RTI_TSFM_TransformationPluginConfig_DEFAULT :: tsfm_plugin_config where
  "RTI_TSFM_TransformationPluginConfig_DEFAULT = \<lparr>pc_dll = [], pc_create_fn = []\<rparr>"

definition RTI_TSFM_TransformationPluginConfig_new :: "'d tsfm_env \<Rightarrow> retcode \<times> tsfm_plugin_config option" where
  "RTI_TSFM_TransformationPluginConfig_new env =
     (if \<not> te_plugin_config_alloc env \<or> \<not> te_dll_alloc env \<or> \<not> te_create_fn_alloc env
      then (DDS_RETCODE_ERROR, None)
      else (DDS_RETCODE_OK, Some \<lparr>pc_dll = [], pc_create_fn = []\<rparr>))"

definition RTI_TSFM_TransformationPluginConfig_default ::
    "'d tsfm_env \<Rightarrow> tsfm_plugin_config option
     \<Rightarrow> retcode \<times> tsfm_plugin_config option \<times> tsfm_plugin_config list" where
  "RTI_TSFM_TransformationPluginConfig_default env config_out =
     (case (case config_out of None \<Rightarrow> snd (RTI_TSFM_TransformationPluginConfig_new env) | Some c \<Rightarrow> Some c) of
        None \<Rightarrow> (DDS_RETCODE_ERROR, config_out, [])
      | Some config \<Rightarrow>
          if \<not> te_plugin_config_copy env
          then (DDS_RETCODE_ERROR, config_out, if config_out = None then [config] else [])
          else (DDS_RETCODE_OK, Some RTI_TSFM_TransformationPluginConfig_DEFAULT, []))"

definition plugin_property_steps ::
    "'d tsfm_env \<Rightarrow> properties \<Rightarrow> (tsfm_plugin_config \<Rightarrow> tsfm_plugin_config option) list" where
  "plugin_property_steps env properties =
     [lookup_property properties ''dll''
        (\<lambda>pval c. if te_dup env ''dll'' then Some (c\<lparr>pc_dll := pval\<rparr>) else None),
      lookup_property properties ''create_fn''
        (\<lambda>pval c. if te_dup env ''create_fn'' then Some (c\<lparr>pc_create_fn := pval\<rparr>) else None)]"

definition RTI_TSFM_TransformationPluginConfig_parse_from_properties_alloc ::
    "'d tsfm_env \<Rightarrow> properties \<Rightarrow> tsfm_plugin_config option
     \<Rightarrow> retcode \<times> tsfm_plugin_config option \<times> tsfm_plugin_config list" where
  "RTI_TSFM_TransformationPluginConfig_parse_from_properties_alloc env properties =
     Config_parse (RTI_TSFM_TransformationPluginConfig_default env) (plugin_property_steps env properties)"

text \<open>
  A plugin that still has transformations is not finalised.  The flag of the result says whether
  the user plugin was deleted.
\<close>

definition RTI_TSFM_TransformationPlugin_finalize :: "tsfm_plugin \<Rightarrow> retcode \<times> bool \<times> tsfm_plugin" where
  "RTI_TSFM_TransformationPlugin_finalize self =
     (if length (seq_buf (pl_transforms self)) > 0 then (DDS_RETCODE_ERROR, False, self)
      else
        (DDS_RETCODE_OK, pl_user_plugin self,
         self\<lparr>pl_transforms := seq_empty, pl_user_plugin := False, pl_config := None\<rparr>))"

text \<open>The flag of the result says whether the user plugin was deleted on the error path.\<close>

definition RTI_TSFM_TransformationPlugin_initialize_static ::
    "'d tsfm_env \<Rightarrow> tsfm_plugin_config option \<Rightarrow> properties \<Rightarrow> retcode \<times> bool \<times> tsfm_plugin" where
  "RTI_TSFM_TransformationPlugin_initialize_static env config properties =
     (let p0 = \<lparr>pl_transforms = seq_empty, pl_config = config, pl_user_plugin = True, pl_locked = False\<rparr>;
          fail = (\<lambda>p keep. case RTI_TSFM_TransformationPlugin_finalize p of
                    (_, deleted, p1) \<Rightarrow> (DDS_RETCODE_ERROR, deleted, p1\<lparr>pl_config := keep\<rparr>)) in
      if te_use_mutex env \<and> \<not> te_mutex_initialize env then (DDS_RETCODE_ERROR, False, p0)
      else if \<not> te_transforms_initialize env then fail p0 config
      else
        case config of
          Some c \<Rightarrow> (DDS_RETCODE_OK, False, p0)
        | None \<Rightarrow>
            case RTI_TSFM_TransformationPluginConfig_parse_from_properties_alloc env properties None of
              (rc, c, _) \<Rightarrow>
                if rc \<noteq> DDS_RETCODE_OK then fail p0 None
                else (DDS_RETCODE_OK, False, p0\<lparr>pl_config := c\<rparr>))"

text \<open>A new transformation is appended to the list.\<close>

definition RTI_TSFM_TransformationPlugin_initialize_transformation ::
    "'d tsfm_env \<Rightarrow> nat \<Rightarrow> tsfm_plugin \<Rightarrow> retcode \<times> tsfm_plugin" where
  "RTI_TSFM_TransformationPlugin_initialize_transformation env transform self =
     (let cur_transform_len = length (seq_buf (pl_transforms self)) in
      case seq_ensure_length (te_transforms env) (of_nat (cur_transform_len + 1)) (of_nat (cur_transform_len + 1))
             (pl_transforms self) of
        None \<Rightarrow> (DDS_RETCODE_ERROR, self)
      | Some s \<Rightarrow>
          (DDS_RETCODE_OK, self\<lparr>pl_transforms := s\<lparr>seq_buf := (seq_buf s)[cur_transform_len := transform]\<rparr>\<rparr>))"

definition RTI_TSFM_TransformationPlugin_finalize_transformation ::
    "'d tsfm_env \<Rightarrow> nat \<Rightarrow> tsfm_plugin \<Rightarrow> retcode \<times> tsfm_plugin" where
  "RTI_TSFM_TransformationPlugin_finalize_transformation env transform self =
     (let s = pl_transforms self in
      case find_index (\<lambda>t. transform = t) (seq_buf s) of
        None \<Rightarrow> (DDS_RETCODE_ERROR, self)
      | Some rm_i \<Rightarrow>
          let s1 = s\<lparr>seq_buf := shift_left (seq_buf s) rm_i\<rparr> in
          case seq_set_length (te_transforms env) (of_nat (length (seq_buf s) - 1)) s1 of
            None \<Rightarrow> (DDS_RETCODE_ERROR, self\<lparr>pl_transforms := s1\<rparr>)
          | Some s2 \<Rightarrow> (DDS_RETCODE_OK, self\<lparr>pl_transforms := s2\<rparr>))"

section \<open>The generated functions\<close>

text \<open>
  What \<^verbatim>\<open>TransformationTemplateDefine.h\<close> defines for a type \<open>T\<close> with its own configuration and state, both
  made by functions of the type, and static user functions.
\<close>

record ('c, 's, 'd) tobject =
  o_parent :: "'d transformation"
  o_config :: 'c
  o_state :: 's

record ('c, 's, 'd) ttype =
  ty_state_new :: "'s option"
  ty_config_new :: "(tsfm_config \<times> 'c) option"
  ty_config_parse :: "properties \<Rightarrow> tsfm_config \<times> 'c \<Rightarrow> retcode \<times> tsfm_config \<times> 'c"
  ty_user_plugin :: "('c, 's, 'd) user_plugin"

text \<open>\<open>None\<close> is a second deletion of the user plugin.\<close>

definition TPlugin_new :: "'d tsfm_env \<Rightarrow> properties \<Rightarrow> (retcode \<times> tsfm_plugin option) option" where
  "TPlugin_new env properties =
     (if \<not> te_plugin_alloc env \<or> \<not> te_user_plugin_alloc env then Some (DDS_RETCODE_ERROR, None)
      else
        case RTI_TSFM_TransformationPlugin_initialize_static env None properties of
          (rc, deleted, p) \<Rightarrow>
            if rc = DDS_RETCODE_OK then Some (DDS_RETCODE_OK, Some p)
            else if deleted then None
            else Some (DDS_RETCODE_ERROR, None))"

definition T_new ::
    "'d tsfm_env \<Rightarrow> ('c, 's, 'd) ttype \<Rightarrow> string \<Rightarrow> properties \<Rightarrow> retcode \<times> ('c, 's, 'd) tobject option" where
  "T_new env ty output_type_name properties =
     (if \<not> te_transform_alloc env then (DDS_RETCODE_ERROR, None)
      else
        case ty_state_new ty of
          None \<Rightarrow> (DDS_RETCODE_ERROR, None)
        | Some st \<Rightarrow>
            case ty_config_new ty of
              None \<Rightarrow> (DDS_RETCODE_ERROR, None)
            | Some config \<Rightarrow>
                case ty_config_parse ty properties config of
                  (rc, parent_config, c) \<Rightarrow>
                    if rc \<noteq> DDS_RETCODE_OK then (DDS_RETCODE_ERROR, None)
                    else
                      case RTI_TSFM_Transformation_initialize env output_type_name properties (Some parent_config) of
                        (rc, t) \<Rightarrow>
                          if rc \<noteq> DDS_RETCODE_OK then (DDS_RETCODE_ERROR, None)
                          else (DDS_RETCODE_OK, Some \<lparr>o_parent = t, o_config = c, o_state = st\<rparr>))"

text \<open>The samples deleted with the transformation.\<close>

definition T_delete :: "'d tsfm_env \<Rightarrow> ('c, 's, 'd) tobject \<Rightarrow> 'd list" where
  "T_delete env self =
     (case RTI_TSFM_Transformation_finalize env ((o_parent self)\<lparr>t_config := None\<rparr>) of (_, deleted, _) \<Rightarrow> deleted)"

text \<open>Running an operation under the mutex of the plugin or of the transformation, when there is one.\<close>

definition locked_plugin ::
    "'d tsfm_env \<Rightarrow> 'r \<Rightarrow> (tsfm_plugin \<Rightarrow> 'r \<times> tsfm_plugin) \<Rightarrow> tsfm_plugin \<Rightarrow> ('r \<times> tsfm_plugin) option" where
  "locked_plugin env dflt f self =
     (if \<not> te_use_mutex env then Some (f self)
      else
        case RTI_TSFM_Mutex_take env (pl_locked self) of
          None \<Rightarrow> None
        | Some (rc, l) \<Rightarrow>
            if rc \<noteq> DDS_RETCODE_OK then Some (dflt, self)
            else case f (self\<lparr>pl_locked := l\<rparr>) of
              (r, p) \<Rightarrow> Some (r, p\<lparr>pl_locked := snd (RTI_TSFM_Mutex_give env (pl_locked p))\<rparr>))"

text \<open>\<open>addr\<close> is the address of the new transformation.\<close>

definition TPlugin_create_transformation ::
    "'d tsfm_env \<Rightarrow> ('c, 's, 'd) ttype \<Rightarrow> nat \<Rightarrow> string \<Rightarrow> properties \<Rightarrow> tsfm_plugin
     \<Rightarrow> (('c, 's, 'd) tobject option \<times> tsfm_plugin) option" where
  "TPlugin_create_transformation env ty addr output_type_name properties =
     locked_plugin env None (\<lambda>self.
       case T_new env ty output_type_name properties of
         (rc, transform) \<Rightarrow>
           if rc \<noteq> DDS_RETCODE_OK then (None, self)
           else
             case RTI_TSFM_TransformationPlugin_initialize_transformation env addr self of
               (rc, p) \<Rightarrow> if rc \<noteq> DDS_RETCODE_OK then (None, p) else (transform, p))"

text \<open>The result lists the samples deleted; \<open>None\<close> when the transformation is not known to the plugin.\<close>

definition TPlugin_delete_transformation ::
    "'d tsfm_env \<Rightarrow> nat \<Rightarrow> ('c, 's, 'd) tobject \<Rightarrow> tsfm_plugin \<Rightarrow> ('d list option \<times> tsfm_plugin) option" where
  "TPlugin_delete_transformation env addr transform =
     locked_plugin env None (\<lambda>self.
       case RTI_TSFM_TransformationPlugin_finalize_transformation env addr self of
         (rc, p) \<Rightarrow> if rc \<noteq> DDS_RETCODE_OK then (None, p) else (Some (T_delete env transform), p))"

text \<open>The plugin is freed whether or not its finalisation succeeds; the result is whether it did.\<close>

definition TPlugin_delete :: "tsfm_plugin \<Rightarrow> retcode" where
  "TPlugin_delete self = fst (RTI_TSFM_TransformationPlugin_finalize self)"

definition T_transform ::
    "'d tsfm_env \<Rightarrow> ('c, 's, 'd) ttype \<Rightarrow> ('d option \<times> bool) list \<Rightarrow> ('c, 's, 'd) tobject
     \<Rightarrow> (('c, 's, 'd) tobject \<times> 'd option list \<times> ('d option list \<times> nat) option) option" where
  "T_transform env ty ins self =
     (let run = (\<lambda>self. map_option
            (\<lambda>(_, st, t, ins1, out). (self\<lparr>o_parent := t, o_state := st\<rparr>, ins1, out))
            (RTI_TSFM_Transformation_transform env (ty_user_plugin ty) (o_config self) ins (o_state self)
               (o_parent self))) in
      if \<not> te_use_mutex env then run self
      else
        case RTI_TSFM_Mutex_take env (t_locked (o_parent self)) of
          None \<Rightarrow> None
        | Some (rc, l) \<Rightarrow>
            if rc \<noteq> DDS_RETCODE_OK then Some (self, map fst ins, None)
            else map_option
              (\<lambda>(s, ins1, out). (s\<lparr>o_parent := (o_parent s)\<lparr>t_locked :=
                    snd (RTI_TSFM_Mutex_give env (t_locked (o_parent s)))\<rparr>\<rparr>, ins1, out))
              (run (self\<lparr>o_parent := (o_parent self)\<lparr>t_locked := l\<rparr>\<rparr>)))"

definition T_return_loan ::
    "'d tsfm_env \<Rightarrow> nat \<Rightarrow> ('c, 's, 'd) tobject \<Rightarrow> ('c, 's, 'd) tobject option" where
  "T_return_loan env n self =
     (if \<not> te_use_mutex env
      then Some (self\<lparr>o_parent := RTI_TSFM_Transformation_return_loan env n (o_parent self)\<rparr>)
      else
        case RTI_TSFM_Mutex_take env (t_locked (o_parent self)) of
          None \<Rightarrow> None
        | Some (rc, l) \<Rightarrow>
            if rc \<noteq> DDS_RETCODE_OK then Some self
            else
              let t = RTI_TSFM_Transformation_return_loan env n ((o_parent self)\<lparr>t_locked := l\<rparr>) in
              Some (self\<lparr>o_parent := t\<lparr>t_locked := snd (RTI_TSFM_Mutex_give env (t_locked t))\<rparr>\<rparr>))"

text \<open>The source takes the mutex a second time where it should give it back.\<close>

definition T_update ::
    "'d tsfm_env \<Rightarrow> properties \<Rightarrow> ('c, 's, 'd) tobject \<Rightarrow> ('c, 's, 'd) tobject option" where
  "T_update env properties self =
     (if \<not> te_use_mutex env
      then Some (self\<lparr>o_parent := snd (RTI_TSFM_Transformation_update properties (o_parent self))\<rparr>)
      else
        case RTI_TSFM_Mutex_take env (t_locked (o_parent self)) of
          None \<Rightarrow> None
        | Some (rc, l) \<Rightarrow>
            if rc \<noteq> DDS_RETCODE_OK then Some self
            else
              let t = snd (RTI_TSFM_Transformation_update properties ((o_parent self)\<lparr>t_locked := l\<rparr>)) in
              case RTI_TSFM_Mutex_take env (t_locked t) of
                None \<Rightarrow> None
              | Some (_, l1) \<Rightarrow> Some (self\<lparr>o_parent := t\<lparr>t_locked := l1\<rparr>\<rparr>))"


text \<open>Loading a user plugin from a library is not implemented, so that this initialisation always fails.\<close>

definition RTI_TSFM_UserTypePlugin_create_dynamic :: "string \<Rightarrow> string \<Rightarrow> ('c, 's, 'd) user_plugin option" where
  "RTI_TSFM_UserTypePlugin_create_dynamic plugin_lib plugin_create_fn = None"

definition RTI_TSFM_TransformationPlugin_initialize ::
    "'d tsfm_env \<Rightarrow> tsfm_plugin_config option \<Rightarrow> properties \<Rightarrow> retcode \<times> tsfm_plugin_config option" where
  "RTI_TSFM_TransformationPlugin_initialize env config properties =
     (case (case config of
              Some c \<Rightarrow> (DDS_RETCODE_OK, Some c)
            | None \<Rightarrow> (case RTI_TSFM_TransformationPluginConfig_parse_from_properties_alloc env properties None of
                         (rc, c, _) \<Rightarrow> (rc, c))) of
        (rc, c) \<Rightarrow>
          if rc \<noteq> DDS_RETCODE_OK then (DDS_RETCODE_ERROR, None)
          else
            case c of
              None \<Rightarrow> (DDS_RETCODE_ERROR, None)
            | Some c1 \<Rightarrow>
                case (RTI_TSFM_UserTypePlugin_create_dynamic (pc_dll c1) (pc_create_fn c1)
                        :: (unit, unit, 'd) user_plugin option) of
                  None \<Rightarrow> (DDS_RETCODE_ERROR, config)
                | Some _ \<Rightarrow> (DDS_RETCODE_OK, c))"

section \<open>What a transformation delivers\<close>

text \<open>The reference: the user function on each pair of an input and an output sample, in order.\<close>

fun transform_all ::
    "('c, 's, 'd) user_fn \<Rightarrow> 'c \<Rightarrow> 's \<Rightarrow> ('d \<times> 'd) list \<Rightarrow> ('s \<times> 'd list \<times> 'd list) option" where
  "transform_all fn cfg st [] = Some (st, [], [])"
| "transform_all fn cfg st ((x, y) # xys) =
     (case fn cfg st x y of
        Some (DDS_RETCODE_OK, st1, x1, y1) \<Rightarrow>
          map_option (\<lambda>(st2, xs, ys). (st2, x1 # xs, y1 # ys)) (transform_all fn cfg st1 xys)
      | _ \<Rightarrow> None)"

definition slot_sample :: "'d tsfm_env \<Rightarrow> 'd option list \<Rightarrow> nat \<Rightarrow> 'd option" where
  "slot_sample env outs i = (case outs ! i of None \<Rightarrow> te_create_data env i | Some d \<Rightarrow> Some d)"

lemma slot_sample_update [simp]: "i \<noteq> j \<Longrightarrow> slot_sample env (outs[i := x]) j = slot_sample env outs j"
  by (simp add: slot_sample_def)

lemma length_transform_all:
  "transform_all fn cfg st xys = Some (st1, xs, ys) \<Longrightarrow> length xs = length xys \<and> length ys = length xys"
  by (induction xys arbitrary: st st1 xs ys) (auto split: option.splits retcode.splits)

lemma transform_loop_all:
  assumes "transform_all fn cfg st xys = Some (st1, xs1, ys1)"
    and "\<forall>j < length xys. slot_sample env outs (i + j) = Some (snd (xys ! j))"
    and "i + length xys \<le> length outs"
  shows "transform_loop env fn cfg i (map (\<lambda>(x, y). (Some x, True)) xys) st outs n =
           Some (True, st1, map Some xs1, take i outs @ map Some ys1 @ drop (i + length xys) outs, n + length xys)"
  using assms
proof (induction xys arbitrary: st st1 xs1 ys1 i outs n)
  case (Cons xy xys)
  obtain x y where xy: "xy = (x, y)" by (cases xy)
  with Cons.prems(1) obtain st2 x1 y1 xs2 ys2 where f: "fn cfg st x y = Some (DDS_RETCODE_OK, st2, x1, y1)"
      "transform_all fn cfg st2 xys = Some (st1, xs2, ys2)" "xs1 = x1 # xs2" "ys1 = y1 # ys2"
    by (auto split: option.splits retcode.splits)
  have i: "i < length outs" using Cons.prems(3) by simp
  have slot: "slot_sample env outs i = Some y" using Cons.prems(2) xy by force
  let ?outs = "outs[i := Some y1]"
  have "\<forall>j < length xys. slot_sample env ?outs (Suc i + j) = Some (snd (xys ! j))"
    using Cons.prems(2) by auto
  then have "transform_loop env fn cfg (Suc i) (map (\<lambda>(x, y). (Some x, True)) xys) st2 ?outs (Suc n) =
      Some (True, st1, map Some xs2, take (Suc i) ?outs @ map Some ys2 @ drop (Suc i + length xys) ?outs, Suc n + length xys)"
    using Cons.IH [OF f(2), of ?outs "Suc i" "Suc n"] Cons.prems(3) by simp
  moreover have "take (Suc i) ?outs = take i outs @ [Some y1]"
    using i by (simp add: take_Suc_conv_app_nth)
  ultimately show ?case
    using slot i f xy by (simp add: Let_def slot_sample_def)
qed simp


text \<open>And conversely: when the loop succeeds, the user function succeeded on every sample.\<close>

lemma transform_loop_all_conv:
  assumes "transform_loop env fn cfg i (map (\<lambda>x. (Some x, True)) xs) st outs n = Some (True, st1, ins1, outs1, n1)"
    and "i + length xs \<le> length outs"
  shows "\<exists>ys xs1 ys1. length ys = length xs \<and> (\<forall>j < length xs. slot_sample env outs (i + j) = Some (ys ! j)) \<and>
     transform_all fn cfg st (zip xs ys) = Some (st1, xs1, ys1) \<and> ins1 = map Some xs1 \<and>
     outs1 = take i outs @ map Some ys1 @ drop (i + length xs) outs \<and> n1 = n + length xs"
  using assms
proof (induction xs arbitrary: i st ins1 outs n)
  case (Cons x xs)
  have i: "i < length outs" using Cons.prems(2) by simp
  obtain y st2 x1 y1 ins2 where y: "slot_sample env outs i = Some y"
      "fn cfg st x y = Some (DDS_RETCODE_OK, st2, x1, y1)" "ins1 = Some x1 # ins2"
      "transform_loop env fn cfg (Suc i) (map (\<lambda>x. (Some x, True)) xs) st2 (outs[i := Some y1]) (Suc n) =
         Some (True, st1, ins2, outs1, n1)"
    using Cons.prems(1) by (auto simp: Let_def slot_sample_def split: option.splits if_splits)
  from Cons.IH [OF y(4)] Cons.prems(2) obtain ys xs2 ys2 where r: "length ys = length xs"
      "\<forall>j < length xs. slot_sample env (outs[i := Some y1]) (Suc i + j) = Some (ys ! j)"
      "transform_all fn cfg st2 (zip xs ys) = Some (st1, xs2, ys2)" "ins2 = map Some xs2"
      "outs1 = take (Suc i) (outs[i := Some y1]) @ map Some ys2 @ drop (Suc i + length xs) outs" "n1 = Suc n + length xs"
    by auto
  have "\<forall>j < length (x # xs). slot_sample env outs (i + j) = Some ((y # ys) ! j)"
    using y(1) r(2) by (auto simp: nth_Cons split: nat.splits)
  moreover have "take (Suc i) (outs[i := Some y1]) = take i outs @ [Some y1]"
    using i by (simp add: take_Suc_conv_app_nth)
  ultimately show ?case
    using y r by (intro exI [of _ "y # ys"] exI [of _ "x1 # xs2"] exI [of _ "y1 # ys2"]) simp
qed auto

text \<open>
  Slots that come into range are null pointers, by \<^verbatim>\<open>RTI_TSFM_DDS_DynamicDataPtr_initialize_w_params\<close>, which
  the sequence calls for each.
\<close>

definition null_initialized :: "'d option seq_api \<Rightarrow> bool" where
  "null_initialized a \<longleftrightarrow>
     (\<forall>n m s s'. seq_ensure_length a n m s = Some s' \<longrightarrow>
        (\<forall>i. length (seq_buf s) \<le> i \<longrightarrow> i < unat n \<longrightarrow> seq_buf s' ! i = None))"

definition pad_null :: "nat \<Rightarrow> 'd option list \<Rightarrow> 'd option list" where
  "pad_null n xs = xs @ replicate (n - length xs) None"

lemma ensure_length_pad:
  assumes "seq_laws a" "null_initialized a" "seq_ensure_length a (of_nat n) m s = Some s'"
    and "length (seq_buf s) \<le> n" "n < 2147483648"
  shows "seq_buf s' = pad_null n (seq_buf s)"
proof -
  have u: "unat (of_nat n :: u32) = n" using assms(5) by (intro unat_of_nat_u32) simp
  have len: "length (seq_buf s') = n" and old: "take (length (seq_buf s)) (seq_buf s') = seq_buf s"
    using seq_ensure_lengthD [OF assms(1,3)] u assms(4) by simp_all
  have new: "seq_buf s' ! i = None" if "length (seq_buf s) \<le> i" "i < n" for i
    using assms(2,3) that u unfolding null_initialized_def by metis
  show ?thesis
  proof (rule nth_equalityI)
    show "length (seq_buf s') = length (pad_null n (seq_buf s))" using len assms(4) by (simp add: pad_null_def)
    fix i assume "i < length (seq_buf s')"
    then show "seq_buf s' ! i = pad_null n (seq_buf s) ! i"
      using new [of i] old len by (cases "i < length (seq_buf s)")
        (auto simp: pad_null_def nth_append dest: arg_cong [where f = "\<lambda>l. l ! i"])
  qed
qed

definition chosen_fn :: "('c, 's, 'd) user_plugin \<Rightarrow> tsfm_config \<Rightarrow> ('c, 's, 'd) user_fn" where
  "chosen_fn plugin config =
     (case tc_type config of
        TransformationKind_SERIALIZER \<Rightarrow> up_serialize_sample plugin
      | TransformationKind_DESERIALIZER \<Rightarrow> up_deserialize_sample plugin)"

definition buffer_ok :: "'d tsfm_env \<Rightarrow> 'd transformation \<Rightarrow> nat \<Rightarrow> bool" where
  "buffer_ok env self n \<longleftrightarrow>
     seq_laws (te_samples env) \<and> seq_total (te_samples env) \<and> null_initialized (te_samples env) \<and>
     te_contiguous_buffer env \<and> length (seq_buf (t_read_buffer self)) \<le> seq_max (t_read_buffer self) \<and>
     seq_max (t_read_buffer self) < 2147483648 \<and> \<not> seq_loaned (t_read_buffer self) \<and> n < 2147483648"

lemma transform_runs:
  assumes "buffer_ok env self (length ins)" "\<not> t_read_buffer_loaned self" "t_config self = Some config"
  defines "len \<equiv> max (seq_max (t_read_buffer self)) (length ins)"
  shows "\<exists>buffer. seq_buf buffer = pad_null len (seq_buf (t_read_buffer self)) \<and> len \<le> seq_max buffer \<and>
     RTI_TSFM_Transformation_transform env plugin cfg ins st self =
       (case transform_loop env (chosen_fn plugin config) cfg 0 ins st (seq_buf buffer) 0 of
          None \<Rightarrow> None
        | Some (ok, st1, ins1, outs, n) \<Rightarrow>
            let t2 = self\<lparr>t_read_buffer := buffer\<lparr>seq_buf := outs\<rparr>\<rparr> in
            if \<not> ok then Some (DDS_RETCODE_ERROR, st1, t2, ins1, None)
            else Some (DDS_RETCODE_OK, st1, t2\<lparr>t_read_buffer_loaned := True\<rparr>, ins1, Some (outs, n)))"
proof -
  have small: "len < 2147483648" using assms(1) by (simp add: len_def buffer_ok_def)
  obtain buffer where e: "seq_ensure_length (te_samples env) (of_nat len) (of_nat len) (t_read_buffer self) = Some buffer"
      and u: "unat (of_nat len :: u32) = len"
    using assms(1) small seq_grow [of "te_samples env"] unfolding buffer_ok_def by blast
  have "seq_buf buffer = pad_null len (seq_buf (t_read_buffer self))"
    using assms(1) small by (intro ensure_length_pad [OF _ _ e]) (auto simp: buffer_ok_def len_def)
  moreover have "len \<le> seq_max buffer"
    using seq_ensure_lengthD(4) [OF _ e] u assms(1) by (simp add: buffer_ok_def)
  ultimately show ?thesis
    using assms e
    by (intro exI [of _ buffer])
      (simp add: RTI_TSFM_Transformation_transform_def buffer_ok_def chosen_fn_def Let_def split: option.split)
qed

text \<open>
  Claim C16. When all samples of a read are valid, a transformation that has no loan outstanding delivers
  exactly the results of its user function on them, in order and one per input, in the reused or
  newly created samples of its read buffer, and the buffer is then on loan.
\<close>

theorem transform_delivers:
  assumes "buffer_ok env self (length xs)" "\<not> t_read_buffer_loaned self" "t_config self = Some config"
    and "length ys = length xs"
    and "\<forall>j < length xs. slot_sample env (pad_null (length xs) (seq_buf (t_read_buffer self))) j = Some (ys ! j)"
    and "transform_all (chosen_fn plugin config) cfg st (zip xs ys) = Some (st1, xs1, ys1)"
  shows "\<exists>t1 outs. RTI_TSFM_Transformation_transform env plugin cfg (map (\<lambda>x. (Some x, True)) xs) st self =
           Some (DDS_RETCODE_OK, st1, t1, map Some xs1, Some (outs, length xs)) \<and>
         take (length xs) outs = map Some ys1 \<and> seq_buf (t_read_buffer t1) = outs \<and> t_read_buffer_loaned t1"
proof -
  let ?ins = "map (\<lambda>x. (Some x, True)) xs" and ?n = "length xs"
  let ?len = "max (seq_max (t_read_buffer self)) (length ?ins)"
  let ?buf = "pad_null ?len (seq_buf (t_read_buffer self))"
  have "buffer_ok env self (length ?ins)" using assms(1) by simp
  note run = transform_runs [OF this assms(2,3), of plugin cfg st]
  have ins: "?ins = map (\<lambda>(x, y). (Some x, True)) (zip xs ys)"
    using assms(4) by (intro nth_equalityI) simp_all
  have buflen: "?n \<le> length ?buf" by (simp add: pad_null_def)
  have slot: "slot_sample env ?buf j = slot_sample env (pad_null ?n (seq_buf (t_read_buffer self))) j" if "j < ?n" for j
    using that by (auto simp: slot_sample_def pad_null_def nth_append)
  have ys1: "length ys1 = ?n" using length_transform_all [OF assms(6)] assms(4) by simp
  have "transform_loop env (chosen_fn plugin config) cfg 0 ?ins st ?buf 0 =
      Some (True, st1, map Some xs1, map Some ys1 @ drop ?n ?buf, ?n)"
    unfolding ins using transform_loop_all [OF assms(6), of env ?buf 0 0] assms(4,5) slot buflen by simp
  with run ys1 show ?thesis by (auto simp: Let_def)
qed


text \<open>What the loop does to the slots, valid or not.\<close>

lemma transform_loop_slots:
  assumes "transform_loop env fn cfg i ins st outs n = Some (True, st1, ins1, outs1, n1)"
    and "i + length ins \<le> length outs"
  shows "n1 = n + length (filter snd ins) \<and> length outs1 = length outs \<and>
    (\<forall>k < i. outs1 ! k = outs ! k) \<and> (\<forall>j < length ins. \<not> snd (ins ! j) \<longrightarrow> outs1 ! (i + j) = outs ! (i + j))"
  using assms
proof (induction ins arbitrary: i st st1 ins1 outs outs1 n n1)
  case (Cons a ins)
  obtain x v where a: "a = (x, v)" by (cases a)
  show ?case
  proof (cases v)
    case False
    with Cons.prems a obtain ins2 where
      "transform_loop env fn cfg (Suc i) ins st outs n = Some (True, st1, ins2, outs1, n1)" by auto
    from Cons.IH [OF this] Cons.prems(2) a False show ?thesis by (auto simp: nth_Cons split: nat.splits)
  next
    case True
    let ?outs = "\<lambda>y. outs[i := Some y]"
    from True Cons.prems(1) a obtain y ins2 st2 where
      "transform_loop env fn cfg (Suc i) ins st2 (?outs y) (Suc n) = Some (True, st1, ins2, outs1, n1)"
      by (auto simp: Let_def split: option.splits if_splits)
    from Cons.IH [OF this] Cons.prems(2) a True show ?thesis by (auto simp: nth_Cons split: nat.splits)
  qed
qed simp

lemma count_valid_bound:
  assumes "k < j" "j < length ins" "\<not> snd (ins ! k)" "\<forall>i. j < i \<longrightarrow> i < length ins \<longrightarrow> \<not> snd (ins ! i)"
  shows "length (filter snd ins) \<le> j"
proof -
  have "{i. i < length ins \<and> snd (ins ! i)} \<subseteq> {..j} - {k}" using assms by (force simp: not_less)
  then have "card {i. i < length ins \<and> snd (ins ! i)} \<le> card ({..j} - {k})" by (intro card_mono) auto
  then show ?thesis using assms(1) by (simp add: length_filter_conv_card)
qed

text \<open>
  A sample without valid data is skipped but keeps its place: after a successful transformation
  the number of delivered samples is the number of valid inputs, the slot of an invalid input holds
  what it held before, and a valid sample that comes after an invalid one and is the last one lies
  beyond the delivered samples, so that it is lost.
\<close>

theorem transform_invalid_loses_last:
  assumes "buffer_ok env self (length ins)" "\<not> t_read_buffer_loaned self" "t_config self = Some config"
    and "RTI_TSFM_Transformation_transform env plugin cfg ins st self =
           Some (DDS_RETCODE_OK, st1, t1, ins1, Some (outs, n))"
    and "k < j" "j < length ins" "\<not> snd (ins ! k)" "snd (ins ! j)"
    and "\<forall>i. j < i \<longrightarrow> i < length ins \<longrightarrow> \<not> snd (ins ! i)"
  shows "n = length (filter snd ins) \<and> n \<le> j \<and>
         outs ! k = pad_null (length ins) (seq_buf (t_read_buffer self)) ! k"
proof -
  let ?len = "max (seq_max (t_read_buffer self)) (length ins)"
  let ?buf = "pad_null ?len (seq_buf (t_read_buffer self))"
  have "transform_loop env (chosen_fn plugin config) cfg 0 ins st ?buf 0 = Some (True, st1, ins1, outs, n)"
    using transform_runs [OF assms(1-3), of plugin cfg st] assms(4)
    by (cases "transform_loop env (chosen_fn plugin config) cfg 0 ins st ?buf 0")
      (auto simp: Let_def split: if_splits)
  note slots = transform_loop_slots [OF this]
  have "length ins \<le> length ?buf" by (simp add: pad_null_def)
  then have "n = length (filter snd ins)" "outs ! k = ?buf ! k" using slots assms(5-7) by auto
  moreover have "?buf ! k = pad_null (length ins) (seq_buf (t_read_buffer self)) ! k"
    using assms(5,6) by (auto simp: pad_null_def nth_append)
  ultimately show ?thesis using count_valid_bound [OF assms(5-7,9)] by simp
qed

text \<open>With the mutex compiled in, an update of a transformation never comes back.\<close>

lemma update_deadlocks:
  "te_use_mutex env \<Longrightarrow> te_mutex_take env \<Longrightarrow> T_update env properties self = None"
  by (auto simp: T_update_def RTI_TSFM_Mutex_take_def RTI_TSFM_Transformation_update_def)

text \<open>A plugin whose list of transformations cannot be initialised is freed twice.\<close>

lemma plugin_new_double_free:
  "te_plugin_alloc env \<Longrightarrow> te_user_plugin_alloc env \<Longrightarrow> (te_use_mutex env \<longrightarrow> te_mutex_initialize env) \<Longrightarrow>
   \<not> te_transforms_initialize env \<Longrightarrow> TPlugin_new env properties = None"
  by (auto simp: TPlugin_new_def RTI_TSFM_TransformationPlugin_initialize_static_def Let_def
      RTI_TSFM_TransformationPlugin_finalize_def seq_empty_def)

section \<open>The list of transformations\<close>

definition plugin_env_ok :: "'d tsfm_env \<Rightarrow> bool" where
  "plugin_env_ok env \<longleftrightarrow> seq_laws (te_transforms env) \<and> seq_total (te_transforms env) \<and>
     (te_use_mutex env \<longrightarrow> te_mutex_take env \<and> te_mutex_give env)"

definition plugin_inv :: "tsfm_plugin \<Rightarrow> bool" where
  "plugin_inv p \<longleftrightarrow> distinct (seq_buf (pl_transforms p)) \<and> \<not> pl_locked p \<and>
     length (seq_buf (pl_transforms p)) \<le> seq_max (pl_transforms p) \<and> \<not> seq_loaned (pl_transforms p)"

lemma locked_plugin_run:
  assumes "plugin_env_ok env" "\<not> pl_locked p" "\<And>q. pl_locked (snd (f q)) = pl_locked q"
    and "\<And>q b. f (q\<lparr>pl_locked := b\<rparr>) = (fst (f q), (snd (f q))\<lparr>pl_locked := b\<rparr>)"
  shows "locked_plugin env dflt f p = Some (f p)"
proof -
  have "(snd (f p))\<lparr>pl_locked := False\<rparr> = snd (f p)" using assms(2) assms(3) [of p] by simp
  with assms show ?thesis
    by (cases "f p") (auto simp: locked_plugin_def plugin_env_ok_def RTI_TSFM_Mutex_take_def RTI_TSFM_Mutex_give_def)
qed


lemma initialize_transformation_ok:
  assumes "plugin_env_ok env" "length (seq_buf (pl_transforms p)) < 2147483647" "\<not> seq_loaned (pl_transforms p)"
  shows "\<exists>s. RTI_TSFM_TransformationPlugin_initialize_transformation env k p =
           (DDS_RETCODE_OK, p\<lparr>pl_transforms := s\<rparr>) \<and> seq_buf s = seq_buf (pl_transforms p) @ [k] \<and>
         length (seq_buf s) \<le> seq_max s \<and> \<not> seq_loaned s"
proof -
  let ?n = "length (seq_buf (pl_transforms p))" and ?a = "te_transforms env"
  let ?w = "of_nat (?n + 1) :: u32"
  have "seq_total ?a" "\<not> seq_loaned (pl_transforms p)" "?n + 1 < 2147483648"
    using assms by (simp_all add: plugin_env_ok_def)
  then obtain s where e: "seq_ensure_length ?a ?w ?w (pl_transforms p) = Some s" and u: "unat ?w = ?n + 1"
    by (rule seq_grow)
  have laws: "seq_laws ?a" using assms(1) by (simp add: plugin_env_ok_def)
  have "(seq_buf s)[?n := k] = seq_buf (pl_transforms p) @ [k]" using seq_append_one [OF laws e] u by simp
  moreover have "?n + 1 \<le> seq_max s" "\<not> seq_loaned s"
    using seq_ensure_lengthD(3,4) [OF laws e] u assms(3) by simp_all
  ultimately show ?thesis
    using e
    by (intro exI [of _ "s\<lparr>seq_buf := seq_buf (pl_transforms p) @ [k]\<rparr>"])
      (simp add: RTI_TSFM_TransformationPlugin_initialize_transformation_def Let_def)
qed

lemma finalize_transformation_ok:
  assumes "plugin_env_ok env" "plugin_inv p" "length (seq_buf (pl_transforms p)) < 2147483648"
  shows "\<exists>s. snd (RTI_TSFM_TransformationPlugin_finalize_transformation env k p) = p\<lparr>pl_transforms := s\<rparr> \<and>
           seq_buf s = filter (\<lambda>x. x \<noteq> k) (seq_buf (pl_transforms p)) \<and> length (seq_buf s) \<le> seq_max s \<and>
           \<not> seq_loaned s \<and>
           (k \<in> set (seq_buf (pl_transforms p)) \<longrightarrow>
              fst (RTI_TSFM_TransformationPlugin_finalize_transformation env k p) = DDS_RETCODE_OK)"
proof (cases "find_index (\<lambda>t. k = t) (seq_buf (pl_transforms p))")
  case None
  then have "k \<notin> set (seq_buf (pl_transforms p))" by (auto simp: find_index_None)
  then have "filter (\<lambda>x. x \<noteq> k) (seq_buf (pl_transforms p)) = seq_buf (pl_transforms p)"
    by (auto intro: filter_True)
  with None assms(2) \<open>k \<notin> _\<close> show ?thesis
    by (intro exI [of _ "pl_transforms p"])
      (simp add: RTI_TSFM_TransformationPlugin_finalize_transformation_def plugin_inv_def)
next
  case (Some i)
  let ?s = "pl_transforms p" and ?a = "te_transforms env"
  let ?s1 = "?s\<lparr>seq_buf := shift_left (seq_buf ?s) i\<rparr>"
  let ?w = "of_nat (length (seq_buf ?s) - 1) :: u32"
  have r: "take (length (seq_buf ?s) - 1) (shift_left (seq_buf ?s) i) = filter (\<lambda>x. x \<noteq> k) (seq_buf ?s)"
      "length (shift_left (seq_buf ?s) i) = length (seq_buf ?s)"
    using remove_by_key [of k "\<lambda>x. x"] Some assms(2) by (auto simp: plugin_inv_def)
  have u: "unat ?w = length (seq_buf ?s) - 1" using assms(3) by (intro unat_of_nat_u32) simp
  have "length (seq_buf ?s) \<le> seq_max ?s" using assms(2) by (simp add: plugin_inv_def)
  then have "unat ?w \<le> seq_max ?s1" unfolding u by simp
  then obtain s2 where s2: "seq_set_length ?a ?w ?s1 = Some s2"
    using assms(1) unfolding plugin_env_ok_def seq_total_def by (metis not_None_eq)
  have laws: "seq_laws ?a" using assms(1) by (simp add: plugin_env_ok_def)
  note d = seq_set_lengthD [OF laws s2]
  have "seq_buf s2 = filter (\<lambda>x. x \<noteq> k) (seq_buf ?s)" using d(5) u r by simp
  moreover have "length (seq_buf s2) \<le> seq_max s2" "\<not> seq_loaned s2"
    using d(1-4) assms(2) by (simp_all add: plugin_inv_def)
  ultimately show ?thesis
    using Some s2
    by (intro exI [of _ s2]) (simp add: RTI_TSFM_TransformationPlugin_finalize_transformation_def Let_def)
qed

interpretation transforms: registry plugin_env_ok plugin_inv "\<lambda>p. seq_buf (pl_transforms p)" 2147483647
  "\<lambda>env k p. snd (RTI_TSFM_TransformationPlugin_initialize_transformation env k p)"
  "\<lambda>env k p. snd (RTI_TSFM_TransformationPlugin_finalize_transformation env k p)"
proof
  fix e :: "'a tsfm_env" and p k
  assume a: "plugin_env_ok e" "plugin_inv p"
  { assume "k \<notin> set (seq_buf (pl_transforms p))" "length (seq_buf (pl_transforms p)) < 2147483647"
    then show "plugin_inv (snd (RTI_TSFM_TransformationPlugin_initialize_transformation e k p)) \<and>
      seq_buf (pl_transforms (snd (RTI_TSFM_TransformationPlugin_initialize_transformation e k p))) =
        seq_buf (pl_transforms p) @ [k]"
      using initialize_transformation_ok [OF a(1), of p k] a(2) by (auto simp: plugin_inv_def) }
  assume "length (seq_buf (pl_transforms p)) \<le> 2147483647"
  then show "plugin_inv (snd (RTI_TSFM_TransformationPlugin_finalize_transformation e k p)) \<and>
      seq_buf (pl_transforms (snd (RTI_TSFM_TransformationPlugin_finalize_transformation e k p))) =
        filter (\<lambda>x. x \<noteq> k) (seq_buf (pl_transforms p))"
    using finalize_transformation_ok [OF a, of k] a(2) by (auto simp: plugin_inv_def)
qed (simp add: plugin_inv_def)


text \<open>Neither function of the list looks at the mutex.\<close>

lemma registry_ops_lock [simp]:
  "pl_locked (snd (RTI_TSFM_TransformationPlugin_initialize_transformation env k p)) = pl_locked p"
  "pl_locked (snd (RTI_TSFM_TransformationPlugin_finalize_transformation env k p)) = pl_locked p"
  "RTI_TSFM_TransformationPlugin_initialize_transformation env k (p\<lparr>pl_locked := b\<rparr>) =
     (fst (RTI_TSFM_TransformationPlugin_initialize_transformation env k p),
      (snd (RTI_TSFM_TransformationPlugin_initialize_transformation env k p))\<lparr>pl_locked := b\<rparr>)"
  "RTI_TSFM_TransformationPlugin_finalize_transformation env k (p\<lparr>pl_locked := b\<rparr>) =
     (fst (RTI_TSFM_TransformationPlugin_finalize_transformation env k p),
      (snd (RTI_TSFM_TransformationPlugin_finalize_transformation env k p))\<lparr>pl_locked := b\<rparr>)"
  by (simp_all add: RTI_TSFM_TransformationPlugin_initialize_transformation_def
      RTI_TSFM_TransformationPlugin_finalize_transformation_def Let_def split: option.split)

lemma create_transformation_eq:
  assumes "plugin_env_ok env" "\<not> pl_locked p"
  shows "TPlugin_create_transformation env ty k name properties p =
     Some (case T_new env ty name properties of
         (rc, transform) \<Rightarrow>
           if rc \<noteq> DDS_RETCODE_OK then (None, p)
           else
             case RTI_TSFM_TransformationPlugin_initialize_transformation env k p of
               (rc, p) \<Rightarrow> if rc \<noteq> DDS_RETCODE_OK then (None, p) else (transform, p))"
  unfolding TPlugin_create_transformation_def
  by (subst locked_plugin_run [OF assms]) (auto simp: case_prod_beta)

lemma delete_transformation_eq:
  assumes "plugin_env_ok env" "\<not> pl_locked p"
  shows "TPlugin_delete_transformation env k transform p =
     Some (case RTI_TSFM_TransformationPlugin_finalize_transformation env k p of
         (rc, p) \<Rightarrow> if rc \<noteq> DDS_RETCODE_OK then (None, p) else (Some (T_delete env transform), p))"
  unfolding TPlugin_delete_transformation_def
  by (subst locked_plugin_run [OF assms]) (auto simp: case_prod_beta)

text \<open>
  Creating a transformation and deleting it again leaves the plugin with the list of
  transformations and the free mutex it had; in between the list has the new one at its end, and
  the deletion finds it and deletes the samples of its buffer.
\<close>

theorem create_delete_transformation:
  assumes "plugin_env_ok env" "plugin_inv p" "k \<notin> set (seq_buf (pl_transforms p))"
    and "length (seq_buf (pl_transforms p)) < 2147483647" "T_new env ty name properties = (DDS_RETCODE_OK, Some t)"
  shows "\<exists>p1 p2. TPlugin_create_transformation env ty k name properties p = Some (Some t, p1) \<and>
           seq_buf (pl_transforms p1) = seq_buf (pl_transforms p) @ [k] \<and> plugin_inv p1 \<and>
           TPlugin_delete_transformation env k t' p1 = Some (Some (T_delete env t'), p2) \<and>
           seq_buf (pl_transforms p2) = seq_buf (pl_transforms p) \<and> plugin_inv p2"
proof -
  let ?p1 = "snd (RTI_TSFM_TransformationPlugin_initialize_transformation env k p)"
  let ?p2 = "snd (RTI_TSFM_TransformationPlugin_finalize_transformation env k ?p1)"
  have free: "\<not> pl_locked p" using assms(2) by (simp add: plugin_inv_def)
  have p1: "plugin_inv ?p1" "seq_buf (pl_transforms ?p1) = seq_buf (pl_transforms p) @ [k]"
    using transforms.add_ok [OF assms(1-4)] by auto
  have p2: "plugin_inv ?p2" "seq_buf (pl_transforms ?p2) = seq_buf (pl_transforms p)"
    using transforms.add_rem [OF assms(1,1-4)] by auto
  have "fst (RTI_TSFM_TransformationPlugin_initialize_transformation env k p) = DDS_RETCODE_OK"
    using initialize_transformation_ok [OF assms(1,4), of k] assms(2) by (auto simp: plugin_inv_def)
  then have "TPlugin_create_transformation env ty k name properties p = Some (Some t, ?p1)"
    using create_transformation_eq [OF assms(1) free, of ty k name properties] assms(5) by (auto split: prod.splits)
  moreover have "length (seq_buf (pl_transforms ?p1)) < 2147483648" using p1(2) assms(4) by simp
  then have "fst (RTI_TSFM_TransformationPlugin_finalize_transformation env k ?p1) = DDS_RETCODE_OK"
    using finalize_transformation_ok [OF assms(1) p1(1), of k] p1(2) by auto
  then have "TPlugin_delete_transformation env k t' ?p1 = Some (Some (T_delete env t'), ?p2)"
    using delete_transformation_eq [OF assms(1), of ?p1 k t'] free by (auto split: prod.splits)
  ultimately show ?thesis using p1 p2 by blast
qed

section \<open>Examples\<close>

text \<open>A user plugin on numbers that doubles its input, in an environment without failures.\<close>

definition double_plugin :: "(unit, unit, nat) user_plugin" where
  "double_plugin =
     \<lparr>up_serialize_sample = (\<lambda>_ _ x y. Some (DDS_RETCODE_OK, (), x, 2 * x)),
      up_deserialize_sample = (\<lambda>_ _ x y. Some (DDS_RETCODE_ERROR, (), x, y))\<rparr>"

definition double_type :: "(unit, unit, nat) ttype" where
  "double_type =
     \<lparr>ty_state_new = Some (), ty_config_new = Some (RTI_TSFM_TransformationConfig_DEFAULT, ()),
      ty_config_parse = (\<lambda>_ (c, u). (DDS_RETCODE_OK, c, u)), ty_user_plugin = double_plugin\<rparr>"

definition std_tsfm_env :: "'d \<Rightarrow> 'd tsfm_env" where
  "std_tsfm_env d =
     \<lparr>te_config_alloc = True, te_input_type_alloc = True, te_output_type_alloc = True, te_input_type_copy = True,
      te_output_type_copy = True, te_dup = (\<lambda>_. True), te_type_name_replace = True, te_tsupport_new = True,
      te_samples_initialize = True, te_samples_finalize = True, te_samples = std_seq None,
      te_contiguous_buffer = True, te_create_data = (\<lambda>_. Some d), te_clear_all_members = (\<lambda>_. d),
      te_use_mutex = False, te_mutex_initialize = True, te_mutex_finalize = True, te_mutex_take = True,
      te_mutex_give = True, te_transforms = std_seq 0, te_transforms_initialize = True,
      te_plugin_config_alloc = True, te_dll_alloc = True, te_create_fn_alloc = True, te_plugin_config_copy = True,
      te_plugin_alloc = True, te_user_plugin_alloc = True, te_transform_alloc = True\<rparr>"

definition example_tsfm_env :: "nat tsfm_env" where
  "example_tsfm_env = std_tsfm_env 0"

definition example_transformation :: "nat transformation" where
  "example_transformation =
     \<lparr>t_config = Some RTI_TSFM_TransformationConfig_DEFAULT, t_tsupport = True, t_read_buffer = seq_empty,
      t_read_buffer_loaned = False, t_locked = False\<rparr>"

lemma null_initialized_std [simp]: "null_initialized (std_seq None)"
  by (auto simp: null_initialized_def std_seq_def std_resize_def nth_append split: if_splits)

lemma example_buffer_ok: "n < 2147483648 \<Longrightarrow> buffer_ok example_tsfm_env example_transformation n"
  by (simp add: buffer_ok_def example_tsfm_env_def std_tsfm_env_def example_transformation_def seq_empty_def)

theorem transform_delivers_witness:
  "\<exists>t1 outs. RTI_TSFM_Transformation_transform example_tsfm_env double_plugin () [(Some 3, True), (Some 5, True)] ()
       example_transformation = Some (DDS_RETCODE_OK, (), t1, [Some 3, Some 5], Some (outs, 2)) \<and>
     take 2 outs = [Some 6, Some 10] \<and> seq_buf (t_read_buffer t1) = outs \<and> t_read_buffer_loaned t1"
  using transform_delivers [of example_tsfm_env example_transformation "[3, 5]" RTI_TSFM_TransformationConfig_DEFAULT
      "[0, 0]" double_plugin "()" "()" "()" "[3, 5]" "[6, 10]"] example_buffer_ok [of 2]
  by (simp add: example_transformation_def chosen_fn_def RTI_TSFM_TransformationConfig_DEFAULT_def double_plugin_def
      slot_sample_def pad_null_def seq_empty_def example_tsfm_env_def std_tsfm_env_def less_Suc_eq numeral_2_eq_2)

text \<open>An invalid sample before a valid one: the one sample that is delivered is a null pointer.\<close>

lemma replicate_two: "replicate 2 x = [x, x]"
  by (simp add: numeral_2_eq_2)

lemma example_invalid_transform:
  "RTI_TSFM_Transformation_transform example_tsfm_env double_plugin () [(Some 3, False), (Some 5, True)] ()
     example_transformation =
   Some (DDS_RETCODE_OK, (),
     example_transformation\<lparr>t_read_buffer := \<lparr>seq_buf = [None, Some 10], seq_max = 2, seq_loaned = False\<rparr>,
       t_read_buffer_loaned := True\<rparr>, [Some 3, Some 5], Some ([None, Some 10], 1))"
  by (simp add: RTI_TSFM_Transformation_transform_def example_tsfm_env_def std_tsfm_env_def example_transformation_def double_plugin_def
      std_seq_def std_resize_def seq_empty_def RTI_TSFM_TransformationConfig_DEFAULT_def Let_def replicate_two)

theorem transform_invalid_loses_last_witness:
  "\<exists>t1 ins1 outs n.
     RTI_TSFM_Transformation_transform example_tsfm_env double_plugin () [(Some 3, False), (Some 5, True)] ()
       example_transformation = Some (DDS_RETCODE_OK, (), t1, ins1, Some (outs, n)) \<and>
     n \<le> 1 \<and> outs ! 0 = None \<and> outs ! 1 = Some 10"
proof -
  have "(1 :: nat) \<le> 1 \<and> [None, Some (10 :: nat)] ! 0 = None"
    using transform_invalid_loses_last [OF _ _ _ example_invalid_transform, of RTI_TSFM_TransformationConfig_DEFAULT 0 1]
      example_buffer_ok [of 2]
    by (auto simp: example_transformation_def pad_null_def seq_empty_def numeral_2_eq_2)
  then show ?thesis using example_invalid_transform by auto
qed

definition example_plugin :: tsfm_plugin where
  "example_plugin =
     \<lparr>pl_transforms = \<lparr>seq_buf = [7], seq_max = 1, seq_loaned = False\<rparr>, pl_config = None, pl_user_plugin = True,
      pl_locked = False\<rparr>"

theorem create_delete_transformation_witness:
  "\<exists>t p1 p2. TPlugin_create_transformation example_tsfm_env double_type 8 ''T'' Map.empty example_plugin = Some (Some t, p1) \<and>
     seq_buf (pl_transforms p1) = [7, 8] \<and>
     TPlugin_delete_transformation example_tsfm_env 8 t p1 = Some (Some (T_delete example_tsfm_env t), p2) \<and>
     seq_buf (pl_transforms p2) = [7]"
proof -
  obtain t where t: "T_new example_tsfm_env double_type ''T'' Map.empty = (DDS_RETCODE_OK, Some t)"
    by (simp add: T_new_def double_type_def example_tsfm_env_def std_tsfm_env_def RTI_TSFM_Transformation_initialize_def Let_def
        RTI_TSFM_Transformation_create_type_support_def RTI_TSFM_TransformationConfig_DEFAULT_def)
  have e: "plugin_env_ok example_tsfm_env" by (simp add: plugin_env_ok_def example_tsfm_env_def std_tsfm_env_def)
  have i: "plugin_inv example_plugin" by (simp add: plugin_inv_def example_plugin_def)
  show ?thesis
    using create_delete_transformation [OF e i _ _ t, of 8 t]
    by (auto simp: example_plugin_def)
qed


end
