(* ===== verification/FieldTransformation.thy ===== *)
theory FieldTransformation
  imports Transformation CLib
begin

text \<open>
  The transformation of a single primitive field to text and back,
  \<^verbatim>\<open>plugins/transformations/field/srcC/PrimitiveFieldTransformation.c\<close> and \<^verbatim>\<open>FieldInfrastructure.c\<close>.

  Values of the floating types are elements of an arbitrary type \<open>'r\<close>; their conversions, and the
  output of \<^verbatim>\<open>printf\<close> for a format other than the default one, are parameters.  The buffer
  \<^verbatim>\<open>msg_payload\<close> is the C string in it; \<^verbatim>\<open>DDS_String_alloc(n)\<close> allocates \<open>n + 1\<close> bytes, so that it has
  \<^verbatim>\<open>msg_payload_size + 1\<close>.  Samples are accessed by member name through the parameters of the
  environment.

  The functions return \<open>None\<close> where the C code reads or writes outside a buffer or through a null
  pointer.
\<close>

section \<open>Types\<close>

datatype field_type =
    FieldType_UNKNOWN
  | FieldType_SHORT
  | FieldType_LONG
  | FieldType_USHORT
  | FieldType_ULONG
  | FieldType_FLOAT
  | FieldType_DOUBLE
  | FieldType_BOOLEAN
  | FieldType_CHAR
  | FieldType_OCTET
  | FieldType_STRING
  | FieldType_LONGLONG
  | FieldType_ULONGLONG
  | FieldType_LONGDOUBLE
  | FieldType_WCHAR
  | FieldType_WSTRING

definition RTI_TSFM_Field_FieldType_from_string :: "string \<Rightarrow> field_type option" where
  "RTI_TSFM_Field_FieldType_from_string str =
     (if str = ''short'' \<or> str = ''int16'' then Some FieldType_SHORT
      else if str = ''long'' \<or> str = ''int32'' then Some FieldType_LONG
      else if str = ''unsigned short'' \<or> str = ''uint16'' then Some FieldType_USHORT
      else if str = ''unsigned long'' \<or> str = ''uint32'' then Some FieldType_ULONG
      else if str = ''float'' then Some FieldType_FLOAT
      else if str = ''double'' then Some FieldType_DOUBLE
      else if str = ''boolean'' \<or> str = ''bool'' then Some FieldType_BOOLEAN
      else if str = ''char'' then Some FieldType_CHAR
      else if str = ''octet'' then Some FieldType_OCTET
      else if str = ''string'' then Some FieldType_STRING
      else if str = ''long long'' \<or> str = ''int64'' then Some FieldType_LONGLONG
      else if str = ''unsigned long long'' \<or> str = ''uint64'' then Some FieldType_ULONGLONG
      else if str = ''long double'' then Some FieldType_LONGDOUBLE
      else if str = ''wchar'' then Some FieldType_WCHAR
      else if str = ''wstring'' then Some FieldType_WSTRING
      else None)"

datatype 'r field_value =
    V_short "16 word"
  | V_long "32 word"
  | V_ushort "16 word"
  | V_ulong "32 word"
  | V_float 'r
  | V_double 'r
  | V_boolean octet
  | V_char char
  | V_octet octet
  | V_string string
  | V_longlong "64 word"
  | V_ulonglong "64 word"
  | V_longdouble 'r
  | V_wchar "16 word"
  | V_wstring "16 word list"

record field_config =
  fc_buffer_member :: string
  fc_field :: string
  fc_field_type :: field_type
  fc_max_serialized_size :: u32
  fc_serialization_format :: string

record field_state =
  fs_msg_payload :: "string option"
  fs_msg_payload_size :: nat

record ('r, 'd) field_env =
  fe_tsfm :: "'d tsfm_env"
  fe_get :: "field_type \<Rightarrow> string \<Rightarrow> 'd \<Rightarrow> 'r field_value option"
  fe_set :: "string \<Rightarrow> 'r field_value \<Rightarrow> 'd \<Rightarrow> 'd option"
  fe_set_null_string :: "string \<Rightarrow> 'd \<Rightarrow> 'd option"
  fe_get_octet_seq :: "string \<Rightarrow> 'd \<Rightarrow> octet dds_seq option"
  fe_set_octet_seq :: "string \<Rightarrow> octet list \<Rightarrow> 'd \<Rightarrow> 'd option"
  fe_octets :: "octet seq_api"
  fe_spare :: "octet dds_seq \<Rightarrow> octet list"
  fe_printf :: "string \<Rightarrow> 'r field_value \<Rightarrow> string"
  fe_wprintf :: "string \<Rightarrow> 16 word list \<Rightarrow> string option"
  fe_strtod :: "string \<Rightarrow> 'r"
  fe_to_float :: "'r \<Rightarrow> 'r"
  fe_dup :: "string \<Rightarrow> bool"
  fe_payload_alloc :: "nat \<Rightarrow> bool"
  fe_state_alloc :: bool
  fe_config_alloc :: "nat \<Rightarrow> bool"

section \<open>Configuration and state\<close>

definition default_fmt :: "field_type \<Rightarrow> string option" where
  "default_fmt t =
     (case t of
        FieldType_SHORT \<Rightarrow> Some ''%hd''
      | FieldType_LONG \<Rightarrow> Some ''%d''
      | FieldType_USHORT \<Rightarrow> Some ''%hu''
      | FieldType_ULONG \<Rightarrow> Some ''%u''
      | FieldType_FLOAT \<Rightarrow> Some ''%f''
      | FieldType_DOUBLE \<Rightarrow> Some ''%f''
      | FieldType_BOOLEAN \<Rightarrow> Some ''%d''
      | FieldType_CHAR \<Rightarrow> Some ''%c''
      | FieldType_OCTET \<Rightarrow> Some ''%x''
      | FieldType_STRING \<Rightarrow> Some ''%s''
      | FieldType_LONGLONG \<Rightarrow> Some ''%lld''
      | FieldType_ULONGLONG \<Rightarrow> Some ''%llu''
      | FieldType_LONGDOUBLE \<Rightarrow> Some ''%Lf''
      | FieldType_WCHAR \<Rightarrow> Some ''%c''
      | FieldType_WSTRING \<Rightarrow> Some ''%c''
      | FieldType_UNKNOWN \<Rightarrow> None)"

definition field_property_steps ::
    "('r, 'd) field_env \<Rightarrow> properties \<Rightarrow> (field_config \<Rightarrow> field_config option) list" where
  "field_property_steps env properties =
     [lookup_property properties ''buffer_member''
        (\<lambda>pval c. if fe_dup env ''buffer_member'' then Some (c\<lparr>fc_buffer_member := pval\<rparr>) else None),
      lookup_property properties ''field''
        (\<lambda>pval c. if fe_dup env ''field'' then Some (c\<lparr>fc_field := pval\<rparr>) else None),
      lookup_property properties ''serialization_format''
        (\<lambda>pval c. if fe_dup env ''serialization_format''
                   then Some (c\<lparr>fc_serialization_format := pval\<rparr>) else None),
      lookup_property properties ''max_serialized_size''
        (\<lambda>pval c. let v = word_of_int (strtol pval) in
                   if v = 0 then None else Some (c\<lparr>fc_max_serialized_size := v\<rparr>)),
      lookup_property properties ''field_type''
        (\<lambda>pval c. map_option (\<lambda>t. c\<lparr>fc_field_type := t\<rparr>) (RTI_TSFM_Field_FieldType_from_string pval)),
      (\<lambda>c. if default_fmt (fc_field_type c) = None then None else Some c),
      (\<lambda>c. Some (if fc_max_serialized_size c = 0 then c\<lparr>fc_max_serialized_size := 255\<rparr> else c)),
      (\<lambda>c. if fc_serialization_format c \<noteq> [] then Some c
            else if \<not> fe_dup env ''default_fmt'' then None
            else map_option (\<lambda>f. c\<lparr>fc_serialization_format := f\<rparr>) (default_fmt (fc_field_type c)))]"

definition RTI_TSFM_Field_PrimitiveTransformationConfig_parse_from_properties ::
    "('r, 'd) field_env \<Rightarrow> properties \<Rightarrow> tsfm_config \<times> field_config \<Rightarrow> retcode \<times> tsfm_config \<times> field_config" where
  "RTI_TSFM_Field_PrimitiveTransformationConfig_parse_from_properties env properties self =
     (case RTI_TSFM_TransformationConfig_parse_from_properties (fe_tsfm env) (fst self) properties of
        (rc, parent) \<Rightarrow>
          if rc \<noteq> DDS_RETCODE_OK then (DDS_RETCODE_ERROR, parent, snd self)
          else case run_steps (field_property_steps env properties) (snd self) of (rc, c) \<Rightarrow> (rc, parent, c))"

text \<open>The configuration object is allocated with its five strings.\<close>

definition RTI_TSFM_Field_PrimitiveTransformationConfigTypeSupport_create_data ::
    "('r, 'd) field_env \<Rightarrow> (tsfm_config \<times> field_config) option" where
  "RTI_TSFM_Field_PrimitiveTransformationConfigTypeSupport_create_data env =
     (if \<forall>k < 6. fe_config_alloc env k then
        Some (\<lparr>tc_type = TransformationKind_SERIALIZER, tc_input_type = [], tc_output_type = []\<rparr>,
              \<lparr>fc_buffer_member = [], fc_field = [], fc_field_type = FieldType_UNKNOWN, fc_max_serialized_size = 0,
               fc_serialization_format = []\<rparr>)
      else None)"

text \<open>The state starts with an empty string in a buffer of size 0, not with a null pointer.\<close>

definition RTI_TSFM_Field_PrimitiveTransformationStateTypeSupport_create_data ::
    "('r, 'd) field_env \<Rightarrow> field_state option" where
  "RTI_TSFM_Field_PrimitiveTransformationStateTypeSupport_create_data env =
     (if fe_state_alloc env \<and> fe_payload_alloc env 0
      then Some \<lparr>fs_msg_payload = Some [], fs_msg_payload_size = 0\<rparr> else None)"

section \<open>From a field to text\<close>

text \<open>What \<^verbatim>\<open>printf\<close> prints with the default format of the type; \<open>None\<close> for the floating types.\<close>

definition default_text :: "'r field_value \<Rightarrow> string option" where
  "default_text v =
     (case v of
        V_short w \<Rightarrow> Some (show_int (sint w))
      | V_long w \<Rightarrow> Some (show_int (sint w))
      | V_ushort w \<Rightarrow> Some (show_nat (unat w))
      | V_ulong w \<Rightarrow> Some (show_nat (unat w))
      | V_boolean w \<Rightarrow> Some (show_nat (unat w))
      | V_char c \<Rightarrow> Some [c]
      | V_octet w \<Rightarrow> Some (show_base 16 (unat w))
      | V_string s \<Rightarrow> Some s
      | V_longlong w \<Rightarrow> Some (show_int (sint w))
      | V_ulonglong w \<Rightarrow> Some (show_nat (unat w))
      | V_wchar w \<Rightarrow> Some [char_of (unat w)]
      | _ \<Rightarrow> None)"

definition field_text :: "('r, 'd) field_env \<Rightarrow> field_type \<Rightarrow> string \<Rightarrow> 'r field_value \<Rightarrow> string" where
  "field_text env t fmt v =
     (case default_text v of
        Some s \<Rightarrow> if default_fmt t = Some fmt then s else fe_printf env fmt v
      | None \<Rightarrow> fe_printf env fmt v)"

text \<open>
  The loop for a wide string passes a pointer to each position to \<^verbatim>\<open>sprintf\<close>, which writes without a
  bound.
\<close>

fun wstring_loop :: "('r, 'd) field_env \<Rightarrow> string \<Rightarrow> nat \<Rightarrow> 16 word list \<Rightarrow> string \<Rightarrow> string option" where
  "wstring_loop env fmt n [] buf = Some buf"
| "wstring_loop env fmt n (w # ws) buf =
     (case fe_wprintf env fmt (w # ws) of
        None \<Rightarrow> None
      | Some s \<Rightarrow>
          if length buf + length s > n then None else wstring_loop env fmt n ws (buf @ takeWhile (\<lambda>c. c \<noteq> NUL) s))"

definition write_payload ::
    "('r, 'd) field_env \<Rightarrow> field_config \<Rightarrow> nat \<Rightarrow> 'r field_value \<Rightarrow> string \<Rightarrow> string option" where
  "write_payload env cfg n v old =
     (case v of
        V_wstring ws \<Rightarrow>
          if ws = [] then Some old else wstring_loop env (fc_serialization_format cfg) n ws []
      | _ \<Rightarrow> Some (snprintf n (field_text env (fc_field_type cfg) (fc_serialization_format cfg) v) old))"

definition RTI_TSFM_Field_PrimitiveTransformation_serialize ::
    "('r, 'd) field_env \<Rightarrow> (field_config, field_state, 'd) user_fn" where
  "RTI_TSFM_Field_PrimitiveTransformation_serialize env cfg st sample_in sample_out =
     (let st1 = (if fs_msg_payload st = None
                 then st\<lparr>fs_msg_payload_size := unat (fc_max_serialized_size cfg),
                         fs_msg_payload := (if fe_payload_alloc env (unat (fc_max_serialized_size cfg)) then Some [] else None)\<rparr>
                 else st) in
      case fs_msg_payload st1 of
        None \<Rightarrow> Some (DDS_RETCODE_ERROR, st1, sample_in, sample_out)
      | Some old \<Rightarrow>
          if fc_field_type cfg = FieldType_UNKNOWN then Some (DDS_RETCODE_ERROR, st1, sample_in, sample_out)
          else
            case fe_get env (fc_field_type cfg) (fc_field cfg) sample_in of
              None \<Rightarrow> Some (DDS_RETCODE_ERROR, st1, sample_in, sample_out)
            | Some v \<Rightarrow>
                case write_payload env cfg (fs_msg_payload_size st1) v old of
                  None \<Rightarrow> None
                | Some text \<Rightarrow>
                    let st2 = st1\<lparr>fs_msg_payload := Some text\<rparr> in
                    case seq_loan (fe_octets env) (map of_char text) (of_nat (length text))
                           (of_nat (fs_msg_payload_size st1)) seq_empty of
                      None \<Rightarrow> Some (DDS_RETCODE_ERROR, st2, sample_in, sample_out)
                    | Some buffer_seq \<Rightarrow>
                        case fe_set_octet_seq env (fc_buffer_member cfg) (seq_buf buffer_seq) sample_out of
                          None \<Rightarrow> Some (DDS_RETCODE_ERROR, st2, sample_in, sample_out)
                        | Some out1 \<Rightarrow> Some (DDS_RETCODE_OK, st2, sample_in, out1))"

section \<open>From text to a field\<close>

text \<open>The value that is set; \<open>None\<close> for an error.  A string member is set to the null pointer.\<close>

definition field_of_text ::
    "('r, 'd) field_env \<Rightarrow> field_type \<Rightarrow> string \<Rightarrow> 'r field_value option" where
  "field_of_text env t s =
     (case t of
        FieldType_SHORT \<Rightarrow> Some (V_short (word_of_int (strtol s)))
      | FieldType_LONG \<Rightarrow> Some (V_long (word_of_int (strtol s)))
      | FieldType_USHORT \<Rightarrow> Some (V_ushort (word_of_int (strtoul s)))
      | FieldType_ULONG \<Rightarrow> Some (V_ulong (word_of_int (strtoul s)))
      | FieldType_FLOAT \<Rightarrow> Some (V_float (fe_to_float env (fe_strtod env s)))
      | FieldType_DOUBLE \<Rightarrow> Some (V_double (fe_strtod env s))
      | FieldType_BOOLEAN \<Rightarrow>
          (let b = word_of_int (strtol s) in if b = 1 \<or> b = 0 then Some (V_boolean b) else None)
      | FieldType_CHAR \<Rightarrow> Some (V_char (case s of [] \<Rightarrow> NUL | c # _ \<Rightarrow> c))
      | FieldType_OCTET \<Rightarrow> Some (V_octet (word_of_int (strtol s)))
      | FieldType_LONGLONG \<Rightarrow> Some (V_longlong (word_of_int (strtol s)))
      | FieldType_ULONGLONG \<Rightarrow> Some (V_ulonglong (word_of_int (strtol s)))
      | _ \<Rightarrow> None)"

text \<open>
  The payload is copied into the buffer of the state, \<^verbatim>\<open>msg_payload_size\<close> bytes of it whatever its
  length; \<open>fe_spare\<close> is what the memory of the sequence holds after its last element.  A successful
  allocation of a larger buffer is taken for an error.  The field is set in the input sample.
\<close>

definition RTI_TSFM_Field_PrimitiveTransformation_deserialize ::
    "('r, 'd) field_env \<Rightarrow> (field_config, field_state, 'd) user_fn" where
  "RTI_TSFM_Field_PrimitiveTransformation_deserialize env cfg st sample_in sample_out =
     (case fe_get_octet_seq env (fc_buffer_member cfg) sample_in of
        None \<Rightarrow> Some (DDS_RETCODE_ERROR, st, sample_in, sample_out)
      | Some buffer_seq \<Rightarrow>
          if seq_max buffer_seq = 0 then Some (DDS_RETCODE_ERROR, st, sample_in, sample_out)
          else
            let buffer_seq_len = length (seq_buf buffer_seq) in
            if buffer_seq_len > fs_msg_payload_size st then
              (if fe_payload_alloc env buffer_seq_len
               then Some (DDS_RETCODE_ERROR,
                      st\<lparr>fs_msg_payload_size := buffer_seq_len, fs_msg_payload := Some []\<rparr>, sample_in, sample_out)
               else None)
            else if fs_msg_payload st = None \<or> fs_msg_payload_size st > seq_max buffer_seq then None
            else
              let bytes = take (fs_msg_payload_size st) (seq_buf buffer_seq @ fe_spare env buffer_seq);
                  text = takeWhile (\<lambda>c. c \<noteq> NUL) (map (\<lambda>w. char_of (unat w)) bytes);
                  st1 = st\<lparr>fs_msg_payload := Some text\<rparr>;
                  fail = Some (DDS_RETCODE_ERROR, st1, sample_in, sample_out) in
              if fc_field_type cfg = FieldType_STRING then
                case fe_set_null_string env (fc_field cfg) sample_in of
                  None \<Rightarrow> fail
                | Some in1 \<Rightarrow> Some (DDS_RETCODE_OK, st1, in1, sample_out)
              else
                case field_of_text env (fc_field_type cfg) text of
                  None \<Rightarrow> fail
                | Some v \<Rightarrow>
                    case fe_set env (fc_field cfg) v sample_in of
                      None \<Rightarrow> fail
                    | Some in1 \<Rightarrow> Some (DDS_RETCODE_OK, st1, in1, sample_out))"

definition field_type_ops :: "('r, 'd) field_env \<Rightarrow> (field_config, field_state, 'd) ttype" where
  "field_type_ops env =
     \<lparr>ty_state_new = RTI_TSFM_Field_PrimitiveTransformationStateTypeSupport_create_data env,
      ty_config_new = RTI_TSFM_Field_PrimitiveTransformationConfigTypeSupport_create_data env,
      ty_config_parse = RTI_TSFM_Field_PrimitiveTransformationConfig_parse_from_properties env,
      ty_user_plugin =
        \<lparr>up_serialize_sample = RTI_TSFM_Field_PrimitiveTransformation_serialize env,
         up_deserialize_sample = RTI_TSFM_Field_PrimitiveTransformation_deserialize env\<rparr>\<rparr>"

section \<open>A new transformation writes nothing\<close>

text \<open>
  The buffer of a new state has size 0, so that no text is ever written; wide strings, which are
  written without a bound, are excepted.
\<close>

lemma serialize_writes_nothing:
  assumes "RTI_TSFM_Field_PrimitiveTransformationStateTypeSupport_create_data env = Some st"
    and "seq_laws (fe_octets env)"
    and "\<forall>v. fe_get env (fc_field_type cfg) (fc_field cfg) sample_in = Some v \<longrightarrow> (\<forall>ws. v \<noteq> V_wstring ws)"
    and "RTI_TSFM_Field_PrimitiveTransformation_serialize env cfg st sample_in sample_out =
           Some (DDS_RETCODE_OK, st1, in1, out1)"
  shows "fe_set_octet_seq env (fc_buffer_member cfg) [] sample_out = Some out1 \<and> st1 = st \<and> in1 = sample_in"
proof -
  have st: "st = \<lparr>fs_msg_payload = Some [], fs_msg_payload_size = 0\<rparr>"
    using assms(1) by (simp add: RTI_TSFM_Field_PrimitiveTransformationStateTypeSupport_create_data_def split: if_splits)
  obtain v where v: "fe_get env (fc_field_type cfg) (fc_field cfg) sample_in = Some v"
    using assms(4) by (auto simp: RTI_TSFM_Field_PrimitiveTransformation_serialize_def st Let_def split: option.splits if_splits)
  then have "write_payload env cfg 0 v [] = Some []"
    using assms(3) by (cases v) (simp_all add: write_payload_def snprintf_def)
  moreover have "seq_buf s = []" if "seq_loan (fe_octets env) [] 0 0 seq_empty = Some s" for s
    using assms(2) that by (auto simp: seq_laws_def)
  ultimately show ?thesis
    using assms(4) v
    by (auto simp: RTI_TSFM_Field_PrimitiveTransformation_serialize_def st Let_def split: option.splits if_splits)
qed

text \<open>
  A field transformation as it is created never deserialises its first payload: it reports an
  error and changes neither sample, having taken the successful allocation of its buffer for a
  failure; when the allocation fails it writes through a null pointer.
\<close>

theorem field_deserialize_first_fails:
  assumes "RTI_TSFM_Field_PrimitiveTransformationStateTypeSupport_create_data env = Some st"
    and "fe_get_octet_seq env (fc_buffer_member cfg) sample_in = Some payload"
    and "seq_buf payload \<noteq> []" "length (seq_buf payload) \<le> seq_max payload"
  shows "RTI_TSFM_Field_PrimitiveTransformation_deserialize env cfg st sample_in sample_out =
     (if fe_payload_alloc env (length (seq_buf payload))
      then Some (DDS_RETCODE_ERROR,
             \<lparr>fs_msg_payload = Some [], fs_msg_payload_size = length (seq_buf payload)\<rparr>, sample_in, sample_out)
      else None)"
proof -
  have st: "st = \<lparr>fs_msg_payload = Some [], fs_msg_payload_size = 0\<rparr>"
    using assms(1) by (simp add: RTI_TSFM_Field_PrimitiveTransformationStateTypeSupport_create_data_def split: if_splits)
  have "0 < length (seq_buf payload)" using assms(3) by simp
  moreover from this assms(4) have "0 < seq_max payload" by (rule order_less_le_trans)
  ultimately show ?thesis
    by (simp add: RTI_TSFM_Field_PrimitiveTransformation_deserialize_def st assms(2) Let_def)
qed

section \<open>What a larger buffer would carry\<close>

fun type_of_value :: "'r field_value \<Rightarrow> field_type" where
  "type_of_value (V_short _) = FieldType_SHORT"
| "type_of_value (V_long _) = FieldType_LONG"
| "type_of_value (V_ushort _) = FieldType_USHORT"
| "type_of_value (V_ulong _) = FieldType_ULONG"
| "type_of_value (V_float _) = FieldType_FLOAT"
| "type_of_value (V_double _) = FieldType_DOUBLE"
| "type_of_value (V_boolean _) = FieldType_BOOLEAN"
| "type_of_value (V_char _) = FieldType_CHAR"
| "type_of_value (V_octet _) = FieldType_OCTET"
| "type_of_value (V_string _) = FieldType_STRING"
| "type_of_value (V_longlong _) = FieldType_LONGLONG"
| "type_of_value (V_ulonglong _) = FieldType_ULONGLONG"
| "type_of_value (V_longdouble _) = FieldType_LONGDOUBLE"
| "type_of_value (V_wchar _) = FieldType_WCHAR"
| "type_of_value (V_wstring _) = FieldType_WSTRING"

text \<open>The values whose text is read back: no octets, whose hexadecimal text is read as decimal, and no \<^verbatim>\<open>ULONGLONG\<close> beyond a \<^verbatim>\<open>long\<close>.\<close>

definition field_readable :: "'r field_value \<Rightarrow> bool" where
  "field_readable v =
     (case v of
        V_short _ \<Rightarrow> True | V_long _ \<Rightarrow> True | V_ushort _ \<Rightarrow> True | V_ulong _ \<Rightarrow> True | V_longlong _ \<Rightarrow> True
      | V_ulonglong w \<Rightarrow> uint w \<le> LONG_MAX
      | V_boolean w \<Rightarrow> w = 0 \<or> w = 1
      | V_char c \<Rightarrow> c \<noteq> NUL
      | _ \<Rightarrow> False)"

lemma word_text [simp]:
  fixes s :: "16 word" and l :: "32 word" and q :: "64 word"
  shows "strtol (show_int (sint s)) = sint s" "strtol (show_int (sint q)) = sint q"
    and "strtoul (show_nat (unat s)) = uint s" "strtoul (show_nat (unat l)) = uint l"
    and "uint q \<le> LONG_MAX \<Longrightarrow> strtol (show_nat (unat q)) = uint q"
proof -
  show "strtol (show_int (sint s)) = sint s"
    using sint_greater_eq [of s] sint_less [of s] by (intro strtol_show_int) (simp_all add: LONG_MAX_def LONG_MIN_def)
  show "strtol (show_int (sint q)) = sint q"
    using sint_greater_eq [of q] sint_less [of q] by (intro strtol_show_int) (simp_all add: LONG_MAX_def LONG_MIN_def)
  have "unat s < 65536" using unsigned_less [of s] by simp
  then show "strtoul (show_nat (unat s)) = uint s" by (subst strtoul_show_nat) simp_all
  have "unat l < 4294967296" using unsigned_less [of l] by simp
  then show "strtoul (show_nat (unat l)) = uint l" by (subst strtoul_show_nat) simp_all
  show "uint q \<le> LONG_MAX \<Longrightarrow> strtol (show_nat (unat q)) = uint q"
    by (subst strtol_show_nat) simp_all
qed

lemma text_of_bool: "strtol (show_nat 0) = 0" "strtol (show_nat (Suc 0)) = 1"
  by (simp_all add: LONG_MAX_def)

lemma show_nat_cstring [simp]: "cstring (show_nat n)"
  by (simp add: show_base_cstring)

lemma field_of_text_default:
  assumes "field_readable v" "default_text v = Some s"
  shows "field_of_text env (type_of_value v) s = Some v"
proof (cases v)
  case (V_boolean w)
  with assms have "s = show_nat (unat w)" "w = 0 \<or> w = 1"
    by (simp_all add: field_readable_def default_text_def)
  with V_boolean show ?thesis by (auto simp: field_of_text_def text_of_bool)
qed (use assms in \<open>simp_all add: field_readable_def default_text_def field_of_text_def, auto?\<close>)

lemma default_text_cstring:
  assumes "field_readable v" "default_text v = Some s"
  shows "cstring s"
  using assms by (cases v) (auto simp: field_readable_def default_text_def cstring_def [of "[_]"])

text \<open>
  What the library promises of members of samples: a byte sequence is read back with its length
  within its maximum, and the spare memory is what is left; a field is read back.
\<close>

definition field_env_laws :: "('r, 'd) field_env \<Rightarrow> bool" where
  "field_env_laws env \<longleftrightarrow> seq_laws (fe_octets env) \<and>
     (\<forall>m bytes d d'. fe_set_octet_seq env m bytes d = Some d' \<longrightarrow>
        (\<exists>s. fe_get_octet_seq env m d' = Some s \<and> seq_buf s = bytes \<and> length bytes \<le> seq_max s)) \<and>
     (\<forall>f v d d'. fe_set env f v d = Some d' \<longrightarrow> fe_get env (type_of_value v) f d' = Some v)"

lemma takeWhile_cstring: "cstring s \<Longrightarrow> takeWhile (\<lambda>c. c \<noteq> NUL) s = s"
  by (auto simp: cstring_def takeWhile_eq_all_conv)

lemma serialize_text:
  assumes "field_env_laws env" "field_readable v" "default_text v = Some s"
    and "fc_field_type cfg = type_of_value v" "default_fmt (type_of_value v) = Some (fc_serialization_format cfg)"
    and "fs_msg_payload st = Some old" "length s < fs_msg_payload_size st" "length s < 2147483648"
    and "fe_get env (type_of_value v) (fc_field cfg) sample_in = Some v"
    and "RTI_TSFM_Field_PrimitiveTransformation_serialize env cfg st sample_in sample_out =
           Some (DDS_RETCODE_OK, st1, in1, out1)"
  shows "fe_set_octet_seq env (fc_buffer_member cfg) (map of_char s) sample_out = Some out1"
proof -
  have "field_text env (fc_field_type cfg) (fc_serialization_format cfg) v = s"
    using assms(3-5) by (simp add: field_text_def)
  moreover have "snprintf (fs_msg_payload_size st) s old = s"
    using assms(7) takeWhile_cstring [OF default_text_cstring [OF assms(2,3)]]
    by (simp add: snprintf_def del: takeWhile_eq_all_conv)
  ultimately have w: "write_payload env cfg (fs_msg_payload_size st) v old = Some s"
    using assms(2) by (cases v) (simp_all add: write_payload_def field_readable_def)
  have l: "seq_buf b = map of_char s" if "seq_loan (fe_octets env) (map of_char s) (of_nat (length s)) m seq_empty = Some b" for b m
  proof -
    have "unat (of_nat (length s) :: u32) = length s" using assms(8) by (intro unat_of_nat_u32) simp
    then show ?thesis using assms(1) that by (auto simp: field_env_laws_def seq_laws_def)
  qed
  have "type_of_value v \<noteq> FieldType_UNKNOWN" by (cases v) simp_all
  with assms(4,6,9,10) w show ?thesis
    by (auto simp: RTI_TSFM_Field_PrimitiveTransformation_serialize_def Let_def split: option.splits dest: l)
qed

text \<open>
  What the conversion functions do in a state that the code itself never reaches (the buffer it
  creates has size 0): with a buffer larger than the text to serialise and one of exactly the length of the
  text to deserialise, a value written with its default format is read back: deserialising the
  output of a successful serialisation succeeds and sets the field to the value, in the sample that
  was its input.  This holds for integers, booleans and characters other than NUL; for octets and
  unsigned 64-bit values above \<open>LONG_MAX\<close> it does not.
\<close>

theorem field_roundtrip:
  assumes "field_env_laws env" "field_readable v" "default_text v = Some s"
    and "fc_field_type cfg = type_of_value v" "default_fmt (type_of_value v) = Some (fc_serialization_format cfg)"
    and "fs_msg_payload st = Some old" "length s < fs_msg_payload_size st" "length s < 2147483648"
    and "fe_get env (type_of_value v) (fc_field cfg) sample_in = Some v"
    and "RTI_TSFM_Field_PrimitiveTransformation_serialize env cfg st sample_in sample_out =
           Some (DDS_RETCODE_OK, st1, in1, out1)"
    and "fs_msg_payload st' = Some old'" "fs_msg_payload_size st' = length s" "s \<noteq> []"
    and "fe_set env (fc_field cfg) v out1 \<noteq> None"
  shows "\<exists>st2 d. RTI_TSFM_Field_PrimitiveTransformation_deserialize env cfg st' out1 sample' =
           Some (DDS_RETCODE_OK, st2, d, sample') \<and> fe_get env (type_of_value v) (fc_field cfg) d = Some v"
proof -
  obtain b where b: "fe_get_octet_seq env (fc_buffer_member cfg) out1 = Some b" "seq_buf b = map of_char s"
      "length s \<le> seq_max b"
    using serialize_text [OF assms(1-10)] assms(1) by (force simp: field_env_laws_def)
  have copied: "takeWhile (\<lambda>c. c \<noteq> NUL) (map ((\<lambda>w. char_of (unat w)) \<circ> (of_char :: char \<Rightarrow> octet)) s) = s"
    using takeWhile_cstring [OF default_text_cstring [OF assms(2,3)]] by (simp add: o_def del: takeWhile_eq_all_conv)
  obtain d where d: "fe_set env (fc_field cfg) v out1 = Some d" using assms(14) by auto
  then have "fe_get env (type_of_value v) (fc_field cfg) d = Some v" using assms(1) by (auto simp: field_env_laws_def)
  moreover have "type_of_value v \<noteq> FieldType_STRING" using assms(2) by (cases v) (simp_all add: field_readable_def)
  moreover have "0 < seq_max b" using b(3) assms(13) by (metis length_greater_0_conv order_less_le_trans)
  ultimately show ?thesis
    using b d assms(4,11,12) field_of_text_default [OF assms(2,3), of env]
    by (simp add: RTI_TSFM_Field_PrimitiveTransformation_deserialize_def Let_def copied)
qed

text \<open>An octet is printed in hexadecimal without a prefix and read in decimal; large unsigned values are cut to a \<^verbatim>\<open>long\<close>.\<close>

lemma field_octet_misread:
  "default_text (V_octet 16) = Some s \<Longrightarrow> field_of_text env FieldType_OCTET s = Some (V_octet 10)"
proof -
  assume "default_text (V_octet 16) = Some s"
  moreover have "show_base 16 16 = ''10''" by code_simp
  ultimately have "s = ''10''" by (simp add: default_text_def)
  moreover have "strtol ''10'' = 10" by code_simp
  ultimately show ?thesis by (simp add: field_of_text_def)
qed

lemma field_ulonglong_saturates:
  assumes "default_text (V_ulonglong w) = Some s" "LONG_MAX < uint w"
  shows "field_of_text env FieldType_ULONGLONG s = Some (V_ulonglong (word_of_int LONG_MAX))"
proof -
  have "LONG_MAX < int (unat w)" using assms(2) by simp
  then have "strtol (show_nat (unat w)) = LONG_MAX"
    by (simp add: strtol_def Let_def LONG_MIN_def LONG_MAX_def del: int_nat_eq)
  then show ?thesis using assms(1) by (simp add: field_of_text_def default_text_def)
qed


section \<open>The field transformation in the framework\<close>

text \<open>A field transformation made by the template starts with the empty buffer, in the mode of its configuration.\<close>

lemma field_T_new:
  assumes "T_new (fe_tsfm env) (field_type_ops env) name properties = (DDS_RETCODE_OK, Some t)"
  shows "RTI_TSFM_Field_PrimitiveTransformationStateTypeSupport_create_data env = Some (o_state t)"
    and "\<not> t_read_buffer_loaned (o_parent t)" "t_read_buffer (o_parent t) = seq_empty"
    and "t_config (o_parent t) \<noteq> None"
  using assms
  by (auto simp: T_new_def field_type_ops_def RTI_TSFM_Transformation_initialize_def Let_def
      split: option.splits if_splits prod.splits)

lemma transform_all_empty:
  assumes "seq_laws (fe_octets env)"
    and st: "RTI_TSFM_Field_PrimitiveTransformationStateTypeSupport_create_data env = Some st"
    and "\<forall>x \<in> set xs. \<forall>v. fe_get env (fc_field_type cfg) (fc_field cfg) x = Some v \<longrightarrow> (\<forall>ws. v \<noteq> V_wstring ws)"
    and "length ys = length xs"
    and "transform_all (RTI_TSFM_Field_PrimitiveTransformation_serialize env) cfg st (zip xs ys) = Some (st1, xs1, ys1)"
  shows "xs1 = xs \<and> map Some ys1 = map (fe_set_octet_seq env (fc_buffer_member cfg) []) ys"
  using assms(3-5)
proof (induction xs ys arbitrary: st1 xs1 ys1 rule: list_induct2')
  case (4 x xs y ys)
  then obtain st2 x1 y1 xs2 ys2 where
    f: "RTI_TSFM_Field_PrimitiveTransformation_serialize env cfg st x y = Some (DDS_RETCODE_OK, st2, x1, y1)"
      "transform_all (RTI_TSFM_Field_PrimitiveTransformation_serialize env) cfg st2 (zip xs ys) = Some (st1, xs2, ys2)"
      "xs1 = x1 # xs2" "ys1 = y1 # ys2"
    by (auto split: option.splits retcode.splits)
  have one: "fe_set_octet_seq env (fc_buffer_member cfg) [] y = Some y1" "st2 = st" "x1 = x"
    using serialize_writes_nothing [OF st assms(1) _ f(1)] 4(2) by auto
  with 4 f show ?case by auto
qed auto


text \<open>
  Claim C17. A field transformation made by the template and used as a serialiser delivers empty
  payloads only: whatever the samples of a read hold (all of them valid, none with a wide
  string in the field, and as many as the buffer of the transformation can take), every transformation that succeeds delivers, for each of them in order, a
  new sample whose buffer member was set to the empty sequence.  The text buffer is created with
  size 0 and the serialiser never enlarges it.
\<close>

theorem field_transformation_delivers_empty:
  assumes "T_new (fe_tsfm env) (field_type_ops env) name properties = (DDS_RETCODE_OK, Some t)"
    and "t_config (o_parent t) = Some config" "tc_type config = TransformationKind_SERIALIZER"
    and "seq_laws (fe_octets env)" "buffer_ok (fe_tsfm env) (o_parent t) (length xs)"
    and "\<forall>x \<in> set xs. \<forall>v. fe_get env (fc_field_type (o_config t)) (fc_field (o_config t)) x = Some v \<longrightarrow>
           (\<forall>ws. v \<noteq> V_wstring ws)"
    and "RTI_TSFM_Transformation_transform (fe_tsfm env) (ty_user_plugin (field_type_ops env)) (o_config t)
           (map (\<lambda>x. (Some x, True)) xs) (o_state t) (o_parent t) = Some (DDS_RETCODE_OK, st1, t1, ins1, Some (outs, n))"
  shows "n = length xs \<and> ins1 = map Some xs \<and>
    (\<forall>j < n. \<exists>d d'. te_create_data (fe_tsfm env) j = Some d \<and>
       fe_set_octet_seq env (fc_buffer_member (o_config t)) [] d = Some d' \<and> outs ! j = Some d')"
proof -
  let ?fn = "RTI_TSFM_Field_PrimitiveTransformation_serialize env" and ?cfg = "o_config t"
  let ?ins = "map (\<lambda>x. (Some x, True)) xs"
  let ?len = "max (seq_max (t_read_buffer (o_parent t))) (length ?ins)"
  note new = field_T_new [OF assms(1)]
  have fn: "chosen_fn (ty_user_plugin (field_type_ops env)) config = ?fn"
    using assms(3) by (simp add: chosen_fn_def field_type_ops_def)
  have ok: "buffer_ok (fe_tsfm env) (o_parent t) (length ?ins)" using assms(5) by simp
  have loop: "transform_loop (fe_tsfm env) ?fn ?cfg 0 ?ins (o_state t) (replicate ?len None) 0 =
      Some (True, st1, ins1, outs, n)"
    using transform_runs [OF ok new(2) assms(2), of "ty_user_plugin (field_type_ops env)" ?cfg "o_state t"] assms(7) fn
    by (cases "transform_loop (fe_tsfm env) ?fn ?cfg 0 ?ins (o_state t) (replicate ?len None) 0")
      (auto simp: new(3) pad_null_def seq_empty_def Let_def split: if_splits)
  obtain ys xs1 ys1 where r: "length ys = length xs"
      "\<forall>j < length xs. slot_sample (fe_tsfm env) (replicate ?len None) j = Some (ys ! j)"
      "transform_all ?fn ?cfg (o_state t) (zip xs ys) = Some (st1, xs1, ys1)" "ins1 = map Some xs1"
      "outs = map Some ys1 @ drop (length xs) (replicate ?len None)" "n = length xs"
    using transform_loop_all_conv [OF loop] by auto
  have empty: "xs1 = xs" "map Some ys1 = map (fe_set_octet_seq env (fc_buffer_member ?cfg) []) ys"
    using transform_all_empty [OF assms(4) new(1) assms(6) r(1,3)] by auto
  have "te_create_data (fe_tsfm env) j = Some (ys ! j) \<and>
      fe_set_octet_seq env (fc_buffer_member ?cfg) [] (ys ! j) = Some (ys1 ! j) \<and> outs ! j = Some (ys1 ! j)" if "j < n" for j
  proof -
    have j: "j < length xs" "j < length ys" "j < length ys1"
      using that r(1,6) arg_cong [OF empty(2), of length] by auto
    have "map Some ys1 ! j = map (fe_set_octet_seq env (fc_buffer_member ?cfg) []) ys ! j" using empty(2) by simp
    with j r(2,5) show ?thesis by (auto simp: slot_sample_def nth_append)
  qed
  then show ?thesis using empty(1) r(4,6) by blast
qed

section \<open>Examples\<close>

text \<open>A sample is a map from members to values or bytes; no call fails.\<close>

datatype example_member = M_value "unit field_value" | M_bytes "octet list"

type_synonym example_sample = "string \<Rightarrow> example_member option"

definition example_field_env :: "(unit, example_sample) field_env" where
  "example_field_env =
     \<lparr>fe_tsfm = std_tsfm_env Map.empty,
      fe_get = (\<lambda>t f d. case d f of Some (M_value v) \<Rightarrow> if type_of_value v = t then Some v else None | _ \<Rightarrow> None),
      fe_set = (\<lambda>f v d. Some (d(f \<mapsto> M_value v))), fe_set_null_string = (\<lambda>f d. Some (d(f := None))),
      fe_get_octet_seq = (\<lambda>m d. case d m of
          Some (M_bytes bs) \<Rightarrow> Some \<lparr>seq_buf = bs, seq_max = length bs, seq_loaned = False\<rparr> | _ \<Rightarrow> None),
      fe_set_octet_seq = (\<lambda>m bs d. Some (d(m \<mapsto> M_bytes bs))),
      fe_octets = std_seq 0, fe_spare = (\<lambda>_. []), fe_printf = (\<lambda>_ _. []), fe_wprintf = (\<lambda>_ _. None),
      fe_strtod = (\<lambda>_. ()), fe_to_float = (\<lambda>x. x), fe_dup = (\<lambda>_. True), fe_payload_alloc = (\<lambda>_. True),
      fe_state_alloc = True, fe_config_alloc = (\<lambda>_. True)\<rparr>"

definition example_field_properties :: properties where
  "example_field_properties =
     [''field'' \<mapsto> ''x'', ''field_type'' \<mapsto> ''long'', ''buffer_member'' \<mapsto> ''data'']"

definition example_field_config :: field_config where
  "example_field_config =
     \<lparr>fc_buffer_member = ''data'', fc_field = ''x'', fc_field_type = FieldType_LONG, fc_max_serialized_size = 255,
      fc_serialization_format = ''%d''\<rparr>"

definition example_field_object :: "(field_config, field_state, example_sample) tobject" where
  "example_field_object =
     \<lparr>o_parent = \<lparr>t_config = Some \<lparr>tc_type = TransformationKind_SERIALIZER, tc_input_type = [], tc_output_type = ''P''\<rparr>,
        t_tsupport = True, t_read_buffer = seq_empty, t_read_buffer_loaned = False, t_locked = False\<rparr>,
      o_config = example_field_config, o_state = \<lparr>fs_msg_payload = Some [], fs_msg_payload_size = 0\<rparr>\<rparr>"

lemma example_field_T_new:
  "T_new (fe_tsfm example_field_env) (field_type_ops example_field_env) ''P'' example_field_properties =
     (DDS_RETCODE_OK, Some example_field_object)"
  by (simp add: T_new_def field_type_ops_def example_field_env_def std_tsfm_env_def example_field_object_def
      RTI_TSFM_Field_PrimitiveTransformationStateTypeSupport_create_data_def
      RTI_TSFM_Field_PrimitiveTransformationConfigTypeSupport_create_data_def
      RTI_TSFM_Field_PrimitiveTransformationConfig_parse_from_properties_def
      RTI_TSFM_TransformationConfig_parse_from_properties_def Config_parse_def
      RTI_TSFM_TransformationConfig_parse_from_properties_alloc_def RTI_TSFM_TransformationConfig_default_def
      transformation_property_steps_def lookup_property_def example_field_properties_def field_property_steps_def
      RTI_TSFM_Field_FieldType_from_string_def default_fmt_def RTI_TSFM_TransformationConfig_DEFAULT_def
      RTI_TSFM_Transformation_initialize_def RTI_TSFM_Transformation_create_type_support_def
      example_field_config_def Let_def)

definition example_reading :: example_sample where
  "example_reading = [''x'' \<mapsto> M_value (V_long 42)]"

lemma example_field_transform:
  "RTI_TSFM_Transformation_transform (fe_tsfm example_field_env) (ty_user_plugin (field_type_ops example_field_env))
     example_field_config [(Some example_reading, True)] (o_state example_field_object) (o_parent example_field_object) =
   Some (DDS_RETCODE_OK, o_state example_field_object,
     (o_parent example_field_object)\<lparr>t_read_buffer := \<lparr>seq_buf = [Some [''data'' \<mapsto> M_bytes []]], seq_max = 1, seq_loaned = False\<rparr>,
       t_read_buffer_loaned := True\<rparr>, [Some example_reading], Some ([Some [''data'' \<mapsto> M_bytes []]], 1))"
  by (simp add: RTI_TSFM_Transformation_transform_def example_field_env_def field_type_ops_def std_tsfm_env_def
      example_field_object_def example_field_config_def example_reading_def std_seq_def std_resize_def seq_empty_def
      RTI_TSFM_Field_PrimitiveTransformation_serialize_def write_payload_def snprintf_def Let_def)

theorem field_transformation_delivers_empty_witness:
  "fe_get example_field_env FieldType_LONG ''x'' example_reading = Some (V_long 42) \<and>
   (\<exists>d d'. te_create_data (fe_tsfm example_field_env) 0 = Some d \<and>
      fe_set_octet_seq example_field_env ''data'' [] d = Some d' \<and> d' ''data'' = Some (M_bytes []))"
proof -
  have c: "o_config example_field_object = example_field_config" by (simp add: example_field_object_def)
  have "\<exists>d d'. te_create_data (fe_tsfm example_field_env) 0 = Some d \<and>
      fe_set_octet_seq example_field_env (fc_buffer_member example_field_config) [] d = Some d' \<and>
      [Some [''data'' \<mapsto> M_bytes []]] ! 0 = Some d'"
    using field_transformation_delivers_empty [OF example_field_T_new, of _ "[example_reading]"] example_field_transform c
    by (auto simp: example_field_object_def example_field_env_def std_tsfm_env_def buffer_ok_def seq_empty_def
        example_reading_def example_field_config_def)
  then show ?thesis
    by (auto simp: example_field_env_def example_reading_def example_field_config_def)
qed

theorem field_deserialize_first_fails_witness:
  "RTI_TSFM_Field_PrimitiveTransformation_deserialize example_field_env example_field_config
     \<lparr>fs_msg_payload = Some [], fs_msg_payload_size = 0\<rparr> [''data'' \<mapsto> M_bytes [52, 50]] Map.empty =
   Some (DDS_RETCODE_ERROR, \<lparr>fs_msg_payload = Some [], fs_msg_payload_size = 2\<rparr>, [''data'' \<mapsto> M_bytes [52, 50]], Map.empty)"
  using field_deserialize_first_fails [of example_field_env "\<lparr>fs_msg_payload = Some [], fs_msg_payload_size = 0\<rparr>"
      example_field_config "[''data'' \<mapsto> M_bytes [52, 50]]"
      "\<lparr>seq_buf = [52, 50], seq_max = 2, seq_loaned = False\<rparr>" Map.empty]
  by (simp add: RTI_TSFM_Field_PrimitiveTransformationStateTypeSupport_create_data_def example_field_env_def
      example_field_config_def)

lemma example_field_laws: "field_env_laws example_field_env"
  by (simp add: field_env_laws_def example_field_env_def)

lemma show_42: "show_int 42 = ''42''"
  by code_simp

theorem field_roundtrip_witness:
  "\<exists>st2 d. RTI_TSFM_Field_PrimitiveTransformation_deserialize example_field_env example_field_config
       \<lparr>fs_msg_payload = Some [], fs_msg_payload_size = 2\<rparr> [''data'' \<mapsto> M_bytes (map of_char ''42'')] Map.empty =
       Some (DDS_RETCODE_OK, st2, d, Map.empty) \<and>
     fe_get example_field_env FieldType_LONG ''x'' d = Some (V_long 42)"
proof -
  let ?st = "\<lparr>fs_msg_payload = Some [], fs_msg_payload_size = 9\<rparr>"
  have ser: "RTI_TSFM_Field_PrimitiveTransformation_serialize example_field_env example_field_config ?st example_reading Map.empty =
      Some (DDS_RETCODE_OK, ?st\<lparr>fs_msg_payload := Some ''42''\<rparr>, example_reading, [''data'' \<mapsto> M_bytes (map of_char ''42'')])"
    by (simp add: RTI_TSFM_Field_PrimitiveTransformation_serialize_def example_field_env_def example_field_config_def
        example_reading_def write_payload_def field_text_def default_text_def default_fmt_def snprintf_def show_42 std_seq_def
        seq_empty_def NUL_def Let_def)
  show ?thesis
    using field_roundtrip [OF example_field_laws _ _ _ _ _ _ _ _ ser, of "V_long 42" "''42''" "[]"
        "\<lparr>fs_msg_payload = Some [], fs_msg_payload_size = 2\<rparr>" "[]" Map.empty]
    by (simp add: field_readable_def default_text_def show_42 example_field_config_def default_fmt_def
        example_field_env_def example_reading_def)
qed


end
