(* ===== verification/DynamicDataHelpers.thy ===== *)
theory DynamicDataHelpers
  imports CLib
begin

text \<open>
  The helpers of \<^verbatim>\<open>common/dds_specific/srcC\<close>: the type of a nested member (\<^verbatim>\<open>DynamicDataHelpers.c\<close>), a text in
  a sequence of characters or octets and back, and the NUL terminator of such a sequence
  (\<^verbatim>\<open>SequenceHelpers.c\<close>).

  DDS type codes are of an arbitrary type \<open>'t\<close>, read by the functions of \<open>tc_api\<close>, where \<open>None\<close> is an
  exception code.  The members of a sample are accessed through \<open>member_api\<close>, once for \<^verbatim>\<open>char\<close> and
  once for \<^verbatim>\<open>octet\<close> elements.  A C buffer is the list of all its bytes, the text in it the part before
  the first NUL.  \<open>None\<close> is a read beyond the buffer.
\<close>

section \<open>Type codes\<close>

datatype tckind =
    DDS_TK_STRUCT
  | DDS_TK_VALUE
  | DDS_TK_ARRAY
  | DDS_TK_SEQUENCE
  | DDS_TK_STRING
  | DDS_TK_OCTET
  | DDS_TK_CHAR
  | DDS_TK_OTHER nat

text \<open>\<open>tk_tokens\<close> lists what \<^verbatim>\<open>RTIOsapiUtility_strToken\<close> gives one after the other with the delimiter \<^verbatim>\<open>"."\<close>.\<close>

record 't tc_api =
  tk_find_member_by_name :: "'t \<Rightarrow> string \<Rightarrow> u32 option"
  tk_member_type :: "'t \<Rightarrow> u32 \<Rightarrow> 't option"
  tk_kind :: "'t \<Rightarrow> tckind option"
  tk_content_type :: "'t \<Rightarrow> 't option"
  tk_array_dimension_count :: "'t \<Rightarrow> u32 option"
  tk_length :: "'t \<Rightarrow> u32 option"
  tk_member_count :: "'t \<Rightarrow> u32 option"
  tk_dup :: bool
  tk_tokens :: "string \<Rightarrow> string list"

definition TYPE_CODE_LENGTH :: nat where
  "TYPE_CODE_LENGTH = 256"

text \<open>The loop over the tokens of a nested name.\<close>

fun member_walk :: "'t tc_api \<Rightarrow> 't \<Rightarrow> string list \<Rightarrow> 't option" where
  "member_walk a member_tc [] = Some member_tc"
| "member_walk a member_tc (token # tokens) =
     (case tk_find_member_by_name a member_tc token of
        None \<Rightarrow> None
      | Some i \<Rightarrow>
          case tk_member_type a member_tc i of
            None \<Rightarrow> None
          | Some tc1 \<Rightarrow> member_walk a tc1 tokens)"

definition RTI_COMMON_TypeCode_get_member_type :: "'t tc_api \<Rightarrow> 't \<Rightarrow> string \<Rightarrow> 't option" where
  "RTI_COMMON_TypeCode_get_member_type a self member_name =
     (if CHR ''.'' \<notin> set member_name then
        (case tk_find_member_by_name a self member_name of
           None \<Rightarrow> None
         | Some i \<Rightarrow> tk_member_type a self i)
      else if length member_name > TYPE_CODE_LENGTH - 1 \<and> \<not> tk_dup a then None
      else member_walk a self (tk_tokens a member_name))"

section \<open>Buffers\<close>

definition c_text :: "string \<Rightarrow> string" where
  "c_text mem = takeWhile (\<lambda>c. c \<noteq> NUL) mem"

definition c_strlen :: "string \<Rightarrow> nat option" where
  "c_strlen mem = (if NUL \<in> set mem then Some (length (c_text mem)) else None)"

text \<open>Copying a text with its terminator to the start of a buffer; \<open>None\<close> is a write beyond its end.\<close>

definition store_text :: "string \<Rightarrow> string \<Rightarrow> string option" where
  "store_text t mem =
     (if length t < length mem then Some (t @ NUL # drop (Suc (length t)) mem) else None)"

section \<open>Sequences with a terminator\<close>

definition assert_nul_terminator :: "'e seq_api \<Rightarrow> 'e \<Rightarrow> 'e dds_seq \<Rightarrow> bool \<times> 'e dds_seq" where
  "assert_nul_terminator a nul self =
     (let len = length (seq_buf self) in
      if len = 0 then (False, self)
      else if seq_buf self ! (len - 1) = nul then (True, self)
      else
        case seq_set_length a (of_nat (len + 1)) self of
          None \<Rightarrow> (False, self)
        | Some s1 \<Rightarrow> (True, s1\<lparr>seq_buf := (seq_buf s1)[len := nul]\<rparr>))"

definition DDS_CharSeq_assert_nul_terminator :: "char seq_api \<Rightarrow> char dds_seq \<Rightarrow> bool \<times> char dds_seq" where
  "DDS_CharSeq_assert_nul_terminator a self = assert_nul_terminator a NUL self"

definition DDS_OctetSeq_assert_nul_terminator :: "octet seq_api \<Rightarrow> octet dds_seq \<Rightarrow> bool \<times> octet dds_seq" where
  "DDS_OctetSeq_assert_nul_terminator a self = assert_nul_terminator a 0 self"

section \<open>Texts in sequence members\<close>

record ('e, 'd) member_api =
  ma_get_seq :: "string \<Rightarrow> 'd \<Rightarrow> 'e dds_seq \<Rightarrow> retcode \<times> 'e dds_seq"
  ma_set_seq :: "string \<Rightarrow> 'e list \<Rightarrow> 'd \<Rightarrow> retcode \<times> 'd"
  ma_seq :: "'e seq_api"
  ma_contiguous :: bool

text \<open>The buffer that is returned is the memory of the sequence.\<close>

definition get_seq_contiguous_buffer ::
    "('e, 'd) member_api \<Rightarrow> ('e dds_seq \<Rightarrow> bool \<times> 'e dds_seq) \<Rightarrow> 'd \<Rightarrow> 'e dds_seq \<Rightarrow> string
     \<Rightarrow> retcode \<times> 'e list option \<times> 'e dds_seq" where
  "get_seq_contiguous_buffer a assert_nul self s member =
     (case ma_get_seq a member self s of
        (rc, s1) \<Rightarrow>
          if rc \<noteq> DDS_RETCODE_OK then (rc, None, s1)
          else
            case assert_nul s1 of
              (ok, s2) \<Rightarrow>
                if \<not> ok then (DDS_RETCODE_ERROR, None, s2)
                else if \<not> ma_contiguous a then (DDS_RETCODE_ERROR, None, s2)
                else (DDS_RETCODE_OK, Some (seq_buf s2), s2))"

definition RTI_COMMON_DynamicData_get_octet_seq_contiguous_buffer ::
    "(octet, 'd) member_api \<Rightarrow> 'd \<Rightarrow> octet dds_seq \<Rightarrow> string \<Rightarrow> retcode \<times> string option \<times> octet dds_seq" where
  "RTI_COMMON_DynamicData_get_octet_seq_contiguous_buffer a self s member =
     (case get_seq_contiguous_buffer a (DDS_OctetSeq_assert_nul_terminator (ma_seq a)) self s member of
        (rc, buf, s1) \<Rightarrow> (rc, map_option (map (\<lambda>w. char_of (unat w))) buf, s1))"

definition RTI_COMMON_DynamicData_get_char_seq_contiguous_buffer ::
    "(char, 'd) member_api \<Rightarrow> 'd \<Rightarrow> char dds_seq \<Rightarrow> string \<Rightarrow> retcode \<times> string option \<times> char dds_seq" where
  "RTI_COMMON_DynamicData_get_char_seq_contiguous_buffer a self s member =
     get_seq_contiguous_buffer a (DDS_CharSeq_assert_nul_terminator (ma_seq a)) self s member"

text \<open>
  The buffer is lent to the sequence with its text and terminator, or without the terminator when
  the text alone fills \<^verbatim>\<open>max_size\<close>.  When the member cannot be set the sequence keeps the loan.
\<close>

definition set_seq_from_string ::
    "('e, 'd) member_api \<Rightarrow> (char \<Rightarrow> 'e) \<Rightarrow> 'd \<Rightarrow> 'e dds_seq \<Rightarrow> string \<Rightarrow> string \<Rightarrow> u32
     \<Rightarrow> (retcode \<times> 'd \<times> 'e dds_seq) option" where
  "set_seq_from_string a conv self s member buffer max_size =
     (case c_strlen buffer of
        None \<Rightarrow> None
      | Some n \<Rightarrow>
          let current_size = (of_nat n + 1 :: u32);
              current_size = (if current_size - 1 = max_size then current_size - 1 else current_size) in
          case seq_loan (ma_seq a) (map conv buffer) current_size max_size s of
            None \<Rightarrow> Some (DDS_RETCODE_ERROR, self, s)
          | Some s1 \<Rightarrow>
              case ma_set_seq a member (seq_buf s1) self of
                (rc, d1) \<Rightarrow>
                  if rc \<noteq> DDS_RETCODE_OK then Some (rc, d1, s1)
                  else
                    case seq_unloan (ma_seq a) s1 of
                      None \<Rightarrow> Some (DDS_RETCODE_ERROR, d1, s1)
                    | Some s2 \<Rightarrow> Some (DDS_RETCODE_OK, d1, s2))"

definition RTI_COMMON_DynamicData_set_octet_seq_from_string ::
    "(octet, 'd) member_api \<Rightarrow> 'd \<Rightarrow> octet dds_seq \<Rightarrow> string \<Rightarrow> string \<Rightarrow> u32
     \<Rightarrow> (retcode \<times> 'd \<times> octet dds_seq) option" where
  "RTI_COMMON_DynamicData_set_octet_seq_from_string a = set_seq_from_string a of_char"

definition RTI_COMMON_DynamicData_set_char_seq_from_string ::
    "(char, 'd) member_api \<Rightarrow> 'd \<Rightarrow> char dds_seq \<Rightarrow> string \<Rightarrow> string \<Rightarrow> u32
     \<Rightarrow> (retcode \<times> 'd \<times> char dds_seq) option" where
  "RTI_COMMON_DynamicData_set_char_seq_from_string a = set_seq_from_string a (\<lambda>c. c)"

section \<open>Buffers and their texts\<close>

lemma c_text_store [simp]: "cstring t \<Longrightarrow> c_text (t @ NUL # rest) = t"
  by (simp add: c_text_def cstring_def takeWhile_append)

lemma cstring_c_text [simp]: "cstring (c_text mem)"
  by (auto simp: cstring_def c_text_def dest: set_takeWhileD)

lemma c_text_cstring [simp]: "cstring t \<Longrightarrow> c_text t = t"
  by (auto simp: c_text_def cstring_def takeWhile_eq_all_conv)

lemma c_text_split: "NUL \<in> set mem \<Longrightarrow> \<exists>rest. mem = c_text mem @ NUL # rest"
  by (induction mem) (auto simp: c_text_def)

lemma store_text_ok:
  assumes "length t < length mem" "cstring t"
  shows "\<exists>mem'. store_text t mem = Some mem' \<and> length mem' = length mem \<and> c_text mem' = t \<and> NUL \<in> set mem' \<and>
           c_strlen mem' = Some (length t)"
  using assms by (auto simp: store_text_def c_strlen_def)

text \<open>
  Asserting the terminator never changes the text: it succeeds exactly on a sequence that is not
  empty and that can grow when it has to, and then the sequence ends with the terminator.
\<close>

lemma assert_nul_terminator_ok:
  assumes "\<And>n s s'. seq_set_length a n s = Some s' \<Longrightarrow> seq_resized (unat n) s s'"
    and "length (seq_buf s) < 2147483647" "assert_nul_terminator a nul s = (True, s')"
  shows "seq_buf s \<noteq> [] \<and> last (seq_buf s') = nul \<and>
    takeWhile (\<lambda>x. x \<noteq> nul) (seq_buf s') = takeWhile (\<lambda>x. x \<noteq> nul) (seq_buf s) \<and>
    assert_nul_terminator a nul s' = (True, s')"
proof (cases "s' = s")
  case True
  show ?thesis
  proof (cases "seq_buf s ! (length (seq_buf s) - 1) = nul")
    case t: True
    with True assms(3) show ?thesis
      by (auto simp: assert_nul_terminator_def Let_def last_conv_nth split: if_splits)
  next
    case False
    then obtain s1 where s1: "seq_set_length a (of_nat (length (seq_buf s) + 1)) s = Some s1"
        "s = s1\<lparr>seq_buf := (seq_buf s1)[length (seq_buf s) := nul]\<rparr>"
      using assms(3) True by (auto simp: assert_nul_terminator_def Let_def split: if_splits option.splits)
    from s1(2) have "seq_buf s = (seq_buf s1)[length (seq_buf s) := nul]"
      by (metis dds_seq.select_convs(1) dds_seq.surjective dds_seq.update_convs(1))
    then have "length (seq_buf s1) = length (seq_buf s)" by (metis length_list_update)
    with assms(1) [OF s1(1)] assms(2) show ?thesis
      by (simp add: seq_resized_def unat_of_nat_u32 del: of_nat_Suc of_nat_add)
  qed
next
  case False
  let ?b = "seq_buf s" and ?n = "length (seq_buf s)"
  obtain s1 where s1: "seq_set_length a (of_nat (?n + 1)) s = Some s1" "s' = s1\<lparr>seq_buf := (seq_buf s1)[?n := nul]\<rparr>"
      "?b \<noteq> []"
    using assms(3) False by (auto simp: assert_nul_terminator_def Let_def split: if_splits option.splits)
  have r: "length (seq_buf s1) = Suc ?n" "\<forall>i < ?n. seq_buf s1 ! i = ?b ! i"
    using assms(1) [OF s1(1)] assms(2) by (simp_all add: seq_resized_def unat_of_nat_u32 del: of_nat_Suc of_nat_add)
  have "seq_buf s' = ?b @ [nul]"
    using r s1(2) by (intro nth_equalityI) (auto simp: nth_list_update nth_append less_Suc_eq)
  then show ?thesis using s1(3)
    by (auto simp: assert_nul_terminator_def Let_def takeWhile_append takeWhile_eq_all_conv [THEN iffD2])
qed

section \<open>Writing a text and reading it back\<close>

text \<open>What a member was set to is what is read into a sequence that owns its memory.\<close>

definition member_laws :: "('e, 'd) member_api \<Rightarrow> bool" where
  "member_laws a \<longleftrightarrow> seq_laws (ma_seq a) \<and> seq_total (ma_seq a) \<and> ma_contiguous a \<and>
     (\<forall>m xs d d' s. ma_set_seq a m xs d = (DDS_RETCODE_OK, d') \<longrightarrow> \<not> seq_loaned s \<longrightarrow>
        (\<exists>s'. ma_get_seq a m d' s = (DDS_RETCODE_OK, s') \<and> seq_buf s' = xs \<and> \<not> seq_loaned s'))"

text \<open>A sequence that a buffer can be lent to.\<close>

definition seq_vacant :: "'e dds_seq \<Rightarrow> bool" where
  "seq_vacant s \<longleftrightarrow> seq_max s = 0 \<and> \<not> seq_loaned s"

lemma seq_vacant_empty [simp]: "seq_vacant seq_empty"
  by (simp add: seq_vacant_def seq_empty_def)

text \<open>The elements a text is written as: with its terminator whenever there is room for it.\<close>

definition text_elements :: "(char \<Rightarrow> 'e) \<Rightarrow> nat \<Rightarrow> string \<Rightarrow> 'e list" where
  "text_elements conv n t = map conv (if n = length t then t else t @ [NUL])"

lemma seq_unloan_ok: "seq_laws a \<Longrightarrow> seq_total a \<Longrightarrow> seq_loaned s \<Longrightarrow> seq_unloan a s = Some seq_empty"
proof -
  assume a: "seq_laws a" "seq_total a" "seq_loaned s"
  then obtain s' where "seq_unloan a s = Some s'" unfolding seq_total_def by blast
  with a(1) show ?thesis unfolding seq_laws_def by metis
qed

lemma set_seq_from_string_ok:
  assumes "seq_laws (ma_seq a)" "seq_total (ma_seq a)" "seq_vacant s" "c_strlen buffer = Some (length t)" "c_text buffer = t"
    and "length t \<le> unat max_size" "length t < 4294967295"
  shows "set_seq_from_string a conv self s member buffer max_size =
    (case ma_set_seq a member (text_elements conv (unat max_size) t) self of
       (rc, d1) \<Rightarrow>
         if rc = DDS_RETCODE_OK then Some (DDS_RETCODE_OK, d1, seq_empty)
         else Some (rc, d1, \<lparr>seq_buf = text_elements conv (unat max_size) t, seq_max = unat max_size, seq_loaned = True\<rparr>))"
proof -
  let ?n = "length t"
  define k :: nat where "k = (if ?n = unat max_size then ?n else Suc ?n)"
  have "NUL \<in> set buffer" using assms(4) by (simp add: c_strlen_def split: if_splits)
  from c_text_split [OF this] obtain rest where b: "buffer = t @ NUL # rest" using assms(5) by blast
  have n: "(of_nat ?n = max_size) = (?n = unat max_size)"
    using unat_of_nat_u32 [of ?n] assms(7) by (auto simp: word_unat_eq_iff)
  have cs: "(let c = (of_nat ?n + 1 :: u32) in if c - 1 = max_size then c - 1 else c) = of_nat k"
    using n by (simp add: k_def Let_def)
  have uk: "unat (of_nat k :: u32) = k" using assms(7) by (intro unat_of_nat_u32) (auto simp: k_def)
  have tk: "take k (map conv buffer) = text_elements conv (unat max_size) t"
    by (simp add: b k_def text_elements_def)
  have "k \<le> unat max_size" using assms(6) by (simp add: k_def)
  with assms(2,3) uk obtain s1 where s1: "seq_loan (ma_seq a) (map conv buffer) (of_nat k) max_size s = Some s1"
    by (fastforce simp: seq_total_def seq_vacant_def)
  then have s1': "s1 = \<lparr>seq_buf = text_elements conv (unat max_size) t, seq_max = unat max_size, seq_loaned = True\<rparr>"
  proof -
    have "seq_buf s1 = take (unat (of_nat k :: u32)) (map conv buffer) \<and> seq_max s1 = unat max_size \<and> seq_loaned s1"
      using assms(1) s1 unfolding seq_laws_def by blast
    then show ?thesis using uk tk by (intro dds_seq.equality) simp_all
  qed
  then have s2: "seq_unloan (ma_seq a) s1 = Some seq_empty" using seq_unloan_ok [OF assms(1,2)] by simp
  show ?thesis using assms(4) cs s1 s1' s2
    by (simp add: set_seq_from_string_def Let_def split: prod.splits)
qed

text \<open>A text that leaves room for its terminator is read back with it.\<close>

lemma get_seq_contiguous_buffer_text:
  assumes "member_laws a" "ma_set_seq a m (text_elements conv n t) d = (DDS_RETCODE_OK, d')" "\<not> seq_loaned s"
    and "n \<noteq> length t" "nul = conv NUL"
  shows "\<exists>s'. get_seq_contiguous_buffer a (assert_nul_terminator (ma_seq a) nul) d' s m =
           (DDS_RETCODE_OK, Some (map conv (t @ [NUL])), s') \<and> \<not> seq_loaned s'"
proof -
  from assms(1-3) obtain s' where s': "ma_get_seq a m d' s = (DDS_RETCODE_OK, s')" "seq_buf s' = text_elements conv n t"
      "\<not> seq_loaned s'"
    unfolding member_laws_def by blast
  with assms(1,4,5) show ?thesis
    by (simp add: get_seq_contiguous_buffer_def assert_nul_terminator_def text_elements_def member_laws_def nth_append)
qed

section \<open>Characters and octets\<close>

text \<open>
  What the two kinds of elements have in common: a character becomes an element and back, and the
  terminator becomes the one of the elements.  A text that is written with room for its terminator
  is read back as it was.
\<close>

locale element_text =
  fixes conv :: "char \<Rightarrow> 'e" and unconv :: "'e \<Rightarrow> char" and nul :: 'e
  assumes unconv_conv: "unconv (conv c) = c"
    and conv_nul: "conv NUL = nul"
begin

lemma map_unconv_conv: "map unconv (map conv t) = t"
  by (simp add: unconv_conv comp_def)

lemma text_roundtrip:
  assumes "member_laws a" "c_strlen mem = Some (length t)" "c_text mem = t" "length t < unat k" "length t < 2147483647"
    and "seq_vacant s" "fst (ma_set_seq a m (map conv (t @ [NUL])) out) = DDS_RETCODE_OK"
  shows "\<exists>out1. set_seq_from_string a conv out s m mem k = Some (DDS_RETCODE_OK, out1, seq_empty) \<and>
    out1 = snd (ma_set_seq a m (map conv (t @ [NUL])) out) \<and>
    (\<forall>s. \<not> seq_loaned s \<longrightarrow> (\<exists>s' buf. get_seq_contiguous_buffer a (assert_nul_terminator (ma_seq a) nul) out1 s m =
       (DDS_RETCODE_OK, Some buf, s') \<and> map unconv buf = t @ [NUL] \<and> \<not> seq_loaned s'))"
proof -
  have l: "seq_laws (ma_seq a)" "seq_total (ma_seq a)" using assms(1) by (auto simp: member_laws_def)
  have e: "text_elements conv (unat k) t = map conv (t @ [NUL])" using assms(4) by (simp add: text_elements_def)
  obtain out1 where out1: "ma_set_seq a m (map conv (t @ [NUL])) out = (DDS_RETCODE_OK, out1)"
    using assms(7) by (cases "ma_set_seq a m (map conv (t @ [NUL])) out") auto
  have "set_seq_from_string a conv out s m mem k = Some (DDS_RETCODE_OK, out1, seq_empty)"
    using set_seq_from_string_ok [OF l assms(6,2,3), of k conv out m] assms(4,5) e out1 by simp
  moreover have "\<exists>s' buf. get_seq_contiguous_buffer a (assert_nul_terminator (ma_seq a) nul) out1 s0 m =
       (DDS_RETCODE_OK, Some buf, s') \<and> map unconv buf = t @ [NUL] \<and> \<not> seq_loaned s'" if "\<not> seq_loaned s0" for s0
  proof -
    have "ma_set_seq a m (text_elements conv (unat k) t) out = (DDS_RETCODE_OK, out1)" using e out1 by simp
    from get_seq_contiguous_buffer_text [OF assms(1) this that _ conv_nul [symmetric]] assms(4)
    obtain s' where "get_seq_contiguous_buffer a (assert_nul_terminator (ma_seq a) nul) out1 s0 m =
        (DDS_RETCODE_OK, Some (map conv (t @ [NUL])), s')" "\<not> seq_loaned s'" by auto
    then show ?thesis using map_unconv_conv [of "t @ [NUL]"] by blast
  qed
  ultimately show ?thesis using out1 by auto
qed

end

lemma of_char_NUL [simp]: "(of_char NUL :: octet) = 0" "char_of (0 :: nat) = NUL"
  by (simp_all add: NUL_def char_of_def)

interpretation chars: element_text "\<lambda>c. c" "\<lambda>c. c" NUL
  by unfold_locales simp_all

interpretation octets: element_text "of_char :: char \<Rightarrow> octet" "\<lambda>w. char_of (unat w)" 0
  by unfold_locales simp_all

section \<open>Nested members\<close>

fun join_path :: "string list \<Rightarrow> string" where
  "join_path [] = []"
| "join_path [n] = n"
| "join_path (n # ns) = n @ ''.'' @ join_path ns"

definition member_names :: "string list \<Rightarrow> bool" where
  "member_names ns \<longleftrightarrow> ns \<noteq> [] \<and> (\<forall>n \<in> set ns. n \<noteq> [] \<and> CHR ''.'' \<notin> set n)"

text \<open>Splitting a name at its dots gives its parts.\<close>

definition token_laws :: "'t tc_api \<Rightarrow> bool" where
  "token_laws a \<longleftrightarrow> (\<forall>ns. member_names ns \<longrightarrow> tk_tokens a (join_path ns) = ns)"

lemma dot_in_join_path: "member_names ns \<Longrightarrow> CHR ''.'' \<in> set (join_path ns) \<longleftrightarrow> length ns > 1"
  by (induction ns rule: join_path.induct) (auto simp: member_names_def)

lemma member_walk_append:
  "member_walk a tc (xs @ ys) = Option.bind (member_walk a tc xs) (\<lambda>t. member_walk a t ys)"
  by (induction xs arbitrary: tc) (auto split: option.splits)

lemma get_member_type_walk:
  assumes "token_laws a" "member_names ns" "tk_dup a \<or> length (join_path ns) < TYPE_CODE_LENGTH"
  shows "RTI_COMMON_TypeCode_get_member_type a tc (join_path ns) = member_walk a tc ns"
proof (cases "length ns > 1")
  case True
  with assms show ?thesis
    by (auto simp: RTI_COMMON_TypeCode_get_member_type_def dot_in_join_path token_laws_def)
next
  case False
  with assms(2) obtain n where "ns = [n]" by (cases ns rule: join_path.cases) (auto simp: member_names_def)
  with assms show ?thesis
    by (auto simp: RTI_COMMON_TypeCode_get_member_type_def member_names_def split: option.splits)
qed

lemma join_path_append: "xs \<noteq> [] \<Longrightarrow> ys \<noteq> [] \<Longrightarrow> join_path (xs @ ys) = join_path xs @ ''.'' @ join_path ys"
proof (induction xs rule: join_path.induct)
  case (2 n)
  then show ?case by (cases ys) auto
qed auto

text \<open>
  The type of a nested member is found step by step: for a path of two non-empty parts, the
  type of the whole is the type that the second part has inside the type of the first, and there is
  none exactly when one of the two steps has none.  A name longer than the buffer on the stack needs
  memory, and nothing else does.
\<close>

theorem member_type_path:
  assumes "token_laws a" "member_names xs" "member_names ys"
    and "tk_dup a \<or> length (join_path (xs @ ys)) < TYPE_CODE_LENGTH"
  shows "RTI_COMMON_TypeCode_get_member_type a tc (join_path (xs @ ys)) =
    Option.bind (RTI_COMMON_TypeCode_get_member_type a tc (join_path xs))
      (\<lambda>t. RTI_COMMON_TypeCode_get_member_type a t (join_path ys))"
proof -
  have "join_path (xs @ ys) = join_path xs @ ''.'' @ join_path ys"
    using assms(2,3) by (intro join_path_append) (auto simp: member_names_def)
  with assms(4) have "tk_dup a \<or> length (join_path xs) < TYPE_CODE_LENGTH" "tk_dup a \<or> length (join_path ys) < TYPE_CODE_LENGTH"
    by auto
  moreover have "member_names (xs @ ys)" using assms(2,3) by (auto simp: member_names_def)
  ultimately show ?thesis using assms by (simp add: get_member_type_walk member_walk_append)
qed

section \<open>A concrete type\<close>

datatype std_type =
    T_struct "(string \<times> std_type) list"
  | T_string u32
  | T_char_seq u32
  | T_octet_seq u32
  | T_char
  | T_octet
  | T_long

fun split_dots :: "string \<Rightarrow> string \<Rightarrow> string list" where
  "split_dots acc [] = [rev acc]"
| "split_dots acc (c # cs) = (if c = CHR ''.'' then rev acc # split_dots [] cs else split_dots (c # acc) cs)"

definition std_tc :: "std_type tc_api" where
  "std_tc =
     \<lparr>tk_find_member_by_name = (\<lambda>t n. case t of
        T_struct ms \<Rightarrow> if n \<in> set (map fst ms) then Some (of_nat (length (takeWhile (\<lambda>m. fst m \<noteq> n) ms))) else None
      | _ \<Rightarrow> None),
      tk_member_type = (\<lambda>t i. case t of
        T_struct ms \<Rightarrow> if unat i < length ms then Some (snd (ms ! unat i)) else None
      | _ \<Rightarrow> None),
      tk_kind = (\<lambda>t. Some (case t of T_struct _ \<Rightarrow> DDS_TK_STRUCT | T_string _ \<Rightarrow> DDS_TK_STRING
        | T_char_seq _ \<Rightarrow> DDS_TK_SEQUENCE | T_octet_seq _ \<Rightarrow> DDS_TK_SEQUENCE
        | T_char \<Rightarrow> DDS_TK_CHAR | T_octet \<Rightarrow> DDS_TK_OCTET | T_long \<Rightarrow> DDS_TK_OTHER 3)),
      tk_content_type = (\<lambda>t. case t of T_char_seq _ \<Rightarrow> Some T_char | T_octet_seq _ \<Rightarrow> Some T_octet | _ \<Rightarrow> None),
      tk_array_dimension_count = (\<lambda>t. None),
      tk_length = (\<lambda>t. case t of T_string n \<Rightarrow> Some n | T_char_seq n \<Rightarrow> Some n | T_octet_seq n \<Rightarrow> Some n | _ \<Rightarrow> None),
      tk_member_count = (\<lambda>t. case t of T_struct ms \<Rightarrow> Some (of_nat (length ms)) | _ \<Rightarrow> None),
      tk_dup = True, tk_tokens = split_dots []\<rparr>"

lemma split_dots_part: "CHR ''.'' \<notin> set n \<Longrightarrow> split_dots acc n = [rev acc @ n]"
  by (induction n arbitrary: acc) auto

lemma split_dots_dot:
  "CHR ''.'' \<notin> set n \<Longrightarrow> split_dots acc (n @ CHR ''.'' # s) = (rev acc @ n) # split_dots [] s"
  by (induction n arbitrary: acc) auto

lemma token_laws_std [simp]: "token_laws std_tc"
proof -
  have "split_dots [] (join_path ns) = ns" if "member_names ns" for ns
    using that
    by (induction ns rule: join_path.induct) (auto simp: member_names_def split_dots_part split_dots_dot)
  then show ?thesis by (simp add: token_laws_def std_tc_def)
qed

theorem member_type_path_witness:
  "RTI_COMMON_TypeCode_get_member_type std_tc
     (T_struct [(''id'', T_long), (''payload'', T_struct [(''data'', T_octet_seq 100)])]) ''payload.data'' =
   Some (T_octet_seq 100)"
proof -
  have n: "member_names [''payload'']" "member_names [''data'']" by (simp_all add: member_names_def)
  have d: "tk_dup std_tc" by (simp add: std_tc_def)
  show ?thesis
    using member_type_path [OF token_laws_std n disjI1 [OF d],
        of "T_struct [(''id'', T_long), (''payload'', T_struct [(''data'', T_octet_seq 100)])]"]
    by (simp add: RTI_COMMON_TypeCode_get_member_type_def std_tc_def)
qed

end
