(* ===== verification/JsonTransformation.thy ===== *)
theory JsonTransformation
  imports Transformation DynamicDataHelpers
begin

text \<open>
  The transformation of a sample to JSON text and back,
  \<^verbatim>\<open>plugins/transformations/json/srcC/JsonTransformation.c\<close>.  The formatter of DDS that prints and parses JSON
  is a parameter, as are type codes and the access to members.

  The text is printed into \<^verbatim>\<open>json_buffer\<close>, whose memory is a list of \<^verbatim>\<open>json_buffer_size + 1\<close> bytes, and
  from there set as the value of the buffer member of the output sample: a string, or a sequence or
  an array of characters or octets.  A buffer that is too small is replaced when the member is
  unbounded.  The other way round the text is taken from the member of the input sample.

  The functions return \<open>None\<close> where the C code reads or writes outside a buffer or through a null
  pointer, finalises a sequence that was not initialised, or does not come back.
\<close>

section \<open>Types\<close>

definition DDS_RETCODE_PRECONDITION_NOT_MET :: retcode where
  "DDS_RETCODE_PRECONDITION_NOT_MET = DDS_RETCODE_OTHER 4"

definition DDS_RETCODE_OUT_OF_RESOURCES :: retcode where
  "DDS_RETCODE_OUT_OF_RESOURCES = DDS_RETCODE_OTHER 5"

definition RTI_INT32_MAX :: i32 where
  "RTI_INT32_MAX = 2147483647"

record json_config =
  jc_buffer_member :: string
  jc_unbounded_member_serialized_size_initial :: u32
  jc_indent :: u32

text \<open>\<open>js_octet_init\<close> and \<open>js_char_init\<close> tell whether the two sequences have been initialised.\<close>

record json_state =
  js_json_buffer :: "string option"
  js_json_buffer_size :: u32
  js_json_buffer_max :: i32
  js_octet_seq :: "octet dds_seq"
  js_char_seq :: "char dds_seq"
  js_octet_init :: bool
  js_char_init :: bool

text \<open>
  The calls into DDS.  \<open>je_to_json\<close> and \<open>je_get_string\<close> get whether there is a buffer, and its size; they
  give the return code, the text they have written into the buffer on success, and the size they
  report.  A null pointer is \<open>None\<close>.
\<close>

record ('t, 'd) json_env =
  je_tsfm :: "'d tsfm_env"
  je_tc :: "'t tc_api"
  je_char :: "(char, 'd) member_api"
  je_octet :: "(octet, 'd) member_api"
  je_get_member_info :: "string \<Rightarrow> 'd \<Rightarrow> retcode \<times> tckind \<times> tckind"
  je_set_string :: "string \<Rightarrow> string option \<Rightarrow> 'd \<Rightarrow> retcode \<times> 'd"
  je_get_string :: "string \<Rightarrow> 'd \<Rightarrow> bool \<Rightarrow> u32 \<Rightarrow> retcode \<times> string \<times> u32"
  je_set_char_array :: "string \<Rightarrow> char list option \<Rightarrow> 'd \<Rightarrow> retcode \<times> 'd"
  je_set_octet_array :: "string \<Rightarrow> octet list option \<Rightarrow> 'd \<Rightarrow> retcode \<times> 'd"
  je_get_char_array :: "string \<Rightarrow> 'd \<Rightarrow> bool \<Rightarrow> u32 \<Rightarrow> retcode \<times> char list"
  je_get_octet_array :: "string \<Rightarrow> 'd \<Rightarrow> bool \<Rightarrow> u32 \<Rightarrow> retcode \<times> octet list"
  je_to_json :: "'d \<Rightarrow> bool \<Rightarrow> u32 \<Rightarrow> u32 \<Rightarrow> retcode \<times> string \<times> u32"
  je_from_json :: "string option \<Rightarrow> 'd \<Rightarrow> retcode \<times> 'd"
  je_string_alloc :: "u32 \<Rightarrow> string option"
  je_octet_initialize :: bool
  je_char_initialize :: bool
  je_finalize_garbage :: bool
  je_string_replace :: bool
  je_state_alloc :: bool
  je_config_alloc :: "nat \<Rightarrow> bool"

section \<open>Checking the types\<close>

definition RTI_TSFM_JsonTransformation_validate_container_tckind :: "tckind \<Rightarrow> bool" where
  "RTI_TSFM_JsonTransformation_validate_container_tckind tck \<longleftrightarrow> tck = DDS_TK_STRUCT \<or> tck = DDS_TK_VALUE"

text \<open>The elements of a sequence or an array must be characters or octets.\<close>

definition validate_content :: "'t tc_api \<Rightarrow> 't \<Rightarrow> retcode" where
  "validate_content a member_type =
     (case tk_content_type a member_type of
        None \<Rightarrow> DDS_RETCODE_ERROR
      | Some content \<Rightarrow>
          case tk_kind a content of
            None \<Rightarrow> DDS_RETCODE_ERROR
          | Some tckind \<Rightarrow>
              if tckind \<noteq> DDS_TK_OCTET \<and> tckind \<noteq> DDS_TK_CHAR then DDS_RETCODE_ERROR else DDS_RETCODE_OK)"

definition RTI_TSFM_JsonTransformation_validate_buffer_member :: "'t tc_api \<Rightarrow> 't \<Rightarrow> string \<Rightarrow> retcode" where
  "RTI_TSFM_JsonTransformation_validate_buffer_member a base_type member_name =
     (case RTI_COMMON_TypeCode_get_member_type a base_type member_name of
        None \<Rightarrow> DDS_RETCODE_ERROR
      | Some member_type \<Rightarrow>
          case tk_kind a member_type of
            None \<Rightarrow> DDS_RETCODE_ERROR
          | Some DDS_TK_ARRAY \<Rightarrow>
              (case tk_array_dimension_count a member_type of
                 None \<Rightarrow> DDS_RETCODE_ERROR
               | Some n \<Rightarrow> if n \<noteq> 1 then DDS_RETCODE_ERROR else validate_content a member_type)
          | Some DDS_TK_SEQUENCE \<Rightarrow> validate_content a member_type
          | Some DDS_TK_STRING \<Rightarrow> DDS_RETCODE_OK
          | Some _ \<Rightarrow> DDS_RETCODE_ERROR)"

definition RTI_TSFM_JsonTransformation_validate_input_type ::
    "'t tc_api \<Rightarrow> tsfm_kind \<Rightarrow> json_config \<Rightarrow> 't \<Rightarrow> retcode" where
  "RTI_TSFM_JsonTransformation_validate_input_type a kind cfg input_type =
     (if kind = TransformationKind_SERIALIZER then DDS_RETCODE_OK
      else RTI_TSFM_JsonTransformation_validate_buffer_member a input_type (jc_buffer_member cfg))"

definition RTI_TSFM_JsonTransformation_validate_output_type ::
    "'t tc_api \<Rightarrow> tsfm_kind \<Rightarrow> json_config \<Rightarrow> 't \<Rightarrow> retcode" where
  "RTI_TSFM_JsonTransformation_validate_output_type a kind cfg output_type =
     (if kind = TransformationKind_SERIALIZER then
        (if RTI_TSFM_JsonTransformation_validate_buffer_member a output_type (jc_buffer_member cfg) \<noteq> DDS_RETCODE_OK
         then DDS_RETCODE_ERROR else DDS_RETCODE_OK)
      else
        case tk_kind a output_type of
          None \<Rightarrow> DDS_RETCODE_ERROR
        | Some tckind \<Rightarrow>
            if \<not> RTI_TSFM_JsonTransformation_validate_container_tckind tckind then DDS_RETCODE_ERROR
            else
              case tk_member_count a output_type of
                None \<Rightarrow> DDS_RETCODE_ERROR
              | Some members_count \<Rightarrow> if members_count = 0 then DDS_RETCODE_ERROR else DDS_RETCODE_OK)"

section \<open>Configuration, state and initialisation\<close>

definition json_property_steps ::
    "('t, 'd) json_env \<Rightarrow> properties \<Rightarrow> (json_config \<Rightarrow> json_config option) list" where
  "json_property_steps env properties =
     [(\<lambda>c. Some (c\<lparr>jc_unbounded_member_serialized_size_initial := 256, jc_indent := 0\<rparr>)),
      lookup_property properties ''buffer_member''
        (\<lambda>pval c. if je_string_replace env then Some (c\<lparr>jc_buffer_member := pval\<rparr>) else None),
      lookup_property properties ''serialized_size_min''
        (\<lambda>pval c. Some (c\<lparr>jc_unbounded_member_serialized_size_initial := word_of_int (strtol pval)\<rparr>)),
      lookup_property properties ''unbounded_member_serialized_size_initial''
        (\<lambda>pval c. Some (c\<lparr>jc_unbounded_member_serialized_size_initial := word_of_int (strtol pval)\<rparr>)),
      lookup_property properties ''indent'' (\<lambda>pval c. Some (c\<lparr>jc_indent := word_of_int (strtol pval)\<rparr>))]"

definition RTI_TSFM_JsonTransformationConfig_parse_from_properties ::
    "('t, 'd) json_env \<Rightarrow> properties \<Rightarrow> tsfm_config \<times> json_config \<Rightarrow> retcode \<times> tsfm_config \<times> json_config" where
  "RTI_TSFM_JsonTransformationConfig_parse_from_properties env properties self =
     (case RTI_TSFM_TransformationConfig_parse_from_properties (je_tsfm env) (fst self) properties of
        (rc, parent) \<Rightarrow>
          if rc \<noteq> DDS_RETCODE_OK then (DDS_RETCODE_ERROR, parent, snd self)
          else case run_steps (json_property_steps env properties) (snd self) of (rc, c) \<Rightarrow> (rc, parent, c))"

definition RTI_TSFM_JsonTransformationConfigTypeSupport_create_data ::
    "('t, 'd) json_env \<Rightarrow> (tsfm_config \<times> json_config) option" where
  "RTI_TSFM_JsonTransformationConfigTypeSupport_create_data env =
     (if je_config_alloc env 0 \<and> je_config_alloc env 1 then
        Some (\<lparr>tc_type = TransformationKind_SERIALIZER, tc_input_type = [], tc_output_type = []\<rparr>,
              \<lparr>jc_buffer_member = [], jc_unbounded_member_serialized_size_initial = 0, jc_indent = 0\<rparr>)
      else None)"

definition new_json_state :: json_state where
  "new_json_state =
     \<lparr>js_json_buffer = None, js_json_buffer_size = 0, js_json_buffer_max = 0, js_octet_seq = seq_empty,
      js_char_seq = seq_empty, js_octet_init = False, js_char_init = False\<rparr>"

definition RTI_TSFM_JsonTransformationState_create_data :: "('t, 'd) json_env \<Rightarrow> json_state option" where
  "RTI_TSFM_JsonTransformationState_create_data env = (if \<not> je_state_alloc env then None else Some new_json_state)"

text \<open>Both sequences are finalised; \<open>None\<close> when that goes wrong on one that was not initialised.\<close>

definition RTI_TSFM_JsonTransformationState_delete_data :: "('t, 'd) json_env \<Rightarrow> json_state \<Rightarrow> unit option" where
  "RTI_TSFM_JsonTransformationState_delete_data env data =
     (if je_finalize_garbage env \<or> js_octet_init data \<and> js_char_init data then Some () else None)"

definition RTI_TSFM_JsonTransformation_preallocate_buffers ::
    "('t, 'd) json_env \<Rightarrow> tsfm_kind \<Rightarrow> 't \<Rightarrow> json_config \<Rightarrow> json_state \<Rightarrow> bool \<times> json_config \<times> json_state" where
  "RTI_TSFM_JsonTransformation_preallocate_buffers env kind tc cfg st =
     (let st1 = st\<lparr>js_json_buffer := None, js_json_buffer_size := 0\<rparr> in
      if \<not> je_octet_initialize env then (False, cfg, st1)
      else
        let st2 = st1\<lparr>js_octet_seq := seq_empty, js_octet_init := True\<rparr> in
        if \<not> je_char_initialize env then (False, cfg, st2)
        else
          let st3 = st2\<lparr>js_char_seq := seq_empty, js_char_init := True\<rparr> in
          case RTI_COMMON_TypeCode_get_member_type (je_tc env) tc (jc_buffer_member cfg) of
            None \<Rightarrow> (False, cfg, st3)
          | Some tc1 \<Rightarrow>
              case tk_length (je_tc env) tc1 of
                None \<Rightarrow> (False, cfg, st3)
              | Some max_len \<Rightarrow>
                  let st4 = st3\<lparr>js_json_buffer_max := max_len\<rparr>;
                      len = (if max_len = RTI_INT32_MAX then jc_unbounded_member_serialized_size_initial cfg else max_len);
                      cfg1 = (if max_len = RTI_INT32_MAX then cfg
                              else cfg\<lparr>jc_unbounded_member_serialized_size_initial := 0\<rparr>) in
                  case tk_kind (je_tc env) tc1 of
                    None \<Rightarrow> (False, cfg1, st4)
                  | Some member_kind \<Rightarrow>
                      if member_kind \<noteq> DDS_TK_SEQUENCE \<or> kind \<noteq> TransformationKind_DESERIALIZER then
                        case je_string_alloc env len of
                          None \<Rightarrow> (False, cfg1, st4)
                        | Some mem \<Rightarrow> (True, cfg1, st4\<lparr>js_json_buffer := Some mem, js_json_buffer_size := len\<rparr>)
                      else (True, cfg1, st4))"

text \<open>The two types come with the streams; \<open>dynamic\<close> says whether the input type is a dynamic type.\<close>

record 't json_types =
  jt_input_dynamic :: bool
  jt_input :: 't
  jt_output :: 't
  jt_output_name :: string

definition RTI_TSFM_JsonTransformation_initialize ::
    "('t, 'd) json_env \<Rightarrow> 't json_types \<Rightarrow> properties \<Rightarrow> tsfm_config \<Rightarrow> json_config \<Rightarrow> json_state
     \<Rightarrow> retcode \<times> 'd transformation \<times> json_config \<times> json_state" where
  "RTI_TSFM_JsonTransformation_initialize env types properties parent_config cfg st =
     (case RTI_TSFM_Transformation_initialize (je_tsfm env) (jt_output_name types) properties (Some parent_config) of
        (rc, t) \<Rightarrow>
          let kind = tc_type parent_config;
              rc1 = RTI_TSFM_JsonTransformation_validate_input_type (je_tc env) kind cfg (jt_input types);
              rc2 = RTI_TSFM_JsonTransformation_validate_output_type (je_tc env) kind cfg (jt_output types) in
          if rc \<noteq> DDS_RETCODE_OK then (rc, t, cfg, st)
          else if \<not> jt_input_dynamic types then (DDS_RETCODE_ERROR, t, cfg, st)
          else if rc1 \<noteq> DDS_RETCODE_OK then (rc1, t, cfg, st)
          else if rc2 \<noteq> DDS_RETCODE_OK then (rc2, t, cfg, st)
          else
            case RTI_TSFM_JsonTransformation_preallocate_buffers env kind
                   (if kind = TransformationKind_SERIALIZER then jt_output types else jt_input types) cfg st of
              (ok, cfg1, st1) \<Rightarrow> (if ok then DDS_RETCODE_OK else DDS_RETCODE_ERROR, t, cfg1, st1))"


section \<open>From a sample to text\<close>

text \<open>
  The loop that prints the sample: a buffer that is too small is freed and one of the size that was
  reported is allocated, when the member is unbounded.
\<close>

partial_function (option) to_json_loop ::
    "('t, 'd) json_env \<Rightarrow> u32 \<Rightarrow> 'd \<Rightarrow> json_state \<Rightarrow> (retcode \<times> u32 \<times> json_state) option" where
  "to_json_loop env indent sample_in st =
     (case je_to_json env sample_in (js_json_buffer st \<noteq> None) (js_json_buffer_size st) indent of
        (rc, text, serialized_size) \<Rightarrow>
          if rc = DDS_RETCODE_OUT_OF_RESOURCES then
            if js_json_buffer_max st \<noteq> RTI_INT32_MAX then Some (rc, serialized_size, st)
            else
              case je_string_alloc env serialized_size of
                None \<Rightarrow> Some (rc, serialized_size, st\<lparr>js_json_buffer := None\<rparr>)
              | Some mem \<Rightarrow>
                  to_json_loop env indent sample_in
                    (st\<lparr>js_json_buffer := Some mem, js_json_buffer_size := serialized_size\<rparr>)
          else if rc \<noteq> DDS_RETCODE_OK then Some (rc, serialized_size, st)
          else
            case js_json_buffer st of
              None \<Rightarrow> Some (DDS_RETCODE_OK, serialized_size, st)
            | Some mem \<Rightarrow>
                (case store_text text mem of
                   None \<Rightarrow> None
                 | Some mem1 \<Rightarrow> Some (DDS_RETCODE_OK, serialized_size, st\<lparr>js_json_buffer := Some mem1\<rparr>)))"

text \<open>The loop over the line breaks of the text; \<open>None\<close> when there is no terminator.\<close>

fun replace_newlines :: "string \<Rightarrow> string option" where
  "replace_newlines [] = None"
| "replace_newlines (c # cs) =
     (if c = NUL then Some (c # cs)
      else map_option (\<lambda>cs1. (if c = CHR 0x0A then CHR '' '' else c) # cs1) (replace_newlines cs))"

text \<open>The text is set as the value of the member, by the kinds of the member and of its elements.\<close>

definition set_buffer_member ::
    "('t, 'd) json_env \<Rightarrow> string \<Rightarrow> u32 \<Rightarrow> json_state \<Rightarrow> 'd \<Rightarrow> (retcode \<times> json_state \<times> 'd) option" where
  "set_buffer_member env member serialized_size st sample_out =
     (case je_get_member_info env member sample_out of
        (rc, member_kind, element_kind) \<Rightarrow>
          if rc \<noteq> DDS_RETCODE_OK then Some (rc, st, sample_out)
          else
            case (member_kind, element_kind) of
              (DDS_TK_STRING, _) \<Rightarrow>
                (case je_set_string env member (map_option c_text (js_json_buffer st)) sample_out of
                   (rc, out) \<Rightarrow> Some (rc, st, out))
            | (DDS_TK_SEQUENCE, DDS_TK_CHAR) \<Rightarrow>
                (case js_json_buffer st of
                   None \<Rightarrow> None
                 | Some mem \<Rightarrow>
                     map_option (\<lambda>(rc, out, s). (rc, st\<lparr>js_char_seq := s\<rparr>, out))
                       (RTI_COMMON_DynamicData_set_char_seq_from_string (je_char env) sample_out (js_char_seq st)
                          member mem serialized_size))
            | (DDS_TK_SEQUENCE, DDS_TK_OCTET) \<Rightarrow>
                (case js_json_buffer st of
                   None \<Rightarrow> None
                 | Some mem \<Rightarrow>
                     map_option (\<lambda>(rc, out, s). (rc, st\<lparr>js_octet_seq := s\<rparr>, out))
                       (RTI_COMMON_DynamicData_set_octet_seq_from_string (je_octet env) sample_out (js_octet_seq st)
                          member mem serialized_size))
            | (DDS_TK_ARRAY, DDS_TK_CHAR) \<Rightarrow>
                (case je_set_char_array env member
                        (map_option (take (unat (js_json_buffer_size st))) (js_json_buffer st)) sample_out of
                   (rc, out) \<Rightarrow> Some (rc, st, out))
            | (DDS_TK_ARRAY, DDS_TK_OCTET) \<Rightarrow>
                (case je_set_octet_array env member
                        (map_option (\<lambda>mem. map of_char (take (unat (js_json_buffer_size st)) mem)) (js_json_buffer st))
                        sample_out of
                   (rc, out) \<Rightarrow> Some (rc, st, out))
            | _ \<Rightarrow> Some (DDS_RETCODE_ERROR, st, sample_out))"

definition RTI_TSFM_JsonTransformation_serialize ::
    "('t, 'd) json_env \<Rightarrow> (json_config, json_state, 'd) user_fn" where
  "RTI_TSFM_JsonTransformation_serialize env cfg st sample_in sample_out =
     (case to_json_loop env (jc_indent cfg) sample_in st of
        None \<Rightarrow> None
      | Some (rc, serialized_size, st1) \<Rightarrow>
          if rc \<noteq> DDS_RETCODE_OK then Some (rc, st1, sample_in, sample_out)
          else
            case (if jc_indent cfg \<noteq> 0 then Some st1
                  else case js_json_buffer st1 of
                         None \<Rightarrow> None
                       | Some mem \<Rightarrow> map_option (\<lambda>mem1. st1\<lparr>js_json_buffer := Some mem1\<rparr>) (replace_newlines mem)) of
              None \<Rightarrow> None
            | Some st2 \<Rightarrow>
                map_option (\<lambda>(rc, st3, out). (rc, st3, sample_in, out))
                  (set_buffer_member env (jc_buffer_member cfg) serialized_size st2 sample_out))"

section \<open>From text to a sample\<close>

text \<open>
  A string that does not fit is fetched again into a buffer of the size that was reported.  A failed
  allocation is not noticed; \<^verbatim>\<open>DDS_DynamicData_get_string\<close> then allocates the string itself.
\<close>

partial_function (option) get_string_loop ::
    "('t, 'd) json_env \<Rightarrow> string \<Rightarrow> 'd \<Rightarrow> json_state \<Rightarrow> (retcode \<times> json_state) option" where
  "get_string_loop env member sample_in st =
     (case je_get_string env member sample_in (js_json_buffer st \<noteq> None) (js_json_buffer_size st) of
        (rc, text, current_len) \<Rightarrow>
          if rc = DDS_RETCODE_PRECONDITION_NOT_MET then
            if js_json_buffer_max st \<noteq> RTI_INT32_MAX then Some (rc, st)
            else get_string_loop env member sample_in
                   (st\<lparr>js_json_buffer := je_string_alloc env current_len, js_json_buffer_size := current_len\<rparr>)
          else if rc \<noteq> DDS_RETCODE_OK then Some (rc, st)
          else
            case js_json_buffer st of
              None \<Rightarrow> Some (DDS_RETCODE_OK, st\<lparr>js_json_buffer := Some (text @ [NUL])\<rparr>)
            | Some mem \<Rightarrow>
                (case store_text text mem of
                   None \<Rightarrow> None
                 | Some mem1 \<Rightarrow> Some (DDS_RETCODE_OK, st\<lparr>js_json_buffer := Some mem1\<rparr>)))"

text \<open>The elements of an array are copied to the start of the buffer.\<close>

definition copy_array :: "retcode \<times> char list \<Rightarrow> json_state \<Rightarrow> (retcode \<times> string option \<times> json_state) option" where
  "copy_array r st =
     (case r of
        (rc, chars) \<Rightarrow>
          if rc \<noteq> DDS_RETCODE_OK then Some (rc, None, st)
          else
            case js_json_buffer st of
              None \<Rightarrow> Some (DDS_RETCODE_OK, None, st)
            | Some mem \<Rightarrow>
                if length chars > length mem then None
                else
                  let mem1 = chars @ drop (length chars) mem in
                  Some (DDS_RETCODE_OK, Some mem1, st\<lparr>js_json_buffer := Some mem1\<rparr>))"

text \<open>
  The memory the text is read from.  A kind that is not supported is only logged by the code, with
  the return code \<^verbatim>\<open>DDS_RETCODE_OK\<close> that the call before has left; the third component is whether it goes
  on to parse the text.
\<close>

definition get_buffer_member ::
    "('t, 'd) json_env \<Rightarrow> string \<Rightarrow> json_state \<Rightarrow> 'd \<Rightarrow> (retcode \<times> json_state \<times> bool \<times> string option) option" where
  "get_buffer_member env member st sample_in =
     (case je_get_member_info env member sample_in of
        (rc, member_kind, element_kind) \<Rightarrow>
          let present = (js_json_buffer st \<noteq> None);
              finish = (\<lambda>(rc, buf, st1). (rc, st1, rc = DDS_RETCODE_OK, buf)) in
          if rc \<noteq> DDS_RETCODE_OK then Some (rc, st, False, None)
          else
            case (member_kind, element_kind) of
              (DDS_TK_ARRAY, DDS_TK_CHAR) \<Rightarrow>
                map_option finish
                  (copy_array (je_get_char_array env member sample_in present (js_json_buffer_size st)) st)
            | (DDS_TK_ARRAY, DDS_TK_OCTET) \<Rightarrow>
                map_option finish
                  (copy_array (apsnd (map (\<lambda>w. char_of (unat w)))
                     (je_get_octet_array env member sample_in present (js_json_buffer_size st))) st)
            | (DDS_TK_STRING, _) \<Rightarrow>
                map_option (\<lambda>(rc, st1). finish (rc, js_json_buffer st1, st1)) (get_string_loop env member sample_in st)
            | (DDS_TK_SEQUENCE, DDS_TK_CHAR) \<Rightarrow>
                (case RTI_COMMON_DynamicData_get_char_seq_contiguous_buffer (je_char env) sample_in (js_char_seq st) member of
                   (rc, buf, s) \<Rightarrow> Some (finish (rc, buf, st\<lparr>js_char_seq := s\<rparr>)))
            | (DDS_TK_SEQUENCE, DDS_TK_OCTET) \<Rightarrow>
                (case RTI_COMMON_DynamicData_get_octet_seq_contiguous_buffer (je_octet env) sample_in (js_octet_seq st) member of
                   (rc, buf, s) \<Rightarrow> Some (finish (rc, buf, st\<lparr>js_octet_seq := s\<rparr>)))
            | _ \<Rightarrow> Some (DDS_RETCODE_OK, st, False, None))"

definition RTI_TSFM_JsonTransformation_deserialize ::
    "('t, 'd) json_env \<Rightarrow> (json_config, json_state, 'd) user_fn" where
  "RTI_TSFM_JsonTransformation_deserialize env cfg st sample_in sample_out =
     (case get_buffer_member env (jc_buffer_member cfg) st sample_in of
        None \<Rightarrow> None
      | Some (rc, st1, go_on, buffer) \<Rightarrow>
          if \<not> go_on then Some (rc, st1, sample_in, sample_out)
          else
            case buffer of
              None \<Rightarrow> (case je_from_json env None sample_out of (rc, out) \<Rightarrow> Some (rc, st1, sample_in, out))
            | Some mem \<Rightarrow>
                if NUL \<notin> set mem then None
                else case je_from_json env (Some (c_text mem)) sample_out of (rc, out) \<Rightarrow> Some (rc, st1, sample_in, out))"

section \<open>The generated functions\<close>

definition json_user_plugin :: "('t, 'd) json_env \<Rightarrow> (json_config, json_state, 'd) user_plugin" where
  "json_user_plugin env =
     \<lparr>up_serialize_sample = RTI_TSFM_JsonTransformation_serialize env,
      up_deserialize_sample = RTI_TSFM_JsonTransformation_deserialize env\<rparr>"

text \<open>
  \<^verbatim>\<open>T_new\<close> of the template with \<^verbatim>\<open>T_initialize\<close> defined: on an error the state is deleted, which
  finalises its sequences whether or not they have been initialised.
\<close>

definition RTI_TSFM_JsonTransformation_new ::
    "('t, 'd) json_env \<Rightarrow> 't json_types \<Rightarrow> properties
     \<Rightarrow> (retcode \<times> (json_config, json_state, 'd) tobject option) option" where
  "RTI_TSFM_JsonTransformation_new env types properties =
     (let fail = (\<lambda>st. map_option (\<lambda>_. (DDS_RETCODE_ERROR, None)) (RTI_TSFM_JsonTransformationState_delete_data env st)) in
      if \<not> te_transform_alloc (je_tsfm env) then Some (DDS_RETCODE_ERROR, None)
      else
        case RTI_TSFM_JsonTransformationState_create_data env of
          None \<Rightarrow> Some (DDS_RETCODE_ERROR, None)
        | Some st \<Rightarrow>
            case RTI_TSFM_JsonTransformationConfigTypeSupport_create_data env of
              None \<Rightarrow> fail st
            | Some config \<Rightarrow>
                case RTI_TSFM_JsonTransformationConfig_parse_from_properties env properties config of
                  (rc, parent_config, c) \<Rightarrow>
                    if rc \<noteq> DDS_RETCODE_OK then fail st
                    else
                      case RTI_TSFM_JsonTransformation_initialize env types properties parent_config c st of
                        (rc, t, c1, st1) \<Rightarrow>
                          if rc \<noteq> DDS_RETCODE_OK then fail st1
                          else Some (DDS_RETCODE_OK, Some \<lparr>o_parent = t, o_config = c1, o_state = st1\<rparr>))"


section \<open>The checked types\<close>

text \<open>The kinds of a member that can hold a text, and the type codes that have them.\<close>

definition text_kinds :: "tckind \<Rightarrow> tckind \<Rightarrow> bool" where
  "text_kinds member_kind element_kind \<longleftrightarrow>
     member_kind = DDS_TK_STRING \<or>
     (member_kind = DDS_TK_SEQUENCE \<or> member_kind = DDS_TK_ARRAY) \<and>
     (element_kind = DDS_TK_CHAR \<or> element_kind = DDS_TK_OCTET)"

definition text_type :: "'t tc_api \<Rightarrow> 't \<Rightarrow> bool" where
  "text_type a t \<longleftrightarrow>
     tk_kind a t = Some DDS_TK_STRING \<or>
     (tk_kind a t = Some DDS_TK_SEQUENCE \<or> tk_kind a t = Some DDS_TK_ARRAY \<and> tk_array_dimension_count a t = Some 1) \<and>
     (\<exists>c. tk_content_type a t = Some c \<and> (tk_kind a c = Some DDS_TK_CHAR \<or> tk_kind a c = Some DDS_TK_OCTET))"

lemma validate_content_ok:
  "validate_content a t = DDS_RETCODE_OK \<longleftrightarrow>
     (\<exists>c. tk_content_type a t = Some c \<and> (tk_kind a c = Some DDS_TK_CHAR \<or> tk_kind a c = Some DDS_TK_OCTET))"
  by (auto simp: validate_content_def split: option.splits)

lemma validate_buffer_member_ok:
  "RTI_TSFM_JsonTransformation_validate_buffer_member a tc m = DDS_RETCODE_OK \<longleftrightarrow>
     (\<exists>t. RTI_COMMON_TypeCode_get_member_type a tc m = Some t \<and> text_type a t)"
  by (auto simp: RTI_TSFM_JsonTransformation_validate_buffer_member_def text_type_def validate_content_ok
      split: option.splits tckind.splits)

text \<open>The type a transformation accepts for the text, and the one it accepts for the sample.\<close>

definition buffer_type :: "tsfm_kind \<Rightarrow> 't json_types \<Rightarrow> 't" where
  "buffer_type kind types = (if kind = TransformationKind_SERIALIZER then jt_output types else jt_input types)"

definition sample_type_ok :: "'t tc_api \<Rightarrow> tsfm_kind \<Rightarrow> 't json_types \<Rightarrow> bool" where
  "sample_type_ok a kind types \<longleftrightarrow> kind = TransformationKind_SERIALIZER \<or>
     (tk_kind a (jt_output types) = Some DDS_TK_STRUCT \<or> tk_kind a (jt_output types) = Some DDS_TK_VALUE) \<and>
     (\<exists>n. tk_member_count a (jt_output types) = Some n \<and> n \<noteq> 0)"

lemma validate_types_ok:
  "RTI_TSFM_JsonTransformation_validate_input_type a kind cfg (jt_input types) = DDS_RETCODE_OK \<and>
   RTI_TSFM_JsonTransformation_validate_output_type a kind cfg (jt_output types) = DDS_RETCODE_OK \<longleftrightarrow>
     (\<exists>t. RTI_COMMON_TypeCode_get_member_type a (buffer_type kind types) (jc_buffer_member cfg) = Some t \<and> text_type a t) \<and>
     sample_type_ok a kind types"
  by (cases kind)
    (auto simp: RTI_TSFM_JsonTransformation_validate_input_type_def RTI_TSFM_JsonTransformation_validate_output_type_def
      validate_buffer_member_ok buffer_type_def sample_type_ok_def RTI_TSFM_JsonTransformation_validate_container_tckind_def
      split: option.splits)

text \<open>Enough memory, and a length for every type that can hold a text.\<close>

definition json_memory :: "('t, 'd) json_env \<Rightarrow> bool" where
  "json_memory env \<longleftrightarrow> (\<forall>n. \<exists>mem. je_string_alloc env n = Some mem) \<and> je_octet_initialize env \<and> je_char_initialize env \<and>
     (\<forall>t. text_type (je_tc env) t \<longrightarrow> tk_length (je_tc env) t \<noteq> None)"

text \<open>A new string of \<open>n\<close> characters is empty and has room for its terminator.\<close>

definition alloc_laws :: "('t, 'd) json_env \<Rightarrow> bool" where
  "alloc_laws env \<longleftrightarrow> (\<forall>n mem. je_string_alloc env n = Some mem \<longrightarrow> length mem = Suc (unat n) \<and> mem ! 0 = NUL)"

text \<open>
  The state of an initialised transformation: the sequences own no memory and there is a buffer of
  the recorded size, except for the text of a sequence that is only read.
\<close>

definition json_ready :: "json_state \<Rightarrow> bool" where
  "json_ready st \<longleftrightarrow> seq_vacant (js_octet_seq st) \<and> seq_vacant (js_char_seq st) \<and>
     (\<exists>mem. js_json_buffer st = Some mem \<and> length mem = Suc (unat (js_json_buffer_size st)))"

definition buffer_size :: "json_config \<Rightarrow> u32 \<Rightarrow> u32" where
  "buffer_size cfg max_len =
     (if max_len = RTI_INT32_MAX then jc_unbounded_member_serialized_size_initial cfg else max_len)"

lemma preallocate_ok:
  assumes "json_memory env" "alloc_laws env" "RTI_COMMON_TypeCode_get_member_type (je_tc env) tc (jc_buffer_member cfg) = Some t"
    and "text_type (je_tc env) t"
  shows "\<exists>cfg1 st1 n. RTI_TSFM_JsonTransformation_preallocate_buffers env kind tc cfg st = (True, cfg1, st1) \<and>
    tk_length (je_tc env) t = Some n \<and> js_json_buffer_max st1 = n \<and>
    jc_buffer_member cfg1 = jc_buffer_member cfg \<and> jc_indent cfg1 = jc_indent cfg \<and>
    seq_vacant (js_octet_seq st1) \<and> seq_vacant (js_char_seq st1) \<and>
    (kind = TransformationKind_SERIALIZER \<or> tk_kind (je_tc env) t \<noteq> Some DDS_TK_SEQUENCE \<longrightarrow>
       json_ready st1 \<and> js_json_buffer_size st1 = buffer_size cfg n)"
proof -
  obtain n where n: "tk_length (je_tc env) t = Some n" using assms(1,4) by (auto simp: json_memory_def)
  obtain k where k: "tk_kind (je_tc env) t = Some k" using assms(4) by (auto simp: text_type_def)
  obtain mem where mem: "je_string_alloc env (buffer_size cfg n) = Some mem" using assms(1) by (auto simp: json_memory_def)
  then have l: "length mem = Suc (unat (buffer_size cfg n))" using assms(2) by (auto simp: alloc_laws_def)
  have i: "je_octet_initialize env" "je_char_initialize env" using assms(1) by (auto simp: json_memory_def)
  show ?thesis using assms(3) n k mem l i
    by (cases kind; cases "n = RTI_INT32_MAX")
      (simp_all add: RTI_TSFM_JsonTransformation_preallocate_buffers_def Let_def json_ready_def buffer_size_def)
qed


text \<open>A creation that gets as far as the types: memory, a configuration from the properties, and the base object.\<close>

definition json_creation ::
    "('t, 'd) json_env \<Rightarrow> 't json_types \<Rightarrow> properties \<Rightarrow> tsfm_config \<Rightarrow> json_config \<Rightarrow> bool" where
  "json_creation env types properties parent_config cfg \<longleftrightarrow>
     json_memory env \<and> alloc_laws env \<and> te_transform_alloc (je_tsfm env) \<and> je_state_alloc env \<and> jt_input_dynamic types \<and>
     (case RTI_TSFM_JsonTransformationConfigTypeSupport_create_data env of
        None \<Rightarrow> False
      | Some config \<Rightarrow>
          RTI_TSFM_JsonTransformationConfig_parse_from_properties env properties config = (DDS_RETCODE_OK, parent_config, cfg)) \<and>
     fst (RTI_TSFM_Transformation_initialize (je_tsfm env) (jt_output_name types) properties (Some parent_config)) = DDS_RETCODE_OK"

lemma json_initialize_ok:
  assumes "json_creation env types properties pc cfg"
    and "RTI_COMMON_TypeCode_get_member_type (je_tc env) (buffer_type (tc_type pc) types) (jc_buffer_member cfg) = Some t"
    and "text_type (je_tc env) t" "sample_type_ok (je_tc env) (tc_type pc) types"
  shows "\<exists>tr cfg1 st1 n. RTI_TSFM_JsonTransformation_initialize env types properties pc cfg st = (DDS_RETCODE_OK, tr, cfg1, st1) \<and>
    tk_length (je_tc env) t = Some n \<and> js_json_buffer_max st1 = n \<and>
    jc_buffer_member cfg1 = jc_buffer_member cfg \<and> jc_indent cfg1 = jc_indent cfg \<and>
    seq_vacant (js_octet_seq st1) \<and> seq_vacant (js_char_seq st1) \<and>
    (tc_type pc = TransformationKind_SERIALIZER \<or> tk_kind (je_tc env) t \<noteq> Some DDS_TK_SEQUENCE \<longrightarrow>
       json_ready st1 \<and> js_json_buffer_size st1 = buffer_size cfg n)"
proof -
  have m: "json_memory env" "alloc_laws env" using assms(1) by (auto simp: json_creation_def)
  obtain tr where tr: "RTI_TSFM_Transformation_initialize (je_tsfm env) (jt_output_name types) properties (Some pc) =
      (DDS_RETCODE_OK, tr)"
    using assms(1) by (cases "RTI_TSFM_Transformation_initialize (je_tsfm env) (jt_output_name types) properties (Some pc)")
      (auto simp: json_creation_def)
  have v: "RTI_TSFM_JsonTransformation_validate_input_type (je_tc env) (tc_type pc) cfg (jt_input types) = DDS_RETCODE_OK"
      "RTI_TSFM_JsonTransformation_validate_output_type (je_tc env) (tc_type pc) cfg (jt_output types) = DDS_RETCODE_OK"
    using validate_types_ok [of "je_tc env" "tc_type pc" cfg types] assms(2-4) by auto
  have d: "jt_input_dynamic types" using assms(1) by (simp add: json_creation_def)
  from preallocate_ok [OF m assms(2,3), of "tc_type pc" st] obtain cfg1 st1 n where p:
      "RTI_TSFM_JsonTransformation_preallocate_buffers env (tc_type pc) (buffer_type (tc_type pc) types) cfg st = (True, cfg1, st1)"
      "tk_length (je_tc env) t = Some n \<and> js_json_buffer_max st1 = n \<and>
       jc_buffer_member cfg1 = jc_buffer_member cfg \<and> jc_indent cfg1 = jc_indent cfg \<and>
       seq_vacant (js_octet_seq st1) \<and> seq_vacant (js_char_seq st1) \<and>
       (tc_type pc = TransformationKind_SERIALIZER \<or> tk_kind (je_tc env) t \<noteq> Some DDS_TK_SEQUENCE \<longrightarrow>
          json_ready st1 \<and> js_json_buffer_size st1 = buffer_size cfg n)"
    by blast
  from p(1) have "RTI_TSFM_JsonTransformation_initialize env types properties pc cfg st = (DDS_RETCODE_OK, tr, cfg1, st1)"
    using tr v d by (simp add: RTI_TSFM_JsonTransformation_initialize_def buffer_type_def)
  with p(2) show ?thesis by blast
qed

text \<open>The end of a creation: the object, or the cleanup.\<close>

definition json_finish ::
    "('t, 'd) json_env \<Rightarrow> retcode \<times> 'd transformation \<times> json_config \<times> json_state
     \<Rightarrow> (retcode \<times> (json_config, json_state, 'd) tobject option) option" where
  "json_finish env r =
     (case r of (rc, t, c1, st1) \<Rightarrow>
        if rc \<noteq> DDS_RETCODE_OK
        then map_option (\<lambda>_. (DDS_RETCODE_ERROR, None)) (RTI_TSFM_JsonTransformationState_delete_data env st1)
        else Some (DDS_RETCODE_OK, Some \<lparr>o_parent = t, o_config = c1, o_state = st1\<rparr>))"

lemma json_new_steps:
  assumes "json_creation env types properties pc cfg"
  shows "RTI_TSFM_JsonTransformation_new env types properties =
    json_finish env (RTI_TSFM_JsonTransformation_initialize env types properties pc cfg new_json_state)"
  using assms
  by (auto simp: json_creation_def RTI_TSFM_JsonTransformation_new_def RTI_TSFM_JsonTransformationState_create_data_def
      json_finish_def split: option.splits prod.splits)

text \<open>
  Claim C26. The types of a JSON transformation.  With enough memory, a transformation is created exactly
  when the buffer member exists in the type of the text and is a string, a sequence or a
  one-dimensional array of characters or octets, and, for a deserialiser, the type of the samples is
  a structure or value with members.  Otherwise the cleanup finalises sequences that were never
  initialised before the error is reported.
\<close>

theorem json_new_types:
  assumes "json_creation env types properties pc cfg"
  shows "if (\<exists>t. RTI_COMMON_TypeCode_get_member_type (je_tc env) (buffer_type (tc_type pc) types) (jc_buffer_member cfg) = Some t \<and>
                 text_type (je_tc env) t) \<and> sample_type_ok (je_tc env) (tc_type pc) types
    then \<exists>ob. RTI_TSFM_JsonTransformation_new env types properties = Some (DDS_RETCODE_OK, Some ob) \<and>
           jc_buffer_member (o_config ob) = jc_buffer_member cfg \<and> jc_indent (o_config ob) = jc_indent cfg
    else RTI_TSFM_JsonTransformation_new env types properties =
           (if je_finalize_garbage env then Some (DDS_RETCODE_ERROR, None) else None)"
proof (cases "(\<exists>t. RTI_COMMON_TypeCode_get_member_type (je_tc env) (buffer_type (tc_type pc) types) (jc_buffer_member cfg) = Some t \<and>
                 text_type (je_tc env) t) \<and> sample_type_ok (je_tc env) (tc_type pc) types")
  case True
  from True json_initialize_ok [OF assms, of _ new_json_state] show ?thesis
    by (auto simp: json_new_steps [OF assms] json_finish_def)
next
  case False
  have "fst (RTI_TSFM_JsonTransformation_initialize env types properties pc cfg new_json_state) \<noteq> DDS_RETCODE_OK \<and>
        snd (snd (snd (RTI_TSFM_JsonTransformation_initialize env types properties pc cfg new_json_state))) = new_json_state"
    using False validate_types_ok [of "je_tc env" "tc_type pc" cfg types] assms
    by (auto simp: RTI_TSFM_JsonTransformation_initialize_def json_creation_def Let_def split: prod.splits)
  then show ?thesis using False
    by (auto simp: json_new_steps [OF assms] json_finish_def RTI_TSFM_JsonTransformationState_delete_data_def
        new_json_state_def split: prod.splits)
qed


section \<open>The text of a sample\<close>

text \<open>
  What the formatter promises: a sample has one text for an indentation, which is printed into every
  buffer that has room for it and its terminator; for a smaller buffer the size that is needed is
  reported.
\<close>

definition prints :: "('t, 'd) json_env \<Rightarrow> u32 \<Rightarrow> 'd \<Rightarrow> string \<Rightarrow> bool" where
  "prints env indent d t \<longleftrightarrow> cstring t \<and> length t < 2147483647 \<and>
     (\<forall>n. length t < unat n \<longrightarrow> (\<exists>k. je_to_json env d True n indent = (DDS_RETCODE_OK, t, k) \<and> length t < unat k)) \<and>
     (\<forall>n. \<not> length t < unat n \<longrightarrow>
        (\<exists>x. je_to_json env d True n indent = (DDS_RETCODE_OUT_OF_RESOURCES, x, of_nat (Suc (length t)))))"

text \<open>A text in the buffer of the state.\<close>

definition json_holds :: "string \<Rightarrow> json_state \<Rightarrow> bool" where
  "json_holds t st \<longleftrightarrow> length t < unat (js_json_buffer_size st) \<and>
     (\<exists>mem. js_json_buffer st = Some mem \<and> c_text mem = t \<and> c_strlen mem = Some (length t) \<and>
            length mem = Suc (unat (js_json_buffer_size st)))"

lemma retcode_codes [simp]:
  "DDS_RETCODE_OUT_OF_RESOURCES \<noteq> DDS_RETCODE_OK" "DDS_RETCODE_OK \<noteq> DDS_RETCODE_OUT_OF_RESOURCES"
  "DDS_RETCODE_PRECONDITION_NOT_MET \<noteq> DDS_RETCODE_OK" "DDS_RETCODE_OK \<noteq> DDS_RETCODE_PRECONDITION_NOT_MET"
  by (simp_all add: DDS_RETCODE_OUT_OF_RESOURCES_def DDS_RETCODE_PRECONDITION_NOT_MET_def)

lemma to_json_loop_fits:
  assumes "prints env indent d t" "json_ready st" "length t < unat (js_json_buffer_size st)"
  shows "\<exists>k mem. to_json_loop env indent d st = Some (DDS_RETCODE_OK, k, st\<lparr>js_json_buffer := Some mem\<rparr>) \<and>
    length t < unat k \<and> json_holds t (st\<lparr>js_json_buffer := Some mem\<rparr>)"
proof -
  obtain mem where mem: "js_json_buffer st = Some mem" "length mem = Suc (unat (js_json_buffer_size st))"
    using assms(2) by (auto simp: json_ready_def)
  obtain k where k: "je_to_json env d True (js_json_buffer_size st) indent = (DDS_RETCODE_OK, t, k)" "length t < unat k"
    using assms(1,3) by (auto simp: prints_def)
  from store_text_ok [of t mem] assms(1,3) mem obtain mem' where mem': "store_text t mem = Some mem'"
      "length mem' = length mem" "c_text mem' = t" "c_strlen mem' = Some (length t)"
    by (auto simp: prints_def)
  have "to_json_loop env indent d st = Some (DDS_RETCODE_OK, k, st\<lparr>js_json_buffer := Some mem'\<rparr>)"
    using mem(1) k(1) mem'(1) by (subst to_json_loop.simps) simp
  with k(2) mem(2) mem' assms(3) show ?thesis by (auto simp: json_holds_def)
qed

text \<open>The loop ends after at most one reallocation.\<close>

lemma to_json_loop_grows:
  assumes "prints env indent d t" "json_ready st" "\<not> length t < unat (js_json_buffer_size st)" "json_memory env" "alloc_laws env"
  shows "\<exists>k mem. to_json_loop env indent d st =
    (if js_json_buffer_max st = RTI_INT32_MAX
     then Some (DDS_RETCODE_OK, k, st\<lparr>js_json_buffer := Some mem, js_json_buffer_size := of_nat (Suc (length t))\<rparr>)
     else Some (DDS_RETCODE_OUT_OF_RESOURCES, of_nat (Suc (length t)), st)) \<and>
    length t < unat k \<and> json_holds t (st\<lparr>js_json_buffer := Some mem, js_json_buffer_size := of_nat (Suc (length t))\<rparr>)"
proof -
  let ?n = "of_nat (Suc (length t)) :: u32"
  have n: "unat ?n = Suc (length t)" using assms(1) by (intro unat_of_nat_u32) (auto simp: prints_def)
  obtain x where x: "je_to_json env d True (js_json_buffer_size st) indent = (DDS_RETCODE_OUT_OF_RESOURCES, x, ?n)"
    using assms(1,3) unfolding prints_def by blast
  obtain mem where mem: "je_string_alloc env ?n = Some mem" using assms(4) unfolding json_memory_def by blast
  let ?st = "st\<lparr>js_json_buffer := Some mem, js_json_buffer_size := ?n\<rparr>"
  have "json_ready ?st" using assms(2,5) mem by (auto simp: json_ready_def alloc_laws_def)
  from to_json_loop_fits [OF assms(1) this] n obtain k mem1 where k:
      "to_json_loop env indent d ?st = Some (DDS_RETCODE_OK, k, ?st\<lparr>js_json_buffer := Some mem1\<rparr>)" "length t < unat k"
      "json_holds t (?st\<lparr>js_json_buffer := Some mem1\<rparr>)"
    by auto
  obtain mem0 where "js_json_buffer st = Some mem0" using assms(2) by (auto simp: json_ready_def)
  with x mem k(1) have "to_json_loop env indent d st =
    (if js_json_buffer_max st = RTI_INT32_MAX
     then Some (DDS_RETCODE_OK, k, ?st\<lparr>js_json_buffer := Some mem1\<rparr>) else Some (DDS_RETCODE_OUT_OF_RESOURCES, ?n, st))"
    by (subst to_json_loop.simps) simp
  with k(2,3) show ?thesis by (intro exI [of _ k] exI [of _ mem1]) (simp add: json_holds_def)
qed

definition json_line :: "u32 \<Rightarrow> string \<Rightarrow> string" where
  "json_line indent t = (if indent = 0 then map (\<lambda>c. if c = CHR 0x0A then CHR '' '' else c) t else t)"

lemma length_json_line [simp]: "length (json_line indent t) = length t"
  by (simp add: json_line_def)

lemma replace_newlines_ok:
  assumes "NUL \<in> set mem"
  shows "\<exists>mem'. replace_newlines mem = Some mem' \<and> length mem' = length mem \<and> NUL \<in> set mem' \<and>
    c_text mem' = map (\<lambda>c. if c = CHR 0x0A then CHR '' '' else c) (c_text mem)"
  using assms by (induction mem) (auto simp: c_text_def NUL_def)

lemma json_holds_strlen: "c_text mem = t \<Longrightarrow> NUL \<in> set mem \<Longrightarrow> c_strlen mem = Some (length t)"
  by (auto simp: c_strlen_def)

lemma json_state_commute:
  "st\<lparr>js_json_buffer_size := n, js_json_buffer := b\<rparr> = st\<lparr>js_json_buffer := b, js_json_buffer_size := n\<rparr>"
  by (cases st) simp

text \<open>The first half of a serialisation: printing and replacing the line breaks.\<close>

lemma json_printed:
  assumes "prints env (jc_indent cfg) d t" "json_ready st" "json_memory env" "alloc_laws env"
  shows "if length t < unat (js_json_buffer_size st) \<or> js_json_buffer_max st = RTI_INT32_MAX
    then \<exists>k mem sz. length t < unat k \<and> json_holds (json_line (jc_indent cfg) t) (st\<lparr>js_json_buffer := Some mem, js_json_buffer_size := sz\<rparr>) \<and>
      (js_json_buffer_max st \<noteq> RTI_INT32_MAX \<longrightarrow> sz = js_json_buffer_size st) \<and>
      RTI_TSFM_JsonTransformation_serialize env cfg st d out =
        map_option (\<lambda>(rc, st3, out). (rc, st3, d, out))
          (set_buffer_member env (jc_buffer_member cfg) k (st\<lparr>js_json_buffer := Some mem, js_json_buffer_size := sz\<rparr>) out)
    else RTI_TSFM_JsonTransformation_serialize env cfg st d out = Some (DDS_RETCODE_OUT_OF_RESOURCES, st, d, out)"
proof (cases "length t < unat (js_json_buffer_size st) \<or> js_json_buffer_max st = RTI_INT32_MAX")
  case True
  then obtain k mem sz where k: "to_json_loop env (jc_indent cfg) d st =
      Some (DDS_RETCODE_OK, k, st\<lparr>js_json_buffer := Some mem, js_json_buffer_size := sz\<rparr>)" "length t < unat k"
      "json_holds t (st\<lparr>js_json_buffer := Some mem, js_json_buffer_size := sz\<rparr>)"
      "js_json_buffer_max st \<noteq> RTI_INT32_MAX \<longrightarrow> sz = js_json_buffer_size st"
  proof (cases "length t < unat (js_json_buffer_size st)")
    case t: True
    from to_json_loop_fits [OF assms(1,2) t] obtain k mem where
        "to_json_loop env (jc_indent cfg) d st = Some (DDS_RETCODE_OK, k, st\<lparr>js_json_buffer := Some mem\<rparr>)"
        "length t < unat k" "json_holds t (st\<lparr>js_json_buffer := Some mem\<rparr>)" by blast
    then show thesis by (intro that [of k "js_json_buffer_size st" mem]) simp_all
  next
    case False
    with True to_json_loop_grows [OF assms(1,2) False assms(3,4)] that show thesis by auto
  qed
  then have nul: "NUL \<in> set mem" "c_text mem = t" "length mem = Suc (unat sz)" "length t < unat sz"
    by (auto simp: json_holds_def c_strlen_def split: if_splits)
  from replace_newlines_ok [OF nul(1)] obtain mem' where mem': "replace_newlines mem = Some mem'" "length mem' = length mem"
      "NUL \<in> set mem'" "c_text mem' = map (\<lambda>c. if c = CHR 0x0A then CHR '' '' else c) t"
    using nul(2) by auto
  define mem1 where "mem1 = (if jc_indent cfg = 0 then mem' else mem)"
  have h: "json_holds (json_line (jc_indent cfg) t) (st\<lparr>js_json_buffer := Some mem1, js_json_buffer_size := sz\<rparr>)"
    using nul mem' by (auto simp: json_holds_def json_line_def mem1_def c_strlen_def)
  have "RTI_TSFM_JsonTransformation_serialize env cfg st d out =
        map_option (\<lambda>(rc, st3, out). (rc, st3, d, out))
          (set_buffer_member env (jc_buffer_member cfg) k (st\<lparr>js_json_buffer := Some mem1, js_json_buffer_size := sz\<rparr>) out)"
    using k(1) mem'(1) by (simp add: RTI_TSFM_JsonTransformation_serialize_def mem1_def json_state_commute)
  with k(2,4) h True show ?thesis by auto
next
  case False
  with to_json_loop_grows [OF assms(1,2) _ assms(3,4)] show ?thesis
    by (auto simp: RTI_TSFM_JsonTransformation_serialize_def)
qed


section \<open>Members that hold a text\<close>

definition string_holds :: "('t, 'd) json_env \<Rightarrow> string \<Rightarrow> string \<Rightarrow> 'd \<Rightarrow> bool" where
  "string_holds env m t d \<longleftrightarrow>
     (\<forall>n. length t < unat n \<longrightarrow> (\<exists>k. je_get_string env m d True n = (DDS_RETCODE_OK, t, k))) \<and>
     (\<forall>n. \<not> length t < unat n \<longrightarrow>
        (\<exists>x. je_get_string env m d True n = (DDS_RETCODE_PRECONDITION_NOT_MET, x, of_nat (Suc (length t)))))"

text \<open>
  What the members promise: what was set is read back, and setting a value does not change the kinds
  of a member.
\<close>

definition text_member_laws :: "('t, 'd) json_env \<Rightarrow> bool" where
  "text_member_laws env \<longleftrightarrow> member_laws (je_char env) \<and> member_laws (je_octet env) \<and>
     (\<forall>m t d d'. cstring t \<longrightarrow> je_set_string env m (Some t) d = (DDS_RETCODE_OK, d') \<longrightarrow> string_holds env m t d') \<and>
     (\<forall>m xs d d' n. je_set_char_array env m (Some xs) d = (DDS_RETCODE_OK, d') \<longrightarrow> length xs \<le> unat n \<longrightarrow>
        je_get_char_array env m d' True n = (DDS_RETCODE_OK, xs)) \<and>
     (\<forall>m xs d d' n. je_set_octet_array env m (Some xs) d = (DDS_RETCODE_OK, d') \<longrightarrow> length xs \<le> unat n \<longrightarrow>
        je_get_octet_array env m d' True n = (DDS_RETCODE_OK, xs)) \<and>
     (\<forall>m v d. je_get_member_info env m (snd (je_set_string env m v d)) = je_get_member_info env m d) \<and>
     (\<forall>m v d. je_get_member_info env m (snd (ma_set_seq (je_char env) m v d)) = je_get_member_info env m d) \<and>
     (\<forall>m v d. je_get_member_info env m (snd (ma_set_seq (je_octet env) m v d)) = je_get_member_info env m d) \<and>
     (\<forall>m v d. je_get_member_info env m (snd (je_set_char_array env m v d)) = je_get_member_info env m d) \<and>
     (\<forall>m v d. je_get_member_info env m (snd (je_set_octet_array env m v d)) = je_get_member_info env m d)"

text \<open>A member of the given kinds accepts every value within its bound, an array every value of its length.\<close>

definition member_accepts :: "('t, 'd) json_env \<Rightarrow> string \<Rightarrow> tckind \<Rightarrow> tckind \<Rightarrow> nat \<Rightarrow> 'd \<Rightarrow> bool" where
  "member_accepts env m mk ek bound d \<longleftrightarrow> je_get_member_info env m d = (DDS_RETCODE_OK, mk, ek) \<and>
     (mk = DDS_TK_STRING \<longrightarrow> (\<forall>t. length t \<le> bound \<longrightarrow> fst (je_set_string env m (Some t) d) = DDS_RETCODE_OK)) \<and>
     (mk = DDS_TK_SEQUENCE \<and> ek = DDS_TK_CHAR \<longrightarrow>
        (\<forall>xs. length xs \<le> bound \<longrightarrow> fst (ma_set_seq (je_char env) m xs d) = DDS_RETCODE_OK)) \<and>
     (mk = DDS_TK_SEQUENCE \<and> ek = DDS_TK_OCTET \<longrightarrow>
        (\<forall>xs. length xs \<le> bound \<longrightarrow> fst (ma_set_seq (je_octet env) m xs d) = DDS_RETCODE_OK)) \<and>
     (mk = DDS_TK_ARRAY \<and> ek = DDS_TK_CHAR \<longrightarrow>
        (\<forall>xs. length xs = bound \<longrightarrow> fst (je_set_char_array env m (Some xs) d) = DDS_RETCODE_OK)) \<and>
     (mk = DDS_TK_ARRAY \<and> ek = DDS_TK_OCTET \<longrightarrow>
        (\<forall>xs. length xs = bound \<longrightarrow> fst (je_set_octet_array env m (Some xs) d) = DDS_RETCODE_OK))"

text \<open>What reading the member gives, by its kinds; an array has \<open>bound\<close> elements.\<close>

definition member_holds :: "('t, 'd) json_env \<Rightarrow> string \<Rightarrow> nat \<Rightarrow> string \<Rightarrow> 'd \<Rightarrow> bool" where
  "member_holds env m bound t d \<longleftrightarrow>
     (case je_get_member_info env m d of
        (rc, mk, ek) \<Rightarrow> rc = DDS_RETCODE_OK \<and> text_kinds mk ek \<and>
          (mk = DDS_TK_STRING \<longrightarrow> string_holds env m t d) \<and>
          (mk = DDS_TK_SEQUENCE \<and> ek = DDS_TK_CHAR \<longrightarrow> (\<forall>s. \<not> seq_loaned s \<longrightarrow>
             (\<exists>s'. RTI_COMMON_DynamicData_get_char_seq_contiguous_buffer (je_char env) d s m =
                     (DDS_RETCODE_OK, Some (t @ [NUL]), s') \<and> \<not> seq_loaned s'))) \<and>
          (mk = DDS_TK_SEQUENCE \<and> ek = DDS_TK_OCTET \<longrightarrow> (\<forall>s. \<not> seq_loaned s \<longrightarrow>
             (\<exists>s'. RTI_COMMON_DynamicData_get_octet_seq_contiguous_buffer (je_octet env) d s m =
                     (DDS_RETCODE_OK, Some (t @ [NUL]), s') \<and> \<not> seq_loaned s'))) \<and>
          (mk = DDS_TK_ARRAY \<longrightarrow> (\<exists>xs. length xs = bound \<and> c_text xs = t \<and> NUL \<in> set xs \<and>
             (\<forall>n. bound \<le> unat n \<longrightarrow>
                (ek = DDS_TK_CHAR \<longrightarrow> je_get_char_array env m d True n = (DDS_RETCODE_OK, xs)) \<and>
                (ek = DDS_TK_OCTET \<longrightarrow> je_get_octet_array env m d True n = (DDS_RETCODE_OK, map of_char xs))))))"

text \<open>The buffer of a bounded member has the size of its bound, and arrays are bounded.\<close>

definition json_sized :: "tckind \<Rightarrow> json_state \<Rightarrow> bool" where
  "json_sized mk st \<longleftrightarrow> unat (js_json_buffer_max st) \<le> 2147483647 \<and>
     (js_json_buffer_max st \<noteq> RTI_INT32_MAX \<longrightarrow> js_json_buffer_size st = js_json_buffer_max st) \<and>
     (mk = DDS_TK_ARRAY \<longrightarrow> js_json_buffer_max st \<noteq> RTI_INT32_MAX)"

lemma unat_INT32_MAX [simp]: "unat RTI_INT32_MAX = 2147483647"
  by (simp add: RTI_INT32_MAX_def)

lemma octet_text [simp]: "map (\<lambda>w :: octet. char_of (unat w)) (map of_char t) = (t :: string)"
  by (simp add: comp_def)


lemma c_text_take:
  assumes "c_strlen mem = Some (length t)" "c_text mem = t" "length t < n" "n \<le> length mem"
  shows "c_text (take n mem) = t \<and> NUL \<in> set (take n mem)"
proof -
  have "NUL \<in> set mem" using assms(1) by (simp add: c_strlen_def split: if_splits)
  from c_text_split [OF this] assms(2) obtain rest where m: "mem = t @ NUL # rest" by blast
  moreover have "cstring t" using assms(2) cstring_c_text by blast
  moreover have "take n mem = t @ NUL # take (n - Suc (length t)) rest"
    using m assms(3) by (simp add: take_Cons' Suc_diff_Suc)
  ultimately show ?thesis by simp
qed

text \<open>What is known when the text has been printed and is about to be set in the output sample.\<close>

definition json_writing ::
    "('t, 'd) json_env \<Rightarrow> string \<Rightarrow> tckind \<Rightarrow> tckind \<Rightarrow> u32 \<Rightarrow> string \<Rightarrow> json_state \<Rightarrow> 'd \<Rightarrow> bool" where
  "json_writing env m mk ek k t st out \<longleftrightarrow> text_member_laws env \<and> text_kinds mk ek \<and>
     member_accepts env m mk ek (unat (js_json_buffer_max st)) out \<and>
     (js_json_buffer_max st \<noteq> RTI_INT32_MAX \<longrightarrow> js_json_buffer_size st = js_json_buffer_max st) \<and>
     (mk = DDS_TK_ARRAY \<longrightarrow> js_json_buffer_max st \<noteq> RTI_INT32_MAX) \<and>
     json_holds t st \<and> json_ready st \<and> length t < unat k \<and> length t < 2147483647 \<and> cstring t"

definition json_written :: "('t, 'd) json_env \<Rightarrow> string \<Rightarrow> u32 \<Rightarrow> string \<Rightarrow> json_state \<Rightarrow> 'd \<Rightarrow> bool" where
  "json_written env m k t st out \<longleftrightarrow>
     (\<exists>st1 out1. set_buffer_member env m k st out = Some (DDS_RETCODE_OK, st1, out1) \<and> json_ready st1 \<and>
        js_json_buffer_max st1 = js_json_buffer_max st \<and> js_json_buffer_size st1 = js_json_buffer_size st \<and>
        je_get_member_info env m out1 = je_get_member_info env m out \<and> member_holds env m (unat (js_json_buffer_max st)) t out1)"

lemma json_writing_facts:
  assumes "json_writing env m mk ek k t st out"
  shows "je_get_member_info env m out = (DDS_RETCODE_OK, mk, ek)" and "Suc (length t) \<le> unat (js_json_buffer_max st)"
    and "\<exists>mem. js_json_buffer st = Some mem \<and> c_text mem = t \<and> c_strlen mem = Some (length t) \<and>
           length mem = Suc (unat (js_json_buffer_size st)) \<and> length t < unat (js_json_buffer_size st)"
  using assms
  by (cases "js_json_buffer_max st = RTI_INT32_MAX"; auto simp: json_writing_def member_accepts_def json_holds_def)+

lemma json_written_string:
  assumes "json_writing env m mk ek k t st out" "mk = DDS_TK_STRING"
  shows "json_written env m k t st out"
proof -
  note f = json_writing_facts [OF assms(1)]
  have laws: "text_member_laws env" and ready: "json_ready st" "cstring t" using assms(1) by (auto simp: json_writing_def)
  have "fst (je_set_string env m (Some t) out) = DDS_RETCODE_OK"
    using assms f(2) by (auto simp: json_writing_def member_accepts_def)
  then obtain out1 where o: "je_set_string env m (Some t) out = (DDS_RETCODE_OK, out1)"
    by (cases "je_set_string env m (Some t) out") auto
  have "string_holds env m t out1" using laws o ready(2) by (simp add: text_member_laws_def)
  moreover have "je_get_member_info env m out1 = (DDS_RETCODE_OK, mk, ek)"
    using laws o f(1) unfolding text_member_laws_def by (metis snd_conv)
  ultimately show ?thesis using assms(2) o f(1,3) ready(1)
    by (auto simp: json_written_def set_buffer_member_def member_holds_def text_kinds_def)
qed

text \<open>The two kinds of sequences.\<close>

lemma json_written_char_seq:
  assumes "json_writing env m mk ek k t st out" "mk = DDS_TK_SEQUENCE" "ek = DDS_TK_CHAR"
  shows "json_written env m k t st out"
proof -
  note f = json_writing_facts [OF assms(1)]
  have laws: "text_member_laws env" and w: "length t < unat k" "length t < 2147483647" "json_ready st"
    using assms(1) by (auto simp: json_writing_def)
  obtain mem where mem: "js_json_buffer st = Some mem" "c_text mem = t" "c_strlen mem = Some (length t)" using f(3) by blast
  have l: "member_laws (je_char env)" using laws by (simp add: text_member_laws_def)
  have v: "seq_vacant (js_char_seq st)" using w(3) by (simp add: json_ready_def)
  have a: "fst (ma_set_seq (je_char env) m (map (\<lambda>c. c) (t @ [NUL])) out) = DDS_RETCODE_OK"
    using assms f(2) by (auto simp: json_writing_def member_accepts_def)
  from chars.text_roundtrip [OF l mem(3,2) w(1,2) v a] obtain out1 where o:
      "set_seq_from_string (je_char env) (\<lambda>c. c) out (js_char_seq st) m mem k = Some (DDS_RETCODE_OK, out1, seq_empty)"
      "out1 = snd (ma_set_seq (je_char env) m (map (\<lambda>c. c) (t @ [NUL])) out)"
      "\<forall>s. \<not> seq_loaned s \<longrightarrow> (\<exists>s' buf. get_seq_contiguous_buffer (je_char env)
          (assert_nul_terminator (ma_seq (je_char env)) NUL) out1 s m =
        (DDS_RETCODE_OK, Some buf, s') \<and> map (\<lambda>c. c) buf = t @ [NUL] \<and> \<not> seq_loaned s')" by blast
  have "je_get_member_info env m out1 = (DDS_RETCODE_OK, mk, ek)"
    using laws o(2) f(1) unfolding text_member_laws_def by metis
  moreover have "json_ready (st\<lparr>js_char_seq := seq_empty\<rparr>)" using w(3) by (simp add: json_ready_def)
  moreover have "\<exists>s'. RTI_COMMON_DynamicData_get_char_seq_contiguous_buffer (je_char env) out1 s m =
      (DDS_RETCODE_OK, Some (t @ [NUL]), s') \<and> \<not> seq_loaned s'" if "\<not> seq_loaned s" for s
    using o(3) that
    by (fastforce simp: RTI_COMMON_DynamicData_get_char_seq_contiguous_buffer_def
        DDS_CharSeq_assert_nul_terminator_def [abs_def])
  ultimately show ?thesis using assms(2,3) o(1) f(1) mem
    by (simp add: json_written_def set_buffer_member_def member_holds_def text_kinds_def
        RTI_COMMON_DynamicData_set_char_seq_from_string_def)
qed

lemma json_written_octet_seq:
  assumes "json_writing env m mk ek k t st out" "mk = DDS_TK_SEQUENCE" "ek = DDS_TK_OCTET"
  shows "json_written env m k t st out"
proof -
  note f = json_writing_facts [OF assms(1)]
  have laws: "text_member_laws env" and w: "length t < unat k" "length t < 2147483647" "json_ready st"
    using assms(1) by (auto simp: json_writing_def)
  obtain mem where mem: "js_json_buffer st = Some mem" "c_text mem = t" "c_strlen mem = Some (length t)" using f(3) by blast
  have l: "member_laws (je_octet env)" using laws by (simp add: text_member_laws_def)
  have v: "seq_vacant (js_octet_seq st)" using w(3) by (simp add: json_ready_def)
  have a: "fst (ma_set_seq (je_octet env) m (map of_char (t @ [NUL])) out) = DDS_RETCODE_OK"
    using assms f(2) by (auto simp: json_writing_def member_accepts_def)
  from octets.text_roundtrip [OF l mem(3,2) w(1,2) v a] obtain out1 where o:
      "set_seq_from_string (je_octet env) of_char out (js_octet_seq st) m mem k = Some (DDS_RETCODE_OK, out1, seq_empty)"
      "out1 = snd (ma_set_seq (je_octet env) m (map of_char (t @ [NUL])) out)"
      "\<forall>s. \<not> seq_loaned s \<longrightarrow> (\<exists>s' buf. get_seq_contiguous_buffer (je_octet env)
          (assert_nul_terminator (ma_seq (je_octet env)) 0) out1 s m =
        (DDS_RETCODE_OK, Some buf, s') \<and> map (\<lambda>w. char_of (unat w)) buf = t @ [NUL] \<and> \<not> seq_loaned s')" by blast
  have "je_get_member_info env m out1 = (DDS_RETCODE_OK, mk, ek)"
    using laws o(2) f(1) unfolding text_member_laws_def by metis
  moreover have "json_ready (st\<lparr>js_octet_seq := seq_empty\<rparr>)" using w(3) by (simp add: json_ready_def)
  moreover have "\<exists>s'. RTI_COMMON_DynamicData_get_octet_seq_contiguous_buffer (je_octet env) out1 s m =
      (DDS_RETCODE_OK, Some (t @ [NUL]), s') \<and> \<not> seq_loaned s'" if "\<not> seq_loaned s" for s
    using o(3) that
    by (fastforce simp: RTI_COMMON_DynamicData_get_octet_seq_contiguous_buffer_def
        DDS_OctetSeq_assert_nul_terminator_def [abs_def])
  ultimately show ?thesis using assms(2,3) o(1) f(1) mem
    by (simp add: json_written_def set_buffer_member_def member_holds_def text_kinds_def
        RTI_COMMON_DynamicData_set_octet_seq_from_string_def)
qed

lemma member_holds_array:
  assumes "je_get_member_info env m d = (DDS_RETCODE_OK, DDS_TK_ARRAY, ek)" "text_kinds DDS_TK_ARRAY ek"
    and "length xs = bound" "c_text xs = t \<and> NUL \<in> set xs"
    and "\<forall>n. bound \<le> unat n \<longrightarrow> (ek = DDS_TK_CHAR \<longrightarrow> je_get_char_array env m d True n = (DDS_RETCODE_OK, xs)) \<and>
           (ek = DDS_TK_OCTET \<longrightarrow> je_get_octet_array env m d True n = (DDS_RETCODE_OK, map of_char xs))"
  shows "member_holds env m bound t d"
proof -
  have "\<exists>xs. length xs = bound \<and> c_text xs = t \<and> NUL \<in> set xs \<and>
      (\<forall>n. bound \<le> unat n \<longrightarrow> (ek = DDS_TK_CHAR \<longrightarrow> je_get_char_array env m d True n = (DDS_RETCODE_OK, xs)) \<and>
         (ek = DDS_TK_OCTET \<longrightarrow> je_get_octet_array env m d True n = (DDS_RETCODE_OK, map of_char xs)))"
    using assms(3-5) by blast
  with assms(1,2) show ?thesis unfolding member_holds_def by simp
qed

lemma json_written_array:
  assumes "json_writing env m mk ek k t st out" "mk = DDS_TK_ARRAY"
  shows "json_written env m k t st out"
proof -
  note f = json_writing_facts [OF assms(1)]
  have laws: "text_member_laws env" and ready: "json_ready st" and kinds: "ek = DDS_TK_CHAR \<or> ek = DDS_TK_OCTET"
    and sz: "js_json_buffer_size st = js_json_buffer_max st"
    using assms by (auto simp: json_writing_def text_kinds_def)
  obtain mem where mem: "js_json_buffer st = Some mem" "c_text mem = t" "c_strlen mem = Some (length t)"
      "length mem = Suc (unat (js_json_buffer_size st))" "length t < unat (js_json_buffer_size st)"
    using f(3) by blast
  let ?xs = "take (unat (js_json_buffer_size st)) mem"
  have xs: "length ?xs = unat (js_json_buffer_max st)" "c_text ?xs = t \<and> NUL \<in> set ?xs"
    using mem sz c_text_take [OF mem(3,2,5)] by simp_all
  from kinds show ?thesis
  proof
    assume ek: "ek = DDS_TK_CHAR"
    have "fst (je_set_char_array env m (Some ?xs) out) = DDS_RETCODE_OK"
      using assms ek xs(1) by (auto simp: json_writing_def member_accepts_def)
    then obtain out1 where o: "je_set_char_array env m (Some ?xs) out = (DDS_RETCODE_OK, out1)"
      by (cases "je_set_char_array env m (Some ?xs) out") auto
    have "je_get_member_info env m out1 = (DDS_RETCODE_OK, mk, ek)"
      using laws o f(1) unfolding text_member_laws_def by (metis snd_conv)
    moreover have "\<forall>n. unat (js_json_buffer_max st) \<le> unat n \<longrightarrow> je_get_char_array env m out1 True n = (DDS_RETCODE_OK, ?xs)"
      using laws o xs(1) unfolding text_member_laws_def by metis
    ultimately have "member_holds env m (unat (js_json_buffer_max st)) t out1 \<and>
        je_get_member_info env m out1 = je_get_member_info env m out"
      using assms(2) ek xs f(1) by (intro conjI member_holds_array [where ek = ek]) (auto simp: text_kinds_def)
    then show ?thesis using assms(2) ek o f(1) mem(1) ready by (simp add: json_written_def set_buffer_member_def)
  next
    assume ek: "ek = DDS_TK_OCTET"
    have "fst (je_set_octet_array env m (Some (map of_char ?xs)) out) = DDS_RETCODE_OK"
      using assms ek xs(1) by (auto simp: json_writing_def member_accepts_def)
    then obtain out1 where o: "je_set_octet_array env m (Some (map of_char ?xs)) out = (DDS_RETCODE_OK, out1)"
      by (cases "je_set_octet_array env m (Some (map of_char ?xs)) out") auto
    have "je_get_member_info env m out1 = (DDS_RETCODE_OK, mk, ek)"
      using laws o f(1) unfolding text_member_laws_def by (metis snd_conv)
    moreover have "\<forall>n. unat (js_json_buffer_max st) \<le> unat n \<longrightarrow>
        je_get_octet_array env m out1 True n = (DDS_RETCODE_OK, map of_char ?xs)"
      using laws o xs(1) unfolding text_member_laws_def by (metis length_map)
    ultimately have "member_holds env m (unat (js_json_buffer_max st)) t out1 \<and>
        je_get_member_info env m out1 = je_get_member_info env m out"
      using assms(2) ek xs f(1) by (intro conjI member_holds_array [where ek = ek]) (auto simp: text_kinds_def)
    then show ?thesis using assms(2) ek o f(1) mem(1) ready by (simp add: json_written_def set_buffer_member_def)
  qed
qed

lemma json_writing_written: "json_writing env m mk ek k t st out \<Longrightarrow> json_written env m k t st out"
  using json_written_string json_written_char_seq json_written_octet_seq json_written_array
  by (metis json_writing_def text_kinds_def)


lemma cstring_json_line: "cstring t \<Longrightarrow> cstring (json_line indent t)"
  by (auto simp: cstring_def json_line_def NUL_def)

lemma json_serialized:
  assumes "prints env (jc_indent cfg) d t" "json_ready st" "json_sized mk st" "json_memory env" "alloc_laws env"
    and "text_member_laws env" "text_kinds mk ek"
    and "member_accepts env (jc_buffer_member cfg) mk ek (unat (js_json_buffer_max st)) out"
    and "length t < unat (js_json_buffer_size st) \<or> js_json_buffer_max st = RTI_INT32_MAX"
  shows "\<exists>st1 out1. RTI_TSFM_JsonTransformation_serialize env cfg st d out = Some (DDS_RETCODE_OK, st1, d, out1) \<and>
    json_ready st1 \<and> json_sized mk st1 \<and> js_json_buffer_max st1 = js_json_buffer_max st \<and>
    je_get_member_info env (jc_buffer_member cfg) out1 = je_get_member_info env (jc_buffer_member cfg) out \<and>
    member_holds env (jc_buffer_member cfg) (unat (js_json_buffer_max st)) (json_line (jc_indent cfg) t) out1"
proof -
  let ?m = "jc_buffer_member cfg" and ?t = "json_line (jc_indent cfg) t"
  from json_printed [OF assms(1,2,4,5), of out] assms(9) obtain k mem sz where k: "length t < unat k"
      "json_holds ?t (st\<lparr>js_json_buffer := Some mem, js_json_buffer_size := sz\<rparr>)"
      "js_json_buffer_max st \<noteq> RTI_INT32_MAX \<longrightarrow> sz = js_json_buffer_size st"
      "RTI_TSFM_JsonTransformation_serialize env cfg st d out =
        map_option (\<lambda>(rc, st3, out). (rc, st3, d, out))
          (set_buffer_member env ?m k (st\<lparr>js_json_buffer := Some mem, js_json_buffer_size := sz\<rparr>) out)"
    by auto
  let ?st = "st\<lparr>js_json_buffer := Some mem, js_json_buffer_size := sz\<rparr>"
  have "json_ready ?st" using assms(2) k(2) by (auto simp: json_ready_def json_holds_def)
  moreover have "cstring ?t" "length ?t < 2147483647" using assms(1) by (auto simp: prints_def cstring_json_line)
  ultimately have "json_writing env ?m mk ek k ?t ?st out"
    using assms(3,6-8) k(1-3) by (auto simp: json_writing_def json_sized_def)
  from json_writing_written [OF this] k(4) assms(3) k(3) show ?thesis
    by (auto simp: json_written_def json_sized_def)
qed

text \<open>
  Claim C25. Serialising to JSON.  With enough memory, an initialised transformation whose member can hold
  a text prints the sample, with spaces for line breaks when there is no indentation, and sets the
  text as the value of the member, terminated and within the bound of the member; it is ready for
  the next sample.  A text that does not fit into a bounded member is refused and changes nothing.
\<close>

theorem json_serialize_text:
  assumes "prints env (jc_indent cfg) d t" "json_ready st" "json_sized mk st" "json_memory env" "alloc_laws env"
    and "text_member_laws env" "text_kinds mk ek"
    and "member_accepts env (jc_buffer_member cfg) mk ek (unat (js_json_buffer_max st)) out"
  shows "if js_json_buffer_max st = RTI_INT32_MAX \<or> length t < unat (js_json_buffer_max st)
    then \<exists>st1 out1. RTI_TSFM_JsonTransformation_serialize env cfg st d out = Some (DDS_RETCODE_OK, st1, d, out1) \<and>
      json_ready st1 \<and> json_sized mk st1 \<and> js_json_buffer_max st1 = js_json_buffer_max st \<and>
      member_holds env (jc_buffer_member cfg) (unat (js_json_buffer_max st)) (json_line (jc_indent cfg) t) out1
    else RTI_TSFM_JsonTransformation_serialize env cfg st d out = Some (DDS_RETCODE_OUT_OF_RESOURCES, st, d, out)"
proof (cases "js_json_buffer_max st = RTI_INT32_MAX \<or> length t < unat (js_json_buffer_max st)")
  case True
  then have "length t < unat (js_json_buffer_size st) \<or> js_json_buffer_max st = RTI_INT32_MAX"
    using assms(3) by (auto simp: json_sized_def)
  from json_serialized [OF assms this] True show ?thesis by auto
next
  case False
  then have "\<not> (length t < unat (js_json_buffer_size st) \<or> js_json_buffer_max st = RTI_INT32_MAX)"
    using assms(3) by (auto simp: json_sized_def)
  with json_printed [OF assms(1,2,4,5), of out] False show ?thesis by auto
qed

section \<open>Reading the text back\<close>

lemma get_string_loop_ok:
  assumes "string_holds env m t d" "cstring t" "length t < 2147483647" "json_ready st" "json_memory env" "alloc_laws env"
    and "length t < unat (js_json_buffer_size st) \<or> js_json_buffer_max st = RTI_INT32_MAX"
  shows "\<exists>st1 mem. get_string_loop env m d st = Some (DDS_RETCODE_OK, st1) \<and> js_json_buffer st1 = Some mem \<and>
    c_text mem = t \<and> NUL \<in> set mem"
proof -
  have fits: "\<exists>mem. get_string_loop env m d st = Some (DDS_RETCODE_OK, st\<lparr>js_json_buffer := Some mem\<rparr>) \<and>
      c_text mem = t \<and> NUL \<in> set mem" if rd: "json_ready st" "length t < unat (js_json_buffer_size st)" for st
  proof -
    obtain mem where mem: "js_json_buffer st = Some mem" "length mem = Suc (unat (js_json_buffer_size st))"
      using rd(1) by (auto simp: json_ready_def)
    obtain k where k: "je_get_string env m d True (js_json_buffer_size st) = (DDS_RETCODE_OK, t, k)"
      using assms(1) rd(2) by (auto simp: string_holds_def)
    from store_text_ok [of t mem] assms(2) rd(2) mem obtain mem' where
        "store_text t mem = Some mem'" "c_text mem' = t" "NUL \<in> set mem'" by auto
    with mem(1) k show ?thesis by (subst get_string_loop.simps) (simp, blast)
  qed
  show ?thesis
  proof (cases "length t < unat (js_json_buffer_size st)")
    case True
    with fits [OF assms(4)] show ?thesis by auto
  next
    case False
    let ?n = "of_nat (Suc (length t)) :: u32"
    have n: "unat ?n = Suc (length t)" using assms(3) by (intro unat_of_nat_u32) simp
    obtain x where x: "je_get_string env m d True (js_json_buffer_size st) = (DDS_RETCODE_PRECONDITION_NOT_MET, x, ?n)"
      using assms(1) False unfolding string_holds_def by blast
    obtain mem where mem: "je_string_alloc env ?n = Some mem" using assms(5) unfolding json_memory_def by blast
    let ?st = "st\<lparr>js_json_buffer := Some mem, js_json_buffer_size := ?n\<rparr>"
    have "json_ready ?st" using assms(4,6) mem by (auto simp: json_ready_def alloc_laws_def)
    from fits [OF this] n obtain mem' where mem': "get_string_loop env m d ?st = Some (DDS_RETCODE_OK, ?st\<lparr>js_json_buffer := Some mem'\<rparr>)"
        "c_text mem' = t" "NUL \<in> set mem'" by auto
    obtain mem0 where "js_json_buffer st = Some mem0" using assms(4) by (auto simp: json_ready_def)
    with False assms(7) x mem mem' have "get_string_loop env m d st = Some (DDS_RETCODE_OK, ?st\<lparr>js_json_buffer := Some mem'\<rparr>)"
      by (subst get_string_loop.simps) simp
    with mem'(2,3) show ?thesis by auto
  qed
qed

text \<open>A state that can read the text of a member of the given kind.\<close>

definition json_reads :: "tckind \<Rightarrow> nat \<Rightarrow> string \<Rightarrow> json_state \<Rightarrow> bool" where
  "json_reads mk bound t st \<longleftrightarrow> \<not> seq_loaned (js_char_seq st) \<and> \<not> seq_loaned (js_octet_seq st) \<and>
     (mk \<noteq> DDS_TK_SEQUENCE \<longrightarrow> json_ready st) \<and>
     (mk = DDS_TK_STRING \<longrightarrow> length t < unat (js_json_buffer_size st) \<or> js_json_buffer_max st = RTI_INT32_MAX) \<and>
     (mk = DDS_TK_ARRAY \<longrightarrow> bound \<le> unat (js_json_buffer_size st))"

lemma get_buffer_member_text:
  assumes "member_holds env m bound t d" "cstring t" "length t < 2147483647" "json_memory env" "alloc_laws env"
    and "json_reads (fst (snd (je_get_member_info env m d))) bound t st"
  shows "\<exists>st1 mem. get_buffer_member env m st d = Some (DDS_RETCODE_OK, st1, True, Some mem) \<and> c_text mem = t \<and> NUL \<in> set mem"
proof -
  obtain mk ek where i: "je_get_member_info env m d = (DDS_RETCODE_OK, mk, ek)" and tk: "text_kinds mk ek"
    using assms(1) by (auto simp: member_holds_def split: prod.splits)
  note h = assms(1) [unfolded member_holds_def i prod.case] and r = assms(6) [unfolded i snd_conv fst_conv json_reads_def]
  have tn: "c_text (t @ [NUL]) = t" using assms(2) by simp
  from tk consider (str) "mk = DDS_TK_STRING"
    | (cs) "mk = DDS_TK_SEQUENCE" "ek = DDS_TK_CHAR" | (os) "mk = DDS_TK_SEQUENCE" "ek = DDS_TK_OCTET"
    | (arr) "mk = DDS_TK_ARRAY" "ek = DDS_TK_CHAR \<or> ek = DDS_TK_OCTET"
    by (auto simp: text_kinds_def)
  then show ?thesis
  proof cases
    case str
    from str h r have "string_holds env m t d" "json_ready st"
        "length t < unat (js_json_buffer_size st) \<or> js_json_buffer_max st = RTI_INT32_MAX" by simp_all
    from get_string_loop_ok [OF this(1) assms(2,3) this(2) assms(4,5) this(3)] str i show ?thesis
      by (auto simp: get_buffer_member_def)
  next
    case cs
    from cs h r obtain s' where "RTI_COMMON_DynamicData_get_char_seq_contiguous_buffer (je_char env) d (js_char_seq st) m =
        (DDS_RETCODE_OK, Some (t @ [NUL]), s')" by blast
    with cs i tn show ?thesis by (simp add: get_buffer_member_def)
  next
    case os
    from os h r obtain s' where "RTI_COMMON_DynamicData_get_octet_seq_contiguous_buffer (je_octet env) d (js_octet_seq st) m =
        (DDS_RETCODE_OK, Some (t @ [NUL]), s')" by blast
    with os i tn show ?thesis by (simp add: get_buffer_member_def)
  next
    case arr
    then obtain xs where xs: "length xs = bound" "c_text xs = t" "NUL \<in> set xs"
        "\<forall>n. bound \<le> unat n \<longrightarrow> (ek = DDS_TK_CHAR \<longrightarrow> je_get_char_array env m d True n = (DDS_RETCODE_OK, xs)) \<and>
           (ek = DDS_TK_OCTET \<longrightarrow> je_get_octet_array env m d True n = (DDS_RETCODE_OK, map of_char xs))"
      using h by blast
    obtain mem where mem: "js_json_buffer st = Some mem" "length mem = Suc (unat (js_json_buffer_size st))"
      using r arr(1) by (auto simp: json_ready_def)
    have b: "bound \<le> unat (js_json_buffer_size st)" using r arr(1) by simp
    have ct: "c_text (xs @ drop bound mem) = t" using xs(2,3) by (auto simp: c_text_def takeWhile_append)
    have "copy_array (DDS_RETCODE_OK, xs) st =
        Some (DDS_RETCODE_OK, Some (xs @ drop bound mem), st\<lparr>js_json_buffer := Some (xs @ drop bound mem)\<rparr>)"
      using mem b xs(1) by (simp add: copy_array_def Let_def)
    moreover from xs(4) b have "ek = DDS_TK_CHAR \<longrightarrow> je_get_char_array env m d True (js_json_buffer_size st) = (DDS_RETCODE_OK, xs)"
        "ek = DDS_TK_OCTET \<longrightarrow> je_get_octet_array env m d True (js_json_buffer_size st) = (DDS_RETCODE_OK, map of_char xs)" by simp_all
    ultimately show ?thesis using arr i mem(1) xs(3) ct by (elim disjE) (simp_all add: get_buffer_member_def comp_def)
  qed
qed

lemma json_deserialized:
  assumes "member_holds env (jc_buffer_member cfg) bound t d" "cstring t" "length t < 2147483647" "json_memory env" "alloc_laws env"
    and "json_reads (fst (snd (je_get_member_info env (jc_buffer_member cfg) d))) bound t st"
  shows "\<exists>st1. RTI_TSFM_JsonTransformation_deserialize env cfg st d x =
    (case je_from_json env (Some t) x of (rc, y) \<Rightarrow> Some (rc, st1, d, y))"
  using get_buffer_member_text [OF assms] by (auto simp: RTI_TSFM_JsonTransformation_deserialize_def)


text \<open>The information on a member agrees with its type; the lengths of types are of type \<^verbatim>\<open>DDS_Long\<close>, those of arrays below its maximum.\<close>

definition info_agrees :: "('t, 'd) json_env \<Rightarrow> 't \<Rightarrow> string \<Rightarrow> 'd \<Rightarrow> bool" where
  "info_agrees env tc m d \<longleftrightarrow>
     (\<forall>t mk n. RTI_COMMON_TypeCode_get_member_type (je_tc env) tc m = Some t \<longrightarrow> tk_kind (je_tc env) t = Some mk \<longrightarrow>
        tk_length (je_tc env) t = Some n \<longrightarrow>
        unat n \<le> 2147483647 \<and> (mk = DDS_TK_ARRAY \<longrightarrow> n \<noteq> RTI_INT32_MAX) \<and>
        (\<exists>ek. (mk \<noteq> DDS_TK_STRING \<longrightarrow> (\<exists>c. tk_content_type (je_tc env) t = Some c \<and> tk_kind (je_tc env) c = Some ek)) \<and>
              member_accepts env m mk ek (unat n) d))"

lemma json_new_object:
  assumes "json_creation env types properties pc cfg"
    and "RTI_TSFM_JsonTransformation_new env types properties = Some (DDS_RETCODE_OK, Some ob)"
  shows "\<exists>t mk n. RTI_COMMON_TypeCode_get_member_type (je_tc env) (buffer_type (tc_type pc) types) (jc_buffer_member cfg) = Some t \<and>
    text_type (je_tc env) t \<and> tk_kind (je_tc env) t = Some mk \<and> tk_length (je_tc env) t = Some n \<and>
    jc_buffer_member (o_config ob) = jc_buffer_member cfg \<and> jc_indent (o_config ob) = jc_indent cfg \<and>
    js_json_buffer_max (o_state ob) = n \<and> seq_vacant (js_octet_seq (o_state ob)) \<and> seq_vacant (js_char_seq (o_state ob)) \<and>
    (tc_type pc = TransformationKind_SERIALIZER \<or> mk \<noteq> DDS_TK_SEQUENCE \<longrightarrow>
       json_ready (o_state ob) \<and> js_json_buffer_size (o_state ob) = buffer_size cfg n)"
proof -
  have "\<not> ((\<nexists>t. RTI_COMMON_TypeCode_get_member_type (je_tc env) (buffer_type (tc_type pc) types) (jc_buffer_member cfg) = Some t \<and>
      text_type (je_tc env) t) \<or> \<not> sample_type_ok (je_tc env) (tc_type pc) types)"
    using validate_types_ok [of "je_tc env" "tc_type pc" cfg types] assms
    by (auto simp: json_new_steps [OF assms(1)] json_finish_def RTI_TSFM_JsonTransformation_initialize_def Let_def
        split: prod.splits if_splits)
  then obtain t where t: "RTI_COMMON_TypeCode_get_member_type (je_tc env) (buffer_type (tc_type pc) types) (jc_buffer_member cfg) = Some t"
      "text_type (je_tc env) t" "sample_type_ok (je_tc env) (tc_type pc) types" by blast
  obtain mk where "tk_kind (je_tc env) t = Some mk" using t(2) by (auto simp: text_type_def)
  with t json_initialize_ok [OF assms(1) t, of new_json_state] assms(2) show ?thesis
    by (auto simp: json_new_steps [OF assms(1)] json_finish_def)
qed

text \<open>
  Claim C24. JSON round trip.  A serialiser and a deserialiser that are created for the same type of text and
  the same buffer member understand each other: every sample whose text fits is written to the
  member, and reading the written sample hands to the JSON parser exactly the text that was printed
  (with spaces for line breaks when there is no indentation), whatever the kind of the member.
\<close>

theorem json_roundtrip:
  assumes "json_creation env types1 props1 pc1 cfg1" "tc_type pc1 = TransformationKind_SERIALIZER"
    and "RTI_TSFM_JsonTransformation_new env types1 props1 = Some (DDS_RETCODE_OK, Some ser)"
    and "json_creation env types2 props2 pc2 cfg2" "tc_type pc2 = TransformationKind_DESERIALIZER"
    and "RTI_TSFM_JsonTransformation_new env types2 props2 = Some (DDS_RETCODE_OK, Some de)"
    and "jt_output types1 = tc" "jt_input types2 = tc" "jc_buffer_member cfg1 = m" "jc_buffer_member cfg2 = m"
    and "text_member_laws env" "info_agrees env tc m out" "prints env (jc_indent cfg1) d t"
    and "js_json_buffer_max (o_state ser) = RTI_INT32_MAX \<or> length t < unat (js_json_buffer_max (o_state ser))"
  shows "\<exists>st1 out1 st2.
    RTI_TSFM_JsonTransformation_serialize env (o_config ser) (o_state ser) d out = Some (DDS_RETCODE_OK, st1, d, out1) \<and>
    RTI_TSFM_JsonTransformation_deserialize env (o_config de) (o_state de) out1 x =
      (case je_from_json env (Some (json_line (jc_indent cfg1) t)) x of (rc, y) \<Rightarrow> Some (rc, st2, out1, y))"
proof -
  let ?t = "json_line (jc_indent cfg1) t"
  have m: "json_memory env" "alloc_laws env" using assms(1) by (auto simp: json_creation_def)
  from json_new_object [OF assms(1,3)] assms(2,7,9) obtain ty mk n where ser:
      "RTI_COMMON_TypeCode_get_member_type (je_tc env) tc m = Some ty" "text_type (je_tc env) ty" "tk_kind (je_tc env) ty = Some mk"
      "tk_length (je_tc env) ty = Some n" "jc_buffer_member (o_config ser) = m" "jc_indent (o_config ser) = jc_indent cfg1"
      "js_json_buffer_max (o_state ser) = n" "json_ready (o_state ser)" "js_json_buffer_size (o_state ser) = buffer_size cfg1 n"
    by (auto simp: buffer_type_def)
  from json_new_object [OF assms(4,6)] assms(5,8,10) ser(1,3,4) have de:
      "jc_buffer_member (o_config de) = m" "js_json_buffer_max (o_state de) = n"
      "seq_vacant (js_octet_seq (o_state de))" "seq_vacant (js_char_seq (o_state de))"
      "mk \<noteq> DDS_TK_SEQUENCE \<longrightarrow> json_ready (o_state de) \<and> js_json_buffer_size (o_state de) = buffer_size cfg2 n"
    by (auto simp: buffer_type_def)
  from assms(12) ser(1,3,4) obtain ek where ek: "unat n \<le> 2147483647" "mk = DDS_TK_ARRAY \<longrightarrow> n \<noteq> RTI_INT32_MAX"
      "mk \<noteq> DDS_TK_STRING \<longrightarrow> (\<exists>c. tk_content_type (je_tc env) ty = Some c \<and> tk_kind (je_tc env) c = Some ek)"
      "member_accepts env m mk ek (unat n) out"
    unfolding info_agrees_def by blast
  have kinds: "text_kinds mk ek" using ser(2,3) ek(3) by (auto simp: text_type_def text_kinds_def)
  have sized: "json_sized mk (o_state ser)" using ek(1,2) ser(7,9) by (auto simp: json_sized_def buffer_size_def)
  have fits: "length t < unat (js_json_buffer_size (o_state ser)) \<or> js_json_buffer_max (o_state ser) = RTI_INT32_MAX"
    using assms(14) ser(7,9) by (auto simp: buffer_size_def)
  have "prints env (jc_indent (o_config ser)) d t" "member_accepts env (jc_buffer_member (o_config ser)) mk ek
      (unat (js_json_buffer_max (o_state ser))) out" using assms(13) ser(5-7) ek(4) by simp_all
  from json_serialized [OF this(1) ser(8) sized m assms(11) kinds this(2) fits] ser(5-7) obtain st1 out1 where s:
      "RTI_TSFM_JsonTransformation_serialize env (o_config ser) (o_state ser) d out = Some (DDS_RETCODE_OK, st1, d, out1)"
      "member_holds env m (unat n) ?t out1" "je_get_member_info env m out1 = je_get_member_info env m out" by auto
  have t: "cstring ?t" "length ?t < 2147483647" using assms(13) by (auto simp: prints_def cstring_json_line)
  have "je_get_member_info env m out1 = (DDS_RETCODE_OK, mk, ek)" using s(3) ek(4) by (simp add: member_accepts_def)
  then have "json_reads (fst (snd (je_get_member_info env m out1))) (unat n) ?t (o_state de)"
    using de fits ser(7,9) ek(2) by (auto simp: json_reads_def seq_vacant_def buffer_size_def)
  from json_deserialized [of env "o_config de", OF _ t m this [folded de(1)]] s de(1) show ?thesis by auto
qed

section \<open>Two faults\<close>

text \<open>
  A text for a member of a kind that is not supported is dropped with the return code of a success.
\<close>

lemma json_deserialize_unsupported:
  assumes "je_get_member_info env (jc_buffer_member cfg) sample_in = (DDS_RETCODE_OK, mk, ek)" "\<not> text_kinds mk ek"
  shows "RTI_TSFM_JsonTransformation_deserialize env cfg st sample_in sample_out =
    Some (DDS_RETCODE_OK, st, sample_in, sample_out)"
proof -
  have "get_buffer_member env (jc_buffer_member cfg) st sample_in = Some (DDS_RETCODE_OK, st, False, None)"
    using assms by (cases mk; cases ek) (simp_all add: get_buffer_member_def text_kinds_def)
  then show ?thesis by (simp add: RTI_TSFM_JsonTransformation_deserialize_def)
qed

text \<open>
  When a sequence member cannot be set, the sequence of the state keeps the loan, and every later text
  for it is refused.
\<close>

lemma json_failed_set_blocks:
  assumes "set_seq_from_string a conv d s m buffer k = Some (rc, d1, s1)" "rc \<noteq> DDS_RETCODE_OK" "seq_laws (ma_seq a)"
    and "seq_total (ma_seq a)" "seq_vacant s" "c_strlen buffer = Some (length (c_text buffer))"
    and "length (c_text buffer) \<le> unat k" "length (c_text buffer) < 4294967295"
    and "\<And>xs n mx s. seq_loaned s \<Longrightarrow> seq_loan (ma_seq a) xs n mx s = None" "c_strlen buffer' = Some n'"
  shows "set_seq_from_string a conv d' s1 m buffer' k' = Some (DDS_RETCODE_ERROR, d', s1)"
proof -
  have "seq_loaned s1"
    using assms(1,2) set_seq_from_string_ok [OF assms(3-6) refl assms(7,8), of conv d m]
    by (auto split: prod.splits if_splits)
  with assms(9,10) show ?thesis by (simp add: set_seq_from_string_def Let_def)
qed

end
