(* ===== verification/JsonWitnesses.thy ===== *)
theory JsonWitnesses
  imports JsonTransformation
begin

text \<open>
  The theorems on the JSON transformation at concrete inputs: samples whose member \<^verbatim>\<open>payload.data\<close> is a sequence
  of octets, of at most 100 elements, and a formatter that prints their number.
\<close>

definition octet_chars :: "octet list \<Rightarrow> string" where
  "octet_chars d = map (\<lambda>w. char_of (unat w)) d"

definition example_text :: "octet list \<Rightarrow> string" where
  "example_text d = ''{'' @ CHR 0x0A # show_nat (length d) @ ''}''"

definition example_json_env :: "(std_type, octet list) json_env" where
  "example_json_env =
     \<lparr>je_tsfm = std_tsfm_env [], je_tc = std_tc,
      je_char =
        \<lparr>ma_get_seq = (\<lambda>m d s. (DDS_RETCODE_OK, \<lparr>seq_buf = octet_chars d, seq_max = length d, seq_loaned = False\<rparr>)),
         ma_set_seq = (\<lambda>m xs d. (DDS_RETCODE_OK, map of_char xs)), ma_seq = std_seq NUL, ma_contiguous = True\<rparr>,
      je_octet =
        \<lparr>ma_get_seq = (\<lambda>m d s. (DDS_RETCODE_OK, \<lparr>seq_buf = d, seq_max = length d, seq_loaned = False\<rparr>)),
         ma_set_seq = (\<lambda>m xs d. (DDS_RETCODE_OK, xs)), ma_seq = std_seq 0, ma_contiguous = True\<rparr>,
      je_get_member_info = (\<lambda>m d. (DDS_RETCODE_OK, DDS_TK_SEQUENCE, DDS_TK_OCTET)),
      je_set_string = (\<lambda>m t d. (DDS_RETCODE_OK, map of_char (case t of None \<Rightarrow> [] | Some t \<Rightarrow> t))),
      je_get_string = (\<lambda>m d present n.
        if length d < unat n then (DDS_RETCODE_OK, octet_chars d, n)
        else (DDS_RETCODE_PRECONDITION_NOT_MET, [], of_nat (Suc (length d)))),
      je_set_char_array = (\<lambda>m xs d. (DDS_RETCODE_OK, map of_char (case xs of None \<Rightarrow> [] | Some xs \<Rightarrow> xs))),
      je_set_octet_array = (\<lambda>m xs d. (DDS_RETCODE_OK, case xs of None \<Rightarrow> [] | Some xs \<Rightarrow> xs)),
      je_get_char_array = (\<lambda>m d present n. (DDS_RETCODE_OK, octet_chars d)),
      je_get_octet_array = (\<lambda>m d present n. (DDS_RETCODE_OK, d)),
      je_to_json = (\<lambda>d present n indent.
        if length (example_text d) < unat n then (DDS_RETCODE_OK, example_text d, n)
        else (DDS_RETCODE_OUT_OF_RESOURCES, [], of_nat (Suc (length (example_text d))))),
      je_from_json = (\<lambda>t d. (DDS_RETCODE_OK, map of_char (case t of None \<Rightarrow> [] | Some t \<Rightarrow> t))),
      je_string_alloc = (\<lambda>n. Some (replicate (Suc (unat n)) NUL)),
      je_octet_initialize = True, je_char_initialize = True, je_finalize_garbage = False, je_string_replace = True,
      je_state_alloc = True, je_config_alloc = (\<lambda>_. True)\<rparr>"

lemma octet_chars_of_char [simp]: "octet_chars (map of_char t) = t" "length (octet_chars d) = length d"
  by (simp_all add: octet_chars_def comp_def)

definition example_type :: std_type where
  "example_type = T_struct [(''payload'', T_struct [(''data'', T_octet_seq 100)])]"

definition example_types :: "std_type json_types" where
  "example_types = \<lparr>jt_input_dynamic = True, jt_input = example_type, jt_output = example_type, jt_output_name = ''T''\<rparr>"

definition json_properties :: "string \<Rightarrow> properties" where
  "json_properties kind = [''transform_type'' \<mapsto> kind, ''buffer_member'' \<mapsto> ''payload.data'']"

definition example_json_config :: json_config where
  "example_json_config =
     \<lparr>jc_buffer_member = ''payload.data'', jc_unbounded_member_serialized_size_initial = 256, jc_indent = 0\<rparr>"

lemma example_memory: "json_memory example_json_env" "alloc_laws example_json_env"
proof -
  show "json_memory example_json_env"
    by (auto simp: json_memory_def example_json_env_def text_type_def std_tc_def split: std_type.splits)
  show "alloc_laws example_json_env" by (auto simp: alloc_laws_def example_json_env_def)
qed

lemma example_laws: "text_member_laws example_json_env"
  by (simp add: text_member_laws_def member_laws_def example_json_env_def string_holds_def)

lemma show_nat_2: "show_nat (Suc (Suc 0)) = ''2''"
  by code_simp

lemma example_prints: "prints example_json_env 0 [1, 2] (''{'' @ CHR 0x0A # ''2}'')"
  by (simp add: prints_def example_json_env_def example_text_def show_nat_2 cstring_def NUL_def)

lemma example_creation:
  "json_creation example_json_env example_types (json_properties ''serializer'')
     \<lparr>tc_type = TransformationKind_SERIALIZER, tc_input_type = [], tc_output_type = []\<rparr> example_json_config"
  "json_creation example_json_env example_types (json_properties ''deserializer'')
     \<lparr>tc_type = TransformationKind_DESERIALIZER, tc_input_type = [], tc_output_type = []\<rparr> example_json_config"
  using example_memory
  by (simp_all add: json_creation_def RTI_TSFM_JsonTransformationConfigTypeSupport_create_data_def
      RTI_TSFM_JsonTransformationConfig_parse_from_properties_def RTI_TSFM_TransformationConfig_parse_from_properties_def
      RTI_TSFM_TransformationConfig_parse_from_properties_alloc_def Config_parse_def RTI_TSFM_TransformationConfig_default_def
      RTI_TSFM_TransformationConfig_DEFAULT_def transformation_property_steps_def json_property_steps_def
      RTI_TSFM_TransformationKind_from_string_def RTI_TSFM_Transformation_initialize_def
      RTI_TSFM_Transformation_create_type_support_def lookup_property_def json_properties_def example_json_env_def
      std_tsfm_env_def example_types_def example_json_config_def Let_def)

lemma example_member_type:
  "RTI_COMMON_TypeCode_get_member_type std_tc example_type ''payload.data'' = Some (T_octet_seq 100)"
  by (simp add: RTI_COMMON_TypeCode_get_member_type_def std_tc_def example_type_def TYPE_CODE_LENGTH_def)

lemma example_text_type: "text_type std_tc (T_octet_seq 100)" "sample_type_ok std_tc kind example_types"
  by (simp_all add: text_type_def sample_type_ok_def std_tc_def example_types_def example_type_def)

theorem json_new_types_witness:
  "(\<exists>ob. RTI_TSFM_JsonTransformation_new example_json_env example_types (json_properties ''serializer'') =
      Some (DDS_RETCODE_OK, Some ob) \<and> jc_buffer_member (o_config ob) = ''payload.data'') \<and>
   RTI_TSFM_JsonTransformation_new example_json_env (example_types\<lparr>jt_output := T_struct [(''data'', T_long)]\<rparr>)
     (json_properties ''serializer'') = None"
proof -
  have b: "je_tc example_json_env = std_tc" "\<not> je_finalize_garbage example_json_env" by (simp_all add: example_json_env_def)
  have "json_creation example_json_env (example_types\<lparr>jt_output := T_struct [(''data'', T_long)]\<rparr>) (json_properties ''serializer'')
     \<lparr>tc_type = TransformationKind_SERIALIZER, tc_input_type = [], tc_output_type = []\<rparr> example_json_config"
    using example_creation(1) by (simp add: json_creation_def)
  moreover have "RTI_COMMON_TypeCode_get_member_type std_tc (T_struct [(''data'', T_long)]) ''payload.data'' = None"
    by (simp add: RTI_COMMON_TypeCode_get_member_type_def std_tc_def TYPE_CODE_LENGTH_def)
  ultimately show ?thesis
    using json_new_types [OF example_creation(1)] json_new_types b example_member_type example_text_type
    by (fastforce simp: buffer_type_def example_types_def example_json_config_def)
qed


definition example_json_state :: json_state where
  "example_json_state =
     \<lparr>js_json_buffer = Some (replicate 101 NUL), js_json_buffer_size = 100, js_json_buffer_max = 100,
      js_octet_seq = seq_empty, js_char_seq = seq_empty, js_octet_init = True, js_char_init = True\<rparr>"

lemma example_accepts: "member_accepts example_json_env m DDS_TK_SEQUENCE DDS_TK_OCTET n d"
  by (simp add: member_accepts_def example_json_env_def)

theorem json_serialize_text_witness:
  "\<exists>st1 out1. RTI_TSFM_JsonTransformation_serialize example_json_env example_json_config example_json_state [1, 2] [] =
     Some (DDS_RETCODE_OK, st1, [1, 2], out1) \<and> member_holds example_json_env ''payload.data'' 100 ''{ 2}'' out1"
proof -
  have "prints example_json_env (jc_indent example_json_config) [1, 2] (''{'' @ CHR 0x0A # ''2}'')"
    using example_prints by (simp add: example_json_config_def)
  moreover have "json_ready example_json_state" "json_sized DDS_TK_SEQUENCE example_json_state"
    by (simp_all add: json_ready_def json_sized_def example_json_state_def RTI_INT32_MAX_def)
  moreover have "text_kinds DDS_TK_SEQUENCE DDS_TK_OCTET" by (simp add: text_kinds_def)
  ultimately show ?thesis
    using json_serialize_text [OF _ _ _ example_memory example_laws _ example_accepts,
        of example_json_config "[1, 2]" "''{'' @ CHR 0x0A # ''2}''" example_json_state "[]"]
    by (auto simp: example_json_state_def example_json_config_def json_line_def)
qed

lemma example_json_new:
  assumes "kind = ''serializer'' \<and> k = TransformationKind_SERIALIZER \<or> kind = ''deserializer'' \<and> k = TransformationKind_DESERIALIZER"
  shows "\<exists>ob. RTI_TSFM_JsonTransformation_new example_json_env example_types (json_properties kind) = Some (DDS_RETCODE_OK, Some ob) \<and>
    js_json_buffer_max (o_state ob) = 100"
proof -
  let ?pc = "\<lparr>tc_type = k, tc_input_type = [], tc_output_type = []\<rparr>"
  have c: "json_creation example_json_env example_types (json_properties kind) ?pc example_json_config"
    using assms example_creation by auto
  have b: "je_tc example_json_env = std_tc" by (simp add: example_json_env_def)
  have m: "RTI_COMMON_TypeCode_get_member_type (je_tc example_json_env) (buffer_type (tc_type ?pc) example_types)
      (jc_buffer_member example_json_config) = Some (T_octet_seq 100)"
    using example_member_type b by (simp add: buffer_type_def example_types_def example_json_config_def)
  from json_initialize_ok [OF c m, of new_json_state] b example_text_type obtain tr cfg1 st1 where
      "RTI_TSFM_JsonTransformation_initialize example_json_env example_types (json_properties kind) ?pc example_json_config
         new_json_state = (DDS_RETCODE_OK, tr, cfg1, st1)" "tk_length std_tc (T_octet_seq 100) = Some (js_json_buffer_max st1)"
    by auto
  then show ?thesis by (simp add: json_new_steps [OF c] json_finish_def std_tc_def)
qed

theorem json_roundtrip_witness:
  "\<exists>ser de st1 out1 st2.
     RTI_TSFM_JsonTransformation_new example_json_env example_types (json_properties ''serializer'') = Some (DDS_RETCODE_OK, Some ser) \<and>
     RTI_TSFM_JsonTransformation_new example_json_env example_types (json_properties ''deserializer'') = Some (DDS_RETCODE_OK, Some de) \<and>
     RTI_TSFM_JsonTransformation_serialize example_json_env (o_config ser) (o_state ser) [1, 2] [] =
       Some (DDS_RETCODE_OK, st1, [1, 2], out1) \<and>
     RTI_TSFM_JsonTransformation_deserialize example_json_env (o_config de) (o_state de) out1 [] =
       Some (DDS_RETCODE_OK, st2, out1, map of_char ''{ 2}'')"
proof -
  obtain ser de where s: "RTI_TSFM_JsonTransformation_new example_json_env example_types (json_properties ''serializer'') =
        Some (DDS_RETCODE_OK, Some ser)" "js_json_buffer_max (o_state ser) = 100"
      and d: "RTI_TSFM_JsonTransformation_new example_json_env example_types (json_properties ''deserializer'') =
        Some (DDS_RETCODE_OK, Some de)"
    using example_json_new [of "''serializer''" TransformationKind_SERIALIZER]
      example_json_new [of "''deserializer''" TransformationKind_DESERIALIZER] by auto
  have i: "info_agrees example_json_env example_type ''payload.data'' []"
    using example_member_type example_accepts
    by (auto simp: info_agrees_def example_json_env_def std_tc_def RTI_INT32_MAX_def)
  have p: "prints example_json_env (jc_indent example_json_config) [1, 2] (''{'' @ CHR 0x0A # ''2}'')"
    using example_prints by (simp add: example_json_config_def)
  have f: "jt_output example_types = example_type" "jt_input example_types = example_type"
      "jc_buffer_member example_json_config = ''payload.data''"
      "length (''{'' @ CHR 0x0A # ''2}'') < unat (js_json_buffer_max (o_state ser))"
    using s(2) by (simp_all add: example_types_def example_json_config_def)
  obtain st1 out1 st2 where "RTI_TSFM_JsonTransformation_serialize example_json_env (o_config ser) (o_state ser) [1, 2] [] =
       Some (DDS_RETCODE_OK, st1, [1, 2], out1)"
      "RTI_TSFM_JsonTransformation_deserialize example_json_env (o_config de) (o_state de) out1 [] =
        (case je_from_json example_json_env (Some (json_line (jc_indent example_json_config) (''{'' @ CHR 0x0A # ''2}''))) [] of
           (rc, y) \<Rightarrow> Some (rc, st2, out1, y))"
    using json_roundtrip [OF example_creation(1) _ s(1) example_creation(2) _ d _ _ _ _ example_laws i p, of "[]"] f by auto
  then show ?thesis using s(1) d
    by (simp add: example_json_env_def json_line_def example_json_config_def)
qed

end
