(* ===== verification/Kafka.thy ===== *)
theory Kafka
  imports PropertyList DynamicDataHelpers
begin

text \<open>
  The Kafka adapter, \<^verbatim>\<open>plugins/adapters/kafka/srcC\<close>: the plugin and its connections (\<^verbatim>\<open>KafkaAdapter.c\<close>), the
  creation and deletion of stream readers and writers (\<^verbatim>\<open>KafkaConnection.c\<close>), and writing
  (\<^verbatim>\<open>KafkaStreamWriter.c\<close>).

  The library \<^verbatim>\<open>librdkafka\<close> is a parameter: its handles are of an arbitrary type \<open>'k\<close>, and a configuration
  object is the list of the settings made in it.  Objects are allocated with \<^verbatim>\<open>calloc\<close>.  The functions
  return \<open>None\<close> where the C code goes through a null pointer, reads beyond the memory of a payload, or
  does not come back.
\<close>

section \<open>The library\<close>

datatype kafka_err =
    RD_KAFKA_RESP_ERR_NO_ERROR
  | RD_KAFKA_RESP_ERR_QUEUE_FULL
  | RD_KAFKA_RESP_ERR_OTHER nat

datatype kafka_kind = RD_KAFKA_PRODUCER | RD_KAFKA_CONSUMER

type_synonym kafka_conf = "(string \<times> string) list"

record 'k rdkafka =
  rk_conf_set :: "kafka_conf \<Rightarrow> string \<Rightarrow> string \<Rightarrow> bool"
  rk_new :: "kafka_kind \<Rightarrow> kafka_conf \<Rightarrow> 'k option"
  rk_producev :: "'k \<Rightarrow> string \<Rightarrow> octet list \<Rightarrow> kafka_err \<times> 'k"
  rk_poll :: "'k \<Rightarrow> nat \<Rightarrow> 'k"
  rk_flush :: "'k \<Rightarrow> nat \<Rightarrow> 'k"
  rk_outq_len :: "'k \<Rightarrow> nat"
  rk_poll_set_consumer :: "'k \<Rightarrow> 'k"
  rk_subscribe :: "'k \<Rightarrow> string \<Rightarrow> bool \<times> 'k"
  rk_consumer_close :: "'k \<Rightarrow> 'k"

text \<open>The properties of Routing Service: the array, and the function that looks a name up.\<close>

record kafka_properties =
  kp_properties :: "(string \<times> string) list"
  kp_lookup :: properties

section \<open>The plugin and its connections\<close>

record kafka_connection =
  kc_bootstrap_servers :: string

text \<open>The plugin object has no state of its own, only the table of the functions.\<close>

definition RTI_RS_Kafka_AdapterPlugin_create :: "bool \<Rightarrow> unit option" where
  "RTI_RS_Kafka_AdapterPlugin_create alloc = (if \<not> alloc then None else Some ())"

text \<open>The second component is whether an object was allocated and lost.\<close>

definition RTI_RS_KafkaAdapterPlugin_create_connection ::
    "bool \<Rightarrow> kafka_properties \<Rightarrow> kafka_connection option \<times> bool" where
  "RTI_RS_KafkaAdapterPlugin_create_connection alloc properties =
     (if \<not> alloc then (None, False)
      else
        case kp_lookup properties ''bootstrap.servers'' of
          None \<Rightarrow> (None, True)
        | Some servers \<Rightarrow> (Some \<lparr>kc_bootstrap_servers = servers\<rparr>, False))"

section \<open>Settings from properties\<close>

text \<open>The loop over the properties of a stream; those of Routing Service itself are skipped.\<close>

definition connext_property :: "string \<Rightarrow> bool" where
  "connext_property name \<longleftrightarrow> name = ''topic'' \<or> name = ''rti.routing_service.entity.resource_name''"

fun set_conf :: "'k rdkafka \<Rightarrow> kafka_conf \<Rightarrow> (string \<times> string) list \<Rightarrow> kafka_conf option" where
  "set_conf rk conf [] = Some conf"
| "set_conf rk conf ((name, val) # ps) =
     (if connext_property name then set_conf rk conf ps
      else if rk_conf_set rk conf name val then set_conf rk (conf @ [(name, val)]) ps
      else None)"

section \<open>Stream writers\<close>

record 'k kafka_writer =
  kw_rk :: "'k option"
  kw_topic :: "string option"

text \<open>The result is the handle that was destroyed, if there was one.\<close>

definition RTI_RS_KafkaConnection_cleanup_stream_writer :: "'k kafka_writer option \<Rightarrow> 'k option option" where
  "RTI_RS_KafkaConnection_cleanup_stream_writer self =
     (case self of None \<Rightarrow> None | Some w \<Rightarrow> Some (kw_rk w))"

definition RTI_RS_KafkaConnection_create_stream_writer ::
    "'k rdkafka \<Rightarrow> bool \<Rightarrow> kafka_connection \<Rightarrow> string option \<Rightarrow> kafka_properties \<Rightarrow> 'k kafka_writer option option" where
  "RTI_RS_KafkaConnection_create_stream_writer rk alloc conn stream_name properties =
     (let fail = (\<lambda>w. map_option (\<lambda>_. None) (RTI_RS_KafkaConnection_cleanup_stream_writer w)) in
      if \<not> alloc then fail None
      else
        let w = \<lparr>kw_rk = None, kw_topic = None\<rparr> in
        if stream_name = None then fail (Some w)
        else
          case kp_lookup properties ''topic'' of
            None \<Rightarrow> fail (Some w)
          | Some topic \<Rightarrow>
              let w1 = w\<lparr>kw_topic := Some topic\<rparr> in
              if \<not> rk_conf_set rk [] ''bootstrap.servers'' (kc_bootstrap_servers conn) then fail (Some w1)
              else
                case set_conf rk [(''bootstrap.servers'', kc_bootstrap_servers conn)] (kp_properties properties) of
                  None \<Rightarrow> fail (Some w1)
                | Some conf \<Rightarrow>
                    case rk_new rk RD_KAFKA_PRODUCER conf of
                      None \<Rightarrow> fail (Some w1)
                    | Some k \<Rightarrow> Some (Some (w1\<lparr>kw_rk := Some k\<rparr>)))"

text \<open>Before the handle is destroyed its messages are flushed; the result is the number that were not delivered.\<close>

definition RTI_RS_KafkaConnection_delete_stream_writer :: "'k rdkafka \<Rightarrow> 'k kafka_writer \<Rightarrow> nat option" where
  "RTI_RS_KafkaConnection_delete_stream_writer rk self =
     (case kw_rk self of
        None \<Rightarrow> None
      | Some k \<Rightarrow>
          let k1 = rk_flush rk k 10000 in
          map_option (\<lambda>_. rk_outq_len rk k1)
            (RTI_RS_KafkaConnection_cleanup_stream_writer (Some (self\<lparr>kw_rk := Some k1\<rparr>))))"

section \<open>Writing\<close>

text \<open>
  What is read from a sample: \<open>kd_get_octet_seq\<close> copies the member into a sequence and gives the memory
  of the sequence after that, in which the elements come first; \<open>None\<close> is an error.  The sequence is
  the same for all samples of a call.  \<open>kd_contiguous\<close> is whether it has a buffer.
\<close>

record 'd kafka_samples =
  kd_get_octet_seq :: "'d \<Rightarrow> octet list \<Rightarrow> octet list option"
  kd_contiguous :: "octet list \<Rightarrow> bool"

text \<open>A full queue is waited for: poll and try again.\<close>

partial_function (option) produce_retry ::
    "'k rdkafka \<Rightarrow> string \<Rightarrow> octet list \<Rightarrow> kafka_err \<Rightarrow> 'k \<Rightarrow> 'k option" where
  "produce_retry rk topic buffer err k =
     (if err = RD_KAFKA_RESP_ERR_QUEUE_FULL then
        (case rk_producev rk (rk_poll rk k 10) topic buffer of
           (err1, k1) \<Rightarrow> produce_retry rk topic buffer err1 k1)
      else Some k)"

fun kafka_write_loop ::
    "'k rdkafka \<Rightarrow> 'd kafka_samples \<Rightarrow> string \<Rightarrow> octet list \<Rightarrow> 'd list \<Rightarrow> 'k \<Rightarrow> 'k option" where
  "kafka_write_loop rk sd topic mem [] k = Some k"
| "kafka_write_loop rk sd topic mem (sample # samples) k =
     (case kd_get_octet_seq sd sample mem of
        None \<Rightarrow> kafka_write_loop rk sd topic mem samples k
      | Some mem1 \<Rightarrow>
          if \<not> kd_contiguous sd mem1 then kafka_write_loop rk sd topic mem1 samples k
          else if 0 \<notin> set mem1 then None
          else
            let buffer = takeWhile (\<lambda>b. b \<noteq> 0) mem1 in
            case rk_producev rk k topic buffer of
              (err, k1) \<Rightarrow>
                case produce_retry rk topic buffer err k1 of
                  None \<Rightarrow> None
                | Some k2 \<Rightarrow> kafka_write_loop rk sd topic mem1 samples (rk_poll rk k2 0))"

text \<open>The number of samples is returned whatever became of them.\<close>

definition RTI_RS_KafkaStreamWriter_write ::
    "'k rdkafka \<Rightarrow> 'd kafka_samples \<Rightarrow> 'k kafka_writer \<Rightarrow> 'd list \<Rightarrow> (nat \<times> 'k kafka_writer) option" where
  "RTI_RS_KafkaStreamWriter_write rk sd self samples =
     (if samples = [] then Some (0, self)
      else
        case (kw_rk self, kw_topic self) of
          (Some k, Some topic) \<Rightarrow>
            map_option (\<lambda>k1. (length samples, self\<lparr>kw_rk := Some k1\<rparr>)) (kafka_write_loop rk sd topic [] samples k)
        | _ \<Rightarrow> None)"

section \<open>What is written\<close>

text \<open>
  A record of the messages accepted for sending: producing adds one when it succeeds, and nothing else
  changes it.
\<close>

definition producer_log :: "'k rdkafka \<Rightarrow> ('k \<Rightarrow> (string \<times> octet list) list) \<Rightarrow> bool" where
  "producer_log rk sent \<longleftrightarrow>
     (\<forall>k topic b. sent (snd (rk_producev rk k topic b)) =
        sent k @ (if fst (rk_producev rk k topic b) = RD_KAFKA_RESP_ERR_NO_ERROR then [(topic, b)] else [])) \<and>
     (\<forall>k n. sent (rk_poll rk k n) = sent k)"

text \<open>
  The attempts to produce one message, with a poll after each one that finds the queue full: the
  first result other than a full queue settles it, with that error code and handle.
\<close>

inductive settles :: "'k rdkafka \<Rightarrow> string \<Rightarrow> octet list \<Rightarrow> 'k \<Rightarrow> kafka_err \<Rightarrow> 'k \<Rightarrow> bool"
  for rk topic b where
    settled: "rk_producev rk k topic b = (e, k1) \<Longrightarrow> e \<noteq> RD_KAFKA_RESP_ERR_QUEUE_FULL \<Longrightarrow> settles rk topic b k e k1"
  | full: "rk_producev rk k topic b = (RD_KAFKA_RESP_ERR_QUEUE_FULL, k1) \<Longrightarrow> settles rk topic b (rk_poll rk k1 10) e k2 \<Longrightarrow>
      settles rk topic b k e k2"

text \<open>
  The messages of a call one after the other, with what is accepted: a message is sent when
  librdkafka accepts it and dropped when it is settled with an error, such as
  \<^verbatim>\<open>RD_KAFKA_RESP_ERR_MSG_SIZE_TOO_LARGE\<close>.
\<close>

inductive produces ::
    "'k rdkafka \<Rightarrow> string \<Rightarrow> 'k \<Rightarrow> octet list list \<Rightarrow> (string \<times> octet list) list \<Rightarrow> 'k \<Rightarrow> bool" for rk topic where
    none: "produces rk topic k [] [] k"
  | accepted: "settles rk topic b k RD_KAFKA_RESP_ERR_NO_ERROR k1 \<Longrightarrow> produces rk topic (rk_poll rk k1 0) bs out k2 \<Longrightarrow>
      produces rk topic k (b # bs) ((topic, b) # out) k2"
  | dropped: "settles rk topic b k e k1 \<Longrightarrow> e \<noteq> RD_KAFKA_RESP_ERR_NO_ERROR \<Longrightarrow> produces rk topic (rk_poll rk k1 0) bs out k2 \<Longrightarrow>
      produces rk topic k (b # bs) out k2"

text \<open>The queue does not stay full for ever; nothing is said of other errors.\<close>

definition producer_drains :: "'k rdkafka \<Rightarrow> bool" where
  "producer_drains rk \<longleftrightarrow> (\<forall>k topic b. \<exists>e k1. settles rk topic b k e k1)"

text \<open>Producing reports no error but a full queue.\<close>

definition producer_accepts :: "'k rdkafka \<Rightarrow> bool" where
  "producer_accepts rk \<longleftrightarrow>
     (\<forall>k topic b. fst (rk_producev rk k topic b) \<in> {RD_KAFKA_RESP_ERR_NO_ERROR, RD_KAFKA_RESP_ERR_QUEUE_FULL})"

text \<open>A sample has a payload with a terminator, or none that can be read; the memory after the payload is unknown.\<close>

definition sample_payload :: "'d kafka_samples \<Rightarrow> 'd \<Rightarrow> octet list option \<Rightarrow> bool" where
  "sample_payload sd d p \<longleftrightarrow>
     (case p of
        None \<Rightarrow> \<forall>mem. kd_get_octet_seq sd d mem = None
      | Some bytes \<Rightarrow> 0 \<in> set bytes \<and>
          (\<forall>mem. \<exists>rest. kd_get_octet_seq sd d mem = Some (bytes @ rest) \<and> kd_contiguous sd (bytes @ rest)))"

lemma settles_accepts:
  assumes "settles rk topic b k e k1" "producer_accepts rk"
  shows "e = RD_KAFKA_RESP_ERR_NO_ERROR"
  using assms(1)
proof (induction rule: settles.induct)
  case (settled k e k1)
  with assms(2) [unfolded producer_accepts_def, rule_format, of k topic b] show ?case by auto
qed

lemma produces_accepts:
  assumes "produces rk topic k bs out k'" "producer_accepts rk"
  shows "out = map (\<lambda>b. (topic, b)) bs"
  using assms(1) by (induction rule: produces.induct) (auto dest: settles_accepts [OF _ assms(2)])

lemma produce_retry_settles:
  assumes "settles rk topic b k e k'" "producer_log rk sent"
  shows "produce_retry rk topic b (fst (rk_producev rk k topic b)) (snd (rk_producev rk k topic b)) = Some k' \<and>
    sent k' = sent k @ (if e = RD_KAFKA_RESP_ERR_NO_ERROR then [(topic, b)] else [])"
  using assms(1)
proof (induction rule: settles.induct)
  case (settled k e k1)
  with assms(2) [unfolded producer_log_def, THEN conjunct1, rule_format, of k topic b] show ?case
    by (subst produce_retry.simps) simp
next
  case (full k k1 e k2)
  have "sent (rk_poll rk k1 10) = sent k"
    using assms(2) [unfolded producer_log_def, THEN conjunct1, rule_format, of k topic b]
      assms(2) [unfolded producer_log_def, THEN conjunct2, rule_format, of k1 10] full.hyps(1) by simp
  with full show ?case by (subst produce_retry.simps) (simp add: case_prod_beta)
qed

definition cut_payload :: "octet list \<Rightarrow> octet list" where
  "cut_payload bytes = takeWhile (\<lambda>b. b \<noteq> 0) bytes"

lemma kafka_write_loop_sends:
  assumes "producer_log rk sent" "producer_drains rk" "list_all2 (sample_payload sd) samples ps"
  shows "\<exists>k' out. kafka_write_loop rk sd topic mem samples k = Some k' \<and>
    produces rk topic k (map cut_payload (List.map_filter (\<lambda>p. p) ps)) out k' \<and> sent k' = sent k @ out"
  using assms(3)
proof (induction samples ps arbitrary: mem k rule: list_all2_induct)
  case Nil
  then show ?case by (auto simp: map_filter_simps intro: produces.none)
next
  case (Cons d ds p ps)
  show ?case
  proof (cases p)
    case None
    with Cons show ?thesis by (simp add: sample_payload_def map_filter_simps)
  next
    case (Some bytes)
    then obtain rest where r: "kd_get_octet_seq sd d mem = Some (bytes @ rest)" "kd_contiguous sd (bytes @ rest)" "0 \<in> set bytes"
      using Cons.hyps(1) unfolding sample_payload_def by fastforce
    have b: "takeWhile (\<lambda>b. b \<noteq> 0) (bytes @ rest) = cut_payload bytes"
      using r(3) by (simp add: cut_payload_def takeWhile_append1 [of 0])
    obtain e k1 where e: "settles rk topic (cut_payload bytes) k e k1"
      using assms(2) unfolding producer_drains_def by blast
    note k1 = produce_retry_settles [OF e assms(1)]
    from Cons.IH [of "bytes @ rest" "rk_poll rk k1 0"] obtain k' out where k':
        "kafka_write_loop rk sd topic (bytes @ rest) ds (rk_poll rk k1 0) = Some k'"
        "produces rk topic (rk_poll rk k1 0) (map cut_payload (List.map_filter (\<lambda>p. p) ps)) out k'" "sent k' = sent k1 @ out"
      using assms(1) by (auto simp: producer_log_def)
    have "kafka_write_loop rk sd topic mem (d # ds) k = Some k'"
      using r b k1 k'(1) by (simp add: Let_def case_prod_beta)
    moreover have "produces rk topic k (map cut_payload (List.map_filter (\<lambda>p. p) (p # ps)))
        ((if e = RD_KAFKA_RESP_ERR_NO_ERROR then [(topic, cut_payload bytes)] else []) @ out) k'"
      using e k'(2) Some by (auto simp: map_filter_simps intro: produces.accepted produces.dropped)
    ultimately show ?thesis using k1 k'(3) by auto
  qed
qed

text \<open>
  Claim C27. Writing to Kafka: for samples that have a payload with a terminating zero, or none that can be
  read, and a queue that does not stay full for ever, the call ends.  The payloads, each cut at its first
  zero, are offered to the topic of the writer in the order of the samples, each again until the queue is
  not full; exactly those that librdkafka accepts are sent, one that it refuses with another error
  (too large a message, say) is dropped without notice, and samples without a payload are left out.  The
  number returned is that of all samples, sent or not.  If producing never reports another
  error than a full queue, all payloads are sent.
\<close>

theorem kafka_write_sends:
  assumes "producer_log rk sent" "producer_drains rk" "list_all2 (sample_payload sd) samples ps"
    and "kw_rk w = Some k" "kw_topic w = Some topic"
  shows "\<exists>k' out. RTI_RS_KafkaStreamWriter_write rk sd w samples = Some (length samples, w\<lparr>kw_rk := Some k'\<rparr>) \<and>
    produces rk topic k (map cut_payload (List.map_filter (\<lambda>p. p) ps)) out k' \<and> sent k' = sent k @ out \<and>
    (producer_accepts rk \<longrightarrow> out = map (\<lambda>p. (topic, cut_payload p)) (List.map_filter (\<lambda>p. p) ps))"
proof -
  obtain k' out where k': "kafka_write_loop rk sd topic [] samples k = Some k'"
      "produces rk topic k (map cut_payload (List.map_filter (\<lambda>p. p) ps)) out k'" "sent k' = sent k @ out"
    using kafka_write_loop_sends [OF assms(1-3)] by blast
  then have "RTI_RS_KafkaStreamWriter_write rk sd w samples = Some (length samples, w\<lparr>kw_rk := Some k'\<rparr>)"
    using assms(4,5) by (cases w) (auto simp: RTI_RS_KafkaStreamWriter_write_def)
  moreover have "producer_accepts rk \<longrightarrow> out = map (\<lambda>p. (topic, cut_payload p)) (List.map_filter (\<lambda>p. p) ps)"
    using produces_accepts [OF k'(2)] by simp
  ultimately show ?thesis using k'(2,3) by blast
qed

text \<open>
  A payload without a zero is sent with what follows it in the memory of the sequence, which may be the
  rest of the payload of an earlier sample.
\<close>

lemma kafka_write_unterminated:
  assumes "kd_get_octet_seq sd d mem = Some (p @ rest)" "kd_contiguous sd (p @ rest)" "0 \<notin> set p" "0 \<in> set rest"
    and "rk_producev rk k topic (p @ cut_payload rest) = (RD_KAFKA_RESP_ERR_NO_ERROR, k1)"
  shows "kafka_write_loop rk sd topic mem [d] k = Some (rk_poll rk k1 0)"
proof -
  have "takeWhile (\<lambda>b. b \<noteq> 0) (p @ rest) = p @ cut_payload rest"
    using assms(3) by (subst takeWhile_append2) (auto simp: cut_payload_def)
  with assms show ?thesis by (simp add: Let_def produce_retry.simps)
qed

section \<open>The settings of a stream\<close>

lemma set_conf_some:
  "set_conf rk conf ps = Some conf' \<Longrightarrow> conf' = conf @ filter (\<lambda>(name, _). \<not> connext_property name) ps"
proof (induction ps arbitrary: conf)
  case (Cons p ps)
  obtain name val where p: "p = (name, val)" by (cases p)
  show ?case
  proof (cases "connext_property name")
    case False
    with Cons.prems p have "set_conf rk (conf @ [(name, val)]) ps = Some conf'" by (simp split: if_splits)
    from Cons.IH [OF this] False p show ?thesis by simp
  qed (use Cons p in simp)
qed simp

text \<open>The producer of a new writer has the brokers of the connection and then the properties of the stream as settings.\<close>

lemma create_stream_writer_settings:
  assumes "RTI_RS_KafkaConnection_create_stream_writer rk alloc conn stream_name properties = Some (Some w)"
  shows "\<exists>k. kw_rk w = Some k \<and> kw_topic w = kp_lookup properties ''topic'' \<and>
    rk_new rk RD_KAFKA_PRODUCER ((''bootstrap.servers'', kc_bootstrap_servers conn) #
      filter (\<lambda>(name, _). \<not> connext_property name) (kp_properties properties)) = Some k"
proof -
  obtain topic conf k where "kp_lookup properties ''topic'' = Some topic" "w = \<lparr>kw_rk = Some k, kw_topic = Some topic\<rparr>"
      and c: "set_conf rk [(''bootstrap.servers'', kc_bootstrap_servers conn)] (kp_properties properties) = Some conf"
      "rk_new rk RD_KAFKA_PRODUCER conf = Some k"
    using assms
    by (auto simp: RTI_RS_KafkaConnection_create_stream_writer_def RTI_RS_KafkaConnection_cleanup_stream_writer_def Let_def
        split: option.split_asm if_split_asm)
  with set_conf_some [OF c(1)] show ?thesis by simp
qed

end
