(* ===== verification/KafkaReader.thy ===== *)
theory KafkaReader
  imports Kafka
begin

text \<open>
  The stream readers of the Kafka adapter, \<^verbatim>\<open>KafkaStreamReader.c\<close> and the functions of \<^verbatim>\<open>KafkaConnection.c\<close> that
  create and delete them.  A polling thread takes messages from Kafka and notifies Routing Service,
  which reads them on loan from another thread.  The two pass the message to each other with two
  binary semaphores.

  The thread function is split at its blocking calls and its accesses to shared data; \<open>kr_pc\<close> is where
  it is.  The functions that Routing Service calls are steps of their own.  The pointer \<^verbatim>\<open>rkm\<close> stays set
  when its message is destroyed: \<open>kr_rkm_alive\<close> tells whether it is dangling.  \<open>Fault\<close> is the use of a
  destroyed message or of a null pointer.  The fields from \<open>kr_loaned\<close> on are not part of the structure:
  whether Routing Service has the sample, the messages taken from Kafka, those destroyed, the
  notifications, and the payloads handed to Routing Service.
\<close>

section \<open>State\<close>

record kmsg =
  km_err :: bool
  km_payload :: "octet list"

datatype poll_pc = At_test | At_take | At_poll | At_message | At_notify | At_give | Returned

record 'k kafka_reader =
  kr_rk :: "'k option"
  kr_rkm :: "kmsg option"
  kr_rkm_alive :: bool
  kr_topic :: "string option"
  kr_poll_sem :: bool
  kr_read_sem :: bool
  kr_run_thread :: bool
  kr_payload :: "octet list option"
  kr_pc :: poll_pc
  kr_loaned :: bool
  kr_polled :: "kmsg list"
  kr_destroyed :: "kmsg list"
  kr_notified :: nat
  kr_delivered :: "octet list list"

datatype 'a outcome = Blocked | Fault | Next 'a

text \<open>The results of the calls in one step.\<close>

record kafka_step =
  ks_take :: bool
  ks_message :: "kmsg option"
  ks_initialize :: bool
  ks_loan :: bool
  ks_give :: bool
  ks_set_payload :: bool

section \<open>The polling thread\<close>

text \<open>\<^verbatim>\<open>rd_kafka_message_destroy(self->rkm)\<close>.\<close>

definition destroy_message :: "'k kafka_reader \<Rightarrow> 'k kafka_reader option" where
  "destroy_message r =
     (case kr_rkm r of
        None \<Rightarrow> Some r
      | Some m \<Rightarrow>
          if \<not> kr_rkm_alive r then None
          else Some (r\<lparr>kr_rkm_alive := False, kr_destroyed := kr_destroyed r @ [m]\<rparr>))"

definition RTI_RS_KafkaStreamReader_error_cleanup :: "kafka_step \<Rightarrow> 'k kafka_reader \<Rightarrow> (int \<times> 'k kafka_reader) option" where
  "RTI_RS_KafkaStreamReader_error_cleanup env r =
     (case destroy_message r of
        None \<Rightarrow> None
      | Some r1 \<Rightarrow> if \<not> ks_give env then Some (-1, r1) else Some (0, r1\<lparr>kr_poll_sem := True\<rparr>))"

text \<open>The caller ends the thread when the cleanup returns 0.\<close>

definition give_up :: "kafka_step \<Rightarrow> 'k kafka_reader \<Rightarrow> 'k kafka_reader outcome" where
  "give_up env r =
     (case RTI_RS_KafkaStreamReader_error_cleanup env r of
        None \<Rightarrow> Fault
      | Some (rv, r1) \<Rightarrow> Next (r1\<lparr>kr_pc := (if rv = 0 then Returned else At_test)\<rparr>))"

definition RTI_RS_KafkaStreamReader_on_data_availabe_thread ::
    "kafka_step \<Rightarrow> 'k kafka_reader \<Rightarrow> 'k kafka_reader outcome" where
  "RTI_RS_KafkaStreamReader_on_data_availabe_thread env r =
     (case kr_pc r of
        At_test \<Rightarrow> Next (r\<lparr>kr_pc := (if kr_run_thread r then At_take else Returned)\<rparr>)
      | At_take \<Rightarrow>
          if \<not> ks_take env then Next (r\<lparr>kr_pc := Returned\<rparr>)
          else if kr_poll_sem r then Next (r\<lparr>kr_poll_sem := False, kr_pc := At_poll\<rparr>)
          else Blocked
      | At_poll \<Rightarrow>
          (case ks_message env of
             None \<Rightarrow>
               let r1 = r\<lparr>kr_rkm := None, kr_rkm_alive := False\<rparr> in
               if \<not> ks_give env then Next (r1\<lparr>kr_pc := Returned\<rparr>)
               else Next (r1\<lparr>kr_poll_sem := True, kr_pc := At_test\<rparr>)
           | Some m \<Rightarrow>
               Next (r\<lparr>kr_rkm := Some m, kr_rkm_alive := True, kr_polled := kr_polled r @ [m], kr_pc := At_message\<rparr>))
      | At_message \<Rightarrow>
          (case kr_rkm r of
             None \<Rightarrow> Fault
           | Some m \<Rightarrow>
               if \<not> kr_rkm_alive r then Fault
               else if km_err m then give_up env r
               else if \<not> ks_initialize env then give_up env r
               else if \<not> ks_loan env then give_up env r
               else Next (r\<lparr>kr_payload := Some (km_payload m), kr_pc := At_notify\<rparr>))
      | At_notify \<Rightarrow> Next (r\<lparr>kr_notified := kr_notified r + 1, kr_pc := At_give\<rparr>)
      | At_give \<Rightarrow>
          if \<not> ks_give env then Next (r\<lparr>kr_pc := Returned\<rparr>)
          else Next (r\<lparr>kr_read_sem := True, kr_pc := At_test\<rparr>)
      | Returned \<Rightarrow> Blocked)"

section \<open>Reading and returning the loan\<close>

text \<open>The payload is memory of the message, so that it has to be alive.\<close>

definition RTI_RS_KafkaStreamReader_read :: "kafka_step \<Rightarrow> 'k kafka_reader \<Rightarrow> 'k kafka_reader outcome" where
  "RTI_RS_KafkaStreamReader_read env r =
     (if \<not> ks_take env then Next r
      else if \<not> kr_read_sem r then Blocked
      else
        let r1 = r\<lparr>kr_read_sem := False\<rparr> in
        case kr_payload r of
          None \<Rightarrow> Fault
        | Some bytes \<Rightarrow>
            if \<not> kr_rkm_alive r then Fault
            else if \<not> ks_set_payload env then Next r1
            else Next (r1\<lparr>kr_loaned := True, kr_delivered := kr_delivered r @ [bytes]\<rparr>))"

definition RTI_RS_KafkaStreamReader_return_loan :: "kafka_step \<Rightarrow> 'k kafka_reader \<Rightarrow> 'k kafka_reader outcome" where
  "RTI_RS_KafkaStreamReader_return_loan env r =
     (case destroy_message r of
        None \<Rightarrow> Fault
      | Some r1 \<Rightarrow>
          let r2 = r1\<lparr>kr_loaned := False\<rparr> in
          if \<not> ks_give env then Next r2 else Next (r2\<lparr>kr_poll_sem := True\<rparr>))"

section \<open>Creation and deletion\<close>

text \<open>
  The memory that is allocated, by number: the reader, the two lists, the info; then the semaphores,
  two of each kind, and the thread.
\<close>

record kafka_create =
  kn_reader :: bool
  kn_sample_list :: bool
  kn_info_list :: bool
  kn_info :: bool
  kn_payload :: bool
  kn_semaphore :: "nat \<Rightarrow> bool"
  kn_thread :: bool

definition new_kafka_reader :: "'k kafka_reader" where
  "new_kafka_reader =
     \<lparr>kr_rk = None, kr_rkm = None, kr_rkm_alive = False, kr_topic = None, kr_poll_sem = False, kr_read_sem = False,
      kr_run_thread = True, kr_payload = None, kr_pc = At_test, kr_loaned = False, kr_polled = [], kr_destroyed = [],
      kr_notified = 0, kr_delivered = []\<rparr>"

text \<open>The result is the handle that was destroyed, if there was one; \<open>None\<close> for a null reader.\<close>

definition RTI_RS_KafkaConnection_cleanup_stream_reader :: "'k kafka_reader option \<Rightarrow> 'k option option" where
  "RTI_RS_KafkaConnection_cleanup_stream_reader self =
     (case self of None \<Rightarrow> None | Some r \<Rightarrow> Some (kr_rk r))"

text \<open>
  The configuration, the consumer and its subscription: whether all went well, and the handle, which
  there may be without a subscription.
\<close>

definition open_consumer ::
    "'k rdkafka \<Rightarrow> kafka_connection \<Rightarrow> kafka_properties \<Rightarrow> string \<Rightarrow> bool \<times> 'k option" where
  "open_consumer rk conn properties topic =
     (let conf0 = [(''bootstrap.servers'', kc_bootstrap_servers conn)] in
      if \<not> rk_conf_set rk [] ''bootstrap.servers'' (kc_bootstrap_servers conn) then (False, None)
      else if \<not> rk_conf_set rk conf0 ''group.id'' ''1'' then (False, None)
      else
        case set_conf rk (conf0 @ [(''group.id'', ''1'')]) (kp_properties properties) of
          None \<Rightarrow> (False, None)
        | Some conf \<Rightarrow>
            case rk_new rk RD_KAFKA_CONSUMER conf of
              None \<Rightarrow> (False, None)
            | Some k \<Rightarrow>
                case rk_subscribe rk (rk_poll_set_consumer rk k) topic of
                  (error, k1) \<Rightarrow> (\<not> error, Some k1))"

definition RTI_RS_KafkaConnection_create_stream_reader ::
    "'k rdkafka \<Rightarrow> kafka_create \<Rightarrow> kafka_connection \<Rightarrow> kafka_properties \<Rightarrow> 'k kafka_reader option option" where
  "RTI_RS_KafkaConnection_create_stream_reader rk env conn properties =
     (let fail = (\<lambda>r. map_option (\<lambda>_. None) (RTI_RS_KafkaConnection_cleanup_stream_reader r));
          r = new_kafka_reader in
      if \<not> kn_reader env then fail None
      else if \<not> kn_sample_list env \<or> \<not> kn_info_list env then fail (Some r)
      else if \<not> kn_info env then Some None
      else
        case kp_lookup properties ''topic'' of
          None \<Rightarrow> fail (Some r)
        | Some topic \<Rightarrow>
            let r1 = r\<lparr>kr_topic := Some topic\<rparr> in
            if \<not> kn_payload env then fail (Some r1)
            else
              case open_consumer rk conn properties topic of
                (ok, handle) \<Rightarrow>
                  let r2 = r1\<lparr>kr_rk := handle\<rparr> in
                  if \<not> ok then fail (Some r2)
                  else if \<not> (kn_semaphore env 0 \<and> kn_semaphore env 1 \<and> kn_semaphore env 2) then fail (Some r2)
                  else
                    let r3 = r2\<lparr>kr_poll_sem := True\<rparr> in
                    if \<not> kn_semaphore env 3 then fail (Some r3)
                    else if \<not> kn_thread env then fail (Some r3)
                    else Some (Some r3))"

text \<open>Waiting for the end of the thread; \<open>None\<close> when it is blocked for ever.\<close>

partial_function (option) join_thread :: "(nat \<Rightarrow> kafka_step) \<Rightarrow> nat \<Rightarrow> 'k kafka_reader \<Rightarrow> 'k kafka_reader option" where
  "join_thread envs i r =
     (if kr_pc r = Returned then Some r
      else
        case RTI_RS_KafkaStreamReader_on_data_availabe_thread (envs i) r of
          Blocked \<Rightarrow> None
        | Fault \<Rightarrow> None
        | Next r1 \<Rightarrow> join_thread envs (i + 1) r1)"

definition RTI_RS_KafkaConnection_delete_stream_reader ::
    "'k rdkafka \<Rightarrow> (nat \<Rightarrow> kafka_step) \<Rightarrow> 'k kafka_reader \<Rightarrow> 'k option option" where
  "RTI_RS_KafkaConnection_delete_stream_reader rk envs self =
     (case join_thread envs 0 (self\<lparr>kr_run_thread := False\<rparr>) of
        None \<Rightarrow> None
      | Some r \<Rightarrow>
          RTI_RS_KafkaConnection_cleanup_stream_reader (Some (r\<lparr>kr_rk := map_option (rk_consumer_close rk) (kr_rk r)\<rparr>)))"

section \<open>The two threads together\<close>

text \<open>
  Routing Service reads when it has no sample of the reader, and returns a loan when it has one; it may
  ask the thread to stop at any moment.
\<close>

inductive kafka_run :: "'k kafka_reader \<Rightarrow> 'k kafka_reader \<Rightarrow> bool" where
  thread: "RTI_RS_KafkaStreamReader_on_data_availabe_thread env r = Next r' \<Longrightarrow> kafka_run r r'"
| read: "\<not> kr_loaned r \<Longrightarrow> RTI_RS_KafkaStreamReader_read env r = Next r' \<Longrightarrow> kafka_run r r'"
| return_loan: "kr_loaned r \<Longrightarrow> RTI_RS_KafkaStreamReader_return_loan env r = Next r' \<Longrightarrow> kafka_run r r'"
| stop: "kafka_run r (r\<lparr>kr_run_thread := False\<rparr>)"

inductive_cases kafka_runE: "kafka_run r r'"

definition good_payloads :: "kmsg list \<Rightarrow> octet list list" where
  "good_payloads ms = map km_payload (filter (\<lambda>m. \<not> km_err m) ms)"

lemma good_payloads_simps [simp]:
  "good_payloads [] = []"
  "good_payloads (ms @ [m]) = good_payloads ms @ (if km_err m then [] else [km_payload m])"
  by (simp_all add: good_payloads_def)

text \<open>
  The protocol: the message is with one side at a time.  The thread has it from the moment it takes the
  semaphore for polling until it gives the one for reading; while a semaphore stands for it, nobody
  has it; or Routing Service has it on loan.  When a call in between fails it is with nobody for good.
\<close>

definition quiet :: "'k kafka_reader \<Rightarrow> bool" where
  "quiet r \<longleftrightarrow> \<not> kr_poll_sem r \<and> \<not> kr_read_sem r \<and> \<not> kr_loaned r"

definition outside :: "'k kafka_reader \<Rightarrow> bool" where
  "outside r \<longleftrightarrow> kr_pc r = At_test \<or> kr_pc r = At_take \<or> kr_pc r = Returned"

text \<open>A proper message that has not been delivered yet.\<close>

definition ready_message :: "'k kafka_reader \<Rightarrow> bool" where
  "ready_message r \<longleftrightarrow> kr_rkm_alive r \<and> \<not> km_err (the (kr_rkm r)) \<and> kr_payload r = Some (km_payload (the (kr_rkm r))) \<and>
     good_payloads (kr_polled r) = kr_delivered r @ [km_payload (the (kr_rkm r))]"

definition kafka_inv :: "'k kafka_reader \<Rightarrow> bool" where
  "kafka_inv r \<longleftrightarrow>
     (kr_pc r = At_poll \<longrightarrow> quiet r \<and> \<not> kr_rkm_alive r \<and> good_payloads (kr_polled r) = kr_delivered r) \<and>
     (kr_pc r = At_message \<longrightarrow> quiet r \<and> kr_rkm_alive r \<and>
        good_payloads (kr_polled r) =
          kr_delivered r @ (if km_err (the (kr_rkm r)) then [] else [km_payload (the (kr_rkm r))])) \<and>
     (kr_pc r = At_notify \<or> kr_pc r = At_give \<longrightarrow> quiet r \<and> ready_message r) \<and>
     (kr_poll_sem r \<longrightarrow> \<not> kr_read_sem r \<and> \<not> kr_loaned r \<and> outside r \<and> \<not> kr_rkm_alive r \<and>
        (kr_pc r \<noteq> Returned \<longrightarrow> good_payloads (kr_polled r) = kr_delivered r)) \<and>
     (kr_read_sem r \<longrightarrow> \<not> kr_poll_sem r \<and> \<not> kr_loaned r \<and> outside r \<and> ready_message r) \<and>
     (kr_loaned r \<longrightarrow> \<not> kr_poll_sem r \<and> \<not> kr_read_sem r \<and> outside r \<and> kr_rkm_alive r \<and>
        good_payloads (kr_polled r) = kr_delivered r) \<and>
     (kr_rkm_alive r \<longrightarrow> kr_rkm r \<noteq> None) \<and>
     kr_polled r = kr_destroyed r @ (if kr_rkm_alive r then [the (kr_rkm r)] else []) \<and>
     (\<exists>rest. good_payloads (kr_polled r) = kr_delivered r @ rest \<and> length rest \<le> 1)"

section \<open>The invariant\<close>

lemmas kafka_defs = quiet_def outside_def ready_message_def

lemma kafka_inv_rest: "kafka_inv r \<Longrightarrow> \<exists>rest. good_payloads (kr_polled r) = kr_delivered r @ rest \<and> length rest \<le> 1"
  unfolding kafka_inv_def by blast

lemma kafka_inv_alive:
  "kafka_inv r \<Longrightarrow> kr_rkm_alive r \<Longrightarrow> \<exists>m. kr_rkm r = Some m \<and> kr_polled r = kr_destroyed r @ [m]"
  unfolding kafka_inv_def by auto

lemma kafka_inv_dead: "kafka_inv r \<Longrightarrow> \<not> kr_rkm_alive r \<Longrightarrow> kr_polled r = kr_destroyed r"
  unfolding kafka_inv_def by auto

lemma kafka_inv_at_message:
  assumes "kafka_inv r" "kr_pc r = At_message"
  obtains m where "quiet r" "kr_rkm r = Some m" "kr_rkm_alive r" "kr_polled r = kr_destroyed r @ [m]"
    "good_payloads (kr_polled r) = kr_delivered r @ (if km_err m then [] else [km_payload m])"
proof -
  have a: "quiet r" "kr_rkm_alive r" using assms unfolding kafka_inv_def by blast+
  from kafka_inv_alive [OF assms(1) a(2)] obtain m where m: "kr_rkm r = Some m" "kr_polled r = kr_destroyed r @ [m]" by blast
  have "good_payloads (kr_polled r) =
      kr_delivered r @ (if km_err (the (kr_rkm r)) then [] else [km_payload (the (kr_rkm r))])"
    using assms unfolding kafka_inv_def by blast
  with a m that show thesis by simp
qed

lemma kafka_inv_at_messageD:
  assumes "kafka_inv r" "kr_pc r = At_message"
  shows "quiet r" "kr_rkm_alive r" "\<exists>m. kr_rkm r = Some m"
  by (rule kafka_inv_at_message [OF assms]; simp)+

lemma give_up_inv:
  assumes "kafka_inv r" "kr_pc r = At_message" "give_up env r = Next r'"
  shows "kafka_inv r'"
proof -
  obtain m where m: "quiet r" "kr_rkm r = Some m" "kr_rkm_alive r" "kr_polled r = kr_destroyed r @ [m]"
    using kafka_inv_at_message [OF assms(1,2)] by metis
  have "r' = (if ks_give env
      then r\<lparr>kr_rkm_alive := False, kr_destroyed := kr_destroyed r @ [m], kr_poll_sem := True, kr_pc := Returned\<rparr>
      else r\<lparr>kr_rkm_alive := False, kr_destroyed := kr_destroyed r @ [m], kr_pc := At_test\<rparr>)"
    using assms(3) m by (auto simp: give_up_def RTI_RS_KafkaStreamReader_error_cleanup_def destroy_message_def)
  then show ?thesis using m kafka_inv_rest [OF assms(1)] by (simp add: kafka_inv_def kafka_defs)
qed


lemma kafka_inv_at_poll:
  assumes "kafka_inv r" "kr_pc r = At_poll"
  shows "quiet r" "\<not> kr_rkm_alive r" "good_payloads (kr_polled r) = kr_delivered r" "kr_polled r = kr_destroyed r"
proof -
  show a: "quiet r" "\<not> kr_rkm_alive r" "good_payloads (kr_polled r) = kr_delivered r"
    using assms unfolding kafka_inv_def by blast+
  show "kr_polled r = kr_destroyed r" by (rule kafka_inv_dead [OF assms(1) a(2)])
qed

lemma kafka_inv_at_notify:
  assumes "kafka_inv r" "kr_pc r = At_notify \<or> kr_pc r = At_give"
  obtains m where "quiet r" "kr_rkm r = Some m" "kr_rkm_alive r" "kr_polled r = kr_destroyed r @ [m]" "\<not> km_err m"
    "kr_payload r = Some (km_payload m)" "good_payloads (kr_polled r) = kr_delivered r @ [km_payload m]"
proof -
  have a: "quiet r" "ready_message r" using assms unfolding kafka_inv_def by blast+
  then have "kr_rkm_alive r" by (simp add: ready_message_def)
  from kafka_inv_alive [OF assms(1) this] a that show thesis by (auto simp: ready_message_def)
qed

lemma kafka_inv_poll_sem:
  assumes "kafka_inv r" "kr_poll_sem r"
  shows "\<not> kr_read_sem r" "\<not> kr_loaned r" "outside r" "\<not> kr_rkm_alive r" "kr_polled r = kr_destroyed r"
    "kr_pc r \<noteq> Returned \<Longrightarrow> good_payloads (kr_polled r) = kr_delivered r"
proof -
  show a: "\<not> kr_read_sem r" "\<not> kr_loaned r" "outside r" "\<not> kr_rkm_alive r" using assms unfolding kafka_inv_def by blast+
  show "kr_polled r = kr_destroyed r" by (rule kafka_inv_dead [OF assms(1) a(4)])
  show "kr_pc r \<noteq> Returned \<Longrightarrow> good_payloads (kr_polled r) = kr_delivered r" using assms unfolding kafka_inv_def by blast
qed

lemma kafka_inv_read_sem:
  assumes "kafka_inv r" "kr_read_sem r"
  obtains m where "\<not> kr_poll_sem r" "\<not> kr_loaned r" "outside r" "kr_rkm r = Some m" "kr_rkm_alive r"
    "kr_polled r = kr_destroyed r @ [m]" "\<not> km_err m" "kr_payload r = Some (km_payload m)"
    "good_payloads (kr_polled r) = kr_delivered r @ [km_payload m]"
proof -
  have a: "\<not> kr_poll_sem r" "\<not> kr_loaned r" "outside r" "ready_message r" using assms unfolding kafka_inv_def by blast+
  then have "kr_rkm_alive r" by (simp add: ready_message_def)
  from kafka_inv_alive [OF assms(1) this] a that show thesis by (auto simp: ready_message_def)
qed

lemma kafka_inv_read_semD:
  assumes "kafka_inv r" "kr_read_sem r"
  shows "kr_rkm_alive r" "\<exists>p. kr_payload r = Some p" "\<not> kr_poll_sem r" "\<not> kr_loaned r" "outside r"
  by (rule kafka_inv_read_sem [OF assms]; simp)+

lemma kafka_inv_loaned:
  assumes "kafka_inv r" "kr_loaned r"
  obtains m where "\<not> kr_poll_sem r" "\<not> kr_read_sem r" "outside r" "kr_rkm r = Some m" "kr_rkm_alive r"
    "kr_polled r = kr_destroyed r @ [m]" "good_payloads (kr_polled r) = kr_delivered r"
proof -
  have a: "\<not> kr_poll_sem r" "\<not> kr_read_sem r" "outside r" "kr_rkm_alive r" "good_payloads (kr_polled r) = kr_delivered r"
    using assms unfolding kafka_inv_def by blast+
  from kafka_inv_alive [OF assms(1) a(4)] a that show thesis by auto
qed

lemma kafka_inv_lost:
  assumes "quiet r" "outside r" "kr_rkm_alive r \<longrightarrow> kr_rkm r \<noteq> None"
    and "kr_polled r = kr_destroyed r @ (if kr_rkm_alive r then [the (kr_rkm r)] else [])"
    and "\<exists>rest. good_payloads (kr_polled r) = kr_delivered r @ rest \<and> length rest \<le> 1"
  shows "kafka_inv r"
  unfolding kafka_inv_def using assms by (auto simp: quiet_def outside_def)

text \<open>Where the thread waits or has ended, its place does not matter for the rest.\<close>

lemma kafka_inv_moves:
  assumes "kafka_inv r" "outside r" "kr_pc r \<noteq> Returned" "pc = At_test \<or> pc = At_take \<or> pc = Returned"
  shows "kafka_inv (r\<lparr>kr_pc := pc\<rparr>)"
proof -
  have pc: "pc \<noteq> At_poll" "pc \<noteq> At_message" "pc \<noteq> At_notify" "pc \<noteq> At_give" using assms(4) by auto
  consider "kr_poll_sem r" | "kr_read_sem r" | "kr_loaned r" | "quiet r" by (auto simp: quiet_def)
  then show ?thesis
  proof cases
    case 1
    with kafka_inv_poll_sem [OF assms(1) 1] assms(3,4) pc show ?thesis by (simp add: kafka_inv_def kafka_defs)
  next
    case 2
    from kafka_inv_read_sem [OF assms(1) 2] obtain m where "\<not> kr_poll_sem r" "\<not> kr_loaned r" "kr_rkm r = Some m"
        "kr_rkm_alive r" "kr_polled r = kr_destroyed r @ [m]" "\<not> km_err m" "kr_payload r = Some (km_payload m)"
        "good_payloads (kr_polled r) = kr_delivered r @ [km_payload m]" by metis
    with 2 assms(4) pc show ?thesis by (simp add: kafka_inv_def kafka_defs)
  next
    case 3
    from kafka_inv_loaned [OF assms(1) 3] obtain m where "\<not> kr_poll_sem r" "\<not> kr_read_sem r" "kr_rkm r = Some m"
        "kr_rkm_alive r" "kr_polled r = kr_destroyed r @ [m]" "good_payloads (kr_polled r) = kr_delivered r" by metis
    with 3 assms(4) pc show ?thesis by (simp add: kafka_inv_def kafka_defs)
  next
    case 4
    have "kr_rkm_alive r \<longrightarrow> kr_rkm r \<noteq> None" "kr_polled r = kr_destroyed r @ (if kr_rkm_alive r then [the (kr_rkm r)] else [])"
      using assms(1) unfolding kafka_inv_def by blast+
    with 4 assms(4) kafka_inv_rest [OF assms(1)] show ?thesis
      by (intro kafka_inv_lost) (simp_all add: quiet_def outside_def)
  qed
qed

lemma thread_inv:
  assumes "kafka_inv r" "RTI_RS_KafkaStreamReader_on_data_availabe_thread env r = Next r'"
  shows "kafka_inv r'"
proof (cases "kr_pc r")
  case At_test
  then have "r' = r\<lparr>kr_pc := (if kr_run_thread r then At_take else Returned)\<rparr>"
    using assms(2) by (simp add: RTI_RS_KafkaStreamReader_on_data_availabe_thread_def)
  with At_test assms(1) show ?thesis by (simp add: kafka_inv_moves outside_def)
next
  case At_take
  show ?thesis
  proof (cases "ks_take env")
    case True
    then have r': "kr_poll_sem r" "r' = r\<lparr>kr_poll_sem := False, kr_pc := At_poll\<rparr>"
      using assms(2) At_take by (auto simp: RTI_RS_KafkaStreamReader_on_data_availabe_thread_def split: if_splits)
    from kafka_inv_poll_sem [OF assms(1) r'(1)] r' At_take show ?thesis by (simp add: kafka_inv_def kafka_defs)
  next
    case False
    then have "r' = r\<lparr>kr_pc := Returned\<rparr>"
      using assms(2) At_take by (simp add: RTI_RS_KafkaStreamReader_on_data_availabe_thread_def)
    with At_take assms(1) show ?thesis by (simp add: kafka_inv_moves outside_def)
  qed
next
  case At_poll
  note q = kafka_inv_at_poll [OF assms(1) At_poll]
  show ?thesis
  proof (cases "ks_message env")
    case None
    then have "r' = (if ks_give env then r\<lparr>kr_rkm := None, kr_rkm_alive := False, kr_poll_sem := True, kr_pc := At_test\<rparr>
        else r\<lparr>kr_rkm := None, kr_rkm_alive := False, kr_pc := Returned\<rparr>)"
      using assms(2) At_poll by (auto simp: RTI_RS_KafkaStreamReader_on_data_availabe_thread_def Let_def split: if_splits)
    with q show ?thesis by (simp add: kafka_inv_def kafka_defs)
  next
    case (Some m)
    then have "r' = r\<lparr>kr_rkm := Some m, kr_rkm_alive := True, kr_polled := kr_polled r @ [m], kr_pc := At_message\<rparr>"
      using assms(2) At_poll by (simp add: RTI_RS_KafkaStreamReader_on_data_availabe_thread_def)
    with q show ?thesis by (simp add: kafka_inv_def kafka_defs)
  qed
next
  case At_message
  then obtain m where m: "quiet r" "kr_rkm r = Some m" "kr_rkm_alive r" "kr_polled r = kr_destroyed r @ [m]"
      "good_payloads (kr_polled r) = kr_delivered r @ (if km_err m then [] else [km_payload m])"
    using kafka_inv_at_message [OF assms(1)] by metis
  show ?thesis
  proof (cases "km_err m \<or> \<not> ks_initialize env \<or> \<not> ks_loan env")
    case True
    with assms At_message m(2,3) give_up_inv show ?thesis
      by (auto simp: RTI_RS_KafkaStreamReader_on_data_availabe_thread_def split: if_splits)
  next
    case False
    then have "r' = r\<lparr>kr_payload := Some (km_payload m), kr_pc := At_notify\<rparr>"
      using assms(2) At_message m by (simp add: RTI_RS_KafkaStreamReader_on_data_availabe_thread_def)
    with m False show ?thesis by (simp add: kafka_inv_def kafka_defs)
  qed
next
  case At_notify
  then have "r' = r\<lparr>kr_notified := kr_notified r + 1, kr_pc := At_give\<rparr>"
    using assms(2) by (simp add: RTI_RS_KafkaStreamReader_on_data_availabe_thread_def)
  moreover obtain m where "quiet r" "kr_rkm r = Some m" "kr_rkm_alive r" "kr_polled r = kr_destroyed r @ [m]" "\<not> km_err m"
      "kr_payload r = Some (km_payload m)" "good_payloads (kr_polled r) = kr_delivered r @ [km_payload m]"
    using kafka_inv_at_notify [OF assms(1)] At_notify by metis
  ultimately show ?thesis by (simp add: kafka_inv_def kafka_defs)
next
  case At_give
  then have "r' = (if ks_give env then r\<lparr>kr_read_sem := True, kr_pc := At_test\<rparr> else r\<lparr>kr_pc := Returned\<rparr>)"
    using assms(2) by (auto simp: RTI_RS_KafkaStreamReader_on_data_availabe_thread_def)
  moreover obtain m where "quiet r" "kr_rkm r = Some m" "kr_rkm_alive r" "kr_polled r = kr_destroyed r @ [m]" "\<not> km_err m"
      "kr_payload r = Some (km_payload m)" "good_payloads (kr_polled r) = kr_delivered r @ [km_payload m]"
    using kafka_inv_at_notify [OF assms(1)] At_give by metis
  ultimately show ?thesis by (simp add: kafka_inv_def kafka_defs)
next
  case Returned
  with assms(2) show ?thesis by (simp add: RTI_RS_KafkaStreamReader_on_data_availabe_thread_def)
qed


lemma read_inv:
  assumes "kafka_inv r" "RTI_RS_KafkaStreamReader_read env r = Next r'"
  shows "kafka_inv r'"
proof (cases "ks_take env")
  case True
  then have s: "kr_read_sem r" using assms(2) by (simp add: RTI_RS_KafkaStreamReader_read_def split: if_splits)
  from kafka_inv_read_sem [OF assms(1) s] obtain m where m: "\<not> kr_poll_sem r" "\<not> kr_loaned r" "outside r" "kr_rkm r = Some m"
      "kr_rkm_alive r" "kr_polled r = kr_destroyed r @ [m]" "\<not> km_err m" "kr_payload r = Some (km_payload m)"
      "good_payloads (kr_polled r) = kr_delivered r @ [km_payload m]" by metis
  have "r' = (if ks_set_payload env
      then r\<lparr>kr_read_sem := False, kr_loaned := True, kr_delivered := kr_delivered r @ [km_payload m]\<rparr>
      else r\<lparr>kr_read_sem := False\<rparr>)"
    using assms(2) True s m by (simp add: RTI_RS_KafkaStreamReader_read_def Let_def split: if_splits)
  with m show ?thesis by (auto simp: kafka_inv_def kafka_defs)
next
  case False
  with assms show ?thesis by (simp add: RTI_RS_KafkaStreamReader_read_def)
qed

lemma return_loan_inv:
  assumes "kafka_inv r" "kr_loaned r" "RTI_RS_KafkaStreamReader_return_loan env r = Next r'"
  shows "kafka_inv r'"
proof -
  from kafka_inv_loaned [OF assms(1,2)] obtain m where m: "\<not> kr_poll_sem r" "\<not> kr_read_sem r" "outside r" "kr_rkm r = Some m"
      "kr_rkm_alive r" "kr_polled r = kr_destroyed r @ [m]" "good_payloads (kr_polled r) = kr_delivered r" by metis
  have "r' = (if ks_give env
      then r\<lparr>kr_rkm_alive := False, kr_destroyed := kr_destroyed r @ [m], kr_loaned := False, kr_poll_sem := True\<rparr>
      else r\<lparr>kr_rkm_alive := False, kr_destroyed := kr_destroyed r @ [m], kr_loaned := False\<rparr>)"
    using assms(3) m by (simp add: RTI_RS_KafkaStreamReader_return_loan_def destroy_message_def Let_def split: if_splits)
  with m show ?thesis by (auto simp: kafka_inv_def kafka_defs)
qed

lemma kafka_inv_stop [simp]: "kafka_inv (r\<lparr>kr_run_thread := b\<rparr>) = kafka_inv r"
proof -
  let ?s = "r\<lparr>kr_run_thread := b\<rparr>"
  have f: "kr_pc ?s = kr_pc r" "kr_poll_sem ?s = kr_poll_sem r" "kr_read_sem ?s = kr_read_sem r" "kr_loaned ?s = kr_loaned r"
      "kr_rkm ?s = kr_rkm r" "kr_rkm_alive ?s = kr_rkm_alive r" "kr_payload ?s = kr_payload r" "kr_polled ?s = kr_polled r"
      "kr_destroyed ?s = kr_destroyed r" "kr_delivered ?s = kr_delivered r"
    by simp_all
  show ?thesis by (simp only: kafka_inv_def kafka_defs f)
qed

lemma kafka_run_inv: "kafka_run r r' \<Longrightarrow> kafka_inv r \<Longrightarrow> kafka_inv r'"
proof (induction rule: kafka_run.induct)
  case (stop r)
  then show ?case by simp
qed (auto intro: thread_inv read_inv return_loan_inv)

lemma kafka_runs_inv: "kafka_run\<^sup>*\<^sup>* r r' \<Longrightarrow> kafka_inv r \<Longrightarrow> kafka_inv r'"
  by (induction rule: rtranclp_induct) (auto intro: kafka_run_inv)

text \<open>No step of either side uses a message that has been destroyed, or a null pointer.\<close>

lemma kafka_inv_no_fault:
  assumes "kafka_inv r"
  shows "RTI_RS_KafkaStreamReader_on_data_availabe_thread env r \<noteq> Fault"
    and "RTI_RS_KafkaStreamReader_read env r \<noteq> Fault"
    and "kr_loaned r \<Longrightarrow> RTI_RS_KafkaStreamReader_return_loan env r \<noteq> Fault"
proof -
  show "RTI_RS_KafkaStreamReader_on_data_availabe_thread env r \<noteq> Fault"
  proof (cases "kr_pc r = At_message")
    case True
    with kafka_inv_at_messageD [OF assms] show ?thesis
      by (auto simp: RTI_RS_KafkaStreamReader_on_data_availabe_thread_def give_up_def
          RTI_RS_KafkaStreamReader_error_cleanup_def destroy_message_def split: if_splits)
  next
    case False
    then show ?thesis
      by (auto simp: RTI_RS_KafkaStreamReader_on_data_availabe_thread_def Let_def split: poll_pc.splits option.splits)
  qed
  show "RTI_RS_KafkaStreamReader_read env r \<noteq> Fault"
  proof (cases "kr_read_sem r")
    case True
    from kafka_inv_read_semD [OF assms True] show ?thesis
      by (auto simp: RTI_RS_KafkaStreamReader_read_def Let_def split: if_splits)
  qed (simp add: RTI_RS_KafkaStreamReader_read_def)
  assume "kr_loaned r"
  then show "RTI_RS_KafkaStreamReader_return_loan env r \<noteq> Fault"
    by (rule kafka_inv_loaned [OF assms]) (simp add: RTI_RS_KafkaStreamReader_return_loan_def destroy_message_def Let_def)
qed

text \<open>A new reader: the semaphore for polling is given and nothing has happened yet.\<close>

lemma create_stream_reader_some:
  assumes "RTI_RS_KafkaConnection_create_stream_reader rk env conn properties = Some (Some r)"
  shows "\<exists>h topic. kp_lookup properties ''topic'' = Some topic \<and> open_consumer rk conn properties topic = (True, h) \<and>
    r = new_kafka_reader\<lparr>kr_topic := Some topic, kr_rk := h, kr_poll_sem := True\<rparr>"
  using assms
  by (auto simp: RTI_RS_KafkaConnection_create_stream_reader_def RTI_RS_KafkaConnection_cleanup_stream_reader_def Let_def
      split: option.split_asm if_split_asm prod.split_asm)

text \<open>The settings of its consumer: the brokers, a fixed group, and then the properties of the stream.\<close>

lemma create_stream_reader_settings:
  assumes "RTI_RS_KafkaConnection_create_stream_reader rk env conn properties = Some (Some r)"
  shows "\<exists>k. rk_new rk RD_KAFKA_CONSUMER ((''bootstrap.servers'', kc_bootstrap_servers conn) # (''group.id'', ''1'') #
      filter (\<lambda>(name, _). \<not> connext_property name) (kp_properties properties)) = Some k \<and>
    (\<exists>topic. kp_lookup properties ''topic'' = Some topic \<and>
       rk_subscribe rk (rk_poll_set_consumer rk k) topic = (False, the (kr_rk r)))"
proof -
  from create_stream_reader_some [OF assms] obtain h topic where r: "kp_lookup properties ''topic'' = Some topic"
      "open_consumer rk conn properties topic = (True, h)"
      "r = new_kafka_reader\<lparr>kr_topic := Some topic, kr_rk := h, kr_poll_sem := True\<rparr>" by blast
  from r(2) obtain conf k k1 where
      c: "set_conf rk [(''bootstrap.servers'', kc_bootstrap_servers conn), (''group.id'', ''1'')] (kp_properties properties) = Some conf"
      "rk_new rk RD_KAFKA_CONSUMER conf = Some k" "rk_subscribe rk (rk_poll_set_consumer rk k) topic = (False, k1)" "h = Some k1"
    by (auto simp: open_consumer_def Let_def split: option.split_asm if_split_asm prod.split_asm)
  with set_conf_some [OF c(1)] r(1,3) show ?thesis by simp
qed

lemma create_stream_reader_inv:
  assumes "RTI_RS_KafkaConnection_create_stream_reader rk env conn properties = Some (Some r)"
  shows "kafka_inv r"
proof -
  from create_stream_reader_some [OF assms] obtain h topic where
    r: "r = new_kafka_reader\<lparr>kr_topic := Some topic, kr_rk := h, kr_poll_sem := True\<rparr>" by blast
  show ?thesis unfolding r new_kafka_reader_def by (simp add: kafka_inv_def kafka_defs)
qed

text \<open>
  Claim C23. A Kafka stream reader in every interleaving of the polling thread with the calls of Routing
  Service, whichever calls fail: no message is used after it was destroyed; the messages
  taken from Kafka are destroyed in order, each once, with at most one that is not yet; and
  what Routing Service gets are the payloads of the proper messages, in order, none twice and none
  left out, except that the last one may still be on its way.
\<close>

theorem kafka_reader_delivers:
  assumes "RTI_RS_KafkaConnection_create_stream_reader rk env conn properties = Some (Some r0)" "kafka_run\<^sup>*\<^sup>* r0 r"
  shows "RTI_RS_KafkaStreamReader_on_data_availabe_thread e r \<noteq> Fault \<and> RTI_RS_KafkaStreamReader_read e r \<noteq> Fault \<and>
    (kr_loaned r \<longrightarrow> RTI_RS_KafkaStreamReader_return_loan e r \<noteq> Fault) \<and>
    kr_polled r = kr_destroyed r @ (if kr_rkm_alive r then [the (kr_rkm r)] else []) \<and>
    (\<exists>rest. good_payloads (kr_polled r) = kr_delivered r @ rest \<and> length rest \<le> 1)"
proof -
  have i: "kafka_inv r" using kafka_runs_inv [OF assms(2) create_stream_reader_inv [OF assms(1)]] .
  have "kr_polled r = kr_destroyed r @ (if kr_rkm_alive r then [the (kr_rkm r)] else [])"
    using i unfolding kafka_inv_def by blast
  with kafka_inv_no_fault [OF i] kafka_inv_rest [OF i] show ?thesis by blast
qed


section \<open>When nothing is delivered any more\<close>

text \<open>The thread has ended or waits for a semaphore that nobody will give.\<close>

definition stalled :: "'k kafka_reader \<Rightarrow> bool" where
  "stalled r \<longleftrightarrow> \<not> kr_read_sem r \<and> \<not> kr_loaned r \<and> (kr_pc r = Returned \<or> outside r \<and> \<not> kr_poll_sem r)"

lemma stalled_run:
  assumes "kafka_run r r'" "stalled r"
  shows "stalled r' \<and> kr_delivered r' = kr_delivered r \<and> kr_polled r' = kr_polled r"
  using assms
proof (induction rule: kafka_run.induct)
  case (thread env r r')
  then consider "kr_pc r = At_test" | "kr_pc r = At_take" "\<not> kr_poll_sem r"
    by (auto simp: stalled_def outside_def RTI_RS_KafkaStreamReader_on_data_availabe_thread_def)
  then show ?case using thread
    by cases (auto simp: stalled_def outside_def RTI_RS_KafkaStreamReader_on_data_availabe_thread_def split: if_splits)
next
  case (read r env r')
  then show ?case by (auto simp: stalled_def RTI_RS_KafkaStreamReader_read_def split: if_splits)
next
  case (return_loan r env r')
  then show ?case by (simp add: stalled_def)
next
  case (stop r)
  then show ?case by (simp add: stalled_def outside_def)
qed

lemma stalled_runs:
  assumes "kafka_run\<^sup>*\<^sup>* r r'" "stalled r"
  shows "stalled r' \<and> kr_delivered r' = kr_delivered r \<and> kr_polled r' = kr_polled r"
  using assms by (induction rule: rtranclp_induct) (auto dest: stalled_run)

text \<open>
  Two errors stop a Kafka stream reader for good.  A consumer error, which Kafka reports as a
  message: the successful cleanup is taken for a failure and ends the polling thread.  And a read
  that cannot set the payload in the sample: it keeps the semaphore without giving Routing Service a
  sample to return.  In every run after either of them no message is taken from Kafka and nothing is
  delivered.
\<close>

theorem kafka_reader_stops:
  assumes "RTI_RS_KafkaConnection_create_stream_reader rk env conn properties = Some (Some r0)" "kafka_run\<^sup>*\<^sup>* r0 r"
    and "kr_pc r = At_message \<and> km_err (the (kr_rkm r)) \<and> ks_give e \<and>
           RTI_RS_KafkaStreamReader_on_data_availabe_thread e r = Next r1 \<or>
         kr_read_sem r \<and> ks_take e \<and> \<not> ks_set_payload e \<and> RTI_RS_KafkaStreamReader_read e r = Next r1"
    and "kafka_run\<^sup>*\<^sup>* r1 r2"
  shows "kr_delivered r2 = kr_delivered r \<and> kr_polled r2 = kr_polled r \<and> stalled r2"
proof -
  have i: "kafka_inv r" using kafka_runs_inv [OF assms(2) create_stream_reader_inv [OF assms(1)]] .
  have "stalled r1 \<and> kr_delivered r1 = kr_delivered r \<and> kr_polled r1 = kr_polled r"
    using assms(3)
  proof
    assume a: "kr_pc r = At_message \<and> km_err (the (kr_rkm r)) \<and> ks_give e \<and>
        RTI_RS_KafkaStreamReader_on_data_availabe_thread e r = Next r1"
    with kafka_inv_at_messageD [OF i] show ?thesis
      by (auto simp: RTI_RS_KafkaStreamReader_on_data_availabe_thread_def give_up_def
          RTI_RS_KafkaStreamReader_error_cleanup_def destroy_message_def stalled_def quiet_def)
  next
    assume a: "kr_read_sem r \<and> ks_take e \<and> \<not> ks_set_payload e \<and> RTI_RS_KafkaStreamReader_read e r = Next r1"
    with kafka_inv_read_semD [OF i] show ?thesis
      by (auto simp: RTI_RS_KafkaStreamReader_read_def Let_def stalled_def outside_def split: option.splits if_splits)
  qed
  with stalled_runs [OF assms(4)] show ?thesis by simp
qed

section \<open>Deleting a reader\<close>

lemma join_returned: "kr_pc r = Returned \<Longrightarrow> join_thread envs i r = Some r"
  by (subst join_thread.simps) simp

lemma join_next:
  assumes "kr_pc r \<noteq> Returned" "RTI_RS_KafkaStreamReader_on_data_availabe_thread (envs i) r = Next r1"
  shows "join_thread envs i r = join_thread envs (i + 1) r1"
  using assms by (subst join_thread.simps) simp

lemmas thread_defs = RTI_RS_KafkaStreamReader_on_data_availabe_thread_def

lemma join_at_test: "kr_pc r = At_test \<Longrightarrow> \<not> kr_run_thread r \<Longrightarrow> \<exists>r'. join_thread envs i r = Some r' \<and> kr_rk r' = kr_rk r"
  by (simp add: join_next [where ?r1.0 = "r\<lparr>kr_pc := Returned\<rparr>"] thread_defs join_returned)

lemma join_at_give:
  assumes "kr_pc r = At_give" "\<not> kr_run_thread r"
  shows "\<exists>r'. join_thread envs i r = Some r' \<and> kr_rk r' = kr_rk r"
proof (cases "ks_give (envs i)")
  case True
  then have "join_thread envs i r = join_thread envs (i + 1) (r\<lparr>kr_read_sem := True, kr_pc := At_test\<rparr>)"
    using assms by (intro join_next) (simp_all add: thread_defs)
  then show ?thesis using join_at_test [of "r\<lparr>kr_read_sem := True, kr_pc := At_test\<rparr>" envs "i + 1"] assms(2) by simp
next
  case False
  then have "join_thread envs i r = join_thread envs (i + 1) (r\<lparr>kr_pc := Returned\<rparr>)"
    using assms by (intro join_next) (simp_all add: thread_defs)
  then show ?thesis by (simp add: join_returned)
qed

lemma join_at_notify:
  assumes "kr_pc r = At_notify" "\<not> kr_run_thread r"
  shows "\<exists>r'. join_thread envs i r = Some r' \<and> kr_rk r' = kr_rk r"
proof -
  let ?r = "r\<lparr>kr_notified := kr_notified r + 1, kr_pc := At_give\<rparr>"
  have "join_thread envs i r = join_thread envs (i + 1) ?r" using assms by (intro join_next) (simp_all add: thread_defs)
  then show ?thesis using join_at_give [of ?r envs "i + 1"] assms(2) by simp
qed


lemma join_at_message:
  assumes "kr_pc r = At_message" "\<not> kr_run_thread r" "kr_rkm_alive r" "kr_rkm r = Some m"
  shows "\<exists>r'. join_thread envs i r = Some r' \<and> kr_rk r' = kr_rk r"
proof (cases "km_err m \<or> \<not> ks_initialize (envs i) \<or> \<not> ks_loan (envs i)")
  case True
  let ?r = "r\<lparr>kr_rkm_alive := False, kr_destroyed := kr_destroyed r @ [m]\<rparr>"
  let ?r1 = "if ks_give (envs i) then ?r\<lparr>kr_poll_sem := True, kr_pc := Returned\<rparr> else ?r\<lparr>kr_pc := At_test\<rparr>"
  have "join_thread envs i r = join_thread envs (i + 1) ?r1"
    using True assms by (intro join_next) (auto simp: thread_defs give_up_def RTI_RS_KafkaStreamReader_error_cleanup_def
        destroy_message_def)
  then show ?thesis using join_at_test [of "?r\<lparr>kr_pc := At_test\<rparr>" envs "i + 1"] assms(2) by (simp add: join_returned)
next
  case False
  let ?r = "r\<lparr>kr_payload := Some (km_payload m), kr_pc := At_notify\<rparr>"
  have "join_thread envs i r = join_thread envs (i + 1) ?r"
    using False assms by (intro join_next) (simp_all add: thread_defs)
  then show ?thesis using join_at_notify [of ?r envs "i + 1"] assms(2) by simp
qed

lemma join_at_poll:
  assumes "kr_pc r = At_poll" "\<not> kr_run_thread r"
  shows "\<exists>r'. join_thread envs i r = Some r' \<and> kr_rk r' = kr_rk r"
proof (cases "ks_message (envs i)")
  case None
  let ?r = "r\<lparr>kr_rkm := None, kr_rkm_alive := False\<rparr>"
  let ?r1 = "if ks_give (envs i) then ?r\<lparr>kr_poll_sem := True, kr_pc := At_test\<rparr> else ?r\<lparr>kr_pc := Returned\<rparr>"
  have "join_thread envs i r = join_thread envs (i + 1) ?r1"
    using None assms by (intro join_next) (auto simp: thread_defs Let_def)
  then show ?thesis
    using join_at_test [of "?r\<lparr>kr_poll_sem := True, kr_pc := At_test\<rparr>" envs "i + 1"] assms(2) by (simp add: join_returned)
next
  case (Some m)
  let ?r = "r\<lparr>kr_rkm := Some m, kr_rkm_alive := True, kr_polled := kr_polled r @ [m], kr_pc := At_message\<rparr>"
  have "join_thread envs i r = join_thread envs (i + 1) ?r"
    using Some assms by (intro join_next) (simp_all add: thread_defs)
  then show ?thesis using join_at_message [of ?r m envs "i + 1"] assms(2) by simp
qed

lemma join_at_take:
  assumes "kr_pc r = At_take" "\<not> kr_run_thread r" "ks_take (envs i)"
  shows "if kr_poll_sem r then \<exists>r'. join_thread envs i r = Some r' \<and> kr_rk r' = kr_rk r else join_thread envs i r = None"
proof (cases "kr_poll_sem r")
  case True
  let ?r = "r\<lparr>kr_poll_sem := False, kr_pc := At_poll\<rparr>"
  have "join_thread envs i r = join_thread envs (i + 1) ?r"
    using True assms by (intro join_next) (simp_all add: thread_defs)
  then show ?thesis using join_at_poll [of ?r envs "i + 1"] assms(2) True by simp
next
  case False
  then show ?thesis using assms by (subst join_thread.simps) (simp add: thread_defs)
qed

text \<open>
  Claim C28. Deleting a Kafka stream reader.  It returns, with the consumer closed and destroyed, from every state that
  the reader can reach, except one: when the thread waits for the semaphore for polling and it is not
  given.  This is where it is while a message is offered or on loan, and the deletion then waits for
  ever, since Routing Service no longer reads or returns samples.
\<close>

theorem kafka_delete_returns:
  assumes "RTI_RS_KafkaConnection_create_stream_reader rk env conn properties = Some (Some r0)" "kafka_run\<^sup>*\<^sup>* r0 r"
    and "\<And>i. ks_take (envs i)"
  shows "RTI_RS_KafkaConnection_delete_stream_reader rk envs r =
    (if kr_pc r = At_take \<and> \<not> kr_poll_sem r then None else Some (map_option (rk_consumer_close rk) (kr_rk r)))"
proof -
  have i: "kafka_inv r" using kafka_runs_inv [OF assms(2) create_stream_reader_inv [OF assms(1)]] .
  let ?r = "r\<lparr>kr_run_thread := False\<rparr>"
  have "if kr_pc r = At_take \<and> \<not> kr_poll_sem r then join_thread envs 0 ?r = None
        else \<exists>r'. join_thread envs 0 ?r = Some r' \<and> kr_rk r' = kr_rk ?r"
  proof (cases "kr_pc r")
    case At_message
    with kafka_inv_at_messageD [OF i] obtain m where "kr_rkm_alive r" "kr_rkm r = Some m" by blast
    with At_message join_at_message [of ?r m envs 0] show ?thesis by simp
  next
    case At_take
    with join_at_take [of ?r envs 0] assms(3) show ?thesis by (simp split: if_splits)
  qed (use join_at_test [of ?r envs 0] join_at_poll [of ?r envs 0] join_at_notify [of ?r envs 0] join_at_give [of ?r envs 0]
      join_returned [of ?r envs 0] in simp_all)
  then show ?thesis
    by (auto simp: RTI_RS_KafkaConnection_delete_stream_reader_def RTI_RS_KafkaConnection_cleanup_stream_reader_def
        split: if_splits)
qed

end
