(* ===== verification/KafkaWitnesses.thy ===== *)
theory KafkaWitnesses
  imports KafkaReader
begin

text \<open>
  The theorems on the Kafka adapter at concrete inputs.  The producer is a queue with room for one
  message, which is sent by the next poll, and refuses messages of more than two octets; its handle is
  the number of messages in the queue with the record of all messages.
\<close>

type_synonym example_handle = "nat \<times> (string \<times> octet list) list"

definition example_rk :: "example_handle rdkafka" where
  "example_rk =
     \<lparr>rk_conf_set = (\<lambda>conf name val. True),
      rk_new = (\<lambda>kind conf. Some (0, [])),
      rk_producev = (\<lambda>k topic b. if length b > 2 then (RD_KAFKA_RESP_ERR_OTHER 10, k) else if fst k > 0 then (RD_KAFKA_RESP_ERR_QUEUE_FULL, k)
        else (RD_KAFKA_RESP_ERR_NO_ERROR, (1, snd k @ [(topic, b)]))),
      rk_poll = (\<lambda>k n. if n = 0 then k else (0, snd k)),
      rk_flush = (\<lambda>k n. (0, snd k)), rk_outq_len = fst, rk_poll_set_consumer = (\<lambda>k. k),
      rk_subscribe = (\<lambda>k topic. (False, k)), rk_consumer_close = (\<lambda>k. k)\<rparr>"

definition example_samples :: "octet list option kafka_samples" where
  "example_samples =
     \<lparr>kd_get_octet_seq = (\<lambda>d mem. case d of None \<Rightarrow> None | Some p \<Rightarrow> Some (p @ drop (length p) mem)),
      kd_contiguous = (\<lambda>_. True)\<rparr>"

lemma example_log: "producer_log example_rk snd"
  by (simp add: producer_log_def example_rk_def)

lemma example_settles:
  "settles example_rk topic b k (if length b > 2 then RD_KAFKA_RESP_ERR_OTHER 10 else RD_KAFKA_RESP_ERR_NO_ERROR)
     (if length b > 2 then k else (1, snd k @ [(topic, b)]))"
proof (cases "length b > 2 \<or> fst k = 0")
  case True
  then show ?thesis by (intro settles.settled) (auto simp: example_rk_def)
next
  case False
  then have "settles example_rk topic b (rk_poll example_rk k 10) RD_KAFKA_RESP_ERR_NO_ERROR (1, snd k @ [(topic, b)])"
    by (intro settles.settled) (auto simp: example_rk_def)
  moreover have "rk_producev example_rk k topic b = (RD_KAFKA_RESP_ERR_QUEUE_FULL, k)"
    using False by (simp add: example_rk_def)
  ultimately have "settles example_rk topic b k RD_KAFKA_RESP_ERR_NO_ERROR (1, snd k @ [(topic, b)])"
    by (rule settles.full [rotated])
  with False show ?thesis by simp
qed

lemma example_drains: "producer_drains example_rk"
  unfolding producer_drains_def using example_settles by blast

lemma settles_unique:
  assumes "settles rk topic b k e k1" "settles rk topic b k e' k1'"
  shows "e' = e \<and> k1' = k1"
  using assms
proof (induction rule: settles.induct)
  case (settled k e k1)
  from settled(3) show ?case by cases (use settled in simp_all)
next
  case (full k k1 e k2)
  from full(4) show ?case by cases (use full in simp_all)
qed

text \<open>Four samples: a payload, none, one that is too large, and one with a zero inside.\<close>

theorem kafka_write_sends_witness:
  "\<exists>k'. RTI_RS_KafkaStreamWriter_write example_rk example_samples \<lparr>kw_rk = Some (0, []), kw_topic = Some ''t''\<rparr>
       [Some [104, 105, 0], None, Some [1, 2, 3, 0], Some [106, 0, 107]] =
     Some (4, \<lparr>kw_rk = Some k', kw_topic = Some ''t''\<rparr>) \<and>
     snd k' = [(''t'', [104, 105]), (''t'', [106])]"
proof -
  let ?ps = "[Some [104, 105, 0], None, Some [1, 2, 3, 0], Some [106, 0, 107]] :: octet list option list"
  have "list_all2 (sample_payload example_samples) ?ps ?ps"
    by (simp add: sample_payload_def example_samples_def)
  from kafka_write_sends [OF example_log example_drains this,
      of "\<lparr>kw_rk = Some (0, []), kw_topic = Some ''t''\<rparr>" "(0, [])" "''t''"]
  obtain k' out where w: "RTI_RS_KafkaStreamWriter_write example_rk example_samples \<lparr>kw_rk = Some (0, []), kw_topic = Some ''t''\<rparr>
       ?ps = Some (4, \<lparr>kw_rk = Some k', kw_topic = Some ''t''\<rparr>)"
    and p: "produces example_rk ''t'' (0, []) [[104, 105], [1, 2, 3], [106]] out k'" "snd k' = out"
    by (auto simp: map_filter_simps cut_payload_def)
  have "out = filter (\<lambda>(t, b). length b \<le> 2) (map (\<lambda>b. (''t'', b)) bs)"
    if "produces example_rk ''t'' k bs out k'" for k bs out k'
    using that
    by (induction rule: produces.induct) (auto dest: settles_unique [OF example_settles] split: if_splits)
  from this [OF p(1)] w p(2) show ?thesis by auto
qed

section \<open>A reader\<close>

definition example_create :: kafka_create where
  "example_create =
     \<lparr>kn_reader = True, kn_sample_list = True, kn_info_list = True, kn_info = True, kn_payload = True,
      kn_semaphore = (\<lambda>_. True), kn_thread = True\<rparr>"

definition example_properties :: kafka_properties where
  "example_properties = \<lparr>kp_properties = [(''topic'', ''t'')], kp_lookup = [''topic'' \<mapsto> ''t'']\<rparr>"

definition example_reader0 :: "example_handle kafka_reader" where
  "example_reader0 = new_kafka_reader\<lparr>kr_topic := Some ''t'', kr_rk := Some (0, []), kr_poll_sem := True\<rparr>"

lemma example_created:
  "RTI_RS_KafkaConnection_create_stream_reader example_rk example_create \<lparr>kc_bootstrap_servers = ''localhost''\<rparr>
     example_properties = Some (Some example_reader0)"
  by (simp add: RTI_RS_KafkaConnection_create_stream_reader_def open_consumer_def example_create_def example_properties_def
      example_rk_def example_reader0_def connext_property_def Let_def)

definition example_step :: "bool \<Rightarrow> kafka_step" where
  "example_step err =
     \<lparr>ks_take = True, ks_message = Some \<lparr>km_err = err, km_payload = [1, 2]\<rparr>, ks_initialize = True, ks_loan = True,
      ks_give = True, ks_set_payload = True\<rparr>"

text \<open>A step of the thread, or none when it is blocked.\<close>

definition thread_next :: "kafka_step \<Rightarrow> 'k kafka_reader \<Rightarrow> 'k kafka_reader" where
  "thread_next e r = (case RTI_RS_KafkaStreamReader_on_data_availabe_thread e r of Next r1 \<Rightarrow> r1 | _ \<Rightarrow> r)"

lemma thread_next_run: "kafka_run\<^sup>*\<^sup>* r ((thread_next e ^^ n) r)"
proof (induction n)
  case (Suc n)
  let ?r = "(thread_next e ^^ n) r"
  have "kafka_run\<^sup>*\<^sup>* ?r (thread_next e ?r)"
    by (cases "RTI_RS_KafkaStreamReader_on_data_availabe_thread e ?r")
      (auto simp: thread_next_def intro: kafka_run.thread)
  with Suc show ?case by simp
qed simp

lemmas example_evaluate = thread_next_def RTI_RS_KafkaStreamReader_on_data_availabe_thread_def example_step_def
  example_reader0_def new_kafka_reader_def eval_nat_numeral

lemma example_offered:
  "(thread_next (example_step False) ^^ 7) example_reader0 =
     example_reader0\<lparr>kr_rkm := Some \<lparr>km_err = False, km_payload = [1, 2]\<rparr>, kr_rkm_alive := True, kr_poll_sem := False,
       kr_read_sem := True, kr_payload := Some [1, 2], kr_pc := At_take,
       kr_polled := [\<lparr>km_err = False, km_payload = [1, 2]\<rparr>], kr_notified := 1\<rparr>"
  by (simp add: example_evaluate)

lemma example_error:
  "(thread_next (example_step True) ^^ 3) example_reader0 =
     example_reader0\<lparr>kr_rkm := Some \<lparr>km_err = True, km_payload = [1, 2]\<rparr>, kr_rkm_alive := True, kr_poll_sem := False,
       kr_pc := At_message, kr_polled := [\<lparr>km_err = True, km_payload = [1, 2]\<rparr>]\<rparr>"
  by (simp add: example_evaluate)

theorem kafka_reader_delivers_witness:
  "\<exists>r :: example_handle kafka_reader. kr_delivered r = [[1, 2]] \<and> kr_loaned r \<and>
     RTI_RS_KafkaStreamReader_return_loan (example_step False) r \<noteq> Fault"
proof -
  let ?r = "(thread_next (example_step False) ^^ 7) example_reader0"
  let ?s = "?r\<lparr>kr_read_sem := False, kr_loaned := True, kr_delivered := [[1, 2]]\<rparr>"
  have "RTI_RS_KafkaStreamReader_read (example_step False) ?r = Next ?s"
    unfolding example_offered by (simp add: RTI_RS_KafkaStreamReader_read_def example_step_def example_reader0_def new_kafka_reader_def)
  moreover have "\<not> kr_loaned ?r" unfolding example_offered by (simp add: example_reader0_def new_kafka_reader_def)
  ultimately have "kafka_run\<^sup>*\<^sup>* example_reader0 ?s"
    using thread_next_run by (meson kafka_run.read rtranclp.rtrancl_into_rtrancl)
  from kafka_reader_delivers [OF example_created this, of "example_step False"] show ?thesis
    by (intro exI [of _ ?s]) simp
qed

theorem kafka_reader_stops_witness:
  "\<exists>r1 :: example_handle kafka_reader.
     RTI_RS_KafkaStreamReader_on_data_availabe_thread (example_step True) ((thread_next (example_step True) ^^ 3) example_reader0) =
       Next r1 \<and> stalled r1 \<and> kr_delivered r1 = []"
proof -
  let ?r = "(thread_next (example_step True) ^^ 3) example_reader0"
  obtain r1 where r1: "RTI_RS_KafkaStreamReader_on_data_availabe_thread (example_step True) ?r = Next r1"
    unfolding example_error
    by (simp add: RTI_RS_KafkaStreamReader_on_data_availabe_thread_def give_up_def example_step_def
        RTI_RS_KafkaStreamReader_error_cleanup_def destroy_message_def)
  have "kr_pc ?r = At_message" "km_err (the (kr_rkm ?r))" "kr_delivered ?r = []"
    unfolding example_error by (simp_all add: example_reader0_def new_kafka_reader_def)
  moreover have "ks_give (example_step True)" by (simp add: example_step_def)
  ultimately show ?thesis
    using kafka_reader_stops [OF example_created thread_next_run [where e = "example_step True" and n = 3] _ rtranclp.rtrancl_refl] r1 by metis
qed

theorem kafka_delete_returns_witness:
  "RTI_RS_KafkaConnection_delete_stream_reader example_rk (\<lambda>_. example_step False) example_reader0 = Some (Some (0, [])) \<and>
   RTI_RS_KafkaConnection_delete_stream_reader example_rk (\<lambda>_. example_step False)
     ((thread_next (example_step False) ^^ 7) example_reader0) = None"
proof -
  have t: "\<And>i :: nat. ks_take (example_step False)" by (simp add: example_step_def)
  have "kr_pc example_reader0 = At_test" "kr_rk example_reader0 = Some (0, [])"
    by (simp_all add: example_reader0_def new_kafka_reader_def)
  moreover have "kr_pc ((thread_next (example_step False) ^^ 7) example_reader0) = At_take"
      "\<not> kr_poll_sem ((thread_next (example_step False) ^^ 7) example_reader0)"
    unfolding example_offered by simp_all
  ultimately show ?thesis
    using kafka_delete_returns [OF example_created rtranclp.rtrancl_refl, of "\<lambda>_. example_step False"]
      kafka_delete_returns [OF example_created thread_next_run [where e = "example_step False" and n = 7], of "\<lambda>_. example_step False"] t
    by (simp add: example_rk_def)
qed

end
