(* ===== verification/Cxx.thy ===== *)
theory Cxx
  imports CLib
begin

text \<open>
  What the C++ parts of the gateway share: exceptions, the kinds of DDS types, and floating-point
  numbers with the conversions of \<^verbatim>\<open>common/utils/srcCxx/UtilsLongDouble.hpp\<close>.
\<close>

section \<open>Exceptions\<close>

text \<open>
  An exception carries the text of its \<^verbatim>\<open>what\<close>, where the text matters.  The outcome of a function is a
  value, an exception, or undefined behaviour (a write outside a vector).
\<close>

datatype cxx_exception =
    InvalidArgumentError string
  | RuntimeError
  | OtherException string

fun what :: "cxx_exception \<Rightarrow> string" where
  "what (InvalidArgumentError s) = s"
| "what RuntimeError = ''''"
| "what (OtherException s) = s"

datatype 'a cxx = Ret 'a | Throw cxx_exception | Undefined

fun cxx_bind :: "'a cxx \<Rightarrow> ('a \<Rightarrow> 'b cxx) \<Rightarrow> 'b cxx" where
  "cxx_bind (Ret a) f = f a"
| "cxx_bind (Throw e) f = Throw e"
| "cxx_bind Undefined f = Undefined"

text \<open>\<^verbatim>\<open>if (b) throw std::runtime_error(...)\<close>\<close>

definition throw_if :: "bool \<Rightarrow> unit cxx" where
  "throw_if b = (if b then Throw RuntimeError else Ret ())"

lemma throw_if_simps [simp]: "throw_if True = Throw RuntimeError" "throw_if False = Ret ()"
  by (simp_all add: throw_if_def)

lemma cxx_bind_Ret [simp]: "cxx_bind m f = Ret b \<longleftrightarrow> (\<exists>a. m = Ret a \<and> f a = Ret b)"
  by (cases m) auto

lemma throw_if_Ret [simp]: "throw_if b = Ret u \<longleftrightarrow> \<not> b"
  by (cases b) auto

section \<open>Kinds of types\<close>

datatype TypeKind =
    BOOLEAN_TYPE | UINT_8_TYPE | UINT_16_TYPE | UINT_32_TYPE | UINT_64_TYPE | CHAR_8_TYPE
  | INT_16_TYPE | INT_32_TYPE | INT_64_TYPE | FLOAT_32_TYPE | FLOAT_64_TYPE | FLOAT_128_TYPE
  | STRING_TYPE | ENUMERATION_TYPE | STRUCTURE_TYPE | UNION_TYPE | ARRAY_TYPE | SEQUENCE_TYPE
  | OTHER_TYPE nat

section \<open>Floating-point numbers\<close>

text \<open>
  Floating-point numbers are of an arbitrary type \<open>'r\<close>, which holds the values of \<^verbatim>\<open>float\<close>, \<^verbatim>\<open>double\<close> and
  \<^verbatim>\<open>long double\<close>.  \<open>fp_add\<close> and \<open>fp_mul\<close> are the operations on \<^verbatim>\<open>long double\<close>, \<open>f32_add\<close> and \<open>f32_mul\<close> those on \<^verbatim>\<open>float\<close>;
  \<open>fp_of_int\<close> and \<open>f32_of_int\<close> convert an integer, and \<open>fp_float\<close> and \<open>fp_double\<close> round to the type.  \<open>fp_trunc\<close> is the integer part,
  \<open>None\<close> when there is none.  A conversion to an integer type that cannot represent the integer part
  is undefined in C++; \<open>fp_undef\<close> is what the platform gives for the width and the signedness.
\<close>

record 'r fp =
  fp_of_int :: "int \<Rightarrow> 'r"
  f32_of_int :: "int \<Rightarrow> 'r"
  fp_float :: "'r \<Rightarrow> 'r"
  fp_double :: "'r \<Rightarrow> 'r"
  fp_add :: "'r \<Rightarrow> 'r \<Rightarrow> 'r"
  fp_mul :: "'r \<Rightarrow> 'r \<Rightarrow> 'r"
  f32_add :: "'r \<Rightarrow> 'r \<Rightarrow> 'r"
  f32_mul :: "'r \<Rightarrow> 'r \<Rightarrow> 'r"
  fp_less :: "'r \<Rightarrow> 'r \<Rightarrow> bool"
  fp_eq :: "'r \<Rightarrow> 'r \<Rightarrow> bool"
  fp_trunc :: "'r \<Rightarrow> int option"
  fp_undef :: "nat \<Rightarrow> bool \<Rightarrow> 'r \<Rightarrow> int"
  fp_double_min :: 'r
  fp_double_max :: 'r

text \<open>\<^verbatim>\<open>static_cast\<close> to an integer type of the width.\<close>

definition int_range :: "nat \<Rightarrow> bool \<Rightarrow> int \<Rightarrow> bool" where
  "int_range w sg i =
     (if sg then - (2 ^ (w - 1)) \<le> i \<and> i < 2 ^ (w - 1) else 0 \<le> i \<and> i < 2 ^ w)"

definition static_cast :: "'r fp \<Rightarrow> nat \<Rightarrow> bool \<Rightarrow> 'r \<Rightarrow> int" where
  "static_cast fp w sg v =
     (case fp_trunc fp v of
        Some i \<Rightarrow> if int_range w sg i then i else fp_undef fp w sg v
      | None \<Rightarrow> fp_undef fp w sg v)"

text \<open>\<^verbatim>\<open>safe_cast<intN_t>\<close> and \<^verbatim>\<open>safe_cast<uintN_t>\<close>; the warnings are only printed.\<close>

definition safe_cast_signed :: "'r fp \<Rightarrow> nat \<Rightarrow> 'r \<Rightarrow> int" where
  "safe_cast_signed fp w v = static_cast fp w True v"

definition safe_cast_unsigned :: "'r fp \<Rightarrow> nat \<Rightarrow> 'r \<Rightarrow> int" where
  "safe_cast_unsigned fp w v =
     (if fp_less fp v (fp_of_int fp 0) then static_cast fp w True v mod 2 ^ w else static_cast fp w False v)"

definition safe_cast_bool :: "'r fp \<Rightarrow> 'r \<Rightarrow> bool" where
  "safe_cast_bool fp v = (\<not> fp_eq fp v (fp_of_int fp 0))"

text \<open>
  What is relied on: integers up to \<open>2 ^ 53\<close> are exact in \<^verbatim>\<open>long double\<close> on every platform, those up to
  \<open>2 ^ 24\<close> in \<^verbatim>\<open>float\<close>; multiplying by one and adding to zero keep them.
\<close>

definition fp_laws :: "'r fp \<Rightarrow> bool" where
  "fp_laws fp \<longleftrightarrow>
     (\<forall>i. \<bar>i\<bar> \<le> 2 ^ 53 \<longrightarrow>
        fp_trunc fp (fp_of_int fp i) = Some i \<and>
        fp_mul fp (fp_of_int fp i) (fp_of_int fp 1) = fp_of_int fp i \<and>
        fp_add fp (fp_of_int fp 0) (fp_of_int fp i) = fp_of_int fp i) \<and>
     (\<forall>i j. \<bar>i\<bar> \<le> 2 ^ 53 \<longrightarrow> \<bar>j\<bar> \<le> 2 ^ 53 \<longrightarrow>
        (fp_less fp (fp_of_int fp i) (fp_of_int fp j) \<longleftrightarrow> i < j) \<and>
        (fp_eq fp (fp_of_int fp i) (fp_of_int fp j) \<longleftrightarrow> i = j)) \<and>
     (\<forall>i. \<bar>i\<bar> \<le> 2 ^ 24 \<longrightarrow>
        f32_of_int fp i = fp_of_int fp i \<and>
        f32_mul fp (fp_of_int fp i) (fp_of_int fp 1) = fp_of_int fp i \<and>
        f32_add fp (fp_of_int fp 0) (fp_of_int fp i) = fp_of_int fp i)"

lemma fp_lawsD:
  assumes "fp_laws fp" "\<bar>i\<bar> \<le> 2 ^ 53"
  shows "fp_trunc fp (fp_of_int fp i) = Some i"
    and "fp_add fp (fp_of_int fp 0) (fp_mul fp (fp_of_int fp i) (fp_of_int fp 1)) = fp_of_int fp i"
  using assms unfolding fp_laws_def by auto

lemma fp_lawsD_less:
  "fp_laws fp \<Longrightarrow> \<bar>i\<bar> \<le> 2 ^ 53 \<Longrightarrow> \<bar>j\<bar> \<le> 2 ^ 53 \<Longrightarrow> fp_less fp (fp_of_int fp i) (fp_of_int fp j) \<longleftrightarrow> i < j"
  unfolding fp_laws_def by blast

lemma fp_lawsD_f32:
  assumes "fp_laws fp" "\<bar>i\<bar> \<le> 2 ^ 24"
  shows "f32_add fp (fp_of_int fp 0) (f32_mul fp (f32_of_int fp i) (fp_of_int fp 1)) = fp_of_int fp i"
  using assms unfolding fp_laws_def by auto

text \<open>The casts of integers that the type can hold are exact; the unsigned ones wrap negative numbers.\<close>

lemma safe_cast_signed_exact:
  "fp_laws fp \<Longrightarrow> \<bar>i\<bar> \<le> 2 ^ 53 \<Longrightarrow> int_range w True i \<Longrightarrow> safe_cast_signed fp w (fp_of_int fp i) = i"
  by (simp add: safe_cast_signed_def static_cast_def fp_lawsD)

lemma safe_cast_unsigned_exact:
  assumes "fp_laws fp" "\<bar>i\<bar> \<le> 2 ^ 53" "int_range w True i \<or> int_range w False i"
  shows "safe_cast_unsigned fp w (fp_of_int fp i) = i mod 2 ^ w"
proof (cases "i < 0")
  case True
  then have "int_range w True i" using assms(3) by (auto simp: int_range_def)
  then show ?thesis
    using True assms(1,2) fp_lawsD_less [of fp i 0] by (simp add: safe_cast_unsigned_def static_cast_def fp_lawsD)
next
  case False
  have "(2::int) ^ (w - 1) \<le> 2 ^ w" by (rule power_increasing) auto
  then have "int_range w False i"
    using False assms(3) unfolding int_range_def if_True if_False simp_thms by linarith
  then show ?thesis
    using False assms(1,2) fp_lawsD_less [of fp i 0]
    by (simp add: safe_cast_unsigned_def static_cast_def fp_lawsD) (simp add: int_range_def)
qed

end
