(* ===== verification/Forwarding.thy ===== *)
theory Forwarding
  imports DynamicDataHelpers Cxx
begin

text \<open>
  The forwarding processor, \<^verbatim>\<open>plugins/processors/fwd/srcCxx\<close>.  Routing Service calls it when the inputs of
  a route have data; it takes the samples and writes each to an output chosen by a table, looked
  up with the name of the input or with the value of a member of the sample.

  A C++ exception is the left summand of a result; \<^verbatim>\<open>what\<close> is its text.  Every exception of the DDS
  and Routing Service interfaces derives from \<^verbatim>\<open>std::exception\<close>.  A reference to an element of a vector
  is its index.  Not read from the repository, and therefore parameters: the JSON parser (\<open>json_api\<close>),
  \<^verbatim>\<open>REDAString_fnmatch\<close> (pattern first), the access to samples (\<open>fwd_data\<close>), and the route (\<open>route\<close>), which fixes
  the outcome of every call made during one \<^verbatim>\<open>on_data_available\<close>.  The calls themselves are recorded as
  events in their order.
\<close>

section \<open>Data\<close>

record MatchingTableEntry =
  in_key :: string
  out_name :: string

type_synonym MatchingTable = "MatchingTableEntry list"

record 'j json_api =
  ja_parse :: "string \<Rightarrow> 'j option"
  ja_array :: "'j \<Rightarrow> 'j list option"
  ja_object :: "'j \<Rightarrow> bool"
  ja_index :: "'j \<Rightarrow> string \<Rightarrow> 'j option"
  ja_string :: "'j \<Rightarrow> string option"

record ByInputNameForwardingEngineConfiguration =
  fwd_table_config :: MatchingTable

record ByInputValueForwardingEngineConfiguration = ByInputNameForwardingEngineConfiguration +
  input_members_config :: MatchingTable

section \<open>Configuration\<close>

text \<open>\<open>ja_index\<close> is \<open>None\<close> where the index operator gives \<^verbatim>\<open>json_value_none\<close>, \<open>ja_string\<close> where the type is another.\<close>

definition parse_json_string :: "'j json_api \<Rightarrow> 'j \<Rightarrow> string \<Rightarrow> string \<Rightarrow> cxx_exception + string" where
  "parse_json_string js parent_obj parent_name member_name =
     (case ja_index js parent_obj member_name of
        Some member_json_value \<Rightarrow>
          (case ja_string js member_json_value of
             None \<Rightarrow> Inl (InvalidArgumentError (''value must be a string: '' @ parent_name @ ''.'' @ member_name))
           | Some s \<Rightarrow>
               if length s = 0
               then Inl (InvalidArgumentError (''value must be non-empty: '' @ parent_name @ ''.'' @ member_name))
               else Inr s)
      | None \<Rightarrow> Inr '''')"

definition required_member :: "'j json_api \<Rightarrow> 'j \<Rightarrow> string \<Rightarrow> string \<Rightarrow> cxx_exception + string" where
  "required_member js entry_json_value prop_key member_name =
     (case parse_json_string js entry_json_value prop_key member_name of
        Inl e \<Rightarrow> Inl e
      | Inr member_value \<Rightarrow>
          if length member_value > 0 then Inr member_value
          else Inl (InvalidArgumentError (''a table entry is missing a required member: property='' @ prop_key @
                 '', member='' @ member_name)))"

text \<open>The loop over the elements of the array, which appends to the table.\<close>

fun parse_entries ::
    "'j json_api \<Rightarrow> string \<Rightarrow> string \<Rightarrow> string \<Rightarrow> string \<Rightarrow> 'j list \<Rightarrow> MatchingTable \<Rightarrow> cxx_exception + MatchingTable" where
  "parse_entries js json_str prop_key member_in_key member_out_name [] table = Inr table"
| "parse_entries js json_str prop_key member_in_key member_out_name (v # vs) table =
     (if \<not> ja_object js v then Inl (InvalidArgumentError (''table entries must be JSON objects: '' @ json_str))
      else
        case required_member js v prop_key member_in_key of
          Inl e \<Rightarrow> Inl e
        | Inr k \<Rightarrow>
            case required_member js v prop_key member_out_name of
              Inl e \<Rightarrow> Inl e
            | Inr n \<Rightarrow>
                parse_entries js json_str prop_key member_in_key member_out_name vs
                  (table @ [\<lparr>in_key = k, out_name = n\<rparr>]))"

text \<open>The second component counts the parsed values that are not given to \<^verbatim>\<open>json_value_free\<close>.\<close>

definition parse_from_json ::
    "'j json_api \<Rightarrow> string \<Rightarrow> string \<Rightarrow> string \<Rightarrow> string \<Rightarrow> MatchingTable \<Rightarrow> (cxx_exception + MatchingTable) \<times> nat" where
  "parse_from_json js json_str prop_key member_in_key member_out_name table =
     (case ja_parse js json_str of
        None \<Rightarrow> (Inl (InvalidArgumentError (''failed to parse JSON: '' @ json_str)), 0)
      | Some table_json_value \<Rightarrow>
          case ja_array js table_json_value of
            None \<Rightarrow> (Inl (InvalidArgumentError (''property must contain a JSON array: '' @ prop_key)), 0)
          | Some values \<Rightarrow>
              case parse_entries js json_str prop_key member_in_key member_out_name values table of
                Inl e \<Rightarrow> (Inl e, 1)
              | Inr table1 \<Rightarrow> (Inr table1, 0))"

definition parse_matching_table ::
    "'j json_api \<Rightarrow> (string \<rightharpoonup> string) \<Rightarrow> string \<Rightarrow> string \<Rightarrow> string \<Rightarrow> MatchingTable
       \<Rightarrow> (cxx_exception + MatchingTable) \<times> nat" where
  "parse_matching_table js properties prop_key member_in_key member_out_name table =
     (case properties prop_key of
        None \<Rightarrow> (Inl (InvalidArgumentError (''required property not found: '' @ prop_key)), 0)
      | Some json_str \<Rightarrow> parse_from_json js json_str prop_key member_in_key member_out_name table)"

definition parse_config_by_name ::
    "'j json_api \<Rightarrow> (string \<rightharpoonup> string) \<Rightarrow> 'z ByInputNameForwardingEngineConfiguration_scheme
       \<Rightarrow> (cxx_exception + 'z ByInputNameForwardingEngineConfiguration_scheme) \<times> nat" where
  "parse_config_by_name js properties config =
     (case parse_matching_table js properties ''forwarding_table'' ''input'' ''output'' (fwd_table_config config) of
        (Inl e, n) \<Rightarrow> (Inl e, n)
      | (Inr t, n) \<Rightarrow> (Inr (config\<lparr>fwd_table_config := t\<rparr>), n))"

definition parse_config_by_value ::
    "'j json_api \<Rightarrow> (string \<rightharpoonup> string) \<Rightarrow> ByInputValueForwardingEngineConfiguration
       \<Rightarrow> (cxx_exception + ByInputValueForwardingEngineConfiguration) \<times> nat" where
  "parse_config_by_value js properties config =
     (case parse_matching_table js properties ''forwarding_table'' ''input'' ''output'' (fwd_table_config config) of
        (Inl e, n) \<Rightarrow> (Inl e, n)
      | (Inr t, n) \<Rightarrow>
          case parse_matching_table js properties ''input_members'' ''input'' ''member'' [] of
            (Inl e, n1) \<Rightarrow> (Inl e, n + n1)
          | (Inr members, n1) \<Rightarrow>
              (Inr (config\<lparr>fwd_table_config := t, input_members_config := members\<rparr>), n + n1))"

section \<open>Matching tables\<close>

definition InternalMatchingTableEntry_match ::
    "(string \<Rightarrow> string \<Rightarrow> bool) \<Rightarrow> MatchingTableEntry \<Rightarrow> string \<Rightarrow> bool" where
  "InternalMatchingTableEntry_match fnmatch e key = fnmatch (in_key e) key"

text \<open>The index of the entry found.\<close>

fun find_from ::
    "(string \<Rightarrow> string \<Rightarrow> bool) \<Rightarrow> string \<Rightarrow> nat \<Rightarrow> MatchingTable \<Rightarrow> cxx_exception + nat" where
  "find_from fnmatch key i [] = Inl (InvalidArgumentError (''no entry found for key: '' @ key))"
| "find_from fnmatch key i (e # es) =
     (if InternalMatchingTableEntry_match fnmatch e key then Inr i else find_from fnmatch key (i + 1) es)"

definition InternalMatchingTable_find ::
    "(string \<Rightarrow> string \<Rightarrow> bool) \<Rightarrow> MatchingTable \<Rightarrow> string \<Rightarrow> cxx_exception + nat" where
  "InternalMatchingTable_find fnmatch entries key = find_from fnmatch key 0 entries"

definition InternalMatchingTable_add ::
    "(string \<Rightarrow> string \<Rightarrow> bool) \<Rightarrow> MatchingTable \<Rightarrow> string \<Rightarrow> string \<Rightarrow> nat \<times> MatchingTable" where
  "InternalMatchingTable_add fnmatch entries key name =
     (case InternalMatchingTable_find fnmatch entries key of
        Inr i \<Rightarrow> (i, entries[i := (entries ! i)\<lparr>out_name := name\<rparr>])
      | Inl _ \<Rightarrow> (length entries, entries @ [\<lparr>in_key = key, out_name = name\<rparr>]))"

text \<open>The texts are passed as C strings, and end at their first NUL.\<close>

fun add_all :: "(string \<Rightarrow> string \<Rightarrow> bool) \<Rightarrow> MatchingTable \<Rightarrow> MatchingTable \<Rightarrow> MatchingTable" where
  "add_all fnmatch internal_table [] = internal_table"
| "add_all fnmatch internal_table (e # es) =
     add_all fnmatch
       (snd (InternalMatchingTable_add fnmatch internal_table (c_text (in_key e)) (c_text (out_name e)))) es"

definition from_matching_table :: "(string \<Rightarrow> string \<Rightarrow> bool) \<Rightarrow> MatchingTable \<Rightarrow> MatchingTable" where
  "from_matching_table fnmatch table = add_all fnmatch [] table"

section \<open>Member values\<close>

text \<open>A value of a primitive member; floating-point numbers are of an arbitrary type \<open>'r\<close>.\<close>

datatype 'r member_value =
    M_bool bool
  | M_uint8 "8 word"
  | M_uint16 "16 word"
  | M_uint32 "32 word"
  | M_uint64 "64 word"
  | M_char char
  | M_int16 "16 word"
  | M_int32 "32 word"
  | M_int64 "64 word"
  | M_float 'r
  | M_double 'r

text \<open>
  \<open>fd_value\<close> is \<^verbatim>\<open>value<T>\<close>, with the kind that selects the type, \<open>fd_string\<close> is \<^verbatim>\<open>value<std::string>\<close>.  \<open>fd_printf\<close> is \<^verbatim>\<open>snprintf\<close> for floating-point numbers and
  for a format that is not the one of the type.
\<close>

record ('r, 'd) fwd_data =
  fd_member_kind :: "string \<Rightarrow> 'd \<Rightarrow> cxx_exception + TypeKind"
  fd_member_exists :: "string \<Rightarrow> 'd \<Rightarrow> bool"
  fd_value :: "TypeKind \<Rightarrow> string \<Rightarrow> 'd \<Rightarrow> cxx_exception + 'r member_value"
  fd_string :: "string \<Rightarrow> 'd \<Rightarrow> cxx_exception + string"
  fd_printf :: "string \<Rightarrow> 'r member_value \<Rightarrow> string"

record InputMemberValue =
  imv_name :: string
  imv_info :: "TypeKind option"
  imv_string_format :: string

definition default_input_member_format :: "TypeKind \<Rightarrow> cxx_exception + string" where
  "default_input_member_format tk =
     (case tk of
        BOOLEAN_TYPE \<Rightarrow> Inr ''%d''
      | UINT_8_TYPE \<Rightarrow> Inr ''%u''
      | UINT_16_TYPE \<Rightarrow> Inr ''%u''
      | UINT_32_TYPE \<Rightarrow> Inr ''%u''
      | UINT_64_TYPE \<Rightarrow> Inr ''%lu''
      | CHAR_8_TYPE \<Rightarrow> Inr ''%c''
      | INT_16_TYPE \<Rightarrow> Inr ''%d''
      | INT_32_TYPE \<Rightarrow> Inr ''%d''
      | INT_64_TYPE \<Rightarrow> Inr ''%ld''
      | FLOAT_32_TYPE \<Rightarrow> Inr ''%f''
      | FLOAT_64_TYPE \<Rightarrow> Inr ''%f''
      | STRING_TYPE \<Rightarrow> Inr ''%s''
      | _ \<Rightarrow> Inl (InvalidArgumentError ''unsupported member type''))"

text \<open>What \<^verbatim>\<open>snprintf\<close> prints, with a 64-bit \<^verbatim>\<open>long\<close>: integers and characters with the conversion of their type.\<close>

definition printf_text :: "('r, 'd) fwd_data \<Rightarrow> string \<Rightarrow> 'r member_value \<Rightarrow> string" where
  "printf_text dd format v =
     (case v of
        M_bool b \<Rightarrow> if format = ''%d'' then (if b then ''1'' else ''0'') else fd_printf dd format v
      | M_uint8 w \<Rightarrow> if format = ''%u'' then show_nat (unat w) else fd_printf dd format v
      | M_uint16 w \<Rightarrow> if format = ''%u'' then show_nat (unat w) else fd_printf dd format v
      | M_uint32 w \<Rightarrow> if format = ''%u'' then show_nat (unat w) else fd_printf dd format v
      | M_uint64 w \<Rightarrow> if format = ''%lu'' then show_nat (unat w) else fd_printf dd format v
      | M_char c \<Rightarrow> if format = ''%c'' then [c] else fd_printf dd format v
      | M_int16 w \<Rightarrow> if format = ''%d'' then show_int (sint w) else fd_printf dd format v
      | M_int32 w \<Rightarrow> if format = ''%d'' then show_int (sint w) else fd_printf dd format v
      | M_int64 w \<Rightarrow> if format = ''%ld'' then show_int (sint w) else fd_printf dd format v
      | _ \<Rightarrow> fd_printf dd format v)"

text \<open>The first call measures the text, the second prints it into a buffer of that size.\<close>

definition print_input_field :: "('r, 'd) fwd_data \<Rightarrow> string \<Rightarrow> 'r member_value \<Rightarrow> cxx_exception + string" where
  "print_input_field dd format val =
     (let print_size = length (printf_text dd format val) in
      if print_size = 0 then Inl (InvalidArgumentError ''cannot format value'')
      else Inr (take print_size (printf_text dd format val)))"

definition format_primitive_field ::
    "('r, 'd) fwd_data \<Rightarrow> TypeKind \<Rightarrow> InputMemberValue \<Rightarrow> 'd \<Rightarrow> cxx_exception + string" where
  "format_primitive_field dd tk mapping data =
     (case fd_value dd tk (imv_name mapping) data of
        Inl e \<Rightarrow> Inl e
      | Inr v \<Rightarrow> print_input_field dd (imv_string_format mapping) v)"

definition InputMemberValue_new ::
    "('r, 'd) fwd_data \<Rightarrow> string \<Rightarrow> 'd \<Rightarrow> cxx_exception + InputMemberValue" where
  "InputMemberValue_new dd name data =
     (case fd_member_kind dd name data of
        Inl e \<Rightarrow> Inl e
      | Inr tk \<Rightarrow>
          case default_input_member_format tk of
            Inl e \<Rightarrow> Inl e
          | Inr fmt \<Rightarrow> Inr \<lparr>imv_name = name, imv_info = Some tk, imv_string_format = fmt\<rparr>)"

definition InputMemberValue_to_string ::
    "('r, 'd) fwd_data \<Rightarrow> InputMemberValue \<Rightarrow> 'd \<Rightarrow> cxx_exception + string" where
  "InputMemberValue_to_string dd mv data =
     (if \<not> fd_member_exists dd (imv_name mv) data
      then Inl (InvalidArgumentError (''input member not found in sample: '' @ imv_name mv))
      else
        case imv_info mv of
          None \<Rightarrow> Inl (InvalidArgumentError (''not type information for input member: '' @ imv_name mv))
        | Some tk \<Rightarrow>
            if tk = STRING_TYPE then fd_string dd (imv_name mv) data
            else if tk \<in> {BOOLEAN_TYPE, UINT_8_TYPE, UINT_16_TYPE, UINT_32_TYPE, UINT_64_TYPE, CHAR_8_TYPE, INT_16_TYPE,
                           INT_32_TYPE, INT_64_TYPE, FLOAT_32_TYPE, FLOAT_64_TYPE}
            then format_primitive_field dd tk mv data
            else Inl (InvalidArgumentError ''unexpected input member type''))"

section \<open>Engines\<close>

record ForwardingEngine =
  fwd_table :: MatchingTable

record ByInputValueForwardingEngine = ForwardingEngine +
  input_members_cache :: "string \<rightharpoonup> (string \<rightharpoonup> InputMemberValue)"
  input_members :: MatchingTable

definition ByInputNameForwardingEngine_new ::
    "(string \<Rightarrow> string \<Rightarrow> bool) \<Rightarrow> ByInputNameForwardingEngineConfiguration \<Rightarrow> ForwardingEngine" where
  "ByInputNameForwardingEngine_new fnmatch config =
     \<lparr>fwd_table = from_matching_table fnmatch (fwd_table_config config)\<rparr>"

definition ByInputValueForwardingEngine_new ::
    "(string \<Rightarrow> string \<Rightarrow> bool) \<Rightarrow> ByInputValueForwardingEngineConfiguration \<Rightarrow> ByInputValueForwardingEngine" where
  "ByInputValueForwardingEngine_new fnmatch config =
     \<lparr>fwd_table = from_matching_table fnmatch (fwd_table_config config),
      input_members_cache = Map.empty,
      input_members = from_matching_table fnmatch (input_members_config config)\<rparr>"

definition ByInputNameForwardingEngine_get_forwarding_key ::
    "string \<Rightarrow> 'd \<Rightarrow> ForwardingEngine \<Rightarrow> (cxx_exception + string) \<times> ForwardingEngine" where
  "ByInputNameForwardingEngine_get_forwarding_key input data engine = (Inr input, engine)"

text \<open>The map of an input is created on first use; the result is the map that is now stored.\<close>

definition get_input_map ::
    "string \<Rightarrow> ByInputValueForwardingEngine
       \<Rightarrow> (string \<rightharpoonup> InputMemberValue) \<times> ByInputValueForwardingEngine" where
  "get_input_map input engine =
     (let engine1 =
        (if input_members_cache engine input = None
         then engine\<lparr>input_members_cache := (input_members_cache engine)(input \<mapsto> Map.empty)\<rparr>
         else engine)
      in (case input_members_cache engine1 input of None \<Rightarrow> Map.empty | Some m \<Rightarrow> m, engine1))"

definition cache_input_member ::
    "(string \<Rightarrow> string \<Rightarrow> bool) \<Rightarrow> ('r, 'd) fwd_data \<Rightarrow> string \<Rightarrow> 'd \<Rightarrow> ByInputValueForwardingEngine
       \<Rightarrow> (cxx_exception + InputMemberValue) \<times> ByInputValueForwardingEngine" where
  "cache_input_member fnmatch dd input data engine =
     (case get_input_map input engine of
        (in_map, engine1) \<Rightarrow>
          case InternalMatchingTable_find fnmatch (input_members engine1) (c_text input) of
            Inl e \<Rightarrow> (Inl e, engine1)
          | Inr i \<Rightarrow>
              let member = out_name (input_members engine1 ! i) in
              case in_map member of
                Some mv \<Rightarrow> (Inr mv, engine1)
              | None \<Rightarrow>
                  case InputMemberValue_new dd member data of
                    Inl e \<Rightarrow> (Inl e, engine1)
                  | Inr mem_entry \<Rightarrow>
                      (Inr mem_entry,
                       engine1\<lparr>input_members_cache :=
                         (input_members_cache engine1)(input \<mapsto> in_map(member \<mapsto> mem_entry))\<rparr>))"

definition ByInputValueForwardingEngine_get_forwarding_key ::
    "(string \<Rightarrow> string \<Rightarrow> bool) \<Rightarrow> ('r, 'd) fwd_data \<Rightarrow> string \<Rightarrow> 'd \<Rightarrow> ByInputValueForwardingEngine
       \<Rightarrow> (cxx_exception + string) \<times> ByInputValueForwardingEngine" where
  "ByInputValueForwardingEngine_get_forwarding_key fnmatch dd input data engine =
     (case cache_input_member fnmatch dd input data engine of
        (Inl e, engine1) \<Rightarrow> (Inl e, engine1)
      | (Inr mem_value, engine1) \<Rightarrow> (InputMemberValue_to_string dd mem_value data, engine1))"

section \<open>Forwarding\<close>

text \<open>
  The inputs of a route have names.  During one call, \<open>ro_take i\<close> is the outcome of taking from the input
  with index \<open>i\<close>, a list of samples with their validity; \<open>ro_output\<close> says which outputs exist; the outcome
  of a write depends on the number of calls made before it.
\<close>

record 'd route =
  ro_inputs :: "string list"
  ro_take :: "nat \<Rightarrow> cxx_exception + (bool \<times> 'd) list"
  ro_output :: "string \<Rightarrow> cxx_exception option"
  ro_write :: "nat \<Rightarrow> cxx_exception option"

datatype 'd event =
    E_take nat
  | E_write string 'd
  | E_return_loan nat
  | E_error string

text \<open>
  \<open>get_key\<close> is the virtual method of the engine.  An exception is caught; the error is logged.  The state is
  the engine and the calls made so far.
\<close>

definition forward_data ::
    "(string \<Rightarrow> string \<Rightarrow> bool)
       \<Rightarrow> (string \<Rightarrow> 'd \<Rightarrow> 'z ForwardingEngine_scheme \<Rightarrow> (cxx_exception + string) \<times> 'z ForwardingEngine_scheme)
       \<Rightarrow> 'd route \<Rightarrow> string \<Rightarrow> 'd \<Rightarrow> 'z ForwardingEngine_scheme \<times> 'd event list
       \<Rightarrow> 'z ForwardingEngine_scheme \<times> 'd event list" where
  "forward_data fnmatch get_key route input data st =
     (case get_key input data (fst st) of
        (Inl e, engine1) \<Rightarrow> (engine1, snd st @ [E_error (what e)])
      | (Inr fwd_key, engine1) \<Rightarrow>
          case InternalMatchingTable_find fnmatch (fwd_table engine1) (c_text fwd_key) of
            Inl e \<Rightarrow> (engine1, snd st @ [E_error (what e)])
          | Inr i \<Rightarrow>
              let name = out_name (fwd_table engine1 ! i) in
              case ro_output route name of
                Some e \<Rightarrow> (engine1, snd st @ [E_error (what e)])
              | None \<Rightarrow>
                  (engine1, snd st @ [E_write name data] @
                     (case ro_write route (length (snd st)) of
                        None \<Rightarrow> []
                      | Some e \<Rightarrow> [E_error (what e)])))"

fun forward_samples ::
    "(string \<Rightarrow> string \<Rightarrow> bool)
       \<Rightarrow> (string \<Rightarrow> 'd \<Rightarrow> 'z ForwardingEngine_scheme \<Rightarrow> (cxx_exception + string) \<times> 'z ForwardingEngine_scheme)
       \<Rightarrow> 'd route \<Rightarrow> string \<Rightarrow> (bool \<times> 'd) list \<Rightarrow> 'z ForwardingEngine_scheme \<times> 'd event list
       \<Rightarrow> 'z ForwardingEngine_scheme \<times> 'd event list" where
  "forward_samples fnmatch get_key route input [] st = st"
| "forward_samples fnmatch get_key route input ((valid, data) # samples) st =
     forward_samples fnmatch get_key route input samples
       (if valid then forward_data fnmatch get_key route input data st else st)"

text \<open>The loop over the inputs; the samples on loan go back at the end of their scope.\<close>

fun forward_inputs ::
    "(string \<Rightarrow> string \<Rightarrow> bool)
       \<Rightarrow> (string \<Rightarrow> 'd \<Rightarrow> 'z ForwardingEngine_scheme \<Rightarrow> (cxx_exception + string) \<times> 'z ForwardingEngine_scheme)
       \<Rightarrow> 'd route \<Rightarrow> nat \<Rightarrow> string list \<Rightarrow> 'z ForwardingEngine_scheme \<times> 'd event list
       \<Rightarrow> 'z ForwardingEngine_scheme \<times> 'd event list" where
  "forward_inputs fnmatch get_key route i [] st = st"
| "forward_inputs fnmatch get_key route i (input # inputs) st =
     forward_inputs fnmatch get_key route (i + 1) inputs
       (case ro_take route i of
          Inl e \<Rightarrow> (fst st, snd st @ [E_take i, E_error (what e)])
        | Inr samples \<Rightarrow>
            case forward_samples fnmatch get_key route input samples (fst st, snd st @ [E_take i]) of
              (engine1, events) \<Rightarrow> (engine1, events @ [E_return_loan i]))"

definition on_data_available ::
    "(string \<Rightarrow> string \<Rightarrow> bool)
       \<Rightarrow> (string \<Rightarrow> 'd \<Rightarrow> 'z ForwardingEngine_scheme \<Rightarrow> (cxx_exception + string) \<times> 'z ForwardingEngine_scheme)
       \<Rightarrow> 'd route \<Rightarrow> 'z ForwardingEngine_scheme \<Rightarrow> 'z ForwardingEngine_scheme \<times> 'd event list" where
  "on_data_available fnmatch get_key route engine =
     forward_inputs fnmatch get_key route 0 (ro_inputs route) (engine, [])"

section \<open>Plugins\<close>

definition ByInputNameForwardingEnginePlugin_create_processor ::
    "'j json_api \<Rightarrow> (string \<Rightarrow> string \<Rightarrow> bool) \<Rightarrow> (string \<rightharpoonup> string)
       \<Rightarrow> (cxx_exception + ForwardingEngine) \<times> nat" where
  "ByInputNameForwardingEnginePlugin_create_processor js fnmatch properties =
     (case parse_config_by_name js properties \<lparr>fwd_table_config = []\<rparr> of
        (Inl e, n) \<Rightarrow> (Inl e, n)
      | (Inr config, n) \<Rightarrow> (Inr (ByInputNameForwardingEngine_new fnmatch config), n))"

definition ByInputValueForwardingEnginePlugin_create_processor ::
    "'j json_api \<Rightarrow> (string \<Rightarrow> string \<Rightarrow> bool) \<Rightarrow> (string \<rightharpoonup> string)
       \<Rightarrow> (cxx_exception + ByInputValueForwardingEngine) \<times> nat" where
  "ByInputValueForwardingEnginePlugin_create_processor js fnmatch properties =
     (case parse_config_by_value js properties \<lparr>fwd_table_config = [], input_members_config = []\<rparr> of
        (Inl e, n) \<Rightarrow> (Inl e, n)
      | (Inr config, n) \<Rightarrow> (Inr (ByInputValueForwardingEngine_new fnmatch config), n))"

section \<open>Lemmas on tables\<close>

lemma find_from_shift:
  "find_from fnmatch key i es =
     (case List.find (\<lambda>e. fnmatch (in_key e) key) es of
        None \<Rightarrow> Inl (InvalidArgumentError (''no entry found for key: '' @ key))
      | Some _ \<Rightarrow> Inr (i + length (takeWhile (\<lambda>e. \<not> fnmatch (in_key e) key) es)))"
  by (induction es arbitrary: i) (auto simp: InternalMatchingTableEntry_match_def split: option.splits)

lemma nth_takeWhile_find:
  "List.find P xs = Some x \<Longrightarrow>
     length (takeWhile (\<lambda>y. \<not> P y) xs) < length xs \<and> xs ! length (takeWhile (\<lambda>y. \<not> P y) xs) = x"
  by (induction xs) (auto split: if_splits)

text \<open>Looking a key up: the first entry whose pattern matches.\<close>

definition first_output :: "(string \<Rightarrow> string \<Rightarrow> bool) \<Rightarrow> MatchingTable \<Rightarrow> string \<Rightarrow> string option" where
  "first_output fnmatch table key = map_option out_name (List.find (\<lambda>e. fnmatch (in_key e) key) table)"

lemma find_Inr:
  assumes "InternalMatchingTable_find fnmatch table key = Inr i"
  shows "first_output fnmatch table key = Some (out_name (table ! i))" and "i < length table"
    and "fnmatch (in_key (table ! i)) key" and "\<forall>j < i. \<not> fnmatch (in_key (table ! j)) key"
proof -
  obtain e where e: "List.find (\<lambda>e. fnmatch (in_key e) key) table = Some e"
    and i: "i = length (takeWhile (\<lambda>e. \<not> fnmatch (in_key e) key) table)"
    using assms by (auto simp: InternalMatchingTable_find_def find_from_shift split: option.splits)
  have n: "i < length table" "table ! i = e"
    using nth_takeWhile_find [OF e] i by auto
  show "first_output fnmatch table key = Some (out_name (table ! i))" and "i < length table"
    using n e by (auto simp: first_output_def)
  show "fnmatch (in_key (table ! i)) key"
    using e n by (auto simp: find_Some_iff)
  show "\<forall>j < i. \<not> fnmatch (in_key (table ! j)) key"
    using i by (metis nth_mem set_takeWhileD takeWhile_nth)
qed

lemma find_Inl:
  "InternalMatchingTable_find fnmatch table key = Inl e \<Longrightarrow>
     first_output fnmatch table key = None \<and> (\<forall>x \<in> set table. \<not> fnmatch (in_key x) key)"
  by (auto simp: InternalMatchingTable_find_def find_from_shift first_output_def find_None_iff
      split: option.splits)

lemma find_Inl_iff:
  "(\<exists>e. InternalMatchingTable_find fnmatch table key = Inl e) \<longleftrightarrow> (\<forall>x \<in> set table. \<not> fnmatch (in_key x) key)"
  by (auto simp: InternalMatchingTable_find_def find_from_shift find_None_iff split: option.splits)
    (metis find_None_iff not_None_eq)

lemma add_new:
  "\<forall>x \<in> set table. \<not> fnmatch (in_key x) key \<Longrightarrow>
     snd (InternalMatchingTable_add fnmatch table key name) = table @ [\<lparr>in_key = key, out_name = name\<rparr>]"
  using find_Inl_iff [of fnmatch table key] by (auto simp: InternalMatchingTable_add_def)

lemma add_old:
  assumes "x \<in> set table" "fnmatch (in_key x) key"
  shows "length (snd (InternalMatchingTable_add fnmatch table key name)) = length table"
    and "map in_key (snd (InternalMatchingTable_add fnmatch table key name)) = map in_key table"
proof -
  obtain i where i: "InternalMatchingTable_find fnmatch table key = Inr i"
    using find_Inl assms by (metis sum.exhaust)
  show "length (snd (InternalMatchingTable_add fnmatch table key name)) = length table"
    by (simp add: InternalMatchingTable_add_def i)
  show "map in_key (snd (InternalMatchingTable_add fnmatch table key name)) = map in_key table"
    using find_Inr [OF i] by (simp add: InternalMatchingTable_add_def i map_update list_update_same_conv)
qed

abbreviation unmatched :: "(string \<Rightarrow> string \<Rightarrow> bool) \<Rightarrow> MatchingTableEntry \<Rightarrow> MatchingTableEntry \<Rightarrow> bool" where
  "unmatched fnmatch a b \<equiv> \<not> fnmatch (in_key a) (in_key b)"

abbreviation c_entry :: "MatchingTableEntry \<Rightarrow> MatchingTableEntry" where
  "c_entry e \<equiv> \<lparr>in_key = c_text (in_key e), out_name = c_text (out_name e)\<rparr>"

lemma add_length: "length (snd (InternalMatchingTable_add fnmatch table key name)) \<le> length table + 1"
  by (auto simp: InternalMatchingTable_add_def split: sum.splits)

lemma add_all_length: "length (add_all fnmatch table es) \<le> length table + length es"
proof (induction es arbitrary: table)
  case (Cons e es)
  show ?case
    using Cons.IH [of "snd (InternalMatchingTable_add fnmatch table (c_text (in_key e)) (c_text (out_name e)))"]
      add_length [of fnmatch table "c_text (in_key e)" "c_text (out_name e)"] by simp
qed simp

text \<open>No pattern of the table matches the pattern of a later entry.\<close>

lemma add_sorted:
  assumes "sorted_wrt (unmatched fnmatch) table"
  shows "sorted_wrt (unmatched fnmatch) (snd (InternalMatchingTable_add fnmatch table key name))"
proof (cases "\<forall>x \<in> set table. \<not> fnmatch (in_key x) key")
  case True
  then show ?thesis using assms by (simp add: add_new sorted_wrt_append)
next
  case False
  then obtain x where x: "x \<in> set table" "fnmatch (in_key x) key" by blast
  have "sorted_wrt (\<lambda>a b. \<not> fnmatch a b) (map in_key table)"
    using assms by (simp add: sorted_wrt_map)
  then have "sorted_wrt (\<lambda>a b. \<not> fnmatch a b) (map in_key (snd (InternalMatchingTable_add fnmatch table key name)))"
    using add_old(2) [of x table fnmatch key name] x by simp
  then show ?thesis by (simp add: sorted_wrt_map)
qed

lemma add_all_sorted:
  "sorted_wrt (unmatched fnmatch) table \<Longrightarrow> sorted_wrt (unmatched fnmatch) (add_all fnmatch table es)"
  by (induction es arbitrary: table) (auto intro: add_sorted)

lemma add_all_new:
  "sorted_wrt (unmatched fnmatch) (table @ map c_entry es) \<Longrightarrow> add_all fnmatch table es = table @ map c_entry es"
proof (induction es arbitrary: table)
  case (Cons e es)
  have "\<forall>x \<in> set table. \<not> fnmatch (in_key x) (c_text (in_key e))"
    using Cons.prems by (auto simp: sorted_wrt_append)
  then show ?case
    using Cons.IH [of "table @ [c_entry e]"] Cons.prems by (simp add: add_new)
qed simp


text \<open>An entry that an earlier pattern matches makes the table shorter than the configuration.\<close>

lemma add_all_short:
  assumes "x \<in> set table" "e \<in> set es" "fnmatch (in_key x) (c_text (in_key e))"
  shows "length (add_all fnmatch table es) < length table + length es"
  using assms
proof (induction es arbitrary: table x)
  case (Cons a es)
  let ?t = "snd (InternalMatchingTable_add fnmatch table (c_text (in_key a)) (c_text (out_name a)))"
  show ?case
  proof (cases "\<exists>y \<in> set table. fnmatch (in_key y) (c_text (in_key a))")
    case True
    then have "length ?t = length table" using add_old(1) by blast
    then show ?thesis using add_all_length [of fnmatch ?t es] by simp
  next
    case False
    then have t: "?t = table @ [c_entry a]" by (simp add: add_new)
    have "e \<in> set es" using Cons.prems False by auto
    then have "length (add_all fnmatch ?t es) < length ?t + length es"
      using Cons.IH [of x ?t] Cons.prems t by auto
    then show ?thesis using t by simp
  qed
qed simp

lemma add_all_sorted_new:
  assumes "add_all fnmatch table es = table @ map c_entry es" "sorted_wrt (unmatched fnmatch) table"
  shows "sorted_wrt (unmatched fnmatch) (table @ map c_entry es)"
  using add_all_sorted [OF assms(2), of es] assms(1) by simp

lemma add_all_append: "add_all fnmatch table (es @ es') = add_all fnmatch (add_all fnmatch table es) es'"
  by (induction es arbitrary: table) auto

lemma add_all_unsorted:
  assumes "\<not> sorted_wrt (unmatched fnmatch) (map c_entry t)"
  shows "length (add_all fnmatch [] t) < length t"
  using assms
proof (induction t rule: rev_induct)
  case (snoc e t)
  show ?case
  proof (cases "sorted_wrt (unmatched fnmatch) (map c_entry t)")
    case True
    then have "\<exists>x \<in> set (map c_entry t). fnmatch (in_key x) (c_text (in_key e))"
      using snoc.prems by (auto simp: sorted_wrt_append)
    then obtain x where x: "x \<in> set (map c_entry t)" "fnmatch (in_key x) (c_text (in_key e))" by blast
    have "add_all fnmatch [] t = map c_entry t"
      using add_all_new [of fnmatch "[]" t] True by simp
    then show ?thesis
      using add_all_short [of x "map c_entry t" e "[e]" fnmatch] x by (simp only: add_all_append) simp
  next
    case False
    then show ?thesis
      using snoc.IH add_all_length [of fnmatch "add_all fnmatch [] t" "[e]"]
      by (simp only: add_all_append) simp
  qed
qed simp

text \<open>A first pattern that matches all others takes their outputs one after the other.\<close>

lemma add_all_swallow:
  "\<forall>e \<in> set es. fnmatch k (c_text (in_key e)) \<Longrightarrow>
     add_all fnmatch [\<lparr>in_key = k, out_name = n\<rparr>] es = [\<lparr>in_key = k, out_name = last (n # map (c_text \<circ> out_name) es)\<rparr>]"
  by (induction es arbitrary: n)
    (auto simp: InternalMatchingTable_add_def InternalMatchingTable_find_def InternalMatchingTableEntry_match_def)

section \<open>The abstract router\<close>

text \<open>
  The specification has no state: every sample with valid data whose key is defined goes to the
  output of the first entry that matches the key, if the route has it; samples are taken from one
  input after the other and go back when they are done.
\<close>

definition destination ::
    "(string \<Rightarrow> string \<Rightarrow> bool) \<Rightarrow> MatchingTable \<Rightarrow> (string \<Rightarrow> 'd \<Rightarrow> string option) \<Rightarrow> 'd route \<Rightarrow> string \<Rightarrow> 'd
       \<Rightarrow> string option" where
  "destination fnmatch table key route input data =
     (case key input data of
        None \<Rightarrow> None
      | Some k \<Rightarrow>
          case first_output fnmatch table (c_text k) of
            None \<Rightarrow> None
          | Some name \<Rightarrow> if ro_output route name = None then Some name else None)"

definition forwarded ::
    "(string \<Rightarrow> string \<Rightarrow> bool) \<Rightarrow> MatchingTable \<Rightarrow> (string \<Rightarrow> 'd \<Rightarrow> string option) \<Rightarrow> 'd route \<Rightarrow> string
       \<Rightarrow> (bool \<times> 'd) list \<Rightarrow> 'd event list" where
  "forwarded fnmatch table key route input samples =
     concat (map (\<lambda>(valid, data).
       case destination fnmatch table key route input data of
         Some name \<Rightarrow> if valid then [E_write name data] else []
       | None \<Rightarrow> []) samples)"

definition input_spec ::
    "(string \<Rightarrow> string \<Rightarrow> bool) \<Rightarrow> MatchingTable \<Rightarrow> (string \<Rightarrow> 'd \<Rightarrow> string option) \<Rightarrow> 'd route \<Rightarrow> nat \<times> string
       \<Rightarrow> 'd event list" where
  "input_spec fnmatch table key route x =
     E_take (fst x) #
     (case ro_take route (fst x) of
        Inl _ \<Rightarrow> []
      | Inr samples \<Rightarrow> forwarded fnmatch table key route (snd x) samples @ [E_return_loan (fst x)])"

definition route_spec ::
    "(string \<Rightarrow> string \<Rightarrow> bool) \<Rightarrow> MatchingTable \<Rightarrow> (string \<Rightarrow> 'd \<Rightarrow> string option) \<Rightarrow> 'd route \<Rightarrow> 'd event list" where
  "route_spec fnmatch table key route =
     concat (map (input_spec fnmatch table key route) (enumerate 0 (ro_inputs route)))"

text \<open>The calls among the events; what is left are errors that are logged.\<close>

fun is_call :: "'d event \<Rightarrow> bool" where
  "is_call (E_error _) = False"
| "is_call _ = True"

text \<open>The samples with valid data that a call takes from an input.\<close>

definition taken :: "'d route \<Rightarrow> (string \<times> 'd) set" where
  "taken route =
     {(input, data). \<exists>i samples. (i, input) \<in> set (enumerate 0 (ro_inputs route)) \<and>
        ro_take route i = Inr samples \<and> (True, data) \<in> set samples}"

text \<open>A history of calls, each with its own route.\<close>

fun on_data_history ::
    "(string \<Rightarrow> string \<Rightarrow> bool)
       \<Rightarrow> (string \<Rightarrow> 'd \<Rightarrow> 'z ForwardingEngine_scheme \<Rightarrow> (cxx_exception + string) \<times> 'z ForwardingEngine_scheme)
       \<Rightarrow> 'd route list \<Rightarrow> 'z ForwardingEngine_scheme \<Rightarrow> 'd event list list" where
  "on_data_history fnmatch get_key [] engine = []"
| "on_data_history fnmatch get_key (route # routes) engine =
     (case on_data_available fnmatch get_key route engine of
        (engine1, events) \<Rightarrow> events # on_data_history fnmatch get_key routes engine1)"

text \<open>
  The contract of the virtual method \<^verbatim>\<open>get_forwarding_key\<close>: as long as the samples are admissible it
  returns a key that depends on the sample only, and keeps the table and its own invariant.
\<close>

locale forwarding_key =
  fixes get_key :: "string \<Rightarrow> 'd \<Rightarrow> 'z ForwardingEngine_scheme \<Rightarrow> (cxx_exception + string) \<times> 'z ForwardingEngine_scheme"
    and inv :: "'z ForwardingEngine_scheme \<Rightarrow> bool"
    and key :: "string \<Rightarrow> 'd \<Rightarrow> string option"
    and admissible :: "string \<Rightarrow> 'd \<Rightarrow> bool"
    and table :: MatchingTable
  assumes key_error: "inv e \<Longrightarrow> admissible i d \<Longrightarrow> get_key i d e = (Inl x, e') \<Longrightarrow> key i d = None"
    and key_value: "inv e \<Longrightarrow> admissible i d \<Longrightarrow> get_key i d e = (Inr k, e') \<Longrightarrow> key i d = Some k"
    and key_inv: "inv e \<Longrightarrow> admissible i d \<Longrightarrow> get_key i d e = (r, e') \<Longrightarrow> inv e'"
    and inv_table: "inv e \<Longrightarrow> fwd_table e = table"
begin

lemma forward_data_spec:
  assumes "inv (fst st)" "admissible input d" "forward_data fnmatch get_key route input d st = st'"
  shows "inv (fst st')"
    and "filter is_call (snd st') =
           filter is_call (snd st) @ (case destination fnmatch table key route input d of Some n \<Rightarrow> [E_write n d] | None \<Rightarrow> [])"
proof -
  obtain r e1 where g: "get_key input d (fst st) = (r, e1)" by fastforce
  have i: "inv e1" and t: "fwd_table e1 = table"
    using key_inv [OF assms(1,2) g] inv_table by auto
  show "inv (fst st')"
    using assms(3) g i by (auto simp: forward_data_def Let_def split: sum.splits option.splits)
  show "filter is_call (snd st') =
          filter is_call (snd st) @ (case destination fnmatch table key route input d of Some n \<Rightarrow> [E_write n d] | None \<Rightarrow> [])"
  proof (cases r)
    case (Inl x)
    then show ?thesis
      using assms(3) g key_error [OF assms(1,2)] by (auto simp: forward_data_def destination_def)
  next
    case (Inr k)
    then have k: "key input d = Some k" using key_value [OF assms(1,2)] g by blast
    show ?thesis
    proof (cases "InternalMatchingTable_find fnmatch table (c_text k)")
      case (Inl x)
      then show ?thesis
        using assms(3) g Inr k t find_Inl [OF Inl] by (auto simp: forward_data_def destination_def)
    next
      case (Inr j)
      then show ?thesis
        using assms(3) g \<open>r = Inr k\<close> k t find_Inr(1) [OF Inr]
        by (auto simp: forward_data_def destination_def Let_def split: option.splits)
    qed
  qed
qed

lemma forward_samples_spec:
  assumes "inv (fst st)" "\<forall>d. (True, d) \<in> set samples \<longrightarrow> admissible input d"
  shows "inv (fst (forward_samples fnmatch get_key route input samples st)) \<and>
         filter is_call (snd (forward_samples fnmatch get_key route input samples st)) =
           filter is_call (snd st) @ forwarded fnmatch table key route input samples"
  using assms
proof (induction samples arbitrary: st)
  case (Cons s samples)
  obtain valid d where s: "s = (valid, d)" by fastforce
  show ?case
  proof (cases valid)
    case True
    have a: "admissible input d" using Cons.prems s True by simp
    show ?thesis
      using Cons.IH [of "forward_data fnmatch get_key route input d st"] Cons.prems s True
        forward_data_spec [OF Cons.prems(1) a refl, of fnmatch route]
      by (auto simp: forwarded_def split: option.splits)
  next
    case False
    then show ?thesis
      using Cons.IH [of st] Cons.prems s by (auto simp: forwarded_def split: option.splits)
  qed
qed (simp add: forwarded_def)

lemma forward_inputs_spec:
  assumes "inv (fst st)"
    and "\<forall>j input samples. (j, input) \<in> set (enumerate i inputs) \<longrightarrow> ro_take route j = Inr samples \<longrightarrow>
           (\<forall>d. (True, d) \<in> set samples \<longrightarrow> admissible input d)"
  shows "inv (fst (forward_inputs fnmatch get_key route i inputs st)) \<and>
         filter is_call (snd (forward_inputs fnmatch get_key route i inputs st)) =
           filter is_call (snd st) @ concat (map (input_spec fnmatch table key route) (enumerate i inputs))"
  using assms
proof (induction inputs arbitrary: i st)
  case (Cons input inputs)
  show ?case
  proof (cases "ro_take route i")
    case (Inl e)
    then show ?thesis
      using Cons.IH [of "(fst st, snd st @ [E_take i, E_error (what e)])" "i + 1"] Cons.prems
      by (simp add: input_spec_def)
  next
    case (Inr samples)
    let ?s = "forward_samples fnmatch get_key route input samples (fst st, snd st @ [E_take i])"
    have "inv (fst ?s)" and "filter is_call (snd ?s) =
        filter is_call (snd st) @ [E_take i] @ forwarded fnmatch table key route input samples"
      using forward_samples_spec [of "(fst st, snd st @ [E_take i])" samples input fnmatch route] Cons.prems Inr
      by auto
    then show ?thesis
      using Cons.IH [of "(fst ?s, snd ?s @ [E_return_loan i])" "i + 1"] Cons.prems Inr
      by (simp add: input_spec_def case_prod_unfold)
  qed
qed simp

lemma on_data_available_spec:
  assumes "inv e" "\<forall>(input, d) \<in> taken route. admissible input d"
  shows "inv (fst (on_data_available fnmatch get_key route e)) \<and>
         filter is_call (snd (on_data_available fnmatch get_key route e)) = route_spec fnmatch table key route"
  using forward_inputs_spec [of "(e, [])" 0 "ro_inputs route" route fnmatch] assms
  by (auto simp: on_data_available_def route_spec_def taken_def)

lemma on_data_history_spec:
  assumes "inv e" "\<forall>route \<in> set routes. \<forall>(input, d) \<in> taken route. admissible input d"
  shows "map (filter is_call) (on_data_history fnmatch get_key routes e) = map (route_spec fnmatch table key) routes"
  using assms
proof (induction routes arbitrary: e)
  case (Cons route routes)
  show ?case
    using on_data_available_spec [of e route fnmatch] Cons
    by (simp add: case_prod_unfold)
qed simp

end

section \<open>The two engines\<close>

interpretation by_name: forwarding_key
  ByInputNameForwardingEngine_get_forwarding_key "\<lambda>e. e = engine" "\<lambda>input d. Some input" "\<lambda>input d. True" "fwd_table engine"
  for engine :: ForwardingEngine
  by unfold_locales (auto simp: ByInputNameForwardingEngine_get_forwarding_key_def)

text \<open>
  The key of a sample computed without a cache: the member chosen for the input, with the kind it
  has in this sample.
\<close>

definition value_key ::
    "(string \<Rightarrow> string \<Rightarrow> bool) \<Rightarrow> ('r, 'd) fwd_data \<Rightarrow> MatchingTable \<Rightarrow> string \<Rightarrow> 'd \<Rightarrow> string option" where
  "value_key fnmatch dd members input data =
     (case first_output fnmatch members (c_text input) of
        None \<Rightarrow> None
      | Some member \<Rightarrow>
          case InputMemberValue_new dd member data of
            Inl _ \<Rightarrow> None
          | Inr mv \<Rightarrow> (case InputMemberValue_to_string dd mv data of Inl _ \<Rightarrow> None | Inr k \<Rightarrow> Some k))"

text \<open>What the cache holds is what would be computed for a sample of the input now.\<close>

definition cache_ok ::
    "(string \<Rightarrow> string \<Rightarrow> cxx_exception + TypeKind) \<Rightarrow> (string \<rightharpoonup> (string \<rightharpoonup> InputMemberValue)) \<Rightarrow> bool" where
  "cache_ok kinds cache \<longleftrightarrow>
     (\<forall>input in_map member mv. cache input = Some in_map \<longrightarrow> in_map member = Some mv \<longrightarrow>
        (\<exists>tk fmt. kinds input member = Inr tk \<and> default_input_member_format tk = Inr fmt \<and>
           mv = \<lparr>imv_name = member, imv_info = Some tk, imv_string_format = fmt\<rparr>))"

lemma cache_ok_empty [simp]: "cache_ok kinds Map.empty"
  by (simp add: cache_ok_def)

lemma cache_ok_upd:
  "cache_ok kinds cache \<Longrightarrow>
     (\<forall>member mv. m member = Some mv \<longrightarrow>
        (\<exists>tk fmt. kinds input member = Inr tk \<and> default_input_member_format tk = Inr fmt \<and>
           mv = \<lparr>imv_name = member, imv_info = Some tk, imv_string_format = fmt\<rparr>)) \<Longrightarrow>
     cache_ok kinds (cache(input \<mapsto> m))"
  by (auto simp: cache_ok_def)

lemma get_input_map_keeps:
  assumes "get_input_map input engine = (m, engine1)" "cache_ok kinds (input_members_cache engine)"
  shows "cache_ok kinds (input_members_cache engine1)" and "input_members_cache engine1 input = Some m"
    and "fwd_table engine1 = fwd_table engine" and "input_members engine1 = input_members engine"
  using assms by (auto simp: get_input_map_def Let_def split: if_splits intro!: cache_ok_upd)

text \<open>The member returned is the one the constructor makes from the sample, cached or not.\<close>

lemma cache_input_member_spec:
  assumes "cache_input_member fnmatch dd input data engine = (r, engine1)" "cache_ok kinds (input_members_cache engine)"
    and "\<forall>member. fd_member_kind dd member data = kinds input member"
  shows "cache_ok kinds (input_members_cache engine1) \<and> fwd_table engine1 = fwd_table engine \<and>
         input_members engine1 = input_members engine \<and>
         (case first_output fnmatch (input_members engine) (c_text input) of
            None \<Rightarrow> isl r
          | Some member \<Rightarrow> r = InputMemberValue_new dd member data)"
proof -
  obtain m e1 where g: "get_input_map input engine = (m, e1)" by fastforce
  note keeps = get_input_map_keeps [OF g assms(2)]
  show ?thesis
  proof (cases "InternalMatchingTable_find fnmatch (input_members e1) (c_text input)")
    case (Inl e)
    then show ?thesis
      using assms(1) g keeps find_Inl [OF Inl] by (auto simp: cache_input_member_def)
  next
    case (Inr i)
    let ?member = "out_name (input_members e1 ! i)"
    have f: "first_output fnmatch (input_members engine) (c_text input) = Some ?member"
      using find_Inr(1) [OF Inr] keeps by simp
    show ?thesis
    proof (cases "m ?member")
      case (Some mv)
      then have "InputMemberValue_new dd ?member data = Inr mv"
        using keeps(1,2) assms(3) unfolding cache_ok_def InputMemberValue_new_def by fastforce
      then show ?thesis
        using assms(1) Some g Inr keeps f by (auto simp: cache_input_member_def Let_def)
    next
      case None
      then show ?thesis
        using assms(1,3) g Inr keeps f
        by (auto simp: cache_input_member_def Let_def InputMemberValue_new_def split: sum.splits
            intro!: cache_ok_upd) (auto simp: cache_ok_def split: if_splits)
    qed
  qed
qed

interpretation by_value: forwarding_key
  "ByInputValueForwardingEngine_get_forwarding_key fnmatch dd"
  "\<lambda>e. cache_ok kinds (input_members_cache e) \<and> fwd_table e = table \<and> input_members e = members"
  "value_key fnmatch dd members"
  "\<lambda>input d. \<forall>member. fd_member_kind dd member d = kinds input member"
  table
  for fnmatch :: "string \<Rightarrow> string \<Rightarrow> bool" and dd :: "('r, 'd) fwd_data" and kinds table members
proof unfold_locales
  fix e e' :: ByInputValueForwardingEngine and i d x k and r :: "cxx_exception + string"
  assume inv: "cache_ok kinds (input_members_cache e) \<and> fwd_table e = table \<and> input_members e = members"
    and adm: "\<forall>member. fd_member_kind dd member d = kinds i member"
  obtain c e1 where c: "cache_input_member fnmatch dd i d e = (c, e1)" by fastforce
  note spec = cache_input_member_spec [of fnmatch dd i d e c e1 kinds, OF c _ adm] and defs = ByInputValueForwardingEngine_get_forwarding_key_def value_key_def
  show "ByInputValueForwardingEngine_get_forwarding_key fnmatch dd i d e = (Inl x, e') \<Longrightarrow>
      value_key fnmatch dd members i d = None"
    using inv c spec by (auto simp: defs split: sum.splits option.splits)
  show "ByInputValueForwardingEngine_get_forwarding_key fnmatch dd i d e = (Inr k, e') \<Longrightarrow>
      value_key fnmatch dd members i d = Some k"
    using inv c spec by (auto simp: defs split: sum.splits option.splits)
  show "ByInputValueForwardingEngine_get_forwarding_key fnmatch dd i d e = (r, e') \<Longrightarrow>
      cache_ok kinds (input_members_cache e') \<and> fwd_table e' = table \<and> input_members e' = members"
    using inv c spec by (auto simp: defs split: sum.splits)
qed simp

section \<open>What is configured\<close>

text \<open>The table that a property describes: an array of objects whose two members are texts that are not empty.\<close>

definition text_member :: "'j json_api \<Rightarrow> 'j \<Rightarrow> string \<Rightarrow> string option" where
  "text_member js v name =
     (case Option.bind (ja_index js v name) (ja_string js) of
        None \<Rightarrow> None
      | Some s \<Rightarrow> if s = [] then None else Some s)"

definition described_entry :: "'j json_api \<Rightarrow> string \<Rightarrow> string \<Rightarrow> 'j \<Rightarrow> MatchingTableEntry option" where
  "described_entry js member_in_key member_out_name v =
     (if \<not> ja_object js v then None
      else
        case (text_member js v member_in_key, text_member js v member_out_name) of
          (Some k, Some n) \<Rightarrow> Some \<lparr>in_key = k, out_name = n\<rparr>
        | _ \<Rightarrow> None)"

definition json_array_of :: "'j json_api \<Rightarrow> (string \<rightharpoonup> string) \<Rightarrow> string \<Rightarrow> 'j list option" where
  "json_array_of js properties prop_key =
     Option.bind (Option.bind (properties prop_key) (ja_parse js)) (ja_array js)"

definition described_table ::
    "'j json_api \<Rightarrow> (string \<rightharpoonup> string) \<Rightarrow> string \<Rightarrow> string \<Rightarrow> string \<Rightarrow> MatchingTable option" where
  "described_table js properties prop_key member_in_key member_out_name =
     Option.bind (json_array_of js properties prop_key)
       (\<lambda>values. those (map (described_entry js member_in_key member_out_name) values))"

lemma required_member_cases:
  "case required_member js v prop_key name of
     Inl e \<Rightarrow> text_member js v name = None \<and> (\<exists>s. e = InvalidArgumentError s)
   | Inr s \<Rightarrow> text_member js v name = Some s"
  by (auto simp: required_member_def parse_json_string_def text_member_def split: option.splits)

lemma required_member_Inr: "required_member js v prop_key name = Inr s \<Longrightarrow> text_member js v name = Some s"
  using required_member_cases [of js v name prop_key] by simp

lemma required_member_Inl:
  "required_member js v prop_key name = Inl e \<Longrightarrow> text_member js v name = None \<and> (\<exists>s. e = InvalidArgumentError s)"
  using required_member_cases [of js v name prop_key] by simp

lemma parse_entries_described:
  "case parse_entries js json_str prop_key kin kout vs table of
     Inl e \<Rightarrow> those (map (described_entry js kin kout) vs) = None \<and> (\<exists>s. e = InvalidArgumentError s)
   | Inr t \<Rightarrow> (\<exists>es. those (map (described_entry js kin kout) vs) = Some es \<and> t = table @ es)"
proof (induction vs arbitrary: table)
  case (Cons v vs)
  show ?case
  proof (cases "required_member js v prop_key kin"; cases "required_member js v prop_key kout")
    fix k n assume k: "required_member js v prop_key kin = Inr k" and n: "required_member js v prop_key kout = Inr n"
    show ?thesis
      using Cons.IH [of "table @ [\<lparr>in_key = k, out_name = n\<rparr>]"] required_member_Inr [OF k] required_member_Inr [OF n]
      by (auto simp: k n described_entry_def [of js kin kout v] split: sum.splits)
  qed (auto simp: described_entry_def [of js kin kout v] dest!: required_member_Inr required_member_Inl split: sum.splits)
qed simp

definition parse_outcome ::
    "'j json_api \<Rightarrow> (string \<rightharpoonup> string) \<Rightarrow> string \<Rightarrow> string \<Rightarrow> string \<Rightarrow> MatchingTable
       \<Rightarrow> (cxx_exception + MatchingTable) \<times> nat \<Rightarrow> bool" where
  "parse_outcome js properties prop_key kin kout table r = (case r of
     (Inl e, n) \<Rightarrow>
       described_table js properties prop_key kin kout = None \<and> (\<exists>s. e = InvalidArgumentError s) \<and>
       n = (if json_array_of js properties prop_key = None then 0 else 1)
   | (Inr t, n) \<Rightarrow> (\<exists>es. described_table js properties prop_key kin kout = Some es \<and> t = table @ es) \<and> n = 0)"

lemma parse_matching_table_described:
  "parse_outcome js properties prop_key kin kout table
     (parse_matching_table js properties prop_key kin kout table)"
proof (cases "json_array_of js properties prop_key")
  case None
  then show ?thesis
    by (auto simp: parse_outcome_def parse_matching_table_def parse_from_json_def described_table_def json_array_of_def
        split: option.splits)
next
  case (Some vs)
  then obtain json_str v where "properties prop_key = Some json_str" "ja_parse js json_str = Some v" "ja_array js v = Some vs"
    by (auto simp: json_array_of_def Option.bind_eq_Some_conv)
  then show ?thesis
    using parse_entries_described [where js = js and json_str = json_str and prop_key = prop_key and kin = kin
        and kout = kout and vs = vs and table = table] Some
    by (auto simp: parse_outcome_def parse_matching_table_def parse_from_json_def described_table_def split: sum.splits)
qed

section \<open>Properties\<close>

text \<open>
  Claim C30. Forwarding by name implements the abstract router whose key is the name of the input,
  in every call: the calls made are exactly the specified ones in their order, whichever of them
  fail, and the engine does not change.
\<close>

theorem forwarding_by_name_refines:
  "fst (on_data_available fnmatch ByInputNameForwardingEngine_get_forwarding_key route engine) = engine \<and>
   filter is_call (snd (on_data_available fnmatch ByInputNameForwardingEngine_get_forwarding_key route engine)) =
     route_spec fnmatch (fwd_table engine) (\<lambda>input data. Some input) route"
  by (rule by_name.on_data_available_spec) auto

text \<open>
  Claim C29. Forwarding by value with its cache of member descriptions makes exactly the calls of the
  router that looks at every sample afresh: over every history of calls to a processor made from
  properties, if the kind of a member depends on the input alone.
\<close>

theorem forwarding_by_value_cache_transparent:
  assumes "ByInputValueForwardingEnginePlugin_create_processor js fnmatch properties = (Inr engine, n)"
    and "\<forall>route \<in> set routes. \<forall>(input, d) \<in> taken route. \<forall>member. fd_member_kind dd member d = kinds input member"
  shows "map (filter is_call)
           (on_data_history fnmatch (ByInputValueForwardingEngine_get_forwarding_key fnmatch dd) routes engine) =
         map (route_spec fnmatch (fwd_table engine) (value_key fnmatch dd (input_members engine))) routes"
proof (rule by_value.on_data_history_spec [where kinds = kinds])
  show "cache_ok kinds (input_members_cache engine) \<and> fwd_table engine = fwd_table engine \<and>
      input_members engine = input_members engine"
    using assms(1) by (auto simp: ByInputValueForwardingEnginePlugin_create_processor_def ByInputValueForwardingEngine_new_def split: prod.splits sum.splits)
qed (use assms(2) in auto)

text \<open>
  Claim C31. The table of an engine is the configured one, entry by entry (each text cut at a NUL),
  exactly when no configured pattern matches a later one; otherwise it has fewer entries.  In every
  case no pattern of the table matches a later one.
\<close>

theorem matching_table_faithful:
  "(from_matching_table fnmatch t = map c_entry t \<longleftrightarrow> sorted_wrt (unmatched fnmatch) (map c_entry t)) \<and>
   (from_matching_table fnmatch t = map c_entry t \<or> length (from_matching_table fnmatch t) < length t) \<and>
   sorted_wrt (unmatched fnmatch) (from_matching_table fnmatch t)"
proof -
  have s: "sorted_wrt (unmatched fnmatch) (from_matching_table fnmatch t)"
    unfolding from_matching_table_def by (rule add_all_sorted) simp
  have n: "from_matching_table fnmatch t = map c_entry t" if "sorted_wrt (unmatched fnmatch) (map c_entry t)"
    unfolding from_matching_table_def using add_all_new [of fnmatch "[]" t] that by simp
  have "length (from_matching_table fnmatch t) < length t" if "\<not> sorted_wrt (unmatched fnmatch) (map c_entry t)"
    using that unfolding from_matching_table_def by (rule add_all_unsorted)
  then show ?thesis using s n by (cases "sorted_wrt (unmatched fnmatch) (map c_entry t)") auto
qed


text \<open>
  A first pattern that matches every later pattern, such as a catch-all, loses the whole
  table: one entry is left, and every sample whose key the pattern matches goes to the output of
  the last configured entry.
\<close>

theorem catch_all_takes_last_output:
  assumes "\<forall>e \<in> set es. fnmatch (c_text (in_key e0)) (c_text (in_key e))" and "es \<noteq> []"
  shows "from_matching_table fnmatch (e0 # es) = [\<lparr>in_key = c_text (in_key e0), out_name = c_text (out_name (last es))\<rparr>] \<and>
         (\<forall>key. first_output fnmatch (from_matching_table fnmatch (e0 # es)) key =
            (if fnmatch (c_text (in_key e0)) key then Some (c_text (out_name (last es))) else None))"
  using add_all_swallow [of es fnmatch "c_text (in_key e0)" "c_text (out_name e0)"] assms
  by (simp add: from_matching_table_def add_new last_map first_output_def)

text \<open>
  Claim C32. A processor that forwards by value is created exactly when both properties describe
  tables, with these tables; otherwise the creation ends with an invalid argument error.  The parsed
  JSON value is leaked exactly when the property at fault holds an array, that is, when one of its
  entries is wrong.
\<close>

theorem create_by_value_outcome:
  "case ByInputValueForwardingEnginePlugin_create_processor js fnmatch properties of
     (Inr engine, leaked) \<Rightarrow>
       (\<exists>t m. described_table js properties ''forwarding_table'' ''input'' ''output'' = Some t \<and>
          described_table js properties ''input_members'' ''input'' ''member'' = Some m \<and>
          engine = \<lparr>fwd_table = from_matching_table fnmatch t, input_members_cache = Map.empty,
                    input_members = from_matching_table fnmatch m\<rparr>) \<and> leaked = 0
   | (Inl e, leaked) \<Rightarrow>
       (\<exists>s. e = InvalidArgumentError s) \<and>
       (if described_table js properties ''forwarding_table'' ''input'' ''output'' = None
        then leaked = (if json_array_of js properties ''forwarding_table'' = None then 0 else 1)
        else described_table js properties ''input_members'' ''input'' ''member'' = None \<and>
             leaked = (if json_array_of js properties ''input_members'' = None then 0 else 1))"
proof -
  note defs = ByInputValueForwardingEnginePlugin_create_processor_def ByInputValueForwardingEngine_new_def parse_config_by_value_def
  obtain r1 n1 r2 n2 where
    p: "parse_matching_table js properties ''forwarding_table'' ''input'' ''output'' [] = (r1, n1)"
    and q: "parse_matching_table js properties ''input_members'' ''input'' ''member'' [] = (r2, n2)" by fastforce
  have "parse_outcome js properties ''forwarding_table'' ''input'' ''output'' [] (r1, n1)"
    and "parse_outcome js properties ''input_members'' ''input'' ''member'' [] (r2, n2)"
    unfolding p [symmetric] q [symmetric] by (rule parse_matching_table_described)+
  then show ?thesis
    by (cases r1; cases r2) (simp_all add: defs p q parse_outcome_def split del: if_split)
qed


section \<open>A concrete bridge\<close>

text \<open>Patterns with the wildcard \<^verbatim>\<open>*\<close>, and JSON values with the two tables of a bridge for shapes.\<close>

fun tails :: "string \<Rightarrow> string list" where
  "tails [] = [[]]"
| "tails (c # cs) = (c # cs) # tails cs"

fun glob :: "string \<Rightarrow> string \<Rightarrow> bool" where
  "glob [] s = (s = [])"
| "glob (p # ps) s =
     (if p = CHR ''*'' then list_ex (glob ps) (tails s)
      else case s of [] \<Rightarrow> False | c # cs \<Rightarrow> p = c \<and> glob ps cs)"

datatype example_json = J_text string | J_object "(string \<times> string) list" | J_array "(string \<times> string) list list"

definition bridge_json :: "example_json json_api" where
  "bridge_json =
     \<lparr>ja_parse = (\<lambda>s.
        if s = ''members'' then Some (J_array [[(''input'', ''*''), (''member'', ''topic'')]])
        else if s = ''shapes'' then
          Some (J_array [[(''input'', ''*/squares''), (''output'', ''Square'')],
                         [(''input'', ''*/circles''), (''output'', ''Circle'')]])
        else None),
      ja_array = (\<lambda>v. case v of J_array vs \<Rightarrow> Some (map J_object vs) | _ \<Rightarrow> None),
      ja_object = (\<lambda>v. case v of J_object _ \<Rightarrow> True | _ \<Rightarrow> False),
      ja_index = (\<lambda>v name. case v of J_object ms \<Rightarrow> map_option J_text (map_of ms name) | _ \<Rightarrow> None),
      ja_string = (\<lambda>v. case v of J_text s \<Rightarrow> Some s | _ \<Rightarrow> None)\<rparr>"

definition bridge_properties :: "string \<rightharpoonup> string" where
  "bridge_properties = [''input_members'' \<mapsto> ''members'', ''forwarding_table'' \<mapsto> ''shapes'']"

definition bridge_engine :: ByInputValueForwardingEngine where
  "bridge_engine =
     \<lparr>fwd_table = [\<lparr>in_key = ''*/squares'', out_name = ''Square''\<rparr>, \<lparr>in_key = ''*/circles'', out_name = ''Circle''\<rparr>],
      input_members_cache = Map.empty,
      input_members = [\<lparr>in_key = ''*'', out_name = ''topic''\<rparr>]\<rparr>"

text \<open>A sample is its topic.\<close>

definition bridge_data :: "(unit, string) fwd_data" where
  "bridge_data =
     \<lparr>fd_member_kind = (\<lambda>m d. if m = ''topic'' then Inr STRING_TYPE else Inl (InvalidArgumentError m)),
      fd_member_exists = (\<lambda>m d. m = ''topic''),
      fd_value = (\<lambda>tk m d. Inl (InvalidArgumentError m)),
      fd_string = (\<lambda>m d. if m = ''topic'' then Inr d else Inl (InvalidArgumentError m)),
      fd_printf = (\<lambda>fmt v. '''')\<rparr>"

definition bridge_route :: "string list \<Rightarrow> string route" where
  "bridge_route topics =
     \<lparr>ro_inputs = [''mqtt''], ro_take = (\<lambda>i. Inr (map (\<lambda>t. (True, t)) topics)), ro_output = (\<lambda>n. None),
      ro_write = (\<lambda>n. if n = 1 then Some (OtherException ''timeout'') else None)\<rparr>"

lemmas find_defs = InternalMatchingTable_find_def InternalMatchingTableEntry_match_def

lemma bridge_table:
  "from_matching_table glob [\<lparr>in_key = ''*/squares'', out_name = ''Square''\<rparr>, \<lparr>in_key = ''*/circles'', out_name = ''Circle''\<rparr>] =
     [\<lparr>in_key = ''*/squares'', out_name = ''Square''\<rparr>, \<lparr>in_key = ''*/circles'', out_name = ''Circle''\<rparr>]"
  "from_matching_table glob [\<lparr>in_key = ''*'', out_name = ''topic''\<rparr>] = [\<lparr>in_key = ''*'', out_name = ''topic''\<rparr>]"
  by (simp_all add: from_matching_table_def InternalMatchingTable_add_def find_defs c_text_def NUL_def)

lemma bridge_created:
  "ByInputValueForwardingEnginePlugin_create_processor bridge_json glob bridge_properties = (Inr bridge_engine, 0)"
  by (simp add: ByInputValueForwardingEnginePlugin_create_processor_def ByInputValueForwardingEngine_new_def
      parse_config_by_value_def parse_matching_table_def
      parse_from_json_def required_member_def parse_json_string_def bridge_json_def bridge_properties_def bridge_table
      bridge_engine_def)

lemma bridge_spec:
  "map (route_spec glob (fwd_table bridge_engine) (value_key glob bridge_data (input_members bridge_engine)))
     [bridge_route [''a/squares'', ''b/other''], bridge_route [''a/circles'']] =
   [[E_take 0, E_write ''Square'' ''a/squares'', E_return_loan 0], [E_take 0, E_write ''Circle'' ''a/circles'', E_return_loan 0]]"
  by (simp add: route_spec_def input_spec_def forwarded_def destination_def value_key_def first_output_def
      bridge_engine_def bridge_data_def bridge_route_def InputMemberValue_new_def InputMemberValue_to_string_def
      default_input_member_format_def c_text_def NUL_def)

text \<open>Two calls on the bridge: a failed write, a topic without an output, and a second call that uses the cache.\<close>

theorem forwarding_by_value_cache_transparent_witness:
  "map (filter is_call)
     (on_data_history glob (ByInputValueForwardingEngine_get_forwarding_key glob bridge_data)
        [bridge_route [''a/squares'', ''b/other''], bridge_route [''a/circles'']] bridge_engine) =
   [[E_take 0, E_write ''Square'' ''a/squares'', E_return_loan 0], [E_take 0, E_write ''Circle'' ''a/circles'', E_return_loan 0]]"
  unfolding bridge_spec [symmetric]
  by (rule forwarding_by_value_cache_transparent [OF bridge_created,
        where kinds = "\<lambda>input m. if m = ''topic'' then Inr STRING_TYPE else Inl (InvalidArgumentError m)"])
    (simp add: bridge_data_def)

text \<open>A catch-all before the entry for squares: circles go to the output for squares.\<close>

theorem catch_all_takes_last_output_witness:
  "first_output glob
     (from_matching_table glob [\<lparr>in_key = ''*'', out_name = ''Other''\<rparr>, \<lparr>in_key = ''*/squares'', out_name = ''Square''\<rparr>])
     ''a/circles'' = Some ''Square''"
  using catch_all_takes_last_output [of "[\<lparr>in_key = ''*/squares'', out_name = ''Square''\<rparr>]" glob
      "\<lparr>in_key = ''*'', out_name = ''Other''\<rparr>"]
  by (simp add: c_text_def NUL_def first_output_def)

end
