(* ===== verification/ModbusConfig.thy ===== *)
theory ModbusConfig
  imports DynamicDataHelpers Cxx
begin

text \<open>
  The configuration of the Modbus adapter, \<^verbatim>\<open>ModbusAdapterConfiguration.cxx\<close> and its header: one element says
  which registers of a device hold which field of a sample, with a type, a linear transformation
  and a range.  Here are the conversion of values to registers and back, the reading of a JSON
  configuration, and its check against the type of the samples, with the helpers of
  \<^verbatim>\<open>common/dds_specific/srcCxx\<close> and \<^verbatim>\<open>common/utils/srcCxx\<close> that they use.

  The texts of exceptions and warnings are left out.  Parameters are floating-point arithmetic (\<open>fp\<close>),
  the macros of libmodbus that split numbers into registers (\<open>modbus_regs\<close>), the JSON parser, and the
  access to DDS types (\<open>type_api\<close>).
\<close>

section \<open>Data\<close>

datatype ModbusDataType =
    coil_boolean
  | holding_register_int8
  | holding_register_int16
  | holding_register_int32
  | holding_register_int64
  | holding_register_float_abcd
  | holding_register_float_badc
  | holding_register_float_cdab
  | holding_register_float_dcba
  | constant_value
  | discrete_input_boolean
  | input_register_int8
  | input_register_int16
  | input_register_int32
  | input_register_int64
  | input_register_float_abcd
  | input_register_float_badc
  | input_register_float_cdab
  | input_register_float_dcba
  | no_modbus_datatype

datatype ConstantValueKind = string_kind | integer_kind | float_kind | boolean_kind | array_kind | undefined_kind

datatype RoutingServiceEntityType = stream_writer | stream_reader

type_synonym reg = "16 word"

record 'r mace =
  m_field :: string
  m_modbus_register_address :: i32
  m_modbus_register_count :: i32
  m_modbus_datatype :: ModbusDataType
  m_modbus_slave_device_id :: octet
  m_modbus_min_value :: 'r
  m_modbus_max_value :: 'r
  m_modbus_valid_values :: "'r list"
  m_data_factor :: 'r
  m_data_offset :: 'r
  m_constant_kind :: ConstantValueKind
  m_value_string :: string
  m_value_numeric :: 'r
  m_value_array :: "'r list"
  m_array_elements :: "64 word"

datatype float_order = abcd | badc | cdab | dcba

record 'r modbus_regs =
  mb_set_int32 :: "32 word \<Rightarrow> reg list"
  mb_get_int32 :: "reg list \<Rightarrow> 32 word"
  mb_set_int64 :: "64 word \<Rightarrow> reg list"
  mb_get_int64 :: "reg list \<Rightarrow> 64 word"
  mb_set_float :: "float_order \<Rightarrow> 'r \<Rightarrow> reg list"
  mb_get_float :: "float_order \<Rightarrow> reg list \<Rightarrow> 'r"
  mb_default_device_id :: octet

text \<open>What the macros promise: a number fills its registers and is read back from them.\<close>

definition mb_laws :: "'r modbus_regs \<Rightarrow> bool" where
  "mb_laws mb \<longleftrightarrow>
     (\<forall>w. length (mb_set_int32 mb w) = 2 \<and> mb_get_int32 mb (mb_set_int32 mb w) = w) \<and>
     (\<forall>w. length (mb_set_int64 mb w) = 4 \<and> mb_get_int64 mb (mb_set_int64 mb w) = w) \<and>
     (\<forall>order v. length (mb_set_float mb order v) = 2)"

definition ModbusAdapterConfigurationElement_new :: "'r fp \<Rightarrow> 'r modbus_regs \<Rightarrow> 'r mace" where
  "ModbusAdapterConfigurationElement_new fp mb =
     \<lparr>m_field = '''', m_modbus_register_address = - 1, m_modbus_register_count = 0,
      m_modbus_datatype = no_modbus_datatype, m_modbus_slave_device_id = mb_default_device_id mb,
      m_modbus_min_value = fp_double_min fp, m_modbus_max_value = fp_double_max fp, m_modbus_valid_values = [],
      m_data_factor = fp_of_int fp 1, m_data_offset = fp_of_int fp 0, m_constant_kind = undefined_kind,
      m_value_string = '''', m_value_numeric = fp_of_int fp 0, m_value_array = [], m_array_elements = 0\<rparr>"

section \<open>Kinds and types\<close>

definition is_signed_kind :: "TypeKind \<Rightarrow> bool cxx" where
  "is_signed_kind kind =
     (if kind \<in> {CHAR_8_TYPE, INT_16_TYPE, ENUMERATION_TYPE, INT_32_TYPE, INT_64_TYPE, FLOAT_32_TYPE, FLOAT_64_TYPE,
                 FLOAT_128_TYPE} then Ret True
      else if kind \<in> {UINT_8_TYPE, UINT_16_TYPE, UINT_32_TYPE, UINT_64_TYPE} then Ret False
      else Throw RuntimeError)"

definition is_register :: "ModbusDataType \<Rightarrow> bool" where
  "is_register t = (t \<notin> {coil_boolean, constant_value, discrete_input_boolean})"

definition is_int8 :: "ModbusDataType \<Rightarrow> bool" where
  "is_int8 t = (t \<in> {holding_register_int8, input_register_int8})"

text \<open>
  The case labels of the second switch fall through, so that a type is compatible with every DDS kind
  that is at least as wide.
\<close>

definition compatible_kinds :: "ModbusDataType \<Rightarrow> TypeKind list" where
  "compatible_kinds t =
     (let floats = [FLOAT_32_TYPE, FLOAT_64_TYPE];
          int64s = [INT_64_TYPE, UINT_64_TYPE] @ floats;
          int32s = [INT_32_TYPE, UINT_32_TYPE] @ int64s;
          int16s = [INT_16_TYPE, UINT_16_TYPE] @ int32s;
          int8s = [CHAR_8_TYPE, UINT_8_TYPE] @ int16s;
          ints = [CHAR_8_TYPE, UINT_8_TYPE, INT_16_TYPE, UINT_16_TYPE, INT_32_TYPE, UINT_32_TYPE, INT_64_TYPE, UINT_64_TYPE]
      in
        if t \<in> {holding_register_int8, input_register_int8} then int8s
        else if t \<in> {holding_register_int16, input_register_int16} then int16s
        else if t \<in> {holding_register_int32, input_register_int32} then int32s
        else if t \<in> {holding_register_int64, input_register_int64} then int64s
        else if t \<in> {holding_register_float_abcd, holding_register_float_badc, holding_register_float_cdab,
                     holding_register_float_dcba, input_register_float_abcd, input_register_float_badc,
                     input_register_float_cdab, input_register_float_dcba} then floats
        else if t \<in> {coil_boolean, discrete_input_boolean} then BOOLEAN_TYPE # ints
        else if t = constant_value
        then [STRING_TYPE] @ ints @ [FLOAT_32_TYPE, FLOAT_64_TYPE, BOOLEAN_TYPE, ENUMERATION_TYPE, ARRAY_TYPE, SEQUENCE_TYPE]
        else [])"

definition is_compatible_dds_datatype :: "'r fp \<Rightarrow> 'r mace \<Rightarrow> TypeKind \<Rightarrow> bool cxx" where
  "is_compatible_dds_datatype fp m dds_datatype =
     cxx_bind
       (if is_register (m_modbus_datatype m) then
          cxx_bind (is_signed_kind dds_datatype) (\<lambda>sg.
            throw_if (\<not> sg \<and> \<not> is_int8 (m_modbus_datatype m) \<and>
              fp_less fp (fp_add fp (fp_mul fp (m_data_factor m) (m_modbus_min_value m)) (m_data_offset m)) (fp_of_int fp 0)))
        else Ret ())
       (\<lambda>_.
         if dds_datatype = ENUMERATION_TYPE \<and> m_modbus_datatype m \<noteq> constant_value
         then Ret (m_modbus_datatype m \<in> {holding_register_int8, input_register_int8, holding_register_int16,
                     input_register_int16, holding_register_int32, input_register_int32, holding_register_int64,
                     input_register_int64} \<and> m_modbus_valid_values m \<noteq> [])
         else Ret (dds_datatype \<in> set (compatible_kinds (m_modbus_datatype m))))"

section \<open>Checks of one element\<close>

definition check_for_errors :: "'r fp \<Rightarrow> 'r mace \<Rightarrow> unit cxx" where
  "check_for_errors fp m =
     cxx_bind (throw_if (m_field m = '''')) (\<lambda>_.
     cxx_bind (throw_if (m_modbus_datatype m = no_modbus_datatype)) (\<lambda>_.
     cxx_bind (throw_if (m_modbus_register_address m = - 1 \<and> m_modbus_datatype m \<noteq> constant_value)) (\<lambda>_.
     cxx_bind (throw_if (m_modbus_datatype m \<noteq> constant_value \<and> m_constant_kind m \<noteq> undefined_kind)) (\<lambda>_.
       throw_if (fp_less fp (m_modbus_max_value m) (m_modbus_min_value m))))))"

definition check_correct_value :: "'r fp \<Rightarrow> 'r mace \<Rightarrow> 'r \<Rightarrow> unit cxx" where
  "check_correct_value fp m float_value =
     cxx_bind (throw_if (fp_less fp float_value (m_modbus_min_value m) \<or> fp_less fp (m_modbus_max_value m) float_value)) (\<lambda>_.
       throw_if (m_modbus_valid_values m \<noteq> [] \<and> \<not> list_ex (\<lambda>e. fp_eq fp e float_value) (m_modbus_valid_values m)))"

definition number_of_registers_primitive_type :: "'r mace \<Rightarrow> 64 word cxx" where
  "number_of_registers_primitive_type m =
     (case m_modbus_datatype m of
        coil_boolean \<Rightarrow> Ret 1
      | discrete_input_boolean \<Rightarrow> Ret 1
      | holding_register_int8 \<Rightarrow> Ret 1
      | input_register_int8 \<Rightarrow> Ret 1
      | holding_register_int16 \<Rightarrow> Ret 1
      | input_register_int16 \<Rightarrow> Ret 1
      | holding_register_int32 \<Rightarrow> Ret 2
      | input_register_int32 \<Rightarrow> Ret 2
      | holding_register_int64 \<Rightarrow> Ret 4
      | input_register_int64 \<Rightarrow> Ret 4
      | constant_value \<Rightarrow> Throw RuntimeError
      | no_modbus_datatype \<Rightarrow> Throw RuntimeError
      | _ \<Rightarrow> Ret 2)"

text \<open>The count is an \<^verbatim>\<open>int\<close>, which is converted to \<^verbatim>\<open>size_t\<close> in the divisions.\<close>

definition register_count_size :: "'r mace \<Rightarrow> 64 word" where
  "register_count_size m = scast (m_modbus_register_count m)"

definition calculate_array_elements :: "'r mace \<Rightarrow> 64 word cxx" where
  "calculate_array_elements m =
     cxx_bind (number_of_registers_primitive_type m) (\<lambda>n.
     cxx_bind (throw_if (register_count_size m mod n \<noteq> 0 \<or> register_count_size m div n < 1)) (\<lambda>_.
       Ret (register_count_size m div n)))"

definition set_array_elements_from_config :: "'r mace \<Rightarrow> 'r mace cxx" where
  "set_array_elements_from_config m =
     cxx_bind (calculate_array_elements m) (\<lambda>n. Ret (m\<lparr>m_array_elements := if n = 1 then 0 else n\<rparr>))"

definition check_min_max_consistency :: "'r fp \<Rightarrow> 'r mace \<Rightarrow> bool \<Rightarrow> unit cxx" where
  "check_min_max_consistency fp m is_dds_type_unsigned =
     (let is_min_set_negative =
            (\<not> fp_eq fp (m_modbus_min_value m) (fp_double_min fp) \<and> fp_less fp (m_modbus_min_value m) (fp_of_int fp 0));
          is_max_set_negative = fp_less fp (m_modbus_max_value m) (fp_of_int fp 0)
      in cxx_bind (throw_if (is_dds_type_unsigned \<and> is_min_set_negative)) (\<lambda>_.
           throw_if (is_dds_type_unsigned \<and> is_max_set_negative)))"

section \<open>Values to registers and back\<close>

text \<open>What one iteration writes.  A value is a \<^verbatim>\<open>long double\<close>, and so is the transformed one.\<close>

definition float_order_of :: "ModbusDataType \<Rightarrow> float_order option" where
  "float_order_of t =
     (if t \<in> {holding_register_float_abcd, input_register_float_abcd} then Some abcd
      else if t \<in> {holding_register_float_badc, input_register_float_badc} then Some badc
      else if t \<in> {holding_register_float_cdab, input_register_float_cdab} then Some cdab
      else if t \<in> {holding_register_float_dcba, input_register_float_dcba} then Some dcba
      else None)"

definition registers_of_value :: "'r fp \<Rightarrow> 'r modbus_regs \<Rightarrow> 'r mace \<Rightarrow> 'r \<Rightarrow> reg list cxx" where
  "registers_of_value fp mb m v =
     (let l = fp_add fp (m_data_offset m) (fp_mul fp v (m_data_factor m)) in
      case m_modbus_datatype m of
        holding_register_int8 \<Rightarrow> Ret [word_of_int (safe_cast_unsigned fp 8 l)]
      | holding_register_int16 \<Rightarrow> Ret [word_of_int (safe_cast_unsigned fp 16 l)]
      | holding_register_int32 \<Rightarrow> Ret (mb_set_int32 mb (word_of_int (safe_cast_unsigned fp 32 l)))
      | holding_register_int64 \<Rightarrow> Ret (mb_set_int64 mb (word_of_int (safe_cast_unsigned fp 64 l)))
      | holding_register_float_abcd \<Rightarrow> Ret (mb_set_float mb abcd (fp_float fp l))
      | holding_register_float_badc \<Rightarrow> Ret (mb_set_float mb badc (fp_float fp l))
      | holding_register_float_cdab \<Rightarrow> Ret (mb_set_float mb cdab (fp_float fp l))
      | holding_register_float_dcba \<Rightarrow> Ret (mb_set_float mb dcba (fp_float fp l))
      | _ \<Rightarrow> Throw RuntimeError)"

text \<open>The loop writes at a pointer into the vector; a write beyond its end is undefined.\<close>

fun registers_loop :: "'r fp \<Rightarrow> 'r modbus_regs \<Rightarrow> 'r mace \<Rightarrow> nat \<Rightarrow> 'r list \<Rightarrow> reg list \<Rightarrow> reg list cxx" where
  "registers_loop fp mb m pos [] output = Ret output"
| "registers_loop fp mb m pos (v # vs) output =
     cxx_bind (check_correct_value fp m (fp_add fp (m_data_offset m) (fp_mul fp v (m_data_factor m)))) (\<lambda>_.
     cxx_bind (registers_of_value fp mb m v) (\<lambda>ws.
       if pos + length ws > length output then Undefined
       else cxx_bind (number_of_registers_primitive_type m) (\<lambda>n.
              registers_loop fp mb m (pos + unat n) vs (take pos output @ ws @ drop (pos + length ws) output))))"

definition get_registers_value :: "'r fp \<Rightarrow> 'r modbus_regs \<Rightarrow> 'r mace \<Rightarrow> reg list \<Rightarrow> 'r list \<Rightarrow> reg list cxx" where
  "get_registers_value fp mb m output float_vector = registers_loop fp mb m 0 float_vector output"

text \<open>
  What one iteration reads, from the registers that begin at its index.  An integer times the factor,
  a \<^verbatim>\<open>float\<close>, is computed in \<^verbatim>\<open>float\<close>.
\<close>

definition f32_linear :: "'r fp \<Rightarrow> 'r mace \<Rightarrow> 'r \<Rightarrow> 'r" where
  "f32_linear fp m x = f32_add fp (m_data_offset m) (f32_mul fp x (m_data_factor m))"

definition read_int :: "'r fp \<Rightarrow> 'r mace \<Rightarrow> 'r \<Rightarrow> int \<Rightarrow> ('r \<Rightarrow> int) \<Rightarrow> 'r cxx" where
  "read_int fp m checked value cast =
     cxx_bind (check_correct_value fp m checked) (\<lambda>_.
       Ret (fp_of_int fp (cast (f32_linear fp m (f32_of_int fp value)))))"

definition value_of_registers :: "'r fp \<Rightarrow> 'r modbus_regs \<Rightarrow> 'r mace \<Rightarrow> TypeKind \<Rightarrow> reg list \<Rightarrow> 'r cxx" where
  "value_of_registers fp mb m element_kind rs =
     (let t = m_modbus_datatype m in
      if t \<in> {holding_register_int8, input_register_int8} then
        cxx_bind (is_signed_kind element_kind) (\<lambda>sg.
          if length rs < 1 then Undefined
          else if sg then
            let value = sint (ucast (hd rs) :: 8 word) in
            read_int fp m (fp_of_int fp value) value (safe_cast_signed fp 8)
          else
            let value = uint (ucast (hd rs) :: 8 word) in
            read_int fp m (fp_of_int fp value) value (safe_cast_unsigned fp 8))
      else if t \<in> {holding_register_int16, input_register_int16} then
        cxx_bind (is_signed_kind element_kind) (\<lambda>sg.
          if length rs < 1 then Undefined
          else if sg then
            let value = sint (hd rs) in read_int fp m (fp_of_int fp value) value (safe_cast_signed fp 16)
          else
            let value = uint (hd rs) in read_int fp m (fp_of_int fp value) value (safe_cast_unsigned fp 8))
      else if t \<in> {holding_register_int32, input_register_int32} then
        cxx_bind (is_signed_kind element_kind) (\<lambda>sg.
          if length rs < 2 then Undefined
          else if sg then
            let value = sint (mb_get_int32 mb (take 2 rs)) in
            read_int fp m (fp_of_int fp (safe_cast_signed fp 32 (fp_of_int fp value))) value (safe_cast_signed fp 32)
          else
            let value = uint (mb_get_int32 mb (take 2 rs)) in
            read_int fp m (fp_of_int fp (safe_cast_unsigned fp 32 (fp_of_int fp value))) value (safe_cast_unsigned fp 32))
      else if t \<in> {holding_register_int64, input_register_int64} then
        cxx_bind (is_signed_kind element_kind) (\<lambda>sg.
          if length rs < 4 then Undefined
          else if sg then
            let value = sint (mb_get_int64 mb (take 4 rs)) in
            read_int fp m (fp_of_int fp (safe_cast_signed fp 64 (fp_of_int fp value))) value (safe_cast_signed fp 64)
          else
            let value = uint (mb_get_int64 mb (take 4 rs)) in
            read_int fp m (fp_of_int fp (safe_cast_unsigned fp 64 (fp_of_int fp value))) value (safe_cast_unsigned fp 64))
      else
        case float_order_of t of
          None \<Rightarrow> Throw RuntimeError
        | Some order \<Rightarrow>
            if length rs < 2 then Undefined
            else
              let value = mb_get_float mb order (take 2 rs) in
              cxx_bind (check_correct_value fp m value) (\<lambda>_. Ret (f32_linear fp m value)))"

function float_loop ::
    "'r fp \<Rightarrow> 'r modbus_regs \<Rightarrow> 'r mace \<Rightarrow> TypeKind \<Rightarrow> reg list \<Rightarrow> nat \<Rightarrow> nat \<Rightarrow> 'r list \<Rightarrow> 'r list cxx" where
  "float_loop fp mb m element_kind input step i float_vector =
     (if i < unat (register_count_size m) \<and> 0 < step then
        cxx_bind (value_of_registers fp mb m element_kind (drop i input)) (\<lambda>v.
          float_loop fp mb m element_kind input step (i + step) (float_vector @ [v]))
      else Ret float_vector)"
  by pat_completeness auto
termination
  by (relation "measure (\<lambda>(fp, mb, m, k, input, step, i, fv). unat (register_count_size m) - i)") auto

declare float_loop.simps [simp del]

text \<open>The step is computed in the loop, but only from the type of the element.\<close>

definition get_float_value ::
    "'r fp \<Rightarrow> 'r modbus_regs \<Rightarrow> 'r mace \<Rightarrow> reg list \<Rightarrow> TypeKind \<Rightarrow> 'r list cxx" where
  "get_float_value fp mb m input element_kind =
     (if register_count_size m = 0 then Ret []
      else cxx_bind (number_of_registers_primitive_type m) (\<lambda>n.
             float_loop fp mb m element_kind input (unat n) 0 []))"

section \<open>Reading a configuration\<close>

text \<open>The tree that json-parser builds; a type of node that the adapter never looks for is \<open>json_other\<close>.\<close>

datatype 'r json_node =
    json_object "(string \<times> 'r json_node) list"
  | json_array "'r json_node list"
  | json_integer "64 word"
  | json_double 'r
  | json_string string
  | json_boolean bool
  | json_other

text \<open>A number that may be an integer or a double, as a \<^verbatim>\<open>long double\<close>.\<close>

fun json_number :: "'r fp \<Rightarrow> 'r json_node \<Rightarrow> 'r cxx" where
  "json_number fp (json_integer i) = Ret (fp_of_int fp (sint i))"
| "json_number fp (json_double d) = Ret d"
| "json_number fp _ = Throw RuntimeError"

text \<open>The same converted to \<^verbatim>\<open>float\<close>, as the factors and offsets are.\<close>

fun json_float :: "'r fp \<Rightarrow> 'r json_node \<Rightarrow> 'r cxx" where
  "json_float fp (json_integer i) = Ret (f32_of_int fp (sint i))"
| "json_float fp (json_double d) = Ret (fp_float fp d)"
| "json_float fp _ = Throw RuntimeError"

fun json_numbers :: "('r json_node \<Rightarrow> 'r cxx) \<Rightarrow> 'r json_node list \<Rightarrow> 'r list \<Rightarrow> 'r list cxx" where
  "json_numbers conv [] acc = Ret acc"
| "json_numbers conv (v # vs) acc = cxx_bind (conv v) (\<lambda>r. json_numbers conv vs (acc @ [r]))"

fun json_array_element :: "'r fp \<Rightarrow> 'r json_node \<Rightarrow> 'r cxx" where
  "json_array_element fp (json_double d) = Ret d"
| "json_array_element fp (json_integer i) = Ret (fp_of_int fp (sint i))"
| "json_array_element fp (json_boolean b) = Ret (fp_of_int fp (if b then 1 else 0))"
| "json_array_element fp _ = Throw RuntimeError"

definition modbus_datatype_from_string :: "string \<Rightarrow> ModbusDataType cxx" where
  "modbus_datatype_from_string s =
     (if s = ''HOLDING_REGISTER_INT16'' then Ret holding_register_int16
      else if s = ''HOLDING_REGISTER_INT8'' then Ret holding_register_int8
      else if s = ''COIL_BOOLEAN'' then Ret coil_boolean
      else if s = ''HOLDING_REGISTER_INT32'' then Ret holding_register_int32
      else if s = ''HOLDING_REGISTER_INT64'' then Ret holding_register_int64
      else if s = ''HOLDING_REGISTER_FLOAT_ABCD'' then Ret holding_register_float_abcd
      else if s = ''HOLDING_REGISTER_FLOAT_BADC'' then Ret holding_register_float_badc
      else if s = ''HOLDING_REGISTER_FLOAT_CDAB'' then Ret holding_register_float_cdab
      else if s = ''HOLDING_REGISTER_FLOAT_DCBA'' then Ret holding_register_float_dcba
      else if s = ''INPUT_REGISTER_INT16'' then Ret input_register_int16
      else if s = ''INPUT_REGISTER_INT8'' then Ret input_register_int8
      else if s = ''DISCRETE_INPUT_BOOLEAN'' then Ret discrete_input_boolean
      else if s = ''INPUT_REGISTER_INT32'' then Ret input_register_int32
      else if s = ''INPUT_REGISTER_INT64'' then Ret input_register_int64
      else if s = ''INPUT_REGISTER_FLOAT_ABCD'' then Ret input_register_float_abcd
      else if s = ''INPUT_REGISTER_FLOAT_BADC'' then Ret input_register_float_badc
      else if s = ''INPUT_REGISTER_FLOAT_CDAB'' then Ret input_register_float_cdab
      else if s = ''INPUT_REGISTER_FLOAT_DCBA'' then Ret input_register_float_dcba
      else Throw RuntimeError)"

text \<open>The member \<^verbatim>\<open>value\<close>.\<close>

fun parse_value :: "'r fp \<Rightarrow> 'r json_node \<Rightarrow> 'r mace \<Rightarrow> 'r mace cxx" where
  "parse_value fp (json_integer i) m = Ret (m\<lparr>m_constant_kind := integer_kind, m_value_numeric := fp_of_int fp (sint i)\<rparr>)"
| "parse_value fp (json_double d) m = Ret (m\<lparr>m_constant_kind := float_kind, m_value_numeric := d\<rparr>)"
| "parse_value fp (json_boolean b) m =
     Ret (m\<lparr>m_constant_kind := boolean_kind, m_value_numeric := fp_of_int fp (if b then 1 else 0)\<rparr>)"
| "parse_value fp (json_string s) m = Ret (m\<lparr>m_constant_kind := string_kind, m_value_string := c_text s\<rparr>)"
| "parse_value fp (json_array vs) m =
     cxx_bind (json_numbers (json_array_element fp) vs (m_value_array m)) (\<lambda>rs.
       Ret (m\<lparr>m_value_array := rs, m_constant_kind := array_kind\<rparr>))"
| "parse_value fp _ m = Throw RuntimeError"

text \<open>One member of the object of an element.\<close>

definition parse_member ::
    "'r fp \<Rightarrow> RoutingServiceEntityType \<Rightarrow> string \<Rightarrow> 'r json_node \<Rightarrow> 'r mace \<Rightarrow> 'r mace cxx" where
  "parse_member fp kind node_name node m =
     (let name = c_text node_name in
      if name = ''field'' then
        (case node of json_string s \<Rightarrow> Ret (m\<lparr>m_field := c_text s\<rparr>) | _ \<Rightarrow> Throw RuntimeError)
      else if name = ''modbus_register_address'' then
        (case node of json_integer i \<Rightarrow> Ret (m\<lparr>m_modbus_register_address := ucast i\<rparr>) | _ \<Rightarrow> Throw RuntimeError)
      else if name = ''modbus_register_count'' then
        (case node of json_integer i \<Rightarrow> Ret (m\<lparr>m_modbus_register_count := ucast i\<rparr>) | _ \<Rightarrow> Throw RuntimeError)
      else if name = ''modbus_slave_device_id'' then
        (case node of json_integer i \<Rightarrow> Ret (m\<lparr>m_modbus_slave_device_id := ucast i\<rparr>) | _ \<Rightarrow> Throw RuntimeError)
      else if name = ''modbus_datatype'' then
        (case node of
           json_string s \<Rightarrow> cxx_bind (modbus_datatype_from_string (c_text s)) (\<lambda>t. Ret (m\<lparr>m_modbus_datatype := t\<rparr>))
         | _ \<Rightarrow> Throw RuntimeError)
      else if name = ''modbus_min_value'' then
        cxx_bind (json_number fp node) (\<lambda>r. Ret (m\<lparr>m_modbus_min_value := r\<rparr>))
      else if name = ''modbus_max_value'' then
        cxx_bind (json_number fp node) (\<lambda>r. Ret (m\<lparr>m_modbus_max_value := r\<rparr>))
      else if name = ''modbus_valid_values'' then
        (case node of
           json_array vs \<Rightarrow>
             cxx_bind (json_numbers (json_number fp) vs (m_modbus_valid_values m)) (\<lambda>rs.
               Ret (m\<lparr>m_modbus_valid_values := rs\<rparr>))
         | _ \<Rightarrow> Throw RuntimeError)
      else if name = ''output_data_factor'' then
        cxx_bind (throw_if (kind = stream_reader)) (\<lambda>_. cxx_bind (json_float fp node) (\<lambda>r. Ret (m\<lparr>m_data_factor := r\<rparr>)))
      else if name = ''output_data_offset'' then
        cxx_bind (throw_if (kind = stream_reader)) (\<lambda>_. cxx_bind (json_float fp node) (\<lambda>r. Ret (m\<lparr>m_data_offset := r\<rparr>)))
      else if name = ''input_data_factor'' then
        cxx_bind (throw_if (kind = stream_writer)) (\<lambda>_. cxx_bind (json_float fp node) (\<lambda>r. Ret (m\<lparr>m_data_factor := r\<rparr>)))
      else if name = ''input_data_offset'' then
        cxx_bind (throw_if (kind = stream_writer)) (\<lambda>_. cxx_bind (json_float fp node) (\<lambda>r. Ret (m\<lparr>m_data_offset := r\<rparr>)))
      else if name = ''value'' then parse_value fp node m
      else Throw RuntimeError)"

fun parse_members ::
    "'r fp \<Rightarrow> RoutingServiceEntityType \<Rightarrow> (string \<times> 'r json_node) list \<Rightarrow> 'r mace \<Rightarrow> 'r mace cxx" where
  "parse_members fp kind [] m = Ret m"
| "parse_members fp kind ((name, node) # ms) m = cxx_bind (parse_member fp kind name node m) (parse_members fp kind ms)"

text \<open>What is done with an element after its members have been read.\<close>

definition finish_element :: "'r fp \<Rightarrow> 'r mace \<Rightarrow> 'r mace cxx" where
  "finish_element fp m =
     (let m1 = (if m_modbus_datatype m = no_modbus_datatype \<and> m_constant_kind m \<noteq> undefined_kind
                then m\<lparr>m_modbus_datatype := constant_value\<rparr> else m)
      in cxx_bind (check_for_errors fp m1) (\<lambda>_.
         cxx_bind
           (if m_modbus_register_count m1 \<noteq> 0 \<and> m_modbus_datatype m1 \<noteq> constant_value
            then set_array_elements_from_config m1 else Ret m1) (\<lambda>m2.
           if m_array_elements m2 = 0 \<and> m_modbus_datatype m2 \<noteq> constant_value
           then cxx_bind (number_of_registers_primitive_type m2) (\<lambda>n. Ret (m2\<lparr>m_modbus_register_count := ucast n\<rparr>))
           else Ret m2)))"

fun parse_elements ::
    "'r fp \<Rightarrow> 'r modbus_regs \<Rightarrow> RoutingServiceEntityType \<Rightarrow> 'r json_node list \<Rightarrow> 'r mace list \<Rightarrow> 'r mace list cxx" where
  "parse_elements fp mb kind [] config = Ret config"
| "parse_elements fp mb kind (json_object ms # vs) config =
     cxx_bind (parse_members fp kind ms (ModbusAdapterConfigurationElement_new fp mb)) (\<lambda>m.
     cxx_bind (finish_element fp m) (\<lambda>m1. parse_elements fp mb kind vs (config @ [m1])))"
| "parse_elements fp mb kind (_ # vs) config = Throw RuntimeError"

text \<open>\<open>json\<close> is the parser; \<^verbatim>\<open>json_document::parse\<close> throws when it returns NULL.\<close>

definition parse_json_config_string ::
    "'r fp \<Rightarrow> 'r modbus_regs \<Rightarrow> (string \<Rightarrow> 'r json_node option) \<Rightarrow> RoutingServiceEntityType \<Rightarrow> string \<Rightarrow> 'r mace list
       \<Rightarrow> 'r mace list cxx" where
  "parse_json_config_string fp mb json kind json_content config =
     (case json json_content of
        None \<Rightarrow> Throw RuntimeError
      | Some (json_array vs) \<Rightarrow> parse_elements fp mb kind vs config
      | Some _ \<Rightarrow> Throw RuntimeError)"

definition parse_json_config_file ::
    "'r fp \<Rightarrow> 'r modbus_regs \<Rightarrow> (string \<Rightarrow> 'r json_node option) \<Rightarrow> (string \<rightharpoonup> string) \<Rightarrow> RoutingServiceEntityType \<Rightarrow> string
       \<Rightarrow> 'r mace list \<Rightarrow> 'r mace list cxx" where
  "parse_json_config_file fp mb json files kind json_file_name config =
     (case files json_file_name of
        None \<Rightarrow> Throw RuntimeError
      | Some content \<Rightarrow> parse_json_config_string fp mb json kind content config)"

section \<open>Types of members\<close>

text \<open>
  \<open>ty_member\<close> throws when there is no such member.  \<open>ty_dimensions\<close> and \<open>ty_elements\<close> are for arrays, \<open>ty_bounds\<close> for
  sequences and strings, \<open>ty_content\<close> for arrays and sequences, \<open>ty_ordinal\<close> says whether an enumeration has the value.
\<close>

record 't type_api =
  ty_kind :: "'t \<Rightarrow> TypeKind"
  ty_member :: "'t \<Rightarrow> string \<Rightarrow> 't cxx"
  ty_content :: "'t \<Rightarrow> 't"
  ty_dimensions :: "'t \<Rightarrow> nat"
  ty_elements :: "'t \<Rightarrow> 32 word"
  ty_bounds :: "'t \<Rightarrow> 32 word"
  ty_ordinal :: "'t \<Rightarrow> int \<Rightarrow> bool"

text \<open>\<^verbatim>\<open>input.find(delim, position)\<close>.\<close>

definition find_char :: "char \<Rightarrow> string \<Rightarrow> nat \<Rightarrow> nat option" where
  "find_char delim input pos =
     (if delim \<in> set (drop pos input) then Some (pos + length (takeWhile (\<lambda>c. c \<noteq> delim) (drop pos input))) else None)"

lemma takeWhile_length_less: "x \<in> set xs \<Longrightarrow> \<not> P x \<Longrightarrow> length (takeWhile P xs) < length xs"
  by (induction xs) auto

lemma find_char_bounds: "find_char delim input pos = Some l \<Longrightarrow> pos \<le> l \<and> l < length input"
proof -
  assume "find_char delim input pos = Some l"
  then have d: "delim \<in> set (drop pos input)" and l: "l = pos + length (takeWhile (\<lambda>c. c \<noteq> delim) (drop pos input))"
    by (auto simp: find_char_def split: if_splits)
  have "length (takeWhile (\<lambda>c. c \<noteq> delim) (drop pos input)) < length (drop pos input)"
    using d by (rule takeWhile_length_less) simp
  then show ?thesis using l by simp
qed

function split_loop :: "string \<Rightarrow> char \<Rightarrow> nat \<Rightarrow> string list \<Rightarrow> string list" where
  "split_loop input delim prev_position output =
     (case find_char delim input prev_position of
        Some position \<Rightarrow>
          let word_length = position - prev_position in
          split_loop input delim (prev_position + (word_length + 1))
            (output @ [take word_length (drop prev_position input)])
      | None \<Rightarrow> output @ [drop prev_position input])"
  by pat_completeness auto
termination
  by (relation "measure (\<lambda>(input, delim, pos, output). length input - pos)") (auto dest: find_char_bounds)

declare split_loop.simps [simp del]

definition split :: "string \<Rightarrow> char \<Rightarrow> string list" where
  "split input delim = split_loop input delim 0 []"

fun nested_type :: "'t type_api \<Rightarrow> 't \<Rightarrow> string list \<Rightarrow> 't cxx" where
  "nested_type ty type [] = Ret type"
| "nested_type ty type (name # names) =
     (if ty_kind ty type = STRUCTURE_TYPE
      then cxx_bind (ty_member ty type name) (\<lambda>t. nested_type ty t names)
      else Throw RuntimeError)"

definition get_member_type :: "'t type_api \<Rightarrow> 't \<Rightarrow> string \<Rightarrow> 't cxx" where
  "get_member_type ty struct_type field_name =
     (if CHR ''.'' \<in> set field_name then
        (case split field_name (CHR ''.'') of
           [] \<Rightarrow> Undefined
         | name # names \<Rightarrow> cxx_bind (ty_member ty struct_type name) (\<lambda>t. nested_type ty t names))
      else ty_member ty struct_type field_name)"

section \<open>Checking a configuration against a type\<close>

definition is_read_only :: "ModbusDataType \<Rightarrow> bool" where
  "is_read_only t =
     (t \<in> {discrete_input_boolean, input_register_int8, input_register_int16, input_register_int32, input_register_int64,
           input_register_float_abcd, input_register_float_badc, input_register_float_cdab, input_register_float_dcba})"

text \<open>
  The loop works on a copy of each element, so that a minimum of zero for unsigned fields only counts
  for the check that follows.
\<close>

definition unsigned_minimum :: "'r fp \<Rightarrow> 'r mace \<Rightarrow> TypeKind \<Rightarrow> 'r mace cxx" where
  "unsigned_minimum fp m kind =
     (if is_register (m_modbus_datatype m) \<and> \<not> is_int8 (m_modbus_datatype m) then
        cxx_bind (is_signed_kind kind) (\<lambda>sg.
        cxx_bind (check_min_max_consistency fp m (\<not> sg)) (\<lambda>_.
          Ret (if sg then m else m\<lparr>m_modbus_min_value := fp_of_int fp 0\<rparr>)))
      else Ret m)"

definition check_array :: "'r fp \<Rightarrow> 't type_api \<Rightarrow> 'r mace \<Rightarrow> 't \<Rightarrow> unit cxx" where
  "check_array fp ty m type =
     cxx_bind (unsigned_minimum fp m (ty_kind ty (ty_content ty type))) (\<lambda>m1.
     cxx_bind (throw_if (ty_dimensions ty type \<noteq> 1)) (\<lambda>_.
     cxx_bind (throw_if (unat (ty_elements ty type) \<noteq> unat (m_array_elements m1))) (\<lambda>_.
     cxx_bind (is_compatible_dds_datatype fp m1 (ty_kind ty (ty_content ty type))) (\<lambda>ok. throw_if (\<not> ok)))))"

definition check_sequence :: "'r fp \<Rightarrow> 't type_api \<Rightarrow> 'r mace \<Rightarrow> 't \<Rightarrow> unit cxx" where
  "check_sequence fp ty m type =
     cxx_bind (throw_if (unat (ty_bounds ty type) < unat (m_array_elements m))) (\<lambda>_.
     cxx_bind (unsigned_minimum fp m (ty_kind ty (ty_content ty type))) (\<lambda>m1.
     cxx_bind (is_compatible_dds_datatype fp m1 (ty_kind ty (ty_content ty type))) (\<lambda>ok. throw_if (\<not> ok))))"

definition check_primitive :: "'r fp \<Rightarrow> 't type_api \<Rightarrow> 'r mace \<Rightarrow> 't \<Rightarrow> unit cxx" where
  "check_primitive fp ty m type =
     cxx_bind (unsigned_minimum fp m (ty_kind ty type)) (\<lambda>m1.
     cxx_bind (is_compatible_dds_datatype fp m1 (ty_kind ty type)) (\<lambda>ok.
     cxx_bind (throw_if (ty_kind ty type = ENUMERATION_TYPE \<and>
         \<not> list_all (\<lambda>r. ty_ordinal ty type (static_cast fp 32 True r)) (m_modbus_valid_values m1))) (\<lambda>_.
       throw_if (\<not> ok))))"

definition check_element ::
    "'r fp \<Rightarrow> 't type_api \<Rightarrow> RoutingServiceEntityType \<Rightarrow> 't \<Rightarrow> 'r mace \<Rightarrow> unit cxx" where
  "check_element fp ty kind dds_type m =
     cxx_bind (throw_if (kind = stream_writer \<and> m_modbus_datatype m = constant_value)) (\<lambda>_.
     cxx_bind (throw_if (kind = stream_writer \<and> is_read_only (m_modbus_datatype m))) (\<lambda>_.
     cxx_bind (get_member_type ty dds_type (m_field m)) (\<lambda>type.
       if m_array_elements m \<noteq> 0 then
         (if ty_kind ty type = ARRAY_TYPE then check_array fp ty m type
          else if ty_kind ty type = SEQUENCE_TYPE then check_sequence fp ty m type
          else Throw RuntimeError)
       else check_primitive fp ty m type)))"

fun check_configuration_consistency ::
    "'r fp \<Rightarrow> 't type_api \<Rightarrow> RoutingServiceEntityType \<Rightarrow> 't \<Rightarrow> 'r mace list \<Rightarrow> unit cxx" where
  "check_configuration_consistency fp ty kind dds_type [] = Ret ()"
| "check_configuration_consistency fp ty kind dds_type (m # ms) =
     cxx_bind (check_element fp ty kind dds_type m) (\<lambda>_. check_configuration_consistency fp ty kind dds_type ms)"

end
