(* ===== verification/ModbusTheorems.thy ===== *)
theory ModbusTheorems
  imports ModbusConfig
begin

text \<open>
  Properties of the configuration of the Modbus adapter: what every accepted element satisfies, that a
  configuration can be written and read back, that values survive the way through the registers,
  and where the conversion leaves the registers of its vector.
\<close>

section \<open>Nested names\<close>

fun split_ref :: "char \<Rightarrow> string \<Rightarrow> string list" where
  "split_ref d [] = [[]]"
| "split_ref d (c # cs) =
     (if c = d then [] # split_ref d cs else (c # hd (split_ref d cs)) # tl (split_ref d cs))"

lemma split_ref_not_Nil [simp]: "split_ref d s \<noteq> []"
  by (cases s) auto

lemma split_ref_takeWhile:
  "split_ref d s =
     (if d \<in> set s then takeWhile (\<lambda>c. c \<noteq> d) s # split_ref d (drop (length (takeWhile (\<lambda>c. c \<noteq> d) s) + 1) s) else [s])"
  by (induction s) auto

lemma split_loop_ref: "split_loop input d pos out = out @ split_ref d (drop pos input)"
proof (induction input d pos out rule: split_loop.induct)
  case (1 input d pos out)
  show ?case
  proof (cases "find_char d input pos")
    case None
    then show ?thesis
      by (subst split_loop.simps, subst split_ref_takeWhile) (auto simp: find_char_def split: if_splits)
  next
    case (Some l)
    then have d: "d \<in> set (drop pos input)" and l: "l = pos + length (takeWhile (\<lambda>c. c \<noteq> d) (drop pos input))"
      by (auto simp: find_char_def split: if_splits)
    have "split_loop input d pos out =
        (out @ [take (l - pos) (drop pos input)]) @ split_ref d (drop (l + 1) input)"
      using Some l 1 [OF Some refl] by (subst split_loop.simps) (simp add: Let_def)
    then show ?thesis
      using d l split_ref_takeWhile [of d "drop pos input"] takeWhile_eq_take [of "\<lambda>c. c \<noteq> d" "drop pos input"]
      by (simp add: add.commute)
  qed
qed

fun join :: "char \<Rightarrow> string list \<Rightarrow> string" where
  "join d [] = []"
| "join d [s] = s"
| "join d (s # t # ts) = s @ d # join d (t # ts)"

lemma split_ref_append: "d \<notin> set s \<Longrightarrow> split_ref d (s @ d # t) = s # split_ref d t"
  by (induction s) auto

lemma split_join_names: "names \<noteq> [] \<Longrightarrow> \<forall>s \<in> set names. d \<notin> set s \<Longrightarrow> split (join d names) d = names"
proof -
  have "split_ref d s = [s]" if "d \<notin> set s" for s using that by (induction s) auto
  then have "names \<noteq> [] \<Longrightarrow> \<forall>s \<in> set names. d \<notin> set s \<Longrightarrow> split_ref d (join d names) = names"
    by (induction names rule: join.induct) (auto simp: split_ref_append)
  then show "names \<noteq> [] \<Longrightarrow> \<forall>s \<in> set names. d \<notin> set s \<Longrightarrow> split (join d names) d = names"
    by (simp add: split_def split_loop_ref)
qed

lemma get_member_type_path:
  assumes "\<forall>s \<in> set (name # names). CHR ''.'' \<notin> set s"
  shows "get_member_type ty t (join (CHR ''.'') (name # names)) =
           cxx_bind (ty_member ty t name) (\<lambda>t1. nested_type ty t1 names)"
proof (cases names)
  case Nil
  then show ?thesis using assms by (cases "ty_member ty t name") (auto simp: get_member_type_def)
next
  case (Cons n ns)
  then show ?thesis
    using split_join_names [of "name # names" "CHR ''.''"] assms by (simp add: get_member_type_def)
qed

section \<open>Registers of a type\<close>

definition writable :: "ModbusDataType \<Rightarrow> bool" where
  "writable t = (t \<in> {holding_register_int8, holding_register_int16, holding_register_int32, holding_register_int64,
     holding_register_float_abcd, holding_register_float_badc, holding_register_float_cdab, holding_register_float_dcba})"

definition step_of :: "'r mace \<Rightarrow> nat" where
  "step_of m = (case number_of_registers_primitive_type m of Ret n \<Rightarrow> unat n | _ \<Rightarrow> 0)"

lemma number_of_registers_cases:
  "number_of_registers_primitive_type m = Ret n \<Longrightarrow> n = 1 \<or> n = 2 \<or> n = 4"
  by (auto simp: number_of_registers_primitive_type_def split: ModbusDataType.splits)

lemma number_of_registers_Ret:
  "m_modbus_datatype m \<noteq> constant_value \<Longrightarrow> m_modbus_datatype m \<noteq> no_modbus_datatype \<Longrightarrow>
     \<exists>n. number_of_registers_primitive_type m = Ret n"
  by (simp add: number_of_registers_primitive_type_def split: ModbusDataType.splits)

definition encoded :: "'r fp \<Rightarrow> 'r modbus_regs \<Rightarrow> 'r mace \<Rightarrow> 'r \<Rightarrow> reg list" where
  "encoded fp mb m v = (case registers_of_value fp mb m v of Ret ws \<Rightarrow> ws | _ \<Rightarrow> [])"

lemma writable_encoded:
  assumes "mb_laws mb" "writable (m_modbus_datatype m)"
  shows "registers_of_value fp mb m v = Ret (encoded fp mb m v)"
    and "length (encoded fp mb m v) = step_of m"
    and "number_of_registers_primitive_type m = Ret (of_nat (step_of m))" and "0 < step_of m"
  using assms
  by (auto simp: writable_def encoded_def registers_of_value_def step_of_def number_of_registers_primitive_type_def
      mb_laws_def Let_def)

abbreviation linear :: "'r fp \<Rightarrow> 'r mace \<Rightarrow> 'r \<Rightarrow> 'r" where
  "linear fp m v \<equiv> fp_add fp (m_data_offset m) (fp_mul fp v (m_data_factor m))"

lemma registers_loop_writes:
  assumes "mb_laws mb" "writable (m_modbus_datatype m)"
    and "\<forall>v \<in> set vs. check_correct_value fp m (linear fp m v) = Ret ()"
  shows "registers_loop fp mb m pos vs out =
           (if vs = [] \<or> pos + length vs * step_of m \<le> length out
            then Ret (take pos out @ concat (map (encoded fp mb m) vs) @ drop (pos + length vs * step_of m) out)
            else Undefined)"
  using assms(3)
proof (induction vs arbitrary: pos out)
  case (Cons v vs)
  note enc = writable_encoded [OF assms(1,2)]
  have u: "unat (of_nat (step_of m) :: 64 word) = step_of m"
    using enc(3) by (simp add: step_of_def split: cxx.splits)
  show ?case
  proof (cases "pos + step_of m \<le> length out")
    case True
    have len: "length (take pos out @ encoded fp mb m v @ drop (pos + step_of m) out) = length out"
      using True enc(2) by simp
    show ?thesis
      using Cons enc u True len by (simp add: algebra_simps)
  next
    case False
    then show ?thesis using Cons.prems enc by simp
  qed
qed simp

text \<open>
  Claim C35. Writing values to the vector of registers stays inside it exactly when their number times
  the registers of the type fits; then the vector holds their encodings one after the other.
  Nothing limits the number of values: with more of them the loop writes beyond the vector.
\<close>

theorem registers_write_bounds:
  assumes "mb_laws mb" and "writable (m_modbus_datatype m)"
    and "\<forall>v \<in> set vs. check_correct_value fp m (linear fp m v) = Ret ()"
  shows "get_registers_value fp mb m out vs =
           (if length vs * step_of m \<le> length out
            then Ret (concat (map (encoded fp mb m) vs) @ drop (length vs * step_of m) out)
            else Undefined)"
  using registers_loop_writes [OF assms, of 0 out] by (auto simp: get_registers_value_def)


section \<open>Accepted elements\<close>

text \<open>
  What an element of a configuration satisfies after it has been read: a field and a type; a range;
  a constant, or an address and registers whose number is that of its type times the number of its
  elements (one when \<open>m_array_elements\<close> is 0).
\<close>

definition mace_wf :: "'r fp \<Rightarrow> 'r mace \<Rightarrow> bool" where
  "mace_wf fp m \<longleftrightarrow>
     m_field m \<noteq> '''' \<and> m_modbus_datatype m \<noteq> no_modbus_datatype \<and>
     \<not> fp_less fp (m_modbus_max_value m) (m_modbus_min_value m) \<and>
     (if m_modbus_datatype m = constant_value then m_constant_kind m \<noteq> undefined_kind \<and> m_array_elements m = 0
      else m_modbus_register_address m \<noteq> - 1 \<and> m_constant_kind m = undefined_kind \<and> m_array_elements m \<noteq> 1 \<and>
           0 < step_of m \<and>
           unat (register_count_size m) = (if m_array_elements m = 0 then 1 else unat (m_array_elements m)) * step_of m)"

text \<open>While the members are read the type is never \<open>constant_value\<close>, and the number of elements is not set.\<close>

lemma datatype_from_string_not_constant:
  "modbus_datatype_from_string s = Ret t \<Longrightarrow> t \<noteq> constant_value \<and> t \<noteq> no_modbus_datatype"
  by (auto simp: modbus_datatype_from_string_def split: if_splits)

lemma parse_value_keeps:
  "parse_value fp node m = Ret m1 \<Longrightarrow>
     m_array_elements m1 = m_array_elements m \<and> m_modbus_datatype m1 = m_modbus_datatype m"
  by (cases node) auto

lemma parse_member_keeps:
  assumes "parse_member fp kind name node m = Ret m1" "m_modbus_datatype m \<noteq> constant_value"
  shows "m_array_elements m1 = m_array_elements m \<and> m_modbus_datatype m1 \<noteq> constant_value"
  using assms unfolding parse_member_def Let_def
  by (auto split: if_splits json_node.splits dest: parse_value_keeps datatype_from_string_not_constant)

lemma parse_members_keeps:
  "parse_members fp kind ms m = Ret m1 \<Longrightarrow> m_modbus_datatype m \<noteq> constant_value \<Longrightarrow>
     m_array_elements m1 = m_array_elements m \<and> m_modbus_datatype m1 \<noteq> constant_value"
  by (induction ms arbitrary: m) (fastforce dest: parse_member_keeps)+

lemma calculate_array_elements_Ret:
  assumes "calculate_array_elements m = Ret n"
  shows "n \<noteq> 0 \<and> 0 < step_of m \<and> unat (register_count_size m) = unat n * step_of m"
proof -
  obtain k where k: "number_of_registers_primitive_type m = Ret k"
    using assms by (auto simp: calculate_array_elements_def)
  have r: "register_count_size m mod k = 0" "\<not> register_count_size m div k < 1" and n: "n = register_count_size m div k"
    using assms k by (auto simp: calculate_array_elements_def)
  have s: "step_of m = unat k" using k by (simp add: step_of_def)
  have "unat (register_count_size m) mod unat k = 0"
    using r(1) by (metis unat_0 unat_mod)
  then have "unat (register_count_size m) = unat n * unat k"
    using n by (simp add: unat_div mod_0_imp_dvd)
  moreover have "n \<noteq> 0" using r(2) n by (simp add: word_less_1)
  moreover have "0 < unat k" using number_of_registers_cases [OF k] by auto
  ultimately show ?thesis using s by simp
qed

lemma step_of_update [simp]:
  "step_of (m\<lparr>m_array_elements := a\<rparr>) = step_of m" "step_of (m\<lparr>m_modbus_register_count := c\<rparr>) = step_of m"
  by (simp_all add: step_of_def number_of_registers_primitive_type_def)

lemma register_count_of_step:
  assumes "number_of_registers_primitive_type m = Ret n"
  shows "unat (register_count_size (m\<lparr>m_modbus_register_count := ucast n\<rparr>)) = step_of m" and "0 < step_of m"
  using number_of_registers_cases [OF assms] assms by (auto simp: register_count_size_def step_of_def)

lemma finish_element_wf:
  assumes "finish_element fp m = Ret m1" "m_array_elements m = 0" "m_modbus_datatype m \<noteq> constant_value"
  shows "mace_wf fp m1"
proof (cases "m_modbus_datatype m = no_modbus_datatype")
  case True
  then show ?thesis
    using assms by (auto simp: finish_element_def check_for_errors_def mace_wf_def split: if_splits)
next
  case False
  have c: "check_for_errors fp m = Ret ()" using assms False by (auto simp: finish_element_def)
  show ?thesis
  proof (cases "m_modbus_register_count m = 0")
    case True
    obtain n where n: "number_of_registers_primitive_type m = Ret n" "m1 = m\<lparr>m_modbus_register_count := ucast n\<rparr>"
      using assms False True by (auto simp: finish_element_def)
    show ?thesis
      using c n register_count_of_step [OF n(1)] assms False by (auto simp: mace_wf_def check_for_errors_def)
  next
    case nz: False
    obtain k where k: "calculate_array_elements m = Ret k"
      using assms False nz by (auto simp: finish_element_def set_array_elements_from_config_def)
    note ks = calculate_array_elements_Ret [OF k]
    show ?thesis
    proof (cases "k = 1")
      case True
      obtain n where n: "number_of_registers_primitive_type m = Ret n"
        and m1: "m1 = m\<lparr>m_array_elements := 0, m_modbus_register_count := ucast n\<rparr>"
        using assms False nz k True
        by (auto simp: finish_element_def set_array_elements_from_config_def number_of_registers_primitive_type_def)
      show ?thesis
        using c m1 register_count_of_step [OF n] assms False
        by (auto simp: mace_wf_def check_for_errors_def register_count_size_def)
    next
      case False
      then have "m1 = m\<lparr>m_array_elements := k\<rparr>"
        using assms \<open>m_modbus_datatype m \<noteq> no_modbus_datatype\<close> nz k ks
        by (auto simp: finish_element_def set_array_elements_from_config_def)
      then show ?thesis
        using c ks assms False \<open>m_modbus_datatype m \<noteq> no_modbus_datatype\<close>
        by (auto simp: mace_wf_def check_for_errors_def register_count_size_def)
    qed
  qed
qed

lemma parse_elements_wf:
  "parse_elements fp mb kind vs config = Ret config1 \<Longrightarrow> \<forall>m \<in> set config. mace_wf fp m \<Longrightarrow>
     \<forall>m \<in> set config1. mace_wf fp m"
proof (induction fp mb kind vs config rule: parse_elements.induct)
  case (2 fp mb kind ms vs config)
  obtain m m1 where m: "parse_members fp kind ms (ModbusAdapterConfigurationElement_new fp mb) = Ret m"
    and m1: "finish_element fp m = Ret m1" and r: "parse_elements fp mb kind vs (config @ [m1]) = Ret config1"
    using 2 by auto
  have "m_array_elements m = 0 \<and> m_modbus_datatype m \<noteq> constant_value"
    using parse_members_keeps [OF m] by (simp add: ModbusAdapterConfigurationElement_new_def)
  then have "mace_wf fp m1" using finish_element_wf [OF m1] by simp
  then have "\<forall>m \<in> set (config @ [m1]). mace_wf fp m" using 2(3) by auto
  then show ?case by (rule 2(1) [OF r])
qed simp_all

text \<open>
  Claim C34. Every element of a configuration that is accepted is well formed: it has a field, a type
  and a range that is not empty; it is a constant, or it has an address and exactly the registers
  that its elements need.
\<close>

theorem parsed_configuration_wf:
  assumes "parse_json_config_string fp mb json kind content [] = Ret config"
  shows "\<forall>m \<in> set config. mace_wf fp m"
  using assms parse_elements_wf [of fp mb kind _ "[]" config]
  by (auto simp: parse_json_config_string_def split: option.splits json_node.splits)


section \<open>Values through registers\<close>

definition int_width :: "ModbusDataType \<Rightarrow> nat" where
  "int_width t =
     (if t = holding_register_int8 then 8 else if t = holding_register_int16 then 16
      else if t = holding_register_int32 then 32 else 64)"

text \<open>
  The integers that come back: those that the type and a \<^verbatim>\<open>float\<close> can hold; an unsigned field with 16-bit
  registers only takes 8 bits of them.
\<close>

definition survives :: "ModbusDataType \<Rightarrow> bool \<Rightarrow> int \<Rightarrow> bool" where
  "survives t sg v \<longleftrightarrow>
     int_range (int_width t) sg v \<and> \<bar>v\<bar> \<le> 2 ^ 24 \<and> (t = holding_register_int16 \<and> \<not> sg \<longrightarrow> v < 2 ^ 8)"

lemma sint_word_of_int_range:
  "int_range LENGTH('a) True v \<Longrightarrow> sint (word_of_int v :: 'a::len word) = v"
  by (simp add: int_range_def sint_sbintrunc' signed_take_bit_int_eq_self)

lemma uint_word_of_int_range:
  "int_range LENGTH('a) False v \<Longrightarrow> uint (word_of_int v :: 'a::len word) = v"
  by (simp add: int_range_def uint_word_of_int_eq take_bit_int_eq_self)

lemma word_of_int_mod: "word_of_int (v mod 2 ^ LENGTH('a)) = (word_of_int v :: 'a::len word)"
  by (simp add: word_of_int_eq_iff flip: take_bit_eq_mod)

lemmas word_of_int_mods = word_of_int_mod [where 'a = 16, simplified] word_of_int_mod [where 'a = 32, simplified]
  word_of_int_mod [where 'a = 64, simplified]

text \<open>One value: what is written is read back, when the range of the element allows it.\<close>

lemma survives_bounds:
  assumes "survives t sg v"
  shows "\<bar>v\<bar> \<le> 2 ^ 24" "\<bar>v\<bar> \<le> 2 ^ 53" "int_range (int_width t) sg v"
  using assms by (auto simp: survives_def)

lemma read_int_survives:
  assumes "fp_laws fp" "m_data_factor m = fp_of_int fp 1" "m_data_offset m = fp_of_int fp 0" "\<bar>v\<bar> \<le> 2 ^ 24"
    and "check_correct_value fp m (fp_of_int fp v) = Ret ()" "cast (fp_of_int fp v) = v"
  shows "read_int fp m (fp_of_int fp v) v cast = Ret (fp_of_int fp v)"
  using assms fp_lawsD_f32 [OF assms(1,4)] by (simp add: read_int_def f32_linear_def)

lemma value_survives:
  assumes laws: "fp_laws fp" "mb_laws mb"
    and lin: "m_data_factor m = fp_of_int fp 1" "m_data_offset m = fp_of_int fp 0"
    and t: "m_modbus_datatype m \<in> {holding_register_int8, holding_register_int16, holding_register_int32,
              holding_register_int64}"
    and sg: "is_signed_kind kind = Ret sg" and v: "survives (m_modbus_datatype m) sg v"
    and ok: "check_correct_value fp m (fp_of_int fp v) = Ret ()"
  shows "value_of_registers fp mb m kind (encoded fp mb m (fp_of_int fp v) @ rest) = Ret (fp_of_int fp v)"
proof -
  let ?t = "m_modbus_datatype m"
  note b = survives_bounds [OF v]
  have l: "linear fp m (fp_of_int fp v) = fp_of_int fp v"
    using fp_lawsD(2) [OF laws(1) b(2)] lin by simp
  have u: "safe_cast_unsigned fp (int_width ?t) (fp_of_int fp v) = v mod 2 ^ int_width ?t"
    using safe_cast_unsigned_exact [OF laws(1) b(2)] b(3) by (cases sg) auto
  have s: "sg \<Longrightarrow> safe_cast_signed fp (int_width ?t) (fp_of_int fp v) = v"
    using safe_cast_signed_exact [OF laws(1) b(2)] b(3) by simp
  have u8: "int_range w False v \<Longrightarrow> safe_cast_unsigned fp w (fp_of_int fp v) = v" for w
    using safe_cast_unsigned_exact [OF laws(1) b(2)] by (simp add: int_range_def)
  note rd = read_int_survives [OF laws(1) lin b(1) ok]
  consider (i8) "?t = holding_register_int8" | (i16) "?t = holding_register_int16"
    | (i32) "?t = holding_register_int32" | (i64) "?t = holding_register_int64" using t by blast
  then show ?thesis
  proof cases
    case i8
    have w: "ucast (word_of_int (v mod 2 ^ 8) :: reg) = (word_of_int v :: 8 word)"
      unfolding take_bit_eq_mod [symmetric] by (rule bit_word_eqI) (simp add: bit_simps)
    show ?thesis
      using i8 l u sg s b(3) w rd u8 [of 8]
      by (cases sg) (auto simp: value_of_registers_def encoded_def registers_of_value_def Let_def int_width_def
          sint_word_of_int_range uint_word_of_int_range word_of_int_mods)
  next
    case i16
    have "\<not> sg \<Longrightarrow> int_range 8 False v" using v i16 by (auto simp: survives_def int_range_def)
    then show ?thesis
      using i16 l u sg s b(3) rd u8 [of 8]
      by (cases sg) (auto simp: value_of_registers_def encoded_def registers_of_value_def Let_def int_width_def
          sint_word_of_int_range uint_word_of_int_range word_of_int_mods)
  next
    case i32
    then show ?thesis
      using l u sg s b(3) rd u8 [of 32] laws(2)
      by (cases sg) (auto simp: value_of_registers_def encoded_def registers_of_value_def Let_def int_width_def
          sint_word_of_int_range uint_word_of_int_range word_of_int_mods mb_laws_def)
  next
    case i64
    then show ?thesis
      using l u sg s b(3) rd u8 [of 64] laws(2)
      by (cases sg) (auto simp: value_of_registers_def encoded_def registers_of_value_def Let_def int_width_def
          sint_word_of_int_range uint_word_of_int_range word_of_int_mods mb_laws_def)
  qed
qed


lemma registers_loop_checks:
  "registers_loop fp mb m pos vs out = Ret regs \<Longrightarrow> \<forall>v \<in> set vs. check_correct_value fp m (linear fp m v) = Ret ()"
  by (induction vs arbitrary: pos out) (auto split: if_splits)

lemma float_loop_blocks:
  assumes "0 < step" "\<forall>v \<in> set vs. length (enc v) = step"
    and "\<forall>v \<in> set vs. \<forall>rest. value_of_registers fp mb m kind (enc v @ rest) = Ret (val v)"
    and "length pre + length vs * step = unat (register_count_size m)"
  shows "float_loop fp mb m kind (pre @ concat (map enc vs)) step (length pre) acc = Ret (acc @ map val vs)"
  using assms
proof (induction vs arbitrary: pre acc)
  case Nil
  then show ?case by (simp add: float_loop.simps)
next
  case (Cons v vs)
  have "float_loop fp mb m kind ((pre @ enc v) @ concat (map enc vs)) step (length (pre @ enc v)) (acc @ [val v]) =
      Ret ((acc @ [val v]) @ map val vs)"
    using Cons.prems by (intro Cons.IH) auto
  then show ?case
    using Cons.prems by (subst float_loop.simps) (simp add: add.commute)
qed

text \<open>
  Integers written to holding registers are read back unchanged, for every integer type and
  any number of values, when the linear transformation is the identity and the values are within
  the limits of \<open>survives\<close>: those of the type, of \<^verbatim>\<open>float\<close>, and 8 bits for an unsigned field in 16-bit registers.
\<close>

theorem register_values_roundtrip:
  assumes "fp_laws fp" and "mb_laws mb"
    and "m_data_factor m = fp_of_int fp 1" and "m_data_offset m = fp_of_int fp 0"
    and "m_modbus_datatype m \<in> {holding_register_int8, holding_register_int16, holding_register_int32, holding_register_int64}"
    and "is_signed_kind kind = Ret sg" and "\<forall>v \<in> set vs. survives (m_modbus_datatype m) sg v"
    and "unat (register_count_size m) = length vs * step_of m" and "length out = length vs * step_of m"
    and "get_registers_value fp mb m out (map (fp_of_int fp) vs) = Ret regs"
  shows "get_float_value fp mb m regs kind = Ret (map (fp_of_int fp) vs)"
proof -
  let ?enc = "\<lambda>v. encoded fp mb m (fp_of_int fp v)"
  have w: "writable (m_modbus_datatype m)" using assms(5) by (auto simp: writable_def)
  note enc = writable_encoded [OF assms(2) w]
  have lin: "v \<in> set vs \<Longrightarrow> linear fp m (fp_of_int fp v) = fp_of_int fp v" for v
    using fp_lawsD(2) [OF assms(1)] assms(3,4,7) survives_bounds(2) by auto
  have ok: "\<forall>v \<in> set (map (fp_of_int fp) vs). check_correct_value fp m (linear fp m v) = Ret ()"
    using registers_loop_checks assms(10) unfolding get_registers_value_def by blast
  have "regs = concat (map ?enc vs)"
    using registers_loop_writes [OF assms(2) w ok, of 0 out] assms(9,10)
    by (simp add: get_registers_value_def comp_def)
  moreover have "\<forall>v \<in> set vs. \<forall>rest. value_of_registers fp mb m kind (?enc v @ rest) = Ret (fp_of_int fp v)"
    using value_survives [OF assms(1-6)] assms(7) ok lin by auto
  then have "float_loop fp mb m kind (concat (map ?enc vs)) (step_of m) 0 [] = Ret (map (fp_of_int fp) vs)"
    using float_loop_blocks [of "step_of m" vs ?enc fp mb m kind "fp_of_int fp" "[]" "[]"] enc assms(8) by simp
  moreover have "unat (of_nat (step_of m) :: 64 word) = step_of m"
    using enc(3) by (simp add: step_of_def split: cxx.splits)
  ultimately show ?thesis
    using enc(3,4) assms(8) by (cases "vs = []") (auto simp: get_float_value_def unat_eq_0)
qed

section \<open>Writing a configuration\<close>

definition datatype_name :: "ModbusDataType \<Rightarrow> string" where
  "datatype_name t =
     (case t of
        coil_boolean \<Rightarrow> ''COIL_BOOLEAN''
      | holding_register_int8 \<Rightarrow> ''HOLDING_REGISTER_INT8''
      | holding_register_int16 \<Rightarrow> ''HOLDING_REGISTER_INT16''
      | holding_register_int32 \<Rightarrow> ''HOLDING_REGISTER_INT32''
      | holding_register_int64 \<Rightarrow> ''HOLDING_REGISTER_INT64''
      | holding_register_float_abcd \<Rightarrow> ''HOLDING_REGISTER_FLOAT_ABCD''
      | holding_register_float_badc \<Rightarrow> ''HOLDING_REGISTER_FLOAT_BADC''
      | holding_register_float_cdab \<Rightarrow> ''HOLDING_REGISTER_FLOAT_CDAB''
      | holding_register_float_dcba \<Rightarrow> ''HOLDING_REGISTER_FLOAT_DCBA''
      | discrete_input_boolean \<Rightarrow> ''DISCRETE_INPUT_BOOLEAN''
      | input_register_int8 \<Rightarrow> ''INPUT_REGISTER_INT8''
      | input_register_int16 \<Rightarrow> ''INPUT_REGISTER_INT16''
      | input_register_int32 \<Rightarrow> ''INPUT_REGISTER_INT32''
      | input_register_int64 \<Rightarrow> ''INPUT_REGISTER_INT64''
      | input_register_float_abcd \<Rightarrow> ''INPUT_REGISTER_FLOAT_ABCD''
      | input_register_float_badc \<Rightarrow> ''INPUT_REGISTER_FLOAT_BADC''
      | input_register_float_cdab \<Rightarrow> ''INPUT_REGISTER_FLOAT_CDAB''
      | input_register_float_dcba \<Rightarrow> ''INPUT_REGISTER_FLOAT_DCBA''
      | _ \<Rightarrow> '''')"

lemma datatype_name_inverse:
  "t \<noteq> constant_value \<Longrightarrow> t \<noteq> no_modbus_datatype \<Longrightarrow>
     modbus_datatype_from_string (c_text (datatype_name t)) = Ret t"
  by (cases t) (simp_all add: datatype_name_def modbus_datatype_from_string_def c_text_def NUL_def)

definition mace_json :: "RoutingServiceEntityType \<Rightarrow> 'r mace \<Rightarrow> 'r json_node" where
  "mace_json kind m =
     json_object
       ([(''field'', json_string (m_field m)),
         (''modbus_register_address'', json_integer (scast (m_modbus_register_address m))),
         (''modbus_register_count'', json_integer (scast (m_modbus_register_count m))),
         (''modbus_slave_device_id'', json_integer (ucast (m_modbus_slave_device_id m))),
         (''modbus_datatype'', json_string (datatype_name (m_modbus_datatype m))),
         (''modbus_min_value'', json_double (m_modbus_min_value m)),
         (''modbus_max_value'', json_double (m_modbus_max_value m)),
         (''modbus_valid_values'', json_array (map json_double (m_modbus_valid_values m)))] @
        (case kind of
           stream_writer \<Rightarrow> [(''output_data_factor'', json_double (m_data_factor m)),
                              (''output_data_offset'', json_double (m_data_offset m))]
         | stream_reader \<Rightarrow> [(''input_data_factor'', json_double (m_data_factor m)),
                              (''input_data_offset'', json_double (m_data_offset m))]))"

text \<open>
  The elements that can be written so: well-formed ones for registers or coils, with factors of type
  \<^verbatim>\<open>float\<close>, a name without NUL, and without a constant.
\<close>

definition mace_writable :: "'r fp \<Rightarrow> 'r mace \<Rightarrow> bool" where
  "mace_writable fp m \<longleftrightarrow>
     mace_wf fp m \<and> m_modbus_datatype m \<noteq> constant_value \<and> cstring (m_field m) \<and>
     fp_float fp (m_data_factor m) = m_data_factor m \<and> fp_float fp (m_data_offset m) = m_data_offset m \<and>
     m_value_string m = '''' \<and> m_value_numeric m = fp_of_int fp 0 \<and> m_value_array m = []"

lemma json_numbers_doubles: "json_numbers (json_number fp) (map json_double rs) acc = Ret (acc @ rs)"
  by (induction rs arbitrary: acc) auto

lemma scast_ucast [simp]: "(ucast (scast (w :: 32 word) :: 64 word) :: 32 word) = w"
  by (rule bit_word_eqI) (simp add: bit_simps)

lemma ucast_ucast_8 [simp]: "(ucast (ucast (w :: 8 word) :: 64 word) :: 8 word) = w"
  by (rule bit_word_eqI) (simp add: bit_simps)

text \<open>The names of members, none of which is cut.\<close>

lemma c_text_names:
  "c_text ''field'' = ''field''"
  "c_text ''modbus_register_address'' = ''modbus_register_address''"
  "c_text ''modbus_register_count'' = ''modbus_register_count''"
  "c_text ''modbus_slave_device_id'' = ''modbus_slave_device_id''"
  "c_text ''modbus_datatype'' = ''modbus_datatype''"
  "c_text ''modbus_min_value'' = ''modbus_min_value''"
  "c_text ''modbus_max_value'' = ''modbus_max_value''"
  "c_text ''modbus_valid_values'' = ''modbus_valid_values''"
  "c_text ''output_data_factor'' = ''output_data_factor''"
  "c_text ''output_data_offset'' = ''output_data_offset''"
  "c_text ''input_data_factor'' = ''input_data_factor''"
  "c_text ''input_data_offset'' = ''input_data_offset''"
  by (simp_all add: c_text_def NUL_def)

lemma parse_members_mace_json:
  assumes "mace_writable fp m" "mace_json kind m = json_object ms"
  shows "parse_members fp kind ms (ModbusAdapterConfigurationElement_new fp mb) =
           Ret (m\<lparr>m_array_elements := 0\<rparr>)"
proof -
  have "m_constant_kind m = undefined_kind" "c_text (m_field m) = m_field m"
    using assms(1) by (auto simp: mace_writable_def mace_wf_def c_text_def cstring_def takeWhile_eq_all_conv)
  moreover have "modbus_datatype_from_string (c_text (datatype_name (m_modbus_datatype m))) = Ret (m_modbus_datatype m)"
    using assms(1) by (intro datatype_name_inverse) (auto simp: mace_writable_def mace_wf_def)
  ultimately show ?thesis
    using assms
    by (cases kind)
      (auto simp: mace_json_def parse_member_def Let_def c_text_names json_numbers_doubles mace_writable_def
        ModbusAdapterConfigurationElement_new_def)
qed

lemma finish_element_mace:
  assumes "mace_writable fp m"
  shows "finish_element fp (m\<lparr>m_array_elements := 0\<rparr>) = Ret m"
proof -
  have wf: "mace_wf fp m" and c: "m_modbus_datatype m \<noteq> constant_value"
    using assms by (auto simp: mace_writable_def)
  obtain n where n: "number_of_registers_primitive_type m = Ret n"
    using number_of_registers_Ret wf c by (auto simp: mace_wf_def)
  have s: "step_of m = unat n" "0 < unat n" using n wf c by (auto simp: step_of_def mace_wf_def)
  have e: "check_for_errors fp (m\<lparr>m_array_elements := 0\<rparr>) = Ret ()"
    using wf c by (simp add: check_for_errors_def mace_wf_def)
  have nn: "number_of_registers_primitive_type (m\<lparr>m_array_elements := x\<rparr>) = Ret n" for x
    using n by (simp add: number_of_registers_primitive_type_def)
  have rc: "register_count_size (m\<lparr>m_array_elements := x\<rparr>) = register_count_size m" for x
    by (simp add: register_count_size_def)
  define k where "k = (if m_array_elements m = 0 then 1 else m_array_elements m)"
  have u: "unat (register_count_size m) = unat k * unat n"
    using wf c s by (auto simp: mace_wf_def k_def)
  have k: "register_count_size m div n = k" "register_count_size m mod n = 0"
    using u s(2) by (auto simp: word_unat_eq_iff unat_div unat_mod)
  have nz: "m_modbus_register_count m \<noteq> 0"
    using u s(2) by (auto simp: register_count_size_def k_def unat_eq_0 split: if_splits)
  have calc: "calculate_array_elements (m\<lparr>m_array_elements := 0\<rparr>) = Ret k"
    using nn rc k by (simp add: calculate_array_elements_def k_def)
  have cnt: "m_array_elements m = 0 \<Longrightarrow> ucast n = m_modbus_register_count m"
    using u k_def by (metis mult.left_neutral register_count_size_def scast_ucast unat_1 word_unat_eq_iff)
  have "m_array_elements m \<noteq> 1" using wf c by (simp add: mace_wf_def)
  then show ?thesis
    using e c wf nz calc nn cnt
    by (auto simp: finish_element_def set_array_elements_from_config_def k_def mace_wf_def)
qed

lemma parse_elements_mace_json:
  "\<forall>m \<in> set config. mace_writable fp m \<Longrightarrow>
     parse_elements fp mb kind (map (mace_json kind) config) read = Ret (read @ config)"
proof (induction config arbitrary: read)
  case (Cons m config)
  obtain ms where ms: "mace_json kind m = json_object ms" by (simp add: mace_json_def)
  show ?case
    using Cons ms parse_members_mace_json [OF _ ms, of fp mb] finish_element_mace [of fp m] by simp
qed simp

text \<open>
  Claim C36. A configuration can be written as JSON and is read back exactly, for stream readers and stream
  writers.  Its elements are well-formed elements of registers or coils, with an address and registers and no constant value
  (constants are not covered), their factors and offsets are values of the type \<^verbatim>\<open>float\<close>, and the texts contain no zero character.  What is written
  is the parsed JSON tree: printing and parsing the text itself is the library's.
\<close>

theorem configuration_roundtrip:
  assumes "\<forall>m \<in> set config. mace_writable fp m" and "json content = Some (json_array (map (mace_json kind) config))"
  shows "parse_json_config_string fp mb json kind content [] = Ret config"
  using assms by (simp add: parse_json_config_string_def parse_elements_mace_json)

end
