(* ===== verification/ModbusStreams.thy ===== *)
theory ModbusStreams
  imports ModbusTheorems
begin

text \<open>
  The streams of the Modbus adapter: the client of \<^verbatim>\<open>LibModbusClient.cxx\<close>, the stream reader and writer of
  \<^verbatim>\<open>ModbusStreamReader.cxx\<close> and \<^verbatim>\<open>ModbusStreamWriter.cxx\<close>, and the conversions between samples and floating-point
  numbers of \<^verbatim>\<open>common/dds_specific/srcCxx\<close>.  The polling thread of a reader and its destructor are steps on a
  shared state.

  libmodbus and the devices behind it are a state \<open>'k\<close> with the calls of \<open>libmodbus\<close>; a call returns a number,
  below 1 for an error.  Samples are accessed through \<open>sample_api\<close>.  A step returns its outcome with the
  state of the devices, which an exception does not undo.
\<close>

section \<open>The client\<close>

record 'k libmodbus =
  lm_get_slave :: "'k \<Rightarrow> int"
  lm_set_slave :: "octet \<Rightarrow> 'k \<Rightarrow> int \<times> 'k"
  lm_write_register :: "i32 \<Rightarrow> reg \<Rightarrow> 'k \<Rightarrow> int \<times> 'k"
  lm_write_registers :: "i32 \<Rightarrow> i32 \<Rightarrow> reg list \<Rightarrow> 'k \<Rightarrow> int \<times> 'k"
  lm_read_registers :: "i32 \<Rightarrow> i32 \<Rightarrow> 'k \<Rightarrow> int \<times> reg list \<times> 'k"
  lm_read_input_registers :: "i32 \<Rightarrow> i32 \<Rightarrow> 'k \<Rightarrow> int \<times> reg list \<times> 'k"
  lm_write_bit :: "i32 \<Rightarrow> bool \<Rightarrow> 'k \<Rightarrow> int \<times> 'k"
  lm_write_bits :: "i32 \<Rightarrow> i32 \<Rightarrow> octet list \<Rightarrow> 'k \<Rightarrow> int \<times> 'k"
  lm_read_bits :: "i32 \<Rightarrow> i32 \<Rightarrow> 'k \<Rightarrow> int \<times> octet list \<times> 'k"
  lm_read_input_bits :: "i32 \<Rightarrow> i32 \<Rightarrow> 'k \<Rightarrow> int \<times> octet list \<times> 'k"

definition LibModbusClient_set_slave_id :: "'k libmodbus \<Rightarrow> octet \<Rightarrow> 'k \<Rightarrow> unit cxx \<times> 'k" where
  "LibModbusClient_set_slave_id lm slave_id k =
     (case lm_set_slave lm slave_id k of (r, k1) \<Rightarrow> (throw_if (r \<noteq> 0), k1))"

definition LibModbusClient_get_slave_id :: "'k libmodbus \<Rightarrow> 'k \<Rightarrow> int cxx" where
  "LibModbusClient_get_slave_id lm k =
     cxx_bind (throw_if (lm_get_slave lm k = - 1)) (\<lambda>_. Ret (lm_get_slave lm k))"

definition LibModbusClient_write_registers :: "'k libmodbus \<Rightarrow> i32 \<Rightarrow> i32 \<Rightarrow> reg list \<Rightarrow> 'k \<Rightarrow> int cxx \<times> 'k" where
  "LibModbusClient_write_registers lm address register_count registers k =
     (if register_count = 1 \<and> registers = [] then (Undefined, k)
      else
        case (if register_count = 1 then lm_write_register lm address (hd registers) k
              else lm_write_registers lm address register_count registers k) of
          (written_registers, k1) \<Rightarrow> (cxx_bind (throw_if (written_registers < 1)) (\<lambda>_. Ret written_registers), k1))"

text \<open>
  The values that libmodbus delivers are written to the front of a vector that the caller has made;
  what they do not reach keeps its value, and more values than its size are a write beyond it.
\<close>

definition fill_vector :: "'a list \<Rightarrow> 'a list \<Rightarrow> 'a list cxx" where
  "fill_vector v xs = (if length v < length xs then Undefined else Ret (xs @ drop (length xs) v))"

definition LibModbusClient_read_registers ::
    "'k libmodbus \<Rightarrow> reg list \<Rightarrow> i32 \<Rightarrow> i32 \<Rightarrow> bool \<Rightarrow> 'k \<Rightarrow> (int \<times> reg list) cxx \<times> 'k" where
  "LibModbusClient_read_registers lm registers address register_count read_input_registers k =
     (case (if read_input_registers then lm_read_input_registers lm address register_count k
            else lm_read_registers lm address register_count k) of
        (read_registers, xs, k1) \<Rightarrow>
          (cxx_bind (fill_vector registers xs) (\<lambda>registers1.
           cxx_bind (throw_if (read_registers < 1)) (\<lambda>_. Ret (read_registers, registers1))), k1))"

definition LibModbusClient_write_coils :: "'k libmodbus \<Rightarrow> i32 \<Rightarrow> i32 \<Rightarrow> octet list \<Rightarrow> 'k \<Rightarrow> int cxx \<times> 'k" where
  "LibModbusClient_write_coils lm address register_count values k =
     (if register_count = 1 \<and> values = [] then (Undefined, k)
      else
        case (if register_count = 1 then lm_write_bit lm address (hd values \<noteq> 0) k
              else lm_write_bits lm address register_count values k) of
          (written_registers, k1) \<Rightarrow> (cxx_bind (throw_if (written_registers < 1)) (\<lambda>_. Ret written_registers), k1))"

definition LibModbusClient_read_coils ::
    "'k libmodbus \<Rightarrow> octet list \<Rightarrow> i32 \<Rightarrow> i32 \<Rightarrow> bool \<Rightarrow> 'k \<Rightarrow> (int \<times> octet list) cxx \<times> 'k" where
  "LibModbusClient_read_coils lm values address register_count read_discrete_inputs k =
     (case (if read_discrete_inputs then lm_read_input_bits lm address register_count k
            else lm_read_bits lm address register_count k) of
        (read_registers, xs, k1) \<Rightarrow>
          (cxx_bind (fill_vector values xs) (\<lambda>values1.
           cxx_bind (throw_if (read_registers < 1)) (\<lambda>_. Ret (read_registers, values1))), k1))"

section \<open>Samples\<close>

text \<open>
  \<^verbatim>\<open>value<T>\<close> and \<^verbatim>\<open>get_values<T>\<close> for an integer type, given by its kind, and for a floating-point type, and the
  functions that set values.
\<close>

record ('r, 'd) sample_api =
  sa_member_kind :: "string \<Rightarrow> 'd \<Rightarrow> TypeKind"
  sa_element_kind :: "string \<Rightarrow> 'd \<Rightarrow> TypeKind"
  sa_exists :: "string \<Rightarrow> 'd \<Rightarrow> bool"
  sa_get_int :: "TypeKind \<Rightarrow> string \<Rightarrow> 'd \<Rightarrow> int cxx"
  sa_get_real :: "TypeKind \<Rightarrow> string \<Rightarrow> 'd \<Rightarrow> 'r cxx"
  sa_get_ints :: "TypeKind \<Rightarrow> string \<Rightarrow> 'd \<Rightarrow> int list cxx"
  sa_get_reals :: "TypeKind \<Rightarrow> string \<Rightarrow> 'd \<Rightarrow> 'r list cxx"
  sa_set_int :: "TypeKind \<Rightarrow> string \<Rightarrow> int \<Rightarrow> 'd \<Rightarrow> 'd cxx"
  sa_set_real :: "TypeKind \<Rightarrow> string \<Rightarrow> 'r \<Rightarrow> 'd \<Rightarrow> 'd cxx"
  sa_set_ints :: "TypeKind \<Rightarrow> string \<Rightarrow> int list \<Rightarrow> 'd \<Rightarrow> 'd cxx"
  sa_set_reals :: "TypeKind \<Rightarrow> string \<Rightarrow> 'r list \<Rightarrow> 'd \<Rightarrow> 'd cxx"
  sa_set_string :: "string \<Rightarrow> string \<Rightarrow> 'd \<Rightarrow> 'd cxx"
  sa_clear_optional :: "string \<Rightarrow> 'd \<Rightarrow> 'd cxx"

abbreviation int_kinds :: "TypeKind set" where
  "int_kinds \<equiv> {BOOLEAN_TYPE, CHAR_8_TYPE, UINT_8_TYPE, INT_16_TYPE, UINT_16_TYPE, INT_32_TYPE, ENUMERATION_TYPE,
                UINT_32_TYPE, INT_64_TYPE, UINT_64_TYPE}"

text \<open>The kind that selects the type \<open>T\<close>: enumerations are 32-bit integers, and booleans in collections octets.\<close>

definition value_kind :: "TypeKind \<Rightarrow> TypeKind" where
  "value_kind kind = (if kind = ENUMERATION_TYPE then INT_32_TYPE else kind)"

definition element_value_kind :: "TypeKind \<Rightarrow> TypeKind" where
  "element_value_kind kind =
     (if kind = ENUMERATION_TYPE then INT_32_TYPE else if kind = BOOLEAN_TYPE then UINT_8_TYPE else kind)"

definition get_dds_primitive_or_enum_type_value :: "'r fp \<Rightarrow> ('r, 'd) sample_api \<Rightarrow> 'd \<Rightarrow> string \<Rightarrow> 'r cxx" where
  "get_dds_primitive_or_enum_type_value fp sa data fld =
     (let kind = sa_member_kind sa fld data in
      if kind \<in> int_kinds then cxx_bind (sa_get_int sa (value_kind kind) fld data) (\<lambda>i. Ret (fp_of_int fp i))
      else if kind \<in> {FLOAT_32_TYPE, FLOAT_64_TYPE} then sa_get_real sa kind fld data
      else Throw RuntimeError)"

definition get_vector_values :: "'r fp \<Rightarrow> ('r, 'd) sample_api \<Rightarrow> 'd \<Rightarrow> string \<Rightarrow> 'r list cxx" where
  "get_vector_values fp sa data fld =
     (let kind = sa_element_kind sa fld data in
      if kind \<in> int_kinds
      then cxx_bind (sa_get_ints sa (element_value_kind kind) fld data) (\<lambda>is. Ret (map (fp_of_int fp) is))
      else if kind \<in> {FLOAT_32_TYPE, FLOAT_64_TYPE} then sa_get_reals sa kind fld data
      else Throw RuntimeError)"

definition safe_cast_kind :: "'r fp \<Rightarrow> TypeKind \<Rightarrow> 'r \<Rightarrow> int" where
  "safe_cast_kind fp kind v =
     (case kind of
        BOOLEAN_TYPE \<Rightarrow> if safe_cast_bool fp v then 1 else 0
      | CHAR_8_TYPE \<Rightarrow> safe_cast_signed fp 8 v
      | UINT_8_TYPE \<Rightarrow> safe_cast_unsigned fp 8 v
      | INT_16_TYPE \<Rightarrow> safe_cast_signed fp 16 v
      | UINT_16_TYPE \<Rightarrow> safe_cast_unsigned fp 16 v
      | UINT_32_TYPE \<Rightarrow> safe_cast_unsigned fp 32 v
      | INT_64_TYPE \<Rightarrow> safe_cast_signed fp 64 v
      | UINT_64_TYPE \<Rightarrow> safe_cast_unsigned fp 64 v
      | _ \<Rightarrow> safe_cast_signed fp 32 v)"

definition safe_cast_float :: "'r fp \<Rightarrow> TypeKind \<Rightarrow> 'r \<Rightarrow> 'r" where
  "safe_cast_float fp kind v = (if kind = FLOAT_32_TYPE then fp_float fp v else fp_double fp v)"

definition set_dds_primitive_or_enum_type_value ::
    "'r fp \<Rightarrow> ('r, 'd) sample_api \<Rightarrow> 'd \<Rightarrow> TypeKind \<Rightarrow> string \<Rightarrow> 'r \<Rightarrow> 'd cxx" where
  "set_dds_primitive_or_enum_type_value fp sa data type fld float_value =
     (if type \<in> int_kinds
      then sa_set_int sa (value_kind type) fld (safe_cast_kind fp (value_kind type) float_value) data
      else if type \<in> {FLOAT_32_TYPE, FLOAT_64_TYPE} then sa_set_real sa type fld (safe_cast_float fp type float_value) data
      else Throw RuntimeError)"

definition set_vector_values ::
    "'r fp \<Rightarrow> ('r, 'd) sample_api \<Rightarrow> 'd \<Rightarrow> TypeKind \<Rightarrow> string \<Rightarrow> 'r list \<Rightarrow> 'd cxx" where
  "set_vector_values fp sa data type fld float_vector =
     (if type \<in> int_kinds
      then sa_set_ints sa (element_value_kind type) fld
             (map (safe_cast_kind fp (element_value_kind type)) float_vector) data
      else if type \<in> {FLOAT_32_TYPE, FLOAT_64_TYPE}
      then sa_set_reals sa type fld (map (safe_cast_float fp type) float_vector) data
      else Throw RuntimeError)"

section \<open>Stream writer\<close>

text \<open>\<open>ty_primitive\<close> is \<^verbatim>\<open>is_primitive_type\<close>.  All parameters of the streams:\<close>

record ('r, 't, 'd, 'k) modbus_env =
  me_fp :: "'r fp"
  me_mb :: "'r modbus_regs"
  me_lm :: "'k libmodbus"
  me_ty :: "'t type_api"
  me_primitive :: "'t \<Rightarrow> bool"
  me_optional :: "'t \<Rightarrow> string \<Rightarrow> bool cxx"
  me_sa :: "('r, 'd) sample_api"
  me_json :: "string \<Rightarrow> 'r json_node option"
  me_files :: "string \<rightharpoonup> string"
  me_stoi :: "string \<Rightarrow> i32 cxx"
  me_new_data :: "'t \<Rightarrow> 'd"

text \<open>The device is selected before reading or writing; an error is caught, and the element skipped (\<open>False\<close>).\<close>

definition select_slave :: "('r, 't, 'd, 'k) modbus_env \<Rightarrow> 'r mace \<Rightarrow> 'k \<Rightarrow> bool \<times> 'k" where
  "select_slave env m k =
     (case LibModbusClient_get_slave_id (me_lm env) k of
        Ret slave \<Rightarrow>
          if m_modbus_datatype m \<noteq> constant_value \<and> slave \<noteq> uint (m_modbus_slave_device_id m)
          then (case LibModbusClient_set_slave_id (me_lm env) (m_modbus_slave_device_id m) k of
                  (r, k1) \<Rightarrow> (r = Ret (), k1))
          else (True, k)
      | _ \<Rightarrow> (False, k))"

text \<open>The values are copied into a vector with one octet per coil; more values than coils are a write beyond it.\<close>

definition coil_values :: "'r fp \<Rightarrow> octet list \<Rightarrow> 'r list \<Rightarrow> octet list cxx" where
  "coil_values fp values float_vector =
     fill_vector values (map (\<lambda>v. word_of_int (static_cast fp 8 False v)) float_vector)"

text \<open>Exceptions caught in the loop over the elements leave only a message.\<close>

fun caught :: "'a cxx \<Rightarrow> unit cxx" where
  "caught (Ret a) = Ret ()"
| "caught (Throw e) = Ret ()"
| "caught Undefined = Undefined"

text \<open>The values of the field of an element, with the kind of the field.\<close>

definition sample_values ::
    "('r, 't, 'd, 'k) modbus_env \<Rightarrow> 't \<Rightarrow> 'r mace \<Rightarrow> 'd \<Rightarrow> 'r list cxx" where
  "sample_values env type m sample =
     (if me_primitive env type \<or> ty_kind (me_ty env) type = ENUMERATION_TYPE
      then cxx_bind (get_dds_primitive_or_enum_type_value (me_fp env) (me_sa env) sample (m_field m)) (\<lambda>v. Ret [v])
      else if ty_kind (me_ty env) type \<in> {ARRAY_TYPE, SEQUENCE_TYPE}
      then get_vector_values (me_fp env) (me_sa env) sample (m_field m)
      else Ret [])"

text \<open>
  \<^verbatim>\<open>std::vector<T> v(mace.modbus_register_count())\<close>: one zero for each register or coil; a negative count,
  converted to \<^verbatim>\<open>size_t\<close>, is more than a vector can have, and \<^verbatim>\<open>std::length_error\<close> is thrown.
\<close>

definition register_vector :: "'r mace \<Rightarrow> 'a :: zero list cxx" where
  "register_vector m =
     (if sint (m_modbus_register_count m) < 0 then Throw (OtherException ''length_error'')
      else Ret (replicate (unat (register_count_size m)) 0))"

definition write_element ::
    "('r, 't, 'd, 'k) modbus_env \<Rightarrow> 't \<Rightarrow> 'd \<Rightarrow> 'r mace \<Rightarrow> 'k \<Rightarrow> unit cxx \<times> 'k" where
  "write_element env struct_type sample m k =
     (case get_member_type (me_ty env) struct_type (m_field m) of
        Throw e \<Rightarrow> (Throw e, k)
      | Undefined \<Rightarrow> (Undefined, k)
      | Ret type \<Rightarrow>
          case select_slave env m k of
            (False, k1) \<Rightarrow> (Ret (), k1)
          | (True, k1) \<Rightarrow>
              if \<not> sa_exists (me_sa env) (m_field m) sample then (Ret (), k1)
              else
                case sample_values env type m sample of
                  Throw e \<Rightarrow> (Throw e, k1)
                | Undefined \<Rightarrow> (Undefined, k1)
                | Ret float_vector \<Rightarrow>
                    if m_modbus_datatype m = coil_boolean then
                      (case cxx_bind (register_vector m) (\<lambda>values. coil_values (me_fp env) values float_vector) of
                         Ret values \<Rightarrow>
                           (case LibModbusClient_write_coils (me_lm env) (m_modbus_register_address m)
                                   (m_modbus_register_count m) values k1 of
                              (r, k2) \<Rightarrow> (caught r, k2))
                       | Throw e \<Rightarrow> (Throw e, k1)
                       | Undefined \<Rightarrow> (Undefined, k1))
                    else
                      case register_vector m of
                        Throw e \<Rightarrow> (Throw e, k1)
                      | Undefined \<Rightarrow> (Undefined, k1)
                      | Ret registers \<Rightarrow>
                          (case get_registers_value (me_fp env) (me_mb env) m registers float_vector of
                             Ret registers1 \<Rightarrow>
                               (case LibModbusClient_write_registers (me_lm env) (m_modbus_register_address m)
                                       (m_modbus_register_count m) registers1 k1 of
                                  (r, k2) \<Rightarrow> (caught r, k2))
                           | Throw e \<Rightarrow> (Ret (), k1)
                           | Undefined \<Rightarrow> (Undefined, k1)))"

fun for_elements :: "('r mace \<Rightarrow> 's \<Rightarrow> unit cxx \<times> 's) \<Rightarrow> 'r mace list \<Rightarrow> 's \<Rightarrow> unit cxx \<times> 's" where
  "for_elements f [] s = (Ret (), s)"
| "for_elements f (m # ms) s =
     (case f m s of
        (Ret _, s1) \<Rightarrow> for_elements f ms s1
      | (r, s1) \<Rightarrow> (r, s1))"

text \<open>\<^verbatim>\<open>ModbusStreamWriter::write\<close>; a sample comes with its validity and its type.\<close>

fun ModbusStreamWriter_write ::
    "('r, 't, 'd, 'k) modbus_env \<Rightarrow> 'r mace list \<Rightarrow> (bool \<times> 't \<times> 'd) list \<Rightarrow> 'k \<Rightarrow> unit cxx \<times> 'k" where
  "ModbusStreamWriter_write env config [] k = (Ret (), k)"
| "ModbusStreamWriter_write env config ((valid, type, sample) # samples) k =
     (if \<not> valid then ModbusStreamWriter_write env config samples k
      else
        case for_elements (write_element env type sample) config k of
          (Ret _, k1) \<Rightarrow> ModbusStreamWriter_write env config samples k1
        | (r, k1) \<Rightarrow> (r, k1))"

section \<open>Creation\<close>

definition load_configuration ::
    "('r, 't, 'd, 'k) modbus_env \<Rightarrow> RoutingServiceEntityType \<Rightarrow> (string \<rightharpoonup> string) \<Rightarrow> 'r mace list cxx" where
  "load_configuration env kind properties =
     cxx_bind
       (case properties ''configuration_file_json'' of
          Some file \<Rightarrow> parse_json_config_file (me_fp env) (me_mb env) (me_json env) (me_files env) kind file []
        | None \<Rightarrow> Ret [])
       (\<lambda>config.
         case properties ''configuration_string_json'' of
           Some content \<Rightarrow> parse_json_config_string (me_fp env) (me_mb env) (me_json env) kind content config
         | None \<Rightarrow> Ret config)"

definition ModbusStreamWriter_new ::
    "('r, 't, 'd, 'k) modbus_env \<Rightarrow> (string \<rightharpoonup> string) \<Rightarrow> 't \<Rightarrow> 'r mace list cxx" where
  "ModbusStreamWriter_new env properties type =
     cxx_bind (throw_if (ty_kind (me_ty env) type \<noteq> STRUCTURE_TYPE)) (\<lambda>_.
     cxx_bind (load_configuration env stream_writer properties) (\<lambda>config.
     cxx_bind (check_configuration_consistency (me_fp env) (me_ty env) stream_writer type config) (\<lambda>_.
       Ret config)))"

text \<open>A reader has its sample, its configuration, and the polling period; threads are started unless it is negative.\<close>

record ('r, 't, 'd) modbus_reader =
  mr_config :: "'r mace list"
  mr_type :: 't
  mr_cached_data :: 'd
  mr_timeout_msecs :: i32
  mr_threads :: bool

definition ModbusStreamReader_new ::
    "('r, 't, 'd, 'k) modbus_env \<Rightarrow> (string \<rightharpoonup> string) \<Rightarrow> 't \<Rightarrow> ('r, 't, 'd) modbus_reader cxx" where
  "ModbusStreamReader_new env properties type =
     cxx_bind (throw_if (ty_kind (me_ty env) type \<noteq> STRUCTURE_TYPE)) (\<lambda>_.
     cxx_bind (load_configuration env stream_reader properties) (\<lambda>config.
     cxx_bind (case properties ''polling_period_msec'' of Some s \<Rightarrow> me_stoi env s | None \<Rightarrow> Ret (- 1)) (\<lambda>timeout.
     cxx_bind (check_configuration_consistency (me_fp env) (me_ty env) stream_reader type config) (\<lambda>_.
       Ret \<lparr>mr_config = config, mr_type = type, mr_cached_data = me_new_data env type, mr_timeout_msecs = timeout,
            mr_threads = (0 \<le> sint timeout)\<rparr>))))"

section \<open>Stream reader\<close>

definition set_constant ::
    "('r, 't, 'd, 'k) modbus_env \<Rightarrow> 't \<Rightarrow> TypeKind \<Rightarrow> 'r mace \<Rightarrow> 'd \<Rightarrow> 'd cxx" where
  "set_constant env type element_kind m data =
     (let kind = ty_kind (me_ty env) type in
      case m_constant_kind m of
        string_kind \<Rightarrow>
          if element_kind \<noteq> STRING_TYPE then Throw RuntimeError
          else if unat (ty_bounds (me_ty env) type) \<ge> length (m_value_string m)
          then sa_set_string (me_sa env) (m_field m) (m_value_string m) data
          else Throw RuntimeError
      | array_kind \<Rightarrow>
          if kind \<noteq> ARRAY_TYPE \<and> kind \<noteq> SEQUENCE_TYPE then Throw RuntimeError
          else set_vector_values (me_fp env) (me_sa env) data element_kind (m_field m) (m_value_array m)
      | undefined_kind \<Rightarrow> Ret data
      | _ \<Rightarrow> set_dds_primitive_or_enum_type_value (me_fp env) (me_sa env) data element_kind (m_field m) (m_value_numeric m))"

text \<open>Storing what has been read: one value, several values, or nothing.\<close>

definition store_values ::
    "('r, 't, 'd, 'k) modbus_env \<Rightarrow> TypeKind \<Rightarrow> 'r mace \<Rightarrow> 'r list \<Rightarrow> 'd \<Rightarrow> 'd cxx" where
  "store_values env element_kind m float_vector data =
     (case float_vector of
        [] \<Rightarrow> Ret data
      | [v] \<Rightarrow> set_dds_primitive_or_enum_type_value (me_fp env) (me_sa env) data element_kind (m_field m) v
      | _ \<Rightarrow> set_vector_values (me_fp env) (me_sa env) data element_kind (m_field m) float_vector)"

definition is_input_register :: "ModbusDataType \<Rightarrow> bool" where
  "is_input_register t =
     (t \<in> {input_register_int8, input_register_int16, input_register_int32, input_register_int64, input_register_float_abcd,
           input_register_float_badc, input_register_float_cdab, input_register_float_dcba})"

text \<open>\<^verbatim>\<open>clear_optional_member\<close> when nothing has been read and the member is optional.\<close>

definition clear_if_optional ::
    "('r, 't, 'd, 'k) modbus_env \<Rightarrow> 't \<Rightarrow> bool \<Rightarrow> string \<Rightarrow> 'd \<Rightarrow> 'd cxx" where
  "clear_if_optional env struct_type nothing fld data =
     (if nothing then
        cxx_bind (me_optional env struct_type fld) (\<lambda>opt.
          if opt then sa_clear_optional (me_sa env) fld data else Ret data)
      else Ret data)"

definition result :: "'d \<Rightarrow> 'k \<Rightarrow> 'd cxx \<Rightarrow> unit cxx \<times> 'd \<times> 'k" where
  "result data k r =
     (case r of Ret data1 \<Rightarrow> (Ret (), data1, k) | Throw e \<Rightarrow> (Throw e, data, k) | Undefined \<Rightarrow> (Undefined, data, k))"

text \<open>The kind of a field and, for arrays and sequences, of its elements.\<close>

definition element_kind_of :: "('r, 't, 'd, 'k) modbus_env \<Rightarrow> 't \<Rightarrow> TypeKind" where
  "element_kind_of env type =
     (if ty_kind (me_ty env) type \<in> {ARRAY_TYPE, SEQUENCE_TYPE}
      then ty_kind (me_ty env) (ty_content (me_ty env) type) else ty_kind (me_ty env) type)"

definition read_coil_element ::
    "('r, 't, 'd, 'k) modbus_env \<Rightarrow> 't \<Rightarrow> TypeKind \<Rightarrow> 'r mace \<Rightarrow> 'd \<Rightarrow> 'k \<Rightarrow> unit cxx \<times> 'd \<times> 'k" where
  "read_coil_element env struct_type element_kind m data k =
     (case register_vector m of
        Throw e \<Rightarrow> (Throw e, data, k)
      | Undefined \<Rightarrow> (Undefined, data, k)
      | Ret vector \<Rightarrow>
          case LibModbusClient_read_coils (me_lm env) vector (m_modbus_register_address m) (m_modbus_register_count m)
                 (m_modbus_datatype m = discrete_input_boolean) k of
            (Undefined, k1) \<Rightarrow> (Undefined, data, k1)
          | (Throw e, k1) \<Rightarrow> (Ret (), data, k1)
          | (Ret (sz, values), k1) \<Rightarrow>
              result data k1
                (cxx_bind (clear_if_optional env struct_type (sz = 0) (m_field m) data) (\<lambda>data1.
                   store_values env element_kind m
                     (if sz > 0 then map (\<lambda>b. fp_of_int (me_fp env) (uint b)) values else []) data1)))"

text \<open>Here the whole conversion is inside the try block; only the vector is made outside of it.\<close>

definition read_register_element ::
    "('r, 't, 'd, 'k) modbus_env \<Rightarrow> 't \<Rightarrow> TypeKind \<Rightarrow> 'r mace \<Rightarrow> 'd \<Rightarrow> 'k \<Rightarrow> unit cxx \<times> 'd \<times> 'k" where
  "read_register_element env struct_type element_kind m data k =
     (case register_vector m of
        Throw e \<Rightarrow> (Throw e, data, k)
      | Undefined \<Rightarrow> (Undefined, data, k)
      | Ret vector \<Rightarrow>
      case LibModbusClient_read_registers (me_lm env) vector (m_modbus_register_address m) (m_modbus_register_count m)
             (is_input_register (m_modbus_datatype m)) k of
        (Undefined, k1) \<Rightarrow> (Undefined, data, k1)
      | (Throw e, k1) \<Rightarrow> (Ret (), data, k1)
      | (Ret (sz, registers), k1) \<Rightarrow>
          case clear_if_optional env struct_type (sz < 1) (m_field m) data of
            Undefined \<Rightarrow> (Undefined, data, k1)
          | Throw e \<Rightarrow> (Ret (), data, k1)
          | Ret data1 \<Rightarrow>
              case (if sz > 0 then get_float_value (me_fp env) (me_mb env) m registers element_kind else Ret []) of
                Undefined \<Rightarrow> (Undefined, data1, k1)
              | Throw e \<Rightarrow> (Ret (), data1, k1)
              | Ret float_vector \<Rightarrow> result data1 k1 (store_values env element_kind m float_vector data1))"

definition read_element ::
    "('r, 't, 'd, 'k) modbus_env \<Rightarrow> 't \<Rightarrow> 'r mace \<Rightarrow> 'd \<times> 'k \<Rightarrow> unit cxx \<times> 'd \<times> 'k" where
  "read_element env struct_type m s =
     (case s of
        (data, k) \<Rightarrow>
          case get_member_type (me_ty env) struct_type (m_field m) of
            Throw e \<Rightarrow> (Throw e, data, k)
          | Undefined \<Rightarrow> (Undefined, data, k)
          | Ret type \<Rightarrow>
              case select_slave env m k of
                (False, k1) \<Rightarrow> (Ret (), data, k1)
              | (True, k1) \<Rightarrow>
                  let element_kind = element_kind_of env type in
                  if m_modbus_datatype m = constant_value
                  then result data k1 (set_constant env type element_kind m data)
                  else if m_modbus_datatype m \<in> {coil_boolean, discrete_input_boolean}
                  then read_coil_element env struct_type element_kind m data k1
                  else read_register_element env struct_type element_kind m data k1)"

definition read_data_from_modbus ::
    "('r, 't, 'd, 'k) modbus_env \<Rightarrow> ('r, 't, 'd) modbus_reader \<Rightarrow> 'k \<Rightarrow> unit cxx \<times> ('r, 't, 'd) modbus_reader \<times> 'k" where
  "read_data_from_modbus env r k =
     (case for_elements (read_element env (mr_type r)) (mr_config r) (mr_cached_data r, k) of
        (res, data, k1) \<Rightarrow> (res, r\<lparr>mr_cached_data := data\<rparr>, k1))"

text \<open>\<^verbatim>\<open>read\<close> and \<^verbatim>\<open>take\<close>: one sample, a copy of the cached one, which is filled first when there is no thread.\<close>

definition ModbusStreamReader_read ::
    "('r, 't, 'd, 'k) modbus_env \<Rightarrow> ('r, 't, 'd) modbus_reader \<Rightarrow> 'k \<Rightarrow> 'd list cxx \<times> ('r, 't, 'd) modbus_reader \<times> 'k" where
  "ModbusStreamReader_read env r k =
     (if sint (mr_timeout_msecs r) < 0 then
        (case read_data_from_modbus env r k of
           (res, r1, k1) \<Rightarrow> (cxx_bind res (\<lambda>_. Ret [mr_cached_data r1]), r1, k1))
      else (Ret [mr_cached_data r], r, k))"

section \<open>Connection\<close>

text \<open>
  The settings of a connection: address and port with their defaults, and the timeout in seconds and
  microseconds.  The arithmetic is unsigned with 32 bits.
\<close>

definition response_timeout :: "i32 \<Rightarrow> u32 \<times> u32" where
  "response_timeout msec = (let sec = msec div 1000 in (sec, (msec - sec * 1000) * 1000))"

lemma unat_times_1000: "unat x < 1000 \<Longrightarrow> unat (x * 1000) = unat x * 1000" for x :: u32
proof -
  assume "unat x < 1000"
  then have "unat x * unat (1000 :: u32) < 2 ^ LENGTH(32)" by simp
  then have "unat (x * 1000) = unat x * unat (1000 :: u32)" by (rule unat_mult_lem [THEN iffD1])
  then show ?thesis by simp
qed

lemma response_timeout_exact:
  "case response_timeout msec of (sec, usec) \<Rightarrow>
     unat sec * 1000000 + unat usec = unat msec * 1000 \<and> unat usec < 1000000"
proof -
  have s: "unat (msec div 1000) = unat msec div 1000" by (simp add: unat_div)
  have d: "msec - msec div 1000 * 1000 = msec mod 1000" by (metis minus_div_mult_eq_mod)
  have m: "unat (msec mod 1000) = unat msec mod 1000" by (simp add: unat_mod)
  have "unat (msec mod 1000) < 1000" unfolding m by simp
  then have "unat (msec mod 1000 * 1000) = (unat msec mod 1000) * 1000" unfolding m [symmetric] by (rule unat_times_1000)
  moreover have "unat msec div 1000 * 1000 + unat msec mod 1000 = unat msec" "unat msec mod 1000 < 1000" by simp_all
  ultimately show ?thesis
    unfolding response_timeout_def Let_def prod.case d s by linarith
qed

text \<open>
  The constructor of a connection.  \<open>lib_new\<close> and \<open>lib_connect\<close> are the outcomes of \<^verbatim>\<open>modbus_new_tcp\<close> and
  \<^verbatim>\<open>modbus_connect\<close>, \<open>lib_timeout\<close> that of \<^verbatim>\<open>modbus_set_response_timeout\<close>; the number counts contexts that are not freed.
  An exception in a constructor does not run its destructor.
\<close>

definition LibModbusClient_connect :: "bool \<Rightarrow> bool \<Rightarrow> unit cxx \<times> nat" where
  "LibModbusClient_connect lib_new lib_connect =
     (if \<not> lib_new then (Throw RuntimeError, 0)
      else if \<not> lib_connect then (Throw RuntimeError, 1)
      else (Ret (), 0))"

definition ModbusConnection_new ::
    "(string \<Rightarrow> i32 cxx) \<Rightarrow> (string \<Rightarrow> 16 word \<Rightarrow> bool) \<Rightarrow> (string \<Rightarrow> 16 word \<Rightarrow> bool) \<Rightarrow> (u32 \<Rightarrow> u32 \<Rightarrow> bool)
       \<Rightarrow> (string \<rightharpoonup> string) \<Rightarrow> (string \<times> 16 word) cxx \<times> nat" where
  "ModbusConnection_new stoi lib_new lib_connect lib_timeout properties =
     (let ip = (case properties ''modbus_server_ip'' of Some s \<Rightarrow> s | None \<Rightarrow> '''') in
      case (case properties ''modbus_server_port'' of Some s \<Rightarrow> stoi s | None \<Rightarrow> Ret 0) of
        Throw e \<Rightarrow> (Throw e, 0)
      | Undefined \<Rightarrow> (Undefined, 0)
      | Ret port \<Rightarrow>
          case LibModbusClient_connect (lib_new ip (ucast port)) (lib_connect ip (ucast port)) of
            (Throw e, n) \<Rightarrow> (Throw e, n)
          | (Undefined, n) \<Rightarrow> (Undefined, n)
          | (Ret _, n) \<Rightarrow>
              case properties ''modbus_response_timeout_msec'' of
                None \<Rightarrow> (Ret (ip, ucast port), n)
              | Some s \<Rightarrow>
                  case stoi s of
                    Throw e \<Rightarrow> (Throw e, n + 1)
                  | Undefined \<Rightarrow> (Undefined, n + 1)
                  | Ret msec \<Rightarrow>
                      case response_timeout msec of
                        (sec, usec) \<Rightarrow>
                          if lib_timeout sec usec then (Ret (ip, ucast port), n) else (Throw RuntimeError, n + 1))"

section \<open>Writing and reading\<close>

text \<open>What a device promises: registers that have been written are read back, and the selected device stays.\<close>

definition device_laws :: "'k libmodbus \<Rightarrow> bool" where
  "device_laws lm \<longleftrightarrow>
     (\<forall>s k k1. lm_set_slave lm s k = (0, k1) \<longrightarrow> lm_get_slave lm k1 = uint s) \<and>
     (\<forall>a r w k k1. lm_write_register lm a r k = (w, k1) \<longrightarrow> 1 \<le> w \<longrightarrow>
        lm_get_slave lm k1 = lm_get_slave lm k \<and> lm_read_registers lm a 1 k1 = (1, [r], k1)) \<and>
     (\<forall>a n rs w k k1. lm_write_registers lm a n rs k = (w, k1) \<longrightarrow> 1 \<le> w \<longrightarrow> length rs = unat n \<longrightarrow>
        lm_get_slave lm k1 = lm_get_slave lm k \<and> lm_read_registers lm a n k1 = (int (length rs), rs, k1))"

lemma select_slave_selects:
  assumes "device_laws (me_lm env)" "select_slave env m k = (True, k1)" "m_modbus_datatype m \<noteq> constant_value"
  shows "lm_get_slave (me_lm env) k1 = uint (m_modbus_slave_device_id m)"
  using assms
  by (auto simp: select_slave_def LibModbusClient_get_slave_id_def LibModbusClient_set_slave_id_def device_laws_def
      split: if_splits prod.splits cxx.splits)

lemma uint_octet_not_minus_1 [simp]: "uint (w :: octet) \<noteq> - 1"
  using uint_ge_0 [of w] by linarith

lemma select_slave_same:
  "lm_get_slave (me_lm env) k = uint (m_modbus_slave_device_id m) \<Longrightarrow> select_slave env m k = (True, k)"
  by (simp add: select_slave_def LibModbusClient_get_slave_id_def)

lemma write_registers_reads:
  assumes "device_laws lm" "LibModbusClient_write_registers lm a n rs k = (Ret w, k1)"
    and "length rs = unat n" "rs \<noteq> []" "length v = length rs"
  shows "lm_get_slave lm k1 = lm_get_slave lm k"
    and "LibModbusClient_read_registers lm v a n False k1 = (Ret (int (length rs), rs), k1)"
proof -
  have "lm_get_slave lm k1 = lm_get_slave lm k \<and> lm_read_registers lm a n k1 = (int (length rs), rs, k1)"
  proof (cases "n = 1")
    case True
    then obtain r where r: "rs = [r]" using assms(3) by (auto simp: length_Suc_conv)
    have "lm_write_register lm a r k = (w, k1)" "1 \<le> w"
      using assms(2) True r by (auto simp: LibModbusClient_write_registers_def split: prod.splits)
    then show ?thesis using assms(1) True r by (simp add: device_laws_def)
  next
    case False
    have "lm_write_registers lm a n rs k = (w, k1)" "1 \<le> w"
      using assms(2) False by (auto simp: LibModbusClient_write_registers_def split: prod.splits)
    then show ?thesis using assms(1,3) by (simp add: device_laws_def)
  qed
  then show "lm_get_slave lm k1 = lm_get_slave lm k"
    and "LibModbusClient_read_registers lm v a n False k1 = (Ret (int (length rs), rs), k1)"
    using assms(4,5) by (cases rs; simp add: LibModbusClient_read_registers_def fill_vector_def)+
qed

text \<open>The number of values that the registers of an element hold.\<close>

definition element_count :: "'r mace \<Rightarrow> nat" where
  "element_count m = (if m_array_elements m = 0 then 1 else unat (m_array_elements m))"

lemma mace_wf_count:
  "mace_wf fp m \<Longrightarrow> m_modbus_datatype m \<noteq> constant_value \<Longrightarrow>
     unat (register_count_size m) = element_count m * step_of m \<and> 0 < element_count m * step_of m"
  by (auto simp: mace_wf_def element_count_def unat_gt_0)

lemma register_count_nonneg:
  assumes "0 \<le> sint (m_modbus_register_count m)"
  shows "unat (register_count_size m) = unat (m_modbus_register_count m)"
proof -
  have b: "\<not> bit (m_modbus_register_count m) 31"
    using assms bit_last_iff [of "m_modbus_register_count m"] by simp
  have "register_count_size m = ucast (m_modbus_register_count m)"
    unfolding register_count_size_def
  proof (rule bit_word_eqI)
    fix n
    show "bit (scast (m_modbus_register_count m) :: 64 word) n = bit (ucast (m_modbus_register_count m) :: 64 word) n" if "n < LENGTH(64)"
      using b that bit_imp_le_length [of "m_modbus_register_count m" n]
      by (cases "n < 31"; cases "n = 31") (auto simp: bit_simps min_def)
  qed
  moreover have "unat (m_modbus_register_count m) < 2 ^ 64"
    using unsigned_less [of "m_modbus_register_count m", where 'a = nat] by simp
  ultimately show ?thesis by (simp add: unsigned_ucast_eq take_bit_nat_eq_self)
qed

text \<open>
  Claim C33. What a stream writer writes to integer registers, a stream reader with the same element
  reads: its field is set to exactly the integers of the sample, if the device accepts the write and
  returns what has been written, and the values are within the limits of \<open>survives\<close>.
\<close>

theorem modbus_write_read:
  assumes "fp_laws (me_fp env)" and "mb_laws (me_mb env)" and "device_laws (me_lm env)"
    and "mace_wf (me_fp env) m" and "m_data_factor m = fp_of_int (me_fp env) 1" and "m_data_offset m = fp_of_int (me_fp env) 0"
    and "m_modbus_datatype m \<in> {holding_register_int8, holding_register_int16, holding_register_int32, holding_register_int64}"
    and "get_member_type (me_ty env) struct_type (m_field m) = Ret type" and "is_signed_kind (element_kind_of env type) = Ret sg"
    and "sa_exists (me_sa env) (m_field m) sample" and "sample_values env type m sample = Ret (map (fp_of_int (me_fp env)) vs)"
    and "length vs = element_count m" and "\<forall>v \<in> set vs. survives (m_modbus_datatype m) sg v"
    and "\<forall>v \<in> set vs. check_correct_value (me_fp env) m (fp_of_int (me_fp env) v) = Ret ()"
    and "select_slave env m k = (True, k1)"
    and "\<forall>rs. length rs = unat (m_modbus_register_count m) \<longrightarrow>
           (\<exists>w k2. LibModbusClient_write_registers (me_lm env) (m_modbus_register_address m) (m_modbus_register_count m) rs k1 = (Ret w, k2))"
    and "0 \<le> sint (m_modbus_register_count m)"
  shows "\<exists>k2. write_element env struct_type sample m k = (Ret (), k2) \<and>
           read_element env struct_type m (data, k2) =
             result data k2 (store_values env (element_kind_of env type) m (map (fp_of_int (me_fp env)) vs) data)"
proof -
  let ?fp = "me_fp env" and ?mb = "me_mb env" and ?lm = "me_lm env"
  have c: "m_modbus_datatype m \<noteq> constant_value" "m_modbus_datatype m \<noteq> coil_boolean"
    "m_modbus_datatype m \<noteq> discrete_input_boolean" "\<not> is_input_register (m_modbus_datatype m)"
    "writable (m_modbus_datatype m)"
    using assms(7) by (auto simp: is_input_register_def writable_def)
  have n: "unat (register_count_size m) = length vs * step_of m" "0 < length vs * step_of m"
    using mace_wf_count [OF assms(4) c(1)] assms(12) by auto
  have lin: "v \<in> set vs \<Longrightarrow> linear ?fp m (fp_of_int ?fp v) = fp_of_int ?fp v" for v
    using fp_lawsD(2) [OF assms(1)] assms(5,6,13) survives_bounds(2) by auto
  then have ok: "\<forall>v \<in> set (map (fp_of_int ?fp) vs). check_correct_value ?fp m (linear ?fp m v) = Ret ()"
    using assms(14) by auto
  define regs where "regs = concat (map (encoded ?fp ?mb m) (map (fp_of_int ?fp) vs))"
  let ?vec = "replicate (unat (register_count_size m)) 0 :: reg list"
  have vec: "register_vector m = Ret ?vec"
    using assms(17) by (simp add: register_vector_def)
  have g: "get_registers_value ?fp ?mb m ?vec (map (fp_of_int ?fp) vs) = Ret regs"
    using registers_loop_writes [OF assms(2) c(5) ok, of 0 ?vec] n
    by (simp add: get_registers_value_def regs_def)
  have len: "length regs = length vs * step_of m"
    using writable_encoded(2) [OF assms(2) c(5)]
    by (simp add: regs_def length_concat comp_def sum_list_triv)
  have one: "length regs = unat (m_modbus_register_count m)"
    using register_count_nonneg [OF assms(17)] len n by simp
  obtain w k2 where w: "LibModbusClient_write_registers ?lm (m_modbus_register_address m) (m_modbus_register_count m) regs k1 = (Ret w, k2)"
    using assms(16) one by blast
  have ne: "regs \<noteq> []" using len n by (auto simp del: length_greater_0_conv)
  note rd = write_registers_reads [OF assms(3) w one ne, of ?vec]
  have rd2: "LibModbusClient_read_registers ?lm ?vec (m_modbus_register_address m) (m_modbus_register_count m) False k2 =
      (Ret (int (length regs), regs), k2)"
    using rd(2) len n by simp
  have sel: "select_slave env m k2 = (True, k2)"
    using select_slave_same select_slave_selects [OF assms(3,15) c(1)] rd(1) len n by simp
  have rt: "get_float_value ?fp ?mb m regs (element_kind_of env type) = Ret (map (fp_of_int ?fp) vs)"
    using register_values_roundtrip [OF assms(1,2,5,6,7,9,13) n(1) _ g] n by simp
  have "write_element env struct_type sample m k = (Ret (), k2)"
    using assms(8,10,11,15) c vec g w by (simp add: write_element_def)
  moreover have "read_element env struct_type m (data, k2) =
      result data k2 (store_values env (element_kind_of env type) m (map (fp_of_int ?fp) vs) data)"
    using assms(8) sel c rd2 rt ne vec
    by (simp add: read_element_def read_register_element_def clear_if_optional_def)
  ultimately show ?thesis by blast
qed


section \<open>Sequences longer than their registers\<close>

lemma parse_json_config_string_wf:
  "parse_json_config_string fp mb json kind content config0 = Ret config \<Longrightarrow> \<forall>m \<in> set config0. mace_wf fp m \<Longrightarrow>
     \<forall>m \<in> set config. mace_wf fp m"
  using parse_elements_wf [of fp mb kind _ config0 config]
  by (auto simp: parse_json_config_string_def split: option.splits json_node.splits)

lemma load_configuration_wf:
  "load_configuration env kind properties = Ret config \<Longrightarrow> \<forall>m \<in> set config. mace_wf (me_fp env) m"
  unfolding load_configuration_def
  by (auto simp: parse_json_config_file_def split: option.splits dest!: parse_json_config_string_wf)

lemma check_configuration_element:
  "check_configuration_consistency fp ty kind type config = Ret u \<Longrightarrow> m \<in> set config \<Longrightarrow>
     check_element fp ty kind type m = Ret ()"
  by (induction config) auto

lemma writer_element_writable:
  assumes "ModbusStreamWriter_new env properties type = Ret config" "m \<in> set config"
  shows "mace_wf (me_fp env) m" and "m_modbus_datatype m \<noteq> constant_value"
    and "m_modbus_datatype m = coil_boolean \<or> writable (m_modbus_datatype m)"
proof -
  have l: "load_configuration env stream_writer properties = Ret config"
    and c: "check_configuration_consistency (me_fp env) (me_ty env) stream_writer type config = Ret ()"
    using assms(1) by (auto simp: ModbusStreamWriter_new_def)
  show wf: "mace_wf (me_fp env) m" using load_configuration_wf [OF l] assms(2) by blast
  have k: "m_modbus_datatype m \<noteq> constant_value \<and> \<not> is_read_only (m_modbus_datatype m)"
    using check_configuration_element [OF c assms(2)] by (auto simp: check_element_def)
  then show "m_modbus_datatype m \<noteq> constant_value" by blast
  show "m_modbus_datatype m = coil_boolean \<or> writable (m_modbus_datatype m)"
    using k wf by (cases "m_modbus_datatype m") (auto simp: is_read_only_def writable_def mace_wf_def)
qed

lemma scast_negative: "sint (w :: i32) < 0 \<Longrightarrow> 2 ^ 63 \<le> unat (scast w :: 64 word)"
proof -
  assume n: "sint w < 0"
  have l: "- 2147483648 \<le> sint w" using sint_greater_eq [of w] by simp
  have "sint w mod 18446744073709551616 = (sint w + 18446744073709551616) mod 18446744073709551616" by simp
  also have "\<dots> = sint w + 18446744073709551616" by (rule mod_pos_pos_trivial) (use n l in simp_all)
  finally have m: "sint w mod 18446744073709551616 = sint w + 18446744073709551616" .
  have "uint (scast w :: 64 word) = sint w mod 2 ^ LENGTH(64)"
    unfolding scast_eq by (rule uint_word_of_int)
  then have "uint (scast w :: 64 word) = sint w + 18446744073709551616" using m by simp
  then have "9223372036854775808 \<le> uint (scast w :: 64 word)" using l by simp
  then have "9223372036854775808 \<le> nat (uint (scast w :: 64 word))" by linarith
  then show ?thesis unfolding unat_eq_nat_uint by simp
qed

lemma step_of_le_4: "step_of m \<le> 4"
proof (cases "number_of_registers_primitive_type m")
  case (Ret n)
  then show ?thesis using number_of_registers_cases [OF Ret] by (auto simp: step_of_def)
qed (simp_all add: step_of_def)

lemma register_count_small:
  assumes "mace_wf fp m" "m_modbus_datatype m \<noteq> constant_value" "element_count m < 2 ^ 32"
  shows "0 \<le> sint (m_modbus_register_count m)"
proof (rule ccontr)
  assume "\<not> 0 \<le> sint (m_modbus_register_count m)"
  then have "2 ^ 63 \<le> element_count m * step_of m"
    using scast_negative [of "m_modbus_register_count m"] mace_wf_count [OF assms(1,2)] by (simp add: register_count_size_def)
  moreover have "element_count m * step_of m \<le> 2 ^ 32 * 4"
    using assms(3) step_of_le_4 [of m] by (intro mult_le_mono) simp_all
  ultimately show False by simp
qed

lemma write_element_overflow:
  assumes "mb_laws (me_mb env)" "mace_wf (me_fp env) m" "writable (m_modbus_datatype m)"
    and "get_member_type (me_ty env) struct_type (m_field m) = Ret type" "select_slave env m k = (True, k1)"
    and "sa_exists (me_sa env) (m_field m) sample" "sample_values env type m sample = Ret vs"
    and "\<forall>v \<in> set vs. check_correct_value (me_fp env) m (linear (me_fp env) m v) = Ret ()"
    and "element_count m < length vs" "length vs < 2 ^ 32"
  shows "write_element env struct_type sample m k = (Undefined, k1)"
proof -
  have w: "m_modbus_datatype m \<noteq> constant_value" "m_modbus_datatype m \<noteq> coil_boolean"
    using assms(3) by (auto simp: writable_def)
  let ?vec = "replicate (unat (register_count_size m)) 0 :: reg list"
  have "\<not> length vs * step_of m \<le> length ?vec"
    using mace_wf_count [OF assms(2) w(1)] assms(9) by auto
  then have "get_registers_value (me_fp env) (me_mb env) m ?vec vs = Undefined"
    using registers_loop_writes [OF assms(1,3,8), of 0 ?vec] by (auto simp: get_registers_value_def)
  moreover have "register_vector m = Ret ?vec"
    using register_count_small [OF assms(2) w(1)] assms(9,10) by (simp add: register_vector_def)
  ultimately show ?thesis using assms w by (simp add: write_element_def)
qed

text \<open>The content type of a sequence or array suits an element.\<close>

definition content_suits :: "('r, 't, 'd, 'k) modbus_env \<Rightarrow> 'r mace \<Rightarrow> 't \<Rightarrow> bool" where
  "content_suits env m type \<longleftrightarrow>
     (\<exists>m1. unsigned_minimum (me_fp env) m (ty_kind (me_ty env) (ty_content (me_ty env) type)) = Ret m1 \<and>
        is_compatible_dds_datatype (me_fp env) m1 (ty_kind (me_ty env) (ty_content (me_ty env) type)) = Ret True)"

text \<open>
  Claim C37. A stream writer for one element of several registers that writes a sequence of a suitable
  content type: it is created exactly when the bound of the sequence is at least the number of values
  that the registers hold, so a larger bound is accepted.  And then every sample within the bound
  that has more elements than the registers hold makes the writer write beyond its vector
  of registers, if the device can be selected and no element is refused by its range.
\<close>

theorem sequence_write_overflow:
  assumes "mb_laws (me_mb env)" and "ty_kind (me_ty env) struct_type = STRUCTURE_TYPE"
    and "load_configuration env stream_writer properties = Ret [m]"
    and "writable (m_modbus_datatype m)" and "m_array_elements m \<noteq> 0"
    and "get_member_type (me_ty env) struct_type (m_field m) = Ret type" and "ty_kind (me_ty env) type = SEQUENCE_TYPE"
    and "content_suits env m type"
  shows "(ModbusStreamWriter_new env properties struct_type = Ret [m] \<longleftrightarrow>
            element_count m \<le> unat (ty_bounds (me_ty env) type)) \<and>
    (\<forall>sample vs k k1.
       sa_exists (me_sa env) (m_field m) sample \<and> sample_values env type m sample = Ret vs \<and>
       element_count m < length vs \<and> length vs \<le> unat (ty_bounds (me_ty env) type) \<and>
       (\<forall>v \<in> set vs. check_correct_value (me_fp env) m (linear (me_fp env) m v) = Ret ()) \<and>
       select_slave env m k = (True, k1) \<longrightarrow>
       ModbusStreamWriter_new env properties struct_type = Ret [m] \<and>
       fst (ModbusStreamWriter_write env [m] [(True, struct_type, sample)] k) = Undefined)"
proof -
  let ?b = "unat (ty_bounds (me_ty env) type)"
  have w: "m_modbus_datatype m \<noteq> constant_value" "\<not> is_read_only (m_modbus_datatype m)"
    using assms(4) by (auto simp: writable_def is_read_only_def)
  have "check_sequence (me_fp env) (me_ty env) m type = (if ?b < element_count m then Throw RuntimeError else Ret ())"
    using assms(5,8) by (auto simp: check_sequence_def content_suits_def element_count_def)
  then have new: "ModbusStreamWriter_new env properties struct_type =
      (if ?b < element_count m then Throw RuntimeError else Ret [m])"
    using assms(2,3,5-7) w by (simp add: ModbusStreamWriter_new_def check_element_def)
  have wf: "mace_wf (me_fp env) m" using load_configuration_wf [OF assms(3)] by simp
  have over: "fst (ModbusStreamWriter_write env [m] [(True, struct_type, sample)] k) = Undefined"
    if "sa_exists (me_sa env) (m_field m) sample" "sample_values env type m sample = Ret vs"
      "element_count m < length vs" "length vs \<le> ?b" "select_slave env m k = (True, k1)"
      "\<forall>v \<in> set vs. check_correct_value (me_fp env) m (linear (me_fp env) m v) = Ret ()" for sample vs k k1
  proof -
    have "?b < 2 ^ 32" using unsigned_less [of "ty_bounds (me_ty env) type", where 'a = nat] by simp
    then have "write_element env struct_type sample m k = (Undefined, k1)"
      using that by (intro write_element_overflow [OF assms(1) wf assms(4,6)]) (auto simp del: less_numeral_extra)
    then show ?thesis by simp
  qed
  from new over show ?thesis by auto
qed

section \<open>The threads of a reader\<close>

text \<open>
  With a polling period a reader has two threads: one polls the device into the cached sample, under
  the mutex, the other notifies Routing Service.  The destructor takes the mutex, deletes the sample,
  sets the flag that stops the threads, and joins them; the mutex is given back when it ends.
  A thread whose next step is not possible waits.
\<close>

datatype modbus_thread = T_poll | T_notify | T_delete

datatype modbus_poll_pc = P_check | P_lock | P_read | P_sleep | P_end

datatype notify_pc = N_check | N_call | N_sleep | N_end

datatype delete_pc = D_idle | D_lock | D_free | D_stop | D_join_notify | D_join_poll | D_end

record reader_threads =
  rt_poll :: modbus_poll_pc
  rt_notify :: notify_pc
  rt_delete :: delete_pc
  rt_mutex :: "modbus_thread option"
  rt_stop :: bool
  rt_cached :: bool
  rt_fault :: bool

definition reader_threads_start :: reader_threads where
  "reader_threads_start =
     \<lparr>rt_poll = P_check, rt_notify = N_check, rt_delete = D_idle, rt_mutex = None, rt_stop = False, rt_cached = True,
      rt_fault = False\<rparr>"

definition on_data_available_thread :: "reader_threads \<Rightarrow> reader_threads" where
  "on_data_available_thread s =
     (case rt_poll s of
        P_check \<Rightarrow> s\<lparr>rt_poll := if rt_stop s then P_end else P_lock\<rparr>
      | P_lock \<Rightarrow> if rt_mutex s = None then s\<lparr>rt_mutex := Some T_poll, rt_poll := P_read\<rparr> else s
      | P_read \<Rightarrow> s\<lparr>rt_fault := (rt_fault s \<or> \<not> rt_cached s), rt_mutex := None, rt_poll := P_sleep\<rparr>
      | P_sleep \<Rightarrow> s\<lparr>rt_poll := P_check\<rparr>
      | P_end \<Rightarrow> s)"

definition modbus_reading_thread :: "reader_threads \<Rightarrow> reader_threads" where
  "modbus_reading_thread s =
     (case rt_notify s of
        N_check \<Rightarrow> s\<lparr>rt_notify := if rt_stop s then N_end else N_call\<rparr>
      | N_call \<Rightarrow> s\<lparr>rt_notify := N_sleep\<rparr>
      | N_sleep \<Rightarrow> s\<lparr>rt_notify := N_check\<rparr>
      | N_end \<Rightarrow> s)"

definition ModbusStreamReader_destructor :: "reader_threads \<Rightarrow> reader_threads" where
  "ModbusStreamReader_destructor s =
     (case rt_delete s of
        D_idle \<Rightarrow> s\<lparr>rt_delete := D_lock\<rparr>
      | D_lock \<Rightarrow> if rt_mutex s = None then s\<lparr>rt_mutex := Some T_delete, rt_delete := D_free\<rparr> else s
      | D_free \<Rightarrow> s\<lparr>rt_cached := False, rt_delete := D_stop\<rparr>
      | D_stop \<Rightarrow> s\<lparr>rt_stop := True, rt_delete := D_join_notify\<rparr>
      | D_join_notify \<Rightarrow> if rt_notify s = N_end then s\<lparr>rt_delete := D_join_poll\<rparr> else s
      | D_join_poll \<Rightarrow> if rt_poll s = P_end then s\<lparr>rt_mutex := None, rt_delete := D_end\<rparr> else s
      | D_end \<Rightarrow> s)"

fun thread_step :: "modbus_thread \<Rightarrow> reader_threads \<Rightarrow> reader_threads" where
  "thread_step T_poll s = on_data_available_thread s"
| "thread_step T_notify s = modbus_reading_thread s"
| "thread_step T_delete s = ModbusStreamReader_destructor s"

lemmas thread_defs = on_data_available_thread_def modbus_reading_thread_def ModbusStreamReader_destructor_def

text \<open>The states that the threads reach together, in any order of their steps.\<close>

inductive threads_reachable :: "reader_threads \<Rightarrow> reader_threads \<Rightarrow> bool" for s0 where
  thr_refl: "threads_reachable s0 s0"
| thr_step: "threads_reachable s0 s \<Longrightarrow> threads_reachable s0 (thread_step t s)"

definition threads_inv :: "reader_threads \<Rightarrow> bool" where
  "threads_inv s \<longleftrightarrow>
     (rt_mutex s = Some T_poll \<longleftrightarrow> rt_poll s = P_read) \<and>
     (rt_mutex s = Some T_delete \<longleftrightarrow> rt_delete s \<in> {D_free, D_stop, D_join_notify, D_join_poll}) \<and>
     rt_mutex s \<noteq> Some T_notify \<and>
     (rt_stop s \<longleftrightarrow> rt_delete s \<in> {D_join_notify, D_join_poll, D_end}) \<and>
     (rt_cached s \<longleftrightarrow> rt_delete s \<in> {D_idle, D_lock, D_free}) \<and>
     (rt_delete s = D_join_poll \<longrightarrow> rt_notify s = N_end) \<and>
     (rt_delete s = D_end \<longrightarrow> rt_poll s = P_end) \<and> \<not> rt_fault s"

lemma threads_inv_start: "threads_inv reader_threads_start"
  by (simp add: threads_inv_def reader_threads_start_def)

lemma threads_inv_step: "threads_inv s \<Longrightarrow> threads_inv (thread_step t s)"
  by (cases t; cases "rt_poll s"; cases "rt_notify s"; cases "rt_delete s")
    (auto simp: threads_inv_def thread_defs)

lemma threads_inv_reachable: "threads_reachable s0 s \<Longrightarrow> threads_inv s0 \<Longrightarrow> threads_inv s"
  by (induction rule: threads_reachable.induct) (auto intro: threads_inv_step)

text \<open>Once the polling thread waits for the mutex that the destructor holds, neither gets further.\<close>

definition deadlocked :: "reader_threads \<Rightarrow> bool" where
  "deadlocked s \<longleftrightarrow> rt_poll s = P_lock \<and> rt_mutex s = Some T_delete \<and>
     rt_delete s \<in> {D_free, D_stop, D_join_notify, D_join_poll}"

lemma deadlocked_step: "deadlocked s \<Longrightarrow> deadlocked (thread_step t s)"
  by (cases t) (auto simp: deadlocked_def thread_defs split: notify_pc.splits)

lemma deadlocked_reachable: "threads_reachable s0 s \<Longrightarrow> deadlocked s0 \<Longrightarrow> deadlocked s"
  by (induction rule: threads_reachable.induct) (auto intro: deadlocked_step)

text \<open>Otherwise three turns for each thread are enough.\<close>

definition three_turns :: "reader_threads \<Rightarrow> reader_threads" where
  "three_turns s = (thread_step T_delete ^^ 2) ((thread_step T_poll ^^ 3) ((thread_step T_notify ^^ 3) s))"

lemma three_turns_end:
  assumes "threads_inv s" "rt_delete s \<in> {D_join_notify, D_join_poll}" "rt_poll s \<noteq> P_lock"
  shows "rt_delete (three_turns s) = D_end"
  using assms
  by (cases "rt_poll s"; cases "rt_notify s")
    (auto simp: three_turns_def threads_inv_def thread_defs numeral_2_eq_2 numeral_3_eq_3)

text \<open>
  Claim C38. In every order of the steps the polling thread never uses the sample after the destructor has
  deleted it.  When the destructor waits for the threads, it ends after a few turns of each, except when
  the polling thread is waiting for the mutex: then it never ends.
\<close>

theorem reader_destructor_outcome:
  assumes "threads_reachable reader_threads_start s"
  shows "\<not> rt_fault s \<and>
         (rt_delete s \<in> {D_join_notify, D_join_poll} \<longrightarrow>
            (if rt_poll s = P_lock then \<forall>s'. threads_reachable s s' \<longrightarrow> rt_delete s' \<noteq> D_end
             else rt_delete (three_turns s) = D_end))"
proof -
  have inv: "threads_inv s" using threads_inv_reachable [OF assms threads_inv_start] .
  have "\<forall>s'. threads_reachable s s' \<longrightarrow> rt_delete s' \<noteq> D_end"
    if "rt_delete s \<in> {D_join_notify, D_join_poll}" "rt_poll s = P_lock"
  proof -
    have "deadlocked s" using inv that by (auto simp: deadlocked_def threads_inv_def)
    then show ?thesis using deadlocked_reachable by (fastforce simp: deadlocked_def)
  qed
  then show ?thesis using inv three_turns_end [OF inv] by (auto simp: threads_inv_def)
qed

end
