(* ===== verification/ModbusWitnesses.thy ===== *)
theory ModbusWitnesses
  imports ModbusStreams
begin

text \<open>
  The theorems on the Modbus adapter applied to a concrete device.  Numbers are integers, which
  \<^verbatim>\<open>float\<close> rounds down to 24 significant bits; registers hold the most significant part first.
\<close>

section \<open>Numbers and registers\<close>

function round24 :: "int \<Rightarrow> int" where
  "round24 i = (if \<bar>i\<bar> \<le> 2 ^ 24 then i else 2 * round24 (i div 2))"
  by pat_completeness auto
termination
  by (relation "measure (\<lambda>i. nat \<bar>i\<bar>)") auto

declare round24.simps [simp del]

definition int_fp :: "int fp" where
  "int_fp =
     \<lparr>fp_of_int = (\<lambda>i. i), f32_of_int = round24, fp_float = round24, fp_double = (\<lambda>i. i),
      fp_add = (+), fp_mul = (*), f32_add = (\<lambda>a b. round24 (a + b)), f32_mul = (\<lambda>a b. round24 (a * b)),
      fp_less = (<), fp_eq = (=), fp_trunc = Some, fp_undef = (\<lambda>w sg i. 0),
      fp_double_min = - (2 ^ 60), fp_double_max = 2 ^ 60\<rparr>"

lemma round24_exact: "\<bar>i\<bar> \<le> 2 ^ 24 \<Longrightarrow> round24 i = i"
  by (simp add: round24.simps)

lemma int_fp_laws: "fp_laws int_fp"
  by (simp add: fp_laws_def int_fp_def round24_exact)

definition be_regs :: "int modbus_regs" where
  "be_regs =
     \<lparr>mb_set_int32 = (\<lambda>w. [ucast (drop_bit 16 w), ucast w]),
      mb_get_int32 = (\<lambda>rs. or (push_bit 16 (ucast (rs ! 0))) (ucast (rs ! 1))),
      mb_set_int64 = (\<lambda>w. [ucast (drop_bit 48 w), ucast (drop_bit 32 w), ucast (drop_bit 16 w), ucast w]),
      mb_get_int64 = (\<lambda>rs. or (or (push_bit 48 (ucast (rs ! 0))) (push_bit 32 (ucast (rs ! 1))))
                              (or (push_bit 16 (ucast (rs ! 2))) (ucast (rs ! 3)))),
      mb_set_float = (\<lambda>order v. [0, word_of_int v]),
      mb_get_float = (\<lambda>order rs. sint (rs ! 1)),
      mb_default_device_id = 255\<rparr>"

lemma split_int32: "or (push_bit 16 (ucast (ucast (drop_bit 16 w) :: reg))) (ucast (ucast w :: reg)) = w" for w :: "32 word"
  by (rule bit_word_eqI) (auto simp: bit_simps)

lemma split_int64:
  "or (or (push_bit 48 (ucast (ucast (drop_bit 48 w) :: reg))) (push_bit 32 (ucast (ucast (drop_bit 32 w) :: reg))))
     (or (push_bit 16 (ucast (ucast (drop_bit 16 w) :: reg))) (ucast (ucast w :: reg))) = w" (is "?v = w") for w :: "64 word"
proof (rule bit_word_eqI)
  fix n assume "n < LENGTH(64)"
  then consider "n < 16" | "16 \<le> n" "n < 32" | "32 \<le> n" "n < 48" | "48 \<le> n" "n < 64" by fastforce
  then show "bit ?v n = bit w n" by cases (auto simp: bit_simps)
qed

lemma be_regs_laws: "mb_laws be_regs"
  by (simp add: mb_laws_def be_regs_def split_int32 split_int64 numeral_2_eq_2 numeral_3_eq_3)

section \<open>Elements\<close>

text \<open>Three 32-bit integers at address 100, in an array or a sequence.\<close>

definition example_element :: "int mace" where
  "example_element =
     (ModbusAdapterConfigurationElement_new int_fp be_regs)
       \<lparr>m_field := ''level'', m_modbus_register_address := 100, m_modbus_register_count := 6,
        m_modbus_datatype := holding_register_int32, m_array_elements := 3\<rparr>"

lemmas element_defs = example_element_def ModbusAdapterConfigurationElement_new_def

lemma example_step [simp]: "step_of example_element = 2"
  by (simp add: step_of_def number_of_registers_primitive_type_def element_defs)

lemma example_count [simp]: "register_count_size example_element = 6"
  by (simp add: register_count_size_def element_defs)

lemma example_check: "\<bar>v\<bar> < 2 ^ 60 \<Longrightarrow> check_correct_value int_fp example_element v = Ret ()"
  by (auto simp: check_correct_value_def element_defs int_fp_def)

lemma example_linear: "linear int_fp example_element v = v"
  by (simp add: element_defs int_fp_def)

lemma example_wf: "mace_wf int_fp example_element"
  by (simp add: mace_wf_def) (simp add: element_defs int_fp_def)

lemma example_writable: "mace_writable int_fp example_element"
  using example_wf by (simp add: mace_writable_def) (simp add: element_defs int_fp_def cstring_def NUL_def round24_exact)

text \<open>Two values in four registers of which the first are negative, and three values in too few.\<close>

theorem registers_write_bounds_witness:
  "get_registers_value int_fp be_regs example_element (replicate 4 0) [- 2, 65537] = Ret [0xFFFF, 0xFFFE, 1, 1] \<and>
   get_registers_value int_fp be_regs example_element (replicate 4 0) [- 2, 65537, 3] = Undefined"
proof -
  have w: "writable (m_modbus_datatype example_element)" by (simp add: writable_def element_defs)
  have e: "encoded int_fp be_regs example_element (- 2) = [0xFFFF, 0xFFFE]"
    "encoded int_fp be_regs example_element 65537 = [1, 1]"
    by (simp_all add: encoded_def registers_of_value_def element_defs int_fp_def be_regs_def safe_cast_unsigned_def
        static_cast_def int_range_def)
  show ?thesis
    using registers_write_bounds [OF be_regs_laws w, of "[- 2, 65537]" int_fp "replicate 4 0"]
      registers_write_bounds [OF be_regs_laws w, of "[- 2, 65537, 3]" int_fp "replicate 4 0"]
    by (simp add: e example_linear example_check)
qed

text \<open>The configuration of this element as JSON, and back.\<close>

definition example_json :: "string \<Rightarrow> int json_node option" where
  "example_json content =
     (if content = ''config'' then Some (json_array (map (mace_json stream_writer) [example_element])) else None)"

theorem configuration_roundtrip_witness:
  "parse_json_config_string int_fp be_regs example_json stream_writer ''config'' [] = Ret [example_element]"
  by (rule configuration_roundtrip) (simp_all add: example_writable example_json_def)

text \<open>An integer constant and a register written by hand: both elements are well formed.\<close>

definition example_json2 :: "string \<Rightarrow> int json_node option" where
  "example_json2 content =
     Some (json_array
       [json_object [(''field'', json_string ''id''), (''value'', json_integer 7)],
        json_object [(''field'', json_string ''level''), (''modbus_datatype'', json_string ''INPUT_REGISTER_INT64''),
                     (''modbus_register_address'', json_integer 3)]])"

theorem parsed_configuration_wf_witness:
  "\<exists>c r. parse_json_config_string int_fp be_regs example_json2 stream_reader ''x'' [] = Ret [c, r] \<and>
     mace_wf int_fp c \<and> mace_wf int_fp r \<and> m_modbus_register_count r = 4"
proof -
  obtain c r where p: "parse_json_config_string int_fp be_regs example_json2 stream_reader ''x'' [] = Ret [c, r]"
    and n: "m_modbus_register_count r = 4"
    by (simp add: parse_json_config_string_def example_json2_def parse_member_def ModbusAdapterConfigurationElement_new_def
        finish_element_def check_for_errors_def number_of_registers_primitive_type_def modbus_datatype_from_string_def
        int_fp_def c_text_def NUL_def)
  then show ?thesis using parsed_configuration_wf [OF p] by auto
qed


section \<open>A device and its streams\<close>

text \<open>The state of the library: the selected device and its registers.\<close>

definition example_lib :: "(int \<times> (i32 \<Rightarrow> reg)) libmodbus" where
  "example_lib =
     \<lparr>lm_get_slave = fst, lm_set_slave = (\<lambda>s k. (0, (uint s, snd k))),
      lm_write_register = (\<lambda>a r k. (1, (fst k, (snd k)(a := r)))),
      lm_write_registers = (\<lambda>a n rs k.
        (int (length rs), (fst k, \<lambda>x. if unat (x - a) < length rs then rs ! unat (x - a) else snd k x))),
      lm_read_registers = (\<lambda>a n k. (int (unat n), map (\<lambda>i. snd k (a + of_nat i)) [0..<unat n], k)),
      lm_read_input_registers = (\<lambda>a n k. (0, [], k)),
      lm_write_bit = (\<lambda>a b k. (0, k)), lm_write_bits = (\<lambda>a n bs k. (0, k)),
      lm_read_bits = (\<lambda>a n k. (0, [], k)), lm_read_input_bits = (\<lambda>a n k. (0, [], k))\<rparr>"

lemma example_lib_laws: "device_laws example_lib"
proof -
  have "map (\<lambda>i. if unat (of_nat i :: i32) < length rs then rs ! unat (of_nat i :: i32) else f i) [0..<length rs] = rs"
    if "length rs = unat n" for rs :: "reg list" and n :: i32 and f
  proof (rule nth_equalityI)
    fix i assume "i < length (map (\<lambda>i. if unat (of_nat i :: i32) < length rs then rs ! unat (of_nat i :: i32) else f i) [0..<length rs])"
    then have "i < unat n" using that by simp
    then have "unat (of_nat i :: i32) = i"
      using unsigned_less [of n, where 'a = nat] by (simp add: unat_of_nat)
    then show "map (\<lambda>i. if unat (of_nat i :: i32) < length rs then rs ! unat (of_nat i :: i32) else f i) [0..<length rs] ! i = rs ! i"
      using \<open>i < unat n\<close> that by simp
  qed simp
  then show ?thesis by (auto simp: device_laws_def example_lib_def cong: if_cong)
qed

datatype example_type = X_struct | X_sequence | X_int32

definition example_types :: "example_type type_api" where
  "example_types =
     \<lparr>ty_kind = (\<lambda>t. case t of X_struct \<Rightarrow> STRUCTURE_TYPE | X_sequence \<Rightarrow> SEQUENCE_TYPE | X_int32 \<Rightarrow> INT_32_TYPE),
      ty_member = (\<lambda>t name. if t = X_struct \<and> name = ''level'' then Ret X_sequence else Throw RuntimeError),
      ty_content = (\<lambda>t. X_int32), ty_dimensions = (\<lambda>t. 1), ty_elements = (\<lambda>t. 1), ty_bounds = (\<lambda>t. 10),
      ty_ordinal = (\<lambda>t i. False)\<rparr>"

text \<open>A sample is the contents of its sequence.\<close>

definition example_samples :: "(int, int list) sample_api" where
  "example_samples =
     \<lparr>sa_member_kind = (\<lambda>f d. SEQUENCE_TYPE), sa_element_kind = (\<lambda>f d. INT_32_TYPE), sa_exists = (\<lambda>f d. True),
      sa_get_int = (\<lambda>t f d. Throw RuntimeError), sa_get_real = (\<lambda>t f d. Throw RuntimeError),
      sa_get_ints = (\<lambda>t f d. Ret d), sa_get_reals = (\<lambda>t f d. Throw RuntimeError),
      sa_set_int = (\<lambda>t f i d. Throw RuntimeError), sa_set_real = (\<lambda>t f r d. Throw RuntimeError),
      sa_set_ints = (\<lambda>t f is d. Ret is), sa_set_reals = (\<lambda>t f r d. Throw RuntimeError),
      sa_set_string = (\<lambda>f s d. Throw RuntimeError), sa_clear_optional = (\<lambda>f d. Throw RuntimeError)\<rparr>"

definition example_env :: "(int, example_type, int list, int \<times> (i32 \<Rightarrow> reg)) modbus_env" where
  "example_env =
     \<lparr>me_fp = int_fp, me_mb = be_regs, me_lm = example_lib, me_ty = example_types, me_primitive = (\<lambda>t. t = X_int32),
      me_optional = (\<lambda>t f. Ret False), me_sa = example_samples, me_json = example_json, me_files = Map.empty,
      me_stoi = (\<lambda>s. Throw RuntimeError), me_new_data = (\<lambda>t. [])\<rparr>"

abbreviation start_device :: "int \<times> (i32 \<Rightarrow> reg)" where
  "start_device \<equiv> (255, \<lambda>x. 0)"

lemma example_member:
  "get_member_type (me_ty example_env) X_struct (m_field example_element) = Ret X_sequence"
  "sa_exists (me_sa example_env) (m_field example_element) d"
  "element_kind_of example_env X_sequence = INT_32_TYPE"
  "sample_values example_env X_sequence example_element d = Ret d"
  by (simp_all add: get_member_type_def element_kind_of_def sample_values_def get_vector_values_def example_env_def
      example_types_def example_samples_def int_fp_def) (simp_all add: element_defs)

lemma example_select: "select_slave example_env example_element start_device = (True, start_device)"
  by (rule select_slave_same) (simp add: example_env_def example_lib_def element_defs be_regs_def)

lemma example_env_simps:
  "me_fp example_env = int_fp" "me_mb example_env = be_regs" "me_lm example_env = example_lib"
  by (simp_all add: example_env_def)

text \<open>Three integers are written to the device and read back into an empty sample.\<close>

theorem modbus_write_read_witness:
  "\<exists>k. write_element example_env X_struct [- 2, 65537, 70000] example_element start_device = (Ret (), k) \<and>
       read_element example_env X_struct example_element ([], k) = (Ret (), [- 2, 65537, 70000], k)"
proof -
  let ?vs = "[- 2, 65537, 70000] :: int list"
  have t: "m_modbus_datatype example_element = holding_register_int32" by (simp add: element_defs)
  have sv: "\<forall>v \<in> set ?vs. survives (m_modbus_datatype example_element) True v"
    by (simp add: t survives_def int_width_def int_range_def)
  have "\<exists>k2. write_element example_env X_struct ?vs example_element start_device = (Ret (), k2) \<and>
      read_element example_env X_struct example_element ([], k2) =
        result [] k2 (store_values example_env INT_32_TYPE example_element (map (fp_of_int int_fp) ?vs) [])"
  proof (rule modbus_write_read [where env = example_env and m = example_element and type = X_sequence and sg = True
        and k = start_device and ?k1.0 = start_device and vs = ?vs and sample = ?vs and struct_type = X_struct and data = "[]",
        unfolded example_env_simps example_member(3)])
    show "sample_values example_env X_sequence example_element ?vs = Ret (map (fp_of_int int_fp) ?vs)"
      using example_member(4) by (simp add: int_fp_def)
    show "\<forall>rs. length rs = unat (m_modbus_register_count example_element) \<longrightarrow>
        (\<exists>w k2. LibModbusClient_write_registers example_lib (m_modbus_register_address example_element)
          (m_modbus_register_count example_element) rs start_device = (Ret w, k2))"
      by (simp add: LibModbusClient_write_registers_def example_lib_def element_defs)
  qed (use int_fp_laws be_regs_laws example_lib_laws example_wf sv example_member example_select example_check in
      \<open>auto simp: t is_signed_kind_def element_count_def element_defs int_fp_def\<close>)
  moreover have "store_values example_env INT_32_TYPE example_element (map (fp_of_int int_fp) ?vs) [] = Ret ?vs"
    by (simp add: store_values_def set_vector_values_def element_value_kind_def safe_cast_kind_def safe_cast_signed_def
        static_cast_def int_range_def example_env_def example_samples_def int_fp_def)
  ultimately show ?thesis by (simp add: result_def)
qed


text \<open>The writer accepts the element for a sequence of up to ten integers; a sample with four overflows.\<close>

lemma example_writer:
  "ModbusStreamWriter_new example_env [''configuration_string_json'' \<mapsto> ''config''] X_struct = Ret [example_element]"
proof -
  have p: "parse_json_config_string int_fp be_regs example_json stream_writer ''config'' [] = Ret [example_element]"
    using parse_elements_mace_json [of "[example_element]" int_fp be_regs stream_writer "[]"] example_writable
    by (simp add: parse_json_config_string_def example_json_def)
  have c: "check_element int_fp example_types stream_writer X_struct example_element = Ret ()"
    by (simp add: check_element_def check_sequence_def unsigned_minimum_def is_compatible_dds_datatype_def is_signed_kind_def
        get_member_type_def is_read_only_def is_register_def is_int8_def compatible_kinds_def check_min_max_consistency_def
        example_types_def Let_def)
      (simp add: element_defs)
  show ?thesis
    using p c by (simp add: ModbusStreamWriter_new_def load_configuration_def example_env_def) (simp add: example_types_def)
qed

lemma example_content_suits: "content_suits example_env example_element X_sequence"
  by (simp add: content_suits_def unsigned_minimum_def is_compatible_dds_datatype_def is_signed_kind_def
      is_register_def is_int8_def compatible_kinds_def check_min_max_consistency_def example_types_def example_env_def Let_def)
    (simp add: element_defs)

theorem sequence_write_overflow_witness:
  "ModbusStreamWriter_new example_env [''configuration_string_json'' \<mapsto> ''config''] X_struct = Ret [example_element] \<and>
   fst (ModbusStreamWriter_write example_env [example_element] [(True, X_struct, [1, 2, 3, 4])] start_device) = Undefined"
proof -
  have l: "load_configuration example_env stream_writer [''configuration_string_json'' \<mapsto> ''config''] = Ret [example_element]"
    using example_writer by (auto simp: ModbusStreamWriter_new_def)
  have t: "ty_kind (me_ty example_env) X_struct = STRUCTURE_TYPE" "ty_kind (me_ty example_env) X_sequence = SEQUENCE_TYPE"
    "unat (ty_bounds (me_ty example_env) X_sequence) = 10" "element_count example_element = 3"
    by (simp_all add: example_env_def example_types_def element_count_def element_defs)
  have c: "\<forall>v \<in> set [1, 2, 3, 4]. check_correct_value (me_fp example_env) example_element
      (linear (me_fp example_env) example_element v) = Ret ()"
    by (simp add: example_env_simps example_linear example_check)
  have w: "writable (m_modbus_datatype example_element)" "m_array_elements example_element \<noteq> 0"
    by (simp_all add: writable_def element_defs)
  have mb: "mb_laws (me_mb example_env)" by (simp add: example_env_simps be_regs_laws)
  have "sa_exists (me_sa example_env) (m_field example_element) [1, 2, 3, 4] \<and>
      sample_values example_env X_sequence example_element [1, 2, 3, 4] = Ret [1, 2, 3, 4] \<and>
      element_count example_element < length [1, 2, 3, 4 :: int] \<and>
      length [1, 2, 3, 4 :: int] \<le> unat (ty_bounds (me_ty example_env) X_sequence) \<and>
      (\<forall>v \<in> set [1, 2, 3, 4]. check_correct_value (me_fp example_env) example_element
        (linear (me_fp example_env) example_element v) = Ret ()) \<and>
      select_slave example_env example_element start_device = (True, start_device)"
    unfolding t(3,4) by (intro conjI example_member example_select c) simp_all
  from sequence_write_overflow [OF mb t(1) l w example_member(1) t(2) example_content_suits, THEN conjunct2,
      rule_format, OF this]
  show ?thesis .
qed

text \<open>The polling thread finds the flag unset, then the destructor takes the mutex and waits for ever.\<close>

definition stuck_threads :: reader_threads where
  "stuck_threads =
     \<lparr>rt_poll = P_lock, rt_notify = N_end, rt_delete = D_join_poll, rt_mutex = Some T_delete, rt_stop = True,
      rt_cached = False, rt_fault = False\<rparr>"

lemma stuck_threads_reachable: "threads_reachable reader_threads_start stuck_threads"
proof -
  have "threads_reachable reader_threads_start
      (thread_step T_delete (thread_step T_notify (thread_step T_delete (thread_step T_delete (thread_step T_delete
        (thread_step T_delete (thread_step T_poll reader_threads_start)))))))"
    by (intro threads_reachable.intros)
  then show ?thesis
    by (simp add: thread_defs reader_threads_start_def stuck_threads_def)
qed

theorem reader_destructor_outcome_witness:
  "\<not> (\<exists>s. threads_reachable stuck_threads s \<and> rt_delete s = D_end)"
  using reader_destructor_outcome [OF stuck_threads_reachable] by (auto simp: stuck_threads_def)

end
