(* ===== verification/Sequence2Array.thy ===== *)
theory Sequence2Array
  imports Cxx
begin

text \<open>
  The check of types of the sequence-to-array transformation, \<^verbatim>\<open>Sequence2ArrayTransformation.cxx\<close>: a transformation
  is meant for an output type that is the input type with sequences replaced by arrays, or arrays by
  sequences.  What the check accepts is given as a relation, which contains that one and is larger.

  DDS types are a datatype with the structure that the code looks at; aliases are resolved where the
  code resolves them.  The comparison of types that the code calls (\<^verbatim>\<open>operator==\<close>) is equality.  Asking
  for a member that the output type does not have throws an exception of DDS.
\<close>

section \<open>Types\<close>

datatype dtype =
    DT_primitive TypeKind nat
  | DT_struct string "(string \<times> dtype) list"
  | DT_union string dtype "(string \<times> dtype) list"
  | DT_array "nat list" dtype
  | DT_sequence nat dtype
  | DT_alias string dtype

fun dt_kind :: "dtype \<Rightarrow> TypeKind" where
  "dt_kind (DT_primitive k n) = k"
| "dt_kind (DT_struct name ms) = STRUCTURE_TYPE"
| "dt_kind (DT_union name d ms) = UNION_TYPE"
| "dt_kind (DT_array dims t) = ARRAY_TYPE"
| "dt_kind (DT_sequence b t) = SEQUENCE_TYPE"
| "dt_kind (DT_alias name t) = OTHER_TYPE 0"

fun resolve_alias :: "dtype \<Rightarrow> dtype" where
  "resolve_alias (DT_alias name t) = resolve_alias t"
| "resolve_alias t = t"

fun dt_members :: "dtype \<Rightarrow> (string \<times> dtype) list" where
  "dt_members (DT_struct name ms) = ms"
| "dt_members (DT_union name d ms) = ms"
| "dt_members _ = []"

fun dt_discriminator :: "dtype \<Rightarrow> dtype option" where
  "dt_discriminator (DT_union name d ms) = Some d"
| "dt_discriminator _ = None"

text \<open>A kind whose types are looked into; the primitive constructor is for the other ones.\<close>

definition constructed :: "TypeKind \<Rightarrow> bool" where
  "constructed k = (k \<in> {STRUCTURE_TYPE, SEQUENCE_TYPE, ARRAY_TYPE, UNION_TYPE})"

fun proper :: "dtype \<Rightarrow> bool" where
  "proper (DT_primitive k n) = (\<not> constructed k)"
| "proper (DT_struct name ms) = list_all (\<lambda>(m, t). proper t) ms"
| "proper (DT_union name d ms) = list_all (\<lambda>(m, t). proper t) ms"
| "proper (DT_array dims t) = proper t"
| "proper (DT_sequence b t) = proper t"
| "proper (DT_alias name t) = proper t"

section \<open>The check\<close>

lemma size_resolve_alias: "size (resolve_alias t) \<le> size t"
  by (induction t rule: resolve_alias.induct) auto

lemma size_dt_members: "size_list (size_prod (\<lambda>_. 0) size) (dt_members t) \<le> size t"
  by (cases t) auto

text \<open>The elements of arrays and sequences, once the dimensions have been compared.\<close>

fun dt_content :: "dtype \<Rightarrow> dtype" where
  "dt_content (DT_array dims t) = t"
| "dt_content (DT_sequence b t) = t"
| "dt_content t = t"

fun dt_dims :: "dtype \<Rightarrow> nat list" where
  "dt_dims (DT_array dims t) = dims"
| "dt_dims _ = []"

text \<open>
  The two functions of the code call each other; here the loop over the members is the third.  The
  element type is compared with \<open>different\<close> as the answer for two different primitive types: it is
  \<open>False\<close> only from array to array.
\<close>

function are_types_compatible :: "dtype \<Rightarrow> dtype \<Rightarrow> bool cxx"
  and is_union_or_struct_type_compatible :: "dtype \<Rightarrow> dtype \<Rightarrow> bool cxx"
  and members_compatible :: "(string \<times> dtype) list \<Rightarrow> dtype \<Rightarrow> bool cxx"
  and content_compatible :: "bool \<Rightarrow> dtype \<Rightarrow> dtype \<Rightarrow> bool cxx" where
  "are_types_compatible input out =
     (case input of
        DT_struct name ms \<Rightarrow> is_union_or_struct_type_compatible input out
      | DT_union name d ms \<Rightarrow> is_union_or_struct_type_compatible input out
      | DT_array dims t \<Rightarrow>
          if dt_kind out \<noteq> ARRAY_TYPE \<and> dt_kind out \<noteq> SEQUENCE_TYPE then Ret False
          else if dt_kind out = ARRAY_TYPE then
            (if length dims \<noteq> length (dt_dims out) then Ret False
             else if prod_list dims \<noteq> prod_list (dt_dims out) then Ret False
             else content_compatible False t (dt_content out))
          else content_compatible True t (dt_content out)
      | DT_sequence b t \<Rightarrow>
          if dt_kind out \<noteq> ARRAY_TYPE \<and> dt_kind out \<noteq> SEQUENCE_TYPE then Ret False
          else if dt_kind out = ARRAY_TYPE then
            (if length (dt_dims out) \<noteq> 1 then Ret False else content_compatible True t (dt_content out))
          else content_compatible True t (dt_content out)
      | _ \<Rightarrow> Ret False)"
| "is_union_or_struct_type_compatible input out =
     (if dt_kind input \<noteq> dt_kind out then Ret True
      else if dt_kind input \<noteq> UNION_TYPE \<and> dt_kind input \<noteq> STRUCTURE_TYPE then Ret False
      else if dt_discriminator input \<noteq> dt_discriminator out then Ret False
      else if length (dt_members input) \<noteq> length (dt_members out) then Ret False
      else if input = out then Ret True
      else members_compatible (dt_members input) out)"
| "members_compatible [] out = Ret True"
| "members_compatible ((name, t) # ms) out =
     (case map_of (dt_members out) name of
        None \<Rightarrow> Throw (InvalidArgumentError name)
      | Some u \<Rightarrow>
          cxx_bind
            (if constructed (dt_kind (resolve_alias t)) then are_types_compatible (resolve_alias t) (resolve_alias u)
             else Ret (resolve_alias t = resolve_alias u))
            (\<lambda>ok. if ok then members_compatible ms out else Ret False))"
| "content_compatible different t u =
     (if t = u then Ret True
      else if constructed (dt_kind t) then are_types_compatible t u
      else Ret different)"
  by pat_completeness auto
termination
proof (relation "measure (\<lambda>x. case x of
      Inl (Inl (t, u)) \<Rightarrow> 3 * size t + 3
    | Inl (Inr (t, u)) \<Rightarrow> 3 * size t + 2
    | Inr (Inl (ms, u)) \<Rightarrow> 3 * size_list (size_prod (\<lambda>_. 0) size) ms + 1
    | Inr (Inr (d, t, u)) \<Rightarrow> 3 * size t + 4)", goal_cases)
  case (8 input out)
  then show ?case using size_dt_members [of input] by simp
next
  case (9 name t)
  show ?case using size_resolve_alias [of t] by simp
qed auto

declare are_types_compatible.simps [simp del] is_union_or_struct_type_compatible.simps [simp del]
  content_compatible.simps [simp del]

text \<open>The constructors of both transformations.\<close>

definition Sequence2ArrayTransformation_new :: "dtype \<Rightarrow> dtype \<Rightarrow> (dtype \<times> dtype) cxx" where
  "Sequence2ArrayTransformation_new input_type_info output_type_info =
     cxx_bind (are_types_compatible input_type_info output_type_info) (\<lambda>ok.
       if ok then Ret (input_type_info, output_type_info) else Throw RuntimeError)"

section \<open>What is meant, and what is accepted\<close>

text \<open>
  \<open>accepts\<close> is the relation that the code decides.  Structs and unions match when they are equal, or
  have the same number of members and each member of the input has a member of the same name in the
  output that matches it: the names of the types do not count, nor does the order of the members.  An array
  matches an array with as many dimensions and as many elements in all, whatever the single
  dimensions, and a sequence of any bound; a sequence matches a sequence of any bound and an array of one
  dimension.  Beyond that a struct or union matches every type of another kind, and elements of
  different primitive types match each other unless both sides are arrays.
\<close>

inductive accepts :: "dtype \<Rightarrow> dtype \<Rightarrow> bool"
  and accepts_members :: "(string \<times> dtype) list \<Rightarrow> dtype \<Rightarrow> bool" where
  same: "dt_kind t \<in> {STRUCTURE_TYPE, UNION_TYPE} \<Longrightarrow> accepts t t"
| members: "dt_kind t \<in> {STRUCTURE_TYPE, UNION_TYPE} \<Longrightarrow> dt_kind u = dt_kind t \<Longrightarrow>
    dt_discriminator t = dt_discriminator u \<Longrightarrow> length (dt_members t) = length (dt_members u) \<Longrightarrow>
    accepts_members (dt_members t) u \<Longrightarrow> accepts t u"
| array_array: "length dims = length dims' \<Longrightarrow> prod_list dims = prod_list dims' \<Longrightarrow> t = u \<or> constructed (dt_kind t) \<and> accepts t u \<Longrightarrow>
    accepts (DT_array dims t) (DT_array dims' u)"
| array_sequence: "t = u \<or> constructed (dt_kind t) \<and> accepts t u \<Longrightarrow> accepts (DT_array dims t) (DT_sequence b u)"
| sequence_array: "t = u \<or> constructed (dt_kind t) \<and> accepts t u \<Longrightarrow> accepts (DT_sequence b t) (DT_array [n] u)"
| sequence_sequence: "t = u \<or> constructed (dt_kind t) \<and> accepts t u \<Longrightarrow> accepts (DT_sequence b t) (DT_sequence b' u)"
| other_kind: "dt_kind t \<in> {STRUCTURE_TYPE, UNION_TYPE} \<Longrightarrow> dt_kind u \<noteq> dt_kind t \<Longrightarrow> accepts t u"
| primitive_content: "t \<noteq> u \<Longrightarrow> \<not> constructed (dt_kind t) \<Longrightarrow> c \<in> {DT_array dims t, DT_sequence b t} \<Longrightarrow>
    d \<in> {DT_array [n] u, DT_sequence b' u} \<Longrightarrow> \<not> (dt_kind c = ARRAY_TYPE \<and> dt_kind d = ARRAY_TYPE) \<Longrightarrow> accepts c d"
| none: "accepts_members [] u"
| more: "map_of (dt_members u) name = Some v \<Longrightarrow>
    (if constructed (dt_kind (resolve_alias t)) then accepts (resolve_alias t) (resolve_alias v)
     else resolve_alias t = resolve_alias v) \<Longrightarrow>
    accepts_members ms u \<Longrightarrow> accepts_members ((name, t) # ms) u"

inductive_simps accepts_array_simps: "accepts (DT_array dims t) u"
inductive_simps accepts_sequence_simps: "accepts (DT_sequence b t) u"
inductive_simps accepts_struct_simps: "accepts (DT_struct n ms) u"
inductive_simps accepts_union_simps: "accepts (DT_union n d ms) u"
inductive_simps accepts_members_Nil: "accepts_members [] u"
inductive_simps accepts_members_Cons: "accepts_members ((name, t) # ms) u"
inductive_simps accepts_primitive_simps: "accepts (DT_primitive k n) u"
inductive_simps accepts_alias_simps: "accepts (DT_alias n t) u"

lemma proper_resolve [simp]: "proper t \<Longrightarrow> proper (resolve_alias t)"
  by (induction t rule: resolve_alias.induct) auto

lemma proper_member: "proper u \<Longrightarrow> map_of (dt_members u) name = Some v \<Longrightarrow> proper v"
  by (cases u) (auto simp: list_all_iff dest!: map_of_SomeD)

lemma proper_members: "proper t \<Longrightarrow> list_all (\<lambda>(m, u). proper u) (dt_members t)"
  by (cases t) auto

lemma accepts_collections:
  assumes "proper u" "u' \<in> {DT_array dims t, DT_sequence b t}"
  shows "accepts u' u \<longleftrightarrow>
    (case u of
       DT_array dims' v \<Rightarrow>
         (if dt_kind u' = ARRAY_TYPE
          then length dims = length dims' \<and> prod_list dims = prod_list dims' \<and>
               (t = v \<or> constructed (dt_kind t) \<and> accepts t v)
          else length dims' = 1 \<and> (t = v \<or> constructed (dt_kind t) \<and> accepts t v \<or> \<not> constructed (dt_kind t)))
     | DT_sequence b' v \<Rightarrow> t = v \<or> constructed (dt_kind t) \<and> accepts t v \<or> \<not> constructed (dt_kind t)
     | _ \<Rightarrow> False)"
  using assms
  by (cases u) (auto simp: accepts_array_simps accepts_sequence_simps length_Suc_conv constructed_def)

lemma compatible_iff_accepts:
  "proper t \<Longrightarrow> proper u \<Longrightarrow> are_types_compatible t u = Ret True \<longleftrightarrow> accepts t u"
  "proper t \<Longrightarrow> proper u \<Longrightarrow> dt_kind t \<in> {STRUCTURE_TYPE, UNION_TYPE} \<Longrightarrow>
     is_union_or_struct_type_compatible t u = Ret True \<longleftrightarrow> accepts t u"
  "list_all (\<lambda>(m, t). proper t) ms \<Longrightarrow> proper u \<Longrightarrow> members_compatible ms u = Ret True \<longleftrightarrow> accepts_members ms u"
  "proper t \<Longrightarrow> proper u \<Longrightarrow> content_compatible different t u = Ret True \<longleftrightarrow>
     t = u \<or> constructed (dt_kind t) \<and> accepts t u \<or> different \<and> \<not> constructed (dt_kind t)"
proof (induction t u and t u and ms u and different t u
    rule: are_types_compatible_is_union_or_struct_type_compatible_members_compatible_content_compatible.induct)
  case (1 input out)
  show ?case
  proof (cases input)
    case (DT_array dims t)
    then show ?thesis
      using 1 by (cases out)
        (auto simp: are_types_compatible.simps accepts_collections [where dims = dims and b = 0 and t = t] constructed_def)
  next
    case (DT_sequence b t)
    then show ?thesis
      using 1 by (cases out)
        (auto simp: are_types_compatible.simps accepts_collections [where dims = "[]" and b = b and t = t] constructed_def)
  qed (use 1 in \<open>auto simp: are_types_compatible.simps accepts_primitive_simps accepts_alias_simps constructed_def\<close>)
next
  case (2 input out)
  have "members_compatible (dt_members input) out = Ret True \<longleftrightarrow> accepts_members (dt_members input) out"
    if "dt_kind input = dt_kind out" "dt_discriminator input = dt_discriminator out"
      "length (dt_members input) = length (dt_members out)" "input \<noteq> out"
    using 2 that proper_members by auto
  moreover have "accepts input out \<longleftrightarrow>
      dt_kind input \<noteq> dt_kind out \<or> input = out \<or>
      dt_discriminator input = dt_discriminator out \<and> length (dt_members input) = length (dt_members out) \<and>
      accepts_members (dt_members input) out"
    using "2.prems" by (cases input; cases out) (auto simp: accepts_struct_simps accepts_union_simps constructed_def)
  ultimately show ?case
    using "2.prems"(3) by (auto simp: is_union_or_struct_type_compatible.simps)
next
  case (3 out)
  show ?case by (simp add: accepts_members_Nil)
next
  case (4 name t ms out)
  show ?case
  proof (cases "map_of (dt_members out) name")
    case (Some v)
    have p: "proper t" "proper v" "list_all (\<lambda>(m, t). proper t) ms"
      using "4.prems" Some proper_member by auto
    show ?thesis
    proof (cases "constructed (dt_kind (resolve_alias t))")
      case True
      have "are_types_compatible (resolve_alias t) (resolve_alias v) = Ret True \<longleftrightarrow>
          accepts (resolve_alias t) (resolve_alias v)"
        using "4.IH"(1) [OF Some True] p by simp
      then show ?thesis
        using Some True "4.IH"(2) p "4.prems"(2) by (auto simp: accepts_members_Cons split: if_splits)
    next
      case False
      then show ?thesis
        using Some "4.IH"(2) p "4.prems"(2) by (auto simp: accepts_members_Cons split: if_splits)
    qed
  qed (simp add: accepts_members_Cons)
next
  case (5 different t u)
  then show ?case by (auto simp: content_compatible.simps)
qed


text \<open>
  \<open>exchanged\<close> is the relation that the comment in the source describes: all elements are the same, the same
  members in the same order, but sequences may be replaced by arrays of one dimension, or arrays of one
  dimension by sequences.
\<close>

definition member_types :: "(string \<times> dtype) list \<Rightarrow> dtype list" where
  "member_types ms = map (\<lambda>(m, t). resolve_alias t) ms"

inductive exchanged :: "dtype \<Rightarrow> dtype \<Rightarrow> bool" where
  ex_same: "exchanged t t"
| ex_struct: "distinct (map fst ms) \<Longrightarrow> map fst ms' = map fst ms \<Longrightarrow>
    list_all2 exchanged (member_types ms) (member_types ms') \<Longrightarrow>
    exchanged (DT_struct n ms) (DT_struct n' ms')"
| ex_union: "distinct (map fst ms) \<Longrightarrow> map fst ms' = map fst ms \<Longrightarrow>
    list_all2 exchanged (member_types ms) (member_types ms') \<Longrightarrow>
    exchanged (DT_union n d ms) (DT_union n' d ms')"
| ex_array: "exchanged t u \<Longrightarrow> exchanged (DT_array dims t) (DT_array dims u)"
| ex_sequence: "exchanged t u \<Longrightarrow> exchanged (DT_sequence b t) (DT_sequence b u)"
| ex_to_array: "exchanged t u \<Longrightarrow> exchanged (DT_sequence b t) (DT_array [n] u)"
| ex_to_sequence: "exchanged t u \<Longrightarrow> exchanged (DT_array [n] t) (DT_sequence b u)"
  monos list_all2_mono

lemma exchanged_other: "exchanged t u \<Longrightarrow> \<not> constructed (dt_kind t) \<Longrightarrow> t = u"
  by (erule exchanged.cases) (auto simp: constructed_def)

lemma accepts_refl: "proper t \<Longrightarrow> constructed (dt_kind t) \<Longrightarrow> accepts t t"
proof (cases t)
  case (DT_array dims t')
  show ?thesis unfolding DT_array by (rule accepts_accepts_members.array_array) simp_all
next
  case (DT_sequence b t')
  show ?thesis unfolding DT_sequence by (rule accepts_accepts_members.sequence_sequence) simp
qed (simp_all add: constructed_def accepts_accepts_members.same)

lemma accepts_membersI:
  assumes "\<And>m t. (m, t) \<in> set ms \<Longrightarrow> \<exists>v. map_of (dt_members u) m = Some v \<and>
      (if constructed (dt_kind (resolve_alias t)) then accepts (resolve_alias t) (resolve_alias v)
       else resolve_alias t = resolve_alias v)"
  shows "accepts_members ms u"
  using assms
proof (induction ms)
  case (Cons p ms)
  obtain m t where p: "p = (m, t)" by (cases p)
  from Cons.prems [of m t] p obtain v where v: "map_of (dt_members u) m = Some v"
    "if constructed (dt_kind (resolve_alias t)) then accepts (resolve_alias t) (resolve_alias v)
     else resolve_alias t = resolve_alias v" by auto
  show ?case unfolding p by (rule accepts_accepts_members.more [OF v]) (use Cons in auto)
qed (rule accepts_accepts_members.none)

lemma accepts_exchanged_members:
  assumes "distinct (map fst ms)" "map fst ms' = map fst ms" "dt_members u = ms'" "list_all (\<lambda>(m, t). proper t) ms"
    and "list_all2 (\<lambda>t v. exchanged t v \<and> (proper t \<longrightarrow> constructed (dt_kind t) \<longrightarrow> accepts t v))
      (member_types ms) (member_types ms')"
  shows "accepts_members ms u"
proof (rule accepts_membersI)
  fix m t
  assume mt: "(m, t) \<in> set ms"
  then obtain i where i: "i < length ms" "ms ! i = (m, t)" by (auto simp: in_set_conv_nth)
  have len: "length ms' = length ms" using arg_cong [OF assms(2), of length] by simp
  have "fst (ms' ! i) = m" using i len arg_cong [OF assms(2), of "\<lambda>xs. xs ! i"] by simp
  then obtain v where v: "ms' ! i = (m, v)" by (cases "ms' ! i") simp
  have ex: "exchanged (resolve_alias t) (resolve_alias v)"
    "proper (resolve_alias t) \<longrightarrow> constructed (dt_kind (resolve_alias t)) \<longrightarrow> accepts (resolve_alias t) (resolve_alias v)"
    using list_all2_nthD [OF assms(5), of i] i v len by (simp_all add: member_types_def)
  have "(m, v) \<in> set ms'" using i(1) v len nth_mem by metis
  then have "map_of ms' m = Some v" using assms(1,2) by simp
  moreover have "proper t" using assms(4) mt by (auto simp: list_all_iff)
  ultimately show "\<exists>v. map_of (dt_members u) m = Some v \<and>
      (if constructed (dt_kind (resolve_alias t)) then accepts (resolve_alias t) (resolve_alias v)
       else resolve_alias t = resolve_alias v)"
    using assms(3) ex exchanged_other by (intro exI [of _ v]) auto
qed

lemma same_or_accepts:
  "exchanged t u \<Longrightarrow> (proper t \<Longrightarrow> constructed (dt_kind t) \<Longrightarrow> accepts t u) \<Longrightarrow> proper t \<Longrightarrow>
   t = u \<or> constructed (dt_kind t) \<and> accepts t u"
  using exchanged_other by blast

lemma exchanged_accepts: "exchanged t u \<Longrightarrow> proper t \<Longrightarrow> constructed (dt_kind t) \<Longrightarrow> accepts t u"
proof (induction rule: exchanged.induct)
  case (ex_same t)
  then show ?case by (rule accepts_refl)
next
  case (ex_struct ms ms' n n')
  have "accepts_members ms (DT_struct n' ms')"
    by (rule accepts_exchanged_members [OF ex_struct(1,2)])
      (use ex_struct in \<open>auto elim!: list_all2_mono\<close>)
  then show ?case using arg_cong [OF ex_struct(2), of length]
    by (intro accepts_accepts_members.members) simp_all
next
  case (ex_union ms ms' n d n')
  have "accepts_members ms (DT_union n' d ms')"
    by (rule accepts_exchanged_members [OF ex_union(1,2)])
      (use ex_union in \<open>auto elim!: list_all2_mono\<close>)
  then show ?case using arg_cong [OF ex_union(2), of length]
    by (intro accepts_accepts_members.members) simp_all
next
  case (ex_array t u dims)
  then show ?case by (intro accepts_accepts_members.array_array same_or_accepts) simp_all
next
  case (ex_sequence t u b)
  then show ?case by (intro accepts_accepts_members.sequence_sequence same_or_accepts) simp_all
next
  case (ex_to_array t u b n)
  then show ?case by (intro accepts_accepts_members.sequence_array same_or_accepts) simp_all
next
  case (ex_to_sequence t u n b)
  then show ?case by (intro accepts_accepts_members.array_sequence same_or_accepts) simp_all
qed


text \<open>
  A struct with a sequence of structs and its counterpart with an array; and pairs that are accepted although
  they differ in more than that: permuted members, reshaped arrays, integers for floating-point
  numbers, and a struct for a number.
\<close>

lemma accepted_beyond:
  "accepts (DT_struct n [(''x'', t), (''y'', DT_primitive INT_32_TYPE 0)]) (DT_struct n' [(''y'', DT_primitive INT_32_TYPE 0), (''x'', t)]) \<longleftrightarrow>
     (constructed (dt_kind (resolve_alias t)) \<longrightarrow> accepts (resolve_alias t) (resolve_alias t))"
  "accepts (DT_array [2, 3] t) (DT_array [3, 2] t)"
  "accepts (DT_sequence b (DT_primitive INT_32_TYPE 0)) (DT_array [n''] (DT_primitive FLOAT_64_TYPE 0))"
  "accepts (DT_struct n ms) (DT_primitive INT_32_TYPE 0)"
proof -
  show "accepts (DT_array [2, 3] t) (DT_array [3, 2] t)" by (intro accepts_accepts_members.array_array) auto
  show "accepts (DT_struct n ms) (DT_primitive INT_32_TYPE 0)" by (intro accepts_accepts_members.other_kind) auto
  show "accepts (DT_sequence b (DT_primitive INT_32_TYPE 0)) (DT_array [n''] (DT_primitive FLOAT_64_TYPE 0))"
    by (subst accepts_collections [where dims = "[]" and b = b and t = "DT_primitive INT_32_TYPE 0"])
      (auto simp: constructed_def)
qed (auto simp: accepts_struct_simps accepts_members_Cons accepts_members_Nil constructed_def)

definition point_type :: "(dtype \<Rightarrow> dtype) \<Rightarrow> dtype" where
  "point_type collection =
     DT_struct ''Track'' [(''id'', DT_primitive INT_32_TYPE 0),
       (''points'', DT_alias ''Points'' (collection (DT_struct ''Point'' [(''x'', DT_primitive INT_32_TYPE 0)])))]"


end
