(* ===== verification/SequenceConvert.thy ===== *)
theory SequenceConvert
  imports Sequence2Array
begin

text \<open>
  The conversion of samples by the two transformations of \<^verbatim>\<open>Sequence2ArrayTransformation.cxx\<close>, with the functions of
  \<^verbatim>\<open>common/dds_specific/srcCxx/DynamicDataHelpers.cxx\<close> that copy primitive members.

  Dynamic samples are a parameter \<open>dynamic_data\<close>.  A loan is a view of a member: \<open>dd_loan\<close> is the member, and
  \<open>dd_put\<close> is the sample when a loan whose data has been changed is returned; a loan that is returned
  unchanged leaves the sample as it was.  Members are numbered from 1, with 32-bit numbers as in the code.
\<close>

section \<open>Dynamic samples\<close>

record ('v, 'd) dynamic_data =
  dd_type_kind :: "'d \<Rightarrow> TypeKind"
  dd_member_count :: "'d \<Rightarrow> u32"
  dd_discriminator :: "'d \<Rightarrow> u32 cxx"
  dd_exists :: "u32 \<Rightarrow> 'd \<Rightarrow> bool"
  dd_member_kind :: "u32 \<Rightarrow> 'd \<Rightarrow> TypeKind cxx"
  dd_element_kind :: "u32 \<Rightarrow> 'd \<Rightarrow> TypeKind cxx"
  dd_element_count :: "u32 \<Rightarrow> 'd \<Rightarrow> u32 cxx"
  dd_total_element_count :: "'d \<Rightarrow> u32 cxx"
  dd_bounds :: "'d \<Rightarrow> u32 cxx"
  dd_loan :: "u32 \<Rightarrow> 'd \<Rightarrow> 'd cxx"
  dd_put :: "u32 \<Rightarrow> 'd \<Rightarrow> 'd \<Rightarrow> 'd"
  dd_value :: "TypeKind \<Rightarrow> u32 \<Rightarrow> 'd \<Rightarrow> 'v cxx"
  dd_set_value :: "TypeKind \<Rightarrow> u32 \<Rightarrow> 'v \<Rightarrow> 'd \<Rightarrow> 'd cxx"
  dd_set_ushort :: "u32 \<Rightarrow> 'v \<Rightarrow> 'd \<Rightarrow> 'd option"
  dd_values :: "TypeKind \<Rightarrow> u32 \<Rightarrow> 'd \<Rightarrow> 'v list cxx"
  dd_set_values :: "TypeKind \<Rightarrow> u32 \<Rightarrow> 'v list \<Rightarrow> 'd \<Rightarrow> 'd cxx"
  dd_zero :: "TypeKind \<Rightarrow> 'v"

section \<open>Copying primitive members\<close>

text \<open>The kind that selects the C++ type of a value; in collections booleans are octets.\<close>

definition copied_kind :: "TypeKind \<Rightarrow> TypeKind" where
  "copied_kind kind = (if kind = ENUMERATION_TYPE then INT_32_TYPE else kind)"

definition copied_element_kind :: "TypeKind \<Rightarrow> TypeKind" where
  "copied_element_kind kind =
     (if kind = ENUMERATION_TYPE then INT_32_TYPE else if kind = BOOLEAN_TYPE then UINT_8_TYPE else kind)"

abbreviation copied_kinds :: "TypeKind set" where
  "copied_kinds \<equiv> {BOOLEAN_TYPE, CHAR_8_TYPE, UINT_8_TYPE, INT_16_TYPE, INT_32_TYPE, ENUMERATION_TYPE, UINT_32_TYPE,
                   INT_64_TYPE, UINT_64_TYPE, FLOAT_32_TYPE, FLOAT_64_TYPE, STRING_TYPE}"

abbreviation integral_kinds :: "TypeKind set" where
  "integral_kinds \<equiv> {BOOLEAN_TYPE, UINT_8_TYPE, CHAR_8_TYPE, INT_16_TYPE, UINT_16_TYPE, INT_32_TYPE, ENUMERATION_TYPE,
                     UINT_32_TYPE, INT_64_TYPE, UINT_64_TYPE}"

definition copy_primitive_member :: "('v, 'd) dynamic_data \<Rightarrow> 'd \<Rightarrow> 'd \<Rightarrow> u32 \<Rightarrow> 'd cxx" where
  "copy_primitive_member dd input out index =
     cxx_bind (dd_member_kind dd index input) (\<lambda>kind.
       if kind = UINT_16_TYPE then
         cxx_bind (dd_value dd UINT_16_TYPE index input) (\<lambda>v.
           case dd_set_ushort dd index v out of Some out1 \<Rightarrow> Ret out1 | None \<Rightarrow> Throw RuntimeError)
       else if kind \<in> copied_kinds then
         cxx_bind (dd_value dd (copied_kind kind) index input) (\<lambda>v. dd_set_value dd (copied_kind kind) index v out)
       else Throw RuntimeError)"

text \<open>
  The elements of a collection.  Strings are copied one by one, but between the members of the
  enclosing sample with the numbers of the elements.  The counter is an \<^verbatim>\<open>int\<close>.
\<close>

function copy_strings :: "('v, 'd) dynamic_data \<Rightarrow> 'd \<Rightarrow> u32 \<Rightarrow> nat \<Rightarrow> 'd \<Rightarrow> 'd cxx" where
  "copy_strings dd input max_elements i out =
     (if i \<le> unat max_elements then
        (if 2 ^ 31 \<le> i then Undefined
         else
           cxx_bind (dd_value dd STRING_TYPE (word_of_nat i) input) (\<lambda>v.
           cxx_bind (dd_set_value dd STRING_TYPE (word_of_nat i) v out) (\<lambda>out1.
             copy_strings dd input max_elements (Suc i) out1)))
      else Ret out)"
  by pat_completeness auto
termination
  by (relation "measure (\<lambda>(dd, input, max_elements, i, out). Suc (unat max_elements) - i)") auto

declare copy_strings.simps [simp del]

definition resize :: "nat \<Rightarrow> 'v \<Rightarrow> 'v list \<Rightarrow> 'v list" where
  "resize n z vs = take n vs @ replicate (n - length vs) z"

text \<open>
  The functions for arrays and for sequences differ in the kind that the output has to have.  Floating-point
  values are set twice, the second time without the change of their number.
\<close>

definition copy_primitive_elements ::
    "TypeKind \<Rightarrow> ('v, 'd) dynamic_data \<Rightarrow> 'd \<Rightarrow> 'd \<Rightarrow> u32 \<Rightarrow> u32 \<Rightarrow> 'd cxx" where
  "copy_primitive_elements collection dd input out index max_elements =
     cxx_bind (dd_member_kind dd index out) (\<lambda>out_kind.
     cxx_bind (throw_if (out_kind \<noteq> collection)) (\<lambda>_.
     cxx_bind (dd_member_kind dd index input) (\<lambda>in_kind.
     cxx_bind (throw_if (in_kind \<noteq> ARRAY_TYPE \<and> in_kind \<noteq> SEQUENCE_TYPE)) (\<lambda>_.
     cxx_bind (dd_element_kind dd index input) (\<lambda>kind.
       let k = copied_element_kind kind in
       if kind \<in> integral_kinds then
         cxx_bind (dd_values dd k index input) (\<lambda>vs.
           dd_set_values dd k index (resize (unat max_elements) (dd_zero dd k) vs) out)
       else if kind \<in> {FLOAT_32_TYPE, FLOAT_64_TYPE} then
         cxx_bind (dd_values dd k index input) (\<lambda>vs.
         cxx_bind (dd_set_values dd k index (resize (unat max_elements) (dd_zero dd k) vs) out) (\<lambda>out1.
           dd_set_values dd k index vs out1))
       else if kind = STRING_TYPE then copy_strings dd input max_elements 1 out
       else Throw RuntimeError)))))"

definition copy_primitive_array_elements :: "('v, 'd) dynamic_data \<Rightarrow> 'd \<Rightarrow> 'd \<Rightarrow> u32 \<Rightarrow> u32 \<Rightarrow> 'd cxx" where
  "copy_primitive_array_elements = copy_primitive_elements ARRAY_TYPE"

definition copy_primitive_sequence_elements :: "('v, 'd) dynamic_data \<Rightarrow> 'd \<Rightarrow> 'd \<Rightarrow> u32 \<Rightarrow> u32 \<Rightarrow> 'd cxx" where
  "copy_primitive_sequence_elements = copy_primitive_elements SEQUENCE_TYPE"

section \<open>Converting a sample\<close>

text \<open>
  The two transformations differ in the capacity of the output collection that is compared, and in
  the function that copies primitive elements.
\<close>

datatype conversion = to_array | to_sequence

fun out_capacity :: "('v, 'd) dynamic_data \<Rightarrow> conversion \<Rightarrow> 'd \<Rightarrow> u32 cxx" where
  "out_capacity dd to_array om = dd_total_element_count dd om"
| "out_capacity dd to_sequence om = dd_bounds dd om"

fun copy_elements_of :: "conversion \<Rightarrow> ('v, 'd) dynamic_data \<Rightarrow> 'd \<Rightarrow> 'd \<Rightarrow> u32 \<Rightarrow> u32 \<Rightarrow> 'd cxx" where
  "copy_elements_of to_array = copy_primitive_array_elements"
| "copy_elements_of to_sequence = copy_primitive_sequence_elements"

definition check_capacity :: "('v, 'd) dynamic_data \<Rightarrow> conversion \<Rightarrow> 'd \<Rightarrow> 'd \<Rightarrow> unit cxx" where
  "check_capacity dd cv im om =
     cxx_bind (out_capacity dd cv om) (\<lambda>capacity. throw_if (dd_member_count dd im > capacity))"

definition member_to_process :: "('v, 'd) dynamic_data \<Rightarrow> 'd \<Rightarrow> u32 \<Rightarrow> u32 cxx" where
  "member_to_process dd input i = (if dd_type_kind dd input = UNION_TYPE then dd_discriminator dd input else Ret i)"

text \<open>An exception passes through the recursion, which is \<open>None\<close> where it does not end.\<close>

fun cxx_then :: "'a cxx \<Rightarrow> ('a \<Rightarrow> 'b cxx option) \<Rightarrow> 'b cxx option" where
  "cxx_then (Ret a) f = f a"
| "cxx_then (Throw e) f = Some (Throw e)"
| "cxx_then Undefined f = Some Undefined"

lemma cxx_then_mono [partial_function_mono]:
  assumes "\<And>a. mono_option (\<lambda>f. g a f)"
  shows "mono_option (\<lambda>f. cxx_then r (\<lambda>a. g a f))"
  using assms by (cases r) (auto intro!: monotoneI simp: flat_ord_def)

text \<open>
  \<^verbatim>\<open>convert_sample\<close> calls itself for the members of a sample and, in a loop of its own, for the elements of a
  collection; \<open>elements\<close> says which of the two loops it is.  \<open>i\<close> is the counter of the loop.
\<close>

partial_function (option) convert_loop ::
    "('v, 'd) dynamic_data \<Rightarrow> conversion \<Rightarrow> bool \<Rightarrow> u32 \<Rightarrow> 'd \<Rightarrow> 'd \<Rightarrow> 'd cxx option" where
  "convert_loop dd cv elements i input out =
     (if dd_member_count dd input < i then Some (Ret out)
      else if elements then
        cxx_then (dd_loan dd i input) (\<lambda>ie.
        cxx_then (dd_loan dd i out) (\<lambda>oe.
        Option.bind (convert_loop dd cv False 1 ie oe) (\<lambda>r.
        cxx_then r (\<lambda>oe1. convert_loop dd cv True (i + 1) input (dd_put dd i oe1 out)))))
      else
        cxx_then (member_to_process dd input i) (\<lambda>m.
        if \<not> dd_exists dd m input then convert_loop dd cv False (i + 1) input out
        else
          cxx_then (dd_member_kind dd m input) (\<lambda>kind.
          Option.bind
            (if kind = SEQUENCE_TYPE \<or> kind = ARRAY_TYPE then
               cxx_then (dd_loan dd m input) (\<lambda>im.
               cxx_then (dd_loan dd m out) (\<lambda>om.
               cxx_then (check_capacity dd cv im om) (\<lambda>_.
               cxx_then (dd_member_kind dd 1 im) (\<lambda>element_kind.
                 if constructed element_kind
                 then Option.bind (convert_loop dd cv True 1 im om) (\<lambda>r. cxx_then r (\<lambda>om1. Some (Ret (dd_put dd m om1 out))))
                 else Some (cxx_bind (dd_element_count dd m out) (\<lambda>n. copy_elements_of cv dd input out m n))))))
             else if kind = STRUCTURE_TYPE \<or> kind = UNION_TYPE then
               cxx_then (dd_loan dd m input) (\<lambda>im.
               cxx_then (dd_loan dd m out) (\<lambda>om.
                 Option.bind (convert_loop dd cv False 1 im om) (\<lambda>r. cxx_then r (\<lambda>om1. Some (Ret (dd_put dd m om1 out))))))
             else Some (copy_primitive_member dd input out m))
            (\<lambda>r. cxx_then r (\<lambda>out1.
               if dd_type_kind dd input = UNION_TYPE then Some (Ret out1)
               else convert_loop dd cv False (i + 1) input out1)))))"

definition convert_sample :: "('v, 'd) dynamic_data \<Rightarrow> conversion \<Rightarrow> 'd \<Rightarrow> 'd \<Rightarrow> 'd cxx option" where
  "convert_sample dd cv input out = convert_loop dd cv False 1 input out"

definition convert_elements :: "('v, 'd) dynamic_data \<Rightarrow> conversion \<Rightarrow> 'd \<Rightarrow> 'd \<Rightarrow> 'd cxx option" where
  "convert_elements dd cv input out = convert_loop dd cv True 1 input out"

text \<open>What happens to one member; the loop does it for one member after the other.\<close>

definition convert_member :: "('v, 'd) dynamic_data \<Rightarrow> conversion \<Rightarrow> u32 \<Rightarrow> 'd \<Rightarrow> 'd \<Rightarrow> 'd cxx option" where
  "convert_member dd cv m input out =
     cxx_then (dd_member_kind dd m input) (\<lambda>kind.
       if kind = SEQUENCE_TYPE \<or> kind = ARRAY_TYPE then
         cxx_then (dd_loan dd m input) (\<lambda>im.
         cxx_then (dd_loan dd m out) (\<lambda>om.
         cxx_then (check_capacity dd cv im om) (\<lambda>_.
         cxx_then (dd_member_kind dd 1 im) (\<lambda>element_kind.
           if constructed element_kind
           then Option.bind (convert_elements dd cv im om) (\<lambda>r. cxx_then r (\<lambda>om1. Some (Ret (dd_put dd m om1 out))))
           else Some (cxx_bind (dd_element_count dd m out) (\<lambda>n. copy_elements_of cv dd input out m n))))))
       else if kind = STRUCTURE_TYPE \<or> kind = UNION_TYPE then
         cxx_then (dd_loan dd m input) (\<lambda>im.
         cxx_then (dd_loan dd m out) (\<lambda>om.
           Option.bind (convert_sample dd cv im om) (\<lambda>r. cxx_then r (\<lambda>om1. Some (Ret (dd_put dd m om1 out))))))
       else Some (copy_primitive_member dd input out m))"

lemma bind_cxx_then: "Option.bind (cxx_then r f) g = cxx_then r (\<lambda>a. Option.bind (f a) g)" if "\<And>e. g (Throw e) = Some (Throw e)" "g Undefined = Some Undefined"
  using that by (cases r) auto

lemma convert_loop_members:
  "convert_loop dd cv False i input out =
     (if dd_member_count dd input < i then Some (Ret out)
      else
        cxx_then (member_to_process dd input i) (\<lambda>m.
          if \<not> dd_exists dd m input then convert_loop dd cv False (i + 1) input out
          else
            Option.bind (convert_member dd cv m input out) (\<lambda>r. cxx_then r (\<lambda>out1.
              if dd_type_kind dd input = UNION_TYPE then Some (Ret out1) else convert_loop dd cv False (i + 1) input out1))))"
  by (subst convert_loop.simps)
    (simp add: convert_member_def bind_cxx_then convert_sample_def convert_elements_def cong: if_cong)

lemma convert_loop_elements:
  "convert_loop dd cv True i input out =
     (if dd_member_count dd input < i then Some (Ret out)
      else
        cxx_then (dd_loan dd i input) (\<lambda>ie.
        cxx_then (dd_loan dd i out) (\<lambda>oe.
        Option.bind (convert_sample dd cv ie oe) (\<lambda>r.
        cxx_then r (\<lambda>oe1. convert_loop dd cv True (i + 1) input (dd_put dd i oe1 out))))))"
  by (subst convert_loop.simps) (simp add: convert_sample_def)

section \<open>Transforming samples\<close>

text \<open>
  \<^verbatim>\<open>transform\<close>: for every input sample an output sample of the output type (\<open>new\<close>) is allocated and
  filled, and the info is copied.  The number counts the allocated samples, which an exception leaves behind.
\<close>

fun transform_samples ::
    "('v, 'd) dynamic_data \<Rightarrow> conversion \<Rightarrow> 'd \<Rightarrow> ('d \<times> 'i) list \<Rightarrow> (nat \<times> ('d \<times> 'i) list cxx) option" where
  "transform_samples dd cv new [] = Some (0, Ret [])"
| "transform_samples dd cv new ((sample, info) # samples) =
     Option.bind (convert_sample dd cv sample new) (\<lambda>r.
       case r of
         Ret out \<Rightarrow>
           map_option (\<lambda>(n, outs). (Suc n, cxx_bind outs (\<lambda>os. Ret ((out, info) # os))))
             (transform_samples dd cv new samples)
       | Throw e \<Rightarrow> Some (1, Throw e)
       | Undefined \<Rightarrow> Some (1, Undefined))"

section \<open>Termination\<close>

text \<open>A property of a sample and of everything that can be loaned from it; loans of loans end, as they do for DDS types.\<close>

inductive everywhere :: "('v, 'd) dynamic_data \<Rightarrow> ('d \<Rightarrow> bool) \<Rightarrow> 'd \<Rightarrow> bool" for dd P where
  nested: "P d \<Longrightarrow> (\<And>i m. dd_loan dd i d = Ret m \<Longrightarrow> everywhere dd P m) \<Longrightarrow> everywhere dd P d"

text \<open>With the largest 32-bit number of members the counters of the loops would wrap around.\<close>

abbreviation countable_members :: "('v, 'd) dynamic_data \<Rightarrow> 'd \<Rightarrow> bool" where
  "countable_members dd d \<equiv> dd_member_count dd d \<noteq> - 1"

lemma cxx_then_returns: "(\<And>a. r = Ret a \<Longrightarrow> \<exists>s. f a = Some s) \<Longrightarrow> \<exists>s. cxx_then r f = Some s"
  by (cases r) auto

lemma bind_cxx_then_returns:
  "\<exists>r. x = Some r \<Longrightarrow> (\<And>a. \<exists>s. f a = Some s) \<Longrightarrow> \<exists>s. Option.bind x (\<lambda>r. cxx_then r f) = Some s"
  by (auto intro!: cxx_then_returns)

lemma u32_counter_Suc: "\<not> n < i \<Longrightarrow> n \<noteq> - 1 \<Longrightarrow> unat (i + 1) = Suc (unat i)" for n i :: u32
proof -
  assume i: "\<not> n < i" and n: "n \<noteq> - 1"
  then have "1 + i \<noteq> 0" using word_order.extremum_unique [of n] by (metis add_eq_0_iff linorder_not_less)
  then show ?thesis by (simp add: unatSuc add.commute)
qed

lemma convert_loop_returns:
  assumes "everywhere dd (countable_members dd) input"
  shows "\<exists>r. convert_loop dd cv elements i input out = Some r"
  using assms
proof (induction arbitrary: elements i out)
  case (nested d)
  have el: "\<exists>r. convert_loop dd cv True i d out = Some r" for i out
  proof (induction "Suc (unat (dd_member_count dd d)) - unat i" arbitrary: i out rule: less_induct)
    case less
    show ?case
    proof (cases "dd_member_count dd d < i")
      case False
      have "\<exists>r. convert_loop dd cv True (i + 1) d out' = Some r" for out'
        using less u32_counter_Suc [OF False nested.hyps(1)] False by (simp add: word_less_nat_alt)
      moreover have "\<exists>r. convert_sample dd cv ie oe = Some r" if "dd_loan dd i d = Ret ie" for ie oe
        using nested.IH [OF that] by (simp add: convert_sample_def)
      ultimately show ?thesis
        by (subst convert_loop_elements) (auto intro!: cxx_then_returns bind_cxx_then_returns)
    qed (simp add: convert_loop_elements)
  qed
  have mem: "\<exists>r. convert_member dd cv m d out = Some r" for m out
  proof -
    have "\<exists>r. convert_elements dd cv im om = Some r" "\<exists>r. convert_sample dd cv im om = Some r"
      if "dd_loan dd m d = Ret im" for im om
      using nested.IH [OF that] by (simp_all add: convert_elements_def convert_sample_def)
    then show ?thesis
      unfolding convert_member_def by (auto intro!: cxx_then_returns bind_cxx_then_returns)
  qed
  have "\<exists>r. convert_loop dd cv False i d out = Some r" for i out
  proof (induction "Suc (unat (dd_member_count dd d)) - unat i" arbitrary: i out rule: less_induct)
    case less
    show ?case
    proof (cases "dd_member_count dd d < i")
      case False
      have "\<exists>r. convert_loop dd cv False (i + 1) d out' = Some r" for out'
        using less u32_counter_Suc [OF False nested.hyps(1)] False by (simp add: word_less_nat_alt)
      then show ?thesis
        by (subst convert_loop_members) (auto intro!: cxx_then_returns bind_cxx_then_returns mem)
    qed (simp add: convert_loop_members)
  qed
  with el show ?case by (cases elements) auto
qed

section \<open>What is copied\<close>

text \<open>
  Member \<open>j\<close> is the same in two samples.  The laws of samples: what is set is
  read, what is put back is loaned again, and values set in a collection are its first elements.  The kind of the
  sample does not change, and no other member does unless the sample is a union, where setting a member selects it.
  The loan of a member is a union only if the member is one.
\<close>

definition same_member :: "('v, 'd) dynamic_data \<Rightarrow> u32 \<Rightarrow> 'd \<Rightarrow> 'd \<Rightarrow> bool" where
  "same_member dd j d d' \<longleftrightarrow>
     dd_loan dd j d' = dd_loan dd j d \<and> dd_element_count dd j d' = dd_element_count dd j d \<and>
     (\<forall>k. dd_value dd k j d' = dd_value dd k j d) \<and> (\<forall>k. dd_values dd k j d' = dd_values dd k j d)"

definition only_member :: "('v, 'd) dynamic_data \<Rightarrow> u32 \<Rightarrow> 'd \<Rightarrow> 'd \<Rightarrow> bool" where
  "only_member dd i d d' \<longleftrightarrow>
     dd_type_kind dd d' = dd_type_kind dd d \<and>
     (dd_type_kind dd d \<noteq> UNION_TYPE \<longrightarrow> (\<forall>j. j \<noteq> i \<longrightarrow> same_member dd j d d'))"

definition dd_laws :: "('v, 'd) dynamic_data \<Rightarrow> bool" where
  "dd_laws dd \<longleftrightarrow>
     (\<forall>i m m0 d. dd_loan dd i d = Ret m0 \<longrightarrow> dd_loan dd i (dd_put dd i m d) = Ret m) \<and>
     (\<forall>i m d. only_member dd i d (dd_put dd i m d)) \<and>
     (\<forall>k i v d d'. dd_set_value dd k i v d = Ret d' \<longrightarrow> dd_value dd k i d' = Ret v \<and> only_member dd i d d') \<and>
     (\<forall>i v d d'. dd_set_ushort dd i v d = Some d' \<longrightarrow> dd_value dd UINT_16_TYPE i d' = Ret v \<and> only_member dd i d d') \<and>
     (\<forall>k i vs d d'. dd_set_values dd k i vs d = Ret d' \<longrightarrow>
        (\<exists>ws. dd_values dd k i d' = Ret (vs @ ws)) \<and> only_member dd i d d') \<and>
     (\<forall>i k m d. dd_member_kind dd i d = Ret k \<longrightarrow> dd_loan dd i d = Ret m \<longrightarrow> dd_type_kind dd m = UNION_TYPE \<longrightarrow> k = UNION_TYPE)"

text \<open>
  An output sample matches an input sample when it is a union only where the input is one, in the samples themselves
  and in all members with the same number that can be loaned from both.  This holds of types with the same members in the
  same order; it may fail of other types that the transformation accepts, with permuted members or with a union for a struct.
\<close>

inductive matching :: "('v, 'd) dynamic_data \<Rightarrow> 'd \<Rightarrow> 'd \<Rightarrow> bool" for dd where
  nested_matching: "(dd_type_kind dd out = UNION_TYPE \<Longrightarrow> dd_type_kind dd input = UNION_TYPE) \<Longrightarrow>
     (\<And>i im om. dd_loan dd i input = Ret im \<Longrightarrow> dd_loan dd i out = Ret om \<Longrightarrow> matching dd im om) \<Longrightarrow>
     matching dd input out"

lemma matching_kind: "matching dd input out \<Longrightarrow> dd_type_kind dd input \<noteq> UNION_TYPE \<Longrightarrow> dd_type_kind dd out \<noteq> UNION_TYPE"
  by (auto elim: matching.cases)

lemma matching_loan: "matching dd input out \<Longrightarrow> dd_loan dd i input = Ret im \<Longrightarrow> dd_loan dd i out = Ret om \<Longrightarrow> matching dd im om"
  by (auto elim: matching.cases)

lemma same_member_refl [simp]: "same_member dd j d d"
  by (simp add: same_member_def)

lemma same_member_trans: "same_member dd j d e \<Longrightarrow> same_member dd j e f \<Longrightarrow> same_member dd j d f"
  by (simp add: same_member_def)

lemma only_member_trans: "only_member dd i d e \<Longrightarrow> only_member dd i e f \<Longrightarrow> only_member dd i d f"
  by (auto simp: only_member_def intro: same_member_trans)

text \<open>
  The copy that is meant, as a relation between the input, the output before and the output after:
  primitive members have the value of the input, structs and unions are copied member by member,
  and collections that fit element by element.  The number of elements of a copied collection
  of integers is the one that the output has before, that of floating-point numbers is not changed.
\<close>

inductive copied :: "('v, 'd) dynamic_data \<Rightarrow> conversion \<Rightarrow> 'd \<Rightarrow> 'd \<Rightarrow> 'd \<Rightarrow> bool"
  and member_copied :: "('v, 'd) dynamic_data \<Rightarrow> conversion \<Rightarrow> u32 \<Rightarrow> 'd \<Rightarrow> 'd \<Rightarrow> 'd \<Rightarrow> bool" for dd cv where
  struct: "dd_type_kind dd input \<noteq> UNION_TYPE \<Longrightarrow>
     (\<And>i. 1 \<le> i \<Longrightarrow> i \<le> dd_member_count dd input \<Longrightarrow> dd_exists dd i input \<Longrightarrow> member_copied dd cv i input out out1) \<Longrightarrow>
     copied dd cv input out out1"
| union: "dd_type_kind dd input = UNION_TYPE \<Longrightarrow> dd_discriminator dd input = Ret m \<Longrightarrow>
     member_copied dd cv m input out out1 \<Longrightarrow> copied dd cv input out out1"
| empty_union: "dd_type_kind dd input = UNION_TYPE \<Longrightarrow>
     dd_member_count dd input = 0 \<or> (\<exists>m. dd_discriminator dd input = Ret m \<and> \<not> dd_exists dd m input) \<Longrightarrow> copied dd cv input out out"
| primitive: "dd_member_kind dd i input = Ret kind \<Longrightarrow> \<not> constructed kind \<Longrightarrow> dd_value dd (copied_kind kind) i input = Ret v \<Longrightarrow>
     dd_value dd (copied_kind kind) i out1 = Ret v \<Longrightarrow> member_copied dd cv i input out out1"
| aggregate: "dd_member_kind dd i input = Ret kind \<Longrightarrow> kind = STRUCTURE_TYPE \<or> kind = UNION_TYPE \<Longrightarrow> dd_loan dd i input = Ret im \<Longrightarrow>
     dd_loan dd i out = Ret om \<Longrightarrow> copied dd cv im om om1 \<Longrightarrow> dd_loan dd i out1 = Ret om1 \<Longrightarrow> member_copied dd cv i input out out1"
| elements: "dd_member_kind dd i input = Ret kind \<Longrightarrow> kind = SEQUENCE_TYPE \<or> kind = ARRAY_TYPE \<Longrightarrow> dd_loan dd i input = Ret im \<Longrightarrow>
     dd_loan dd i out = Ret om \<Longrightarrow> out_capacity dd cv om = Ret capacity \<Longrightarrow> dd_member_count dd im \<le> capacity \<Longrightarrow>
     (\<And>j. 1 \<le> j \<Longrightarrow> j \<le> dd_member_count dd im \<Longrightarrow>
        \<exists>ie oe oe1. dd_loan dd j im = Ret ie \<and> dd_loan dd j om = Ret oe \<and> copied dd cv ie oe oe1 \<and> dd_loan dd j om1 = Ret oe1) \<Longrightarrow>
     dd_loan dd i out1 = Ret om1 \<Longrightarrow> member_copied dd cv i input out out1"
| primitive_elements: "dd_member_kind dd i input = Ret kind \<Longrightarrow> kind = SEQUENCE_TYPE \<or> kind = ARRAY_TYPE \<Longrightarrow> dd_loan dd i input = Ret im \<Longrightarrow>
     dd_loan dd i out = Ret om \<Longrightarrow> out_capacity dd cv om = Ret capacity \<Longrightarrow> dd_member_count dd im \<le> capacity \<Longrightarrow>
     dd_element_kind dd i input = Ret k \<Longrightarrow> dd_values dd (copied_element_kind k) i input = Ret vs \<Longrightarrow> dd_element_count dd i out = Ret n \<Longrightarrow>
     dd_values dd (copied_element_kind k) i out1 =
       Ret ((if k \<in> {FLOAT_32_TYPE, FLOAT_64_TYPE} then vs else resize (unat n) (dd_zero dd (copied_element_kind k)) vs) @ ws) \<Longrightarrow>
     member_copied dd cv i input out out1"

lemma member_copied_frame:
  assumes "member_copied dd cv i input o1 o2" "same_member dd i out o1" "same_member dd i o2 o3"
  shows "member_copied dd cv i input out o3"
  using assms(1)
proof (cases rule: member_copied.cases)
  case (primitive kind v)
  then show ?thesis using assms(3) by (auto simp: same_member_def intro!: copied_member_copied.primitive)
next
  case (aggregate kind im om om1)
  then show ?thesis using assms(2,3) copied_member_copied.aggregate [of dd i input kind im out om cv om1 o3]
    by (auto simp: same_member_def)
next
  case (elements kind im om capacity om1)
  show ?thesis
    by (rule copied_member_copied.elements [OF elements(1-3) _ elements(5-7)]) (use elements assms(2,3) in \<open>auto simp: same_member_def\<close>)
next
  case (primitive_elements kind im om capacity k vs n ws)
  show ?thesis
    by (rule copied_member_copied.primitive_elements [OF primitive_elements(1-3) _ primitive_elements(5-8)])
      (use primitive_elements assms(2,3) in \<open>auto simp: same_member_def\<close>)
qed

lemmas dd_lawsD = dd_laws_def [THEN iffD1, THEN conjunct1, rule_format]
  dd_laws_def [THEN iffD1, THEN conjunct2, THEN conjunct1, rule_format]
  dd_laws_def [THEN iffD1, THEN conjunct2, THEN conjunct2, THEN conjunct1, rule_format]
  dd_laws_def [THEN iffD1, THEN conjunct2, THEN conjunct2, THEN conjunct2, THEN conjunct1, rule_format]
  dd_laws_def [THEN iffD1, THEN conjunct2, THEN conjunct2, THEN conjunct2, THEN conjunct2, THEN conjunct1, rule_format]
  dd_laws_def [THEN iffD1, THEN conjunct2, THEN conjunct2, THEN conjunct2, THEN conjunct2, THEN conjunct2, rule_format]

lemma copy_primitive_member_copied:
  assumes "dd_laws dd" "dd_member_kind dd i input = Ret kind" "\<not> constructed kind" "copy_primitive_member dd input out i = Ret out1"
  shows "member_copied dd cv i input out out1 \<and> only_member dd i out out1"
proof (cases "kind = UINT_16_TYPE")
  case True
  then obtain v where "dd_value dd UINT_16_TYPE i input = Ret v" "dd_set_ushort dd i v out = Some out1"
    using assms by (auto simp: copy_primitive_member_def split: option.splits)
  then show ?thesis
    using dd_lawsD(4) [OF assms(1)] assms(2,3) True
    by (auto intro!: copied_member_copied.primitive [OF assms(2,3)] simp: copied_kind_def)
next
  case False
  then obtain v where "dd_value dd (copied_kind kind) i input = Ret v" "dd_set_value dd (copied_kind kind) i v out = Ret out1"
    using assms by (auto simp: copy_primitive_member_def split: if_splits)
  then show ?thesis
    using dd_lawsD(3) [OF assms(1)] by (auto intro!: copied_member_copied.primitive [OF assms(2,3)])
qed

lemma copy_primitive_elements_values:
  assumes "dd_laws dd" "dd_element_kind dd i input \<noteq> Ret STRING_TYPE" "copy_primitive_elements collection dd input out i n = Ret out1"
  shows "\<exists>k vs ws. dd_element_kind dd i input = Ret k \<and> dd_values dd (copied_element_kind k) i input = Ret vs \<and>
      dd_values dd (copied_element_kind k) i out1 =
        Ret ((if k \<in> {FLOAT_32_TYPE, FLOAT_64_TYPE} then vs else resize (unat n) (dd_zero dd (copied_element_kind k)) vs) @ ws) \<and>
      only_member dd i out out1"
proof -
  obtain k where k: "dd_element_kind dd i input = Ret k" using assms(3) by (auto simp: copy_primitive_elements_def)
  let ?k = "copied_element_kind k"
  show ?thesis
  proof (cases "k \<in> integral_kinds")
    case True
    then obtain vs where "dd_values dd ?k i input = Ret vs" "dd_set_values dd ?k i (resize (unat n) (dd_zero dd ?k) vs) out = Ret out1"
      using assms(3) k unfolding copy_primitive_elements_def Let_def by (auto split: if_splits)
    then show ?thesis using dd_lawsD(5) [OF assms(1)] k True by fastforce
  next
    case False
    then have f: "k \<in> {FLOAT_32_TYPE, FLOAT_64_TYPE}"
      using assms(2,3) k unfolding copy_primitive_elements_def Let_def by (auto split: if_splits)
    then obtain vs out0 where v: "dd_values dd ?k i input = Ret vs"
      and o1: "dd_set_values dd ?k i (resize (unat n) (dd_zero dd ?k) vs) out = Ret out0" "dd_set_values dd ?k i vs out0 = Ret out1"
      using assms(3) k False unfolding copy_primitive_elements_def Let_def by (auto split: if_splits)
    show ?thesis
      using dd_lawsD(5) [OF assms(1) o1(1)] dd_lawsD(5) [OF assms(1) o1(2)] k v f by (fastforce intro: only_member_trans)
  qed
qed

lemma cxx_then_Ret: "cxx_then r f = Some (Ret b) \<longleftrightarrow> (\<exists>a. r = Ret a \<and> f a = Some (Ret b))"
  by (cases r) auto

lemma bind_cxx_then_Ret:
  "Option.bind x (\<lambda>r. cxx_then r f) = Some (Ret b) \<longleftrightarrow> (\<exists>a. x = Some (Ret a) \<and> f a = Some (Ret b))"
  by (cases x) (auto simp: cxx_then_Ret)

text \<open>The counter of a loop: the members below it are done, those from it on are as they were.\<close>

lemma u32_counter_split: "\<not> n < i \<Longrightarrow> n \<noteq> - 1 \<Longrightarrow> (j < i + 1 \<longleftrightarrow> j < i \<or> j = i)" for n i j :: u32
  using u32_counter_Suc [of n i] by (simp add: word_less_nat_alt less_Suc_eq word_unat_eq_iff)

definition element_done :: "('v, 'd) dynamic_data \<Rightarrow> conversion \<Rightarrow> 'd \<Rightarrow> 'd \<Rightarrow> 'd \<Rightarrow> u32 \<Rightarrow> bool" where
  "element_done dd cv im om o1 j \<longleftrightarrow>
     (\<exists>ie oe oe1. dd_loan dd j im = Ret ie \<and> dd_loan dd j om = Ret oe \<and> copied dd cv ie oe oe1 \<and> dd_loan dd j o1 = Ret oe1)"

lemma convert_elements_copied:
  assumes "dd_laws dd" "countable_members dd im"
    and "\<And>j ie oe oe1. dd_loan dd j im = Ret ie \<Longrightarrow> matching dd ie oe \<Longrightarrow> convert_sample dd cv ie oe = Some (Ret oe1) \<Longrightarrow>
           copied dd cv ie oe oe1"
    and "matching dd im om"
    and "convert_loop dd cv True i im o1 = Some (Ret o2)" "1 \<le> i" "dd_type_kind dd o1 \<noteq> UNION_TYPE"
    and "\<And>j. i \<le> j \<Longrightarrow> same_member dd j om o1" "\<And>j. 1 \<le> j \<Longrightarrow> j < i \<Longrightarrow> element_done dd cv im om o1 j"
    and "1 \<le> j" "j \<le> dd_member_count dd im"
  shows "element_done dd cv im om o2 j"
  using assms(5-9)
proof (induction "Suc (unat (dd_member_count dd im)) - unat i" arbitrary: i o1 rule: less_induct)
  case less
  show ?case
  proof (cases "dd_member_count dd im < i")
    case True
    then have "o2 = o1" using less.prems(1) by (simp add: convert_loop_elements)
    then show ?thesis using less.prems(5) [OF assms(10)] assms(11) True by simp
  next
    case False
    obtain ie oe oe1 where e: "dd_loan dd i im = Ret ie" "dd_loan dd i o1 = Ret oe" "convert_sample dd cv ie oe = Some (Ret oe1)"
      and n: "convert_loop dd cv True (i + 1) im (dd_put dd i oe1 o1) = Some (Ret o2)"
      using less.prems(1) False by (subst (asm) convert_loop_elements) (auto simp: cxx_then_Ret bind_cxx_then_Ret)
    let ?o = "dd_put dd i oe1 o1"
    have kind: "dd_type_kind dd ?o \<noteq> UNION_TYPE" and frame: "k \<noteq> i \<Longrightarrow> same_member dd k o1 ?o" for k
      using dd_lawsD(2) [OF assms(1), of i o1 oe1] less.prems(3) by (auto simp: only_member_def)
    have om: "dd_loan dd i om = Ret oe" using less.prems(4) [of i] e(2) by (simp add: same_member_def)
    then have i: "element_done dd cv im om ?o i"
      unfolding element_done_def using e assms(3) [OF e(1) matching_loan [OF assms(4) e(1) om] e(3)] dd_lawsD(1) [OF assms(1) e(2)] by blast
    note s = u32_counter_Suc [OF False assms(2)] u32_counter_split [OF False assms(2)]
    show ?thesis
    proof (rule less.hyps [OF _ n])
      show "Suc (unat (dd_member_count dd im)) - unat (i + 1) < Suc (unat (dd_member_count dd im)) - unat i"
        using s(1) False by (simp add: word_less_nat_alt)
      show "1 \<le> i + 1" using s(1) by (simp add: word_le_nat_alt)
      show "same_member dd k om ?o" if "i + 1 \<le> k" for k
      proof -
        have "k \<noteq> i" "i \<le> k" using that s(1) by (auto simp: word_le_nat_alt)
        then show ?thesis using less.prems(4) [of k] frame [of k] by (blast intro: same_member_trans)
      qed
      show "element_done dd cv im om ?o k" if "1 \<le> k" "k < i + 1" for k
        using less.prems(5) [OF that(1)] frame [of k] i that s(2) [of k] by (auto simp: element_done_def same_member_def)
      show "dd_type_kind dd ?o \<noteq> UNION_TYPE" by (rule kind)
    qed
  qed
qed

text \<open>One member matches; the members that the loop has not reached still do.\<close>

abbreviation member_matching :: "('v, 'd) dynamic_data \<Rightarrow> u32 \<Rightarrow> 'd \<Rightarrow> 'd \<Rightarrow> bool" where
  "member_matching dd m input out \<equiv> \<forall>im om. dd_loan dd m input = Ret im \<longrightarrow> dd_loan dd m out = Ret om \<longrightarrow> matching dd im om"

lemma convert_member_copied:
  assumes "dd_laws dd" "dd_element_kind dd m input \<noteq> Ret STRING_TYPE"
    and "\<And>im. dd_loan dd m input = Ret im \<Longrightarrow> everywhere dd (countable_members dd) im"
    and "\<And>im om om1. dd_loan dd m input = Ret im \<Longrightarrow> matching dd im om \<Longrightarrow> convert_sample dd cv im om = Some (Ret om1) \<Longrightarrow>
           copied dd cv im om om1"
    and "\<And>im j ie oe oe1. dd_loan dd m input = Ret im \<Longrightarrow> dd_loan dd j im = Ret ie \<Longrightarrow> matching dd ie oe \<Longrightarrow>
           convert_sample dd cv ie oe = Some (Ret oe1) \<Longrightarrow> copied dd cv ie oe oe1"
    and "convert_member dd cv m input out = Some (Ret out1)" "member_matching dd m input out"
  shows "member_copied dd cv m input out out1 \<and> only_member dd m out out1"
proof -
  obtain kind where k: "dd_member_kind dd m input = Ret kind" using assms(6) by (auto simp: convert_member_def cxx_then_Ret)
  consider "kind = SEQUENCE_TYPE \<or> kind = ARRAY_TYPE" | "kind = STRUCTURE_TYPE \<or> kind = UNION_TYPE" | "\<not> constructed kind"
    by (auto simp: constructed_def)
  then show ?thesis
  proof cases
    case 1
    obtain im om ek where l: "dd_loan dd m input = Ret im" "dd_loan dd m out = Ret om"
      and c: "check_capacity dd cv im om = Ret ()" and ek: "dd_member_kind dd 1 im = Ret ek"
      and r: "(if constructed ek
           then Option.bind (convert_elements dd cv im om) (\<lambda>r. cxx_then r (\<lambda>om1. Some (Ret (dd_put dd m om1 out))))
           else Some (cxx_bind (dd_element_count dd m out) (\<lambda>n. copy_elements_of cv dd input out m n))) = Some (Ret out1)"
      using assms(6) k 1 unfolding convert_member_def by (force simp: cxx_then_Ret)
    obtain capacity where cap: "out_capacity dd cv om = Ret capacity" "dd_member_count dd im \<le> capacity"
      using c by (auto simp: check_capacity_def throw_if_def split: if_splits)
    show ?thesis
    proof (cases "constructed ek")
      case True
      then obtain om1 where o: "convert_elements dd cv im om = Some (Ret om1)" "out1 = dd_put dd m om1 out"
        using r by (auto simp: bind_cxx_then_Ret)
      have "countable_members dd im" using assms(3) [OF l(1)] by (auto elim: everywhere.cases)
      moreover have "dd_type_kind dd om \<noteq> UNION_TYPE"
        using matching_kind [of dd im om] dd_lawsD(6) [OF assms(1) k l(1)] assms(7) l 1 by auto
      ultimately have "element_done dd cv im om om1 j" if "1 \<le> j" "j \<le> dd_member_count dd im" for j
        using convert_elements_copied [OF assms(1) _ assms(5) [OF l(1)], where i = 1 and ?o1.0 = om and ?o2.0 = om1 and om = om and j = j]
          o(1) that assms(7) l
        by (auto simp: convert_elements_def)
      moreover have "dd_loan dd m out1 = Ret om1" using dd_lawsD(1) [OF assms(1) l(2)] o(2) by simp
      ultimately show ?thesis
        using copied_member_copied.elements [OF k 1 l cap] dd_lawsD(2) [OF assms(1)] o(2) by (auto simp: element_done_def)
    next
      case False
      then obtain n where n: "dd_element_count dd m out = Ret n" "copy_elements_of cv dd input out m n = Ret out1"
        using r by auto
      have "copy_elements_of cv = copy_primitive_elements (case cv of to_array \<Rightarrow> ARRAY_TYPE | to_sequence \<Rightarrow> SEQUENCE_TYPE)"
        by (cases cv) (simp_all add: copy_primitive_array_elements_def copy_primitive_sequence_elements_def)
      then show ?thesis
        using copy_primitive_elements_values [OF assms(1,2)] n copied_member_copied.primitive_elements [OF k 1 l cap] by metis
    qed
  next
    case 2
    then obtain im om om1 where l: "dd_loan dd m input = Ret im" "dd_loan dd m out = Ret om"
      and o: "convert_sample dd cv im om = Some (Ret om1)" "out1 = dd_put dd m om1 out"
      using assms(6) k unfolding convert_member_def by (auto simp: cxx_then_Ret bind_cxx_then_Ret)
    then show ?thesis
      using copied_member_copied.aggregate [OF k 2 l assms(4) [OF l(1) _ o(1)]] assms(7) dd_lawsD(1) [OF assms(1) l(2)] dd_lawsD(2) [OF assms(1)]
      by auto
  next
    case 3
    then have "copy_primitive_member dd input out m = Ret out1"
      using assms(6) k by (auto simp: convert_member_def constructed_def)
    then show ?thesis using copy_primitive_member_copied [OF assms(1) k 3] by blast
  qed
qed

lemma convert_members_copied:
  assumes "dd_laws dd" "countable_members dd input" "dd_type_kind dd input \<noteq> UNION_TYPE"
    and "\<And>m o1 o2. convert_member dd cv m input o1 = Some (Ret o2) \<Longrightarrow> member_matching dd m input o1 \<Longrightarrow>
           member_copied dd cv m input o1 o2 \<and> only_member dd m o1 o2"
    and "matching dd input out"
    and "convert_loop dd cv False i input o1 = Some (Ret o2)" "1 \<le> i" "dd_type_kind dd o1 \<noteq> UNION_TYPE"
    and "\<And>j. i \<le> j \<Longrightarrow> same_member dd j out o1"
    and "\<And>j. 1 \<le> j \<Longrightarrow> j < i \<Longrightarrow> dd_exists dd j input \<Longrightarrow> member_copied dd cv j input out o1"
    and "1 \<le> j" "j \<le> dd_member_count dd input" "dd_exists dd j input"
  shows "member_copied dd cv j input out o2"
  using assms(6-10)
proof (induction "Suc (unat (dd_member_count dd input)) - unat i" arbitrary: i o1 rule: less_induct)
  case less
  show ?case
  proof (cases "dd_member_count dd input < i")
    case True
    then have "o2 = o1" using less.prems(1) by (simp add: convert_loop_members)
    then show ?thesis using less.prems(5) [OF assms(11)] assms(12,13) True by simp
  next
    case False
    obtain o3 where n: "convert_loop dd cv False (i + 1) input o3 = Some (Ret o2)"
      and i: "dd_exists dd i input \<Longrightarrow> member_copied dd cv i input o1 o3" and frame: "only_member dd i o1 o3"
    proof (cases "dd_exists dd i input")
      case True
      then obtain o3 where "convert_member dd cv i input o1 = Some (Ret o3)" "convert_loop dd cv False (i + 1) input o3 = Some (Ret o2)"
        using less.prems(1) False assms(3)
        by (subst (asm) convert_loop_members) (auto simp: member_to_process_def bind_cxx_then_Ret)
      moreover have "member_matching dd i input o1"
        using matching_loan [OF assms(5)] less.prems(4) [of i] by (simp add: same_member_def)
      ultimately show ?thesis using assms(4) that by blast
    next
      case none: False
      then have "convert_loop dd cv False (i + 1) input o1 = Some (Ret o2)"
        using less.prems(1) False assms(3) by (subst (asm) convert_loop_members) (auto simp: member_to_process_def)
      then show ?thesis using none that [of o1] by (simp add: only_member_def)
    qed
    note s = u32_counter_Suc [OF False assms(2)] u32_counter_split [OF False assms(2)]
    show ?thesis
    proof (rule less.hyps [OF _ n])
      show "Suc (unat (dd_member_count dd input)) - unat (i + 1) < Suc (unat (dd_member_count dd input)) - unat i"
        using s(1) False by (simp add: word_less_nat_alt)
      show "1 \<le> i + 1" using s(1) by (simp add: word_le_nat_alt)
      show "same_member dd k out o3" if "i + 1 \<le> k" for k
      proof -
        have "k \<noteq> i" "i \<le> k" using that s(1) by (auto simp: word_le_nat_alt)
        then show ?thesis using less.prems(3) less.prems(4) [of k] frame by (auto simp: only_member_def intro: same_member_trans)
      qed
      show "member_copied dd cv k input out o3" if k: "1 \<le> k" "k < i + 1" "dd_exists dd k input" for k
      proof (cases "k = i")
        case True
        then show ?thesis using member_copied_frame [OF i less.prems(4)] k(3) by simp
      next
        case False
        then have "member_copied dd cv k input out o1" using less.prems(5) k s(2) [of k] by blast
        then show ?thesis
          using member_copied_frame [of dd cv k input out o1 out o3] frame False less.prems(3) by (simp add: only_member_def)
      qed
      show "dd_type_kind dd o3 \<noteq> UNION_TYPE" using frame less.prems(3) by (simp add: only_member_def)
    qed
  qed
qed

text \<open>Of a union only the selected member is converted, in the first turn of the loop.\<close>

lemma convert_union_copied:
  assumes "countable_members dd input" "dd_type_kind dd input = UNION_TYPE"
    and "\<And>m out1. convert_member dd cv m input out = Some (Ret out1) \<Longrightarrow> member_copied dd cv m input out out1"
    and "convert_loop dd cv False i input out = Some (Ret out1)" "i = 1 \<or> (\<exists>m. dd_discriminator dd input = Ret m \<and> \<not> dd_exists dd m input)"
  shows "copied dd cv input out out1"
  using assms(4,5)
proof (induction "Suc (unat (dd_member_count dd input)) - unat i" arbitrary: i rule: less_induct)
  case less
  show ?case
  proof (cases "dd_member_count dd input < i")
    case True
    then have "dd_member_count dd input = 0 \<or> (\<exists>m. dd_discriminator dd input = Ret m \<and> \<not> dd_exists dd m input)"
      using less.prems(2) by (auto simp: word_less_1)
    moreover have "out1 = out" using less.prems(1) True by (simp add: convert_loop_members)
    ultimately show ?thesis using copied_member_copied.empty_union [OF assms(2)] by simp
  next
    case False
    then obtain m where m: "dd_discriminator dd input = Ret m"
      using less.prems(1) assms(2) by (subst (asm) convert_loop_members) (auto simp: member_to_process_def cxx_then_Ret)
    show ?thesis
    proof (cases "dd_exists dd m input")
      case True
      then have "convert_member dd cv m input out = Some (Ret out1)"
        using less.prems(1) False assms(2) m
        by (subst (asm) convert_loop_members) (auto simp: member_to_process_def bind_cxx_then_Ret)
      then show ?thesis using assms(3) copied_member_copied.union [OF assms(2) m] by blast
    next
      case none: False
      then have "convert_loop dd cv False (i + 1) input out = Some (Ret out1)"
        using less.prems(1) False assms(2) m by (subst (asm) convert_loop_members) (auto simp: member_to_process_def)
      then show ?thesis
        using less.hyps [of "i + 1"] m none u32_counter_Suc [OF False assms(1)] False by (auto simp: word_less_nat_alt)
    qed
  qed
qed

abbreviation copyable :: "('v, 'd) dynamic_data \<Rightarrow> 'd \<Rightarrow> bool" where
  "copyable dd d \<equiv> countable_members dd d \<and> (\<forall>i. dd_element_kind dd i d \<noteq> Ret STRING_TYPE)"

lemma everywhere_mono: "everywhere dd P d \<Longrightarrow> (\<And>d. P d \<Longrightarrow> Q d) \<Longrightarrow> everywhere dd Q d"
  by (induction rule: everywhere.induct) (auto intro: everywhere.intros)

lemma convert_sample_copied:
  assumes "dd_laws dd" "everywhere dd (copyable dd) input"
  shows "(\<forall>out out1. matching dd input out \<longrightarrow> convert_sample dd cv input out = Some (Ret out1) \<longrightarrow> copied dd cv input out out1) \<and>
         (\<forall>j e out out1. dd_loan dd j input = Ret e \<longrightarrow> matching dd e out \<longrightarrow> convert_sample dd cv e out = Some (Ret out1) \<longrightarrow>
            copied dd cv e out out1)"
  using assms(2)
proof induction
  case (nested d)
  have m: "member_copied dd cv m d o1 o2 \<and> only_member dd m o1 o2"
    if "convert_member dd cv m d o1 = Some (Ret o2)" "member_matching dd m d o1" for m o1 o2
  proof (rule convert_member_copied [OF assms(1) _ _ _ _ that])
    show "dd_element_kind dd m d \<noteq> Ret STRING_TYPE" using nested.hyps(1) by blast
    show "everywhere dd (countable_members dd) im" if "dd_loan dd m d = Ret im" for im
      by (rule everywhere_mono [OF nested.hyps(2) [OF that]]) blast
    show "copied dd cv im om om1"
      if "dd_loan dd m d = Ret im" "matching dd im om" "convert_sample dd cv im om = Some (Ret om1)" for im om om1
      using nested.IH [OF that(1)] that(2,3) by blast
    show "copied dd cv ie oe oe1"
      if "dd_loan dd m d = Ret im" "dd_loan dd j im = Ret ie" "matching dd ie oe" "convert_sample dd cv ie oe = Some (Ret oe1)" for im j ie oe oe1
      using nested.IH [OF that(1)] that(2-4) by blast
  qed
  have "copied dd cv d out out1" if mt: "matching dd d out" and c: "convert_sample dd cv d out = Some (Ret out1)" for out out1
  proof (cases "dd_type_kind dd d = UNION_TYPE")
    case True
    then show ?thesis
      using convert_union_copied [OF _ True, of cv out 1 out1] m matching_loan [OF mt] nested.hyps(1) c by (simp add: convert_sample_def)
  next
    case False
    have "member_copied dd cv j d out out1" if "1 \<le> j" "j \<le> dd_member_count dd d" "dd_exists dd j d" for j
      by (rule convert_members_copied [OF assms(1) conjunct1 [OF nested.hyps(1)] False m mt c [unfolded convert_sample_def]])
        (use matching_kind [OF mt False] that in simp_all)
    with False show ?thesis by (rule copied_member_copied.struct)
  qed
  then show ?case using nested.IH by blast
qed

lemma convert_sample_returns:
  "everywhere dd (countable_members dd) input \<Longrightarrow> \<exists>r. convert_sample dd cv input out = Some r"
  unfolding convert_sample_def by (rule convert_loop_returns)


section \<open>Refused members\<close>

text \<open>A collection that does not fit is refused before anything of it is written.\<close>

lemma convert_member_too_long:
  assumes "dd_member_kind dd m input = Ret kind" "kind = SEQUENCE_TYPE \<or> kind = ARRAY_TYPE"
    and "dd_loan dd m input = Ret im" "dd_loan dd m out = Ret om" "out_capacity dd cv om = Ret capacity" "capacity < dd_member_count dd im"
  shows "convert_member dd cv m input out = Some (Throw RuntimeError)"
  using assms by (auto simp: convert_member_def check_capacity_def throw_if_def)

text \<open>
  A transformation is created for a sequence on both sides, or an array on both sides.  But samples with a
  primitive collection that has the wrong kind in the output are never converted.
\<close>

lemma convert_member_wrong_collection:
  assumes "dd_member_kind dd m input = Ret kind" "kind = SEQUENCE_TYPE \<or> kind = ARRAY_TYPE"
    and "dd_loan dd m input = Ret im" "dd_member_kind dd 1 im = Ret ek" "\<not> constructed ek"
    and "dd_member_kind dd m out = Ret (case cv of to_array \<Rightarrow> SEQUENCE_TYPE | to_sequence \<Rightarrow> ARRAY_TYPE)"
  shows "convert_member dd cv m input out \<noteq> Some (Ret out1)"
proof
  assume "convert_member dd cv m input out = Some (Ret out1)"
  then obtain n where "copy_elements_of cv dd input out m n = Ret out1"
    using assms by (auto simp: convert_member_def cxx_then_Ret)
  then show False
    using assms(6)
    by (cases cv) (auto simp: copy_primitive_array_elements_def copy_primitive_sequence_elements_def copy_primitive_elements_def throw_if_def)
qed

section \<open>A concrete sample\<close>

text \<open>
  Samples as trees, with collections of primitive elements as leaves.  A union has the number and the value of its selected
  member and the initial values of all members.  A member that is not selected has no value; it can be loaned with its
  initial value, and setting it or returning its loan selects it.
\<close>

datatype dyn =
    D_val TypeKind int
  | D_prims TypeKind TypeKind "int list"
  | D_node TypeKind "dyn list"
  | D_union u32 dyn "dyn list"

fun dyn_kind :: "dyn \<Rightarrow> TypeKind" where
  "dyn_kind (D_val k v) = k"
| "dyn_kind (D_prims c k vs) = c"
| "dyn_kind (D_node k ds) = k"
| "dyn_kind (D_union s d ds) = UNION_TYPE"

fun dyn_count :: "dyn \<Rightarrow> nat" where
  "dyn_count (D_val k v) = 0"
| "dyn_count (D_prims c k vs) = length vs"
| "dyn_count (D_node k ds) = length ds"
| "dyn_count (D_union s d ds) = length ds"

fun child :: "u32 \<Rightarrow> dyn \<Rightarrow> dyn option" where
  "child i (D_node k ds) = (if i \<noteq> 0 \<and> unat i \<le> length ds then Some (ds ! (unat i - 1)) else None)"
| "child i (D_union s d ds) =
     (if i = s then Some d else if i \<noteq> 0 \<and> unat i \<le> length ds then Some (ds ! (unat i - 1)) else None)"
| "child i _ = None"

fun selected :: "u32 \<Rightarrow> dyn \<Rightarrow> bool" where
  "selected i (D_union s d ds) = (i = s)"
| "selected i d = True"

definition present :: "u32 \<Rightarrow> dyn \<Rightarrow> dyn option" where
  "present i d = (if selected i d then child i d else None)"

fun put_child :: "u32 \<Rightarrow> dyn \<Rightarrow> dyn \<Rightarrow> dyn" where
  "put_child i m (D_node k ds) = (if i = 0 then D_node k ds else D_node k (ds[unat i - 1 := m]))"
| "put_child i m (D_union s d ds) = (if child i (D_union s d ds) = None then D_union s d ds else D_union i m ds)"
| "put_child i m d = d"

fun union_selector :: "dyn \<Rightarrow> u32 cxx" where
  "union_selector (D_union s d ds) = Ret s"
| "union_selector d = Throw RuntimeError"

definition set_prims :: "TypeKind \<Rightarrow> int list \<Rightarrow> int list \<Rightarrow> int list option" where
  "set_prims c vs ws =
     (if c = SEQUENCE_TYPE then Some vs
      else if length vs \<le> length ws then Some (vs @ drop (length vs) ws) else None)"

definition dyn_data :: "(int, dyn) dynamic_data" where
  "dyn_data =
     \<lparr>dd_type_kind = dyn_kind,
      dd_member_count = (\<lambda>d. word_of_nat (dyn_count d)),
      dd_discriminator = union_selector,
      dd_exists = (\<lambda>i d. present i d \<noteq> None),
      dd_member_kind = (\<lambda>i d. case d of D_prims c k vs \<Rightarrow> Ret k
         | _ \<Rightarrow> (case child i d of Some m \<Rightarrow> Ret (dyn_kind m) | None \<Rightarrow> Throw RuntimeError)),
      dd_element_kind = (\<lambda>i d. case child i d of Some (D_prims c k vs) \<Rightarrow> Ret k | _ \<Rightarrow> Throw RuntimeError),
      dd_element_count = (\<lambda>i d. case child i d of Some m \<Rightarrow> Ret (word_of_nat (dyn_count m)) | None \<Rightarrow> Throw RuntimeError),
      dd_total_element_count = (\<lambda>d. Ret (word_of_nat (dyn_count d))),
      dd_bounds = (\<lambda>d. Ret 100),
      dd_loan = (\<lambda>i d. case child i d of Some m \<Rightarrow> Ret m | None \<Rightarrow> Throw RuntimeError),
      dd_put = put_child,
      dd_value = (\<lambda>k i d. case present i d of Some (D_val k' v) \<Rightarrow> Ret v | _ \<Rightarrow> Throw RuntimeError),
      dd_set_value = (\<lambda>k i v d. case child i d of Some (D_val k' v') \<Rightarrow> Ret (put_child i (D_val k' v) d) | _ \<Rightarrow> Throw RuntimeError),
      dd_set_ushort = (\<lambda>i v d. case child i d of Some (D_val k' v') \<Rightarrow> Some (put_child i (D_val k' v) d) | _ \<Rightarrow> None),
      dd_values = (\<lambda>k i d. case present i d of Some (D_prims c k' vs) \<Rightarrow> Ret vs | _ \<Rightarrow> Throw RuntimeError),
      dd_set_values = (\<lambda>k i vs d. case child i d of
           Some (D_prims c k' ws) \<Rightarrow>
             (case set_prims c vs ws of Some us \<Rightarrow> Ret (put_child i (D_prims c k' us) d) | None \<Rightarrow> Throw RuntimeError)
         | _ \<Rightarrow> Throw RuntimeError),
      dd_zero = (\<lambda>k. 0)\<rparr>"

lemma child_put: "child i d = Some m0 \<Longrightarrow> child i (put_child i m d) = Some m"
  by (cases d) (auto split: if_splits simp: unat_gt_0 [symmetric])

lemma present_put: "child i d = Some m0 \<Longrightarrow> present i (put_child i m d) = Some m"
  using child_put [of i d m0 m] by (cases d) (auto simp: present_def)

lemma put_child_kind [simp]: "dyn_kind (put_child i m d) = dyn_kind d"
  by (cases d) auto

lemma child_put_other:
  "j \<noteq> i \<Longrightarrow> dyn_kind d \<noteq> UNION_TYPE \<Longrightarrow> child j (put_child i m d) = child j d \<and> present j (put_child i m d) = present j d"
proof (cases d)
  case (D_node k ds)
  assume "j \<noteq> i"
  then have "unat j \<noteq> unat i" by (simp add: word_unat_eq_iff)
  moreover have "j \<noteq> 0 \<Longrightarrow> 0 < unat j" "i \<noteq> 0 \<Longrightarrow> 0 < unat i" by (simp_all add: unat_gt_0)
  ultimately show ?thesis using D_node by (auto simp: nth_list_update present_def)
qed simp_all

fun members_of :: "dyn \<Rightarrow> dyn list" where
  "members_of (D_node k ds) = ds"
| "members_of (D_union s d ds) = d # ds"
| "members_of d = []"

lemma child_in: "child i d = Some m \<Longrightarrow> m \<in> set (members_of d)"
  using unat_gt_0 [of i] by (cases d) (auto split: if_splits intro!: nth_mem)

lemma put_child_only: "only_member dyn_data i d (put_child i m d)"
  by (simp add: only_member_def same_member_def dyn_data_def child_put_other)

lemma dyn_data_laws: "dd_laws dyn_data"
  unfolding dd_laws_def
proof (intro conjI allI impI)
  show "only_member dyn_data i d (dd_put dyn_data i m d)" for i m d
    using put_child_only by (simp add: dyn_data_def)
  show "dd_loan dyn_data i (dd_put dyn_data i m d) = Ret m" if "dd_loan dyn_data i d = Ret m0" for i m m0 d
    using that by (auto simp: dyn_data_def child_put split: option.splits)
  show "k = UNION_TYPE"
    if "dd_member_kind dyn_data i d = Ret k" "dd_loan dyn_data i d = Ret m" "dd_type_kind dyn_data m = UNION_TYPE" for i k m d
    using that by (cases d) (auto simp: dyn_data_def split: option.splits)
next
  fix k i v d d' assume "dd_set_value dyn_data k i v d = Ret d'"
  then obtain c v' where "child i d = Some (D_val c v')" "d' = put_child i (D_val c v) d"
    by (auto simp: dyn_data_def split: option.splits dyn.splits)
  then show "dd_value dyn_data k i d' = Ret v" "only_member dyn_data i d d'"
    using put_child_only present_put by (auto simp: dyn_data_def)
next
  fix i v d d' assume "dd_set_ushort dyn_data i v d = Some d'"
  then obtain c v' where "child i d = Some (D_val c v')" "d' = put_child i (D_val c v) d"
    by (auto simp: dyn_data_def split: option.splits dyn.splits)
  then show "dd_value dyn_data UINT_16_TYPE i d' = Ret v" "only_member dyn_data i d d'"
    using put_child_only present_put by (auto simp: dyn_data_def)
next
  fix k i vs d d' assume "dd_set_values dyn_data k i vs d = Ret d'"
  then obtain c k' ws us where u: "child i d = Some (D_prims c k' ws)" "set_prims c vs ws = Some us" "d' = put_child i (D_prims c k' us) d"
    by (auto simp: dyn_data_def split: option.splits dyn.splits)
  then have "\<exists>xs. us = vs @ xs" by (auto simp: set_prims_def split: if_splits)
  then show "\<exists>ws. dd_values dyn_data k i d' = Ret (vs @ ws)" "only_member dyn_data i d d'"
    using u put_child_only present_put by (auto simp: dyn_data_def)
qed

fun small :: "dyn \<Rightarrow> bool" where
  "small (D_val k v) = True"
| "small (D_prims c k vs) = (k \<noteq> STRING_TYPE \<and> length vs < 2 ^ 32 - 1)"
| "small (D_node k ds) = (length ds < 2 ^ 32 - 1 \<and> list_all small ds)"
| "small (D_union s d ds) = (length ds < 2 ^ 32 - 1 \<and> list_all small (d # ds))"

lemma small_child: "small d \<Longrightarrow> child i d = Some m \<Longrightarrow> small m"
  using child_in [of i d m] by (cases d) (auto simp: list_all_iff simp del: child.simps)

lemma size_child: "child i d = Some m \<Longrightarrow> size m < size d"
  using child_in [of i d m]
  by (cases d) (auto simp del: child.simps simp: le_imp_less_Suc size_list_estimation' trans_le_add1 trans_le_add2 less_Suc_eq_le)

lemma small_copyable: "small d \<Longrightarrow> copyable dyn_data d"
proof -
  assume s: "small d"
  have "dyn_count d < 2 ^ 32 - 1" using s by (cases d) auto
  then have "unat (word_of_nat (dyn_count d) :: u32) < 2 ^ 32 - 1" by (simp add: unat_of_nat)
  moreover have "unat (- 1 :: u32) = 2 ^ 32 - 1" by (simp add: unsigned_minus_1_eq_mask mask_eq_exp_minus_1)
  ultimately have "(word_of_nat (dyn_count d) :: u32) \<noteq> - 1" by auto
  then show ?thesis
    using small_child [OF s] by (fastforce simp: dyn_data_def split: option.splits dyn.splits)
qed

lemma small_everywhere: "small d \<Longrightarrow> everywhere dyn_data (copyable dyn_data) d"
proof (induction d rule: measure_induct_rule [where f = size])
  case (less d)
  show ?case
  proof (rule everywhere.intros)
    show "copyable dyn_data d" using small_copyable [OF less.prems] .
    show "everywhere dyn_data (copyable dyn_data) m" if "dd_loan dyn_data i d = Ret m" for i m
    proof -
      have "child i d = Some m" using that by (auto simp: dyn_data_def split: option.splits)
      then show ?thesis using less.IH size_child small_child [OF less.prems] by blast
    qed
  qed
qed

lemma matching_leaf: "members_of d = [] \<or> members_of e = [] \<Longrightarrow> dyn_kind e \<noteq> UNION_TYPE \<Longrightarrow> matching dyn_data d e"
  by (rule matching.intros) (auto simp: dyn_data_def dest!: child_in split: option.splits)

lemma matching_node:
  assumes "k' \<noteq> UNION_TYPE" "list_all (case_prod (matching dyn_data)) (zip ds es)"
  shows "matching dyn_data (D_node k ds) (D_node k' es)"
proof (rule matching.intros)
  fix i im om assume "dd_loan dyn_data i (D_node k ds) = Ret im" "dd_loan dyn_data i (D_node k' es) = Ret om"
  then have "im = ds ! (unat i - 1)" "om = es ! (unat i - 1)" "i \<noteq> 0" "unat i \<le> length ds" "unat i \<le> length es"
    by (auto simp: dyn_data_def split: if_splits)
  moreover from this have "unat i - 1 < length (zip ds es)" using unat_gt_0 [of i] by auto
  ultimately show "matching dyn_data im om" using assms(2) by (fastforce simp: list_all_length)
qed (use assms in \<open>simp add: dyn_data_def\<close>)

lemma matching_unions:
  assumes "\<forall>a \<in> set (d # ds). \<forall>b \<in> set (e # es). matching dyn_data a b"
  shows "matching dyn_data (D_union s d ds) (D_union t e es)"
proof (rule matching.intros)
  fix i im om assume "dd_loan dyn_data i (D_union s d ds) = Ret im" "dd_loan dyn_data i (D_union t e es) = Ret om"
  then have "im \<in> set (d # ds)" "om \<in> set (e # es)"
    using child_in [of i "D_union s d ds"] child_in [of i "D_union t e es"]
    by (auto simp: dyn_data_def simp del: child.simps split: option.splits)
  then show "matching dyn_data im om" using assms by blast
qed (simp add: dyn_data_def)

text \<open>A sample with a number, a sequence of numbers, a sequence of structs and a union becomes one with arrays.\<close>

definition ex_sample :: dyn where
  "ex_sample = D_node STRUCTURE_TYPE
     [D_val INT_32_TYPE 7, D_prims SEQUENCE_TYPE INT_32_TYPE [1, 2], D_node SEQUENCE_TYPE [D_node STRUCTURE_TYPE [D_val UINT_16_TYPE 5]],
      D_union 2 (D_val INT_16_TYPE 9) [D_val INT_32_TYPE 0, D_val INT_16_TYPE 0]]"

definition ex_new :: dyn where
  "ex_new = D_node STRUCTURE_TYPE
     [D_val INT_32_TYPE 0, D_prims ARRAY_TYPE INT_32_TYPE [0, 0, 0],
      D_node ARRAY_TYPE [D_node STRUCTURE_TYPE [D_val UINT_16_TYPE 0], D_node STRUCTURE_TYPE [D_val UINT_16_TYPE 0]],
      D_union 1 (D_val INT_32_TYPE 0) [D_val INT_32_TYPE 0, D_val INT_16_TYPE 0]]"

definition ex_out :: dyn where
  "ex_out = D_node STRUCTURE_TYPE
     [D_val INT_32_TYPE 7, D_prims ARRAY_TYPE INT_32_TYPE [1, 2, 0],
      D_node ARRAY_TYPE [D_node STRUCTURE_TYPE [D_val UINT_16_TYPE 5], D_node STRUCTURE_TYPE [D_val UINT_16_TYPE 0]],
      D_union 2 (D_val INT_16_TYPE 9) [D_val INT_32_TYPE 0, D_val INT_16_TYPE 0]]"

lemma ex_convert: "convert_sample dyn_data to_array ex_sample ex_new = Some (Ret ex_out)"
  unfolding convert_sample_def ex_sample_def ex_new_def ex_out_def
  by (simp add: convert_loop_members convert_loop_elements convert_member_def convert_elements_def convert_sample_def dyn_data_def
      member_to_process_def check_capacity_def throw_if_def constructed_def copy_primitive_member_def copied_kind_def
      copy_primitive_array_elements_def copy_primitive_elements_def copied_element_kind_def resize_def set_prims_def present_def)

lemma ex_matching: "matching dyn_data ex_sample ex_new"
  unfolding ex_sample_def ex_new_def
  by (auto intro!: matching_node matching_unions; rule matching_leaf; simp)


end
