(* ===== verification/Platform.thy ===== *)
theory Platform
  imports Prelude
begin

text \<open>
  The functions of \<^verbatim>\<open>Infrastructure.c\<close> that call the operating system, on POSIX platforms: threads and the
  creation and deletion of mutexes; and the functions that create status objects.

  What the system and the generated type support return are parameters.  The state counts what a
  call acquires: thread handles on the heap that nobody can free any more, attribute
  objects that are not destroyed, and the threads that have been started, with \<open>True\<close> for a detached one.
\<close>

section \<open>Threads\<close>

record thread_env =
  te_allocate :: bool
  te_attr_init :: bool
  te_set_detached :: bool
  te_create :: bool
  te_attr_destroy :: bool

record os_state =
  os_lost_handles :: nat
  os_live_attrs :: nat
  os_threads :: "bool list"

definition RTI_MQTT_Thread_spawn :: "thread_env \<Rightarrow> bool \<Rightarrow> os_state \<Rightarrow> retcode \<times> bool \<times> os_state" where
  "RTI_MQTT_Thread_spawn env handle_out s =
     (if \<not> te_allocate env then (DDS_RETCODE_ERROR, False, s)
      else
        let s1 = s\<lparr>os_lost_handles := Suc (os_lost_handles s)\<rparr> in
        if \<not> te_attr_init env then (DDS_RETCODE_ERROR, False, s1)
        else
          let s2 = s1\<lparr>os_live_attrs := Suc (os_live_attrs s1)\<rparr> in
          if \<not> handle_out \<and> \<not> te_set_detached env then (DDS_RETCODE_ERROR, False, s2)
          else if \<not> te_create env then (DDS_RETCODE_ERROR, False, s2)
          else
            let s3 = s2\<lparr>os_threads := os_threads s2 @ [\<not> handle_out]\<rparr> in
            if \<not> te_attr_destroy env then (DDS_RETCODE_ERROR, False, s3)
            else
              let s4 = s3\<lparr>os_live_attrs := os_live_attrs s3 - 1\<rparr> in
              if handle_out then (DDS_RETCODE_OK, True, s4\<lparr>os_lost_handles := os_lost_handles s4 - 1\<rparr>)
              else (DDS_RETCODE_OK, False, s4))"

text \<open>\<open>joined\<close> is the outcome of \<^verbatim>\<open>pthread_join\<close>, with the result of the thread; the handle is not freed.\<close>

definition RTI_MQTT_Thread_join :: "'r option \<Rightarrow> bool \<Rightarrow> 'r option \<Rightarrow> os_state \<Rightarrow> retcode \<times> 'r option \<times> os_state" where
  "RTI_MQTT_Thread_join joined want_result result s =
     (case joined of
        None \<Rightarrow> (DDS_RETCODE_ERROR, result, s)
      | Some r \<Rightarrow> (DDS_RETCODE_OK, if want_result then Some r else result, s\<lparr>os_lost_handles := Suc (os_lost_handles s)\<rparr>))"

text \<open>
  A thread is started when spawning succeeds, and also when only the destruction of its attributes
  fails, which is reported as an error.
\<close>

lemma thread_spawn_started:
  "RTI_MQTT_Thread_spawn env handle_out s = (rc, given, s1) \<Longrightarrow>
     os_threads s1 =
       (if te_allocate env \<and> te_attr_init env \<and> (handle_out \<or> te_set_detached env) \<and> te_create env
        then os_threads s @ [\<not> handle_out] else os_threads s) \<and>
     (rc = DDS_RETCODE_OK \<longleftrightarrow>
        te_allocate env \<and> te_attr_init env \<and> (handle_out \<or> te_set_detached env) \<and> te_create env \<and> te_attr_destroy env) \<and>
     (given \<longleftrightarrow> rc = DDS_RETCODE_OK \<and> handle_out)"
  by (auto simp: RTI_MQTT_Thread_spawn_def Let_def split: if_splits)

text \<open>Every detached thread, such as the one that recovers a lost connection, loses its handle; a failed call does too.\<close>

lemma thread_spawn_handles:
  "RTI_MQTT_Thread_spawn env handle_out s = (rc, given, s1) \<Longrightarrow>
     os_lost_handles s1 = os_lost_handles s + (if te_allocate env \<and> \<not> given then 1 else 0)"
  by (auto simp: RTI_MQTT_Thread_spawn_def Let_def split: if_splits)

text \<open>A thread that is spawned and joined leaves its handle on the heap.\<close>

lemma thread_spawn_join_leaks:
  assumes "RTI_MQTT_Thread_spawn env True s = (DDS_RETCODE_OK, given, s1)" "RTI_MQTT_Thread_join (Some r) want result s1 = (rc, r', s2)"
  shows "os_lost_handles s2 = Suc (os_lost_handles s)"
  using assms by (auto simp: RTI_MQTT_Thread_spawn_def RTI_MQTT_Thread_join_def Let_def split: if_splits)

section \<open>Mutexes\<close>

record mutex_env =
  me_attr_init :: bool
  me_settype :: bool
  me_init :: bool

text \<open>The flag \<^verbatim>\<open>attr_initd\<close> is never set, so that the attributes are never destroyed.\<close>

definition RTI_MQTT_Mutex_initialize :: "mutex_env \<Rightarrow> os_state \<Rightarrow> retcode \<times> os_state" where
  "RTI_MQTT_Mutex_initialize env s =
     (if \<not> me_attr_init env then (DDS_RETCODE_ERROR, s)
      else
        let attr_initd = False;
            s1 = s\<lparr>os_live_attrs := Suc (os_live_attrs s)\<rparr>;
            retval = (if me_settype env \<and> me_init env then DDS_RETCODE_OK else DDS_RETCODE_ERROR)
        in (retval, if attr_initd then s1\<lparr>os_live_attrs := os_live_attrs s1 - 1\<rparr> else s1))"

definition RTI_MQTT_Mutex_finalize :: "bool \<Rightarrow> retcode" where
  "RTI_MQTT_Mutex_finalize destroyed = (if destroyed then DDS_RETCODE_OK else DDS_RETCODE_ERROR)"

lemma mutex_initialize_attrs:
  "RTI_MQTT_Mutex_initialize env s = (DDS_RETCODE_OK, s1) \<Longrightarrow> os_live_attrs s1 = Suc (os_live_attrs s)"
  by (auto simp: RTI_MQTT_Mutex_initialize_def Let_def split: if_splits)

section \<open>Status objects\<close>

text \<open>\<open>create\<close> is the generated \<^verbatim>\<open>create_data_w_params\<close>; the pointer that is passed in is only written on success.\<close>

record alloc_params =
  allocate_memory :: bool
  allocate_pointers :: bool
  allocate_optional_members :: bool

definition create_status :: "(alloc_params \<Rightarrow> 'a option) \<Rightarrow> bool \<Rightarrow> 'a option \<Rightarrow> retcode \<times> 'a option" where
  "create_status create allocate_optional state_out =
     (case create \<lparr>allocate_memory = True, allocate_pointers = True, allocate_optional_members = allocate_optional\<rparr> of
        None \<Rightarrow> (DDS_RETCODE_ERROR, state_out)
      | Some state \<Rightarrow> (DDS_RETCODE_OK, Some state))"

definition RTI_MQTT_ClientStatus_new :: "(alloc_params \<Rightarrow> 'a option) \<Rightarrow> bool \<Rightarrow> 'a option \<Rightarrow> retcode \<times> 'a option" where
  "RTI_MQTT_ClientStatus_new create allocate_optional state_out = create_status create allocate_optional state_out"

definition RTI_MQTT_SubscriptionStatus_new :: "(alloc_params \<Rightarrow> 'a option) \<Rightarrow> bool \<Rightarrow> 'a option \<Rightarrow> retcode \<times> 'a option" where
  "RTI_MQTT_SubscriptionStatus_new create allocate_optional state_out = create_status create allocate_optional state_out"

text \<open>Here the argument is not used.\<close>

definition RTI_MQTT_PublicationStatus_new :: "(alloc_params \<Rightarrow> 'a option) \<Rightarrow> bool \<Rightarrow> 'a option \<Rightarrow> retcode \<times> 'a option" where
  "RTI_MQTT_PublicationStatus_new create allocate_optional state_out = create_status create True state_out"

lemma create_status_OK:
  "fst (create_status create allocate_optional state_out) = DDS_RETCODE_OK \<longleftrightarrow>
     (\<exists>state. create \<lparr>allocate_memory = True, allocate_pointers = True, allocate_optional_members = allocate_optional\<rparr> = Some state \<and>
        snd (create_status create allocate_optional state_out) = Some state)"
  by (auto simp: create_status_def split: option.splits)

lemma publication_status_ignores_optional:
  "RTI_MQTT_PublicationStatus_new create allocate_optional state_out = RTI_MQTT_PublicationStatus_new create b state_out"
  by (simp add: RTI_MQTT_PublicationStatus_new_def)

section \<open>Pointers in sequences\<close>

text \<open>
  The functions that the sequences of pointers call for their elements (\<open>None\<close> is the null pointer): a
  sequence does not own what its elements point to.
\<close>

definition RTI_MQTT_MessagePtr_initialize_w_params :: "'p option \<Rightarrow> bool \<times> 'p option" where
  "RTI_MQTT_MessagePtr_initialize_w_params self = (True, None)"

definition RTI_MQTT_MessagePtr_finalize_w_params :: "'p option \<Rightarrow> bool \<times> 'p option" where
  "RTI_MQTT_MessagePtr_finalize_w_params self = (True, None)"

definition RTI_MQTT_MessagePtr_copy :: "'p option \<Rightarrow> 'p option \<Rightarrow> bool \<times> 'p option" where
  "RTI_MQTT_MessagePtr_copy dst src = (True, src)"

definition RTI_MQTT_DDS_DynamicDataPtr_initialize_w_params :: "'p option \<Rightarrow> bool \<times> 'p option" where
  "RTI_MQTT_DDS_DynamicDataPtr_initialize_w_params self = (True, None)"

definition RTI_MQTT_DDS_DynamicDataPtr_finalize_w_params :: "'p option \<Rightarrow> bool \<times> 'p option" where
  "RTI_MQTT_DDS_DynamicDataPtr_finalize_w_params self = (True, None)"

definition RTI_MQTT_DDS_DynamicDataPtr_copy :: "'p option \<Rightarrow> 'p option \<Rightarrow> bool \<times> 'p option" where
  "RTI_MQTT_DDS_DynamicDataPtr_copy dst src = (True, src)"


end
