(* ===== verification/Spec2Isabelle.thy ===== *)
theory Spec2Isabelle
  imports ClientWitnesses BrokerConnection Properties FieldTransformation JsonWitnesses KafkaWitnesses Forwarding
    ModbusWitnesses SequenceConvert Platform
begin

text \<open>
  \<^bold>\<open>A verification library for the RTI Connext Gateway.\<close>

  \<^bold>\<open>The program.\<close>  The gateway is a set of plugins for RTI Routing Service.  Adapters connect it to a
  protocol (MQTT, Kafka, Modbus), transformations convert samples (JSON text, single fields), and
  processors route them.  The largest part is the MQTT adapter: an MQTT client library written in C
  (\<^verbatim>\<open>plugins/adapters/mqtt/srcC/mqtt\<close>) on top of the Paho library, and the Routing Service adapter
  on top of the client.  A broker sends messages to the client; Paho calls the client back; the
  client dispatches each message to the subscriptions whose topic filters match; a subscription
  puts it into its receive queue, from which a stream reader takes it on loan.  In the other
  direction a stream writer hands samples to a publication, which sends them through the client.

  \<^bold>\<open>Theories, in the order of the calls.\<close>
  \<^item> \<open>Prelude\<close>: machine integers, return codes, C strings; the DDS sequence and dynamic data
    libraries as parameters, with the laws the gateway relies on (\<open>seq_laws\<close>, \<open>dyn_laws\<close>).
  \<^item> \<open>Infrastructure\<close>: \<^verbatim>\<open>Infrastructure.c\<close>.  Times, QoS levels, configuration objects and the topic
    filter matcher, which is shown equal to a reference matcher and compared with the MQTT standard.
    \<open>Platform\<close>: its threads and mutexes, with the outcomes of the POSIX calls as parameters.
  \<^item> \<open>MessageQueue\<close>: \<^verbatim>\<open>Message.c\<close>.  Messages as dynamic samples, the circular and the unbounded receive
    queue, loans and counters.  \<open>QueueSpec\<close> is the abstract queue as a locale; \<open>CircularQueue\<close> and
    \<open>UnboundedQueue\<close> hold the invariants and abstraction functions, and the interpretation on the
    code's queue; \<open>QueueTheorems\<close> the properties.
  \<^item> \<open>Requests\<close>: the pending requests of \<^verbatim>\<open>Client.c\<close>, by which a thread waits for a reply of Paho.
  \<^item> \<open>Subscription\<close> and \<open>Publication\<close>: \<^verbatim>\<open>Subscription.c\<close> and \<^verbatim>\<open>Publication.c\<close>.
  \<^item> \<open>Client\<close>: \<^verbatim>\<open>Client.c\<close> and \<^verbatim>\<open>ClientApiPaho.c\<close>, and the functions of \<^verbatim>\<open>Publication.c\<close> that call the client.
    \<open>ClientLemmas\<close> resolves the locks of every operation and proves what it changes and keeps;
    \<open>ClientTheorems\<close> states the contract of an operation as a locale, interprets it on every
    operation, and proves the properties of the client as a system of events; \<open>ClientWitnesses\<close>
    applies them to a concrete client.
  \<^item> \<open>PointerSeq\<close>: finding, adding and removing an element of a sequence of pointers, as the client and
    the plugins do; the contract of such a list of registered objects is the locale \<open>registry\<close>.
  \<^item> \<open>PropertyList\<close> and \<open>CLib\<close>: looking a property up and running a list of such steps; the functions of
    the C library that the plugins use on text (\<^verbatim>\<open>strtol\<close>, \<^verbatim>\<open>strtoul\<close>, \<^verbatim>\<open>snprintf\<close>), with a 64-bit \<^verbatim>\<open>long\<close>.
  \<^item> \<open>Properties\<close>: \<^verbatim>\<open>Properties.c\<close> of the adapter, as it is built with TLS.  Properties become
    configurations; it is shown which configurations can be written as properties, when TLS is on,
    and where a property does not do what its name says.
  \<^item> \<open>Streams\<close>: \<^verbatim>\<open>MessageReader.c\<close> and \<^verbatim>\<open>MessageWriter.c\<close>, the stream readers and writers through which
    Routing Service takes messages from a subscription and writes samples to a publication.
  \<^item> \<open>BrokerConnection\<close>: \<^verbatim>\<open>BrokerConnection.c\<close> and \<^verbatim>\<open>Plugin.c\<close>.  A connection owns a client and the lists
    of its readers and writers, the plugin the list of connections (interpreted as a \<open>registry\<close>).
  \<^item> \<open>Transformation\<close>: \<^verbatim>\<open>common/transformation/srcC\<close>.  The plugin object with its list of
    transformations (interpreted as a \<open>registry\<close>), the transformation object with its read buffer and
    its loan, the loop over the samples of a read, and the template that makes a plugin from a type.
    The mutex of the template is not recursive and is a flag.
  \<^item> \<open>FieldTransformation\<close>: \<^verbatim>\<open>plugins/transformations/field/srcC\<close>, an instance of the template: one
    primitive field as text.
  \<^item> \<open>DynamicDataHelpers\<close>: \<^verbatim>\<open>common/dds_specific/srcC\<close>.  The type of a nested member, and texts in members that
    are sequences; what characters and octets have in common is the locale \<open>element_text\<close>, with an
    interpretation for each.
  \<^item> \<open>JsonTransformation\<close>: \<^verbatim>\<open>plugins/transformations/json/srcC\<close>, the other instance of the template: a sample as
    JSON text.  \<open>JsonWitnesses\<close> applies its theorems to concrete samples.
  \<^item> \<open>Kafka\<close> and \<open>KafkaReader\<close>: \<^verbatim>\<open>plugins/adapters/kafka/srcC\<close>.  Connections and stream writers; stream readers,
    whose polling thread and callers are interleaved steps (\<open>kafka_run\<close>) on a shared state with two
    binary semaphores.  \<open>KafkaWitnesses\<close> applies their theorems to concrete runs.
  \<^item> \<open>Forwarding\<close>: \<^verbatim>\<open>plugins/processors/fwd/srcCxx\<close>, the processor that routes samples by the name of their
    input or the value of a member.  The abstract router is \<open>route_spec\<close>; the contract of the virtual method
    that computes the key is the locale \<open>forwarding_key\<close>, interpreted on both engines.
  \<^item> \<open>Cxx\<close>: what the C++ parts share.  Exceptions as values (\<open>cxx\<close>, with \<open>Undefined\<close> for undefined behaviour), the
    kinds of DDS types, and floating-point numbers as a parameter with the casts of \<^verbatim>\<open>UtilsLongDouble.hpp\<close>.
  \<^item> \<open>ModbusConfig\<close>: \<^verbatim>\<open>plugins/adapters/modbus/srcCxx/ModbusAdapterConfiguration.cxx\<close>.  A configuration element
    (\<open>mace\<close>), its conversion of values to registers and back, the reading of a configuration from JSON
    and its check against a DDS type.  \<open>ModbusTheorems\<close> holds its properties.
  \<^item> \<open>ModbusStreams\<close>: \<^verbatim>\<open>LibModbusClient.cxx\<close>, \<^verbatim>\<open>ModbusStreamReader.cxx\<close>, \<^verbatim>\<open>ModbusStreamWriter.cxx\<close> and \<^verbatim>\<open>ModbusConnection.cxx\<close>,
    with the access to samples of \<^verbatim>\<open>common/dds_specific/srcCxx\<close>.  The threads of a reader and its
    destructor are interleaved steps (\<open>threads_reachable\<close>).  \<open>ModbusWitnesses\<close> applies the theorems to a concrete device.
  \<^item> \<open>Sequence2Array\<close>: the check of types of \<^verbatim>\<open>plugins/transformations/sequence2array/srcCxx\<close>, compared with an
    inductive relation on types.  \<open>SequenceConvert\<close>: its conversion of samples, compared with an inductive
    relation between samples.

  \<^bold>\<open>State and operations.\<close>  A C structure is a record with the fields of the structure; a mutex is its
  depth; indices and counters are words of the width of the C type.  An operation takes its
  environment (the outcomes of the calls into Paho, DDS and the heap), its arguments and the state,
  and returns its return code with the new state.  The result is \<open>None\<close> where the C code
  dereferences a null or dangling pointer, or does not come back.  Ghost fields record effects that
  leave no trace in the structures: samples given back to DDS, live slot objects, listener calls,
  calls to Paho, threads spawned.

  \<^bold>\<open>Loops.\<close>  Loops bounded by a length are structural recursions or have a termination proof by a
  measure.  The loops that may not end are the retry of a failed sample deletion
  (\<open>retry_delete\<close>), the recovery of a lost connection (\<open>reconnect_loop\<close>), the retry of returning a loan
  (\<open>return_messages\<close>), the deletion of the connections of a plugin (\<open>delete_connections\<close>), the two loops
  that enlarge the JSON buffer (\<open>to_json_loop\<close>, \<open>get_string_loop\<close>), the wait for room in the queue of Kafka
  (\<open>produce_retry\<close>), the wait for the end of its polling thread (\<open>join_thread\<close>) and the recursion of the
  conversion of samples (\<open>convert_loop\<close>, which ends unless a sample has the largest 32-bit number of
  members).  They are \<open>partial_function (option)\<close>, and it is proved when they return and, for the others
  that do not always, when they do not.  There is no fuel anywhere.

  \<^bold>\<open>What is shown.\<close>  The circular queue refines a bounded list that drops its oldest message and, as
  long as it does not fill up, is a lossless queue over every history; the unbounded queue is a
  queue when it is read as a whole.  Counters and ownership of messages are accounted for.  The
  client keeps its invariant in every reachable state: locks balanced, requests present, addresses
  distinct, and the parameters stored for the next connection those of the current subscriptions.
  Connecting, recovery, subscribing, dispatching, writing and deletion are characterised by the
  calls made to Paho and the state after them, for replies that come during their waits or not at
  all, and so are the streams and the connections of the
  adapter on top of them.  JSON text that a transformation writes is read back by one for the same
  type, whatever the kind of the member.  A Kafka reader delivers the messages in order, each once,
  in every interleaving of its threads.  The forwarding engines implement the abstract router, with
  or without their cache.  An accepted Modbus configuration is well formed, and one of registers and coils can be
  written back as a JSON tree; integers written to registers are read back within stated limits.  The conversion between sequences
  and arrays copies every member of samples without collections of strings.  Several theorems state faults of the code exactly: a transformation
  that skips a sample loses another one, a field transformation delivers empty payloads, the keep-alive
  properties set another field, a full queue can never be read again, a failed disconnection is
  final, a late reply shifts the results of later requests, the matcher departs from the standard,
  a Kafka writer drops a message that is refused for another reason than a full queue and counts it as written,
  a Kafka reader is stopped for good by a consumer error and cannot be deleted while a message is
  on loan, a forwarding table loses the entries that an earlier pattern matches, a Modbus writer
  writes beyond its registers for a long sequence, the destructor of a Modbus reader can wait for
  ever, and the sequence-to-array transformation accepts types that do not fit.

  \<^bold>\<open>Not modelled.\<close>  The code for Windows, the functions that only delete generated objects, and the examples.  Printing
  floating-point numbers and formats other than the default ones are parameters of the field
  transformation and of the forwarding engine; the JSON formatter of DDS, the JSON parser, type
  codes, \<^verbatim>\<open>REDAString_fnmatch\<close> and \<^verbatim>\<open>librdkafka\<close> are parameters too.  C++ code is assumed not to run out
  of memory.  \<^verbatim>\<open>libmodbus\<close>, floating-point arithmetic and the JSON parser of the Modbus adapter are parameters,
  and the texts of its errors are left out.  Dynamic samples with their loans are a parameter of the
  sequence-to-array transformation.  Logging has no effect on the state.
\<close>

end
